(* ===== verification/Prelude.thy ===== *)
theory Prelude
  imports Main "HOL-Library.Word"
begin

text \<open>
  What every component of the development shares: the outcome of a Rust computation
  (a value, an error value, or a panic), \<^verbatim>\<open>usize\<close> arithmetic at its width, slice
  accesses, little-endian integers, and the automation the component proofs use.

  Conventions. A function of type \<^verbatim>\<open>Result<T, E>\<close> is modelled by a HOL function into
  \<open>('e, 'a) outcome\<close>: \<open>Ok\<close> and \<open>Err\<close> are the two variants of \<^verbatim>\<open>Result\<close>, and \<open>Panic\<close>
  is a panic of the thread (an out-of-range slice index, a failed \<^verbatim>\<open>unwrap\<close>, an
  overflowing arithmetic operation in a build with overflow checks). The \<^verbatim>\<open>?\<close> operator is
  \<open>and_then\<close>. A \<^verbatim>\<open>Vec<u8>\<close> is a \<open>byte list\<close>; its length is a \<open>nat\<close>. The target has
  64-bit \<^verbatim>\<open>usize\<close>; whether \<open>+\<close>, \<open>-\<close> and \<open>*\<close> on it trap or wrap is the
  profile's \<^verbatim>\<open>overflow-checks\<close> setting, the Boolean \<open>chk\<close> below.
\<close>

section \<open>Outcomes\<close>

datatype ('e, 'a) outcome = Ok 'a | Err 'e | Panic

named_theorems outcome_iff \<open>when a sequenced computation has a given outcome\<close>
named_theorems bounds \<open>bounds on what an operation returns\<close>

fun and_then :: "('e, 'a) outcome \<Rightarrow> ('a \<Rightarrow> ('e, 'b) outcome) \<Rightarrow> ('e, 'b) outcome" where
  "and_then (Ok x) f = f x"
| "and_then (Err e) f = Err e"
| "and_then Panic f = Panic"

definition map_ok :: "('a \<Rightarrow> 'b) \<Rightarrow> ('e, 'a) outcome \<Rightarrow> ('e, 'b) outcome" where
  "map_ok f r = and_then r (\<lambda>x. Ok (f x))"

fun map_err :: "('e \<Rightarrow> 'f) \<Rightarrow> ('e, 'a) outcome \<Rightarrow> ('f, 'a) outcome" where
  "map_err f (Ok x) = Ok x"
| "map_err f (Err e) = Err (f e)"
| "map_err f Panic = Panic"

definition ok_or :: "'e \<Rightarrow> 'a option \<Rightarrow> ('e, 'a) outcome" where
  "ok_or e x = (case x of None \<Rightarrow> Err e | Some v \<Rightarrow> Ok v)"

definition bail_if :: "bool \<Rightarrow> 'e \<Rightarrow> ('e, unit) outcome" where
  "bail_if b e = (if b then Err e else Ok ())"

fun is_ok :: "('e, 'a) outcome \<Rightarrow> bool" where
  "is_ok (Ok _) = True"
| "is_ok (Err _) = False"
| "is_ok Panic = False"

lemma and_then_cong [fundef_cong]:
  "r = r' \<Longrightarrow> (\<And>x. r' = Ok x \<Longrightarrow> f x = g x) \<Longrightarrow> and_then r f = and_then r' g"
  by (cases r') auto

lemma and_then_Ok_iff [outcome_iff]:
  "and_then r f = Ok y \<longleftrightarrow> (\<exists>x. r = Ok x \<and> f x = Ok y)"
  by (cases r) auto

lemma and_then_Err_iff [outcome_iff]:
  "and_then r f = Err e \<longleftrightarrow> r = Err e \<or> (\<exists>x. r = Ok x \<and> f x = Err e)"
  by (cases r) auto

lemma and_then_Panic_iff [outcome_iff]:
  "and_then r f = Panic \<longleftrightarrow> r = Panic \<or> (\<exists>x. r = Ok x \<and> f x = Panic)"
  by (cases r) auto

lemma and_then_Ok_right [simp]: "and_then r Ok = r"
  by (cases r) auto

lemma and_then_assoc: "and_then (and_then r f) g = and_then r (\<lambda>x. and_then (f x) g)"
  by (cases r) auto

lemma map_ok_simps [simp]:
  "map_ok f (Ok x) = Ok (f x)"
  "map_ok f (Err e) = Err e"
  "map_ok f Panic = Panic"
  by (simp_all add: map_ok_def)

lemma map_ok_iff [outcome_iff]:
  "map_ok f r = Ok y \<longleftrightarrow> (\<exists>x. r = Ok x \<and> y = f x)"
  "map_ok f r = Err e \<longleftrightarrow> r = Err e"
  "map_ok f r = Panic \<longleftrightarrow> r = Panic"
  by (cases r; auto)+

lemma map_err_iff [outcome_iff]:
  "map_err f r = Ok y \<longleftrightarrow> r = Ok y"
  "map_err f r = Err e \<longleftrightarrow> (\<exists>e'. r = Err e' \<and> e = f e')"
  "map_err f r = Panic \<longleftrightarrow> r = Panic"
  by (cases r; auto)+

lemma ok_or_iff [outcome_iff]:
  "ok_or e x = Ok v \<longleftrightarrow> x = Some v"
  "ok_or e x = Err e' \<longleftrightarrow> x = None \<and> e' = e"
  "ok_or e x \<noteq> Panic"
  by (auto simp: ok_or_def split: option.splits)

lemma ok_or_simps [simp]: "ok_or e None = Err e" "ok_or e (Some v) = Ok v"
  by (simp_all add: ok_or_def)

lemma bail_if_iff [outcome_iff]:
  "bail_if b e = Ok u \<longleftrightarrow> \<not> b"
  "bail_if b e = Err e' \<longleftrightarrow> b \<and> e' = e"
  "bail_if b e \<noteq> Panic"
  by (auto simp: bail_if_def)

lemma bail_if_simps [simp]: "bail_if True e = Err e" "bail_if False e = Ok ()"
  by (simp_all add: bail_if_def)

lemma is_ok_iff: "is_ok r \<longleftrightarrow> (\<exists>x. r = Ok x)"
  by (cases r) auto

section \<open>Machine integers\<close>

type_synonym byte = "8 word"
type_synonym bytes = "byte list"
type_synonym u16 = "16 word"
type_synonym u32 = "32 word"
type_synonym u64 = "64 word"

text \<open>\<^verbatim>\<open>usize\<close> is a \<open>nat\<close> below \<open>usize_bound\<close>; the operations write the wrap-around out.\<close>

definition usize_bound :: nat where
  "usize_bound = 2 ^ 64"

definition add_usize :: "bool \<Rightarrow> nat \<Rightarrow> nat \<Rightarrow> ('e, nat) outcome" where
  "add_usize chk a b =
     (if a + b < usize_bound then Ok (a + b)
      else if chk then Panic else Ok ((a + b) mod usize_bound))"

definition sub_usize :: "bool \<Rightarrow> nat \<Rightarrow> nat \<Rightarrow> ('e, nat) outcome" where
  "sub_usize chk a b =
     (if b \<le> a then Ok (a - b)
      else if chk then Panic else Ok ((a + usize_bound - b) mod usize_bound))"

definition checked_add_usize :: "nat \<Rightarrow> nat \<Rightarrow> nat option" where
  "checked_add_usize a b = (if a + b < usize_bound then Some (a + b) else None)"

definition checked_mul_u64 :: "u64 \<Rightarrow> u64 \<Rightarrow> u64 option" where
  "checked_mul_u64 a b = (if unat a * unat b < 2 ^ 64 then Some (a * b) else None)"

lemma add_usize_small [simp]: "a + b < usize_bound \<Longrightarrow> add_usize chk a b = Ok (a + b)"
  by (simp add: add_usize_def)

lemma sub_usize_ge [simp]: "b \<le> a \<Longrightarrow> sub_usize chk a b = Ok (a - b)"
  by (simp add: sub_usize_def)

lemma add_usize_lt: "add_usize chk a b = Ok c \<Longrightarrow> c < usize_bound"
  by (auto simp: add_usize_def usize_bound_def split: if_splits)

lemma add_usize_no_panic_unchecked [simp]: "add_usize False a b \<noteq> Panic"
  by (simp add: add_usize_def)

lemma unat_u32_usize [bounds]: "unat (w :: u32) < 2 ^ 32"
  using unsigned_less [of w, where 'a = nat] by simp

lemma unat_u64_usize [bounds]: "unat (w :: u64) < usize_bound"
  using unsigned_less [of w, where 'a = nat] by (simp add: usize_bound_def)

lemma unat_u16_usize [bounds]: "unat (w :: u16) < 2 ^ 16"
  using unsigned_less [of w, where 'a = nat] by simp

lemma unat_byte [bounds]: "unat (b :: byte) < 256"
  using unsigned_less [of b, where 'a = nat] by simp

lemma checked_mul_u64_Some:
  "checked_mul_u64 a b = Some c \<Longrightarrow> unat c = unat a * unat b"
  by (auto simp: checked_mul_u64_def unat_word_ariths split: if_splits)

section \<open>Slices\<close>

text \<open>\<^verbatim>\<open>&data[i..j]\<close> panics out of range; \<^verbatim>\<open>data.get(i..j)\<close> is an option; \<^verbatim>\<open>data[i]\<close> panics.\<close>

definition range_ok :: "'a list \<Rightarrow> nat \<Rightarrow> nat \<Rightarrow> bool" where
  "range_ok xs i j \<longleftrightarrow> i \<le> j \<and> j \<le> length xs"

definition slice :: "'a list \<Rightarrow> nat \<Rightarrow> nat \<Rightarrow> ('e, 'a list) outcome" where
  "slice xs i j = (if range_ok xs i j then Ok (take (j - i) (drop i xs)) else Panic)"

definition get_range :: "'a list \<Rightarrow> nat \<Rightarrow> nat \<Rightarrow> 'a list option" where
  "get_range xs i j = (if range_ok xs i j then Some (take (j - i) (drop i xs)) else None)"

definition index :: "'a list \<Rightarrow> nat \<Rightarrow> ('e, 'a) outcome" where
  "index xs i = (if i < length xs then Ok (xs ! i) else Panic)"

lemma slice_iff [outcome_iff]:
  "slice xs i j = Ok ys \<longleftrightarrow> range_ok xs i j \<and> ys = take (j - i) (drop i xs)"
  "slice xs i j = Panic \<longleftrightarrow> \<not> range_ok xs i j"
  "slice xs i j \<noteq> Err e"
  by (auto simp: slice_def)

lemma get_range_iff [outcome_iff]:
  "get_range xs i j = Some ys \<longleftrightarrow> range_ok xs i j \<and> ys = take (j - i) (drop i xs)"
  "get_range xs i j = None \<longleftrightarrow> \<not> range_ok xs i j"
  by (auto simp: get_range_def)

lemma index_iff [outcome_iff]:
  "index xs i = Ok x \<longleftrightarrow> i < length xs \<and> x = xs ! i"
  "index xs i = Panic \<longleftrightarrow> \<not> i < length xs"
  "index xs i \<noteq> Err e"
  by (auto simp: index_def)

lemma range_ok_length: "range_ok xs i j \<Longrightarrow> length (take (j - i) (drop i xs)) = j - i"
  by (auto simp: range_ok_def)

section \<open>Little-endian integers\<close>

fun le_nat :: "bytes \<Rightarrow> nat" where
  "le_nat [] = 0"
| "le_nat (b # bs) = unat b + 256 * le_nat bs"

fun le_bytes :: "nat \<Rightarrow> nat \<Rightarrow> bytes" where
  "le_bytes 0 v = []"
| "le_bytes (Suc n) v = word_of_nat v # le_bytes n (v div 256)"

lemma length_le_bytes [simp]: "length (le_bytes n v) = n"
  by (induction n arbitrary: v) auto

lemma le_nat_append: "le_nat (xs @ ys) = le_nat xs + 256 ^ length xs * le_nat ys"
  by (induction xs) (auto simp: algebra_simps)

lemma le_nat_less: "le_nat bs < 256 ^ length bs"
proof (induction bs)
  case Nil
  then show ?case by simp
next
  case (Cons b bs)
  have "unat b < 256" by (rule bounds)
  with Cons show ?case by simp
qed

lemma le_nat_le_bytes: "le_nat (le_bytes n v) = v mod 256 ^ n"
proof (induction n arbitrary: v)
  case 0
  then show ?case by simp
next
  case (Suc n)
  have "unat (word_of_nat v :: byte) = v mod 256"
    by (simp add: unat_of_nat)
  with Suc show ?case
    by (simp add: mod_mult2_eq)
qed

lemma le_nat_le_bytes_id: "v < 256 ^ n \<Longrightarrow> le_nat (le_bytes n v) = v"
  by (simp add: le_nat_le_bytes)

lemma le_bytes_le_nat: "le_bytes (length bs) (le_nat bs) = bs"
proof (induction bs)
  case Nil
  then show ?case by simp
next
  case (Cons b bs)
  have "(256 :: byte) = 0" by simp
  then have "(word_of_nat (unat b + 256 * le_nat bs) :: byte) = b"
    by (simp only: of_nat_add of_nat_mult of_nat_numeral mult_zero_left add_0_right)
      simp
  moreover have "(unat b + 256 * le_nat bs) div 256 = le_nat bs"
    using bounds(4) [of b] by simp
  ultimately show ?case using Cons by simp
qed

section \<open>Lists\<close>

lemma take_drop_append_left [simp]:
  "length xs = n \<Longrightarrow> take n (xs @ ys) = xs"
  "length xs = n \<Longrightarrow> drop n (xs @ ys) = ys"
  by auto

lemma ex_split_Cons:
  "(\<exists>pre y post. x # xs = pre @ y # post \<and> P pre y post) \<longleftrightarrow>
     P [] x xs \<or> (\<exists>pre y post. xs = pre @ y # post \<and> P (x # pre) y post)"
  by (auto simp: Cons_eq_append_conv)

end
