(* ===== verification/Rust_Std.thy ===== *)
theory Rust_Std
  imports Prelude
begin

text \<open>
  The parts of the Rust standard library the modelled code calls: UTF-8 and UTF-16 decoding
  (\<^verbatim>\<open>String::from_utf8\<close>, \<^verbatim>\<open>from_utf8_lossy\<close>, \<^verbatim>\<open>from_utf16\<close>, \<^verbatim>\<open>from_utf16_lossy\<close>),
  searching and replacing in strings, and the integer formats of \<^verbatim>\<open>format!\<close>.

  A Rust \<^verbatim>\<open>String\<close> is a \<open>string\<close> whose characters are its UTF-8 bytes: \<open>str_of\<close> and
  \<open>bytes_of\<close> are the identity on memory (\<^verbatim>\<open>as_bytes\<close>, \<^verbatim>\<open>from_utf8_unchecked\<close>), and
  \<open>length\<close> is \<^verbatim>\<open>str::len\<close>.
\<close>

section \<open>Strings as bytes\<close>

definition str_of :: "bytes \<Rightarrow> string" where
  "str_of bs = map (\<lambda>b. char_of (unat b)) bs"

definition bytes_of :: "string \<Rightarrow> bytes" where
  "bytes_of s = map (\<lambda>c. word_of_nat (of_char c)) s"

lemma bytes_of_str_of [simp]: "bytes_of (str_of bs) = bs"
proof -
  have "word_of_nat (of_char (char_of (unat b) :: char)) = b" for b :: byte
    using bounds(4) [of b] by (simp add: of_char_of)
  then show ?thesis
    by (simp add: bytes_of_def str_of_def o_def)
qed

lemma str_of_bytes_of [simp]: "str_of (bytes_of s) = s"
proof -
  have "char_of (unat (word_of_nat (of_char c) :: byte)) = c" for c :: char
    by (simp add: unat_of_nat)
  then show ?thesis
    by (simp add: bytes_of_def str_of_def o_def)
qed

lemma length_str_of [simp]: "length (str_of bs) = length bs"
  by (simp add: str_of_def)

lemma length_bytes_of [simp]: "length (bytes_of s) = length s"
  by (simp add: bytes_of_def)

lemma str_of_eq_iff [simp]: "str_of a = str_of b \<longleftrightarrow> a = b"
  by (metis bytes_of_str_of)

lemma bytes_of_eq_iff [simp]: "bytes_of a = bytes_of b \<longleftrightarrow> a = b"
  by (metis str_of_bytes_of)

section \<open>UTF-8\<close>

text \<open>
  \<open>utf8_next bs\<close> looks at the start of a non-empty byte sequence, as the decoder of
  \<^verbatim>\<open>core::str\<close> does: \<open>(True, n)\<close> when the first \<open>n\<close> bytes encode one character,
  \<open>(False, n)\<close> when the first \<open>n\<close> bytes are one maximal invalid part, which the lossy
  conversion replaces by one U+FFFD.
\<close>

definition byte_at :: "bytes \<Rightarrow> nat \<Rightarrow> nat" where
  "byte_at bs i = (if i < length bs then unat (bs ! i) else 0)"

definition is_cont :: "nat \<Rightarrow> bool" where
  "is_cont n \<longleftrightarrow> 128 \<le> n \<and> n < 192"

definition second3_ok :: "nat \<Rightarrow> nat \<Rightarrow> bool" where
  "second3_ok b c \<longleftrightarrow>
     (if b = 224 then 160 \<le> c \<and> c < 192
      else if b = 237 then 128 \<le> c \<and> c < 160
      else is_cont c)"

definition second4_ok :: "nat \<Rightarrow> nat \<Rightarrow> bool" where
  "second4_ok b c \<longleftrightarrow>
     (if b = 240 then 144 \<le> c \<and> c < 192
      else if b = 244 then 128 \<le> c \<and> c < 144
      else is_cont c)"

definition utf8_next :: "bytes \<Rightarrow> bool \<times> nat" where
  "utf8_next bs =
     (let b = byte_at bs 0 in
      if b < 128 then (True, 1)
      else if 194 \<le> b \<and> b < 224 then
        (if is_cont (byte_at bs 1) then (True, 2) else (False, 1))
      else if 224 \<le> b \<and> b < 240 then
        (if \<not> second3_ok b (byte_at bs 1) then (False, 1)
         else if \<not> is_cont (byte_at bs 2) then (False, 2)
         else (True, 3))
      else if 240 \<le> b \<and> b < 245 then
        (if \<not> second4_ok b (byte_at bs 1) then (False, 1)
         else if \<not> is_cont (byte_at bs 2) then (False, 2)
         else if \<not> is_cont (byte_at bs 3) then (False, 3)
         else (True, 4))
      else (False, 1))"

lemma utf8_next_pos: "utf8_next bs = (ok, n) \<Longrightarrow> 0 < n"
  by (auto simp: utf8_next_def Let_def split: if_splits)

lemma utf8_next_valid_le:
  assumes "utf8_next bs = (True, n)" and "bs \<noteq> []"
  shows "n \<le> length bs"
  using assms
  by (cases bs)
    (auto simp: utf8_next_def Let_def byte_at_def is_cont_def second3_ok_def second4_ok_def
      Suc_le_eq split: if_splits)

lemma utf8_next_cong:
  assumes "utf8_next bs = (True, n)" and "\<And>i. i < n \<Longrightarrow> byte_at cs i = byte_at bs i"
  shows "utf8_next cs = (True, n)"
  using assms by (auto simp: utf8_next_def Let_def split: if_splits)

function valid_utf8 :: "bytes \<Rightarrow> bool" where
  "valid_utf8 bs =
     (if bs = [] then True
      else (case utf8_next bs of (ok, n) \<Rightarrow> ok \<and> valid_utf8 (drop n bs)))"
  by pat_completeness auto
termination
  by (relation "measure length") (auto dest: utf8_next_pos [OF sym])

function utf8_lossy :: "bytes \<Rightarrow> bytes" where
  "utf8_lossy bs =
     (if bs = [] then []
      else (case utf8_next bs of (ok, n) \<Rightarrow>
        (if ok then take n bs else [0xEF, 0xBF, 0xBD]) @ utf8_lossy (drop n bs)))"
  by pat_completeness auto
termination
  by (relation "measure length") (auto dest: utf8_next_pos [OF sym])

function utf8_chars :: "bytes \<Rightarrow> bytes list" where
  "utf8_chars bs =
     (if bs = [] then []
      else (case utf8_next bs of (ok, n) \<Rightarrow> take n bs # utf8_chars (drop n bs)))"
  by pat_completeness auto
termination
  by (relation "measure length") (auto dest: utf8_next_pos [OF sym])

declare valid_utf8.simps [simp del] utf8_lossy.simps [simp del] utf8_chars.simps [simp del]

lemma valid_utf8_Nil [simp]: "valid_utf8 []"
  by (simp add: valid_utf8.simps)

lemma utf8_lossy_Nil [simp]: "utf8_lossy [] = []"
  by (simp add: utf8_lossy.simps)

lemma utf8_chars_Nil [simp]: "utf8_chars [] = []"
  by (simp add: utf8_chars.simps)

lemma utf8_next_take_append:
  assumes "utf8_next bs = (True, n)" and "bs \<noteq> []"
  shows "utf8_next (take n bs @ cs) = (True, n)"
proof (rule utf8_next_cong [OF assms(1)])
  fix i assume "i < n"
  moreover have "n \<le> length bs" using assms by (rule utf8_next_valid_le)
  ultimately show "byte_at (take n bs @ cs) i = byte_at bs i"
    by (simp add: byte_at_def nth_append)
qed

lemma valid_utf8_cons_char:
  assumes "utf8_next bs = (True, n)" and "bs \<noteq> []"
  shows "valid_utf8 (take n bs @ cs) = valid_utf8 cs"
proof -
  have n: "0 < n" "n \<le> length bs"
    using utf8_next_pos [OF assms(1)] utf8_next_valid_le [OF assms] by auto
  then have ne: "take n bs @ cs \<noteq> []" using assms(2) by auto
  have dr: "drop n (take n bs @ cs) = cs" using n by simp
  show ?thesis
    unfolding valid_utf8.simps [of "take n bs @ cs"] utf8_next_take_append [OF assms, of cs]
    using ne dr by simp
qed

lemma valid_utf8_replacement: "valid_utf8 ([0xEF, 0xBF, 0xBD] @ cs) = valid_utf8 cs"
proof -
  have "utf8_next [0xEF, 0xBF, 0xBD] = (True, 3)"
    by (simp add: utf8_next_def byte_at_def Let_def second3_ok_def is_cont_def)
  from valid_utf8_cons_char [OF this, of cs] show ?thesis by simp
qed

lemma valid_utf8_lossy: "valid_utf8 (utf8_lossy bs)"
proof (induction bs rule: utf8_lossy.induct)
  case (1 bs)
  show ?case
  proof (cases "bs = []")
    case True
    then show ?thesis by simp
  next
    case False
    obtain ok n where nx: "utf8_next bs = (ok, n)" by fastforce
    have IH: "valid_utf8 (utf8_lossy (drop n bs))" using "1.IH" False nx by simp
    have eq: "utf8_lossy bs =
      (if ok then take n bs else [0xEF, 0xBF, 0xBD]) @ utf8_lossy (drop n bs)"
      using False nx by (subst utf8_lossy.simps) simp
    show ?thesis
    proof (cases ok)
      case True
      then show ?thesis
        using valid_utf8_cons_char [of bs n] nx False IH eq by simp
    next
      case ok_False: False
      then show ?thesis
        using valid_utf8_replacement [of "utf8_lossy (drop n bs)"] IH eq by simp
    qed
  qed
qed

lemma utf8_lossy_id: "valid_utf8 bs \<Longrightarrow> utf8_lossy bs = bs"
proof (induction bs rule: valid_utf8.induct)
  case (1 bs)
  show ?case
  proof (cases "bs = []")
    case True
    then show ?thesis by simp
  next
    case False
    obtain ok n where nx: "utf8_next bs = (ok, n)" by fastforce
    from "1.prems" False nx have "ok \<and> valid_utf8 (drop n bs)"
      by (subst (asm) valid_utf8.simps) simp
    with "1.IH" False nx show ?thesis
      by (subst utf8_lossy.simps) simp
  qed
qed

lemma concat_utf8_chars: "concat (utf8_chars bs) = bs"
proof (induction bs rule: utf8_chars.induct)
  case (1 bs)
  show ?case
  proof (cases "bs = []")
    case True
    then show ?thesis by simp
  next
    case False
    obtain ok n where nx: "utf8_next bs = (ok, n)" by fastforce
    with "1.IH" False show ?thesis
      by (subst utf8_chars.simps) simp
  qed
qed

text \<open>\<^verbatim>\<open>String::from_utf8\<close>, \<^verbatim>\<open>String::from_utf8_lossy\<close>, \<^verbatim>\<open>char::is_control\<close> (general category Cc).\<close>

definition from_utf8 :: "bytes \<Rightarrow> string option" where
  "from_utf8 bs = (if valid_utf8 bs then Some (str_of bs) else None)"

definition from_utf8_lossy :: "bytes \<Rightarrow> string" where
  "from_utf8_lossy bs = str_of (utf8_lossy bs)"

definition is_control :: "bytes \<Rightarrow> bool" where
  "is_control ch \<longleftrightarrow>
     (length ch = 1 \<and> (byte_at ch 0 < 32 \<or> byte_at ch 0 = 127)) \<or>
     (length ch = 2 \<and> byte_at ch 0 = 194 \<and> 128 \<le> byte_at ch 1 \<and> byte_at ch 1 < 160)"

lemma from_utf8_Some_iff: "from_utf8 bs = Some s \<longleftrightarrow> valid_utf8 bs \<and> s = str_of bs"
  by (auto simp: from_utf8_def)

section \<open>UTF-16\<close>

text \<open>\<^verbatim>\<open>char::encode_utf8\<close> of a scalar value, and \<^verbatim>\<open>char::decode_utf16\<close>: \<open>None\<close> is an unpaired surrogate.\<close>

definition utf8_encode :: "nat \<Rightarrow> bytes" where
  "utf8_encode c =
     (if c < 128 then [word_of_nat c]
      else if c < 2048 then [word_of_nat (192 + c div 64), word_of_nat (128 + c mod 64)]
      else if c < 65536 then
        [word_of_nat (224 + c div 4096), word_of_nat (128 + c div 64 mod 64),
         word_of_nat (128 + c mod 64)]
      else
        [word_of_nat (240 + c div 262144), word_of_nat (128 + c div 4096 mod 64),
         word_of_nat (128 + c div 64 mod 64), word_of_nat (128 + c mod 64)])"

fun decode_utf16 :: "nat list \<Rightarrow> nat option list" where
  "decode_utf16 [] = []"
| "decode_utf16 [u] = [if u < 55296 \<or> 57344 \<le> u then Some u else None]"
| "decode_utf16 (u # v # us) =
     (if u < 55296 \<or> 57344 \<le> u then Some u # decode_utf16 (v # us)
      else if 56320 \<le> u then None # decode_utf16 (v # us)
      else if v < 56320 \<or> 57344 \<le> v then None # decode_utf16 (v # us)
      else Some (65536 + (u - 55296) * 1024 + (v - 56320)) # decode_utf16 us)"

definition from_utf16 :: "nat list \<Rightarrow> string option" where
  "from_utf16 us =
     (let cs = decode_utf16 us in
      if None \<in> set cs then None else Some (str_of (concat (map (utf8_encode \<circ> the) cs))))"

definition from_utf16_lossy :: "nat list \<Rightarrow> string" where
  "from_utf16_lossy us =
     str_of (concat (map (\<lambda>c. utf8_encode (case c of None \<Rightarrow> 65533 | Some v \<Rightarrow> v))
       (decode_utf16 us)))"

text \<open>\<^verbatim>\<open>chunks_exact(n)\<close>: the trailing partial chunk is dropped.\<close>

function chunks_exact :: "nat \<Rightarrow> 'a list \<Rightarrow> 'a list list" where
  "chunks_exact n xs =
     (if n = 0 \<or> length xs < n then [] else take n xs # chunks_exact n (drop n xs))"
  by pat_completeness auto
termination
  by (relation "measure (\<lambda>(n, xs). length xs)") auto

declare chunks_exact.simps [simp del]

lemma chunks_exact_length:
  "c \<in> set (chunks_exact n xs) \<Longrightarrow> length c = n"
proof (induction n xs rule: chunks_exact.induct)
  case (1 n xs)
  then show ?case
    by (subst (asm) (2) chunks_exact.simps) (auto split: if_splits)
qed

section \<open>Searching and replacing\<close>

text \<open>\<^verbatim>\<open>iter().position\<close> and \<^verbatim>\<open>str::find\<close> of one byte.\<close>

fun position :: "('a \<Rightarrow> bool) \<Rightarrow> 'a list \<Rightarrow> nat option" where
  "position p [] = None"
| "position p (x # xs) = (if p x then Some 0 else map_option Suc (position p xs))"

lemma position_Some_iff:
  "position p xs = Some i \<longleftrightarrow> i < length xs \<and> p (xs ! i) \<and> (\<forall>j < i. \<not> p (xs ! j))"
proof (induction xs arbitrary: i)
  case Nil
  then show ?case by simp
next
  case (Cons x xs)
  then show ?case
    by (cases i) (auto simp: less_Suc_eq_0_disj)
qed

lemma position_None_iff: "position p xs = None \<longleftrightarrow> (\<forall>x \<in> set xs. \<not> p x)"
  by (induction xs) auto

text \<open>\<^verbatim>\<open>str::replace\<close> of one ASCII character by a string, and \<^verbatim>\<open>trim_end_matches\<close> of one.\<close>

definition replace_char :: "char \<Rightarrow> string \<Rightarrow> string \<Rightarrow> string" where
  "replace_char c r s = concat (map (\<lambda>d. if d = c then r else [d]) s)"

definition trim_end_matches :: "char \<Rightarrow> string \<Rightarrow> string" where
  "trim_end_matches c s = rev (dropWhile (\<lambda>d. d = c) (rev s))"

definition ascii_upper :: "char \<Rightarrow> char" where
  "ascii_upper c =
     (let n = of_char c :: nat in if 97 \<le> n \<and> n \<le> 122 then char_of (n - 32) else c)"

text \<open>\<^verbatim>\<open>str::to_uppercase\<close>, on strings of ASCII characters only.\<close>

definition to_uppercase :: "string \<Rightarrow> string" where
  "to_uppercase s = map ascii_upper s"

text \<open>\<^verbatim>\<open>str::contains\<close>.\<close>

fun str_contains :: "string \<Rightarrow> string \<Rightarrow> bool" where
  "str_contains p [] = (p = [])"
| "str_contains p (c # s) = (take (length p) (c # s) = p \<or> str_contains p s)"

section \<open>Integer formats\<close>

function digits :: "nat \<Rightarrow> nat \<Rightarrow> nat list" where
  "digits base n =
     (if base < 2 \<or> n < base then [n] else digits base (n div base) @ [n mod base])"
  by pat_completeness auto
termination
  by (relation "measure snd") auto

declare digits.simps [simp del]

definition digit_char :: "bool \<Rightarrow> nat \<Rightarrow> char" where
  "digit_char upper d =
     char_of (if d < 10 then 48 + d else (if upper then 55 else 87) + d)"

definition pad0 :: "nat \<Rightarrow> string \<Rightarrow> string" where
  "pad0 w s = replicate (w - length s) CHR ''0'' @ s"

text \<open>\<^verbatim>\<open>{}\<close>, \<^verbatim>\<open>{:x}\<close> and \<^verbatim>\<open>{:X}\<close> padded with zeros to a width.\<close>

definition fmt_dec :: "nat \<Rightarrow> string" where
  "fmt_dec n = map (digit_char False) (digits 10 n)"

definition fmt_hex :: "bool \<Rightarrow> nat \<Rightarrow> nat \<Rightarrow> string" where
  "fmt_hex upper w n = pad0 w (map (digit_char upper) (digits 16 n))"

lemma digits_nonempty [simp]: "digits base n \<noteq> []"
  by (subst digits.simps) auto

lemma digits_less: "2 \<le> base \<Longrightarrow> \<forall>d \<in> set (digits base n). d < base"
proof (induction base n rule: digits.induct)
  case (1 base n)
  then show ?case
    by (subst digits.simps) (auto split: if_splits)
qed

fun value_of :: "nat \<Rightarrow> nat list \<Rightarrow> nat" where
  "value_of base ds = foldl (\<lambda>v d. v * base + d) 0 ds"

lemma value_of_digits: "2 \<le> base \<Longrightarrow> value_of base (digits base n) = n"
proof (induction base n rule: digits.induct)
  case (1 base n)
  show ?case
  proof (cases "n < base")
    case True
    then show ?thesis by (subst digits.simps) simp
  next
    case False
    with "1" have "value_of base (digits base (n div base)) = n div base" by simp
    with False "1.prems" show ?thesis by (subst digits.simps) simp
  qed
qed

lemma inj_digit_char: "a < 16 \<Longrightarrow> b < 16 \<Longrightarrow> digit_char u a = digit_char u b \<Longrightarrow> a = b"
proof -
  assume a: "a < 16" and b: "b < 16" and eq: "digit_char u a = digit_char u b"
  let ?f = "\<lambda>d :: nat. if d < 10 then 48 + d else (if u then 55 else 87) + d"
  have lt: "?f a < 256" "?f b < 256" using a b by auto
  have "of_char (char_of (?f a) :: char) = (of_char (char_of (?f b) :: char) :: nat)"
    using eq by (simp add: digit_char_def)
  then have "?f a = ?f b" using lt by (simp add: of_char_of)
  then show "a = b" using a b by (auto split: if_splits)
qed

lemma fmt_dec_inj: "fmt_dec m = fmt_dec n \<longleftrightarrow> m = n"
proof
  assume eq: "fmt_dec m = fmt_dec n"
  have "inj_on (digit_char False) (set (digits 10 m) \<union> set (digits 10 n))"
  proof (rule inj_onI)
    fix x y
    assume "x \<in> set (digits 10 m) \<union> set (digits 10 n)"
      and "y \<in> set (digits 10 m) \<union> set (digits 10 n)"
      and "digit_char False x = digit_char False y"
    then show "x = y"
      using digits_less [of 10 m] digits_less [of 10 n] inj_digit_char [of x y False] by force
  qed
  then have "digits 10 m = digits 10 n"
    using eq by (simp add: fmt_dec_def inj_on_map_eq_map)
  then show "m = n"
    using value_of_digits [of 10 m] value_of_digits [of 10 n] by simp
qed simp

end
