(* ===== verification/Tcg_Enum.thy ===== *)
theory Tcg_Enum
  imports Rust_Std
begin

text \<open>
  The enumerations of \<^verbatim>\<open>deps/eventlog/src/ccel/tcg_enum.rs\<close>: the TCG algorithm and event
  type numbers, their \<^verbatim>\<open>#[repr(u32)]\<close> discriminants, the conversions from \<^verbatim>\<open>u32\<close>, the digest
  sizes and the choice of an event data parser. The lemmas show that the two numberings are
  injective and that the conversions are their partial inverses.
\<close>

section \<open>Algorithms\<close>

datatype TcgAlgorithm =
    Rsa
  | Tdes
  | Sha1
  | Sha256
  | Sha384
  | Sha512
  | Sm3

fun TcgAlgorithm_repr :: "TcgAlgorithm \<Rightarrow> u32" where
  "TcgAlgorithm_repr Rsa = 0x1"
| "TcgAlgorithm_repr Tdes = 0x3"
| "TcgAlgorithm_repr Sha1 = 0x4"
| "TcgAlgorithm_repr Sha256 = 0xB"
| "TcgAlgorithm_repr Sha384 = 0xC"
| "TcgAlgorithm_repr Sha512 = 0xD"
| "TcgAlgorithm_repr Sm3 = 0x12"

definition TcgAlgorithm_try_from :: "u32 \<Rightarrow> TcgAlgorithm option" where
  "TcgAlgorithm_try_from value =
     (if value = 0x1 then Some Rsa
      else if value = 0x3 then Some Tdes
      else if value = 0x4 then Some Sha1
      else if value = 0xB then Some Sha256
      else if value = 0xC then Some Sha384
      else if value = 0xD then Some Sha512
      else if value = 0x12 then Some Sm3
      else None)"

text \<open>\<^verbatim>\<open>{:?}\<close> of the derived \<^verbatim>\<open>Debug\<close>, as error messages print an algorithm.\<close>

fun TcgAlgorithm_debug :: "TcgAlgorithm \<Rightarrow> string" where
  "TcgAlgorithm_debug Rsa = ''Rsa''"
| "TcgAlgorithm_debug Tdes = ''Tdes''"
| "TcgAlgorithm_debug Sha1 = ''Sha1''"
| "TcgAlgorithm_debug Sha256 = ''Sha256''"
| "TcgAlgorithm_debug Sha384 = ''Sha384''"
| "TcgAlgorithm_debug Sha512 = ''Sha512''"
| "TcgAlgorithm_debug Sm3 = ''Sm3''"

definition get_digest_size :: "TcgAlgorithm \<Rightarrow> (string, nat) outcome" where
  "get_digest_size alg =
     (case alg of
        Sha1 \<Rightarrow> Ok 20
      | Sha256 \<Rightarrow> Ok 32
      | Sha384 \<Rightarrow> Ok 48
      | Sha512 \<Rightarrow> Ok 64
      | Sm3 \<Rightarrow> Ok 32
      | _ \<Rightarrow> Err (''Failed to get digest size for unsupported algorithm: '' @ TcgAlgorithm_debug alg))"

section \<open>Event types\<close>

datatype TcgEventType =
    EvPrebootCert
  | EvPostCode
  | EvUnused
  | EvNoAction
  | EvSeparator
  | EvAction
  | EvEventTag
  | EvSCrtmContents
  | EvSCrtmVersion
  | EvCpuMicrocode
  | EvPlatformConfigFlags
  | EvTableOfDevices
  | EvCompactHash
  | EvIpl
  | EvIplPartitionData
  | EvNonhostCode
  | EvNonhostConfig
  | EvNonhostInfo
  | EvOmitBootDeviceEvents
  | EvEfiEventBase
  | EvEfiVariableDriverConfig
  | EvEfiVariableBoot
  | EvEfiBootServicesApplication
  | EvEfiBootServicesDriver
  | EvEfiRuntimeServicesDriver
  | EvEfiGptEvent
  | EvEfiAction
  | EvEfiPlatformFirmwareBlob
  | EvEfiHandoffTables
  | EvEfiPlatformFirmwareBlob2
  | EvEfiHandoffTables2
  | EvEfiVariableBoot2
  | EvEfiHcrtmEvent
  | EvEfiVariableAuthority
  | EvEfiSpdmFirmwareBlob
  | EvEfiSpdmFirmwareConfig

fun TcgEventType_repr :: "TcgEventType \<Rightarrow> u32" where
  "TcgEventType_repr EvPrebootCert = 0"
| "TcgEventType_repr EvPostCode = 0x1"
| "TcgEventType_repr EvUnused = 0x2"
| "TcgEventType_repr EvNoAction = 0x3"
| "TcgEventType_repr EvSeparator = 0x4"
| "TcgEventType_repr EvAction = 0x5"
| "TcgEventType_repr EvEventTag = 0x6"
| "TcgEventType_repr EvSCrtmContents = 0x7"
| "TcgEventType_repr EvSCrtmVersion = 0x8"
| "TcgEventType_repr EvCpuMicrocode = 0x9"
| "TcgEventType_repr EvPlatformConfigFlags = 0xA"
| "TcgEventType_repr EvTableOfDevices = 0xB"
| "TcgEventType_repr EvCompactHash = 0xC"
| "TcgEventType_repr EvIpl = 0xD"
| "TcgEventType_repr EvIplPartitionData = 0xE"
| "TcgEventType_repr EvNonhostCode = 0xF"
| "TcgEventType_repr EvNonhostConfig = 0x10"
| "TcgEventType_repr EvNonhostInfo = 0x11"
| "TcgEventType_repr EvOmitBootDeviceEvents = 0x12"
| "TcgEventType_repr EvEfiEventBase = 0x80000000"
| "TcgEventType_repr EvEfiVariableDriverConfig = 0x80000001"
| "TcgEventType_repr EvEfiVariableBoot = 0x80000002"
| "TcgEventType_repr EvEfiBootServicesApplication = 0x80000003"
| "TcgEventType_repr EvEfiBootServicesDriver = 0x80000004"
| "TcgEventType_repr EvEfiRuntimeServicesDriver = 0x80000005"
| "TcgEventType_repr EvEfiGptEvent = 0x80000006"
| "TcgEventType_repr EvEfiAction = 0x80000007"
| "TcgEventType_repr EvEfiPlatformFirmwareBlob = 0x80000008"
| "TcgEventType_repr EvEfiHandoffTables = 0x80000009"
| "TcgEventType_repr EvEfiPlatformFirmwareBlob2 = 0x8000000A"
| "TcgEventType_repr EvEfiHandoffTables2 = 0x8000000B"
| "TcgEventType_repr EvEfiVariableBoot2 = 0x8000000C"
| "TcgEventType_repr EvEfiHcrtmEvent = 0x80000010"
| "TcgEventType_repr EvEfiVariableAuthority = 0x800000E0"
| "TcgEventType_repr EvEfiSpdmFirmwareBlob = 0x800000E1"
| "TcgEventType_repr EvEfiSpdmFirmwareConfig = 0x800000E2"

definition TcgEventType_try_from :: "u32 \<Rightarrow> TcgEventType option" where
  "TcgEventType_try_from value =
     (if value = 0 then Some EvPrebootCert
      else if value = 0x1 then Some EvPostCode
      else if value = 0x2 then Some EvUnused
      else if value = 0x3 then Some EvNoAction
      else if value = 0x4 then Some EvSeparator
      else if value = 0x5 then Some EvAction
      else if value = 0x6 then Some EvEventTag
      else if value = 0x7 then Some EvSCrtmContents
      else if value = 0x8 then Some EvSCrtmVersion
      else if value = 0x9 then Some EvCpuMicrocode
      else if value = 0xA then Some EvPlatformConfigFlags
      else if value = 0xB then Some EvTableOfDevices
      else if value = 0xC then Some EvCompactHash
      else if value = 0xD then Some EvIpl
      else if value = 0xE then Some EvIplPartitionData
      else if value = 0xF then Some EvNonhostCode
      else if value = 0x10 then Some EvNonhostConfig
      else if value = 0x11 then Some EvNonhostInfo
      else if value = 0x12 then Some EvOmitBootDeviceEvents
      else if value = 0x80000000 then Some EvEfiEventBase
      else if value = 0x80000001 then Some EvEfiVariableDriverConfig
      else if value = 0x80000002 then Some EvEfiVariableBoot
      else if value = 0x80000003 then Some EvEfiBootServicesApplication
      else if value = 0x80000004 then Some EvEfiBootServicesDriver
      else if value = 0x80000005 then Some EvEfiRuntimeServicesDriver
      else if value = 0x80000006 then Some EvEfiGptEvent
      else if value = 0x80000007 then Some EvEfiAction
      else if value = 0x80000008 then Some EvEfiPlatformFirmwareBlob
      else if value = 0x80000009 then Some EvEfiHandoffTables
      else if value = 0x8000000A then Some EvEfiPlatformFirmwareBlob2
      else if value = 0x8000000B then Some EvEfiHandoffTables2
      else if value = 0x8000000C then Some EvEfiVariableBoot2
      else if value = 0x80000010 then Some EvEfiHcrtmEvent
      else if value = 0x800000E0 then Some EvEfiVariableAuthority
      else if value = 0x800000E1 then Some EvEfiSpdmFirmwareBlob
      else if value = 0x800000E2 then Some EvEfiSpdmFirmwareConfig
      else None)"

text \<open>The parsers \<^verbatim>\<open>get_parser\<close> boxes; \<^verbatim>\<open>Event_Data\<close> gives each its \<^verbatim>\<open>parse\<close>.\<close>

datatype event_data_parser =
    EvSimpleParser
  | EvBlankParser
  | EvEventTagParser
  | EvPlatformConfigFlagsParser
  | EvIplParser
  | EvEfiVariableParser
  | EvBootServicesAppParser
  | SimpleStringParser

fun get_parser :: "TcgEventType \<Rightarrow> event_data_parser" where
  "get_parser EvPostCode = EvSimpleParser"
| "get_parser EvSeparator = EvBlankParser"
| "get_parser EvAction = EvSimpleParser"
| "get_parser EvEventTag = EvEventTagParser"
| "get_parser EvPlatformConfigFlags = EvPlatformConfigFlagsParser"
| "get_parser EvCompactHash = EvSimpleParser"
| "get_parser EvIpl = EvIplParser"
| "get_parser EvOmitBootDeviceEvents = EvSimpleParser"
| "get_parser EvEfiVariableDriverConfig = EvEfiVariableParser"
| "get_parser EvEfiVariableBoot = EvEfiVariableParser"
| "get_parser EvEfiBootServicesApplication = EvBootServicesAppParser"
| "get_parser EvEfiAction = EvSimpleParser"
| "get_parser EvEfiPlatformFirmwareBlob2 = SimpleStringParser"
| "get_parser EvEfiHandoffTables2 = SimpleStringParser"
| "get_parser EvEfiVariableBoot2 = EvEfiVariableParser"
| "get_parser EvEfiVariableAuthority = EvEfiVariableParser"
| "get_parser _ = EvBlankParser"

section \<open>The conversions invert the numberings\<close>

lemma TcgAlgorithm_try_from_repr [simp]: "TcgAlgorithm_try_from (TcgAlgorithm_repr a) = Some a"
  by (cases a) (simp_all add: TcgAlgorithm_try_from_def)

lemma TcgAlgorithm_repr_of_try_from:
  "TcgAlgorithm_try_from v = Some a \<Longrightarrow> TcgAlgorithm_repr a = v"
  by (auto simp: TcgAlgorithm_try_from_def split: if_splits)

lemma TcgEventType_try_from_repr [simp]: "TcgEventType_try_from (TcgEventType_repr t) = Some t"
  by (cases t) (simp_all add: TcgEventType_try_from_def)

lemma TcgEventType_repr_of_try_from:
  "TcgEventType_try_from v = Some t \<Longrightarrow> TcgEventType_repr t = v"
  by (auto simp: TcgEventType_try_from_def split: if_splits)

lemma get_digest_size_pos [bounds]: "get_digest_size a = Ok n \<Longrightarrow> 20 \<le> n \<and> n \<le> 64"
  by (auto simp: get_digest_size_def split: TcgAlgorithm.splits)

lemma get_digest_size_no_panic [simp]: "get_digest_size a \<noteq> Panic"
  by (simp add: get_digest_size_def split: TcgAlgorithm.splits)

end
