(* ===== verification/Crates.thy ===== *)
theory Crates
  imports Rust_Std
begin

text \<open>
  The third-party packages the event log library calls, as a record of functions: the model takes
  one as an argument and never looks inside. \<open>scroll_le\<close>, \<open>byteorder_le\<close>, \<open>digest_lengths\<close>
  and \<open>hex_faithful\<close> are the documented behaviour the properties rest on; \<open>reference_crates\<close> is a
  concrete instance that has all of them, used by the witnesses.

  JSON documents are \<open>json\<close> values, with the constructors of \<^verbatim>\<open>serde_json::Value\<close>.
\<close>

datatype json =
    JNull
  | JBool bool
  | JNumber int
  | JFloat string
  | JString string
  | JArray "json list"
  | JObject "(string \<times> json) list"

record crates =
  sha256 :: "bytes \<Rightarrow> bytes"
  sha384 :: "bytes \<Rightarrow> bytes"
  sha512 :: "bytes \<Rightarrow> bytes"
  sm3 :: "bytes \<Rightarrow> bytes"
  hex_encode :: "bytes \<Rightarrow> string"
  base64_encode :: "bytes \<Rightarrow> string"
  pread :: "nat \<Rightarrow> bytes \<Rightarrow> nat \<Rightarrow> nat option"
  read_u16 :: "bytes \<Rightarrow> nat"
  json_from_str :: "string \<Rightarrow> json option"

section \<open>Documented behaviour\<close>

text \<open>
  \<^verbatim>\<open>scroll\<close>: reading an \<open>n\<close>-byte integer with context \<^verbatim>\<open>LE\<close> at offset \<open>i\<close> gives its
  little-endian value, and fails when the slice has no \<open>n\<close> bytes there.
\<close>

definition scroll_le :: "crates \<Rightarrow> bool" where
  "scroll_le E \<longleftrightarrow>
     (\<forall>n xs i. pread E n xs i =
        (if i + n \<le> length xs then Some (le_nat (take n (drop i xs))) else None))"

definition byteorder_le :: "crates \<Rightarrow> bool" where
  "byteorder_le E \<longleftrightarrow> (\<forall>bs. length bs = 2 \<longrightarrow> read_u16 E bs = le_nat bs)"

text \<open>\<^verbatim>\<open>sha2\<close> and \<^verbatim>\<open>sm3\<close>: the output length of each hash function.\<close>

definition digest_lengths :: "crates \<Rightarrow> bool" where
  "digest_lengths E \<longleftrightarrow>
     (\<forall>m. length (sha256 E m) = 32 \<and> length (sha384 E m) = 48 \<and>
          length (sha512 E m) = 64 \<and> length (sm3 E m) = 32)"

text \<open>\<^verbatim>\<open>hex::encode\<close>: two lower-case digits per byte, high nibble first.\<close>

definition hex_of :: "bytes \<Rightarrow> string" where
  "hex_of bs =
     concat (map (\<lambda>b. [digit_char False (unat b div 16), digit_char False (unat b mod 16)]) bs)"

definition hex_faithful :: "crates \<Rightarrow> bool" where
  "hex_faithful E \<longleftrightarrow> (\<forall>bs. hex_encode E bs = hex_of bs)"

lemma byte_nibbles:
  "unat a div 16 = unat b div 16 \<Longrightarrow> unat a mod 16 = unat b mod 16 \<Longrightarrow> a = (b :: byte)"
  by (metis div_mult_mod_eq word_unat_eq_iff)

lemma hex_of_inj: "hex_of xs = hex_of ys \<longleftrightarrow> xs = ys"
proof
  show "hex_of xs = hex_of ys \<Longrightarrow> xs = ys"
  proof (induction xs arbitrary: ys)
    case Nil
    then show ?case by (cases ys) (simp_all add: hex_of_def)
  next
    case (Cons x xs)
    then obtain y zs where ys: "ys = y # zs" by (cases ys) (simp_all add: hex_of_def)
    have lt: "unat x div 16 < 16" "unat y div 16 < 16" "unat x mod 16 < 16" "unat y mod 16 < 16"
      using bounds(4) [of x] bounds(4) [of y] by simp_all
    have eq: "digit_char False (unat x div 16) = digit_char False (unat y div 16)"
      "digit_char False (unat x mod 16) = digit_char False (unat y mod 16)" "hex_of xs = hex_of zs"
      using Cons.prems by (simp_all add: ys hex_of_def)
    have "x = y"
      using inj_digit_char [OF lt(1,2) eq(1)] inj_digit_char [OF lt(3,4) eq(2)]
      by (rule byte_nibbles)
    then show ?case using Cons.IH [OF eq(3)] ys by simp
  qed
qed simp

definition collision :: "(bytes \<Rightarrow> bytes) \<Rightarrow> bool" where
  "collision h \<longleftrightarrow> (\<exists>x y. x \<noteq> y \<and> h x = h y)"

section \<open>Reading with a cursor\<close>

text \<open>
  \<^verbatim>\<open>data.gread_with::<T>(&mut index, LE)\<close>: the value and the advanced cursor, or the error
  the caller maps the failure to.
\<close>

definition gread :: "crates \<Rightarrow> nat \<Rightarrow> bytes \<Rightarrow> nat \<Rightarrow> 'e \<Rightarrow> ('e, nat \<times> nat) outcome" where
  "gread E n data i e =
     (case pread E n data i of None \<Rightarrow> Err e | Some v \<Rightarrow> Ok (v, i + n))"

lemma gread_no_panic [simp]: "gread E n data i e \<noteq> Panic"
  by (simp add: gread_def split: option.splits)

lemma gread_Ok_iff [outcome_iff]:
  "gread E n data i e = Ok (v, j) \<longleftrightarrow> pread E n data i = Some v \<and> j = i + n"
  by (auto simp: gread_def split: option.splits)

lemma gread_Err_iff [outcome_iff]:
  "gread E n data i e = Err e' \<longleftrightarrow> pread E n data i = None \<and> e' = e"
  by (auto simp: gread_def split: option.splits)

lemma pread_Some_iff:
  "scroll_le E \<Longrightarrow>
     pread E n xs i = Some v \<longleftrightarrow> i + n \<le> length xs \<and> v = le_nat (take n (drop i xs))"
  by (auto simp: scroll_le_def)

lemma pread_None_iff: "scroll_le E \<Longrightarrow> pread E n xs i = None \<longleftrightarrow> length xs < i + n"
  by (auto simp: scroll_le_def)

lemma pread_less: "scroll_le E \<Longrightarrow> pread E n xs i = Some v \<Longrightarrow> v < 256 ^ n"
  using le_nat_less [of "take n (drop i xs)"] by (auto simp: pread_Some_iff)

lemma gread_le:
  "scroll_le E \<Longrightarrow> gread E n xs i e =
     (if i + n \<le> length xs then Ok (le_nat (take n (drop i xs)), i + n) else Err e)"
  by (simp add: gread_def scroll_le_def)

section \<open>A concrete instance\<close>

text \<open>
  The hash functions of the instance pad or truncate a checksum; they stand for no real hash,
  only for functions with the documented output lengths.
\<close>

definition toy_hash :: "nat \<Rightarrow> bytes \<Rightarrow> bytes" where
  "toy_hash n m = take n (rev m @ replicate n 0)"

definition reference_crates :: crates where
  "reference_crates =
     \<lparr>sha256 = toy_hash 32, sha384 = toy_hash 48, sha512 = toy_hash 64, sm3 = toy_hash 32,
      hex_encode = hex_of, base64_encode = hex_of,
      pread = (\<lambda>n xs i. if i + n \<le> length xs then Some (le_nat (take n (drop i xs))) else None),
      read_u16 = le_nat, json_from_str = (\<lambda>_. None)\<rparr>"

lemma reference_crates_ok [simp]:
  "scroll_le reference_crates" "byteorder_le reference_crates"
  "digest_lengths reference_crates" "hex_faithful reference_crates"
  by (auto simp: scroll_le_def byteorder_le_def digest_lengths_def hex_faithful_def
      reference_crates_def toy_hash_def)

end
