(* ===== verification/Device_Paths.thy ===== *)
theory Device_Paths
  imports Crates
begin

unbundle bit_operations_syntax

text \<open>
  The UEFI device path printers of \<^verbatim>\<open>deps/eventlog/src/ccel/device_paths/\<close>, one definition per
  \<^verbatim>\<open>DeviceSubTypeParser\<close> and one per \<^verbatim>\<open>DevicePathParser\<close>, and \<^verbatim>\<open>DevicePath::parse\<close>, which
  chooses among them. The lemmas say when a printer reads its node and when it panics: only the
  hard drive node of exactly 37 bytes does.
\<close>

section \<open>Hardware nodes\<close>

datatype HardwareSubType = HardwareSubType_Pci

definition unknown_subtype :: "string \<Rightarrow> byte \<Rightarrow> string" where
  "unknown_subtype kind b = ''Unknown '' @ kind @ '' subtype: 0x'' @ fmt_hex False 2 (unat b)"

definition HardwareSubType_from_u8 :: "byte \<Rightarrow> (string, HardwareSubType) outcome" where
  "HardwareSubType_from_u8 sub_type =
     (if sub_type = 0x01 then Ok HardwareSubType_Pci
      else Err (unknown_subtype ''Hardware'' sub_type))"

definition PciParser_parse :: "bytes \<Rightarrow> (string, string) outcome" where
  "PciParser_parse data =
     (if length data < 2 then Err ''PCI data is too short''
      else and_then (index data 0) (\<lambda>func_num.
           and_then (index data 1) (\<lambda>device_num.
             Ok (''Pci('' @ fmt_dec (unat func_num) @ '','' @ fmt_dec (unat device_num) @ '')''))))"

fun HardwareSubType_parse :: "HardwareSubType \<Rightarrow> bytes \<Rightarrow> (string, string) outcome" where
  "HardwareSubType_parse HardwareSubType_Pci data = PciParser_parse data"

definition HardwareParser_parse :: "byte \<Rightarrow> bytes \<Rightarrow> (string, string) outcome" where
  "HardwareParser_parse sub_type data =
     and_then (HardwareSubType_from_u8 sub_type) (\<lambda>path. HardwareSubType_parse path data)"

section \<open>ACPI nodes\<close>

datatype AcpiSubType = AcpiSubType_Acpi

definition AcpiSubType_from_u8 :: "byte \<Rightarrow> (string, AcpiSubType) outcome" where
  "AcpiSubType_from_u8 sub_type =
     (if sub_type = 0x01 then Ok AcpiSubType_Acpi
      else Err (unknown_subtype ''ACPI'' sub_type))"

text \<open>A five-bit letter of the compressed EISA vendor code: \<^verbatim>\<open>(x & 0x1F) as u8 + b'@'\<close>.\<close>

definition eisa_letter :: "u32 \<Rightarrow> char" where
  "eisa_letter x = char_of (unat ((ucast (x AND 0x1F) :: byte) + 64))"

definition AcpiSubTypeParser_parse :: "crates \<Rightarrow> bytes \<Rightarrow> (string, string) outcome" where
  "AcpiSubTypeParser_parse E data =
     (if length data < 8 then Err ''ACPI sub type data length must be at least 8 bytes''
      else and_then (gread E 4 data 0 ''Failed to read hid'') (\<lambda>(h, i).
           and_then (gread E 4 data i ''Failed to read uid'') (\<lambda>(uid, _).
             let hid = (word_of_nat h :: u32);
                 vendor = hid AND 0xFFFF;
                 vendor1 = eisa_letter (drop_bit 10 vendor);
                 vendor2 = eisa_letter (drop_bit 5 vendor);
                 vendor3 = eisa_letter vendor;
                 device = drop_bit 16 hid;
                 hid_formatted = [vendor1, vendor2, vendor3] @ fmt_hex True 4 (unat device)
             in Ok (''ACPI('' @ hid_formatted @ '','' @ fmt_dec uid @ '')''))))"

fun AcpiSubType_parse :: "crates \<Rightarrow> AcpiSubType \<Rightarrow> bytes \<Rightarrow> (string, string) outcome" where
  "AcpiSubType_parse E AcpiSubType_Acpi data = AcpiSubTypeParser_parse E data"

definition AcpiParser_parse :: "crates \<Rightarrow> byte \<Rightarrow> bytes \<Rightarrow> (string, string) outcome" where
  "AcpiParser_parse E sub_type data =
     and_then (AcpiSubType_from_u8 sub_type) (\<lambda>path. AcpiSubType_parse E path data)"

section \<open>Messaging nodes\<close>

datatype MessagingSubType =
    MessagingSubType_FibreChannelEx
  | MessagingSubType_Usb
  | MessagingSubType_Mac
  | MessagingSubType_Ipv4

definition MessagingSubType_from_u8 :: "byte \<Rightarrow> (string, MessagingSubType) outcome" where
  "MessagingSubType_from_u8 sub_type =
     (if sub_type = 0x15 then Ok MessagingSubType_FibreChannelEx
      else if sub_type = 0x05 then Ok MessagingSubType_Usb
      else if sub_type = 0x0B then Ok MessagingSubType_Mac
      else if sub_type = 0x0C then Ok MessagingSubType_Ipv4
      else Err (unknown_subtype ''Messaging'' sub_type))"

definition FibreChannelExParser_parse :: "crates \<Rightarrow> bytes \<Rightarrow> (string, string) outcome" where
  "FibreChannelExParser_parse E data =
     (if length data < 16 then Err ''Fibre channel data is too short''
      else and_then (slice data 0 8) (\<lambda>wwn.
           and_then (slice data 8 16) (\<lambda>lun.
             Ok (''FibreEx(0x'' @ hex_encode E wwn @ '',0x'' @ hex_encode E lun @ '')''))))"

definition UsbParser_parse :: "bytes \<Rightarrow> (string, string) outcome" where
  "UsbParser_parse data =
     (if length data < 2 then Err ''USB data is too short''
      else and_then (index data 0) (\<lambda>parent_hub_port_num.
           and_then (index data 1) (\<lambda>controller_int_number.
             Ok (''USB('' @ fmt_dec (unat parent_hub_port_num) @ '',''
                 @ fmt_dec (unat controller_int_number) @ '')''))))"

definition MacParser_parse :: "crates \<Rightarrow> bytes \<Rightarrow> (string, string) outcome" where
  "MacParser_parse E data =
     (if length data \<noteq> 33 then Err ''MAC data is too short''
      else and_then (slice data 0 31) (\<lambda>mac_address_padded.
           let binding = hex_encode E mac_address_padded;
               mac_address = to_uppercase (trim_end_matches CHR ''0'' binding)
           in and_then (index data 32) (\<lambda>if_type.
             Ok (''Mac('' @ mac_address @ '',0x'' @ fmt_hex False 2 (unat if_type) @ '')''))))"

text \<open>\<^verbatim>\<open>Ipv4Addr::from_bits\<close> takes the most significant byte as the first octet.\<close>

definition fmt_ipv4 :: "u32 \<Rightarrow> string" where
  "fmt_ipv4 w =
     fmt_dec (unat (drop_bit 24 w AND 0xFF)) @ ''.'' @ fmt_dec (unat (drop_bit 16 w AND 0xFF))
     @ ''.'' @ fmt_dec (unat (drop_bit 8 w AND 0xFF)) @ ''.'' @ fmt_dec (unat (w AND 0xFF))"

definition Ipv4Parser_parse :: "crates \<Rightarrow> bytes \<Rightarrow> (string, string) outcome" where
  "Ipv4Parser_parse E data =
     and_then (gread E 4 data 0 ''Failed to read IPv4 local address'') (\<lambda>(local_ip, i).
     and_then (gread E 4 data i ''Failed to read IPv4 remote address'') (\<lambda>(remote_ip, i).
     and_then (gread E 2 data i ''Failed to read IPv4 local port'') (\<lambda>(_, i).
     and_then (gread E 2 data i ''Failed to read IPv4 remote port'') (\<lambda>(_, i).
     and_then (gread E 2 data i ''Failed to read IPv4 protocol'') (\<lambda>(proto, i).
     and_then (gread E 1 data i ''Failed to read IPv4 address type'') (\<lambda>(addr_type, i).
     and_then (gread E 4 data i ''Failed to read IPv4 gateway'') (\<lambda>(gateway_ip_address, i).
     and_then (gread E 4 data i ''Failed to read IPv4 subnet'') (\<lambda>(subnet_mask, _).
       let protocol = (if proto = 6 then ''TCP'' else if proto = 17 then ''UDP'' else '''');
           ip_addr_type =
             (if addr_type = 0 then ''DHCP'' else if addr_type = 1 then ''Static'' else '''');
           gateway_subnet =
             (if gateway_ip_address \<noteq> 0 \<or> subnet_mask \<noteq> 0
              then '','' @ fmt_dec gateway_ip_address @ '','' @ fmt_dec subnet_mask else '''')
       in Ok (''IPv4('' @ fmt_ipv4 (word_of_nat remote_ip) @ '','' @ protocol @ '',''
              @ ip_addr_type @ '','' @ fmt_ipv4 (word_of_nat local_ip) @ gateway_subnet @ '')'')))))))))"

fun MessagingSubType_parse ::
    "crates \<Rightarrow> MessagingSubType \<Rightarrow> bytes \<Rightarrow> (string, string) outcome" where
  "MessagingSubType_parse E MessagingSubType_FibreChannelEx data = FibreChannelExParser_parse E data"
| "MessagingSubType_parse E MessagingSubType_Usb data = UsbParser_parse data"
| "MessagingSubType_parse E MessagingSubType_Mac data = MacParser_parse E data"
| "MessagingSubType_parse E MessagingSubType_Ipv4 data = Ipv4Parser_parse E data"

definition MessagingParser_parse :: "crates \<Rightarrow> byte \<Rightarrow> bytes \<Rightarrow> (string, string) outcome" where
  "MessagingParser_parse E sub_type data =
     and_then (MessagingSubType_from_u8 sub_type) (\<lambda>path. MessagingSubType_parse E path data)"

section \<open>Media nodes\<close>

datatype MediaSubType =
    MediaSubType_HardDrive
  | MediaSubType_MediaVendor
  | MediaSubType_FilePath

definition MediaSubType_from_u8 :: "byte \<Rightarrow> (string, MediaSubType) outcome" where
  "MediaSubType_from_u8 sub_type =
     (if sub_type = 0x01 then Ok MediaSubType_HardDrive
      else if sub_type = 0x03 then Ok MediaSubType_MediaVendor
      else if sub_type = 0x04 then Ok MediaSubType_FilePath
      else Err (unknown_subtype ''Media'' sub_type))"

definition GUID_SIZE :: nat where
  "GUID_SIZE = 16"

definition format_uefi_guid :: "bytes \<Rightarrow> (string, string) outcome" where
  "format_uefi_guid input =
     (if length input < 16 then Panic
      else
        let data1 = le_nat (take 4 input);
            data2 = le_nat (take 2 (drop 4 input));
            data3 = le_nat (take 2 (drop 6 input));
            data4 = drop 8 input;
            x02 = (\<lambda>k. fmt_hex True 2 (unat (data4 ! k)))
        in Ok (fmt_hex True 8 data1 @ ''-'' @ fmt_hex True 4 data2 @ ''-'' @ fmt_hex True 4 data3
               @ ''-'' @ x02 0 @ x02 1 @ ''-'' @ x02 2 @ x02 3 @ x02 4 @ x02 5 @ x02 6 @ x02 7))"

definition HardDriveParser_parse :: "bytes \<Rightarrow> (string, string) outcome" where
  "HardDriveParser_parse data =
     (if length data < 37 then Err ''Hard drive data is too short''
      else
        and_then (slice data 0 4) (\<lambda>b0.
        and_then (slice data 4 12) (\<lambda>b1.
        and_then (slice data 12 20) (\<lambda>b2.
        let partition_number = le_nat b0;
            partition_start_lba = le_nat b1;
            partition_size_lba = le_nat b2
        in
        and_then (slice data 20 36) (\<lambda>partition_signature.
        and_then (index data 36) (\<lambda>partition_format.
        and_then (index data 37) (\<lambda>signature_type.
        and_then
          (if partition_format = 0x01 then
             and_then (slice partition_signature 0 4) (\<lambda>s.
               Ok (''MBR'', ''0x'' @ fmt_hex False 8 (le_nat s)))
           else if partition_format = 0x02 then
             and_then (format_uefi_guid partition_signature) (\<lambda>g. Ok (''GPT'', g))
           else Err (''Unknown partition format '' @ fmt_dec (unat partition_format)))
        (\<lambda>(prefix, sig).
           let partition_details =
             (if partition_number \<noteq> 0
              then '',0x'' @ fmt_hex False 0 partition_start_lba
                   @ '',0x'' @ fmt_hex False 0 partition_size_lba
              else '''')
           in Ok (''HD('' @ fmt_dec partition_number @ '','' @ prefix @ '','' @ sig
                  @ partition_details @ '')'')))))))))"

definition MediaVendorParser_parse :: "crates \<Rightarrow> bytes \<Rightarrow> (string, string) outcome" where
  "MediaVendorParser_parse E data =
     (if length data < GUID_SIZE then Err ''Vendor media data is too short''
      else and_then (slice data 0 GUID_SIZE) (\<lambda>guid.
           and_then (slice data GUID_SIZE (length data)) (\<lambda>vendor_data.
           and_then (format_uefi_guid guid) (\<lambda>g.
             Ok (''VenMedia('' @ g @ '','' @ hex_encode E vendor_data @ '')'')))))"

definition FilePathParser_parse :: "crates \<Rightarrow> bytes \<Rightarrow> (string, string) outcome" where
  "FilePathParser_parse E data =
     (if data = [] \<or> length data mod 2 \<noteq> 0 then Err ''File path is too short''
      else and_then (slice data 0 (length data - 2)) (\<lambda>b.
           let utf16_words = map (read_u16 E) (chunks_exact 2 b)
           in Ok (''File('' @ from_utf16_lossy utf16_words @ '')'')))"

fun MediaSubType_parse :: "crates \<Rightarrow> MediaSubType \<Rightarrow> bytes \<Rightarrow> (string, string) outcome" where
  "MediaSubType_parse E MediaSubType_HardDrive data = HardDriveParser_parse data"
| "MediaSubType_parse E MediaSubType_MediaVendor data = MediaVendorParser_parse E data"
| "MediaSubType_parse E MediaSubType_FilePath data = FilePathParser_parse E data"

definition MediaParser_parse :: "crates \<Rightarrow> byte \<Rightarrow> bytes \<Rightarrow> (string, string) outcome" where
  "MediaParser_parse E sub_type data =
     and_then (MediaSubType_from_u8 sub_type) (\<lambda>path. MediaSubType_parse E path data)"

section \<open>BIOS boot specification nodes\<close>

datatype BiosSubType = BiosSubType_Bbs

definition BiosSubType_from_u8 :: "byte \<Rightarrow> (string, BiosSubType) outcome" where
  "BiosSubType_from_u8 sub_type =
     (if sub_type = 0x01 then Ok BiosSubType_Bbs
      else Err (unknown_subtype ''Bios Boot Specification'' sub_type))"

definition bbs_device_type :: "nat \<Rightarrow> string" where
  "bbs_device_type t =
     (if t = 0x01 then ''FLOPPY''
      else if t = 0x02 then ''HARD_DRIVE''
      else if t = 0x03 then ''CDROM''
      else if t = 0x04 then ''PCMCIA''
      else if t = 0x05 then ''USB''
      else if t = 0x06 then ''EMBEDDED_NETWORK''
      else if t = 0x80 then ''DEV''
      else if t = 0xFF then ''UNKNOWN''
      else fmt_dec t)"

definition BbsParser_parse :: "crates \<Rightarrow> bytes \<Rightarrow> (string, string) outcome" where
  "BbsParser_parse E data =
     and_then (gread E 2 data 0 ''Failed to read device type'') (\<lambda>(t, i).
     and_then (gread E 2 data i ''Failed to read status flag'') (\<lambda>(status_flag, i).
     and_then (slice data i (length data)) (\<lambda>desc_bytes.
       let desc_end = (case position (\<lambda>b. b = 0) desc_bytes of
                         None \<Rightarrow> length desc_bytes | Some k \<Rightarrow> k)
       in and_then (slice desc_bytes 0 desc_end) (\<lambda>d.
          and_then (ok_or ''Failed to parse description'' (from_utf8 d)) (\<lambda>description.
            Ok (''BBS('' @ bbs_device_type t @ '','' @ description @ '','' @ fmt_dec status_flag
                @ '')''))))))"

fun BiosSubType_parse :: "crates \<Rightarrow> BiosSubType \<Rightarrow> bytes \<Rightarrow> (string, string) outcome" where
  "BiosSubType_parse E BiosSubType_Bbs data = BbsParser_parse E data"

definition BiosBootSpecParser_parse :: "crates \<Rightarrow> byte \<Rightarrow> bytes \<Rightarrow> (string, string) outcome" where
  "BiosBootSpecParser_parse E sub_type data =
     and_then (BiosSubType_from_u8 sub_type) (\<lambda>path. BiosSubType_parse E path data)"

section \<open>Choosing the node type\<close>

datatype DevicePath =
    DevicePath_Hardware
  | DevicePath_Acpi
  | DevicePath_Messaging
  | DevicePath_Media
  | DevicePath_BiosBootSpec

definition DevicePath_from_u8 :: "byte \<Rightarrow> (string, DevicePath) outcome" where
  "DevicePath_from_u8 efi_type =
     (if efi_type = 0x01 then Ok DevicePath_Hardware
      else if efi_type = 0x02 then Ok DevicePath_Acpi
      else if efi_type = 0x03 then Ok DevicePath_Messaging
      else if efi_type = 0x04 then Ok DevicePath_Media
      else if efi_type = 0x05 then Ok DevicePath_BiosBootSpec
      else Err (''Unknown Device Path Type: 0x'' @ fmt_hex False 2 (unat efi_type)))"

fun DevicePath_parse :: "crates \<Rightarrow> DevicePath \<Rightarrow> byte \<Rightarrow> bytes \<Rightarrow> (string, string) outcome" where
  "DevicePath_parse E DevicePath_Hardware sub data = HardwareParser_parse sub data"
| "DevicePath_parse E DevicePath_Acpi sub data = AcpiParser_parse E sub data"
| "DevicePath_parse E DevicePath_Messaging sub data = MessagingParser_parse E sub data"
| "DevicePath_parse E DevicePath_Media sub data = MediaParser_parse E sub data"
| "DevicePath_parse E DevicePath_BiosBootSpec sub data = BiosBootSpecParser_parse E sub data"

text \<open>\<^verbatim>\<open>print_path\<close> of \<^verbatim>\<open>boot_services_app.rs\<close>: any error falls back to the generic form.\<close>

definition print_path :: "crates \<Rightarrow> byte \<Rightarrow> byte \<Rightarrow> bytes \<Rightarrow> (string, string) outcome" where
  "print_path E efi_type efi_sub_type vendor_data =
     (case and_then (DevicePath_from_u8 efi_type)
             (\<lambda>dev_path. DevicePath_parse E dev_path efi_sub_type vendor_data) of
        Ok s \<Rightarrow> Ok s
      | Err _ \<Rightarrow> Ok (''Path('' @ fmt_dec (unat efi_type) @ '','' @ fmt_dec (unat efi_sub_type)
                    @ '','' @ hex_encode E vendor_data @ '')'')
      | Panic \<Rightarrow> Panic)"


section \<open>When a printer panics\<close>

lemma PciParser_no_panic [simp]: "PciParser_parse data \<noteq> Panic"
  by (auto simp: PciParser_parse_def outcome_iff)

lemma AcpiSubTypeParser_no_panic [simp]: "AcpiSubTypeParser_parse E data \<noteq> Panic"
  by (auto simp: AcpiSubTypeParser_parse_def outcome_iff Let_def)

lemma messaging_no_panic [simp]:
  "FibreChannelExParser_parse E data \<noteq> Panic"
  "UsbParser_parse data \<noteq> Panic"
  "MacParser_parse E data \<noteq> Panic"
  "Ipv4Parser_parse E data \<noteq> Panic"
  by (auto simp: FibreChannelExParser_parse_def UsbParser_parse_def MacParser_parse_def
      Ipv4Parser_parse_def outcome_iff Let_def range_ok_def)

lemma format_uefi_guid_Panic_iff: "format_uefi_guid input = Panic \<longleftrightarrow> length input < 16"
  by (simp add: format_uefi_guid_def Let_def)

lemma MediaVendorParser_no_panic [simp]: "MediaVendorParser_parse E data \<noteq> Panic"
  by (auto simp: MediaVendorParser_parse_def GUID_SIZE_def outcome_iff range_ok_def
      format_uefi_guid_Panic_iff)

lemma FilePathParser_no_panic [simp]: "FilePathParser_parse E data \<noteq> Panic"
  by (auto simp: FilePathParser_parse_def outcome_iff Let_def range_ok_def)

lemma BbsParser_no_panic [simp]: "scroll_le E \<Longrightarrow> BbsParser_parse E data \<noteq> Panic"
  by (auto simp: BbsParser_parse_def outcome_iff Let_def range_ok_def pread_Some_iff
      position_Some_iff split: option.splits)

lemma HardDriveParser_Panic_iff: "HardDriveParser_parse data = Panic \<longleftrightarrow> length data = 37"
  by (auto simp: HardDriveParser_parse_def outcome_iff Let_def range_ok_def
      format_uefi_guid_Panic_iff)

lemma subtype_from_u8_no_panic [simp]:
  "HardwareSubType_from_u8 b \<noteq> Panic" "AcpiSubType_from_u8 b \<noteq> Panic"
  "MessagingSubType_from_u8 b \<noteq> Panic" "MediaSubType_from_u8 b \<noteq> Panic"
  "BiosSubType_from_u8 b \<noteq> Panic" "DevicePath_from_u8 b \<noteq> Panic"
  by (simp_all add: HardwareSubType_from_u8_def AcpiSubType_from_u8_def
      MessagingSubType_from_u8_def MediaSubType_from_u8_def BiosSubType_from_u8_def
      DevicePath_from_u8_def)

lemma subtype_parse_no_panic [simp]:
  "HardwareSubType_parse h data \<noteq> Panic"
  "AcpiSubType_parse E a data \<noteq> Panic"
  "MessagingSubType_parse E m data \<noteq> Panic"
  "scroll_le E \<Longrightarrow> BiosSubType_parse E b data \<noteq> Panic"
  by (cases h, simp) (cases a, simp, cases m, simp_all, cases b, simp)

lemma node_parser_no_panic [simp]:
  "HardwareParser_parse sub data \<noteq> Panic"
  "AcpiParser_parse E sub data \<noteq> Panic"
  "MessagingParser_parse E sub data \<noteq> Panic"
  "scroll_le E \<Longrightarrow> BiosBootSpecParser_parse E sub data \<noteq> Panic"
  by (simp_all add: HardwareParser_parse_def AcpiParser_parse_def MessagingParser_parse_def
      BiosBootSpecParser_parse_def outcome_iff)

lemma MediaParser_Panic_iff:
  "MediaParser_parse E sub data = Panic \<longleftrightarrow> sub = 0x01 \<and> length data = 37"
  by (auto simp: MediaParser_parse_def MediaSubType_from_u8_def outcome_iff
      HardDriveParser_Panic_iff split: if_splits)

lemma DevicePath_parse_Panic_iff:
  "scroll_le E \<Longrightarrow>
     DevicePath_parse E p sub data = Panic \<longleftrightarrow>
       p = DevicePath_Media \<and> sub = 0x01 \<and> length data = 37"
  by (cases p) (auto simp: MediaParser_Panic_iff)

lemma print_path_Panic_iff:
  assumes "scroll_le E"
  shows "print_path E t sub data = Panic \<longleftrightarrow> t = 0x04 \<and> sub = 0x01 \<and> length data = 37"
proof -
  have "print_path E t sub data = Panic \<longleftrightarrow>
      and_then (DevicePath_from_u8 t) (\<lambda>p. DevicePath_parse E p sub data) = Panic"
    by (simp add: print_path_def split: outcome.splits)
  also have "\<dots> \<longleftrightarrow> DevicePath_from_u8 t = Ok DevicePath_Media \<and> sub = 0x01 \<and> length data = 37"
    using assms by (auto simp: outcome_iff DevicePath_parse_Panic_iff MediaParser_Panic_iff)
  also have "DevicePath_from_u8 t = Ok DevicePath_Media \<longleftrightarrow> t = 0x04"
    by (auto simp: DevicePath_from_u8_def)
  finally show ?thesis .
qed

lemma print_path_not_Err [simp]: "print_path E t sub data \<noteq> Err e"
  by (simp add: print_path_def split: outcome.splits)

end
