(* ===== verification/Event_Data.thy ===== *)
theory Event_Data
  imports Tcg_Enum Device_Paths
begin

text \<open>
  The event data parsers of \<^verbatim>\<open>deps/eventlog/src/ccel/\<close> (one definition per
  \<^verbatim>\<open>EventDataParser\<close>), the default \<^verbatim>\<open>compare_digests\<close> of the trait, and the types of an event
  log entry from \<^verbatim>\<open>deps/eventlog/src/lib.rs\<close>. The lemmas give, for each parser, when it succeeds
  and when it panics, and show that walking a device path visits its nodes in order.
\<close>

section \<open>Entry types\<close>

record EventDetails =
  details_string :: "string option"
  unicode_name :: "string option"
  unicode_name_length :: "u64 option"
  variable_data :: "string option"
  variable_data_length :: "u64 option"
  variable_name :: "string option"
  device_paths :: "string list option"
  details_data :: "json option"

record ElDigest =
  alg :: TcgAlgorithm
  digest :: bytes

definition EventDetails_empty :: EventDetails where
  "EventDetails_empty =
     \<lparr>details_string = None, unicode_name = None, unicode_name_length = None,
      variable_data = None, variable_data_length = None, variable_name = None,
      device_paths = None, details_data = None\<rparr>"

definition EventDetails_from_string :: "string \<Rightarrow> EventDetails" where
  "EventDetails_from_string s =
     \<lparr>details_string = Some s, unicode_name = None, unicode_name_length = None,
      variable_data = None, variable_data_length = None, variable_name = None,
      device_paths = None, details_data = None\<rparr>"

section \<open>Digest comparison\<close>

definition hash_alg :: "crates \<Rightarrow> TcgAlgorithm \<Rightarrow> (bytes \<Rightarrow> bytes) option" where
  "hash_alg E a =
     (case a of
        Sha256 \<Rightarrow> Some (sha256 E)
      | Sha384 \<Rightarrow> Some (sha384 E)
      | Sha512 \<Rightarrow> Some (sha512 E)
      | Sm3 \<Rightarrow> Some (sm3 E)
      | _ \<Rightarrow> None)"

fun compare_digests :: "crates \<Rightarrow> bytes \<Rightarrow> ElDigest list \<Rightarrow> (string, bool) outcome" where
  "compare_digests E data [] = Ok True"
| "compare_digests E data (d # ds) =
     (case hash_alg E (alg d) of
        None \<Rightarrow> Err (''Digest comparison failed: Digest hash algorithm not supported - ''
                     @ TcgAlgorithm_debug (alg d))
      | Some h \<Rightarrow> if h data \<noteq> digest d then Ok False else compare_digests E data ds)"

section \<open>Text events\<close>

definition EvBlankParser_parse :: "bytes \<Rightarrow> (string, EventDetails) outcome" where
  "EvBlankParser_parse data = Ok EventDetails_empty"

definition EvSimpleParser_parse :: "bytes \<Rightarrow> (string, EventDetails) outcome" where
  "EvSimpleParser_parse data =
     map_ok EventDetails_from_string (ok_or ''invalid utf-8 sequence'' (from_utf8 data))"

text \<open>
  The first byte is the length of the description; \<^verbatim>\<open>end = start + length - start\<close>
  with \<^verbatim>\<open>start = 1\<close>, so the slice is \<^verbatim>\<open>[1..length]\<close>.
\<close>

definition SimpleStringParser_parse :: "bytes \<Rightarrow> (string, EventDetails) outcome" where
  "SimpleStringParser_parse data =
     (if data = [] then Err ''Data is too short: expected at least 1 byte''
      else
        and_then (index data 0) (\<lambda>b.
        let len = unat b; start = 1; stop = start + len - start in
        if length data < stop
        then Err (''Data is too short: expected at least '' @ fmt_dec stop @ '' bytes'')
        else
          and_then (slice data start stop) (\<lambda>description_bytes.
          and_then (ok_or ''invalid utf-8 sequence'' (from_utf8 description_bytes)) (\<lambda>event_desc.
            Ok (EventDetails_from_string event_desc)))))"

definition EvPlatformConfigFlagsParser_parse :: "bytes \<Rightarrow> (string, EventDetails) outcome" where
  "EvPlatformConfigFlagsParser_parse data =
     (let raw = replace_char (CHR 0x10) '' ''
                  (case from_utf8 data of Some s \<Rightarrow> s | None \<Rightarrow> '''');
          cleaned = str_of (concat (filter (\<lambda>c. \<not> is_control c) (utf8_chars (bytes_of raw))))
      in Ok (EventDetails_from_string cleaned))"

definition GCE_IPL_PREFIX :: bytes where
  "GCE_IPL_PREFIX = [0x2E, 0x00]"

definition EvIplParser_parse :: "crates \<Rightarrow> bytes \<Rightarrow> (string, EventDetails) outcome" where
  "EvIplParser_parse E data =
     (if length data < 2 then Err ''Data is too short: expected at least 2 bytes''
      else
        and_then (slice data 0 2) (\<lambda>hdr.
        and_then
          (if GCE_IPL_PREFIX = hdr then
             let prefix_len = length GCE_IPL_PREFIX;
                 len_minus_stop = length data - prefix_len
             in
             if len_minus_stop = 0 \<or> len_minus_stop mod 2 \<noteq> 0
             then Err ''Data is too short or not UTF-16 string''
             else
               and_then (slice data prefix_len len_minus_stop) (\<lambda>b.
                 Ok (from_utf16_lossy (map (read_u16 E) (chunks_exact 2 b))))
           else
             let cutoff = (case position (\<lambda>b. b = 0) data of None \<Rightarrow> length data | Some k \<Rightarrow> k)
             in and_then (slice data 0 cutoff) (\<lambda>sl.
                  Ok (case from_utf8 sl of Some s \<Rightarrow> s | None \<Rightarrow> hex_encode E data)))
          (\<lambda>event_desc. Ok (EventDetails_from_string event_desc))))"

section \<open>Tagged events\<close>

record AaelEventEntry =
  aael_domain :: string
  aael_operation :: string
  aael_content :: json

definition AAEL_TAGGED_EVENT_ID :: nat where
  "AAEL_TAGGED_EVENT_ID = 0x4141454C"

definition AaelEventEntry_from_bytes :: "crates \<Rightarrow> string \<Rightarrow> (string, AaelEventEntry) outcome" where
  "AaelEventEntry_from_bytes E s =
     and_then (ok_or ''No space found in event string'' (position (\<lambda>c. c = CHR '' '') s)) (\<lambda>first_sp.
     and_then (slice s (first_sp + 1) (length s)) (\<lambda>after_first.
     and_then (ok_or ''No second space found in event string''
                 (position (\<lambda>c. c = CHR '' '') after_first)) (\<lambda>second_sp_rel.
     let second_sp = first_sp + 1 + second_sp_rel in
     and_then (slice s 0 first_sp) (\<lambda>domain.
     and_then (slice s (first_sp + 1) second_sp) (\<lambda>operation.
     and_then (slice s (second_sp + 1) (length s)) (\<lambda>content_str.
       Ok \<lparr>aael_domain = domain, aael_operation = operation,
           aael_content = (case json_from_str E content_str of
                             Some content_json \<Rightarrow> content_json
                           | None \<Rightarrow> JString content_str)\<rparr>))))))"

definition aael_to_value :: "AaelEventEntry \<Rightarrow> json" where
  "aael_to_value a =
     JObject [(''domain'', JString (aael_domain a)), (''operation'', JString (aael_operation a)),
              (''content'', aael_content a)]"

definition EvEventTagParser_parse :: "crates \<Rightarrow> bytes \<Rightarrow> (string, EventDetails) outcome" where
  "EvEventTagParser_parse E data =
     and_then (gread E 4 data 0 ''Cannot read event id'') (\<lambda>(event_id, i).
     and_then (gread E 4 data i ''Cannot read length'') (\<lambda>(data_size, i).
     and_then (ok_or ''Failed to read description'' (get_range data i (i + data_size)))
       (\<lambda>event_data.
     let details = EventDetails_from_string
                     (replace_char (CHR 0x00) '''' (from_utf8_lossy event_data)) in
     if event_id = AAEL_TAGGED_EVENT_ID then
       and_then (ok_or ''Illegal AAEL event data'' (from_utf8 event_data)) (\<lambda>s.
       and_then (AaelEventEntry_from_bytes E s) (\<lambda>aael.
         Ok (details\<lparr>details_data := Some (aael_to_value aael), unicode_name := Some ''AAEL''\<rparr>)))
     else Ok details)))"

section \<open>UEFI variables\<close>

definition format_guid :: "crates \<Rightarrow> bytes \<Rightarrow> (string, string) outcome" where
  "format_guid E guid =
     and_then (slice guid 0 4) (\<lambda>a.
     and_then (slice guid 4 6) (\<lambda>b.
     and_then (slice guid 6 8) (\<lambda>c.
     and_then (slice guid 8 10) (\<lambda>d.
     and_then (slice guid 10 16) (\<lambda>e.
       Ok (hex_encode E a @ ''-'' @ hex_encode E b @ ''-'' @ hex_encode E c @ ''-''
           @ hex_encode E d @ ''-'' @ hex_encode E e))))))"

definition EvEfiVariableParser_parse ::
    "crates \<Rightarrow> bool \<Rightarrow> bytes \<Rightarrow> (string, EventDetails) outcome" where
  "EvEfiVariableParser_parse E chk data =
     and_then (ok_or ''Failed to read GUID'' (get_range data 0 (0 + GUID_SIZE))) (\<lambda>guid.
     and_then (gread E 8 data GUID_SIZE ''Failed to read unicode name length'') (\<lambda>(ul, i).
     and_then (gread E 8 data i ''Failed to read variable data length'') (\<lambda>(vl, i).
     let uname_length = (word_of_nat ul :: u64); var_data_length = (word_of_nat vl :: u64) in
     and_then (ok_or ''Out of bounds while reading description length''
                 (checked_mul_u64 uname_length 2)) (\<lambda>dl.
     let desc_byte_len = unat dl in
     and_then (add_usize chk i desc_byte_len) (\<lambda>stop.
     and_then (ok_or ''Out of bounds while reading description bytes'' (get_range data i stop))
       (\<lambda>description_bytes.
     let i = stop; utf16_words = map (read_u16 E) (chunks_exact 2 description_bytes) in
     and_then (ok_or ''invalid utf-16'' (from_utf16 utf16_words)) (\<lambda>uname.
     and_then
       (if 0 < var_data_length then
          let data_len = unat var_data_length in
          and_then (add_usize chk i data_len) (\<lambda>stop.
          and_then (ok_or ''Out of bounds while reading variable_data'' (get_range data i stop))
            (\<lambda>bytes. Ok (base64_encode E bytes)))
        else Ok '''')
       (\<lambda>vdata.
     and_then (format_guid E guid) (\<lambda>g.
       Ok \<lparr>details_string = None, unicode_name = Some uname,
           unicode_name_length = Some uname_length, variable_data = Some vdata,
           variable_data_length = Some var_data_length, variable_name = Some g,
           device_paths = None, details_data = None\<rparr>)))))))))"

section \<open>Boot services applications\<close>

text \<open>
  \<^verbatim>\<open>get_nested_paths\<close> recurses on the bytes after the first node; a node of length below four
  makes the slice \<^verbatim>\<open>[4..efi_length]\<close> panic, so every recursive call is on fewer bytes.
\<close>

definition push_path :: "EventDetails \<Rightarrow> string \<Rightarrow> EventDetails" where
  "push_path r p =
     r\<lparr>device_paths := Some ((case device_paths r of None \<Rightarrow> [] | Some ps \<Rightarrow> ps) @ [p])\<rparr>"

function get_nested_paths ::
    "crates \<Rightarrow> bytes \<Rightarrow> EventDetails \<Rightarrow> (string, EventDetails) outcome" where
  "get_nested_paths E dpb result =
     and_then (index dpb 0) (\<lambda>efi_type.
     and_then (index dpb 1) (\<lambda>efi_sub_type.
     and_then (slice dpb 2 4) (\<lambda>lb.
     let efi_length = le_nat lb in
     if length dpb < efi_length
     then Err (''Data is too short: expected at least '' @ fmt_dec efi_length @ '' bytes'')
     else
       and_then (slice dpb 4 efi_length) (\<lambda>vendor_data_raw.
       and_then (slice dpb efi_length (length dpb)) (\<lambda>device_path.
       and_then (print_path E efi_type efi_sub_type vendor_data_raw) (\<lambda>p.
       let result = push_path result p in
       if device_path = [] then Ok result else get_nested_paths E device_path result))))))"
  by pat_completeness auto
termination
  by (relation "measure (\<lambda>(E, dpb, r). length dpb)") (auto simp: outcome_iff range_ok_def)

declare get_nested_paths.simps [simp del]

definition EvBootServicesAppParser_parse ::
    "crates \<Rightarrow> bool \<Rightarrow> bytes \<Rightarrow> (string, EventDetails) outcome" where
  "EvBootServicesAppParser_parse E chk data =
     (let dev_path_offset_start = 8 * 3; dev_path_offset_end = dev_path_offset_start + 8 in
      if length data < dev_path_offset_end
      then Err (''Data is too short: expected at least '' @ fmt_dec dev_path_offset_end @ '' bytes'')
      else
        and_then (slice data dev_path_offset_start dev_path_offset_end) (\<lambda>lb.
        let dev_path_len = le_nat lb in
        if dev_path_len = 0 then Ok EventDetails_empty
        else
          let dev_path_start = dev_path_offset_end in
          and_then (sub_usize chk dev_path_len 4) (\<lambda>n.
          and_then (add_usize chk dev_path_start n) (\<lambda>dev_path_end.
          if length data < dev_path_end
          then Err ''Data is shorter than claimed by dev_path_offset''
          else
            and_then (slice data dev_path_start dev_path_end) (\<lambda>device_path_bytes.
            if length device_path_bytes < 4
            then Err ''Remaining device path is shorter than 4 bytes''
            else get_nested_paths E device_path_bytes EventDetails_empty)))))"

section \<open>Dispatch\<close>

fun parser_parse ::
    "crates \<Rightarrow> bool \<Rightarrow> event_data_parser \<Rightarrow> bytes \<Rightarrow> (string, EventDetails) outcome" where
  "parser_parse E chk EvSimpleParser data = EvSimpleParser_parse data"
| "parser_parse E chk EvBlankParser data = EvBlankParser_parse data"
| "parser_parse E chk EvEventTagParser data = EvEventTagParser_parse E data"
| "parser_parse E chk EvPlatformConfigFlagsParser data = EvPlatformConfigFlagsParser_parse data"
| "parser_parse E chk EvIplParser data = EvIplParser_parse E data"
| "parser_parse E chk EvEfiVariableParser data = EvEfiVariableParser_parse E chk data"
| "parser_parse E chk EvBootServicesAppParser data = EvBootServicesAppParser_parse E chk data"
| "parser_parse E chk SimpleStringParser data = SimpleStringParser_parse data"

section \<open>Digest comparison: lemmas\<close>

definition digest_of :: "crates \<Rightarrow> bytes \<Rightarrow> ElDigest \<Rightarrow> bool" where
  "digest_of E data d \<longleftrightarrow> (\<exists>h. hash_alg E (alg d) = Some h \<and> digest d = h data)"

lemma compare_digests_no_panic [simp]: "compare_digests E data ds \<noteq> Panic"
  by (induction ds) (auto split: option.splits)

lemma compare_digests_True_iff:
  "compare_digests E data ds = Ok True \<longleftrightarrow> (\<forall>d \<in> set ds. digest_of E data d)"
  by (induction ds) (auto simp: digest_of_def split: option.splits)

lemma compare_digests_False_iff:
  "compare_digests E data ds = Ok False \<longleftrightarrow>
     (\<exists>pre d post. ds = pre @ d # post \<and> (\<forall>d' \<in> set pre. digest_of E data d') \<and>
        hash_alg E (alg d) \<noteq> None \<and> \<not> digest_of E data d)"
proof (induction ds)
  case Nil
  then show ?case by simp
next
  case (Cons d ds)
  show ?case
    unfolding ex_split_Cons using Cons.IH
    by (auto simp: digest_of_def split: option.splits)
qed

section \<open>When a parser panics\<close>

lemma SimpleStringParser_Panic_iff:
  "SimpleStringParser_parse data = Panic \<longleftrightarrow> (\<exists>rest. data = 0 # rest)"
  by (cases data)
    (auto simp: SimpleStringParser_parse_def outcome_iff Let_def range_ok_def unat_eq_0
      not_less_eq_eq)

lemma EvIplParser_no_panic [simp]: "EvIplParser_parse E data \<noteq> Panic"
proof -
  have "range_ok data 2 (length data - 2)"
    if "2 \<le> length data" "length data - 2 \<noteq> 0" "even (length data - 2)"
    using that unfolding range_ok_def by presburger
  then show ?thesis
    by (auto simp: EvIplParser_parse_def GCE_IPL_PREFIX_def outcome_iff Let_def range_ok_def
        position_Some_iff even_iff_mod_2_eq_zero split: if_splits option.splits)
qed

lemma AaelEventEntry_from_bytes_no_panic [simp]: "AaelEventEntry_from_bytes E s \<noteq> Panic"
  by (auto simp: AaelEventEntry_from_bytes_def outcome_iff Let_def range_ok_def position_Some_iff)

lemma EvEventTagParser_no_panic [simp]: "EvEventTagParser_parse E data \<noteq> Panic"
  by (auto simp: EvEventTagParser_parse_def outcome_iff Let_def split: if_splits)

lemma format_guid_no_panic: "length guid = 16 \<Longrightarrow> format_guid E guid \<noteq> Panic"
  by (auto simp: format_guid_def outcome_iff range_ok_def)

lemma EvEfiVariableParser_no_panic [simp]: "EvEfiVariableParser_parse E False data \<noteq> Panic"
  by (auto simp: EvEfiVariableParser_parse_def outcome_iff Let_def range_ok_def GUID_SIZE_def
      format_guid_no_panic split: if_splits)

lemma text_parsers_no_panic [simp]:
  "EvSimpleParser_parse data \<noteq> Panic"
  "EvBlankParser_parse data \<noteq> Panic"
  "EvPlatformConfigFlagsParser_parse data \<noteq> Panic"
  by (auto simp: EvSimpleParser_parse_def EvBlankParser_parse_def
      EvPlatformConfigFlagsParser_parse_def outcome_iff Let_def)

lemma parser_parse_no_panic:
  "p \<noteq> SimpleStringParser \<Longrightarrow> p \<noteq> EvBootServicesAppParser \<Longrightarrow>
     parser_parse E False p data \<noteq> Panic"
  by (cases p) auto

section \<open>Walking a device path\<close>

text \<open>A device path node as the UEFI specification lays it out: type, subtype, 16-bit length, payload.\<close>

type_synonym dp_node = "byte \<times> byte \<times> bytes"

fun encode_node :: "dp_node \<Rightarrow> bytes" where
  "encode_node (t, s, p) = [t, s] @ le_bytes 2 (4 + length p) @ p"

fun node_ok :: "dp_node \<Rightarrow> bool" where
  "node_ok (t, s, p) \<longleftrightarrow> length p < 65532"

fun prints :: "crates \<Rightarrow> dp_node \<Rightarrow> string \<Rightarrow> bool" where
  "prints E (t, s, p) out \<longleftrightarrow> print_path E t s p = Ok out"

lemma encode_node_nonempty [simp]: "encode_node nd \<noteq> []"
  by (cases nd) auto

lemma get_nested_paths_node:
  assumes "node_ok (t, s, p)"
  shows "get_nested_paths E (encode_node (t, s, p) @ rest) r =
     and_then (print_path E t s p) (\<lambda>out.
       if rest = [] then Ok (push_path r out) else get_nested_paths E rest (push_path r out))"
proof -
  let ?d = "encode_node (t, s, p) @ rest"
  have lb: "le_nat (le_bytes 2 (4 + length p)) = 4 + length p"
    using assms by (intro le_nat_le_bytes_id) simp
  have two: "le_bytes 2 n = [word_of_nat n, word_of_nat (n div 256)]" for n
    by (simp add: numeral_2_eq_2)
  have sl2: "slice ?d 2 4 = Ok (le_bytes 2 (4 + length p))"
    by (simp add: slice_def range_ok_def two)
  have sl4: "slice ?d 4 (4 + length p) = Ok p"
    by (simp add: slice_def range_ok_def two)
  have "drop (4 + length p) ?d = rest"
    by (simp add: two add.commute [of 4] flip: drop_drop)
  then have slr: "slice ?d (4 + length p) (length ?d) = Ok rest"
    by (simp add: slice_def range_ok_def)
  have i0: "index ?d 0 = Ok t" and i1: "index ?d 1 = Ok s"
    by (simp_all add: index_def)
  have len: "\<not> length ?d < 4 + length p" by simp
  show ?thesis
    unfolding get_nested_paths.simps [of E ?d]
    unfolding i0 i1 sl2 Let_def and_then.simps lb if_not_P [OF len] sl4 slr ..
qed

lemma get_nested_paths_encode:
  assumes "nodes \<noteq> []" and "\<forall>nd \<in> set nodes. node_ok nd" and "list_all2 (prints E) nodes outs"
  shows "get_nested_paths E (concat (map encode_node nodes)) r = Ok (foldl push_path r outs)"
  using assms
proof (induction nodes arbitrary: r outs)
  case Nil
  then show ?case by simp
next
  case (Cons nd nodes)
  obtain t s p where nd: "nd = (t, s, p)" by (cases nd)
  from Cons.prems(3) obtain out outs' where outs: "outs = out # outs'"
    and out: "print_path E t s p = Ok out" and rest: "list_all2 (prints E) nodes outs'"
    by (auto simp: list_all2_Cons1 nd)
  have step: "get_nested_paths E (concat (map encode_node (nd # nodes))) r =
      (if concat (map encode_node nodes) = [] then Ok (push_path r out)
       else get_nested_paths E (concat (map encode_node nodes)) (push_path r out))"
    using get_nested_paths_node [of t s p E "concat (map encode_node nodes)" r] Cons.prems(2) out
    by (simp add: nd)
  show ?case
  proof (cases nodes)
    case Nil
    with step rest outs show ?thesis by simp
  next
    case (Cons a list)
    then have "concat (map encode_node nodes) \<noteq> []" by simp
    with step have "get_nested_paths E (concat (map encode_node (nd # nodes))) r =
        get_nested_paths E (concat (map encode_node nodes)) (push_path r out)"
      by (simp only: if_False)
    also have "\<dots> = Ok (foldl push_path (push_path r out) outs')"
      using Cons.IH [OF _ _ rest] Cons.prems(2) Cons by simp
    finally show ?thesis by (simp add: outs)
  qed
qed

lemma node_of_bytes:
  assumes "2 \<le> length xs" "index xs 0 = Ok t" "index xs 1 = Ok s" "slice xs 2 4 = Ok lb"
    "slice xs 4 (le_nat lb) = Ok p" "slice xs (le_nat lb) (length xs) = Ok rest"
  shows "xs = encode_node (t, s, p) @ rest \<and> node_ok (t, s, p)"
proof -
  from assms(4,5) have lens: "4 \<le> length xs" "4 \<le> le_nat lb" "le_nat lb \<le> length xs"
    by (auto simp: outcome_iff range_ok_def)
  from assms(4) have lb: "lb = take 2 (drop 2 xs)" "length lb = 2"
    using lens by (auto simp: outcome_iff range_ok_def)
  have p: "p = take (le_nat lb - 4) (drop 4 xs)" and rest: "rest = drop (le_nat lb) xs"
    using assms(5,6) lens by (auto simp: outcome_iff range_ok_def)
  have lenp: "4 + length p = le_nat lb" using p lens by simp
  have lt: "le_nat lb < 65536" using le_nat_less [of lb] lb by simp
  have hd2: "take 2 xs = [t, s]"
    using assms(1-3) by (cases xs; cases "tl xs") (auto simp: outcome_iff numeral_2_eq_2)
  have "xs = take 2 xs @ take 2 (drop 2 xs) @ take (le_nat lb - 4) (drop 4 xs) @ drop (le_nat lb) xs"
    using lens
    by (metis (no_types, lifting) append.assoc append_take_drop_id drop_drop le_add_diff_inverse2
        numeral_Bit0 one_add_one take_add)
  then have "xs = [t, s] @ lb @ p @ rest" using hd2 lb p rest by simp
  moreover have "le_bytes 2 (4 + length p) = lb"
    using le_bytes_le_nat [of lb] lb lenp by simp
  ultimately show ?thesis using lenp lt by simp
qed

lemma get_nested_paths_OkE:
  assumes "get_nested_paths E xs r = Ok r'"
  obtains t s p rest out where "xs = encode_node (t, s, p) @ rest" "node_ok (t, s, p)"
    "print_path E t s p = Ok out"
    "rest = [] \<and> r' = push_path r out \<or>
     rest \<noteq> [] \<and> get_nested_paths E rest (push_path r out) = Ok r'"
proof -
  from assms obtain t s lb where
    hdr: "(index xs 0 :: (string, byte) outcome) = Ok t"
      "(index xs 1 :: (string, byte) outcome) = Ok s"
      "(slice xs 2 4 :: (string, bytes) outcome) = Ok lb"
    and body: "and_then (slice xs 4 (le_nat lb)) (\<lambda>p.
      and_then (slice xs (le_nat lb) (length xs)) (\<lambda>rest.
      and_then (print_path E t s p) (\<lambda>out.
        if rest = [] then Ok (push_path r out)
        else get_nested_paths E rest (push_path r out)))) = Ok r'"
    unfolding get_nested_paths.simps [of E xs r] Let_def
    by (auto simp: and_then_Ok_iff [of "index _ _"] and_then_Ok_iff [of "slice _ 2 4"]
        split: if_split_asm)
  from body obtain p rest out where
    sl: "(slice xs 4 (le_nat lb) :: (string, bytes) outcome) = Ok p"
      "(slice xs (le_nat lb) (length xs) :: (string, bytes) outcome) = Ok rest"
    and out: "print_path E t s p = Ok out"
    and fin: "rest = [] \<and> r' = push_path r out \<or>
     rest \<noteq> [] \<and> get_nested_paths E rest (push_path r out) = Ok r'"
    by (auto simp: and_then_Ok_iff split: if_split_asm)
  have "2 \<le> length xs" using hdr(2) by (auto simp: outcome_iff)
  from node_of_bytes [OF this hdr sl] out fin show thesis
    by (elim conjE) (rule that)
qed

lemma get_nested_paths_decode:
  "get_nested_paths E xs r = Ok r' \<Longrightarrow>
     \<exists>nodes outs. nodes \<noteq> [] \<and> xs = concat (map encode_node nodes) \<and>
       (\<forall>nd \<in> set nodes. node_ok nd) \<and> list_all2 (prints E) nodes outs \<and>
       r' = foldl push_path r outs"
proof (induction xs arbitrary: r rule: length_induct)
  case (1 xs)
  from "1.prems" obtain t s p rest out where
    xs: "xs = encode_node (t, s, p) @ rest" and ok: "node_ok (t, s, p)"
    and out: "print_path E t s p = Ok out"
    and fin: "rest = [] \<and> r' = push_path r out \<or>
     rest \<noteq> [] \<and> get_nested_paths E rest (push_path r out) = Ok r'"
    by (rule get_nested_paths_OkE)
  from fin show ?case
  proof (elim disjE conjE)
    assume "rest = []" "r' = push_path r out"
    with xs ok out show ?thesis
      by (intro exI [of _ "[(t, s, p)]"] exI [of _ "[out]"]) simp
  next
    assume "get_nested_paths E rest (push_path r out) = Ok r'"
    moreover have "length rest < length xs" using xs by simp
    ultimately obtain nodes outs where
      "nodes \<noteq> []" "rest = concat (map encode_node nodes)" "\<forall>nd \<in> set nodes. node_ok nd"
      "list_all2 (prints E) nodes outs" "r' = foldl push_path (push_path r out) outs"
      using "1.IH" by blast
    with xs ok out show ?thesis
      by (intro exI [of _ "(t, s, p) # nodes"] exI [of _ "out # outs"]) simp
  qed
qed

lemma foldl_push_path:
  "foldl push_path (r\<lparr>device_paths := Some ps\<rparr>) outs = r\<lparr>device_paths := Some (ps @ outs)\<rparr>"
  by (induction outs arbitrary: ps) (simp_all add: push_path_def)

lemma foldl_push_path_empty:
  "outs \<noteq> [] \<Longrightarrow>
     foldl push_path EventDetails_empty outs = EventDetails_empty\<lparr>device_paths := Some outs\<rparr>"
proof (cases outs)
  case (Cons p ps)
  have "push_path EventDetails_empty p = EventDetails_empty\<lparr>device_paths := Some [p]\<rparr>"
    by (simp add: push_path_def EventDetails_empty_def)
  with Cons show ?thesis by (simp add: foldl_push_path)
qed simp

end
