(* ===== verification/Eventlog.thy ===== *)
theory Eventlog
  imports Event_Data
begin

text \<open>
  The CC event log of \<^verbatim>\<open>deps/eventlog/src/lib.rs\<close>: parsing a binary log
  (\<^verbatim>\<open>CcEventLog::try_from\<close>) and replaying its digests into measurement registers
  (\<^verbatim>\<open>CcEventLog::replay_and_match\<close>).

  The lemmas show that replaying computes the hash extend chain of the register's digests in log
  order, that a match fixes the digest sequence up to a hash collision, that parsing consumes
  the log monotonically (so its loop ends), and that it recovers the entries of an encoded log.
\<close>

section \<open>Types\<close>

record EventlogEntry =
  details :: EventDetails
  digest_matches_event :: bool
  digests :: "ElDigest list"
  event :: string
  entry_index :: u32
  event_type :: TcgEventType

record CcEventLog =
  log :: "EventlogEntry list"

record ReferenceMeasurement =
  rm_index :: u32
  algorithm :: TcgAlgorithm
  reference :: bytes

section \<open>Replay\<close>

text \<open>The \<^verbatim>\<open>HashMap<u32, Vec<ElDigest>>\<close> is a map; \<^verbatim>\<open>entry(i).or_default()\<close> inserts an empty vector.\<close>

definition or_default :: "(u32 \<rightharpoonup> ElDigest list) \<Rightarrow> u32 \<Rightarrow> ElDigest list" where
  "or_default m i = (case m i of None \<Rightarrow> [] | Some ds \<Rightarrow> ds)"

definition collect_digests_by_index :: "EventlogEntry list \<Rightarrow> (u32 \<rightharpoonup> ElDigest list)" where
  "collect_digests_by_index ccel =
     foldl (\<lambda>result e. result(entry_index e \<mapsto> or_default result (entry_index e) @ digests e))
       Map.empty ccel"

definition accumulate_hash ::
    "crates \<Rightarrow> TcgAlgorithm \<Rightarrow> bytes \<Rightarrow> bytes \<Rightarrow> (string, bytes) outcome" where
  "accumulate_hash E a materials d =
     (case hash_alg E a of
        Some h \<Rightarrow> Ok (h (materials @ d))
      | None \<Rightarrow> Err (''Unsupported Hash algorithm '' @ TcgAlgorithm_debug a))"

fun replay_loop ::
    "crates \<Rightarrow> TcgAlgorithm \<Rightarrow> bytes \<Rightarrow> ElDigest list \<Rightarrow> (string, bytes) outcome" where
  "replay_loop E a materials [] = Ok materials"
| "replay_loop E a materials (d # ds) =
     and_then (accumulate_hash E a materials (digest d)) (\<lambda>m. replay_loop E a m ds)"

definition replay ::
    "crates \<Rightarrow> (u32 \<rightharpoonup> ElDigest list) \<Rightarrow> u32 \<Rightarrow> TcgAlgorithm \<Rightarrow> (string, bytes) outcome" where
  "replay E digest_map i a =
     and_then (get_digest_size a) (\<lambda>digest_size.
       let materials = replicate digest_size 0 in
       (case digest_map i of
          Some ds \<Rightarrow> replay_loop E a materials (filter (\<lambda>d. alg d = a) ds)
        | None \<Rightarrow> Ok materials))"

text \<open>The error of a mismatch carries the register, the calculated and the given value.\<close>

datatype replay_error =
    ReplayFailed string
  | RegisterMismatch u32 bytes bytes

fun match_loop ::
    "crates \<Rightarrow> (u32 \<rightharpoonup> ElDigest list) \<Rightarrow> ReferenceMeasurement list \<Rightarrow>
     (replay_error, unit) outcome" where
  "match_loop E m [] = Ok ()"
| "match_loop E m (item # items) =
     and_then (map_err ReplayFailed (replay E m (rm_index item) (algorithm item)))
       (\<lambda>calculated.
         if calculated \<noteq> reference item
         then Err (RegisterMismatch (rm_index item) calculated (reference item))
         else match_loop E m items)"

definition replay_and_match ::
    "crates \<Rightarrow> CcEventLog \<Rightarrow> ReferenceMeasurement list \<Rightarrow> (replay_error, unit) outcome" where
  "replay_and_match E self data = match_loop E (collect_digests_by_index (log self)) data"

section \<open>Parsing\<close>

type_synonym size_map = "TcgAlgorithm \<rightharpoonup> nat"

text \<open>\<^verbatim>\<open>for _ in 0..algo_size\<close> of \<^verbatim>\<open>parse_digest_sizes\<close>, with the cursor and the map as state.\<close>

fun digest_sizes_loop ::
    "crates \<Rightarrow> nat \<Rightarrow> bytes \<Rightarrow> nat \<Rightarrow> size_map \<Rightarrow> (string, nat \<times> size_map) outcome" where
  "digest_sizes_loop E 0 data i m = Ok (i, m)"
| "digest_sizes_loop E (Suc n) data i m =
     and_then (gread E 2 data i ''Cannot read algorithm id'') (\<lambda>(algo_id, i).
     and_then (gread E 2 data i ''Cannot read algorithm size'') (\<lambda>(size, i).
     and_then (ok_or (''Unknown algorithm type detected: '' @ fmt_hex False 0 algo_id)
                 (TcgAlgorithm_try_from (word_of_nat algo_id))) (\<lambda>a.
       digest_sizes_loop E n data i (m(a \<mapsto> size)))))"

definition parse_digest_sizes ::
    "crates \<Rightarrow> bytes \<Rightarrow> size_map \<Rightarrow> (string, nat \<times> size_map) outcome" where
  "parse_digest_sizes E data m =
     and_then (gread E 4 data 24 ''Cannot read algorithm array size'') (\<lambda>(algo_size, i).
     and_then (digest_sizes_loop E algo_size data i m) (\<lambda>(i, m).
     and_then (index data i) (\<lambda>v.
       let vendor_size = unat v in Ok (i + (vendor_size + 1), m))))"

definition parse_initial_entry ::
    "crates \<Rightarrow> bytes \<Rightarrow> nat \<Rightarrow> size_map \<Rightarrow> (string, nat \<times> size_map) outcome" where
  "parse_initial_entry E data i m =
     and_then (gread E 4 data i ''Cannot read PCR index'') (\<lambda>(pcr_index, i).
     and_then (gread E 4 data i ''Cannot read event type number'') (\<lambda>(event_type_num, i).
     and_then (ok_or (''Unknown event type detected: 0x'' @ fmt_hex False 0 event_type_num)
                 (TcgEventType_try_from (word_of_nat event_type_num))) (\<lambda>t.
     let i = i + 20 in
     and_then (gread E 4 data i ''Cannot read event data size'') (\<lambda>(event_data_size, i).
     if EvNoAction = t then
       let start = i in
       and_then (ok_or ''Overflow in calculating digest_data range''
                   (checked_add_usize start event_data_size)) (\<lambda>stop.
       and_then (ok_or ''Out of bounds while reading digest_data'' (get_range data start stop))
         (\<lambda>digest_data.
       and_then (parse_digest_sizes E digest_data m) (\<lambda>(actual_size, m).
       if actual_size \<noteq> event_data_size
       then Err ''Unexpected data size consumed for detecting digests''
       else Ok (stop, m))))
     else Ok (i, m)))))"

text \<open>\<^verbatim>\<open>for _ in 0..digest_count\<close> of \<^verbatim>\<open>parse_digests\<close>.\<close>

fun digests_loop ::
    "crates \<Rightarrow> nat \<Rightarrow> bytes \<Rightarrow> nat \<Rightarrow> size_map \<Rightarrow> ElDigest list \<Rightarrow>
     (string, ElDigest list \<times> nat) outcome" where
  "digests_loop E 0 data i m acc = Ok (acc, i)"
| "digests_loop E (Suc n) data i m acc =
     and_then (gread E 2 data i ''Cannot read algorithm id'') (\<lambda>(algo_id, i).
     and_then (ok_or (''Unknown algorithm type detected: '' @ fmt_hex False 0 algo_id)
                 (TcgAlgorithm_try_from (word_of_nat algo_id))) (\<lambda>a.
     and_then (ok_or (''Missing digest size for algorithm: '' @ fmt_hex False 0 algo_id) (m a)) (\<lambda>size.
     and_then (slice data i (i + size)) (\<lambda>d.
       digests_loop E n data (i + size) m (acc @ [\<lparr>alg = a, digest = d\<rparr>])))))"

definition parse_digests ::
    "crates \<Rightarrow> bytes \<Rightarrow> nat \<Rightarrow> size_map \<Rightarrow> (string, ElDigest list \<times> nat) outcome" where
  "parse_digests E data i m =
     and_then (gread E 4 data i ''Cannot read digest count'') (\<lambda>(digest_count, i).
       digests_loop E digest_count data i m [])"

definition parse_eventlog_entry ::
    "crates \<Rightarrow> bool \<Rightarrow> bytes \<Rightarrow> nat \<Rightarrow> size_map \<Rightarrow>
     (string, EventlogEntry option \<times> nat) outcome" where
  "parse_eventlog_entry E chk data i m =
     and_then (gread E 8 data i ''Failed to read potential stop flag'') (\<lambda>(stop_flag, i').
     if stop_flag = 0xFFFFFFFFFFFFFFFF \<or> stop_flag = 0x0000000000000000 then Ok (None, 0)
     else
       and_then (gread E 4 data i ''Cannot read target measurement registry'') (\<lambda>(reg, i).
       and_then (gread E 4 data i ''Cannot read event type number'') (\<lambda>(event_type_num, i).
       and_then (ok_or (''Unknown event type detected: 0x'' @ fmt_hex False 0 event_type_num)
                   (TcgEventType_try_from (word_of_nat event_type_num))) (\<lambda>t.
       and_then (parse_digests E data i m) (\<lambda>(ds, i).
       and_then (gread E 4 data i ''Cannot read event data size'') (\<lambda>(event_data_size, i).
       if length data < event_data_size
       then Err (''Data is too short: expected at least '' @ fmt_dec event_data_size @ '' bytes'')
       else
         and_then (slice data i (i + event_data_size)) (\<lambda>event_data_raw.
         let i = i + event_data_size in
         and_then (compare_digests E event_data_raw ds) (\<lambda>matches.
         and_then (parser_parse E chk (get_parser t) event_data_raw) (\<lambda>event_result.
           Ok (Some \<lparr>details = event_result, digest_matches_event = matches, digests = ds,
                    event = base64_encode E event_data_raw,
                    entry_index = word_of_nat reg, event_type = t\<rparr>, i))))))))))"

lemma digests_loop_advances:
  "digests_loop E n data i m acc = Ok (ds, j) \<Longrightarrow> i + 2 * n \<le> j"
proof (induction n arbitrary: i acc)
  case 0
  then show ?case by simp
next
  case (Suc n)
  then show ?case by (fastforce simp: outcome_iff)
qed

lemma parse_digests_advances: "parse_digests E data i m = Ok (ds, j) \<Longrightarrow> i + 4 \<le> j"
  by (auto simp: parse_digests_def outcome_iff dest: digests_loop_advances)

lemma parse_eventlog_entry_advances:
  "parse_eventlog_entry E chk data i m = Ok (Some e, j) \<Longrightarrow> i + 16 \<le> j"
  by (auto simp: parse_eventlog_entry_def outcome_iff Let_def split: if_splits
      dest!: parse_digests_advances)

lemma parse_eventlog_entry_stop:
  "parse_eventlog_entry E chk data i m = Ok (None, j) \<Longrightarrow> j = 0"
  by (auto simp: parse_eventlog_entry_def outcome_iff Let_def split: if_splits)

text \<open>
  \<^verbatim>\<open>while index < data.len()\<close>: an entry advances the cursor (by at least 16 bytes), a stop flag
  comes back as cursor 0 and ends the loop.
\<close>

function parse_loop ::
    "crates \<Rightarrow> bool \<Rightarrow> bytes \<Rightarrow> nat \<Rightarrow> size_map \<Rightarrow> EventlogEntry list \<Rightarrow>
     (string, EventlogEntry list) outcome" where
  "parse_loop E chk data i m acc =
     (if i < length data then
        and_then (parse_eventlog_entry E chk data i m) (\<lambda>(entry_opt, j).
          (case entry_opt of
             Some entry \<Rightarrow> parse_loop E chk data j m (acc @ [entry])
           | None \<Rightarrow> if j = 0 then Ok acc else parse_loop E chk data j m acc))
      else Ok acc)"
  by pat_completeness auto
termination
  by (relation "measure (\<lambda>(E, chk, data, i, m, acc). length data - i)")
    (auto dest: parse_eventlog_entry_advances parse_eventlog_entry_stop)

declare parse_loop.simps [simp del]

definition CcEventLog_try_from :: "crates \<Rightarrow> bool \<Rightarrow> bytes \<Rightarrow> (string, CcEventLog) outcome" where
  "CcEventLog_try_from E chk data =
     and_then (parse_initial_entry E data 0 Map.empty) (\<lambda>(i, m).
     and_then (parse_loop E chk data i m []) (\<lambda>event_log.
       Ok \<lparr>log = event_log\<rparr>))"

section \<open>Replay computes the extend chain\<close>

text \<open>
  The specification of a measurement register: starting from zeros, each digest of the register
  extends it by hashing the old value followed by the digest.
\<close>

definition register_digests :: "EventlogEntry list \<Rightarrow> u32 \<Rightarrow> TcgAlgorithm \<Rightarrow> bytes list" where
  "register_digests es i a =
     map digest (filter (\<lambda>d. alg d = a)
       (concat (map digests (filter (\<lambda>e. entry_index e = i) es))))"

definition extend_chain :: "(bytes \<Rightarrow> bytes) \<Rightarrow> nat \<Rightarrow> bytes list \<Rightarrow> bytes" where
  "extend_chain h n ds = foldl (\<lambda>m d. h (m @ d)) (replicate n 0) ds"

lemma collect_loop:
  "foldl (\<lambda>result e. result(entry_index e \<mapsto> or_default result (entry_index e) @ digests e)) m es i =
     (if \<exists>e \<in> set es. entry_index e = i
      then Some (or_default m i @ concat (map digests (filter (\<lambda>e. entry_index e = i) es)))
      else m i)"
  by (induction es arbitrary: m) (auto simp: or_default_def)

lemma collect_digests_by_index_eq:
  "collect_digests_by_index es i =
     (if \<exists>e \<in> set es. entry_index e = i
      then Some (concat (map digests (filter (\<lambda>e. entry_index e = i) es))) else None)"
  by (simp add: collect_digests_by_index_def collect_loop) (simp add: or_default_def)

lemma replay_loop_hashed:
  "hash_alg E a = Some h \<Longrightarrow>
     replay_loop E a m ds = Ok (foldl (\<lambda>m d. h (m @ d)) m (map digest ds))"
  by (induction ds arbitrary: m) (auto simp: accumulate_hash_def)

lemma replay_loop_no_panic [simp]: "replay_loop E a m ds \<noteq> Panic"
  by (induction ds arbitrary: m) (auto simp: accumulate_hash_def outcome_iff split: option.splits)

lemma replay_no_panic [simp]: "replay E m i a \<noteq> Panic"
  by (auto simp: replay_def outcome_iff Let_def split: option.splits)

lemma hash_alg_size: "hash_alg E a = Some h \<Longrightarrow> \<exists>n. get_digest_size a = Ok n"
  by (cases a) (auto simp: hash_alg_def get_digest_size_def)

lemma hash_alg_length:
  "digest_lengths E \<Longrightarrow> hash_alg E a = Some h \<Longrightarrow> get_digest_size a = Ok n \<Longrightarrow> length (h x) = n"
  by (cases a) (auto simp: hash_alg_def get_digest_size_def digest_lengths_def)

lemma replay_collect:
  assumes "hash_alg E a = Some h" and "get_digest_size a = Ok n"
  shows "replay E (collect_digests_by_index es) i a =
    Ok (extend_chain h n (register_digests es i a))"
proof (cases "\<exists>e \<in> set es. entry_index e = i")
  case True
  then show ?thesis
    using assms by (simp add: replay_def collect_digests_by_index_eq replay_loop_hashed
        register_digests_def extend_chain_def)
next
  case False
  then have "filter (\<lambda>e. entry_index e = i) es = []"
    by (simp add: filter_empty_conv)
  with False assms show ?thesis
    by (simp add: replay_def collect_digests_by_index_eq register_digests_def extend_chain_def)
qed

lemma match_loop_Ok_iff:
  "match_loop E m items = Ok () \<longleftrightarrow>
     (\<forall>item \<in> set items. replay E m (rm_index item) (algorithm item) = Ok (reference item))"
  by (induction items) (auto simp: outcome_iff)

lemma match_loop_no_panic [simp]: "match_loop E m items \<noteq> Panic"
  by (induction items) (auto simp: outcome_iff)

section \<open>A register value fixes its digests up to a collision\<close>

definition zero_preimage :: "(bytes \<Rightarrow> bytes) \<Rightarrow> nat \<Rightarrow> bool" where
  "zero_preimage h n \<longleftrightarrow> (\<exists>x. h x = replicate n 0)"

lemma extend_chain_snoc:
  "extend_chain h n (ds @ [d]) = h (extend_chain h n ds @ d)"
  by (simp add: extend_chain_def)

lemma extend_chain_length:
  "(\<And>x. length (h x) = n) \<Longrightarrow> length (extend_chain h n ds) = n"
  by (induction ds rule: rev_induct) (simp_all add: extend_chain_snoc, simp add: extend_chain_def)

lemma extend_chain_binding:
  assumes len: "\<And>x. length (h x) = n"
    and "extend_chain h n ds = extend_chain h n ds'"
  shows "ds = ds' \<or> collision h \<or> zero_preimage h n"
  using assms(2)
proof (induction ds arbitrary: ds' rule: rev_induct)
  case Nil
  show ?case
  proof (cases ds' rule: rev_cases)
    case (snoc es e)
    with Nil have "h (extend_chain h n es @ e) = replicate n 0"
      by (simp add: extend_chain_snoc) (simp add: extend_chain_def)
    then show ?thesis by (auto simp: zero_preimage_def)
  qed simp
next
  case (snoc d ds)
  show ?case
  proof (cases ds' rule: rev_cases)
    case Nil
    with snoc.prems show ?thesis
      by (auto simp: extend_chain_snoc zero_preimage_def extend_chain_def)
  next
    case (snoc es e)
    with snoc.prems have eq: "h (extend_chain h n ds @ d) = h (extend_chain h n es @ e)"
      by (simp add: extend_chain_snoc)
    show ?thesis
    proof (cases "collision h")
      case False
      with eq have "extend_chain h n ds @ d = extend_chain h n es @ e"
        by (auto simp: collision_def)
      then have "extend_chain h n ds = extend_chain h n es \<and> d = e"
        using extend_chain_length [of h n, OF len] by (simp add: append_eq_append_conv)
      with snoc.IH snoc show ?thesis by auto
    qed simp
  qed
qed

section \<open>What a parsed entry says\<close>

definition entry_faithful :: "crates \<Rightarrow> bool \<Rightarrow> EventlogEntry \<Rightarrow> bytes \<Rightarrow> bool" where
  "entry_faithful E chk e raw \<longleftrightarrow>
     event e = base64_encode E raw \<and>
     compare_digests E raw (digests e) = Ok (digest_matches_event e) \<and>
     parser_parse E chk (get_parser (event_type e)) raw = Ok (details e)"

lemma parse_eventlog_entry_SomeE:
  assumes "parse_eventlog_entry E chk data i m = Ok (Some e, j)"
  obtains reg num k n where
    "pread E 4 data i = Some reg" "entry_index e = word_of_nat reg"
    "pread E 4 data (i + 4) = Some num" "TcgEventType_try_from (word_of_nat num) = Some (event_type e)"
    "parse_digests E data (i + 8) m = Ok (digests e, k)"
    "pread E 4 data k = Some n" "j = k + 4 + n" "range_ok data (k + 4) j"
    "entry_faithful E chk e (take n (drop (k + 4) data))"
  using assms
  by (auto simp: parse_eventlog_entry_def entry_faithful_def outcome_iff Let_def add.assoc
      split: if_splits)

lemma parse_eventlog_entry_faithful:
  assumes "parse_eventlog_entry E chk data i m = Ok (Some e, j)"
  shows "j \<le> length data \<and> (\<exists>k \<le> j. entry_faithful E chk e (take (j - k) (drop k data)))"
proof -
  from assms obtain k n where "j = k + 4 + n" "range_ok data (k + 4) j"
    "entry_faithful E chk e (take n (drop (k + 4) data))"
    by (rule parse_eventlog_entry_SomeE)
  then show ?thesis by (intro conjI exI [of _ "k + 4"]) (auto simp: range_ok_def)
qed

lemma parse_loop_invariant:
  "parse_loop E chk data i m acc = Ok es \<Longrightarrow> i \<le> length data \<Longrightarrow>
     \<exists>new. es = acc @ new \<and> 16 * length new \<le> length data - i \<and>
       (\<forall>e \<in> set new. \<exists>k j. k \<le> j \<and> j \<le> length data \<and>
          entry_faithful E chk e (take (j - k) (drop k data)))"
proof (induction E chk data i m acc rule: parse_loop.induct)
  case (1 E chk data i m acc)
  show ?case
  proof (cases "i < length data")
    case False
    with "1.prems" show ?thesis by (subst (asm) parse_loop.simps) simp
  next
    case True
    with "1.prems" obtain eo j where step: "parse_eventlog_entry E chk data i m = Ok (eo, j)"
      by (subst (asm) parse_loop.simps) (auto simp: and_then_Ok_iff)
    show ?thesis
    proof (cases eo)
      case None
      with step have "j = 0" by (simp add: parse_eventlog_entry_stop)
      with "1.prems" True step None show ?thesis by (subst (asm) parse_loop.simps) simp
    next
      case (Some e)
      have adv: "i + 16 \<le> j" using step Some by (simp add: parse_eventlog_entry_advances)
      obtain k where e: "j \<le> length data" "k \<le> j"
        "entry_faithful E chk e (take (j - k) (drop k data))"
        using parse_eventlog_entry_faithful step Some by blast
      have "parse_loop E chk data j m (acc @ [e]) = Ok es"
        using "1.prems"(1) True step Some by (subst (asm) parse_loop.simps) simp
      then obtain new where "es = (acc @ [e]) @ new" "16 * length new \<le> length data - j"
        "\<forall>e \<in> set new. \<exists>k j. k \<le> j \<and> j \<le> length data \<and>
          entry_faithful E chk e (take (j - k) (drop k data))"
        using "1.IH"(2) [of "(eo, j)" eo j e] True step Some e(1) by auto
      with e adv show ?thesis by (intro exI [of _ "e # new"]) auto
    qed
  qed
qed

section \<open>Encoding a log\<close>

text \<open>
  The binary layout of an entry, as the TCG profile defines \<^verbatim>\<open>TCG_PCR_EVENT2\<close>. An \<open>event_src\<close> is
  what firmware measures: register, event type, digests, event data.
\<close>

type_synonym event_src = "u32 \<times> TcgEventType \<times> ElDigest list \<times> bytes"

definition encode_digest :: "ElDigest \<Rightarrow> bytes" where
  "encode_digest d = le_bytes 2 (unat (TcgAlgorithm_repr (alg d))) @ digest d"

fun encode_entry :: "event_src \<Rightarrow> bytes" where
  "encode_entry (reg, t, ds, raw) =
     le_bytes 4 (unat reg) @ le_bytes 4 (unat (TcgEventType_repr t)) @ le_bytes 4 (length ds)
     @ concat (map encode_digest ds) @ le_bytes 4 (length raw) @ raw"

text \<open>
  Side conditions: the counts fit their fields, each digest has the size announced for its
  algorithm, the event does not look like the stop flag, and the hash and event data parsers
  accept it.
\<close>

definition digest_sized :: "size_map \<Rightarrow> ElDigest \<Rightarrow> bool" where
  "digest_sized m d \<longleftrightarrow> m (alg d) = Some (length (digest d))"

fun event_ok :: "crates \<Rightarrow> bool \<Rightarrow> size_map \<Rightarrow> event_src \<Rightarrow> EventlogEntry \<Rightarrow> bool" where
  "event_ok E chk m (reg, t, ds, raw) e \<longleftrightarrow>
     length ds < 2 ^ 32 \<and> length raw < 2 ^ 32 \<and> (\<forall>d \<in> set ds. digest_sized m d) \<and>
     (reg \<noteq> 0 \<or> t \<noteq> EvPrebootCert) \<and>
     entry_index e = reg \<and> event_type e = t \<and> digests e = ds \<and> entry_faithful E chk e raw"

lemma pread_at:
  assumes "scroll_le E" and "length pre = i" and "v < 256 ^ n"
  shows "pread E n (pre @ le_bytes n v @ post) i = Some v"
  using assms by (simp add: scroll_le_def le_nat_le_bytes_id)

lemma gread_at:
  assumes "scroll_le E" and "length pre = i" and "v < 256 ^ n"
  shows "gread E n (pre @ le_bytes n v @ post) i e = Ok (v, i + n)"
  using pread_at [OF assms] by (simp add: gread_def)

lemma slice_at:
  "length pre = i \<Longrightarrow> length mid = n \<Longrightarrow> slice (pre @ mid @ post) i (i + n) = Ok mid"
  by (simp add: slice_def range_ok_def)

lemma TcgAlgorithm_repr_small: "unat (TcgAlgorithm_repr a) < 256 ^ 2"
  by (cases a) simp_all

lemma unat_u32_less: "unat (w :: u32) < 256 ^ 4"
  using bounds(1) [of w] by simp

lemma ElDigest_eta [simp]: "\<lparr>alg = alg d, digest = digest d\<rparr> = d"
  by (cases d) simp

lemma digests_loop_encode:
  assumes "scroll_le E" and "\<forall>d \<in> set ds. digest_sized m d"
  shows "length pre = i \<Longrightarrow>
    digests_loop E (length ds) (pre @ concat (map encode_digest ds) @ post) i m acc =
      Ok (acc @ ds, i + length (concat (map encode_digest ds)))"
  using assms(2)
proof (induction ds arbitrary: pre i acc)
  case Nil
  then show ?case by simp
next
  case (Cons d ds)
  let ?aid = "le_bytes 2 (unat (TcgAlgorithm_repr (alg d)))"
  let ?rest = "concat (map encode_digest ds) @ post"
  have whole: "pre @ concat (map encode_digest (d # ds)) @ post = pre @ ?aid @ digest d @ ?rest"
    by (simp add: encode_digest_def)
  have g: "gread E 2 (pre @ ?aid @ digest d @ ?rest) i e =
      Ok (unat (TcgAlgorithm_repr (alg d)), i + 2)" for e :: string
    by (rule gread_at [OF assms(1) Cons.prems(1) TcgAlgorithm_repr_small])
  have sl: "slice (pre @ ?aid @ digest d @ ?rest) (i + 2) (i + 2 + length (digest d)) =
      (Ok (digest d) :: (string, bytes) outcome)"
    using slice_at [of "pre @ ?aid" "i + 2" "digest d" "length (digest d)" ?rest] Cons.prems(1)
    by simp
  have sz: "m (alg d) = Some (length (digest d))"
    using Cons.prems(2) by (simp add: digest_sized_def)
  have "digests_loop E (length (d # ds)) (pre @ ?aid @ digest d @ ?rest) i m acc =
      digests_loop E (length ds) ((pre @ encode_digest d) @ ?rest)
        (i + length (encode_digest d)) m (acc @ [d])"
    using g sl sz by (simp add: encode_digest_def add.assoc)
  also have "\<dots> = Ok ((acc @ [d]) @ ds,
      i + length (encode_digest d) + length (concat (map encode_digest ds)))"
    using Cons.prems by (intro Cons.IH) simp_all
  finally show ?case using whole by simp
qed

lemma parse_digests_encode:
  assumes "scroll_le E" "length ds < 2 ^ 32" "\<forall>d \<in> set ds. digest_sized m d" "length pre = i"
  shows "parse_digests E (pre @ le_bytes 4 (length ds) @ concat (map encode_digest ds) @ post) i m =
    Ok (ds, i + 4 + length (concat (map encode_digest ds)))"
proof -
  have "gread E 4 (pre @ le_bytes 4 (length ds) @ concat (map encode_digest ds) @ post) i e =
      Ok (length ds, i + 4)" for e :: string
    using assms by (intro gread_at) simp_all
  moreover have "digests_loop E (length ds)
      ((pre @ le_bytes 4 (length ds)) @ concat (map encode_digest ds) @ post) (i + 4) m [] =
      Ok ([] @ ds, i + 4 + length (concat (map encode_digest ds)))"
    using assms by (intro digests_loop_encode) simp_all
  ultimately show ?thesis by (simp add: parse_digests_def)
qed

lemma TcgEventType_repr_bound: "unat (TcgEventType_repr t) < 0xFFFFFFFF"
  by (cases t) simp_all

lemma TcgEventType_repr_zero: "unat (TcgEventType_repr t) = 0 \<longleftrightarrow> t = EvPrebootCert"
  by (cases t) simp_all

lemma stop_flag_encode:
  assumes "scroll_le E" and "length pre = i"
  obtains w where
    "gread E 8 (pre @ le_bytes 4 (unat (reg :: u32)) @ le_bytes 4 (unat (TcgEventType_repr t)) @ post)
       i (e :: string) = Ok (w, i + 8)"
    "w \<noteq> 0xFFFFFFFFFFFFFFFF" "w = 0 \<longleftrightarrow> reg = 0 \<and> t = EvPrebootCert"
proof
  let ?a = "unat reg" and ?b = "unat (TcgEventType_repr t)"
  have ab: "?a < 256 ^ 4" "?b < 256 ^ 4" by (rule unat_u32_less)+
  have "take 8 (le_bytes 4 ?a @ le_bytes 4 ?b @ post) = le_bytes 4 ?a @ le_bytes 4 ?b"
    by simp
  then have "pread E 8 (pre @ le_bytes 4 ?a @ le_bytes 4 ?b @ post) i = Some (?a + 256 ^ 4 * ?b)"
    using assms ab by (simp add: scroll_le_def le_nat_append le_nat_le_bytes_id)
  then show "gread E 8 (pre @ le_bytes 4 ?a @ le_bytes 4 ?b @ post) i e =
      Ok (?a + 256 ^ 4 * ?b, i + 8)"
    by (simp add: gread_def)
  show "?a + 256 ^ 4 * ?b \<noteq> 0xFFFFFFFFFFFFFFFF"
    using ab TcgEventType_repr_bound [of t] by simp
  show "?a + 256 ^ 4 * ?b = 0 \<longleftrightarrow> reg = 0 \<and> t = EvPrebootCert"
    by (simp add: unat_eq_0 flip: TcgEventType_repr_zero)
qed

text \<open>An entry up to its event data, whose announced length is \<open>n\<close>.\<close>

definition encode_head :: "u32 \<Rightarrow> TcgEventType \<Rightarrow> ElDigest list \<Rightarrow> nat \<Rightarrow> bytes" where
  "encode_head reg t ds n =
     le_bytes 4 (unat reg) @ le_bytes 4 (unat (TcgEventType_repr t)) @ le_bytes 4 (length ds)
     @ concat (map encode_digest ds) @ le_bytes 4 n"

definition head_ok :: "size_map \<Rightarrow> u32 \<Rightarrow> TcgEventType \<Rightarrow> ElDigest list \<Rightarrow> nat \<Rightarrow> bool" where
  "head_ok m reg t ds n \<longleftrightarrow>
     length ds < 2 ^ 32 \<and> n < 2 ^ 32 \<and> (\<forall>d \<in> set ds. digest_sized m d) \<and>
     (reg \<noteq> 0 \<or> t \<noteq> EvPrebootCert)"

lemma length_encode_head:
  "length (encode_head reg t ds n) = 16 + length (concat (map encode_digest ds))"
  by (simp add: encode_head_def)

lemma parse_eventlog_entry_head:
  assumes E: "scroll_le E" and ok: "head_ok m reg t ds n" and i: "length pre = i"
    and j: "j = i + length (encode_head reg t ds n)"
    and len: "n \<le> length (pre @ encode_head reg t ds n @ post)"
  shows "parse_eventlog_entry E chk (pre @ encode_head reg t ds n @ post) i m =
    and_then (slice (pre @ encode_head reg t ds n @ post) j (j + n)) (\<lambda>raw.
    and_then (compare_digests E raw ds) (\<lambda>matches.
    and_then (parser_parse E chk (get_parser t) raw) (\<lambda>r.
      Ok (Some \<lparr>details = r, digest_matches_event = matches, digests = ds,
               event = base64_encode E raw, entry_index = reg, event_type = t\<rparr>, j + n))))"
proof -
  let ?r = "le_bytes 4 (unat reg)" and ?t = "le_bytes 4 (unat (TcgEventType_repr t))"
  let ?c = "le_bytes 4 (length ds)" and ?d = "concat (map encode_digest ds)" and ?l = "le_bytes 4 n"
  let ?all = "pre @ ?r @ ?t @ ?c @ ?d @ ?l @ post"
  note ok = ok [unfolded head_ok_def]
  have all: "pre @ encode_head reg t ds n @ post = ?all" by (simp add: encode_head_def)
  obtain w where w: "gread E 8 ?all i ''Failed to read potential stop flag'' = Ok (w, i + 8)"
    "w \<noteq> 0xFFFFFFFFFFFFFFFF" "w \<noteq> 0"
    using stop_flag_encode [OF E i, of reg t "?c @ ?d @ ?l @ post"] ok by (metis append.assoc)
  have g1: "gread E 4 ?all i e = Ok (unat reg, i + 4)" for e :: string
    using E i unat_u32_less by (rule gread_at)
  have g2: "gread E 4 ?all (i + 4) e = Ok (unat (TcgEventType_repr t), i + 4 + 4)" for e :: string
    using gread_at [OF E _ unat_u32_less, of "pre @ ?r" "i + 4" "TcgEventType_repr t"
        "?c @ ?d @ ?l @ post" e] i by simp
  have pd: "parse_digests E ?all (i + 4 + 4) m = Ok (ds, i + 12 + length ?d)"
    using parse_digests_encode [OF E, of ds m "pre @ ?r @ ?t" "i + 4 + 4" "?l @ post"] ok i
    by simp
  have g3: "gread E 4 ?all (i + 12 + length ?d) e = Ok (n, j)" for e :: string
    using gread_at [OF E, of "pre @ ?r @ ?t @ ?c @ ?d" "i + 12 + length ?d" n 4 post e] ok i j
    by (simp add: length_encode_head)
  have len: "\<not> length ?all < n" using len all by simp
  show ?thesis
    unfolding all parse_eventlog_entry_def using w g1 g2 pd g3 len by (simp add: Let_def)
qed

lemma parse_eventlog_entry_encode:
  assumes E: "scroll_le E" and ok: "event_ok E chk m src e" and i: "length pre = i"
  shows "parse_eventlog_entry E chk (pre @ encode_entry src @ post) i m =
    Ok (Some e, i + length (encode_entry src))"
proof -
  obtain reg t ds raw where src: "src = (reg, t, ds, raw)" by (cases src)
  let ?h = "encode_head reg t ds (length raw)"
  have enc: "encode_entry src = ?h @ raw" by (simp add: src encode_head_def)
  have sl: "slice (pre @ ?h @ raw @ post) (i + length ?h) (i + length ?h + length raw) =
      (Ok raw :: (string, bytes) outcome)"
    using slice_at [of "pre @ ?h" "i + length ?h" raw "length raw" post] i by simp
  have "head_ok m reg t ds (length raw)" using ok by (auto simp: src head_ok_def)
  note parse_eventlog_entry_head [OF E this i refl, of "raw @ post" chk]
  moreover have "compare_digests E raw ds = Ok (digest_matches_event e)"
    "parser_parse E chk (get_parser t) raw = Ok (details e)" "event e = base64_encode E raw"
    "entry_index e = reg" "event_type e = t" "digests e = ds"
    using ok by (auto simp: entry_faithful_def src)
  ultimately show ?thesis using sl by (simp add: enc)
qed

lemma parse_eventlog_entry_truncated:
  assumes E: "scroll_le E" and ok: "head_ok m reg t ds n" and i: "length pre = i"
    and "length raw < n" and "n \<le> length (pre @ encode_head reg t ds n @ raw)"
  shows "parse_eventlog_entry E chk (pre @ encode_head reg t ds n @ raw) i m = Panic"
  using parse_eventlog_entry_head [OF E ok i refl assms(5)] assms(4) i
  by (simp add: slice_def range_ok_def)

text \<open>What may follow the last entry: nothing, or eight bytes of a stop flag and anything after.\<close>

definition log_tail :: "bytes \<Rightarrow> bool" where
  "log_tail rest_log \<longleftrightarrow>
     rest_log = [] \<or> (\<exists>x. rest_log = replicate 8 0 @ x) \<or> (\<exists>x. rest_log = replicate 8 0xFF @ x)"

lemma le_nat_zeros: "le_nat (replicate n 0) = 0"
  by (induction n) simp_all

lemma le_nat_ones: "Suc (le_nat (replicate n 0xFF)) = 256 ^ n"
  by (induction n) simp_all

lemma parse_loop_tail:
  assumes "scroll_le E" and "log_tail rest_log" and "length pre = i"
  shows "parse_loop E chk (pre @ rest_log) i m acc = Ok acc"
proof (cases "rest_log = []")
  case True
  then show ?thesis using assms by (subst parse_loop.simps) simp
next
  case False
  have zeros: "le_nat (replicate 8 0) = 0" and ones: "le_nat (replicate 8 0xFF) = 0xFFFFFFFFFFFFFFFF"
    using le_nat_zeros [of 8] le_nat_ones [of 8] by simp_all
  from False assms(2) have "le_nat (take 8 rest_log) = 0 \<or> le_nat (take 8 rest_log) = 0xFFFFFFFFFFFFFFFF"
    and len: "8 \<le> length rest_log"
    using zeros ones by (auto simp: log_tail_def)
  then have "parse_eventlog_entry E chk (pre @ rest_log) i m = Ok (None, 0)"
    using assms(1,3) by (auto simp: parse_eventlog_entry_def gread_le)
  then show ?thesis using False assms(3) by (subst parse_loop.simps) simp
qed

lemma parse_loop_entries:
  assumes E: "scroll_le E" and "list_all2 (event_ok E chk m) srcs es" and "length pre = i"
  shows "parse_loop E chk (pre @ concat (map encode_entry srcs) @ post) i m acc =
    parse_loop E chk (pre @ concat (map encode_entry srcs) @ post)
      (i + length (concat (map encode_entry srcs))) m (acc @ es)"
  using assms(2,3)
proof (induction srcs arbitrary: es pre i acc)
  case Nil
  then show ?case by simp
next
  case (Cons src srcs)
  from Cons.prems(1) obtain e es' where es: "es = e # es'" and ok: "event_ok E chk m src e"
    and rest: "list_all2 (event_ok E chk m) srcs es'"
    by (auto simp: list_all2_Cons1)
  let ?data = "pre @ encode_entry src @ concat (map encode_entry srcs) @ post"
  have "0 < length (encode_entry src)" by (cases src) simp
  then have lt: "i < length ?data" using Cons.prems(2) by simp
  have "parse_loop E chk ?data i m acc =
      parse_loop E chk ?data (i + length (encode_entry src)) m (acc @ [e])"
    using lt parse_eventlog_entry_encode [OF E ok Cons.prems(2)]
    by (subst parse_loop.simps) simp
  also have "\<dots> = parse_loop E chk ?data
      (i + length (encode_entry src) + length (concat (map encode_entry srcs))) m
      ((acc @ [e]) @ es')"
    using Cons.IH [OF rest, of "pre @ encode_entry src" "i + length (encode_entry src)" "acc @ [e]"]
      Cons.prems(2) by simp
  finally show ?case by (simp add: es add.assoc)
qed

lemma parse_loop_encode:
  assumes E: "scroll_le E" and "log_tail tail" and "list_all2 (event_ok E chk m) srcs es"
    and "length pre = i"
  shows "parse_loop E chk (pre @ concat (map encode_entry srcs) @ tail) i m acc = Ok (acc @ es)"
  using parse_loop_entries [OF E assms(3,4), of tail acc]
    parse_loop_tail [OF E assms(2), of "pre @ concat (map encode_entry srcs)"] assms(4)
  by simp

text \<open>The specification ID event that opens a log: the digest sizes, then vendor bytes.\<close>

type_synonym alg_sizes = "(TcgAlgorithm \<times> nat) list"

definition encode_sizes :: "alg_sizes \<Rightarrow> bytes" where
  "encode_sizes sizes =
     concat (map (\<lambda>(a, n). le_bytes 2 (unat (TcgAlgorithm_repr a)) @ le_bytes 2 n) sizes)"

definition encode_spec_id :: "bytes \<Rightarrow> alg_sizes \<Rightarrow> bytes \<Rightarrow> bytes" where
  "encode_spec_id sig sizes vendor =
     sig @ le_bytes 4 (length sizes) @ encode_sizes sizes @ [word_of_nat (length vendor)] @ vendor"

definition encode_header :: "u32 \<Rightarrow> bytes \<Rightarrow> bytes \<Rightarrow> alg_sizes \<Rightarrow> bytes \<Rightarrow> bytes" where
  "encode_header pcr pad sig sizes vendor =
     le_bytes 4 (unat pcr) @ le_bytes 4 (unat (TcgEventType_repr EvNoAction)) @ pad
     @ le_bytes 4 (length (encode_spec_id sig sizes vendor)) @ encode_spec_id sig sizes vendor"

definition header_ok :: "bytes \<Rightarrow> bytes \<Rightarrow> alg_sizes \<Rightarrow> bytes \<Rightarrow> bool" where
  "header_ok pad sig sizes vendor \<longleftrightarrow>
     length pad = 20 \<and> length sig = 24 \<and> (\<forall>(a, n) \<in> set sizes. n < 2 ^ 16) \<and>
     length vendor < 256 \<and> length (encode_spec_id sig sizes vendor) < 2 ^ 32"

fun put_sizes :: "size_map \<Rightarrow> alg_sizes \<Rightarrow> size_map" where
  "put_sizes m [] = m"
| "put_sizes m ((a, n) # sizes) = put_sizes (m(a \<mapsto> n)) sizes"

lemma length_encode_sizes [simp]: "length (encode_sizes sizes) = 4 * length sizes"
  by (induction sizes) (auto simp: encode_sizes_def)

lemma digest_sizes_loop_encode:
  assumes E: "scroll_le E" and "\<forall>(a, n) \<in> set sizes. n < 2 ^ 16" and "length pre = i"
  shows "digest_sizes_loop E (length sizes) (pre @ encode_sizes sizes @ post) i m =
    Ok (i + length (encode_sizes sizes), put_sizes m sizes)"
  using assms(2,3)
proof (induction sizes arbitrary: pre i m)
  case Nil
  then show ?case by (simp add: encode_sizes_def)
next
  case (Cons x sizes)
  obtain a n where x: "x = (a, n)" by (cases x)
  let ?a = "le_bytes 2 (unat (TcgAlgorithm_repr a))" and ?n = "le_bytes 2 n"
  let ?data = "pre @ ?a @ ?n @ encode_sizes sizes @ post"
  have enc: "pre @ encode_sizes (x # sizes) @ post = ?data"
    by (simp add: encode_sizes_def x)
  have g1: "gread E 2 ?data i e = Ok (unat (TcgAlgorithm_repr a), i + 2)" for e :: string
    by (rule gread_at [OF E Cons.prems(2) TcgAlgorithm_repr_small])
  have g2: "gread E 2 ?data (i + 2) e = Ok (n, i + 2 + 2)" for e :: string
    using gread_at [OF E, of "pre @ ?a" "i + 2" n 2 "encode_sizes sizes @ post" e] Cons.prems
    by (simp add: x)
  have "digest_sizes_loop E (length (x # sizes)) ?data i m =
      digest_sizes_loop E (length sizes) ((pre @ ?a @ ?n) @ encode_sizes sizes @ post)
        (i + 2 + 2) (m(a \<mapsto> n))"
    using g1 g2 by simp
  also have "\<dots> = Ok (i + 2 + 2 + length (encode_sizes sizes), put_sizes (m(a \<mapsto> n)) sizes)"
    using Cons.prems by (intro Cons.IH) simp_all
  finally show ?case unfolding enc by (simp add: x)
qed

lemma parse_digest_sizes_encode:
  assumes E: "scroll_le E" and "\<forall>(a, n) \<in> set sizes. n < 2 ^ 16" and "length sig = 24"
    and "length vendor < 256" and "length sizes < 2 ^ 32"
  shows "parse_digest_sizes E (encode_spec_id sig sizes vendor) m =
    Ok (length (encode_spec_id sig sizes vendor), put_sizes m sizes)"
proof -
  let ?c = "le_bytes 4 (length sizes)" and ?v = "[word_of_nat (length vendor)] @ vendor"
  let ?data = "sig @ ?c @ encode_sizes sizes @ ?v"
  have g: "gread E 4 ?data 24 e = Ok (length sizes, 24 + 4)" for e :: string
    using E assms by (intro gread_at) simp_all
  have l: "digest_sizes_loop E (length sizes) ?data (24 + 4) m =
      Ok (24 + 4 + length (encode_sizes sizes), put_sizes m sizes)"
    using digest_sizes_loop_encode [OF E assms(2), of "sig @ ?c" "24 + 4" ?v m] assms(3) by simp
  have "?data ! (24 + 4 + length (encode_sizes sizes)) = word_of_nat (length vendor)"
    using nth_append_length [of "sig @ ?c @ encode_sizes sizes" "word_of_nat (length vendor)" vendor]
      assms(3) by simp
  then have v: "index ?data (24 + 4 + length (encode_sizes sizes)) =
      (Ok (word_of_nat (length vendor)) :: (string, byte) outcome)"
    using assms(3) by (simp add: index_def)
  have "unat (word_of_nat (length vendor) :: byte) = length vendor"
    using assms(4) by (simp add: unat_of_nat)
  then show ?thesis
    unfolding parse_digest_sizes_def encode_spec_id_def
    using g l v assms(3) by (simp add: Let_def)
qed

lemma parse_initial_entry_encode:
  assumes E: "scroll_le E" and ok: "header_ok pad sig sizes vendor"
  shows "parse_initial_entry E (encode_header pcr pad sig sizes vendor @ post) 0 m =
    Ok (length (encode_header pcr pad sig sizes vendor), put_sizes m sizes)"
proof -
  let ?p = "le_bytes 4 (unat pcr)" and ?t = "le_bytes 4 (unat (TcgEventType_repr EvNoAction))"
  let ?s = "encode_spec_id sig sizes vendor"
  let ?l = "le_bytes 4 (length ?s)"
  let ?data = "?p @ ?t @ pad @ ?l @ ?s @ post"
  have len: "length ?s = 29 + 4 * length sizes + length vendor"
    using ok by (simp add: encode_spec_id_def header_ok_def)
  have g1: "gread E 4 ?data 0 e = Ok (unat pcr, 4)" for e :: string
    using gread_at [OF E, of "[]" 0 "unat pcr" 4 "?t @ pad @ ?l @ ?s @ post" e] unat_u32_less [of pcr]
    by simp
  have g2: "gread E 4 ?data 4 e = Ok (unat (TcgEventType_repr EvNoAction), 8)" for e :: string
    using gread_at [OF E _ unat_u32_less, of ?p 4 "TcgEventType_repr EvNoAction"
        "pad @ ?l @ ?s @ post" e] by simp
  have g3: "gread E 4 ?data 28 e = Ok (length ?s, 32)" for e :: string
    using gread_at [OF E, of "?p @ ?t @ pad" 28 "length ?s" 4 "?s @ post" e] ok
    by (simp add: header_ok_def)
  have add: "checked_add_usize 32 (length ?s) = Some (32 + length ?s)"
    using ok by (simp add: checked_add_usize_def usize_bound_def header_ok_def)
  have rng: "get_range ?data 32 (32 + length ?s) = Some ?s"
    using ok by (simp add: get_range_def range_ok_def header_ok_def)
  have "parse_digest_sizes E ?s m = Ok (length ?s, put_sizes m sizes)"
    using ok len by (intro parse_digest_sizes_encode [OF E]) (simp_all add: header_ok_def)
  moreover have "TcgEventType_try_from 3 = Some EvNoAction"
    by (simp add: TcgEventType_try_from_def)
  ultimately have "parse_initial_entry E ?data 0 m = Ok (32 + length ?s, put_sizes m sizes)"
    unfolding parse_initial_entry_def using g1 g2 g3 add rng by (simp add: Let_def)
  then show ?thesis using ok by (simp add: encode_header_def header_ok_def)
qed

end
