(* ===== verification/Eventlog_Properties.thy ===== *)
theory Eventlog_Properties
  imports Eventlog
begin

text \<open>
  What the event log library promises the verifiers that use it: a log matches a set of measurement
  registers exactly when each register is the extend chain of the log's digests, parsing recovers an
  encoded log and says about each entry what its bytes say, and which inputs make it panic.
\<close>

section \<open>The value of a register\<close>

definition register_value :: "crates \<Rightarrow> EventlogEntry list \<Rightarrow> u32 \<Rightarrow> TcgAlgorithm \<Rightarrow> bytes option" where
  "register_value E es i a =
     (case get_digest_size a of
        Ok n \<Rightarrow>
          (case hash_alg E a of
             Some h \<Rightarrow> Some (extend_chain h n (register_digests es i a))
           | None \<Rightarrow> if register_digests es i a = [] then Some (replicate n 0) else None)
      | _ \<Rightarrow> None)"

lemma replay_unhashed:
  "hash_alg E a = None \<Longrightarrow> replay_loop E a m ds = Ok v \<longleftrightarrow> ds = [] \<and> v = m"
  by (cases ds) (auto simp: accumulate_hash_def)

lemma replay_register_value:
  "replay E (collect_digests_by_index es) i a = Ok v \<longleftrightarrow> register_value E es i a = Some v"
proof (cases "get_digest_size a")
  case (Ok n)
  show ?thesis
  proof (cases "hash_alg E a")
    case None
    have "filter (\<lambda>e. entry_index e = i) es = []" if "\<not> (\<exists>e \<in> set es. entry_index e = i)"
      using that by (simp add: filter_empty_conv)
    then show ?thesis
      using Ok None by (auto simp: replay_def register_value_def collect_digests_by_index_eq
          replay_unhashed register_digests_def)
  next
    case (Some h)
    then show ?thesis using Ok by (auto simp: replay_collect register_value_def)
  qed
qed (auto simp: replay_def register_value_def)

lemma match_loop_mismatch:
  "match_loop E m items = Err (RegisterMismatch i c r) \<longleftrightarrow>
     (\<exists>pre item post. items = pre @ item # post \<and> match_loop E m pre = Ok () \<and>
        rm_index item = i \<and> reference item = r \<and>
        replay E m (rm_index item) (algorithm item) = Ok c \<and> c \<noteq> r)"
proof (induction items)
  case Nil
  then show ?case by simp
next
  case (Cons x items)
  let ?R = "\<lambda>items. \<exists>pre item post. items = pre @ item # post \<and> match_loop E m pre = Ok () \<and>
        rm_index item = i \<and> reference item = r \<and>
        replay E m (rm_index item) (algorithm item) = Ok c \<and> c \<noteq> r"
  have split: "?R (x # items) \<longleftrightarrow>
      rm_index x = i \<and> reference x = r \<and> replay E m (rm_index x) (algorithm x) = Ok c \<and> c \<noteq> r \<or>
      replay E m (rm_index x) (algorithm x) = Ok (reference x) \<and> ?R items"
    unfolding ex_split_Cons by (auto simp: outcome_iff)
  show ?case
    unfolding split Cons.IH [symmetric]
    by (cases "replay E m (rm_index x) (algorithm x)") auto
qed

section \<open>A sample log\<close>

text \<open>A log with a specification ID event and one separator event, for the witnesses below.\<close>

abbreviation sample_raw :: bytes where
  "sample_raw \<equiv> [1, 2, 3, 4]"

definition sample_src :: event_src where
  "sample_src = (1, EvSeparator, [\<lparr>alg = Sha256, digest = toy_hash 32 sample_raw\<rparr>], sample_raw)"

definition sample_entry :: EventlogEntry where
  "sample_entry =
     \<lparr>details = EventDetails_empty, digest_matches_event = True,
      digests = [\<lparr>alg = Sha256, digest = toy_hash 32 sample_raw\<rparr>],
      event = hex_of sample_raw, entry_index = 1, event_type = EvSeparator\<rparr>"

definition sample_header :: bytes where
  "sample_header = encode_header 0 (replicate 20 0) (replicate 24 0) [(Sha256, 32)] [7]"

definition sample_data :: bytes where
  "sample_data = sample_header @ concat (map encode_entry [sample_src]) @ replicate 8 0xFF"

lemma reference_crates_sel [simp]:
  "sha256 reference_crates = toy_hash 32" "sha384 reference_crates = toy_hash 48"
  "base64_encode reference_crates = hex_of" "hex_encode reference_crates = hex_of"
  by (simp_all add: reference_crates_def)

lemma length_toy_hash [simp]: "length (toy_hash n m) = n"
  by (simp add: toy_hash_def)

lemma sample_header_ok: "header_ok (replicate 20 0) (replicate 24 0) [(Sha256, 32)] [7]"
  by (simp add: header_ok_def encode_spec_id_def)

lemma sample_event_ok:
  "event_ok reference_crates chk (put_sizes Map.empty [(Sha256, 32)]) sample_src sample_entry"
  by (simp add: sample_src_def sample_entry_def digest_sized_def entry_faithful_def hash_alg_def
      EvBlankParser_parse_def)

lemma try_from_encode:
  assumes "scroll_le E" "header_ok pad sig sizes vendor" "log_tail tail"
    and "list_all2 (event_ok E chk (put_sizes Map.empty sizes)) srcs es"
  shows "CcEventLog_try_from E chk
      (encode_header pcr pad sig sizes vendor @ concat (map encode_entry srcs) @ tail) =
    Ok \<lparr>log = es\<rparr>"
  unfolding CcEventLog_try_from_def
  using parse_initial_entry_encode [OF assms(1,2)]
    parse_loop_encode [OF assms(1,3,4), of "encode_header pcr pad sig sizes vendor" _ "[]"]
  by simp

lemma sample_parses:
  "CcEventLog_try_from reference_crates chk sample_data = Ok \<lparr>log = [sample_entry]\<rparr>"
  unfolding sample_data_def sample_header_def
  using sample_header_ok sample_event_ok
  by (intro try_from_encode) (simp_all add: log_tail_def)

section \<open>Replay\<close>

lemma replay_and_match_values:
  "replay_and_match E l rms = Ok () \<longleftrightarrow>
     (\<forall>rm \<in> set rms. register_value E (log l) (rm_index rm) (algorithm rm) = Some (reference rm))"
  by (simp add: replay_and_match_def match_loop_Ok_iff replay_register_value)

text \<open>
  C12. \<^verbatim>\<open>replay_and_match\<close> accepts a log exactly when every given register value is the extend chain,
  from zeros, of the digests the log records for that register and algorithm, in log order.
\<close>

theorem replay_and_match_iff:
  "replay_and_match E l rms = Ok () \<longleftrightarrow>
     (\<forall>rm \<in> set rms. register_value E (log l) (rm_index rm) (algorithm rm) = Some (reference rm))"
  by (rule replay_and_match_values)

definition sample_register :: ReferenceMeasurement where
  "sample_register =
     \<lparr>rm_index = 1, algorithm = Sha256,
      reference = toy_hash 32 (replicate 32 0 @ toy_hash 32 sample_raw)\<rparr>"

lemma sample_register_digests:
  "register_digests [sample_entry] 1 Sha256 = [toy_hash 32 sample_raw]"
  by (simp add: register_digests_def sample_entry_def)

lemma sample_register_value:
  "register_value reference_crates [sample_entry] 1 Sha256 = Some (reference sample_register)"
  by (simp add: register_value_def sample_register_digests extend_chain_def sample_register_def
      hash_alg_def get_digest_size_def)

theorem replay_and_match_iff_witness:
  "replay_and_match reference_crates \<lparr>log = [sample_entry]\<rparr> [sample_register] = Ok ()"
  using replay_and_match_iff [of reference_crates "\<lparr>log = [sample_entry]\<rparr>" "[sample_register]"]
    sample_register_value
  by (simp add: sample_register_def)

text \<open>
  When it rejects with a mismatch, the error names the first register whose recomputed value
  differs, with both values; every register before it matched.
\<close>

theorem replay_and_match_mismatch:
  "replay_and_match E l rms = Err (RegisterMismatch i c r) \<longleftrightarrow>
     (\<exists>pre rm post. rms = pre @ rm # post \<and> replay_and_match E l pre = Ok () \<and>
        rm_index rm = i \<and> reference rm = r \<and>
        register_value E (log l) i (algorithm rm) = Some c \<and> c \<noteq> r)"
  unfolding replay_and_match_def match_loop_mismatch replay_register_value by blast



section \<open>Parsing\<close>

text \<open>
  C13. Parsing a binary log in the layout of the TCG specification, a specification ID event, then
  entries, then the end of the buffer or a stop flag, returns exactly the encoded entries in order.
\<close>

theorem CcEventLog_roundtrip:
  assumes "scroll_le E" "header_ok pad sig sizes vendor" "log_tail tail"
    and "list_all2 (event_ok E chk (put_sizes Map.empty sizes)) srcs es"
  shows "CcEventLog_try_from E chk
      (encode_header pcr pad sig sizes vendor @ concat (map encode_entry srcs) @ tail) =
    Ok \<lparr>log = es\<rparr>"
  using assms by (rule try_from_encode)

theorem CcEventLog_roundtrip_witness:
  "CcEventLog_try_from reference_crates True sample_data = Ok \<lparr>log = [sample_entry]\<rparr>"
  unfolding sample_data_def sample_header_def
  using sample_header_ok sample_event_ok
  by (intro CcEventLog_roundtrip) (simp_all add: log_tail_def)

lemma entry_faithfulD:
  assumes "entry_faithful E chk e raw"
  shows "event e = base64_encode E raw \<and>
    parser_parse E chk (get_parser (event_type e)) raw = Ok (details e) \<and>
    (digest_matches_event e \<longleftrightarrow>
       (\<forall>d \<in> set (digests e). \<exists>h. hash_alg E (alg d) = Some h \<and> h raw = digest d))"
  using assms compare_digests_True_iff [of E raw "digests e"]
  by (auto simp: entry_faithful_def digest_of_def)

lemma parse_loop_all_faithful:
  assumes "parse_loop E chk data i m [] = Ok es"
  shows "16 * length es \<le> length data \<and>
    (\<forall>e \<in> set es. \<exists>k j. k \<le> j \<and> j \<le> length data \<and>
       entry_faithful E chk e (take (j - k) (drop k data)))"
proof (cases "i \<le> length data")
  case True
  from parse_loop_invariant [OF assms this] show ?thesis by auto
next
  case False
  with assms show ?thesis by (subst (asm) parse_loop.simps) simp
qed



text \<open>
  An entry that announces more event data than is left in the buffer, but no more than the
  buffer's total length, passes the length check of \<^verbatim>\<open>parse_eventlog_entry\<close> and panics at the slice,
  whatever precedes it in the log and in either overflow profile.
\<close>

theorem CcEventLog_truncated_panics:
  assumes E: "scroll_le E" and hdr: "header_ok pad sig sizes vendor"
    and evs: "list_all2 (event_ok E chk (put_sizes Map.empty sizes)) srcs es"
    and head: "head_ok (put_sizes Map.empty sizes) reg t ds n" and "length raw < n"
    and data: "data = encode_header pcr pad sig sizes vendor @ concat (map encode_entry srcs)
                      @ encode_head reg t ds n @ raw" and "n \<le> length data"
  shows "CcEventLog_try_from E chk data = Panic"
proof -
  let ?h = "encode_header pcr pad sig sizes vendor" and ?b = "concat (map encode_entry srcs)"
  let ?m = "put_sizes Map.empty sizes"
  have pe: "parse_eventlog_entry E chk data (length (?h @ ?b)) ?m = Panic"
    using parse_eventlog_entry_truncated [OF E head, of "?h @ ?b" "length (?h @ ?b)" raw chk] assms
    by simp
  have "length (?h @ ?b) < length data"
    by (simp add: data length_encode_head)
  then have "parse_loop E chk data (length (?h @ ?b)) ?m es = Panic"
    using pe by (subst parse_loop.simps) simp
  then show ?thesis
    unfolding CcEventLog_try_from_def
    using parse_initial_entry_encode [OF E hdr] parse_loop_entries [OF E evs refl, of ?h _ "[]"]
    by (simp add: data)
qed

theorem CcEventLog_truncated_panics_witness:
  "CcEventLog_try_from reference_crates False
     (sample_header @ concat (map encode_entry [sample_src]) @ encode_head 1 EvSeparator [] 16 @ [])
   = Panic"
  unfolding sample_header_def
  by (rule CcEventLog_truncated_panics [OF _ sample_header_ok _ _ _ refl, where es = "[sample_entry]"])
    (use sample_event_ok in \<open>simp_all add: head_ok_def encode_head_def\<close>)

section \<open>Event data\<close>

text \<open>
  The device path walk of an EFI boot application event succeeds exactly on the concatenation of
  one or more well-formed nodes, and then lists their printed forms in order.
\<close>

theorem get_nested_paths_iff:
  "get_nested_paths E xs EventDetails_empty = Ok r \<longleftrightarrow>
     (\<exists>nodes outs. nodes \<noteq> [] \<and> xs = concat (map encode_node nodes) \<and>
        (\<forall>nd \<in> set nodes. node_ok nd) \<and> list_all2 (prints E) nodes outs \<and>
        r = EventDetails_empty\<lparr>device_paths := Some outs\<rparr>)" (is "?L \<longleftrightarrow> ?R")
proof
  assume ?L
  then obtain nodes outs where "nodes \<noteq> []" "xs = concat (map encode_node nodes)"
    "\<forall>nd \<in> set nodes. node_ok nd" "list_all2 (prints E) nodes outs"
    "r = foldl push_path EventDetails_empty outs"
    using get_nested_paths_decode by blast
  moreover from this have "outs \<noteq> []" by auto
  ultimately show ?R using foldl_push_path_empty by blast
next
  assume ?R
  then obtain nodes outs where *: "nodes \<noteq> []" "xs = concat (map encode_node nodes)"
    "\<forall>nd \<in> set nodes. node_ok nd" "list_all2 (prints E) nodes outs"
    "r = EventDetails_empty\<lparr>device_paths := Some outs\<rparr>" by blast
  then have "outs \<noteq> []" by auto
  with * show ?L using get_nested_paths_encode foldl_push_path_empty by metis
qed

lemma print_unknown:
  "print_path E 0x7F 0xFF [] = Ok (''Path(127,255,'' @ hex_encode E [] @ '')'')"
  by (simp add: print_path_def DevicePath_from_u8_def fmt_dec_def digits.simps digit_char_def char_of_def bit_0)

theorem get_nested_paths_iff_witness:
  "get_nested_paths reference_crates (encode_node (0x7F, 0xFF, [])) EventDetails_empty =
     Ok (EventDetails_empty\<lparr>device_paths := Some [''Path(127,255,)'']\<rparr>)"
  unfolding get_nested_paths_iff
  by (intro exI [of _ "[(0x7F, 0xFF, [])]"] exI [of _ "[''Path(127,255,)'']"])
    (simp add: print_unknown hex_of_def)

text \<open>
  Printing a device path node never fails: unknown nodes print generically. It panics on exactly
  one shape, a hard drive node of 37 payload bytes, one short of what its parser reads.
\<close>

theorem print_path_total:
  assumes "scroll_le E"
  shows "(\<nexists>e. print_path E t sub data = Err e) \<and>
    (print_path E t sub data = Panic \<longleftrightarrow> t = 0x04 \<and> sub = 0x01 \<and> length data = 37)"
  using print_path_Panic_iff [OF assms, of t sub data] by simp

theorem print_path_total_witness:
  "print_path reference_crates 0x04 0x01 (replicate 37 0) = Panic"
  using print_path_total [OF reference_crates_ok(1), of "0x04" "0x01" "replicate 37 0"] by simp

text \<open>
  The parser of firmware blob and handoff table descriptions panics exactly when the length byte
  is zero, since it then slices backwards; otherwise it returns or reports an error.
\<close>

theorem SimpleStringParser_panics_iff:
  "parser_parse E chk SimpleStringParser data = Panic \<longleftrightarrow> (\<exists>rest. data = 0 # rest)"
  by (simp add: SimpleStringParser_Panic_iff)

text \<open>
  The numeric codes of event types and hash algorithms in a log identify them: converting a
  code succeeds with a variant exactly when the code is that variant's number.
\<close>

theorem tcg_codes_roundtrip:
  "(TcgEventType_try_from v = Some t \<longleftrightarrow> v = TcgEventType_repr t) \<and>
   (TcgAlgorithm_try_from w = Some a \<longleftrightarrow> w = TcgAlgorithm_repr a)"
  using TcgEventType_repr_of_try_from TcgAlgorithm_repr_of_try_from by auto

end
