(* ===== verification/Filesystem.thy ===== *)
theory Filesystem
  imports Rust_Std "HOL-Library.AList"
begin

text \<open>
  What the storage components use of \<^verbatim>\<open>std::fs\<close>, \<^verbatim>\<open>tokio::fs\<close> and \<^verbatim>\<open>std::path\<close>: a tree of
  directories and files as an association list from absolute paths to nodes, and the operations on
  it. A \<^verbatim>\<open>HashMap\<close> is an association list too, whose order stands for the unspecified iteration
  order; no theorem depends on it.

  Faults of the environment (no permission, disk full) are a parameter: \<open>io_env\<close> says which
  operation fails on which path, and how much of a write reached the file before it failed.
  Symbolic links are not modelled.
\<close>

section \<open>Paths\<close>

type_synonym path = "string list"

datatype fnode = FileNode bytes | DirNode

type_synonym fs = "(path \<times> fnode) list"

datatype io_error = IoNotFound | IoIsADirectory | IoNotADirectory | IoFault | IoInvalidData

record io_env =
  read_fault :: "path \<Rightarrow> bool"
  write_fault :: "path \<Rightarrow> nat option"
  remove_fault :: "path \<Rightarrow> bool"
  dir_fault :: "path \<Rightarrow> bool"

definition no_faults :: io_env where
  "no_faults =
     \<lparr>read_fault = (\<lambda>_. False), write_fault = (\<lambda>_. None), remove_fault = (\<lambda>_. False),
      dir_fault = (\<lambda>_. False)\<rparr>"

text \<open>Joining one component: empty and \<^verbatim>\<open>.\<close> stay, \<^verbatim>\<open>..\<close> goes to the parent.\<close>

definition join1 :: "path \<Rightarrow> string \<Rightarrow> path" where
  "join1 d c =
     (if c = [] \<or> c = ''.'' then d
      else if c = ''..'' then butlast d
      else d @ [c])"

fun split_on :: "char \<Rightarrow> string \<Rightarrow> string list" where
  "split_on c [] = [[]]"
| "split_on c (x # xs) =
     (if x = c then [] # split_on c xs
      else (case split_on c xs of [] \<Rightarrow> [[x]] | p # ps \<Rightarrow> (x # p) # ps))"

definition path_of :: "string \<Rightarrow> path" where
  "path_of s = foldl join1 [] (split_on CHR ''/'' s)"

text \<open>
  \<^verbatim>\<open>Path::parent\<close>: empty components and, except in front of a relative path, \<^verbatim>\<open>.\<close> components are
  dropped; a path with no component left has no parent.
\<close>

definition path_components :: "string \<Rightarrow> string list" where
  "path_components s =
     (let ps = filter (\<lambda>c. c \<noteq> []) (split_on CHR ''/'' s) in
      case s of
        c # _ \<Rightarrow>
          if c = CHR ''/'' then filter (\<lambda>c. c \<noteq> ''.'') ps
          else take 1 ps @ filter (\<lambda>c. c \<noteq> ''.'') (drop 1 ps)
      | [] \<Rightarrow> [])"

definition parent :: "string \<Rightarrow> path option" where
  "parent s =
     (let cs = path_components s in
      if cs = [] then None else Some (foldl join1 [] (butlast cs)))"

text \<open>\<open>show_path\<close> prints an absolute path.\<close>

definition show_path :: "path \<Rightarrow> string" where
  "show_path p = concat (map (\<lambda>c. CHR ''/'' # c) p)"

section \<open>Operations\<close>

text \<open>State passing with early return.\<close>

definition then_st ::
    "('e, 'a) outcome \<times> 's \<Rightarrow> ('a \<Rightarrow> 's \<Rightarrow> ('e, 'b) outcome \<times> 's) \<Rightarrow> ('e, 'b) outcome \<times> 's" where
  "then_st r k = (case r of (Ok x, s) \<Rightarrow> k x s | (Err e, s) \<Rightarrow> (Err e, s) | (Panic, s) \<Rightarrow> (Panic, s))"

definition exists_path :: "fs \<Rightarrow> path \<Rightarrow> bool" where
  "exists_path f p \<longleftrightarrow> p = [] \<or> map_of f p \<noteq> None"

definition is_dir :: "fs \<Rightarrow> path \<Rightarrow> bool" where
  "is_dir f p \<longleftrightarrow> p = [] \<or> map_of f p = Some DirNode"

definition read_file :: "io_env \<Rightarrow> fs \<Rightarrow> path \<Rightarrow> (io_error, bytes) outcome" where
  "read_file io f p =
     (if read_fault io p then Err IoFault
      else if p = [] then Err IoIsADirectory
      else (case map_of f p of
              None \<Rightarrow> Err IoNotFound
            | Some DirNode \<Rightarrow> Err IoIsADirectory
            | Some (FileNode b) \<Rightarrow> Ok b))"

text \<open>
  \<^verbatim>\<open>fs::write\<close> creates or truncates, then writes: when it fails half way, a prefix is in the file.
\<close>

definition write_file :: "io_env \<Rightarrow> fs \<Rightarrow> path \<Rightarrow> bytes \<Rightarrow> (io_error, unit) outcome \<times> fs" where
  "write_file io f p b =
     (if is_dir f p then (Err IoIsADirectory, f)
      else if \<not> exists_path f (butlast p) then (Err IoNotFound, f)
      else if \<not> is_dir f (butlast p) then (Err IoNotADirectory, f)
      else (case write_fault io p of
              None \<Rightarrow> (Ok (), AList.update p (FileNode b) f)
            | Some n \<Rightarrow> (Err IoFault, AList.update p (FileNode (take n b)) f)))"

definition remove_file :: "io_env \<Rightarrow> fs \<Rightarrow> path \<Rightarrow> (io_error, unit) outcome \<times> fs" where
  "remove_file io f p =
     (if remove_fault io p then (Err IoFault, f)
      else if is_dir f p then (Err IoIsADirectory, f)
      else if map_of f p = None then (Err IoNotFound, f)
      else (Ok (), AList.delete p f))"

definition read_dir :: "io_env \<Rightarrow> fs \<Rightarrow> path \<Rightarrow> (io_error, string list) outcome" where
  "read_dir io f d =
     (if dir_fault io d then Err IoFault
      else if \<not> exists_path f d then Err IoNotFound
      else if \<not> is_dir f d then Err IoNotADirectory
      else Ok (map last (filter (\<lambda>p. p \<noteq> [] \<and> butlast p = d) (map fst (AList.clearjunk f)))))"

fun create_dirs :: "io_env \<Rightarrow> fs \<Rightarrow> path \<Rightarrow> path \<Rightarrow> (io_error, unit) outcome \<times> fs" where
  "create_dirs io f d [] = (Ok (), f)"
| "create_dirs io f d (c # cs) =
     (let p = d @ [c] in
      if is_dir f p then create_dirs io f p cs
      else if exists_path f p then (Err IoNotADirectory, f)
      else if dir_fault io p then (Err IoFault, f)
      else create_dirs io (AList.update p DirNode f) p cs)"

definition create_dir_all :: "io_env \<Rightarrow> fs \<Rightarrow> path \<Rightarrow> (io_error, unit) outcome \<times> fs" where
  "create_dir_all io f p = create_dirs io f [] p"

section \<open>What the operations change\<close>

lemma no_faults_sel [simp]:
  "\<not> read_fault no_faults p" "write_fault no_faults p = None" "\<not> remove_fault no_faults p"
  "\<not> dir_fault no_faults p"
  by (simp_all add: no_faults_def)

lemma join1_name [simp]:
  "c \<noteq> [] \<Longrightarrow> c \<noteq> ''.'' \<Longrightarrow> c \<noteq> ''..'' \<Longrightarrow> join1 d c = d @ [c]"
  by (simp add: join1_def)

lemma write_file_frame:
  "write_file io f p b = (r, f') \<Longrightarrow> q \<noteq> p \<Longrightarrow> map_of f' q = map_of f q"
  by (auto simp: write_file_def update_conv' split: if_splits option.splits)

lemma remove_file_frame:
  "remove_file io f p = (r, f') \<Longrightarrow> q \<noteq> p \<Longrightarrow> map_of f' q = map_of f q"
  by (auto simp: remove_file_def delete_conv' split: if_splits)

lemma write_file_ok:
  assumes "is_dir f d" and "map_of f (d @ [c]) \<noteq> Some DirNode" and "write_fault io (d @ [c]) = None"
  shows "write_file io f (d @ [c]) b = (Ok (), AList.update (d @ [c]) (FileNode b) f)"
  using assms by (auto simp: write_file_def is_dir_def exists_path_def)

lemma is_dir_update [simp]:
  "is_dir f d \<Longrightarrow> is_dir (AList.update (d @ [c]) n f) d"
  by (simp add: is_dir_def update_conv')

lemma is_dir_delete [simp]:
  "is_dir f d \<Longrightarrow> is_dir (AList.delete (d @ [c]) f) d"
  by (simp add: is_dir_def delete_conv')

lemma map_of_update [simp]: "map_of (AList.update k v xs) = (map_of xs)(k \<mapsto> v)"
  by (rule update_conv')

lemma map_of_delete [simp]: "map_of (AList.delete k xs) = (map_of xs)(k := None)"
  by (rule delete_conv')

lemma set_read_dir:
  assumes "read_dir io f d = Ok names"
  shows "set names = {c. map_of f (d @ [c]) \<noteq> None}"
proof -
  let ?P = "\<lambda>p. p \<noteq> [] \<and> butlast p = d"
  have keys: "set (map fst (AList.clearjunk f)) = dom (map_of f)"
    by (simp add: dom_map_of_conv_image_fst dom_clearjunk)
  have "names = map last (filter ?P (map fst (AList.clearjunk f)))"
    using assms by (auto simp: read_dir_def split: if_splits)
  then have "set names = last ` {p \<in> dom (map_of f). ?P p}"
    using keys by (simp only: set_map set_filter)
  also have "{p \<in> dom (map_of f). ?P p} = (\<lambda>c. d @ [c]) ` {c. d @ [c] \<in> dom (map_of f)}"
  proof (intro set_eqI iffI)
    fix p
    assume "p \<in> {p \<in> dom (map_of f). ?P p}"
    then have "p = d @ [last p]" "p \<in> dom (map_of f)"
      using append_butlast_last_id [of p] by auto
    then show "p \<in> (\<lambda>c. d @ [c]) ` {c. d @ [c] \<in> dom (map_of f)}"
      by (intro image_eqI [of _ _ "last p"]) simp_all
  qed auto
  also have "last ` (\<lambda>c. d @ [c]) ` {c. d @ [c] \<in> dom (map_of f)} = {c. d @ [c] \<in> dom (map_of f)}"
    by (simp add: image_image)
  finally show ?thesis by auto
qed

lemma create_dirs_ok:
  "create_dirs no_faults f d cs = (Ok (), f') \<Longrightarrow> is_dir f d \<Longrightarrow> is_dir f' (d @ cs)"
proof (induction cs arbitrary: f d)
  case Nil
  then show ?case by simp
next
  case (Cons c cs)
  have "is_dir (AList.update (d @ [c]) DirNode f) (d @ [c])" by (simp add: is_dir_def)
  with Cons.prems Cons.IH [of _ "d @ [c]"] show ?case
    by (auto simp: Let_def split: if_splits)
qed

lemma create_dir_all_ok: "create_dir_all no_faults f p = (Ok (), f') \<Longrightarrow> is_dir f' p"
  using create_dirs_ok [of f "[]" p f'] by (simp add: create_dir_all_def is_dir_def)

lemma create_dirs_frame_on:
  assumes "create_dirs io f d cs = (r, f')"
    and "\<And>p t. cs = p @ t \<Longrightarrow> p \<noteq> [] \<Longrightarrow> is_dir f (d @ p) \<or> P (d @ p)"
    and "\<not> P q"
  shows "map_of f' q = map_of f q"
  using assms(1,2)
proof (induction cs arbitrary: f d)
  case Nil
  then show ?case by simp
next
  case (Cons c cs)
  have rest: "is_dir f ((d @ [c]) @ p) \<or> P ((d @ [c]) @ p)" if "cs = p @ t" "p \<noteq> []" for p t
    using Cons.prems(2) [of "c # p" t] that by simp
  have "is_dir (AList.update (d @ [c]) DirNode f) ((d @ [c]) @ p) \<or> P ((d @ [c]) @ p)"
    if "cs = p @ t" "p \<noteq> []" for p t
    using rest [OF that] by (auto simp: is_dir_def update_conv')
  moreover have "is_dir f (d @ [c]) \<or> P (d @ [c])" using Cons.prems(2) [of "[c]" cs] by simp
  ultimately show ?case using Cons.prems(1) Cons.IH rest assms(3)
    by (auto simp: Let_def update_conv' split: if_splits)
qed

lemma then_st_Ok_iff:
  "then_st r k = (Ok y, s') \<longleftrightarrow> (\<exists>x s. r = (Ok x, s) \<and> k x s = (Ok y, s'))"
  by (auto simp: then_st_def split: outcome.splits prod.splits)

lemma snd_then_st:
  "snd (then_st r k) = (case fst r of Ok x \<Rightarrow> snd (k x (snd r)) | _ \<Rightarrow> snd r)"
  by (cases r) (simp add: then_st_def split: outcome.split)

lemma split_on_none: "c \<notin> set s \<Longrightarrow> split_on c s = [s]"
  by (induction s) auto

lemma split_on_sep: "split_on c (s @ c # t) = split_on c s @ split_on c t"
proof (induction s)
  case (Cons x s)
  have "split_on c s \<noteq> []" by (cases s) (simp_all split: list.split)
  with Cons show ?case by (auto split: list.split)
qed simp

lemma split_on_pieces: "p \<in> set (split_on c s) \<Longrightarrow> c \<notin> set p"
  by (induction s arbitrary: p) (auto split: if_splits list.splits)

section \<open>Printing paths\<close>

text \<open>A component of an absolute path: the name of an entry of a directory.\<close>

definition is_name :: "string \<Rightarrow> bool" where
  "is_name c \<longleftrightarrow> c \<noteq> [] \<and> c \<noteq> ''.'' \<and> c \<noteq> ''..'' \<and> CHR ''/'' \<notin> set c"

lemma join_names: "list_all is_name p \<Longrightarrow> foldl join1 d p = d @ p"
  by (induction p arbitrary: d) (auto simp: is_name_def)

lemma join_down:
  "''..'' \<notin> set cs \<Longrightarrow> foldl join1 d cs = d @ filter (\<lambda>c. c \<noteq> [] \<and> c \<noteq> ''.'') cs"
  by (induction cs arbitrary: d) (auto simp: join1_def)

lemma path_of_sep: "path_of (s @ CHR ''/'' # t) = foldl join1 (path_of s) (split_on CHR ''/'' t)"
  by (simp add: path_of_def split_on_sep)

lemma join_is_name: "list_all is_name d \<Longrightarrow> CHR ''/'' \<notin> set c \<Longrightarrow> list_all is_name (join1 d c)"
  by (auto simp: join1_def is_name_def list_all_iff dest: in_set_butlastD)

lemma foldl_join_names:
  "list_all is_name d \<Longrightarrow> \<forall>c\<in>set cs. CHR ''/'' \<notin> set c \<Longrightarrow> list_all is_name (foldl join1 d cs)"
  by (induction cs arbitrary: d) (auto simp: join_is_name)

lemma path_of_names: "list_all is_name (path_of s)"
  unfolding path_of_def by (rule foldl_join_names) (auto dest: split_on_pieces)

lemma show_path_snoc [simp]: "show_path (p @ [c]) = show_path p @ CHR ''/'' # c"
  by (simp add: show_path_def)

lemma path_of_show: "list_all is_name p \<Longrightarrow> path_of (show_path p) = p"
proof (induction p rule: rev_induct)
  case Nil
  show ?case by (simp add: show_path_def path_of_def join1_def)
next
  case (snoc c p)
  then show ?case by (auto simp: path_of_sep split_on_none is_name_def)
qed

end
