(* ===== verification/Kv_Storage.thy ===== *)
theory Kv_Storage
  imports Filesystem
begin

text \<open>
  The key-value storage interface of \<^verbatim>\<open>deps/key-value-storage/src/lib.rs\<close> and its in-memory
  backend (\<^verbatim>\<open>memory.rs\<close>). A trait object \<^verbatim>\<open>dyn KeyValueStorage\<close> is a record of its methods over a
  backend state. The locales state what clients may rely on: \<open>kv_store\<close> what every backend gives,
  \<open>kv_overwrite\<close> that overwriting replaces a value, \<open>kv_contract\<close> the trait's full promise.
  Three of the four backends break the last one; see \<open>Kv_Backends\<close>.
\<close>

section \<open>The trait\<close>

text \<open>The source of an error is a message, an I/O error or a database error.\<close>

datatype kv_source = Msg string | Io io_error | Sql string

datatype KeyValueStorageError =
    SetKeyFailed kv_source string
  | GetKeyFailed kv_source string
  | ListKeysFailed kv_source
  | DeleteKeyFailed kv_source string
  | InitializeBackendFailed kv_source
  | MalformedValue kv_source

type_synonym 'a kv_result = "(KeyValueStorageError, 'a) outcome"

record SetParameters =
  overwrite :: bool

record 's KeyValueStorage =
  kv_set :: "'s \<Rightarrow> string \<Rightarrow> bytes \<Rightarrow> SetParameters \<Rightarrow> unit kv_result \<times> 's"
  kv_list :: "'s \<Rightarrow> string list kv_result"
  kv_get :: "'s \<Rightarrow> string \<Rightarrow> bytes option kv_result"
  kv_delete :: "'s \<Rightarrow> string \<Rightarrow> bytes option kv_result \<times> 's"

definition is_ascii_alphanumeric :: "char \<Rightarrow> bool" where
  "is_ascii_alphanumeric c \<longleftrightarrow>
     (let n = of_char c :: nat in
      48 \<le> n \<and> n \<le> 57 \<or> 65 \<le> n \<and> n \<le> 90 \<or> 97 \<le> n \<and> n \<le> 122)"

definition is_valid_key :: "string \<Rightarrow> bool" where
  "is_valid_key key =
     list_all (\<lambda>c. is_ascii_alphanumeric c \<or> c = CHR ''-'' \<or> c = CHR ''_'' \<or> c = CHR ''.''
                   \<or> c = CHR ''/'') key"

section \<open>What a client relies on\<close>

text \<open>
  \<open>lookup\<close> is the map a backend state represents, \<open>inv\<close> its invariant and \<open>key_ok\<close> the keys it
  handles.
\<close>

locale kv_store =
  fixes K :: "'s KeyValueStorage"
    and lookup :: "'s \<Rightarrow> string \<Rightarrow> bytes option"
    and inv :: "'s \<Rightarrow> bool"
    and key_ok :: "string \<Rightarrow> bool"
  assumes get_present:
      "inv s \<Longrightarrow> key_ok k \<Longrightarrow> lookup s k = Some v \<Longrightarrow> kv_get K s k = Ok (Some v)"
    and set_fresh:
      "inv s \<Longrightarrow> key_ok k \<Longrightarrow> lookup s k = None \<Longrightarrow>
         \<exists>s'. kv_set K s k v \<lparr>overwrite = True\<rparr> = (Ok (), s') \<and> inv s' \<and>
              (\<forall>k'. key_ok k' \<longrightarrow> lookup s' k' = ((lookup s)(k \<mapsto> v)) k')"
    and list_keys:
      "inv s \<Longrightarrow> \<exists>ks. kv_list K s = Ok ks \<and> (\<forall>k. key_ok k \<longrightarrow> (k \<in> set ks \<longleftrightarrow> lookup s k \<noteq> None))"
    and delete_key:
      "inv s \<Longrightarrow> key_ok k \<Longrightarrow>
         \<exists>s'. kv_delete K s k = (Ok (lookup s k), s') \<and> inv s' \<and>
              (\<forall>k'. key_ok k' \<longrightarrow> lookup s' k' = ((lookup s)(k := None)) k')"
begin

lemma fresh_set_get:
  assumes "inv s" "key_ok k" "lookup s k = None"
  shows "\<exists>s'. kv_set K s k v \<lparr>overwrite = True\<rparr> = (Ok (), s') \<and> kv_get K s' k = Ok (Some v)"
  using set_fresh [OF assms] get_present assms(2) by (metis fun_upd_same)

lemma delete_removes:
  assumes "inv s" "key_ok k"
  shows "\<exists>s' ks. kv_delete K s k = (Ok (lookup s k), s') \<and> kv_list K s' = Ok ks \<and> k \<notin> set ks"
  using delete_key [OF assms] list_keys assms(2) by (metis fun_upd_same)

end

text \<open>Overwriting an existing value.\<close>

locale kv_overwrite = kv_store +
  assumes set_overwrite:
      "inv s \<Longrightarrow> key_ok k \<Longrightarrow> lookup s k = Some old \<Longrightarrow>
         \<exists>s'. kv_set K s k v \<lparr>overwrite = True\<rparr> = (Ok (), s') \<and> inv s' \<and>
              (\<forall>k'. key_ok k' \<longrightarrow> lookup s' k' = ((lookup s)(k \<mapsto> v)) k')"
begin

lemma set_any:
  assumes "inv s" "key_ok k"
  obtains s' where "kv_set K s k v \<lparr>overwrite = True\<rparr> = (Ok (), s')" "inv s'"
    "\<And>k'. key_ok k' \<Longrightarrow> lookup s' k' = ((lookup s)(k \<mapsto> v)) k'"
  using set_overwrite [OF assms] set_fresh [OF assms] by (cases "lookup s k") blast+

lemma set_get:
  assumes "inv s" "key_ok k"
  obtains s' where "kv_set K s k v \<lparr>overwrite = True\<rparr> = (Ok (), s')" "inv s'"
    "kv_get K s' k = Ok (Some v)"
  using set_any [OF assms, of v] get_present assms(2) by (metis fun_upd_same)

end

text \<open>The trait as documented: \<^verbatim>\<open>overwrite: false\<close> protects an existing value, a missing key is \<^verbatim>\<open>None\<close>.\<close>

locale kv_contract = kv_overwrite +
  assumes get_absent: "inv s \<Longrightarrow> key_ok k \<Longrightarrow> lookup s k = None \<Longrightarrow> kv_get K s k = Ok None"
    and set_new:
      "inv s \<Longrightarrow> key_ok k \<Longrightarrow> lookup s k = None \<Longrightarrow>
         \<exists>s'. kv_set K s k v \<lparr>overwrite = False\<rparr> = (Ok (), s') \<and> inv s' \<and>
              (\<forall>k'. key_ok k' \<longrightarrow> lookup s' k' = ((lookup s)(k \<mapsto> v)) k')"
    and set_protected:
      "inv s \<Longrightarrow> key_ok k \<Longrightarrow> lookup s k = Some old \<Longrightarrow>
         \<exists>e. kv_set K s k v \<lparr>overwrite = False\<rparr> = (Err e, s)"
begin

lemma get_lookup: "inv s \<Longrightarrow> key_ok k \<Longrightarrow> kv_get K s k = Ok (lookup s k)"
  using get_present get_absent by (cases "lookup s k") auto

end

section \<open>Memory backend\<close>

record MemoryKeyValueStorage =
  items :: "(string \<times> bytes) list"

definition memory_default :: MemoryKeyValueStorage where
  "memory_default = \<lparr>items = []\<rparr>"

definition memory_insert ::
    "MemoryKeyValueStorage \<Rightarrow> string \<Rightarrow> bytes \<Rightarrow> MemoryKeyValueStorage" where
  "memory_insert s key v = s\<lparr>items := AList.update key v (items s)\<rparr>"

definition memory_set ::
    "MemoryKeyValueStorage \<Rightarrow> string \<Rightarrow> bytes \<Rightarrow> SetParameters \<Rightarrow>
     unit kv_result \<times> MemoryKeyValueStorage" where
  "memory_set s key v p =
     (if overwrite p then (Ok (), memory_insert s key v)
      else if map_of (items s) key \<noteq> None
      then (Err (SetKeyFailed (Msg ''key already exists'') key), s)
      else (Ok (), memory_insert s key v))"

definition memory_list :: "MemoryKeyValueStorage \<Rightarrow> string list kv_result" where
  "memory_list s = Ok (map fst (items s))"

definition memory_get :: "MemoryKeyValueStorage \<Rightarrow> string \<Rightarrow> bytes option kv_result" where
  "memory_get s key = Ok (map_of (items s) key)"

definition memory_delete ::
    "MemoryKeyValueStorage \<Rightarrow> string \<Rightarrow> bytes option kv_result \<times> MemoryKeyValueStorage" where
  "memory_delete s key = (Ok (map_of (items s) key), s\<lparr>items := AList.delete key (items s)\<rparr>)"

definition memory_storage :: "MemoryKeyValueStorage KeyValueStorage" where
  "memory_storage =
     \<lparr>kv_set = memory_set, kv_list = memory_list, kv_get = memory_get, kv_delete = memory_delete\<rparr>"

definition memory_lookup :: "MemoryKeyValueStorage \<Rightarrow> string \<Rightarrow> bytes option" where
  "memory_lookup s = map_of (items s)"

lemmas memory_defs =
  memory_storage_def memory_set_def memory_list_def memory_get_def memory_delete_def
  memory_insert_def memory_lookup_def

interpretation memory: kv_contract memory_storage memory_lookup "\<lambda>_. True" "\<lambda>_. True"
  by unfold_locales (auto simp: memory_defs map_of_eq_None_iff)

section \<open>A storage run and its specification\<close>

text \<open>Sequences of calls, and the map they describe.\<close>

datatype kv_call =
    Set string bytes bool
  | Get string
  | Delete string

datatype kv_reply = Done "unit kv_result" | Value "bytes option kv_result"

fun kv_step :: "'s KeyValueStorage \<Rightarrow> 's \<Rightarrow> kv_call \<Rightarrow> kv_reply \<times> 's" where
  "kv_step K s (Set k v ow) = (let (r, s') = kv_set K s k v \<lparr>overwrite = ow\<rparr> in (Done r, s'))"
| "kv_step K s (Get k) = (Value (kv_get K s k), s)"
| "kv_step K s (Delete k) = (let (r, s') = kv_delete K s k in (Value r, s'))"

fun kv_run :: "'s KeyValueStorage \<Rightarrow> 's \<Rightarrow> kv_call list \<Rightarrow> kv_reply list \<times> 's" where
  "kv_run K s [] = ([], s)"
| "kv_run K s (c # cs) =
     (let (r, s') = kv_step K s c; (rs, s'') = kv_run K s' cs in (r # rs, s''))"

text \<open>The abstract map: what each call answers, and whether it was refused.\<close>

datatype spec_reply = Accepted | Refused | Found "bytes option"

fun spec_step :: "(string \<Rightarrow> bytes option) \<Rightarrow> kv_call \<Rightarrow>
    spec_reply \<times> (string \<Rightarrow> bytes option)" where
  "spec_step m (Set k v ow) =
     (if \<not> ow \<and> m k \<noteq> None then (Refused, m) else (Accepted, m(k \<mapsto> v)))"
| "spec_step m (Get k) = (Found (m k), m)"
| "spec_step m (Delete k) = (Found (m k), m(k := None))"

fun spec_run :: "(string \<Rightarrow> bytes option) \<Rightarrow> kv_call list \<Rightarrow>
    spec_reply list \<times> (string \<Rightarrow> bytes option)" where
  "spec_run m [] = ([], m)"
| "spec_run m (c # cs) =
     (let (r, m') = spec_step m c; (rs, m'') = spec_run m' cs in (r # rs, m''))"

fun abs_reply :: "kv_reply \<Rightarrow> spec_reply option" where
  "abs_reply (Done (Ok ())) = Some Accepted"
| "abs_reply (Done (Err e)) = Some Refused"
| "abs_reply (Value (Ok v)) = Some (Found v)"
| "abs_reply _ = None"

fun call_key :: "kv_call \<Rightarrow> string" where
  "call_key (Set k v ow) = k"
| "call_key (Get k) = k"
| "call_key (Delete k) = k"

context kv_contract
begin

lemma step_refines:
  assumes "inv s" "key_ok (call_key c)" and m: "\<forall>k. key_ok k \<longrightarrow> lookup s k = m k"
    and step: "kv_step K s c = (r, s')" "spec_step m c = (r', m')"
  shows "abs_reply r = Some r' \<and> inv s' \<and> (\<forall>k. key_ok k \<longrightarrow> lookup s' k = m' k)"
proof (cases c)
  case (Set k v ow)
  then have ok: "key_ok k" using assms(2) by simp
  show ?thesis
  proof (cases "\<not> ow \<and> m k \<noteq> None")
    case True
    then obtain old where "lookup s k = Some old" using m ok by auto
    then obtain e where "kv_set K s k v \<lparr>overwrite = False\<rparr> = (Err e, s)"
      using set_protected [OF assms(1) ok] by blast
    with True Set step m assms(1) show ?thesis by auto
  next
    case False
    have "\<exists>t. kv_set K s k v \<lparr>overwrite = ow\<rparr> = (Ok (), t) \<and> inv t \<and>
        (\<forall>k'. key_ok k' \<longrightarrow> lookup t k' = ((lookup s)(k \<mapsto> v)) k')"
    proof (cases ow)
      case True
      obtain t where "kv_set K s k v \<lparr>overwrite = True\<rparr> = (Ok (), t)" "inv t"
        "\<And>k'. key_ok k' \<Longrightarrow> lookup t k' = ((lookup s)(k \<mapsto> v)) k'"
        using set_any [OF assms(1) ok, of v] by blast
      with True show ?thesis by auto
    next
      case False
      with \<open>\<not> (\<not> ow \<and> m k \<noteq> None)\<close> show ?thesis
        using set_new [OF assms(1) ok, of v] m ok by auto
    qed
    with False Set step m show ?thesis by auto
  qed
next
  case (Get k)
  with step m assms(1,2) get_lookup [of s k] show ?thesis by auto
next
  case (Delete k)
  with step m assms(1,2) delete_key [of s k] show ?thesis by auto
qed

lemma run_refines:
  "inv s \<Longrightarrow> \<forall>k. key_ok k \<longrightarrow> lookup s k = m k \<Longrightarrow> \<forall>c \<in> set cs. key_ok (call_key c) \<Longrightarrow>
     kv_run K s cs = (rs, s') \<Longrightarrow> spec_run m cs = (rs', m') \<Longrightarrow>
     map abs_reply rs = map Some rs' \<and> inv s' \<and> (\<forall>k. key_ok k \<longrightarrow> lookup s' k = m' k)"
proof (induction cs arbitrary: s m rs rs')
  case Nil
  then show ?case by simp
next
  case (Cons c cs)
  obtain r t where st: "kv_step K s c = (r, t)" by (cases "kv_step K s c")
  obtain r' n where sp: "spec_step m c = (r', n)" by (cases "spec_step m c")
  obtain ss where ss: "kv_run K t cs = (ss, s')" "rs = r # ss"
    using Cons.prems(4) st by (auto split: prod.splits)
  obtain ss' where ss': "spec_run n cs = (ss', m')" "rs' = r' # ss'"
    using Cons.prems(5) sp by (auto split: prod.splits)
  have "key_ok (call_key c)" using Cons.prems(3) by simp
  from step_refines [OF Cons.prems(1) this Cons.prems(2) st sp]
  show ?case using Cons.IH [OF _ _ _ ss(1) ss'(1)] Cons.prems(3) ss(2) ss'(2) by simp
qed

end

end
