(* ===== verification/Kv_Backends.thy ===== *)
theory Kv_Backends
  imports Kv_Storage
begin

text \<open>
  The persistent backends of \<^verbatim>\<open>deps/key-value-storage/src\<close>: a file per key (\<^verbatim>\<open>local_fs/mod.rs\<close>), one
  JSON file (\<^verbatim>\<open>local_json/mod.rs\<close>) and a PostgreSQL table (\<^verbatim>\<open>postgres/mod.rs\<close>), with the backend
  configuration of \<^verbatim>\<open>lib.rs\<close>. \<^verbatim>\<open>let _ = self.lock.write().await\<close> drops the guard at once, so the lock
  orders nothing and each operation is modelled by what it does to the file system.

  The interpretations show what each gives a client: overwriting for the file system and PostgreSQL,
  only fresh writes for JSON.
\<close>

section \<open>Local file system\<close>

record LocalFs =
  dir_path :: path

record LocalFs_Config =
  fs_dir_path :: string

definition LocalFs_FILE_PATH :: string where
  "LocalFs_FILE_PATH = ''/opt/confidential-containers/storage/local_fs''"

definition LocalFs_Config_default :: LocalFs_Config where
  "LocalFs_Config_default = \<lparr>fs_dir_path = LocalFs_FILE_PATH\<rparr>"

definition LocalFs_new :: "io_env \<Rightarrow> fs \<Rightarrow> LocalFs_Config \<Rightarrow> LocalFs kv_result \<times> fs" where
  "LocalFs_new io f config =
     (let dir = path_of (fs_dir_path config); (r, f') = create_dir_all io f dir in
      (and_then (map_err (\<lambda>e. InitializeBackendFailed (Io e)) r) (\<lambda>_. Ok \<lparr>dir_path = dir\<rparr>), f'))"

text \<open>\<^verbatim>\<open>"\\x2F"\<close> in the source: a backslash and three characters.\<close>

definition escaped_slash :: string where
  "escaped_slash = [CHR 0x5C, CHR ''x'', CHR ''2'', CHR ''F'']"

definition escape_key :: "string \<Rightarrow> string" where
  "escape_key key = replace_char CHR ''/'' escaped_slash key"

text \<open>\<^verbatim>\<open>str::replace\<close> with a string pattern; the counter skips the rest of a replaced match.\<close>

fun replace_skip :: "string \<Rightarrow> string \<Rightarrow> nat \<Rightarrow> string \<Rightarrow> string" where
  "replace_skip pat rep n [] = []"
| "replace_skip pat rep 0 (c # cs) =
     (if take (length pat) (c # cs) = pat then rep @ replace_skip pat rep (length pat - 1) cs
      else c # replace_skip pat rep 0 cs)"
| "replace_skip pat rep (Suc n) (c # cs) = replace_skip pat rep n cs"

definition unescape_key :: "string \<Rightarrow> string" where
  "unescape_key name = replace_skip escaped_slash ''/'' 0 name"

definition key_path :: "LocalFs \<Rightarrow> string \<Rightarrow> path" where
  "key_path self key = join1 (dir_path self) (escape_key key)"

definition local_fs_set ::
    "io_env \<Rightarrow> LocalFs \<Rightarrow> fs \<Rightarrow> string \<Rightarrow> bytes \<Rightarrow> SetParameters \<Rightarrow> unit kv_result \<times> fs" where
  "local_fs_set io self f key v p =
     (if \<not> is_valid_key key
      then (Err (SetKeyFailed (Msg ''key contains invalid characters'') key), f)
      else
        let file_path = key_path self key;
            (written, f') =
              (if overwrite p \<or> \<not> exists_path f file_path
               then let (r, f') = write_file io f file_path v in
                    (map_err (\<lambda>e. SetKeyFailed (Io e) key) r, f')
               else (Ok (), f))
        in (and_then written (\<lambda>_.
              if \<not> overwrite p \<and> exists_path f' file_path
              then Err (SetKeyFailed (Msg ''key already exists'') key)
              else Ok ()), f'))"

definition local_fs_get :: "io_env \<Rightarrow> LocalFs \<Rightarrow> fs \<Rightarrow> string \<Rightarrow> bytes option kv_result" where
  "local_fs_get io self f key =
     (let file_path = key_path self key in
      if \<not> exists_path f file_path then Ok None
      else map_ok Some (map_err (\<lambda>e. GetKeyFailed (Io e) key) (read_file io f file_path)))"

definition local_fs_list :: "io_env \<Rightarrow> LocalFs \<Rightarrow> fs \<Rightarrow> string list kv_result" where
  "local_fs_list io self f =
     map_ok (map unescape_key)
       (map_err (\<lambda>e. ListKeysFailed (Io e)) (read_dir io f (dir_path self)))"

definition local_fs_delete ::
    "io_env \<Rightarrow> LocalFs \<Rightarrow> fs \<Rightarrow> string \<Rightarrow> bytes option kv_result \<times> fs" where
  "local_fs_delete io self f key =
     (let file_path = key_path self key in
      if \<not> exists_path f file_path then (Ok None, f)
      else (case map_err (\<lambda>e. GetKeyFailed (Io e) key) (read_file io f file_path) of
              Ok file \<Rightarrow>
                (let (r, f') = remove_file io f file_path in
                 (and_then (map_err (\<lambda>e. DeleteKeyFailed (Io e) key) r) (\<lambda>_. Ok (Some file)), f'))
            | Err e \<Rightarrow> (Err e, f)
            | Panic \<Rightarrow> (Panic, f)))"

definition local_fs_storage :: "io_env \<Rightarrow> LocalFs \<Rightarrow> fs KeyValueStorage" where
  "local_fs_storage io self =
     \<lparr>kv_set = local_fs_set io self, kv_list = local_fs_list io self,
      kv_get = local_fs_get io self, kv_delete = local_fs_delete io self\<rparr>"

subsection \<open>Escaped keys\<close>

lemma escape_key_simps [simp]:
  "escape_key [] = []"
  "escape_key (c # cs) = (if c = CHR ''/'' then escaped_slash else [c]) @ escape_key cs"
  by (simp_all add: escape_key_def replace_char_def)

lemma unescape_escape: "CHR 0x5C \<notin> set k \<Longrightarrow> unescape_key (escape_key k) = k"
  unfolding unescape_key_def
  by (induction k) (auto simp: escaped_slash_def)

lemma escape_unescape_skip:
  "CHR ''/'' \<notin> set name \<Longrightarrow>
     escape_key (replace_skip escaped_slash ''/'' n name) = drop n name"
proof (induction escaped_slash "''/''" n name rule: replace_skip.induct)
  case (2 c cs)
  show ?case
  proof (cases "take (length escaped_slash) (c # cs) = escaped_slash")
    case True
    then have "escape_key (replace_skip escaped_slash ''/'' 0 (c # cs)) =
        escaped_slash @ drop (length escaped_slash - 1) cs"
      using 2 by simp
    also have "\<dots> = c # cs"
      using True append_take_drop_id [of "length escaped_slash" "c # cs"]
      by (simp add: escaped_slash_def)
    finally show ?thesis by simp
  next
    case False
    with 2 show ?thesis by auto
  qed
qed auto

lemma escape_unescape: "CHR ''/'' \<notin> set name \<Longrightarrow> escape_key (unescape_key name) = name"
  unfolding unescape_key_def using escape_unescape_skip [of name 0] by simp

lemma valid_no_backslash: "is_valid_key k \<Longrightarrow> CHR 0x5C \<notin> set k"
  by (auto simp: is_valid_key_def list_all_iff is_ascii_alphanumeric_def Let_def)

lemma escape_no_slash: "CHR ''/'' \<notin> set (escape_key k)"
  by (induction k) (auto simp: escaped_slash_def)

lemma escape_empty [simp]: "escape_key k = [] \<longleftrightarrow> k = []"
  by (cases k) (auto simp: escaped_slash_def)

lemma escape_dot [simp]: "escape_key k = ''.'' \<longleftrightarrow> k = ''.''"
  by (cases k) (auto simp: escaped_slash_def)

lemma escape_dots [simp]: "escape_key k = ''..'' \<longleftrightarrow> k = ''..''"
  by (cases k) (auto simp: escaped_slash_def)

subsection \<open>What it gives a client\<close>

definition local_fs_lookup :: "LocalFs \<Rightarrow> fs \<Rightarrow> string \<Rightarrow> bytes option" where
  "local_fs_lookup self f k =
     (case map_of f (dir_path self @ [escape_key k]) of Some (FileNode b) \<Rightarrow> Some b | _ \<Rightarrow> None)"

text \<open>The directory exists and holds files only, whose names have no separator.\<close>

definition local_fs_inv :: "LocalFs \<Rightarrow> fs \<Rightarrow> bool" where
  "local_fs_inv self f \<longleftrightarrow>
     is_dir f (dir_path self) \<and>
     (\<forall>c. map_of f (dir_path self @ [c]) \<noteq> Some DirNode) \<and>
     (\<forall>c. map_of f (dir_path self @ [c]) \<noteq> None \<longrightarrow> CHR ''/'' \<notin> set c)"

definition file_key :: "string \<Rightarrow> bool" where
  "file_key k \<longleftrightarrow> is_valid_key k \<and> k \<noteq> [] \<and> k \<noteq> ''.'' \<and> k \<noteq> ''..''"

lemma key_path_file [simp]: "file_key k \<Longrightarrow> key_path self k = dir_path self @ [escape_key k]"
  by (simp add: key_path_def file_key_def)

lemma escape_inj: "file_key k \<Longrightarrow> file_key k' \<Longrightarrow> escape_key k = escape_key k' \<longleftrightarrow> k = k'"
  using unescape_escape valid_no_backslash unfolding file_key_def by metis

lemma exists_key:
  "local_fs_inv self f \<Longrightarrow>
     exists_path f (dir_path self @ [escape_key k]) \<longleftrightarrow> local_fs_lookup self f k \<noteq> None"
  by (auto simp: exists_path_def local_fs_inv_def local_fs_lookup_def
      split: option.splits fnode.splits)

lemma read_key:
  "local_fs_lookup self f k = Some v \<Longrightarrow>
     read_file no_faults f (dir_path self @ [escape_key k]) = Ok v"
  by (auto simp: read_file_def local_fs_lookup_def split: option.splits fnode.splits)

lemma local_fs_get_lookup:
  "local_fs_inv self f \<Longrightarrow> file_key k \<Longrightarrow>
     local_fs_get no_faults self f k = Ok (local_fs_lookup self f k)"
  by (auto simp: local_fs_get_def Let_def exists_key read_key)

lemma local_fs_inv_update:
  "local_fs_inv self f \<Longrightarrow>
     local_fs_inv self (AList.update (dir_path self @ [escape_key k]) (FileNode v) f)"
  by (auto simp: local_fs_inv_def escape_no_slash)

lemma local_fs_lookup_update:
  "file_key k \<Longrightarrow> file_key k' \<Longrightarrow>
     local_fs_lookup self (AList.update (dir_path self @ [escape_key k]) (FileNode v) f) k' =
       ((local_fs_lookup self f)(k \<mapsto> v)) k'"
  by (auto simp: local_fs_lookup_def escape_inj)

lemma write_key:
  "local_fs_inv self f \<Longrightarrow>
     write_file no_faults f (dir_path self @ [escape_key k]) v =
       (Ok (), AList.update (dir_path self @ [escape_key k]) (FileNode v) f)"
  by (intro write_file_ok) (auto simp: local_fs_inv_def)

lemma local_fs_set_overwrite:
  assumes "local_fs_inv self f" "file_key k"
  shows "\<exists>f'. local_fs_set no_faults self f k v \<lparr>overwrite = True\<rparr> = (Ok (), f') \<and>
    local_fs_inv self f' \<and>
    (\<forall>k'. file_key k' \<longrightarrow> local_fs_lookup self f' k' = ((local_fs_lookup self f)(k \<mapsto> v)) k')"
proof -
  have "is_valid_key k" using assms(2) by (simp add: file_key_def)
  then show ?thesis
    using assms write_key local_fs_inv_update local_fs_lookup_update
    by (simp add: local_fs_set_def Let_def)
qed

lemma local_fs_list_keys:
  assumes "local_fs_inv self f"
  shows "\<exists>ks. local_fs_list no_faults self f = Ok ks \<and>
    (\<forall>k. file_key k \<longrightarrow> (k \<in> set ks \<longleftrightarrow> local_fs_lookup self f k \<noteq> None))"
proof -
  let ?d = "dir_path self"
  obtain names where names: "read_dir no_faults f ?d = Ok names"
    using assms by (auto simp: read_dir_def local_fs_inv_def is_dir_def exists_path_def)
  have "k \<in> unescape_key ` set names \<longleftrightarrow> local_fs_lookup self f k \<noteq> None" if "file_key k" for k
  proof -
    have "k \<in> unescape_key ` set names \<longleftrightarrow> escape_key k \<in> set names"
    proof
      assume "k \<in> unescape_key ` set names"
      then obtain c where c: "c \<in> set names" "k = unescape_key c" by blast
      then have "CHR ''/'' \<notin> set c"
        using assms set_read_dir [OF names] by (auto simp: local_fs_inv_def)
      with c show "escape_key k \<in> set names" by (simp add: escape_unescape)
    next
      assume "escape_key k \<in> set names"
      then show "k \<in> unescape_key ` set names"
        using that unescape_escape valid_no_backslash
        by (intro image_eqI [of _ _ "escape_key k"]) (simp_all add: file_key_def)
    qed
    then show ?thesis
      using exists_key [OF assms] set_read_dir [OF names] by (auto simp: exists_path_def)
  qed
  then show ?thesis using names by (auto simp: local_fs_list_def)
qed

lemma local_fs_delete_key:
  assumes "local_fs_inv self f" "file_key k"
  shows "\<exists>f'. local_fs_delete no_faults self f k = (Ok (local_fs_lookup self f k), f') \<and>
    local_fs_inv self f' \<and>
    (\<forall>k'. file_key k' \<longrightarrow> local_fs_lookup self f' k' = ((local_fs_lookup self f)(k := None)) k')"
proof (cases "local_fs_lookup self f k")
  case None
  then show ?thesis using assms exists_key by (auto simp: local_fs_delete_def Let_def)
next
  case (Some v)
  let ?p = "dir_path self @ [escape_key k]"
  have rm: "remove_file no_faults f ?p = (Ok (), AList.delete ?p f)"
    using Some assms(1)
    by (auto simp: remove_file_def is_dir_def local_fs_inv_def local_fs_lookup_def
        split: option.splits)
  have "local_fs_inv self (AList.delete ?p f)"
    using assms(1) by (auto simp: local_fs_inv_def)
  moreover have "local_fs_lookup self (AList.delete ?p f) k' =
      ((local_fs_lookup self f)(k := None)) k'" if "file_key k'" for k'
    using that assms(2) by (auto simp: local_fs_lookup_def escape_inj)
  ultimately show ?thesis
    using assms Some rm read_key [OF Some] exists_key
    by (auto simp: local_fs_delete_def Let_def)
qed

interpretation local_fs: kv_overwrite "local_fs_storage no_faults self" "local_fs_lookup self"
    "local_fs_inv self" file_key for self
  by unfold_locales
    (simp_all add: local_fs_storage_def local_fs_get_lookup local_fs_set_overwrite
      local_fs_list_keys local_fs_delete_key del: fun_upd_apply not_None_eq)

section \<open>Local JSON file\<close>

text \<open>
  The codecs the backend calls: \<^verbatim>\<open>serde_json\<close> on a map from strings to strings, and the URL-safe
  alphabet of \<^verbatim>\<open>base64\<close>. \<open>codec_laws\<close> is their documented behaviour: decoding inverts encoding.
\<close>

record json_codec =
  map_to_json :: "(string \<times> string) list \<Rightarrow> bytes option"
  map_from_json :: "bytes \<Rightarrow> (string \<times> string) list option"
  url_safe_encode :: "bytes \<Rightarrow> string"
  url_safe_decode :: "string \<Rightarrow> bytes option"

definition codec_laws :: "json_codec \<Rightarrow> bool" where
  "codec_laws J \<longleftrightarrow>
     (\<forall>m. \<exists>b m'. map_to_json J m = Some b \<and> map_from_json J b = Some m' \<and> map_of m' = map_of m) \<and>
     (\<forall>b. url_safe_decode J (url_safe_encode J b) = Some b)"

record LocalJson =
  file_path :: path

record LocalJson_Config =
  json_file_path :: string

definition LocalJson_FILE_PATH :: string where
  "LocalJson_FILE_PATH = ''/opt/confidential-containers/storage/local_json/key_value.json''"

definition LocalJson_Config_default :: LocalJson_Config where
  "LocalJson_Config_default = \<lparr>json_file_path = LocalJson_FILE_PATH\<rparr>"

definition LocalJson_new :: "io_env \<Rightarrow> fs \<Rightarrow> LocalJson_Config \<Rightarrow> LocalJson kv_result \<times> fs" where
  "LocalJson_new io f config =
     (case parent (json_file_path config) of
        None \<Rightarrow>
          (Err (InitializeBackendFailed
             (Msg ''Illegal `file_path` for LocalJson's config without a parent dir.'')), f)
      | Some dir \<Rightarrow>
          (let p = path_of (json_file_path config);
               (made, f1) = create_dir_all io f dir;
               (r, f2) =
                 (case made of
                    Ok () \<Rightarrow> if \<not> exists_path f1 p then write_file io f1 p (bytes_of ''{}'') else (Ok (), f1)
                  | Err e \<Rightarrow> (Err e, f1)
                  | Panic \<Rightarrow> (Panic, f1))
           in (and_then (map_err (\<lambda>e. InitializeBackendFailed (Io e)) r) (\<lambda>_. Ok \<lparr>file_path = p\<rparr>),
               f2)))"

definition local_json_set ::
    "json_codec \<Rightarrow> io_env \<Rightarrow> LocalJson \<Rightarrow> fs \<Rightarrow> string \<Rightarrow> bytes \<Rightarrow> SetParameters \<Rightarrow>
     unit kv_result \<times> fs" where
  "local_json_set J io self f key v p =
     (case and_then (map_err (\<lambda>e. GetKeyFailed (Io e) key) (read_file io f (file_path self))) (\<lambda>file.
           and_then (ok_or (MalformedValue (Msg ''serde_json'')) (map_from_json J file)) (\<lambda>its.
           let value_b64 = url_safe_encode J v in
           if overwrite p \<and> map_of its key \<noteq> None
           then Err (SetKeyFailed (Msg ''key already exists'') key)
           else ok_or (SetKeyFailed (Msg ''serde_json'') key)
                  (map_to_json J (AList.update key value_b64 its)))) of
        Ok new_contents \<Rightarrow>
          (let (r, f') = write_file io f (file_path self) new_contents in
           (map_err (\<lambda>e. SetKeyFailed (Io e) key) r, f'))
      | Err e \<Rightarrow> (Err e, f)
      | Panic \<Rightarrow> (Panic, f))"

text \<open>\<^verbatim>\<open>.map(|v| URL_SAFE.decode(v)).transpose()\<close>.\<close>

definition decode_opt :: "json_codec \<Rightarrow> 'e \<Rightarrow> string option \<Rightarrow> ('e, bytes option) outcome" where
  "decode_opt J e x =
     (case x of None \<Rightarrow> Ok None | Some v \<Rightarrow> map_ok Some (ok_or e (url_safe_decode J v)))"

definition local_json_get ::
    "json_codec \<Rightarrow> io_env \<Rightarrow> LocalJson \<Rightarrow> fs \<Rightarrow> string \<Rightarrow> bytes option kv_result" where
  "local_json_get J io self f key =
     and_then (map_err (\<lambda>e. GetKeyFailed (Io e) key) (read_file io f (file_path self))) (\<lambda>file.
     and_then (ok_or (MalformedValue (Msg ''failed to deserialize the file'')) (map_from_json J file))
       (\<lambda>its.
       decode_opt J (GetKeyFailed (Msg ''failed to base64 decode the content inside json'') key)
         (map_of its key)))"

definition local_json_list :: "json_codec \<Rightarrow> io_env \<Rightarrow> LocalJson \<Rightarrow> fs \<Rightarrow> string list kv_result" where
  "local_json_list J io self f =
     and_then (map_err (\<lambda>e. ListKeysFailed (Io e)) (read_file io f (file_path self))) (\<lambda>file.
     and_then (ok_or (ListKeysFailed (Msg ''failed to deserialize the file'')) (map_from_json J file))
       (\<lambda>its. Ok (map fst its)))"

definition local_json_delete ::
    "json_codec \<Rightarrow> io_env \<Rightarrow> LocalJson \<Rightarrow> fs \<Rightarrow> string \<Rightarrow> bytes option kv_result \<times> fs" where
  "local_json_delete J io self f key =
     (case and_then (map_err (\<lambda>e. GetKeyFailed (Io e) key) (read_file io f (file_path self))) (\<lambda>file.
           and_then (ok_or (DeleteKeyFailed (Msg ''failed to deserialize the file'') key)
                       (map_from_json J file)) (\<lambda>its.
           and_then (decode_opt J (DeleteKeyFailed (Msg ''failed to base64 decode value'') key)
                       (map_of its key)) (\<lambda>v.
           and_then (ok_or (DeleteKeyFailed (Msg ''serde_json'') key)
                       (map_to_json J (AList.delete key its))) (\<lambda>contents.
             Ok (v, contents))))) of
        Ok (v, contents) \<Rightarrow>
          (let (r, f') = write_file io f (file_path self) contents in
           (and_then (map_err (\<lambda>e. DeleteKeyFailed (Io e) key) r) (\<lambda>_. Ok v), f'))
      | Err e \<Rightarrow> (Err e, f)
      | Panic \<Rightarrow> (Panic, f))"

definition local_json_storage :: "json_codec \<Rightarrow> io_env \<Rightarrow> LocalJson \<Rightarrow> fs KeyValueStorage" where
  "local_json_storage J io self =
     \<lparr>kv_set = local_json_set J io self, kv_list = local_json_list J io self,
      kv_get = local_json_get J io self, kv_delete = local_json_delete J io self\<rparr>"

subsection \<open>What it gives a client\<close>

text \<open>The items the file holds, when it can be read.\<close>

definition json_items :: "json_codec \<Rightarrow> LocalJson \<Rightarrow> fs \<Rightarrow> (string \<times> string) list option" where
  "json_items J self f =
     (case map_of f (file_path self) of Some (FileNode b) \<Rightarrow> map_from_json J b | _ \<Rightarrow> None)"

definition local_json_lookup :: "json_codec \<Rightarrow> LocalJson \<Rightarrow> fs \<Rightarrow> string \<Rightarrow> bytes option" where
  "local_json_lookup J self f k =
     Option.bind (json_items J self f) (\<lambda>its. Option.bind (map_of its k) (url_safe_decode J))"

definition local_json_inv :: "json_codec \<Rightarrow> LocalJson \<Rightarrow> fs \<Rightarrow> bool" where
  "local_json_inv J self f \<longleftrightarrow>
     file_path self \<noteq> [] \<and> is_dir f (butlast (file_path self)) \<and>
     (\<exists>its. json_items J self f = Some its \<and>
        (\<forall>k v. map_of its k = Some v \<longrightarrow> url_safe_decode J v \<noteq> None))"

lemma local_json_invE:
  assumes "local_json_inv J self f"
  obtains b its where "map_of f (file_path self) = Some (FileNode b)" "map_from_json J b = Some its"
    "\<And>k v. map_of its k = Some v \<Longrightarrow> \<exists>x. url_safe_decode J v = Some x"
    "read_file no_faults f (file_path self) = Ok b"
    "\<And>k. local_json_lookup J self f k = Option.bind (map_of its k) (url_safe_decode J)"
    "\<And>c. write_file no_faults f (file_path self) c =
       (Ok (), AList.update (file_path self) (FileNode c) f)"
proof -
  from assms obtain b its where b: "map_of f (file_path self) = Some (FileNode b)"
    and its: "map_from_json J b = Some its"
      "\<And>k v. map_of its k = Some v \<Longrightarrow> \<exists>x. url_safe_decode J v = Some x"
    by (auto simp: local_json_inv_def json_items_def split: option.splits fnode.splits)
  moreover have "read_file no_faults f (file_path self) = Ok b"
    using assms b by (auto simp: read_file_def local_json_inv_def)
  moreover have "local_json_lookup J self f k = Option.bind (map_of its k) (url_safe_decode J)" for k
    using b its by (simp add: local_json_lookup_def json_items_def)
  moreover have "write_file no_faults f (file_path self) c =
      (Ok (), AList.update (file_path self) (FileNode c) f)" for c
    using assms b write_file_ok [of f "butlast (file_path self)" "last (file_path self)" no_faults c]
    by (simp add: local_json_inv_def)
  ultimately show ?thesis by (rule that)
qed

lemma local_json_written:
  assumes "codec_laws J" "local_json_inv J self f" "map_to_json J m = Some c"
    and "\<And>k v. map_of m k = Some v \<Longrightarrow> \<exists>x. url_safe_decode J v = Some x"
    and f': "f' = AList.update (file_path self) (FileNode c) f"
  shows "local_json_inv J self f' \<and>
    (\<forall>k. local_json_lookup J self f' k = Option.bind (map_of m k) (url_safe_decode J))"
proof -
  from assms(1,3) obtain m' where m': "map_from_json J c = Some m'" "map_of m' = map_of m"
    unfolding codec_laws_def by (metis option.sel)
  then have "json_items J self f' = Some m'" by (simp add: json_items_def f')
  moreover have "is_dir f' (butlast (file_path self))"
    using assms(2) is_dir_update [of f "butlast (file_path self)" "last (file_path self)"]
    by (simp add: local_json_inv_def f')
  ultimately show ?thesis
    using assms(2,4) m' by (auto simp: local_json_inv_def local_json_lookup_def)
qed

text \<open>A write goes through exactly when the key is absent or overwriting was not asked for.\<close>

lemma local_json_set_ok:
  assumes J: "codec_laws J" and inv: "local_json_inv J self f"
    and absent: "\<not> overwrite p \<or> local_json_lookup J self f k = None"
  shows "\<exists>f'. local_json_set J no_faults self f k v p = (Ok (), f') \<and> local_json_inv J self f' \<and>
    (\<forall>k'. local_json_lookup J self f' k' = ((local_json_lookup J self f)(k \<mapsto> v)) k')"
proof -
  from inv obtain b its where b: "map_from_json J b = Some its"
    and dec: "\<And>k w. map_of its k = Some w \<Longrightarrow> \<exists>x. url_safe_decode J w = Some x"
    and rd: "read_file no_faults f (file_path self) = Ok b"
    and lk: "\<And>k. local_json_lookup J self f k = Option.bind (map_of its k) (url_safe_decode J)"
    and wr: "\<And>c. write_file no_faults f (file_path self) c =
       (Ok (), AList.update (file_path self) (FileNode c) f)"
    by (elim local_json_invE) (rule that)
  let ?m = "AList.update k (url_safe_encode J v) its"
  from J obtain c where c: "map_to_json J ?m = Some c" by (auto simp: codec_laws_def)
  have enc: "url_safe_decode J (url_safe_encode J v) = Some v" using J by (simp add: codec_laws_def)
  have "\<not> (overwrite p \<and> map_of its k \<noteq> None)"
    using absent lk dec by (cases "map_of its k") fastforce+
  then have "local_json_set J no_faults self f k v p =
      (Ok (), AList.update (file_path self) (FileNode c) f)"
    using rd b c wr by (auto simp: local_json_set_def Let_def)
  moreover have "\<exists>x. url_safe_decode J w = Some x" if "map_of ?m k' = Some w" for k' w
    using that enc dec by (auto split: if_splits)
  note local_json_written [OF J inv c this refl]
  ultimately show ?thesis using enc lk by auto
qed

lemma local_json_get_lookup:
  "local_json_inv J self f \<Longrightarrow>
     local_json_get J no_faults self f k = Ok (local_json_lookup J self f k)"
proof (erule local_json_invE)
  fix b its
  assume "map_from_json J b = Some its" "read_file no_faults f (file_path self) = Ok b"
    "\<And>k. local_json_lookup J self f k = Option.bind (map_of its k) (url_safe_decode J)"
    "\<And>k v. map_of its k = Some v \<Longrightarrow> \<exists>x. url_safe_decode J v = Some x"
  then show ?thesis
    by (cases "map_of its k") (force simp: local_json_get_def decode_opt_def)+
qed

lemma local_json_list_keys:
  "local_json_inv J self f \<Longrightarrow>
     \<exists>ks. local_json_list J no_faults self f = Ok ks \<and>
       (\<forall>k. k \<in> set ks \<longleftrightarrow> local_json_lookup J self f k \<noteq> None)"
proof (erule local_json_invE)
  fix b its
  assume *: "map_from_json J b = Some its" "read_file no_faults f (file_path self) = Ok b"
    "\<And>k. local_json_lookup J self f k = Option.bind (map_of its k) (url_safe_decode J)"
    "\<And>k v. map_of its k = Some v \<Longrightarrow> \<exists>x. url_safe_decode J v = Some x"
  have "k \<in> fst ` set its \<longleftrightarrow> local_json_lookup J self f k \<noteq> None" for k
    using * map_of_eq_None_iff [of its k] by (cases "map_of its k") fastforce+
  then show ?thesis using * by (simp add: local_json_list_def)
qed

lemma local_json_delete_key:
  assumes J: "codec_laws J" and inv: "local_json_inv J self f"
  shows "\<exists>f'. local_json_delete J no_faults self f k = (Ok (local_json_lookup J self f k), f') \<and>
    local_json_inv J self f' \<and>
    (\<forall>k'. local_json_lookup J self f' k' = ((local_json_lookup J self f)(k := None)) k')"
proof -
  from inv obtain b its where b: "map_from_json J b = Some its"
    and dec: "\<And>k v. map_of its k = Some v \<Longrightarrow> \<exists>x. url_safe_decode J v = Some x"
    and rd: "read_file no_faults f (file_path self) = Ok b"
    and lk: "\<And>k. local_json_lookup J self f k = Option.bind (map_of its k) (url_safe_decode J)"
    and wr: "\<And>c. write_file no_faults f (file_path self) c =
       (Ok (), AList.update (file_path self) (FileNode c) f)"
    by (elim local_json_invE) (rule that)
  let ?m = "AList.delete k its"
  from J obtain c where c: "map_to_json J ?m = Some c" by (auto simp: codec_laws_def)
  have "decode_opt J e (map_of its k) = Ok (local_json_lookup J self f k)"
    for e :: KeyValueStorageError
    using dec lk by (cases "map_of its k") (force simp: decode_opt_def)+
  then have "local_json_delete J no_faults self f k =
      (Ok (local_json_lookup J self f k), AList.update (file_path self) (FileNode c) f)"
    using rd b c wr by (simp add: local_json_delete_def)
  moreover have "\<exists>x. url_safe_decode J w = Some x" if "map_of ?m k' = Some w" for k' w
    using that dec by (auto split: if_splits)
  note local_json_written [OF J inv c this refl]
  ultimately show ?thesis using lk by auto
qed

lemma local_json_kv_store:
  "codec_laws J \<Longrightarrow>
     kv_store (local_json_storage J no_faults self) (local_json_lookup J self)
       (local_json_inv J self) (\<lambda>_. True)"
  by unfold_locales
    (simp_all add: local_json_storage_def local_json_get_lookup local_json_set_ok
      local_json_list_keys local_json_delete_key del: fun_upd_apply not_None_eq)

section \<open>PostgreSQL\<close>

text \<open>
  The database is a service: \<open>sqlx\<close> is what the client calls of it, with the SQL text and the bound
  values as arguments. A row is a list of named columns.
\<close>

type_synonym row = "(string \<times> bytes) list"

record 'db sqlx =
  pg_execute :: "string \<Rightarrow> bytes list \<Rightarrow> 'db \<Rightarrow> (string, unit) outcome \<times> 'db"
  pg_fetch_all :: "string \<Rightarrow> 'db \<Rightarrow> (string, string list) outcome"
  pg_fetch_one :: "string \<Rightarrow> bytes list \<Rightarrow> 'db \<Rightarrow> (string, row) outcome"
  pg_fetch_optional :: "string \<Rightarrow> bytes list \<Rightarrow> 'db \<Rightarrow> (string, row option) outcome \<times> 'db"

definition KEY_COLUMN :: string where
  "KEY_COLUMN = ''key''"

definition VALUE_COLUMN :: string where
  "VALUE_COLUMN = ''value''"

record PostgresConfig =
  db :: string
  username :: string
  password :: "string option"
  port :: u16
  host :: string
  config_table :: string

definition PostgresConfig_default :: PostgresConfig where
  "PostgresConfig_default =
     \<lparr>db = ''postgres'', username = ''postgres'', password = None, port = 5432,
      host = ''localhost'', config_table = ''key_value''\<rparr>"

text \<open>The connection URL, unless the environment variable \<^verbatim>\<open>POSTGRES_URL\<close> gives one.\<close>

definition postgres_url :: "string option \<Rightarrow> PostgresConfig \<Rightarrow> string" where
  "postgres_url env config =
     (case env of
        Some url \<Rightarrow> url
      | None \<Rightarrow>
          ''postgresql://''
          @ (case password config of Some pw \<Rightarrow> '':'' @ pw | None \<Rightarrow> username config)
          @ ''@'' @ host config @ '':'' @ fmt_dec (unat (port config)) @ ''/'' @ db config)"

record PostgresClient =
  table :: string

text \<open>\<open>parse_url\<close> is \<^verbatim>\<open>pg_connection_string\<close>, \<open>connect\<close> opening the pool.\<close>

definition PostgresClient_new ::
    "(string \<Rightarrow> string option) \<Rightarrow> (string \<Rightarrow> bool) \<Rightarrow> string option \<Rightarrow> PostgresConfig \<Rightarrow>
     PostgresClient kv_result" where
  "PostgresClient_new parse_url connect env config =
     and_then (ok_or (InitializeBackendFailed (Msg ''failed to parse PostgreSQL connection string''))
                 (parse_url (postgres_url env config))) (\<lambda>url.
     if connect url then Ok \<lparr>table = config_table config\<rparr>
     else Err (InitializeBackendFailed (Msg ''failed to connect to PostgreSQL DB'')))"

definition insert_sql :: "string \<Rightarrow> string" where
  "insert_sql t =
     ''INSERT INTO '' @ t @ '' ('' @ KEY_COLUMN @ '', '' @ VALUE_COLUMN @ '') VALUES ( $1, $2 )''"

definition upsert_sql :: "string \<Rightarrow> string" where
  "upsert_sql t =
     insert_sql t @ '' ON CONFLICT ('' @ KEY_COLUMN @ '') DO UPDATE SET '' @ VALUE_COLUMN @ '' = $2''"

definition list_sql :: "string \<Rightarrow> string" where
  "list_sql t = ''SELECT ('' @ KEY_COLUMN @ '') FROM '' @ t"

definition select_sql :: "string \<Rightarrow> string" where
  "select_sql t =
     ''SELECT ('' @ VALUE_COLUMN @ '') FROM '' @ t @ '' WHERE '' @ KEY_COLUMN @ '' = $1''"

definition delete_sql :: "string \<Rightarrow> string" where
  "delete_sql t =
     ''DELETE FROM '' @ t @ '' WHERE '' @ KEY_COLUMN @ '' = $1 RETURNING '' @ VALUE_COLUMN"

definition postgres_set ::
    "'db sqlx \<Rightarrow> PostgresClient \<Rightarrow> 'db \<Rightarrow> string \<Rightarrow> bytes \<Rightarrow> SetParameters \<Rightarrow>
     unit kv_result \<times> 'db" where
  "postgres_set Q self d key v p =
     (if \<not> is_valid_key key
      then (Err (SetKeyFailed (Msg ''key contains invalid characters'') key), d)
      else
        let sql = (if overwrite p then upsert_sql (table self) else insert_sql (table self));
            (r, d') = pg_execute Q sql [bytes_of key, v] d
        in (map_err (\<lambda>e. SetKeyFailed (Sql e) key) r, d'))"

definition postgres_list :: "'db sqlx \<Rightarrow> PostgresClient \<Rightarrow> 'db \<Rightarrow> string list kv_result" where
  "postgres_list Q self d =
     map_err (\<lambda>e. ListKeysFailed (Sql e)) (pg_fetch_all Q (list_sql (table self)) d)"

definition postgres_get :: "'db sqlx \<Rightarrow> PostgresClient \<Rightarrow> 'db \<Rightarrow> string \<Rightarrow> bytes option kv_result" where
  "postgres_get Q self d key =
     and_then (map_err (\<lambda>e. GetKeyFailed (Sql e) key)
                 (pg_fetch_one Q (select_sql (table self)) [bytes_of key] d)) (\<lambda>value.
     if value = [] then Ok None
     else map_ok Some (ok_or (MalformedValue (Sql ''try_get'')) (map_of value VALUE_COLUMN)))"

definition postgres_delete ::
    "'db sqlx \<Rightarrow> PostgresClient \<Rightarrow> 'db \<Rightarrow> string \<Rightarrow> bytes option kv_result \<times> 'db" where
  "postgres_delete Q self d key =
     (let (r, d') = pg_fetch_optional Q (delete_sql (table self)) [bytes_of key] d in
      (and_then (map_err (\<lambda>e. DeleteKeyFailed (Sql e) key) r) (\<lambda>row.
         (case row of
            Some row \<Rightarrow> map_ok Some (ok_or (MalformedValue (Sql ''try_get'')) (map_of row ''value''))
          | None \<Rightarrow> Ok None)), d'))"

definition postgres_storage :: "'db sqlx \<Rightarrow> PostgresClient \<Rightarrow> 'db KeyValueStorage" where
  "postgres_storage Q self =
     \<lparr>kv_set = postgres_set Q self, kv_list = postgres_list Q self,
      kv_get = postgres_get Q self, kv_delete = postgres_delete Q self\<rparr>"

text \<open>
  What SQL promises for these statements on a table whose key column is its primary key: \<open>rows\<close>
  gives the table's content.
\<close>

definition sql_laws :: "'db sqlx \<Rightarrow> string \<Rightarrow> ('db \<Rightarrow> string \<Rightarrow> bytes option) \<Rightarrow> bool" where
  "sql_laws Q t rows \<longleftrightarrow>
     (\<forall>d k v. rows d k = None \<longrightarrow>
        (\<exists>d'. pg_execute Q (insert_sql t) [bytes_of k, v] d = (Ok (), d') \<and> rows d' = (rows d)(k \<mapsto> v))) \<and>
     (\<forall>d k v. rows d k \<noteq> None \<longrightarrow>
        (\<exists>e. pg_execute Q (insert_sql t) [bytes_of k, v] d = (Err e, d))) \<and>
     (\<forall>d k v. \<exists>d'. pg_execute Q (upsert_sql t) [bytes_of k, v] d = (Ok (), d') \<and>
        rows d' = (rows d)(k \<mapsto> v)) \<and>
     (\<forall>d. \<exists>ks. pg_fetch_all Q (list_sql t) d = Ok ks \<and> set ks = dom (rows d)) \<and>
     (\<forall>d k. pg_fetch_one Q (select_sql t) [bytes_of k] d =
        (case rows d k of Some v \<Rightarrow> Ok [(VALUE_COLUMN, v)] | None \<Rightarrow> Err ''RowNotFound'')) \<and>
     (\<forall>d k. \<exists>d'. pg_fetch_optional Q (delete_sql t) [bytes_of k] d =
        (Ok (map_option (\<lambda>v. [(VALUE_COLUMN, v)]) (rows d k)), d') \<and> rows d' = (rows d)(k := None))"

lemma sql_lawsD:
  assumes "sql_laws Q t rows"
  shows "rows d k = None \<Longrightarrow>
      \<exists>d'. pg_execute Q (insert_sql t) [bytes_of k, v] d = (Ok (), d') \<and> rows d' = (rows d)(k \<mapsto> v)"
    and "rows d k \<noteq> None \<Longrightarrow> \<exists>e. pg_execute Q (insert_sql t) [bytes_of k, v] d = (Err e, d)"
    and "\<exists>d'. pg_execute Q (upsert_sql t) [bytes_of k, v] d = (Ok (), d') \<and>
      rows d' = (rows d)(k \<mapsto> v)"
    and "\<exists>ks. pg_fetch_all Q (list_sql t) d = Ok ks \<and> set ks = dom (rows d)"
    and "pg_fetch_one Q (select_sql t) [bytes_of k] d =
      (case rows d k of Some v \<Rightarrow> Ok [(VALUE_COLUMN, v)] | None \<Rightarrow> Err ''RowNotFound'')"
    and "\<exists>d'. pg_fetch_optional Q (delete_sql t) [bytes_of k] d =
      (Ok (map_option (\<lambda>v. [(VALUE_COLUMN, v)]) (rows d k)), d') \<and> rows d' = (rows d)(k := None)"
  using assms unfolding sql_laws_def by blast+

lemma postgres_get_eq:
  "sql_laws Q (table self) rows \<Longrightarrow>
     postgres_get Q self d k =
       (case rows d k of
          Some v \<Rightarrow> Ok (Some v)
        | None \<Rightarrow> Err (GetKeyFailed (Sql ''RowNotFound'') k))"
  by (simp add: postgres_get_def sql_lawsD(5) split: option.splits)

lemma postgres_delete_eq:
  assumes "sql_laws Q (table self) rows"
  shows "\<exists>d'. postgres_delete Q self d k = (Ok (rows d k), d') \<and> rows d' = (rows d)(k := None)"
  using sql_lawsD(6) [OF assms, of k d]
  by (cases "rows d k") (auto simp: postgres_delete_def VALUE_COLUMN_def)

lemma postgres_set_upsert:
  assumes "sql_laws Q (table self) rows" "is_valid_key k"
  shows "\<exists>d'. postgres_set Q self d k v \<lparr>overwrite = True\<rparr> = (Ok (), d') \<and> rows d' = (rows d)(k \<mapsto> v)"
  using sql_lawsD(3) [OF assms(1), of k v d] assms(2)
  by (auto simp: postgres_set_def Let_def)

lemma postgres_kv_overwrite:
  assumes Q: "sql_laws Q (table self) rows"
  shows "kv_overwrite (postgres_storage Q self) rows (\<lambda>_. True) is_valid_key"
proof (unfold_locales, goal_cases)
  case (1 d k v)
  then show ?case using Q by (simp add: postgres_storage_def postgres_get_eq)
next
  case (2 d k v)
  then show ?case using postgres_set_upsert [OF Q, of k d v] by (auto simp: postgres_storage_def)
next
  case (3 d)
  then show ?case
    using sql_lawsD(4) [OF Q, of d] by (auto simp: postgres_storage_def postgres_list_def)
next
  case (4 d k)
  then show ?case using postgres_delete_eq [OF Q, of d k] by (auto simp: postgres_storage_def)
next
  case (5 d k old v)
  then show ?case using postgres_set_upsert [OF Q, of k d v] by (auto simp: postgres_storage_def)
qed

section \<open>Choosing a backend\<close>

datatype KeyValueStorageConfig =
    Postgres_Config PostgresConfig
  | Memory_Config
  | LocalJson_Cfg LocalJson_Config
  | LocalFs_Cfg LocalFs_Config

datatype backend =
    PostgresBackend PostgresClient
  | MemoryBackend MemoryKeyValueStorage
  | LocalJsonBackend LocalJson
  | LocalFsBackend LocalFs

definition to_key_value_storage ::
    "io_env \<Rightarrow> (string \<Rightarrow> string option) \<Rightarrow> (string \<Rightarrow> bool) \<Rightarrow> string option \<Rightarrow> fs \<Rightarrow>
     KeyValueStorageConfig \<Rightarrow> backend kv_result \<times> fs" where
  "to_key_value_storage io parse_url connect env f self =
     (case self of
        Postgres_Config config \<Rightarrow>
          (map_ok PostgresBackend
             (map_err (\<lambda>e. InitializeBackendFailed (Msg ''postgres''))
                (PostgresClient_new parse_url connect env config)), f)
      | Memory_Config \<Rightarrow> (Ok (MemoryBackend memory_default), f)
      | LocalJson_Cfg config \<Rightarrow>
          (let (r, f') = LocalJson_new io f config in (map_ok LocalJsonBackend r, f'))
      | LocalFs_Cfg config \<Rightarrow>
          (let (r, f') = LocalFs_new io f config in (map_ok LocalFsBackend r, f')))"

section \<open>Concrete instances of the parameters\<close>

text \<open>A serialisation of string pairs with a decoder, for witnesses.\<close>

fun enc_str :: "string \<Rightarrow> bytes" where
  "enc_str [] = [0]"
| "enc_str (c # cs) = 1 # word_of_nat (of_char c) # enc_str cs"

fun dec_str :: "bytes \<Rightarrow> (string \<times> bytes) option" where
  "dec_str (t # bs) =
     (if t = 0 then Some ([], bs)
      else (case bs of
              [] \<Rightarrow> None
            | b # rest \<Rightarrow> map_option (\<lambda>(s, r). (char_of (unat b) # s, r)) (dec_str rest)))"
| "dec_str [] = None"

fun enc_pairs :: "(string \<times> string) list \<Rightarrow> bytes" where
  "enc_pairs [] = [0]"
| "enc_pairs ((k, v) # ps) = 1 # enc_str k @ enc_str v @ enc_pairs ps"

fun dec_pairs :: "nat \<Rightarrow> bytes \<Rightarrow> (string \<times> string) list option" where
  "dec_pairs (Suc n) (t # bs) =
     (if t = 0 then Some []
      else Option.bind (dec_str bs) (\<lambda>(k, bs). Option.bind (dec_str bs) (\<lambda>(v, bs).
             map_option (\<lambda>ps. (k, v) # ps) (dec_pairs n bs))))"
| "dec_pairs _ _ = None"

definition reference_codec :: json_codec where
  "reference_codec =
     \<lparr>map_to_json = (\<lambda>m. Some (enc_pairs m)), map_from_json = (\<lambda>b. dec_pairs (length b) b),
      url_safe_encode = str_of, url_safe_decode = (\<lambda>s. Some (bytes_of s))\<rparr>"

lemma dec_enc_str [simp]: "dec_str (enc_str s @ rest) = Some (s, rest)"
  by (induction s) (simp_all add: unat_of_nat)

lemma dec_enc_pairs: "length (enc_pairs ps) \<le> n \<Longrightarrow> dec_pairs n (enc_pairs ps @ rest) = Some ps"
proof (induction ps arbitrary: n)
  case Nil
  then show ?case by (cases n) simp_all
next
  case (Cons p ps)
  then show ?case by (cases p; cases n) simp_all
qed

lemma reference_codec_laws [simp]: "codec_laws reference_codec"
  using dec_enc_pairs [of _ _ "[]"] by (simp add: codec_laws_def reference_codec_def)

text \<open>A database with one table, that recognises the statements above.\<close>

definition reference_sqlx :: "string \<Rightarrow> (string \<times> bytes) list sqlx" where
  "reference_sqlx t =
     \<lparr>pg_execute = (\<lambda>sql vs d.
        (case vs of
           [k, v] \<Rightarrow>
             if sql = upsert_sql t \<or> sql = insert_sql t \<and> map_of d (str_of k) = None
             then (Ok (), AList.update (str_of k) v d) else (Err ''duplicate key'', d)
         | _ \<Rightarrow> (Err ''bind'', d))),
      pg_fetch_all = (\<lambda>sql d. Ok (map fst d)),
      pg_fetch_one = (\<lambda>sql vs d.
        (case map_of d (str_of (hd vs)) of
           Some v \<Rightarrow> Ok [(VALUE_COLUMN, v)] | None \<Rightarrow> Err ''RowNotFound'')),
      pg_fetch_optional = (\<lambda>sql vs d.
        (Ok (map_option (\<lambda>v. [(VALUE_COLUMN, v)]) (map_of d (str_of (hd vs)))),
         AList.delete (str_of (hd vs)) d))\<rparr>"

lemma insert_not_upsert: "insert_sql t \<noteq> upsert_sql t"
  by (simp add: upsert_sql_def)

lemma reference_sqlx_laws: "sql_laws (reference_sqlx t) t map_of"
  using insert_not_upsert [of t]
  by (auto simp: sql_laws_def reference_sqlx_def dom_map_of_conv_image_fst split: option.splits)

interpretation local_json: kv_store "local_json_storage reference_codec no_faults self"
    "local_json_lookup reference_codec self" "local_json_inv reference_codec self" "\<lambda>_. True" for self
  by (rule local_json_kv_store) simp

interpretation postgres: kv_overwrite "postgres_storage (reference_sqlx (table self)) self" map_of
    "\<lambda>_. True" is_valid_key for self
  by (rule postgres_kv_overwrite) (rule reference_sqlx_laws)

end
