(* ===== verification/Kv_Properties.thy ===== *)
theory Kv_Properties
  imports Kv_Backends
begin

text \<open>
  What the four storage backends promise their clients, on every operation and flag, including where
  a backend departs from the documented meaning of \<^verbatim>\<open>overwrite\<close>, and what two concurrent calls can do.
\<close>

section \<open>Memory\<close>


text \<open>
  Two tasks call \<^verbatim>\<open>set\<close> without overwriting. The check runs under the read lock and the insertion
  under a write lock taken later, so each task makes two steps.
\<close>

datatype set_pc = Checking | Inserting | Returned "unit kv_result"

record race_state =
  store :: MemoryKeyValueStorage
  pcs :: "nat \<Rightarrow> set_pc"

inductive set_race_step :: "string \<Rightarrow> (nat \<Rightarrow> bytes) \<Rightarrow> race_state \<Rightarrow> race_state \<Rightarrow> bool"
    for key :: string and value_of_task :: "nat \<Rightarrow> bytes" where
  check_present:
    "pcs s i = Checking \<Longrightarrow> map_of (items (store s)) key \<noteq> None \<Longrightarrow>
     set_race_step key value_of_task s
       (s\<lparr>pcs := (pcs s)(i := Returned (Err (SetKeyFailed (Msg ''key already exists'') key)))\<rparr>)"
| check_absent:
    "pcs s i = Checking \<Longrightarrow> map_of (items (store s)) key = None \<Longrightarrow>
     set_race_step key value_of_task s (s\<lparr>pcs := (pcs s)(i := Inserting)\<rparr>)"
| insert_value:
    "pcs s i = Inserting \<Longrightarrow>
     set_race_step key value_of_task s
       (s\<lparr>store := memory_insert (store s) key (value_of_task i),
          pcs := (pcs s)(i := Returned (Ok ()))\<rparr>)"

text \<open>Run without interleaving, the two steps are \<^verbatim>\<open>set\<close>.\<close>

lemma set_race_alone:
  assumes "pcs s i = Checking" and "memory_set (store s) key (val i) \<lparr>overwrite = False\<rparr> = (r, t)"
  shows "\<exists>s'. (set_race_step key val)\<^sup>*\<^sup>* s s' \<and> pcs s' i = Returned r \<and> store s' = t"
proof (cases "map_of (items (store s)) key")
  case (Some v)
  let ?e = "Returned (Err (SetKeyFailed (Msg ''key already exists'') key))"
  let ?s = "s\<lparr>pcs := (pcs s)(i := ?e)\<rparr>"
  have "set_race_step key val s ?s"
    using assms(1) Some by (intro check_present) simp_all
  then have "(set_race_step key val)\<^sup>*\<^sup>* s ?s" by (rule r_into_rtranclp)
  then show ?thesis
    using Some assms(2) by (intro exI [of _ ?s]) (auto simp: memory_set_def)
next
  case None
  let ?s = "s\<lparr>pcs := (pcs s)(i := Inserting)\<rparr>"
  let ?t = "?s\<lparr>store := memory_insert (store ?s) key (val i), pcs := (pcs ?s)(i := Returned (Ok ()))\<rparr>"
  have "set_race_step key val s ?s" using assms(1) None by (rule check_absent)
  moreover have "set_race_step key val ?s ?t" by (rule insert_value) simp
  ultimately have "(set_race_step key val)\<^sup>*\<^sup>* s ?t"
    by (meson converse_rtranclp_into_rtranclp rtranclp.rtrancl_refl)
  then show ?thesis
    using None assms(2) by (intro exI [of _ ?t]) (auto simp: memory_set_def)
qed

text \<open>
  Two concurrent writes of one absent key without overwriting can both return success, the value
  of the first being lost, for every pair of values: the existence check does not protect the
  insertion.
\<close>

theorem memory_set_race:
  assumes "map_of (items (store s)) key = None" and "i \<noteq> j"
    and "pcs s i = Checking" and "pcs s j = Checking"
  shows "\<exists>s'. (set_race_step key val)\<^sup>*\<^sup>* s s' \<and> pcs s' i = Returned (Ok ()) \<and>
    pcs s' j = Returned (Ok ()) \<and> memory_get (store s') key = Ok (Some (val j))"
proof -
  let ?a = "s\<lparr>pcs := (pcs s)(i := Inserting)\<rparr>"
  let ?b = "?a\<lparr>pcs := (pcs ?a)(j := Inserting)\<rparr>"
  let ?c = "?b\<lparr>store := memory_insert (store ?b) key (val i), pcs := (pcs ?b)(i := Returned (Ok ()))\<rparr>"
  let ?d = "?c\<lparr>store := memory_insert (store ?c) key (val j), pcs := (pcs ?c)(j := Returned (Ok ()))\<rparr>"
  have "set_race_step key val s ?a" using assms by (intro check_absent) simp_all
  moreover have "set_race_step key val ?a ?b" using assms by (intro check_absent) simp_all
  moreover have "set_race_step key val ?b ?c" using assms by (intro insert_value) simp_all
  moreover have "set_race_step key val ?c ?d" using assms by (intro insert_value) simp_all
  ultimately have "(set_race_step key val)\<^sup>*\<^sup>* s ?d"
    by (meson converse_rtranclp_into_rtranclp rtranclp.rtrancl_refl)
  then show ?thesis
    using assms by (intro exI [of _ ?d]) (simp add: memory_get_def memory_insert_def)
qed

theorem memory_set_race_witness:
  "\<exists>s'. (set_race_step ''k'' (\<lambda>i. [word_of_nat i]))\<^sup>*\<^sup>*
      \<lparr>store = memory_default, pcs = (\<lambda>_. Checking)\<rparr> s' \<and>
    pcs s' 0 = Returned (Ok ()) \<and> pcs s' 1 = Returned (Ok ()) \<and>
    memory_get (store s') ''k'' = Ok (Some [1])"
  using memory_set_race [of "\<lparr>store = memory_default, pcs = (\<lambda>_. Checking)\<rparr>" "''k''" 0 1
      "\<lambda>i. [word_of_nat i]"]
  by (simp add: memory_default_def)

section \<open>Local file system\<close>

text \<open>
  On a directory of files, writing any valid key other than the empty one, \<^verbatim>\<open>.\<close> and \<^verbatim>\<open>..\<close> with
  overwriting succeeds, reading it returns the value, every other key keeps its value (keys that
  contain a slash included), and the key is listed under its own name.
\<close>

theorem local_fs_set_get:
  assumes "local_fs_inv self f" and "file_key k"
  shows "\<exists>f'. local_fs_set no_faults self f k v \<lparr>overwrite = True\<rparr> = (Ok (), f') \<and>
    local_fs_inv self f' \<and> local_fs_get no_faults self f' k = Ok (Some v) \<and>
    (\<forall>k'. file_key k' \<and> k' \<noteq> k \<longrightarrow>
       local_fs_get no_faults self f' k' = local_fs_get no_faults self f k') \<and>
    (\<exists>ks. local_fs_list no_faults self f' = Ok ks \<and> k \<in> set ks)"
proof -
  obtain f' where f': "local_fs_set no_faults self f k v \<lparr>overwrite = True\<rparr> = (Ok (), f')"
    "local_fs_inv self f'"
    "\<forall>k'. file_key k' \<longrightarrow> local_fs_lookup self f' k' = ((local_fs_lookup self f)(k \<mapsto> v)) k'"
    using local_fs_set_overwrite [OF assms] by blast
  then show ?thesis
    using assms local_fs_get_lookup local_fs_list_keys [OF f'(2)] by (intro exI [of _ f']) auto
qed

definition sample_dir :: LocalFs where
  "sample_dir = \<lparr>dir_path = [''kv'']\<rparr>"

definition sample_fs :: fs where
  "sample_fs = [([''kv''], DirNode), ([''kv'', ''a''], FileNode [1])]"

lemma sample_fs_inv [simp]: "local_fs_inv sample_dir sample_fs"
  by (simp add: local_fs_inv_def sample_dir_def sample_fs_def is_dir_def)

lemma sample_key [simp]: "file_key ''a/b''" "file_key ''a''"
  by (simp_all add: file_key_def is_valid_key_def is_ascii_alphanumeric_def)

theorem local_fs_set_get_witness:
  "\<exists>f'. local_fs_set no_faults sample_dir sample_fs ''a/b'' [2] \<lparr>overwrite = True\<rparr> = (Ok (), f') \<and>
    local_fs_get no_faults sample_dir f' ''a/b'' = Ok (Some [2])"
  using local_fs_set_get [of sample_dir sample_fs "''a/b''" "[2]"] by auto

text \<open>
  Writing a new key without overwriting stores the value and then reports that the key already
  exists; only an already present key is left unchanged. The call never succeeds.
\<close>

theorem local_fs_no_overwrite_reports_error:
  assumes "local_fs_inv self f" and "file_key k"
  shows "\<exists>f'. local_fs_set no_faults self f k v \<lparr>overwrite = False\<rparr> =
      (Err (SetKeyFailed (Msg ''key already exists'') k), f') \<and>
    local_fs_get no_faults self f' k =
      Ok (Some (case local_fs_lookup self f k of None \<Rightarrow> v | Some old \<Rightarrow> old))"
proof (cases "local_fs_lookup self f k")
  case None
  let ?f = "AList.update (dir_path self @ [escape_key k]) (FileNode v) f"
  have "local_fs_set no_faults self f k v \<lparr>overwrite = False\<rparr> =
      (Err (SetKeyFailed (Msg ''key already exists'') k), ?f)"
    using None assms exists_key [OF assms(1), of k] write_key [OF assms(1)]
    by (simp add: local_fs_set_def Let_def file_key_def exists_path_def)
  then show ?thesis
    using None assms local_fs_inv_update local_fs_lookup_update local_fs_get_lookup by simp
next
  case (Some old)
  then show ?thesis
    using assms exists_key [OF assms(1), of k] local_fs_get_lookup
    by (intro exI [of _ f]) (simp add: local_fs_set_def Let_def file_key_def)
qed

theorem local_fs_no_overwrite_reports_error_witness:
  "\<exists>f'. local_fs_set no_faults sample_dir sample_fs ''a/b'' [2] \<lparr>overwrite = False\<rparr> =
      (Err (SetKeyFailed (Msg ''key already exists'') ''a/b''), f') \<and>
    local_fs_get no_faults sample_dir f' ''a/b'' = Ok (Some [2])"
proof -
  have "local_fs_lookup sample_dir sample_fs ''a/b'' = None"
    by (simp add: local_fs_lookup_def sample_dir_def sample_fs_def escaped_slash_def)
  then show ?thesis
    using local_fs_no_overwrite_reports_error [of sample_dir sample_fs "''a/b''" "[2]"] by simp
qed

text \<open>
  Whatever goes wrong with the disk, an operation on one key never changes what is stored under
  another: faults stay within the key's file.
\<close>

theorem local_fs_fault_isolation:
  assumes "file_key k" and "file_key k'" and "k' \<noteq> k"
    and "local_fs_set io self f k v p = (r, f') \<or> local_fs_delete io self f k = (r', f')"
  shows "local_fs_get io self f' k' = local_fs_get io self f k'"
proof -
  let ?p = "dir_path self @ [escape_key k]" and ?q = "dir_path self @ [escape_key k']"
  have "?q \<noteq> ?p" using assms escape_inj by auto
  then have "map_of f' ?q = map_of f ?q"
    using assms(1,4) write_file_frame remove_file_frame
    by (auto simp: local_fs_set_def local_fs_delete_def Let_def
        split: if_splits prod.splits outcome.splits)
  then show ?thesis
    using assms(2) by (simp add: local_fs_get_def exists_path_def read_file_def Let_def)
qed

theorem local_fs_fault_isolation_witness:
  "local_fs_get no_faults sample_dir
     (snd (local_fs_set (no_faults\<lparr>write_fault := (\<lambda>_. Some 0)\<rparr>) sample_dir sample_fs ''a/b'' [2]
       \<lparr>overwrite = True\<rparr>)) ''a'' = local_fs_get no_faults sample_dir sample_fs ''a''"
proof -
  let ?io = "no_faults\<lparr>write_fault := (\<lambda>_. Some 0)\<rparr>"
  obtain r f' where "local_fs_set ?io sample_dir sample_fs ''a/b'' [2] \<lparr>overwrite = True\<rparr> = (r, f')"
    by fastforce
  moreover have "local_fs_get ?io sample_dir g k = local_fs_get no_faults sample_dir g k" for g k
    by (simp add: local_fs_get_def read_file_def Let_def)
  ultimately show ?thesis
    using local_fs_fault_isolation [of "''a/b''" "''a''" ?io sample_dir sample_fs "[2]"
        "\<lparr>overwrite = True\<rparr>" r f'] by simp
qed

section \<open>Local JSON file\<close>

text \<open>
  The JSON backend reads the overwrite flag the wrong way round. Overwriting a present key is
  refused and changes nothing; writing a present key without overwriting replaces its value.
\<close>

theorem local_json_overwrite_inverted:
  assumes "codec_laws J" and "local_json_inv J self f" and "local_json_lookup J self f k = Some old"
  shows "local_json_set J no_faults self f k v \<lparr>overwrite = True\<rparr> =
      (Err (SetKeyFailed (Msg ''key already exists'') k), f) \<and>
    (\<exists>f'. local_json_set J no_faults self f k v \<lparr>overwrite = False\<rparr> = (Ok (), f') \<and>
       local_json_get J no_faults self f' k = Ok (Some v))"
proof
  from assms(2) obtain b its where "map_from_json J b = Some its"
    "read_file no_faults f (file_path self) = Ok b"
    "\<And>k. local_json_lookup J self f k = Option.bind (map_of its k) (url_safe_decode J)"
    by (elim local_json_invE) (rule that)
  with assms(3) show "local_json_set J no_faults self f k v \<lparr>overwrite = True\<rparr> =
      (Err (SetKeyFailed (Msg ''key already exists'') k), f)"
    by (cases "map_of its k") (auto simp: local_json_set_def Let_def)
  show "\<exists>f'. local_json_set J no_faults self f k v \<lparr>overwrite = False\<rparr> = (Ok (), f') \<and>
       local_json_get J no_faults self f' k = Ok (Some v)"
    using local_json_set_ok [OF assms(1,2), of "\<lparr>overwrite = False\<rparr>" k v] local_json_get_lookup
    by fastforce
qed

definition sample_json :: LocalJson where
  "sample_json = \<lparr>file_path = [''kv.json'']\<rparr>"

definition sample_json_fs :: fs where
  "sample_json_fs = [([''kv.json''], FileNode (enc_pairs [(''a'', str_of [7])]))]"

lemma sample_json_items:
  "json_items reference_codec sample_json sample_json_fs = Some [(''a'', str_of [7])]"
  using dec_enc_pairs [OF order_refl, of "[(''a'', str_of [7])]" "[]"]
  by (simp add: json_items_def sample_json_def sample_json_fs_def reference_codec_def
      del: enc_pairs.simps enc_str.simps)

lemma sample_json_inv: "local_json_inv reference_codec sample_json sample_json_fs"
  using sample_json_items
  by (simp add: local_json_inv_def sample_json_def is_dir_def) (simp add: reference_codec_def)

lemma sample_json_lookup: "local_json_lookup reference_codec sample_json sample_json_fs ''a'' = Some [7]"
  using sample_json_items by (simp add: local_json_lookup_def) (simp add: reference_codec_def)

theorem local_json_overwrite_inverted_witness:
  "local_json_set reference_codec no_faults sample_json sample_json_fs ''a'' [8] \<lparr>overwrite = True\<rparr> =
     (Err (SetKeyFailed (Msg ''key already exists'') ''a''), sample_json_fs)"
  using local_json_overwrite_inverted [OF reference_codec_laws sample_json_inv sample_json_lookup]
  by blast

text \<open>
  A write of the JSON file that fails before its first byte loses every key: afterwards each read
  reports a malformed file, since an empty file is no JSON document.
\<close>

theorem local_json_failed_write_loses_all:
  assumes "codec_laws J" and "map_from_json J [] = None" and "local_json_inv J self f"
    and "local_json_lookup J self f k = None" and "write_fault io (file_path self) = Some 0"
    and "\<not> read_fault io (file_path self)"
  shows "\<exists>f'. local_json_set J io self f k v p = (Err (SetKeyFailed (Io IoFault) k), f') \<and>
    (\<forall>k'. local_json_get J no_faults self f' k' =
       Err (MalformedValue (Msg ''failed to deserialize the file'')))"
proof -
  from assms(3) obtain b its where b: "map_of f (file_path self) = Some (FileNode b)"
    and its: "map_from_json J b = Some its"
    and dec: "\<And>k w. map_of its k = Some w \<Longrightarrow> \<exists>x. url_safe_decode J w = Some x"
    and rd: "read_file no_faults f (file_path self) = Ok b"
    and lk: "\<And>k. local_json_lookup J self f k = Option.bind (map_of its k) (url_safe_decode J)"
    and wr: "\<And>c. write_file no_faults f (file_path self) c =
       (Ok (), AList.update (file_path self) (FileNode c) f)"
    by (elim local_json_invE) (rule that)
  have absent: "map_of its k = None" using assms(4) lk dec by (cases "map_of its k") fastforce+
  from assms(1) obtain c where c: "map_to_json J (AList.update k (url_safe_encode J v) its) = Some c"
    by (auto simp: codec_laws_def)
  have ne: "file_path self \<noteq> []" using assms(3) by (simp add: local_json_inv_def)
  have rd': "read_file io f (file_path self) = Ok b"
    using rd assms(6) ne by (simp add: read_file_def)
  let ?f = "AList.update (file_path self) (FileNode []) f"
  have "write_file io f (file_path self) c = (Err IoFault, ?f)"
    using wr [of c] assms(5) by (auto simp: write_file_def split: if_splits)
  then have "local_json_set J io self f k v p = (Err (SetKeyFailed (Io IoFault) k), ?f)"
    using rd' its absent c by (auto simp: local_json_set_def Let_def)
  moreover have "local_json_get J no_faults self ?f k' =
      Err (MalformedValue (Msg ''failed to deserialize the file''))" for k'
    using assms(2) ne by (simp add: local_json_get_def read_file_def)
  ultimately show ?thesis by blast
qed

theorem local_json_failed_write_loses_all_witness:
  "\<exists>f'. local_json_set reference_codec (no_faults\<lparr>write_fault := (\<lambda>_. Some 0)\<rparr>) sample_json
       sample_json_fs ''b'' [8] \<lparr>overwrite = True\<rparr> = (Err (SetKeyFailed (Io IoFault) ''b''), f') \<and>
    local_json_get reference_codec no_faults sample_json f' ''a'' =
       Err (MalformedValue (Msg ''failed to deserialize the file''))"
proof -
  have "local_json_lookup reference_codec sample_json sample_json_fs ''b'' = None"
    using sample_json_items by (simp add: local_json_lookup_def)
  moreover have "map_from_json reference_codec [] = None" by (simp add: reference_codec_def)
  ultimately show ?thesis
    using local_json_failed_write_loses_all [OF reference_codec_laws _ sample_json_inv,
        of "''b''" "no_faults\<lparr>write_fault := (\<lambda>_. Some 0)\<rparr>" "[8]" "\<lparr>overwrite = True\<rparr>"]
    by auto
qed

section \<open>PostgreSQL\<close>

text \<open>
  On a table with the key as primary key, writing a valid key with overwriting and reading it
  gives the value, a write without overwriting is refused exactly on a present key, deleting returns
  the old value; but reading a missing key is an error, not \<^verbatim>\<open>None\<close>.
\<close>

theorem postgres_behaviour:
  assumes "sql_laws Q (table self) rows" and "is_valid_key k"
  shows "(\<exists>d'. postgres_set Q self d k v \<lparr>overwrite = True\<rparr> = (Ok (), d') \<and>
            postgres_get Q self d' k = Ok (Some v)) \<and>
    (is_ok (fst (postgres_set Q self d k v \<lparr>overwrite = False\<rparr>)) \<longleftrightarrow> rows d k = None) \<and>
    fst (postgres_delete Q self d k) = Ok (rows d k) \<and>
    (rows d k = None \<longrightarrow>
       postgres_get Q self d k = Err (GetKeyFailed (Sql ''RowNotFound'') k))"
proof (intro conjI)
  show "\<exists>d'. postgres_set Q self d k v \<lparr>overwrite = True\<rparr> = (Ok (), d') \<and>
      postgres_get Q self d' k = Ok (Some v)"
    using postgres_set_upsert [OF assms, of d v] postgres_get_eq [OF assms(1)] by auto
  show "is_ok (fst (postgres_set Q self d k v \<lparr>overwrite = False\<rparr>)) \<longleftrightarrow> rows d k = None"
    using sql_lawsD(1,2) [OF assms(1), of d k v] assms(2)
    by (cases "rows d k") (auto simp: postgres_set_def Let_def)
  show "fst (postgres_delete Q self d k) = Ok (rows d k)"
    using postgres_delete_eq [OF assms(1), of d k] by auto
  show "rows d k = None \<longrightarrow> postgres_get Q self d k = Err (GetKeyFailed (Sql ''RowNotFound'') k)"
    using postgres_get_eq [OF assms(1)] by simp
qed

theorem postgres_behaviour_witness:
  "postgres_get (reference_sqlx ''key_value'') \<lparr>table = ''key_value''\<rparr> [] ''a'' =
     Err (GetKeyFailed (Sql ''RowNotFound'') ''a'')"
  using postgres_behaviour [of "reference_sqlx ''key_value''" "\<lparr>table = ''key_value''\<rparr>" map_of "''a''" "[]"]
    reference_sqlx_laws [of "''key_value''"]
  by (simp add: is_valid_key_def is_ascii_alphanumeric_def)

end
