(* ===== verification/Policy_Engine.thy ===== *)
theory Policy_Engine
  imports Kv_Backends Crates
begin

text \<open>
  The policy engine of \<^verbatim>\<open>deps/policy-engine/src\<close>: policies stored in a key-value storage and
  evaluated by the Rego interpreter. The interpreter (\<^verbatim>\<open>regorus\<close>) is a third-party package and a
  parameter of the model; the storage is any \<^verbatim>\<open>KeyValueStorage\<close>, so the client lemmas are
  proved once in the storage locale.
\<close>

section \<open>Types\<close>

datatype PolicyError =
    SerdeJsonError
  | Base64DecodeFailed
  | InvalidPolicyId
  | MalformedPolicy string
  | PolicyStorageError KeyValueStorageError
  | PolicyNotFound string
  | PolicyIsNotUtf8String string
  | LoadPolicyFailed string
  | LoadReferenceDataFailed string
  | SetInputDataFailed string
  | JsonSerializationFailed string
  | EvalPolicyFailed string

record EvaluationResult =
  rules_result :: json
  policy_hash :: string

type_synonym Engine = "string \<Rightarrow> string \<Rightarrow> string \<Rightarrow> (PolicyError, EvaluationResult) outcome"

datatype PolicyType = Rego

section \<open>The Rego engine\<close>

text \<open>\<^verbatim>\<open>regorus\<close>: an engine state \<open>'e\<close>, values \<open>'v\<close>, and errors as text.\<close>

record ('e, 'v) regorus =
  rego_new :: 'e
  rego_add_policy :: "'e \<Rightarrow> string \<Rightarrow> string \<Rightarrow> (string, 'e) outcome"
  rego_value_from_json :: "string \<Rightarrow> (string, 'v) outcome"
  rego_add_data :: "'e \<Rightarrow> 'v \<Rightarrow> (string, 'e) outcome"
  rego_set_input :: "'e \<Rightarrow> string \<Rightarrow> (string, 'e) outcome"
  rego_eval_rule :: "'e \<Rightarrow> string \<Rightarrow> (string, 'v) outcome"
  rego_value_to_json :: "'v \<Rightarrow> (string, string) outcome"

definition EVAL_RULE :: string where
  "EVAL_RULE = ''data.policy.result''"

definition Regorus_evaluate :: "crates \<Rightarrow> ('e, 'v) regorus \<Rightarrow> Engine" where
  "Regorus_evaluate E R data input policy =
     (let hash = hex_encode E (sha384 E (bytes_of policy)) in
      and_then (map_err LoadPolicyFailed (rego_add_policy R (rego_new R) '''' policy)) (\<lambda>engine.
      and_then (map_err JsonSerializationFailed (rego_value_from_json R data)) (\<lambda>data.
      and_then (map_err LoadReferenceDataFailed (rego_add_data R engine data)) (\<lambda>engine.
      and_then (map_err SetInputDataFailed (rego_set_input R engine input)) (\<lambda>engine.
      and_then (map_err EvalPolicyFailed (rego_eval_rule R engine EVAL_RULE)) (\<lambda>claim_value.
      and_then (map_err JsonSerializationFailed (rego_value_to_json R claim_value)) (\<lambda>claim_value.
      and_then (ok_or SerdeJsonError (json_from_str E claim_value)) (\<lambda>result.
        Ok \<lparr>rules_result = result, policy_hash = hash\<rparr>))))))))"

definition to_engine :: "crates \<Rightarrow> ('e, 'v) regorus \<Rightarrow> PolicyType \<Rightarrow> Engine" where
  "to_engine E R t = (case t of Rego \<Rightarrow> Regorus_evaluate E R)"

section \<open>The engine over a storage\<close>

record 's PolicyEngine =
  storage :: "'s KeyValueStorage"
  engine :: Engine

definition set_policy ::
    "'s PolicyEngine \<Rightarrow> 's \<Rightarrow> string \<Rightarrow> string \<Rightarrow> bool \<Rightarrow> (PolicyError, unit) outcome \<times> 's" where
  "set_policy self s policy_id policy ow =
     (let (r, s') = kv_set (storage self) s policy_id (bytes_of policy) \<lparr>overwrite = ow\<rparr> in
      (map_err PolicyStorageError r, s'))"

definition list_policies :: "'s PolicyEngine \<Rightarrow> 's \<Rightarrow> (PolicyError, string list) outcome" where
  "list_policies self s = map_err PolicyStorageError (kv_list (storage self) s)"

definition get_policy :: "'s PolicyEngine \<Rightarrow> 's \<Rightarrow> string \<Rightarrow> (PolicyError, string) outcome" where
  "get_policy self s policy_id =
     and_then (map_err PolicyStorageError (kv_get (storage self) s policy_id)) (\<lambda>policy_str.
       (case policy_str of
          Some b \<Rightarrow> ok_or (PolicyIsNotUtf8String policy_id) (from_utf8 b)
        | None \<Rightarrow> Err (PolicyNotFound policy_id)))"

definition evaluate ::
    "'s PolicyEngine \<Rightarrow> 's \<Rightarrow> string \<Rightarrow> string \<Rightarrow> string \<Rightarrow>
     (PolicyError, EvaluationResult) outcome" where
  "evaluate self s data input policy_id =
     and_then (get_policy self s policy_id) (\<lambda>policy. engine self data input policy)"

text \<open>A backend the configuration names, as a storage over the file system state.\<close>

definition PolicyEngine_new ::
    "crates \<Rightarrow> ('e, 'v) regorus \<Rightarrow> (backend \<Rightarrow> 's KeyValueStorage) \<Rightarrow> backend kv_result \<Rightarrow>
     PolicyType \<Rightarrow> (PolicyError, 's PolicyEngine) outcome" where
  "PolicyEngine_new E R dyn_storage made t =
     and_then (map_err PolicyStorageError made) (\<lambda>b.
       Ok \<lparr>storage = dyn_storage b, engine = to_engine E R t\<rparr>)"

section \<open>What a stored policy decides\<close>

text \<open>A Rust \<^verbatim>\<open>&str\<close> is valid UTF-8.\<close>

definition rust_str :: "string \<Rightarrow> bool" where
  "rust_str s \<longleftrightarrow> valid_utf8 (bytes_of s)"

lemma from_utf8_bytes_of: "rust_str s \<Longrightarrow> from_utf8 (bytes_of s) = Some s"
  by (simp add: rust_str_def from_utf8_def)

context kv_overwrite
begin

lemma get_policy_present:
  assumes "inv s" "key_ok pid" "lookup s pid = Some (bytes_of p)" "rust_str p" "storage self = K"
  shows "get_policy self s pid = Ok p"
  using get_present [OF assms(1-3)] from_utf8_bytes_of [OF assms(4)] assms(5)
  by (simp add: get_policy_def)

lemma set_policy_evaluate:
  assumes "inv s" "key_ok pid" "rust_str p" "storage self = K"
  shows "\<exists>s'. set_policy self s pid p True = (Ok (), s') \<and> inv s' \<and>
    evaluate self s' data input pid = engine self data input p \<and>
    (\<forall>pid' q. key_ok pid' \<and> pid' \<noteq> pid \<and> rust_str q \<and> lookup s pid' = Some (bytes_of q) \<longrightarrow>
       evaluate self s' data input pid' = engine self data input q)"
proof -
  obtain s' where s': "kv_set K s pid (bytes_of p) \<lparr>overwrite = True\<rparr> = (Ok (), s')" "inv s'"
    "\<And>k. key_ok k \<Longrightarrow> lookup s' k = ((lookup s)(pid \<mapsto> bytes_of p)) k"
    using set_any [OF assms(1,2)] by blast
  have "evaluate self s' data input k = engine self data input q"
    if "key_ok k" "rust_str q" "lookup s' k = Some (bytes_of q)" for k q
    using get_policy_present [OF s'(2) that(1,3,2) assms(4)] by (simp add: evaluate_def)
  then show ?thesis
    using s' assms by (intro exI [of _ s']) (auto simp: set_policy_def)
qed

end

lemma Regorus_evaluate_hash:
  "Regorus_evaluate E R data input p = Ok r \<Longrightarrow>
     policy_hash r = hex_encode E (sha384 E (bytes_of p))"
  by (auto simp: Regorus_evaluate_def outcome_iff Let_def)

text \<open>
  C30. Over any storage that stores what it is given, setting a policy makes every later evaluation
  under its id run that policy text, and evaluations under other ids run the policies they had.
\<close>

theorem set_policy_then_evaluate:
  assumes "kv_overwrite (storage self) lookup good key_ok" and "good s" and "key_ok pid"
    and "rust_str p"
  shows "\<exists>s'. set_policy self s pid p True = (Ok (), s') \<and> good s' \<and>
    evaluate self s' data input pid = engine self data input p \<and>
    (\<forall>pid' q. key_ok pid' \<and> pid' \<noteq> pid \<and> rust_str q \<and> lookup s pid' = Some (bytes_of q) \<longrightarrow>
       evaluate self s' data input pid' = engine self data input q)"
  using kv_overwrite.set_policy_evaluate [OF assms] by simp

definition echo_engine :: Engine where
  "echo_engine data input policy = Ok \<lparr>rules_result = JString policy, policy_hash = []\<rparr>"

lemma rust_str_allow: "rust_str ''allow''"
  by (simp add: rust_str_def bytes_of_def valid_utf8.simps utf8_next_def byte_at_def)

theorem set_policy_then_evaluate_witness:
  "\<exists>s'. set_policy \<lparr>storage = memory_storage, engine = echo_engine\<rparr> memory_default ''p'' ''allow'' True =
      (Ok (), s') \<and>
    evaluate \<lparr>storage = memory_storage, engine = echo_engine\<rparr> s' ''d'' ''i'' ''p'' =
      Ok \<lparr>rules_result = JString ''allow'', policy_hash = []\<rparr>"
  using set_policy_then_evaluate [of "\<lparr>storage = memory_storage, engine = echo_engine\<rparr>"
      memory_lookup "\<lambda>_. True" "\<lambda>_. True" memory_default "''p''" "''allow''" "''d''" "''i''"]
    memory.kv_overwrite_axioms rust_str_allow
  by (auto simp: echo_engine_def)

text \<open>
  The policy hash an evaluation reports identifies the policy text: two evaluations that report
  the same hash ran the same policy, unless SHA-384 has a collision.
\<close>

theorem policy_hash_identifies:
  assumes "hex_faithful E" and "Regorus_evaluate E R data input p = Ok r"
    and "Regorus_evaluate E R data' input' p' = Ok r'" and "policy_hash r = policy_hash r'"
  shows "p = p' \<or> collision (sha384 E)"
proof -
  have "hex_of (sha384 E (bytes_of p)) = hex_of (sha384 E (bytes_of p'))"
    using assms Regorus_evaluate_hash by (metis hex_faithful_def)
  then have "sha384 E (bytes_of p) = sha384 E (bytes_of p')" by (simp add: hex_of_inj)
  then show ?thesis unfolding collision_def by (metis bytes_of_eq_iff)
qed

definition reference_regorus :: "(string, string) regorus" where
  "reference_regorus =
     \<lparr>rego_new = [], rego_add_policy = (\<lambda>e n p. Ok p), rego_value_from_json = Ok,
      rego_add_data = (\<lambda>e v. Ok e), rego_set_input = (\<lambda>e i. Ok e),
      rego_eval_rule = (\<lambda>e r. Ok e), rego_value_to_json = Ok\<rparr>"

theorem policy_hash_identifies_witness:
  "''allow'' = ''allow'' \<or> collision (sha384 (reference_crates\<lparr>json_from_str := (\<lambda>s. Some JNull)\<rparr>))"
  using policy_hash_identifies [of "reference_crates\<lparr>json_from_str := (\<lambda>s. Some JNull)\<rparr>"
      reference_regorus "''{}''" "''{}''" "''allow''" _ "''{}''" "''{}''" "''allow''"]
  by (simp add: Regorus_evaluate_def reference_regorus_def hex_faithful_def reference_crates_def)

end
