(* ===== verification/Rvps.thy ===== *)
theory Rvps
  imports Filesystem Crates "HOL-Library.Countable"
begin

text \<open>
  The Reference Value Provider Service (\<^verbatim>\<open>rvps/src\<close>): reference values, the extractors that turn a
  provenance into reference values (\<^verbatim>\<open>extractors\<close>: sample and SWID), the two storages
  (\<^verbatim>\<open>storage/local_fs\<close> on sled, \<^verbatim>\<open>storage/local_json\<close>), and the service operations of
  \<^verbatim>\<open>lib.rs\<close> and \<^verbatim>\<open>server/mod.rs\<close>. Errors are \<^verbatim>\<open>anyhow\<close> messages. The in-toto extractor is
  behind a feature and drives a Go library; it is not modelled.
\<close>

section \<open>Reference values\<close>

text \<open>
  A \<^verbatim>\<open>DateTime<Utc>\<close> of \<^verbatim>\<open>chrono\<close> is its nanoseconds since the epoch. The clock and the calendar
  arithmetic are parameters.
\<close>

type_synonym DateTime = int

record chrono =
  utc_now :: DateTime
  with_nanosecond_zero :: "DateTime \<Rightarrow> DateTime option"
  checked_add_months :: "DateTime \<Rightarrow> nat \<Rightarrow> DateTime option"

definition whole_second :: "DateTime \<Rightarrow> bool" where
  "whole_second t \<longleftrightarrow> t mod 1000000000 = 0"

text \<open>Documented: dropping the nanoseconds gives a whole second, adding months keeps the time of day.\<close>

definition chrono_laws :: "chrono \<Rightarrow> bool" where
  "chrono_laws C \<longleftrightarrow>
     (\<forall>t t'. with_nanosecond_zero C t = Some t' \<longrightarrow> whole_second t') \<and>
     (\<forall>t n t'. whole_second t \<longrightarrow> checked_add_months C t n = Some t' \<longrightarrow> whole_second t')"

record ReferenceValue =
  rv_version :: string
  rv_name :: string
  expiration :: DateTime
  rv_value :: json

definition REFERENCE_VALUE_VERSION :: string where
  "REFERENCE_VALUE_VERSION = ''0.1.0''"

definition MONTHS_BEFORE_EXPIRATION :: nat where
  "MONTHS_BEFORE_EXPIRATION = 12"

definition ReferenceValue_new :: "chrono \<Rightarrow> (string, ReferenceValue) outcome" where
  "ReferenceValue_new C =
     and_then (ok_or ''Failed to set time.''
         (Option.bind (with_nanosecond_zero C (utc_now C))
            (\<lambda>t. checked_add_months C t MONTHS_BEFORE_EXPIRATION))) (\<lambda>t.
       Ok \<lparr>rv_version = REFERENCE_VALUE_VERSION, rv_name = [], expiration = t, rv_value = JNull\<rparr>)"

definition set_version :: "ReferenceValue \<Rightarrow> string \<Rightarrow> ReferenceValue" where
  "set_version rv v = rv\<lparr>rv_version := v\<rparr>"

definition set_expiration ::
    "chrono \<Rightarrow> ReferenceValue \<Rightarrow> DateTime \<Rightarrow> (string, ReferenceValue) outcome" where
  "set_expiration C rv t =
     (case with_nanosecond_zero C t of
        Some t' \<Rightarrow> Ok (rv\<lparr>expiration := t'\<rparr>)
      | None \<Rightarrow> Panic)"

definition set_value :: "ReferenceValue \<Rightarrow> json \<Rightarrow> ReferenceValue" where
  "set_value rv v = rv\<lparr>rv_value := v\<rparr>"

definition set_name :: "ReferenceValue \<Rightarrow> string \<Rightarrow> ReferenceValue" where
  "set_name rv n = rv\<lparr>rv_name := n\<rparr>"

definition expired :: "chrono \<Rightarrow> ReferenceValue \<Rightarrow> bool" where
  "expired C rv \<longleftrightarrow> utc_now C > expiration rv"

section \<open>Extractors\<close>

subsection \<open>Sample\<close>

text \<open>
  The codecs: \<^verbatim>\<open>base64\<close> (standard alphabet) and \<^verbatim>\<open>serde_json\<close> on a flat object, whose entries come in
  the map's iteration order.
\<close>

record rvps_codec =
  std_decode :: "string \<Rightarrow> bytes option"
  object_from_slice :: "bytes \<Rightarrow> (string \<times> json) list option"
  message_from_str :: "string \<Rightarrow> (string option \<times> string \<times> string) option"

definition SampleExtractor_verify_and_extract ::
    "chrono \<Rightarrow> rvps_codec \<Rightarrow> string \<Rightarrow> (string, ReferenceValue list) outcome" where
  "SampleExtractor_verify_and_extract C D provenance_base64 =
     and_then (ok_or ''base64 decode'' (std_decode D provenance_base64)) (\<lambda>provenance.
     and_then (ok_or ''deseralize sample provenance'' (object_from_slice D provenance)) (\<lambda>rvs.
       Ok (List.map_filter
             (\<lambda>(name, values).
                case ReferenceValue_new C of
                  Ok rv \<Rightarrow> Some (set_value (set_name rv name) values)
                | _ \<Rightarrow> None) rvs)))"

subsection \<open>SWID\<close>

text \<open>
  \<^verbatim>\<open>roxmltree\<close> gives a parsed document as a tree of elements with expanded names; attributes
  without a namespace have \<open>None\<close> there.
\<close>

type_synonym xml_attrs = "((string option \<times> string) \<times> string) list"

datatype xml = Element (tag: "string option \<times> string") (attrs: xml_attrs) (children: "xml list")

fun descendants :: "xml \<Rightarrow> xml list" where
  "descendants (Element t a cs) = Element t a cs # concat (map descendants cs)"

definition attribute :: "xml \<Rightarrow> string option \<times> string \<Rightarrow> string option" where
  "attribute n a = map_of (attrs n) a"

definition has_tag_name :: "string \<times> string \<Rightarrow> xml \<Rightarrow> bool" where
  "has_tag_name nm n \<longleftrightarrow> tag n = (Some (fst nm), snd nm)"

definition SWID_NS :: string where
  "SWID_NS = ''http://standards.iso.org/iso/19770/-2/2015/schema.xsd''"

definition RIMIM_NS :: string where
  "RIMIM_NS = ''https://trustedcomputinggroup.org/resource/tcg-reference-integrity-manifest-rim-information-model/''"

definition HASH_NS :: string where
  "HASH_NS = ''http://www.w3.org/2001/04/xmlenc#sha384''"

definition hash_attr :: "xml \<Rightarrow> nat \<Rightarrow> string option" where
  "hash_attr n i = attribute n (Some HASH_NS, ''Hash'' @ fmt_dec i)"

definition all_zero :: "string \<Rightarrow> bool" where
  "all_zero s = list_all (\<lambda>c. c = CHR ''0'') s"

text \<open>The attributes \<^verbatim>\<open>Hash0\<close>, \<^verbatim>\<open>Hash1\<close>, ... from index \<open>i\<close> on, zero hashes skipped. An element has
  finitely many attributes, so the loop ends.\<close>

lemma finite_hash_attrs: "finite {j. i \<le> j \<and> hash_attr n j \<noteq> None}"
proof -
  have "inj_on (\<lambda>j. (Some HASH_NS, ''Hash'' @ fmt_dec j)) UNIV"
    by (auto intro: inj_onI simp: fmt_dec_inj)
  moreover have "(\<lambda>j. (Some HASH_NS, ''Hash'' @ fmt_dec j)) ` {j. i \<le> j \<and> hash_attr n j \<noteq> None}
      \<subseteq> dom (map_of (attrs n))"
    by (auto simp: hash_attr_def attribute_def)
  ultimately show ?thesis
    by (meson finite_dom_map_of finite_imageD finite_subset inj_on_subset subset_UNIV)
qed

function hash_loop :: "xml \<Rightarrow> nat \<Rightarrow> json list" where
  "hash_loop n i =
     (case hash_attr n i of
        None \<Rightarrow> []
      | Some h \<Rightarrow>
          if all_zero h then hash_loop n (Suc i) else JString h # hash_loop n (Suc i))"
  by pat_completeness auto
termination
proof (relation "measure (\<lambda>(n, i). card {j. i \<le> j \<and> hash_attr n j \<noteq> None})")
  have smaller: "card {j. Suc i \<le> j \<and> hash_attr n j \<noteq> None} < card {j. i \<le> j \<and> hash_attr n j \<noteq> None}"
    if "hash_attr n i = Some h" for n i h
  proof (intro psubset_card_mono finite_hash_attrs psubsetI)
    have "i \<in> {j. i \<le> j \<and> hash_attr n j \<noteq> None}" "i \<notin> {j. Suc i \<le> j \<and> hash_attr n j \<noteq> None}"
      using that by simp_all
    then show "{j. Suc i \<le> j \<and> hash_attr n j \<noteq> None} \<noteq> {j. i \<le> j \<and> hash_attr n j \<noteq> None}"
      by blast
  qed auto
  show "((n, Suc i), n, i) \<in> measure (\<lambda>(n, i). card {j. i \<le> j \<and> hash_attr n j \<noteq> None})"
    if "hash_attr n i = Some h" for n i h using smaller [OF that] by simp
  show "((n, Suc i), n, i) \<in> measure (\<lambda>(n, i). card {j. i \<le> j \<and> hash_attr n j \<noteq> None})"
    if "hash_attr n i = Some h" for n i h using smaller [OF that] by simp
qed simp

declare hash_loop.simps [simp del]

definition is_measurement :: "xml \<Rightarrow> bool" where
  "is_measurement n \<longleftrightarrow>
     has_tag_name (SWID_NS, ''Resource'') n \<and>
     (case attribute n (None, ''type'') of Some t \<Rightarrow> t | None \<Rightarrow> []) = ''Measurement''"

fun swid_loop :: "chrono \<Rightarrow> string \<Rightarrow> xml list \<Rightarrow> (string, ReferenceValue list) outcome" where
  "swid_loop C prefix [] = Ok []"
| "swid_loop C prefix (resource # rs) =
     and_then (ok_or ''Could not find measurement name'' (attribute resource (None, ''index'')))
       (\<lambda>measurement_index.
       let name = prefix @ ''.measurement_'' @ measurement_index;
           name = replace_char CHR ''-'' ''_'' name;
           measurement_value = hash_loop resource 0
       in
       if measurement_value = [] then swid_loop C prefix rs
       else
         and_then (ReferenceValue_new C) (\<lambda>rv.
         and_then (swid_loop C prefix rs) (\<lambda>rvs.
           Ok (set_value (set_name rv name) (JArray measurement_value) # rvs))))"

definition SwidExtractor_verify_and_extract ::
    "chrono \<Rightarrow> rvps_codec \<Rightarrow> (string \<Rightarrow> (string, xml) outcome) \<Rightarrow> string \<Rightarrow>
     (string, ReferenceValue list) outcome" where
  "SwidExtractor_verify_and_extract C D xml_parse provenance_base64 =
     and_then (ok_or ''Failed to decode reference value manifest as base 64''
                 (std_decode D provenance_base64)) (\<lambda>manifest.
     and_then (ok_or ''Failed to decode reference value manifest as utf8 string''
                 (from_utf8 manifest)) (\<lambda>manifest.
     and_then (xml_parse manifest) (\<lambda>xml.
     and_then (ok_or ''Could not find meta information.''
                 (find (has_tag_name (SWID_NS, ''Meta'')) (descendants xml))) (\<lambda>meta.
     and_then (ok_or ''Could not find manufacturer information.''
                 (attribute meta (Some RIMIM_NS, ''PlatformManufacturerStr''))) (\<lambda>manufacturer.
     let manufacturer = replace_char CHR '' '' ''_'' manufacturer in
     and_then (ok_or ''Could not find edition information.'' (attribute meta (None, ''edition'')))
       (\<lambda>edition.
     let rv_name_prefix = manufacturer @ ''.'' @ edition in
     and_then (ok_or ''Could not find SWID payload.''
                 (find (has_tag_name (SWID_NS, ''Payload'')) (descendants xml))) (\<lambda>payload.
       swid_loop C rv_name_prefix (filter is_measurement (descendants payload)))))))))"

subsection \<open>Choice of an extractor\<close>

record Message =
  msg_version :: string
  payload :: string
  msg_type :: string

definition MESSAGE_VERSION :: string where
  "MESSAGE_VERSION = ''0.1.0''"

text \<open>\<^verbatim>\<open>serde_json::from_str::<Message>\<close>, with the default of the \<^verbatim>\<open>version\<close> field.\<close>

definition parse_message :: "rvps_codec \<Rightarrow> string \<Rightarrow> Message option" where
  "parse_message D s =
     map_option (\<lambda>(v, p, t).
         \<lparr>msg_version = (case v of Some v \<Rightarrow> v | None \<Rightarrow> MESSAGE_VERSION), payload = p, msg_type = t\<rparr>)
       (message_from_str D s)"

type_synonym Extractor = "string \<Rightarrow> (string, ReferenceValue list) outcome"

type_synonym Extractors = "(string \<times> Extractor) list"

definition Extractors_new ::
    "chrono \<Rightarrow> rvps_codec \<Rightarrow> (string \<Rightarrow> (string, xml) outcome) \<Rightarrow> Extractors" where
  "Extractors_new C D xml_parse =
     AList.update ''swid'' (SwidExtractor_verify_and_extract C D xml_parse)
       (AList.update ''sample'' (SampleExtractor_verify_and_extract C D) [])"

definition process :: "Extractors \<Rightarrow> Message \<Rightarrow> (string, ReferenceValue list) outcome" where
  "process extractors message =
     (case map_of extractors (msg_type message) of
        Some extractor \<Rightarrow> extractor (payload message)
      | None \<Rightarrow> Err (''Could not find extractor for '' @ msg_type message))"

section \<open>Storage\<close>

text \<open>A \<^verbatim>\<open>dyn ReferenceValueStorage\<close>; \<^verbatim>\<open>set\<close> returns the replaced value.\<close>

record 's ReferenceValueStorage =
  rvs_set :: "'s \<Rightarrow> string \<Rightarrow> ReferenceValue \<Rightarrow> (string, ReferenceValue option) outcome \<times> 's"
  rvs_get :: "'s \<Rightarrow> string \<Rightarrow> (string, ReferenceValue option) outcome"

locale rv_store =
  fixes S :: "'s ReferenceValueStorage"
    and lookup :: "'s \<Rightarrow> string \<Rightarrow> ReferenceValue option"
    and good :: "'s \<Rightarrow> bool"
  assumes rv_get: "good s \<Longrightarrow> rvs_get S s n = Ok (lookup s n)"
    and rv_set: "good s \<Longrightarrow> whole_second (expiration rv) \<Longrightarrow> rv_name rv = n \<Longrightarrow>
      \<exists>s'. rvs_set S s n rv = (Ok (lookup s n), s') \<and> good s' \<and> lookup s' = (lookup s)(n \<mapsto> rv)"

subsection \<open>Sled\<close>

text \<open>
  The embedded database \<^verbatim>\<open>sled\<close> and the JSON form of one reference value. A value is written with its
  expiration at full precision but read back only at whole seconds, hence the condition of the
  round trip.
\<close>

record 'd sled =
  sled_insert :: "'d \<Rightarrow> string \<Rightarrow> bytes \<Rightarrow> (string, bytes option) outcome \<times> 'd"
  sled_get :: "'d \<Rightarrow> string \<Rightarrow> (string, bytes option) outcome"
  sled_flush :: "'d \<Rightarrow> (string, unit) outcome"

record rv_codec =
  rv_to_vec :: "ReferenceValue \<Rightarrow> bytes option"
  rv_from_slice :: "bytes \<Rightarrow> ReferenceValue option"
  rvs_to_vec :: "ReferenceValue list \<Rightarrow> bytes option"
  rvs_from_slice :: "bytes \<Rightarrow> ReferenceValue list option"

definition rv_codec_laws :: "rv_codec \<Rightarrow> bool" where
  "rv_codec_laws J \<longleftrightarrow>
     (\<forall>rv. whole_second (expiration rv) \<longrightarrow>
        (\<exists>b. rv_to_vec J rv = Some b \<and> rv_from_slice J b = Some rv)) \<and>
     (\<forall>rvs. (\<forall>rv \<in> set rvs. whole_second (expiration rv)) \<longrightarrow>
        (\<exists>b. rvs_to_vec J rvs = Some b \<and> rvs_from_slice J b = Some rvs))"

definition rv_fs_set ::
    "'d sled \<Rightarrow> rv_codec \<Rightarrow> 'd \<Rightarrow> string \<Rightarrow> ReferenceValue \<Rightarrow>
     (string, ReferenceValue option) outcome \<times> 'd" where
  "rv_fs_set L J d name rv =
     (case rv_to_vec J rv of
        None \<Rightarrow> (Err ''serde_json'', d)
      | Some rv_serde \<Rightarrow>
          (let (r, d') = sled_insert L d name rv_serde in
           (and_then r (\<lambda>old.
            and_then (case old of
                        Some v \<Rightarrow> map_ok Some (ok_or ''serde_json'' (rv_from_slice J v))
                      | None \<Rightarrow> Ok None) (\<lambda>res.
            and_then (sled_flush L d') (\<lambda>_. Ok res))), d')))"

definition rv_fs_get ::
    "'d sled \<Rightarrow> rv_codec \<Rightarrow> 'd \<Rightarrow> string \<Rightarrow> (string, ReferenceValue option) outcome" where
  "rv_fs_get L J d name =
     and_then (sled_get L d name) (\<lambda>v.
       (case v of
          Some v \<Rightarrow> map_ok Some (ok_or ''serde_json'' (rv_from_slice J v))
        | None \<Rightarrow> Ok None))"

definition rv_fs_storage :: "'d sled \<Rightarrow> rv_codec \<Rightarrow> 'd ReferenceValueStorage" where
  "rv_fs_storage L J = \<lparr>rvs_set = rv_fs_set L J, rvs_get = rv_fs_get L J\<rparr>"

text \<open>Documented: sled is a map from keys to values, \<^verbatim>\<open>insert\<close> returns the previous value.\<close>

definition sled_laws :: "'d sled \<Rightarrow> ('d \<Rightarrow> string \<Rightarrow> bytes option) \<Rightarrow> bool" where
  "sled_laws L rows \<longleftrightarrow>
     (\<forall>d k v. \<exists>d'. sled_insert L d k v = (Ok (rows d k), d') \<and> rows d' = (rows d)(k \<mapsto> v)) \<and>
     (\<forall>d k. sled_get L d k = Ok (rows d k)) \<and> (\<forall>d. sled_flush L d = Ok ())"

subsection \<open>JSON file\<close>

record RvLocalJson =
  rv_file_path :: path

definition RvLocalJson_new :: "io_env \<Rightarrow> fs \<Rightarrow> string \<Rightarrow> (string, RvLocalJson) outcome \<times> fs" where
  "RvLocalJson_new io f config_path =
     (case parent config_path of
        None \<Rightarrow> (Err ''Illegal `file_path` for LocalJson's config without a parent dir.'', f)
      | Some dir \<Rightarrow>
          (let p = path_of config_path;
               (made, f1) = create_dir_all io f dir;
               (r, f2) =
                 (case made of
                    Ok () \<Rightarrow> if \<not> exists_path f1 p then write_file io f1 p (bytes_of ''[]'') else (Ok (), f1)
                  | Err e \<Rightarrow> (Err e, f1)
                  | Panic \<Rightarrow> (Panic, f1))
           in (and_then (map_err (\<lambda>e. ''io'') r) (\<lambda>_. Ok \<lparr>rv_file_path = p\<rparr>), f2)))"

text \<open>\<^verbatim>\<open>rvs.iter_mut().find(|it| it.name == name)\<close>: replace the first entry of that name.\<close>

fun replace_rv :: "ReferenceValue list \<Rightarrow> string \<Rightarrow> ReferenceValue \<Rightarrow> ReferenceValue list" where
  "replace_rv [] name rv = [rv]"
| "replace_rv (it # its) name rv =
     (if rv_name it = name then rv # its else it # replace_rv its name rv)"

definition rv_json_set ::
    "rv_codec \<Rightarrow> io_env \<Rightarrow> RvLocalJson \<Rightarrow> fs \<Rightarrow> string \<Rightarrow> ReferenceValue \<Rightarrow>
     (string, ReferenceValue option) outcome \<times> fs" where
  "rv_json_set J io self f name rv =
     (case and_then (map_err (\<lambda>e. ''io'') (read_file io f (rv_file_path self))) (\<lambda>file.
           and_then (ok_or ''serde_json'' (rvs_from_slice J file)) (\<lambda>rvs.
           and_then (ok_or ''serde_json'' (rvs_to_vec J (replace_rv rvs name rv))) (\<lambda>contents.
             Ok (find (\<lambda>it. rv_name it = name) rvs, contents)))) of
        Ok (res, contents) \<Rightarrow>
          (let (r, f') = write_file io f (rv_file_path self) contents in
           (and_then (map_err (\<lambda>e. ''io'') r) (\<lambda>_. Ok res), f'))
      | Err e \<Rightarrow> (Err e, f)
      | Panic \<Rightarrow> (Panic, f))"

definition rv_json_get ::
    "rv_codec \<Rightarrow> io_env \<Rightarrow> RvLocalJson \<Rightarrow> fs \<Rightarrow> string \<Rightarrow> (string, ReferenceValue option) outcome" where
  "rv_json_get J io self f name =
     and_then (map_err (\<lambda>e. ''io'') (read_file io f (rv_file_path self))) (\<lambda>file.
     and_then (ok_or ''serde_json'' (rvs_from_slice J file)) (\<lambda>rvs.
       Ok (find (\<lambda>rv. rv_name rv = name) rvs)))"

definition rv_json_storage :: "rv_codec \<Rightarrow> io_env \<Rightarrow> RvLocalJson \<Rightarrow> fs ReferenceValueStorage" where
  "rv_json_storage J io self = \<lparr>rvs_set = rv_json_set J io self, rvs_get = rv_json_get J io self\<rparr>"

section \<open>The service\<close>

record 's Rvps =
  extractors :: Extractors
  rv_storage :: "'s ReferenceValueStorage"

text \<open>\<^verbatim>\<open>for v in rv.iter()\<close>: an error stops the loop, what was stored before it stays.\<close>

fun store_loop ::
    "'s ReferenceValueStorage \<Rightarrow> 's \<Rightarrow> ReferenceValue list \<Rightarrow> (string, unit) outcome \<times> 's" where
  "store_loop S s [] = (Ok (), s)"
| "store_loop S s (v # vs) =
     (case rvs_set S s (rv_name v) v of
        (Ok old, s') \<Rightarrow> store_loop S s' vs
      | (Err e, s') \<Rightarrow> (Err e, s')
      | (Panic, s') \<Rightarrow> (Panic, s'))"

definition verify_and_extract ::
    "rvps_codec \<Rightarrow> 's Rvps \<Rightarrow> 's \<Rightarrow> string \<Rightarrow> (string, unit) outcome \<times> 's" where
  "verify_and_extract D self s message =
     (case and_then (ok_or ''parse message'' (parse_message D message)) (\<lambda>message.
           if msg_version message \<noteq> MESSAGE_VERSION
           then Err (''Version unmatched! Need '' @ MESSAGE_VERSION @ '', given ''
                     @ msg_version message @ ''.'')
           else process (extractors self) message) of
        Ok rv \<Rightarrow> store_loop (rv_storage self) s rv
      | Err e \<Rightarrow> (Err e, s)
      | Panic \<Rightarrow> (Panic, s))"

definition query_reference_value :: "'s Rvps \<Rightarrow> 's \<Rightarrow> string \<Rightarrow> (string, json option) outcome" where
  "query_reference_value self s reference_value_id =
     map_ok (map_option rv_value) (rvs_get (rv_storage self) s reference_value_id)"

subsection \<open>gRPC handlers\<close>

definition query_handler ::
    "(json \<Rightarrow> string option) \<Rightarrow> 's Rvps \<Rightarrow> 's \<Rightarrow> string \<Rightarrow> (string, string option) outcome" where
  "query_handler to_string self s rid =
     and_then (map_err (\<lambda>e. ''Query reference value: '' @ e) (query_reference_value self s rid))
       (\<lambda>rvs.
         (case rvs of
            Some v \<Rightarrow> map_ok Some (ok_or ''Serde reference value'' (to_string v))
          | None \<Rightarrow> Ok None))"

definition register_handler ::
    "rvps_codec \<Rightarrow> 's Rvps \<Rightarrow> 's \<Rightarrow> string \<Rightarrow> (string, unit) outcome \<times> 's" where
  "register_handler D self s message =
     (let (r, s') = verify_and_extract D self s message in
      (map_err (\<lambda>e. ''Register reference value: '' @ e) r, s'))"

section \<open>What the storages give the service\<close>

definition rv_fs_lookup :: "rv_codec \<Rightarrow> ('d \<Rightarrow> string \<Rightarrow> bytes option) \<Rightarrow> 'd \<Rightarrow> string \<Rightarrow>
    ReferenceValue option" where
  "rv_fs_lookup J rows d n = Option.bind (rows d n) (rv_from_slice J)"

definition rv_fs_good :: "rv_codec \<Rightarrow> ('d \<Rightarrow> string \<Rightarrow> bytes option) \<Rightarrow> 'd \<Rightarrow> bool" where
  "rv_fs_good J rows d \<longleftrightarrow> (\<forall>n b. rows d n = Some b \<longrightarrow> rv_from_slice J b \<noteq> None)"

lemma map_ok_ok_or: "x \<noteq> None \<Longrightarrow> map_ok Some (ok_or e x) = Ok x"
  by auto

lemma rv_fs_rv_store:
  assumes L: "sled_laws L rows" and J: "rv_codec_laws J"
  shows "rv_store (rv_fs_storage L J) (rv_fs_lookup J rows) (rv_fs_good J rows)"
proof
  fix d n
  assume "rv_fs_good J rows d"
  then show "rvs_get (rv_fs_storage L J) d n = Ok (rv_fs_lookup J rows d n)"
    using L by (auto simp: rv_fs_storage_def rv_fs_get_def sled_laws_def rv_fs_lookup_def
        rv_fs_good_def map_ok_ok_or split: option.splits)
next
  fix d n and rv :: ReferenceValue
  assume good: "rv_fs_good J rows d" and w: "whole_second (expiration rv)"
  from J w obtain b where b: "rv_to_vec J rv = Some b" "rv_from_slice J b = Some rv"
    by (auto simp: rv_codec_laws_def)
  from L obtain d' where d': "sled_insert L d n b = (Ok (rows d n), d')" "rows d' = (rows d)(n \<mapsto> b)"
    "sled_flush L d' = Ok ()"
    unfolding sled_laws_def by blast
  have "rv_fs_set L J d n rv = (Ok (rv_fs_lookup J rows d n), d')"
    using good b d' by (auto simp: rv_fs_set_def rv_fs_lookup_def rv_fs_good_def map_ok_ok_or
        split: option.splits)
  moreover have "rv_fs_lookup J rows d' = (rv_fs_lookup J rows d)(n \<mapsto> rv)" "rv_fs_good J rows d'"
    using good b d'(2) by (auto simp: rv_fs_lookup_def rv_fs_good_def)
  ultimately show "\<exists>s'. rvs_set (rv_fs_storage L J) d n rv = (Ok (rv_fs_lookup J rows d n), s') \<and>
      rv_fs_good J rows s' \<and> rv_fs_lookup J rows s' = (rv_fs_lookup J rows d)(n \<mapsto> rv)"
    by (simp add: rv_fs_storage_def)
qed

definition rv_json_items :: "rv_codec \<Rightarrow> RvLocalJson \<Rightarrow> fs \<Rightarrow> ReferenceValue list option" where
  "rv_json_items J self f =
     (case map_of f (rv_file_path self) of Some (FileNode b) \<Rightarrow> rvs_from_slice J b | _ \<Rightarrow> None)"

definition rv_json_lookup :: "rv_codec \<Rightarrow> RvLocalJson \<Rightarrow> fs \<Rightarrow> string \<Rightarrow> ReferenceValue option" where
  "rv_json_lookup J self f n =
     Option.bind (rv_json_items J self f) (find (\<lambda>rv. rv_name rv = n))"

definition rv_json_good :: "rv_codec \<Rightarrow> RvLocalJson \<Rightarrow> fs \<Rightarrow> bool" where
  "rv_json_good J self f \<longleftrightarrow>
     rv_file_path self \<noteq> [] \<and> is_dir f (butlast (rv_file_path self)) \<and>
     (\<exists>rvs. rv_json_items J self f = Some rvs \<and> (\<forall>rv \<in> set rvs. whole_second (expiration rv)))"

lemma find_replace_rv:
  "rv_name rv = n \<Longrightarrow>
     find (\<lambda>rv. rv_name rv = m) (replace_rv rvs n rv) =
       (if m = n then Some rv else find (\<lambda>rv. rv_name rv = m) rvs)"
  by (induction rvs) auto

lemma set_replace_rv: "set (replace_rv rvs n rv) \<subseteq> insert rv (set rvs)"
  by (induction rvs) auto

lemma rv_json_rv_store:
  assumes J: "rv_codec_laws J"
  shows "rv_store (rv_json_storage J no_faults self) (rv_json_lookup J self) (rv_json_good J self)"
proof
  fix f n
  assume good: "rv_json_good J self f"
  then obtain b rvs where b: "map_of f (rv_file_path self) = Some (FileNode b)"
    "rvs_from_slice J b = Some rvs" "\<forall>rv \<in> set rvs. whole_second (expiration rv)"
    by (auto simp: rv_json_good_def rv_json_items_def split: option.splits fnode.splits)
  have rd: "read_file no_faults f (rv_file_path self) = Ok b"
    using good b by (simp add: read_file_def rv_json_good_def)
  have lk: "rv_json_lookup J self f m = find (\<lambda>rv. rv_name rv = m) rvs" for m
    using b by (simp add: rv_json_lookup_def rv_json_items_def)
  show "rvs_get (rv_json_storage J no_faults self) f n = Ok (rv_json_lookup J self f n)"
    using rd b lk by (simp add: rv_json_storage_def rv_json_get_def)
  fix rv :: ReferenceValue
  assume w: "whole_second (expiration rv)" and n: "rv_name rv = n"
  let ?new = "replace_rv rvs n rv"
  have ws: "\<forall>rv \<in> set ?new. whole_second (expiration rv)"
    using b(3) w set_replace_rv [of rvs n rv] by blast
  with J obtain c where c: "rvs_to_vec J ?new = Some c" "rvs_from_slice J c = Some ?new"
    by (auto simp: rv_codec_laws_def)
  let ?f = "AList.update (rv_file_path self) (FileNode c) f"
  have "write_file no_faults f (rv_file_path self) c = (Ok (), ?f)"
    using good b write_file_ok [of f "butlast (rv_file_path self)" "last (rv_file_path self)"]
    by (simp add: rv_json_good_def)
  then have "rv_json_set J no_faults self f n rv = (Ok (rv_json_lookup J self f n), ?f)"
    using rd b c lk by (simp add: rv_json_set_def)
  moreover have "rv_json_good J self ?f"
    using good c ws is_dir_update [of f "butlast (rv_file_path self)" "last (rv_file_path self)"]
    by (simp add: rv_json_good_def rv_json_items_def)
  moreover have "rv_json_lookup J self ?f = (rv_json_lookup J self f)(n \<mapsto> rv)"
    using c lk find_replace_rv [OF n] by (auto simp: rv_json_lookup_def rv_json_items_def)
  ultimately show "\<exists>s'. rvs_set (rv_json_storage J no_faults self) f n rv =
      (Ok (rv_json_lookup J self f n), s') \<and> rv_json_good J self s' \<and>
      rv_json_lookup J self s' = (rv_json_lookup J self f)(n \<mapsto> rv)"
    by (simp add: rv_json_storage_def)
qed

subsection \<open>Concrete instances\<close>

instance json :: countable
  by countable_datatype

definition rv_tuple :: "ReferenceValue \<Rightarrow> string \<times> string \<times> int \<times> json" where
  "rv_tuple rv = (rv_version rv, rv_name rv, expiration rv, rv_value rv)"

definition tuple_rv :: "string \<times> string \<times> int \<times> json \<Rightarrow> ReferenceValue" where
  "tuple_rv = (\<lambda>(v, n, e, x). \<lparr>rv_version = v, rv_name = n, expiration = e, rv_value = x\<rparr>)"

lemma tuple_rv_tuple [simp]: "tuple_rv (rv_tuple rv) = rv"
  by (simp add: tuple_rv_def rv_tuple_def)

text \<open>A codec for reference values: the number of the value, in unary.\<close>

definition reference_rv_codec :: rv_codec where
  "reference_rv_codec =
     \<lparr>rv_to_vec = (\<lambda>rv. Some (replicate (to_nat (rv_tuple rv)) 0)),
      rv_from_slice = (\<lambda>b. Some (tuple_rv (from_nat (length b)))),
      rvs_to_vec = (\<lambda>rvs. Some (replicate (to_nat (map rv_tuple rvs)) 0)),
      rvs_from_slice = (\<lambda>b. Some (map tuple_rv (from_nat (length b))))\<rparr>"

lemma reference_rv_codec_laws: "rv_codec_laws reference_rv_codec"
  by (simp add: rv_codec_laws_def reference_rv_codec_def o_def)

definition reference_sled :: "(string \<times> bytes) list sled" where
  "reference_sled =
     \<lparr>sled_insert = (\<lambda>d k v. (Ok (map_of d k), AList.update k v d)),
      sled_get = (\<lambda>d k. Ok (map_of d k)), sled_flush = (\<lambda>d. Ok ())\<rparr>"

lemma reference_sled_laws: "sled_laws reference_sled map_of"
  by (simp add: sled_laws_def reference_sled_def)

interpretation rv_fs: rv_store "rv_fs_storage reference_sled reference_rv_codec"
    "rv_fs_lookup reference_rv_codec map_of" "rv_fs_good reference_rv_codec map_of"
  by (rule rv_fs_rv_store) (rule reference_sled_laws reference_rv_codec_laws)+

interpretation rv_json: rv_store "rv_json_storage reference_rv_codec no_faults self"
    "rv_json_lookup reference_rv_codec self" "rv_json_good reference_rv_codec self" for self
  by (rule rv_json_rv_store) (rule reference_rv_codec_laws)

section \<open>Registering\<close>

context rv_store
begin

lemma store_loop_ok:
  "good s \<Longrightarrow> \<forall>v \<in> set vs. whole_second (expiration v) \<Longrightarrow>
     \<exists>s'. store_loop S s vs = (Ok (), s') \<and> good s' \<and>
       lookup s' = lookup s ++ map_of (rev (map (\<lambda>v. (rv_name v, v)) vs))"
proof (induction vs arbitrary: s)
  case Nil
  then show ?case by simp
next
  case (Cons v vs)
  then obtain t where t: "rvs_set S s (rv_name v) v = (Ok (lookup s (rv_name v)), t)" "good t"
    "lookup t = (lookup s)(rv_name v \<mapsto> v)"
    using rv_set [OF Cons.prems(1)] by fastforce
  with Cons.IH [OF t(2)] Cons.prems(2) show ?case
    by (fastforce simp: map_add_def map_of_append fun_eq_iff split: option.splits)
qed

end

subsection \<open>Extracted values have whole-second expirations\<close>

lemma ReferenceValue_new_whole:
  "chrono_laws C \<Longrightarrow> ReferenceValue_new C = Ok rv \<Longrightarrow> whole_second (expiration rv)"
  by (auto simp: ReferenceValue_new_def chrono_laws_def outcome_iff bind_eq_Some_conv) blast

lemma setters_expiration [simp]:
  "expiration (set_value rv v) = expiration rv" "expiration (set_name rv n) = expiration rv"
  "rv_name (set_value rv v) = rv_name rv" "rv_name (set_name rv n) = n"
  "rv_value (set_value rv v) = v"
  by (simp_all add: set_value_def set_name_def)

lemma Sample_whole:
  "chrono_laws C \<Longrightarrow> SampleExtractor_verify_and_extract C D p = Ok rvs \<Longrightarrow>
     \<forall>rv \<in> set rvs. whole_second (expiration rv)"
  by (auto simp: SampleExtractor_verify_and_extract_def outcome_iff List.map_filter_def
      ReferenceValue_new_whole split: outcome.splits)

lemma swid_loop_whole:
  "chrono_laws C \<Longrightarrow> swid_loop C prefix rs = Ok rvs \<Longrightarrow>
     \<forall>rv \<in> set rvs. whole_second (expiration rv)"
  by (induction rs arbitrary: rvs)
    (auto simp: outcome_iff Let_def ReferenceValue_new_whole split: if_splits)

lemma Swid_whole:
  "chrono_laws C \<Longrightarrow> SwidExtractor_verify_and_extract C D xp p = Ok rvs \<Longrightarrow>
     \<forall>rv \<in> set rvs. whole_second (expiration rv)"
  by (auto simp: SwidExtractor_verify_and_extract_def outcome_iff Let_def dest: swid_loop_whole)

lemma process_whole:
  "chrono_laws C \<Longrightarrow> process (Extractors_new C D xp) m = Ok rvs \<Longrightarrow>
     \<forall>rv \<in> set rvs. whole_second (expiration rv)"
  using Sample_whole Swid_whole
  by (auto simp: process_def Extractors_new_def split: if_splits option.splits)

end
