(* ===== verification/Rvps_Properties.thy ===== *)
theory Rvps_Properties
  imports Rvps
begin

text \<open>
  What the reference value service promises: a query returns the value of the last registered
  reference value of that name, a rejected message changes nothing, and what a SWID manifest turns
  into.
\<close>

section \<open>SWID extraction\<close>

lemma hash_loop_run:
  assumes "\<And>j. j < length hs \<Longrightarrow> hash_attr n (i + j) = Some (hs ! j)"
    and "hash_attr n (i + length hs) = None"
  shows "hash_loop n i = map JString (filter (\<lambda>h. \<not> all_zero h) hs)"
  using assms
proof (induction hs arbitrary: i)
  case Nil
  then show ?case by (simp add: hash_loop.simps)
next
  case (Cons h hs)
  have h: "hash_attr n i = Some h" using Cons.prems(1) [of 0] by simp
  have "hash_loop n (Suc i) = map JString (filter (\<lambda>h. \<not> all_zero h) hs)"
  proof (rule Cons.IH)
    show "hash_attr n (Suc i + j) = Some (hs ! j)" if "j < length hs" for j
      using Cons.prems(1) [of "Suc j"] that by simp
    show "hash_attr n (Suc i + length hs) = None" using Cons.prems(2) by simp
  qed
  then show ?case using h by (simp add: hash_loop.simps [of n i])
qed

lemma hash_loop_values:
  "\<forall>x \<in> set (hash_loop n i). \<exists>h j. i \<le> j \<and> x = JString h \<and> hash_attr n j = Some h \<and> \<not> all_zero h"
proof (induction n i rule: hash_loop.induct)
  case (1 n i)
  show ?case
  proof (cases "hash_attr n i")
    case None
    then show ?thesis by (simp add: hash_loop.simps)
  next
    case (Some h)
    have "\<forall>x \<in> set (hash_loop n (Suc i)).
        \<exists>h j. i \<le> j \<and> x = JString h \<and> hash_attr n j = Some h \<and> \<not> all_zero h"
      using 1 [OF Some] Suc_leD by (cases "all_zero h") metis+
    then show ?thesis
      using Some by (subst hash_loop.simps) auto
  qed
qed

lemma swid_loop_sound:
  "swid_loop C prefix rs = Ok rvs \<Longrightarrow> rv \<in> set rvs \<Longrightarrow>
     \<exists>r idx. r \<in> set rs \<and> attribute r (None, ''index'') = Some idx \<and>
       rv_name rv = replace_char CHR ''-'' ''_'' (prefix @ ''.measurement_'' @ idx) \<and>
       rv_value rv = JArray (hash_loop r 0) \<and> hash_loop r 0 \<noteq> []"
proof (induction rs arbitrary: rvs)
  case Nil
  then show ?case by simp
next
  case (Cons r rs)
  then obtain idx where idx: "attribute r (None, ''index'') = Some idx"
    by (auto simp: outcome_iff)
  show ?case
  proof (cases "hash_loop r 0 = []")
    case True
    then have "swid_loop C prefix rs = Ok rvs" using Cons.prems(1) idx by simp
    from Cons.IH [OF this Cons.prems(2)] show ?thesis by auto
  next
    case False
    then obtain v vs where v: "swid_loop C prefix rs = Ok vs"
      "rvs = set_value (set_name v (replace_char CHR ''-'' ''_'' (prefix @ ''.measurement_'' @ idx)))
        (JArray (hash_loop r 0)) # vs"
      using Cons.prems(1) idx by (auto simp: outcome_iff Let_def)
    show ?thesis
    proof (cases "rv \<in> set vs")
      case True
      from Cons.IH [OF v(1) this] show ?thesis by auto
    next
      case new: False
      then show ?thesis
        using Cons.prems(2) v(2) idx False by (intro exI [of _ r] exI [of _ idx]) simp
    qed
  qed
qed

lemma swid_loop_complete:
  "swid_loop C prefix rs = Ok rvs \<Longrightarrow> r \<in> set rs \<Longrightarrow> hash_loop r 0 \<noteq> [] \<Longrightarrow>
     \<exists>rv \<in> set rvs. rv_value rv = JArray (hash_loop r 0)"
proof (induction rs arbitrary: rvs)
  case Nil
  then show ?case by simp
next
  case (Cons x rs)
  then show ?case
    by (cases "x = r"; cases "hash_loop x 0 = []") (auto simp: outcome_iff Let_def)
qed

text \<open>
  A SWID manifest yields exactly one reference value per measurement resource that has a non-zero
  hash: its value is the array of the resource's non-zero hashes, its name ends in the measurement
  index and has no dash, and no all-zero hash is ever trusted.
\<close>

theorem swid_extraction:
  assumes "SwidExtractor_verify_and_extract C D xml_parse p = Ok rvs"
  shows "\<exists>b m xml payload prefix. std_decode D p = Some b \<and> from_utf8 b = Some m \<and>
    xml_parse m = Ok xml \<and> find (has_tag_name (SWID_NS, ''Payload'')) (descendants xml) = Some payload \<and>
    (\<forall>rv \<in> set rvs. \<exists>r \<in> set (descendants payload). \<exists>idx. is_measurement r \<and>
       attribute r (None, ''index'') = Some idx \<and>
       rv_name rv = replace_char CHR ''-'' ''_'' (prefix @ ''.measurement_'' @ idx) \<and>
       CHR ''-'' \<notin> set (rv_name rv) \<and>
       rv_value rv = JArray (hash_loop r 0) \<and> hash_loop r 0 \<noteq> [] \<and>
       (\<forall>x \<in> set (hash_loop r 0). \<exists>h j. x = JString h \<and> hash_attr r j = Some h \<and> \<not> all_zero h)) \<and>
    (\<forall>r \<in> set (descendants payload). is_measurement r \<and> hash_loop r 0 \<noteq> [] \<longrightarrow>
       (\<exists>rv \<in> set rvs. rv_value rv = JArray (hash_loop r 0)))"
proof -
  from assms obtain b m xml payload prefix where *: "std_decode D p = Some b" "from_utf8 b = Some m"
    "xml_parse m = Ok xml" "find (has_tag_name (SWID_NS, ''Payload'')) (descendants xml) = Some payload"
    and loop: "swid_loop C prefix (filter is_measurement (descendants payload)) = Ok rvs"
    by (auto simp: SwidExtractor_verify_and_extract_def outcome_iff Let_def)
  have sound: "\<exists>r \<in> set (descendants payload). \<exists>idx. is_measurement r \<and>
       attribute r (None, ''index'') = Some idx \<and>
       rv_name rv = replace_char CHR ''-'' ''_'' (prefix @ ''.measurement_'' @ idx) \<and>
       CHR ''-'' \<notin> set (rv_name rv) \<and>
       rv_value rv = JArray (hash_loop r 0) \<and> hash_loop r 0 \<noteq> [] \<and>
       (\<forall>x \<in> set (hash_loop r 0). \<exists>h j. x = JString h \<and> hash_attr r j = Some h \<and> \<not> all_zero h)"
    if "rv \<in> set rvs" for rv
  proof -
    from swid_loop_sound [OF loop that] obtain r idx where
      r: "r \<in> set (descendants payload)" "is_measurement r"
      "attribute r (None, ''index'') = Some idx"
      "rv_name rv = replace_char CHR ''-'' ''_'' (prefix @ ''.measurement_'' @ idx)"
      "rv_value rv = JArray (hash_loop r 0)" "hash_loop r 0 \<noteq> []" by auto
    have "CHR ''-'' \<notin> set (replace_char CHR ''-'' ''_'' s)" for s
      by (induction s) (auto simp: replace_char_def)
    then have dash: "CHR ''-'' \<notin> set (rv_name rv)" unfolding r(4) .
    have vals: "\<forall>x \<in> set (hash_loop r 0). \<exists>h j. x = JString h \<and> hash_attr r j = Some h \<and> \<not> all_zero h"
      using hash_loop_values [of r 0] by meson
    show ?thesis
      by (intro bexI [of _ r] exI [of _ idx] conjI) (rule r dash vals)+
  qed
  have complete: "\<exists>rv \<in> set rvs. rv_value rv = JArray (hash_loop r 0)"
    if "r \<in> set (descendants payload)" "is_measurement r" "hash_loop r 0 \<noteq> []" for r
    using swid_loop_complete [OF loop _ that(3)] that by simp
  show ?thesis
    by (intro exI [of _ b] exI [of _ m] exI [of _ xml] exI [of _ payload] exI [of _ prefix] conjI
        * ballI impI)
      (erule sound, elim conjE, rule complete)
qed

definition sample_resource :: xml where
  "sample_resource =
     Element (Some SWID_NS, ''Resource'')
       [((None, ''type''), ''Measurement''), ((None, ''index''), ''1''),
        ((Some HASH_NS, ''Hash0''), ''ab'')] []"

definition sample_manifest :: xml where
  "sample_manifest =
     Element (Some SWID_NS, ''SoftwareIdentity'') []
       [Element (Some SWID_NS, ''Meta'')
          [((Some RIMIM_NS, ''PlatformManufacturerStr''), ''A B''), ((None, ''edition''), ''e'')] [],
        Element (Some SWID_NS, ''Payload'') [] [sample_resource]]"

definition sample_chrono :: chrono where
  "sample_chrono =
     \<lparr>utc_now = 5, with_nanosecond_zero = (\<lambda>t. Some (t - t mod 1000000000)),
      checked_add_months = (\<lambda>t n. Some (t + int n * 2592000000000000))\<rparr>"

definition sample_codec :: rvps_codec where
  "sample_codec =
     \<lparr>std_decode = (\<lambda>s. Some (bytes_of s)), object_from_slice = (\<lambda>b. Some [(''n'', JString (str_of b))]),
      message_from_str = (\<lambda>s. Some (None, s, ''sample''))\<rparr>"

lemma fmt_dec_small [simp]: "fmt_dec 0 = ''0''" "fmt_dec (Suc 0) = ''1''"
  by (simp_all add: fmt_dec_def digits.simps digit_char_def char_of_def bit_0)

lemma sample_hashes: "hash_loop sample_resource 0 = [JString ''ab'']"
  using hash_loop_run [of "[''ab'']" sample_resource 0]
  by (simp add: hash_attr_def attribute_def sample_resource_def all_zero_def)

lemma sample_chrono_laws [simp]: "chrono_laws sample_chrono"
  by (auto simp: chrono_laws_def sample_chrono_def whole_second_def mod_add_eq mod_mult_right_eq
      minus_mod_eq_mult_div)

lemma sample_new:
  "ReferenceValue_new sample_chrono =
     Ok \<lparr>rv_version = REFERENCE_VALUE_VERSION, rv_name = [], expiration = 31104000000000000,
         rv_value = JNull\<rparr>"
  by (simp add: ReferenceValue_new_def sample_chrono_def MONTHS_BEFORE_EXPIRATION_def)

lemma rust_x: "from_utf8 (bytes_of ''x'') = Some ''x''"
  by (simp add: from_utf8_def bytes_of_def valid_utf8.simps utf8_next_def byte_at_def str_of_def
      char_of_def bit_0)

lemma sample_swid:
  "SwidExtractor_verify_and_extract sample_chrono sample_codec (\<lambda>_. Ok sample_manifest) ''x'' =
     Ok [\<lparr>rv_version = REFERENCE_VALUE_VERSION, rv_name = ''A_B.e.measurement_1'',
          expiration = 31104000000000000, rv_value = JArray [JString ''ab'']\<rparr>]"
proof -
  have "is_measurement sample_resource" "attribute sample_resource (None, ''index'') = Some ''1''"
    by (simp_all add: is_measurement_def has_tag_name_def attribute_def sample_resource_def)
  moreover have "descendants sample_resource = [sample_resource]"
    by (simp add: sample_resource_def)
  ultimately show ?thesis
    by (simp add: SwidExtractor_verify_and_extract_def sample_codec_def rust_x sample_manifest_def
        has_tag_name_def attribute_def is_measurement_def replace_char_def sample_hashes sample_new
        set_value_def set_name_def Let_def)
qed

theorem swid_extraction_witness:
  "\<exists>r \<in> set (descendants sample_resource). \<exists>rv \<in> set [JArray [JString ''ab'']]. rv = JArray (hash_loop r 0)"
proof -
  have pl: "find (has_tag_name (SWID_NS, ''Payload'')) (descendants sample_manifest) =
      Some (Element (Some SWID_NS, ''Payload'') [] [sample_resource])"
    by (simp add: sample_manifest_def has_tag_name_def)
  have ms: "is_measurement sample_resource"
    by (simp add: is_measurement_def has_tag_name_def attribute_def sample_resource_def)
  from swid_extraction [OF sample_swid] pl ms sample_hashes
  have "\<exists>rv \<in> set [JArray [JString ''ab'']]. rv = JArray (hash_loop sample_resource 0)"
    by (auto simp: sample_resource_def)
  then show ?thesis by (auto simp: sample_resource_def)
qed

section \<open>Registering and querying\<close>

text \<open>
  C27. Over any storage that stores what it is given, an accepted message makes each query return the
  value of the last extracted reference value of that name, and leaves every other name as it was.
\<close>

theorem register_then_query:
  assumes "rv_store (rv_storage self) lookup good" and "chrono_laws C"
    and "extractors self = Extractors_new C D xml_parse" and "good s"
    and "parse_message D message = Some msg" and "msg_version msg = MESSAGE_VERSION"
    and "process (extractors self) msg = Ok vs"
  shows "\<exists>s'. register_handler D self s message = (Ok (), s') \<and> good s' \<and>
    (\<forall>n. query_reference_value self s' n =
       Ok (map_option rv_value
             (case map_of (rev (map (\<lambda>v. (rv_name v, v)) vs)) n of
                Some v \<Rightarrow> Some v
              | None \<Rightarrow> lookup s n)))"
proof -
  have "\<forall>v \<in> set vs. whole_second (expiration v)"
    using process_whole [OF assms(2)] assms(3,7) by metis
  from rv_store.store_loop_ok [OF assms(1,4) this] obtain s' where
    s': "store_loop (rv_storage self) s vs = (Ok (), s')" "good s'"
    "lookup s' = lookup s ++ map_of (rev (map (\<lambda>v. (rv_name v, v)) vs))" by blast
  have "register_handler D self s message = (Ok (), s')"
    using assms(5-7) s'(1) by (simp add: register_handler_def verify_and_extract_def)
  moreover have "query_reference_value self s' n =
      Ok (map_option rv_value
            (case map_of (rev (map (\<lambda>v. (rv_name v, v)) vs)) n of
               Some v \<Rightarrow> Some v | None \<Rightarrow> lookup s n))" for n
    using rv_store.rv_get [OF assms(1) s'(2)] s'(3)
    by (simp add: query_reference_value_def map_add_def)
  ultimately show ?thesis using s'(2) by blast
qed

definition sample_rvps :: "(string \<times> bytes) list Rvps" where
  "sample_rvps =
     \<lparr>extractors = Extractors_new sample_chrono sample_codec (\<lambda>_. Ok sample_manifest),
      rv_storage = rv_fs_storage reference_sled reference_rv_codec\<rparr>"

lemma sample_process:
  "parse_message sample_codec ''x'' = Some \<lparr>msg_version = MESSAGE_VERSION, payload = ''x'', msg_type = ''sample''\<rparr>"
  "process (extractors sample_rvps) \<lparr>msg_version = MESSAGE_VERSION, payload = ''x'', msg_type = ''sample''\<rparr> =
     Ok [\<lparr>rv_version = REFERENCE_VALUE_VERSION, rv_name = ''n'', expiration = 31104000000000000,
          rv_value = JString ''x''\<rparr>]"
  by (simp_all add: parse_message_def sample_codec_def process_def sample_rvps_def Extractors_new_def
      SampleExtractor_verify_and_extract_def List.map_filter_def sample_new set_value_def set_name_def)

theorem register_then_query_witness:
  "\<exists>s'. register_handler sample_codec sample_rvps [] ''x'' = (Ok (), s') \<and>
    query_reference_value sample_rvps s' ''n'' = Ok (Some (JString ''x''))"
proof -
  have "rv_store (rv_storage sample_rvps) (rv_fs_lookup reference_rv_codec map_of)
      (rv_fs_good reference_rv_codec map_of)"
    using rv_fs.rv_store_axioms by (simp add: sample_rvps_def)
  moreover have "rv_fs_good reference_rv_codec map_of []" by (simp add: rv_fs_good_def)
  moreover have "extractors sample_rvps = Extractors_new sample_chrono sample_codec (\<lambda>_. Ok sample_manifest)"
    by (simp add: sample_rvps_def)
  ultimately show ?thesis
    using register_then_query [OF _ sample_chrono_laws _ _ sample_process(1) _ sample_process(2)]
    by fastforce
qed

text \<open>
  A message the service rejects, because it does not parse, has another version, names no
  extractor, or its provenance does not verify, leaves the stored reference values as they were.
\<close>

theorem rejected_message_changes_nothing:
  assumes "rv_store (rv_storage self) lookup good" and "chrono_laws C"
    and "extractors self = Extractors_new C D xml_parse" and "good s"
    and "register_handler D self s message = (Err e, s')"
  shows "s' = s"
proof -
  from assms(5) obtain e' where r: "verify_and_extract D self s message = (Err e', s')"
    by (auto simp: register_handler_def outcome_iff split: prod.splits)
  let ?pull = "and_then (ok_or ''parse message'' (parse_message D message)) (\<lambda>message.
      if msg_version message \<noteq> MESSAGE_VERSION
      then Err (''Version unmatched! Need '' @ MESSAGE_VERSION @ '', given '' @ msg_version message @ ''.'')
      else process (extractors self) message)"
  show ?thesis
  proof (cases ?pull)
    case (Ok vs)
    then obtain msg where "process (extractors self) msg = Ok vs"
      by (auto simp: outcome_iff split: if_splits)
    then have "\<forall>v \<in> set vs. whole_second (expiration v)"
      using process_whole [OF assms(2)] assms(3) by metis
    from rv_store.store_loop_ok [OF assms(1,4) this] r Ok show ?thesis
      by (auto simp: verify_and_extract_def)
  qed (use r in \<open>simp_all add: verify_and_extract_def\<close>)
qed

theorem rejected_message_changes_nothing_witness:
  "snd (register_handler (sample_codec\<lparr>message_from_str := (\<lambda>s. Some (Some ''0.2.0'', s, ''sample''))\<rparr>)
     \<lparr>extractors = Extractors_new sample_chrono
         (sample_codec\<lparr>message_from_str := (\<lambda>s. Some (Some ''0.2.0'', s, ''sample''))\<rparr>) (\<lambda>_. Ok sample_manifest),
      rv_storage = rv_fs_storage reference_sled reference_rv_codec\<rparr> [] ''x'') = []"
proof -
  let ?D = "sample_codec\<lparr>message_from_str := (\<lambda>s. Some (Some ''0.2.0'', s, ''sample''))\<rparr>"
  let ?X = "Extractors_new sample_chrono ?D (\<lambda>_. Ok sample_manifest)"
  let ?self = "\<lparr>extractors = ?X, rv_storage = rv_fs_storage reference_sled reference_rv_codec\<rparr>"
  obtain e s' where "register_handler ?D ?self [] ''x'' = (Err e, s')"
    by (simp add: register_handler_def verify_and_extract_def parse_message_def MESSAGE_VERSION_def)
  moreover have "rv_fs_good reference_rv_codec map_of []" by (simp add: rv_fs_good_def)
  ultimately show ?thesis
    using rejected_message_changes_nothing [of ?self _ _ sample_chrono ?D "\<lambda>_. Ok sample_manifest" "[]"]
      rv_fs.rv_store_axioms by fastforce
qed

text \<open>
  A query returns the value of a stored reference value after its expiration as before it: the
  expiration is stored and never looked at.
\<close>

theorem expired_value_is_served:
  assumes "rv_store (rv_storage self) lookup good" and "good s" and "whole_second (expiration rv)"
    and "rvs_set (rv_storage self) s (rv_name rv) rv = (r, s')" and "expired C rv"
  shows "query_reference_value self s' (rv_name rv) = Ok (Some (rv_value rv))"
  using rv_store.rv_set [OF assms(1-3) refl] rv_store.rv_get [OF assms(1)] assms(4)
  by (auto simp: query_reference_value_def)

theorem expired_value_is_served_witness:
  "query_reference_value sample_rvps
     (snd (rvs_set (rv_storage sample_rvps) [] ''n''
        \<lparr>rv_version = [], rv_name = ''n'', expiration = 0, rv_value = JString ''x''\<rparr>)) ''n'' =
   Ok (Some (JString ''x''))"
proof -
  let ?rv = "\<lparr>rv_version = [], rv_name = ''n'', expiration = 0, rv_value = JString ''x''\<rparr>"
  obtain r s' where "rvs_set (rv_storage sample_rvps) [] ''n'' ?rv = (r, s')" by fastforce
  moreover have "rv_fs_good reference_rv_codec map_of []" by (simp add: rv_fs_good_def)
  moreover have "expired sample_chrono ?rv" by (simp add: expired_def sample_chrono_def)
  ultimately show ?thesis
    using expired_value_is_served [of sample_rvps "rv_fs_lookup reference_rv_codec map_of"
        "rv_fs_good reference_rv_codec map_of" "[]" ?rv r s' sample_chrono] rv_fs.rv_store_axioms
    by (simp add: sample_rvps_def whole_second_def)
qed

end
