(* ===== verification/Kbs_Session.thy ===== *)
theory Kbs_Session
  imports Crates "HOL-Library.AList"
begin

text \<open>
  The RCAR handshake sessions of the Key Broker Service (\<^verbatim>\<open>kbs/src/attestation/session.rs\<close>): the two
  session states, their accessors and transitions, and the session map. Times are seconds;
  \<^verbatim>\<open>Uuid::new_v4\<close> and the clock are arguments.
\<close>

section \<open>Protocol types\<close>

text \<open>The types of the \<^verbatim>\<open>kbs_types\<close> package the handshake uses; a \<^verbatim>\<open>Tee\<close> is its name.\<close>

type_synonym Tee = string

record Request =
  req_version :: string
  req_tee :: Tee
  extra_params :: json

record Challenge =
  nonce :: string
  challenge_params :: json

record RuntimeData =
  rt_nonce :: string
  tee_pubkey :: json

record CompositeEvidence =
  primary_evidence :: json
  additional_evidence :: string

record Attestation =
  init_data :: "json option"
  runtime_data :: RuntimeData
  tee_evidence :: CompositeEvidence

section \<open>Session status\<close>

definition KBS_SESSION_ID :: string where
  "KBS_SESSION_ID = ''kbs-session-id''"

datatype SessionStatus =
    Authed Request Challenge string int
  | Attested string string int

record Cookie =
  cookie_name :: string
  cookie_value :: string
  cookie_expires :: int

definition SessionStatus_auth :: "string \<Rightarrow> int \<Rightarrow> Request \<Rightarrow> int \<Rightarrow> Challenge \<Rightarrow> SessionStatus" where
  "SessionStatus_auth uuid now request timeout_minutes challenge =
     Authed request challenge uuid (now + 60 * timeout_minutes)"

fun session_id :: "SessionStatus \<Rightarrow> string" where
  "session_id (Authed _ _ i _) = i"
| "session_id (Attested _ i _) = i"

fun session_timeout :: "SessionStatus \<Rightarrow> int" where
  "session_timeout (Authed _ _ _ t) = t"
| "session_timeout (Attested _ _ t) = t"

text \<open>\<^verbatim>\<open>request()\<close> and \<^verbatim>\<open>challenge()\<close> panic on an attested session.\<close>

fun session_request :: "SessionStatus \<Rightarrow> ('e, Request) outcome" where
  "session_request (Authed r _ _ _) = Ok r"
| "session_request (Attested _ _ _) = Panic"

fun session_challenge :: "SessionStatus \<Rightarrow> ('e, Challenge) outcome" where
  "session_challenge (Authed _ c _ _) = Ok c"
| "session_challenge (Attested _ _ _) = Panic"

definition session_cookie :: "SessionStatus \<Rightarrow> Cookie" where
  "session_cookie s =
     \<lparr>cookie_name = KBS_SESSION_ID, cookie_value = session_id s, cookie_expires = session_timeout s\<rparr>"

definition is_expired :: "int \<Rightarrow> SessionStatus \<Rightarrow> bool" where
  "is_expired now s \<longleftrightarrow> session_timeout s < now"

fun attest_session :: "string \<Rightarrow> SessionStatus \<Rightarrow> SessionStatus" where
  "attest_session token (Authed _ _ i t) = Attested token i t"
| "attest_session token (Attested tk i t) = Attested tk i t"

section \<open>Session map\<close>

type_synonym SessionMap = "(string \<times> SessionStatus) list"

text \<open>\<^verbatim>\<open>scc::HashMap::insert\<close> keeps an existing entry; its error is ignored.\<close>

definition SessionMap_insert :: "SessionStatus \<Rightarrow> SessionMap \<Rightarrow> SessionMap" where
  "SessionMap_insert s m =
     (if map_of m (session_id s) = None then AList.update (session_id s) s m else m)"

text \<open>The clean-up task: \<^verbatim>\<open>retain_async(|_, v| !v.is_expired())\<close>.\<close>

definition retain_live :: "int \<Rightarrow> SessionMap \<Rightarrow> SessionMap" where
  "retain_live now m = filter (\<lambda>(k, s). \<not> is_expired now s) m"

text \<open>Sessions are stored under their id, once.\<close>

definition sessions_wf :: "SessionMap \<Rightarrow> bool" where
  "sessions_wf m \<longleftrightarrow> distinct (map fst m) \<and> (\<forall>(k, s) \<in> set m. session_id s = k)"

lemma attest_session_id [simp]: "session_id (attest_session t s) = session_id s"
  by (cases s) simp_all

lemma attest_session_timeout [simp]: "session_timeout (attest_session t s) = session_timeout s"
  by (cases s) simp_all

lemma sessions_wf_id: "sessions_wf m \<Longrightarrow> map_of m k = Some s \<Longrightarrow> session_id s = k"
  by (auto simp: sessions_wf_def dest: map_of_SomeD)

lemma wf_update:
  assumes "sessions_wf m" "session_id s = k"
  shows "sessions_wf (AList.update k s m)"
  unfolding sessions_wf_def
proof
  show "distinct (map fst (AList.update k s m))"
    using assms(1) by (intro distinct_update) (simp add: sessions_wf_def)
  have "map_of (AList.update k s m) k' = Some s' \<Longrightarrow> session_id s' = k'" for k' s'
    using assms sessions_wf_id by (auto simp: update_conv' split: if_splits)
  then show "\<forall>(k', s') \<in> set (AList.update k s m). session_id s' = k'"
    using assms(1) distinct_update [of m k s]
    by (auto simp: sessions_wf_def map_of_eq_Some_iff)
qed

lemma wf_insert: "sessions_wf m \<Longrightarrow> sessions_wf (SessionMap_insert s m)"
  by (simp add: SessionMap_insert_def wf_update)

lemma wf_retain: "sessions_wf m \<Longrightarrow> sessions_wf (retain_live now m)"
  by (auto simp: sessions_wf_def retain_live_def distinct_map_filter)

lemma map_of_retain:
  assumes "sessions_wf m"
  shows "map_of (retain_live now m) k =
    (case map_of m k of Some s \<Rightarrow> if is_expired now s then None else Some s | None \<Rightarrow> None)"
proof -
  have d: "distinct (map fst m)" using assms by (simp add: sessions_wf_def)
  then have d': "distinct (map fst (retain_live now m))"
    by (simp add: retain_live_def distinct_map_filter)
  have *: "map_of (retain_live now m) k = Some s \<longleftrightarrow> map_of m k = Some s \<and> \<not> is_expired now s" for s
    using d d' by (auto simp: map_of_eq_Some_iff retain_live_def)
  show ?thesis
  proof (cases "map_of (retain_live now m) k")
    case None
    then show ?thesis using * by (auto split: option.splits)
  next
    case (Some s)
    then show ?thesis using * by simp
  qed
qed

end
