(* ===== verification/Kbs_Backend.thy ===== *)
theory Kbs_Backend
  imports Kbs_Session
begin

text \<open>
  The attestation front end of the Key Broker Service (\<^verbatim>\<open>kbs/src/attestation/backend.rs\<close>): the
  RCAR handshake over the session map, with the attestation service behind it as a parameter
  (\<^verbatim>\<open>dyn Attest\<close>). Errors are the \<^verbatim>\<open>anyhow\<close> messages; the metrics counters are left out.

  \<^verbatim>\<open>__attest\<close> looks its session up twice and holds no lock in between, so it is modelled by two
  steps: \<open>attest_check\<close> up to the release of the first guard, with the evidence computed from it, and
  \<open>attest_verify\<close> under the second guard, which is held until the response. \<open>attest\<close> runs both
  without interference; \<open>kbs_step\<close> interleaves the steps of concurrent requests, the clean-up task and
  the clock.
\<close>

section \<open>Parameters\<close>

text \<open>Deserialisers, serialisers and version parsing of the packages the code calls.\<close>

record 'v kbs_codec =
  request_from_slice :: "bytes \<Rightarrow> Request option"
  version_parse :: "string \<Rightarrow> 'v option"
  version_req_matches :: "'v \<Rightarrow> bool"
  attestation_from_slice :: "bytes \<Rightarrow> Attestation option"
  attestation_to_string :: "Attestation \<Rightarrow> string option"
  additional_from_str :: "string \<Rightarrow> (Tee \<times> json) list option"
  tee_to_string :: "Tee \<Rightarrow> string option"
  value_to_string :: "json \<Rightarrow> string option"
  set_policy_from_slice :: "bytes \<Rightarrow> (string \<times> string) option"

record IndependentEvidence =
  ev_tee :: Tee
  ev_tee_evidence :: json
  ev_runtime_data :: json
  ev_init_data :: "json option"

text \<open>The attestation service, over its own state.\<close>

record 'i Attest =
  as_set_policy :: "'i \<Rightarrow> string \<Rightarrow> string \<Rightarrow> (string, unit) outcome \<times> 'i"
  as_verify :: "'i \<Rightarrow> IndependentEvidence list \<Rightarrow> (string, string) outcome"
  as_generate_challenge :: "'i \<Rightarrow> Tee \<Rightarrow> json \<Rightarrow> (string, Challenge) outcome"
  as_register_reference_value :: "'i \<Rightarrow> string \<Rightarrow> (string, unit) outcome \<times> 'i"
  as_query_reference_value :: "'i \<Rightarrow> string \<Rightarrow> (string, json option) outcome"

record HttpRequest =
  cookies :: "(string \<times> string) list"
  bearer :: "string option"
  req_method :: string

record HttpResponse =
  resp_status :: nat
  resp_cookie :: "Cookie option"
  content_type :: "string option"
  resp_body :: string

datatype AttestationError =
    AttestationServiceInitialization string
  | ExtractTeePubKeyFailed string
  | RcarAuthFailed string
  | RcarAttestFailed string
  | SetPolicyFailed string

section \<open>Challenges\<close>

definition NONCE_SIZE_BYTES :: nat where
  "NONCE_SIZE_BYTES = 32"

text \<open>\<open>fill\<close> is the random generator filling a buffer of the given size, or failing.\<close>

definition make_nonce :: "crates \<Rightarrow> (nat \<Rightarrow> bytes option) \<Rightarrow> (string, string) outcome" where
  "make_nonce E fill =
     and_then (ok_or ''rand'' (fill NONCE_SIZE_BYTES)) (\<lambda>b. Ok (base64_encode E b))"

definition generic_generate_challenge ::
    "crates \<Rightarrow> (nat \<Rightarrow> bytes option) \<Rightarrow> Tee \<Rightarrow> json \<Rightarrow> (string, Challenge) outcome" where
  "generic_generate_challenge E fill tee tee_parameters =
     and_then (make_nonce E fill) (\<lambda>n.
       Ok \<lparr>nonce = n, challenge_params = JString []\<rparr>)"

section \<open>The service\<close>

record 'i AttestationService =
  inner :: 'i
  session_map :: SessionMap
  timeout :: int

definition set_policy_request ::
    "'v kbs_codec \<Rightarrow> 'i Attest \<Rightarrow> 'i AttestationService \<Rightarrow> bytes \<Rightarrow>
     (AttestationError, unit) outcome \<times> 'i AttestationService" where
  "set_policy_request J A self request =
     (case set_policy_from_slice J request of
        None \<Rightarrow> (Err (SetPolicyFailed ''parse set policy request''), self)
      | Some (policy_id, policy) \<Rightarrow>
          (let (r, i) = as_set_policy A (inner self) policy_id policy in
           (map_err SetPolicyFailed r, self\<lparr>inner := i\<rparr>)))"

definition auth_session ::
    "'v kbs_codec \<Rightarrow> 'i Attest \<Rightarrow> 'i AttestationService \<Rightarrow> string \<Rightarrow> int \<Rightarrow> bytes \<Rightarrow>
     (string, SessionStatus) outcome" where
  "auth_session J A self uuid now request =
     and_then (ok_or ''deserialize Request'' (request_from_slice J request)) (\<lambda>request.
     and_then (ok_or ''failed to parse KBS version'' (version_parse J (req_version request)))
       (\<lambda>version.
     if \<not> version_req_matches J version
     then Err (''KBS Client Protocol Version Mismatch: expect =0.4.0 while the request is ''
               @ req_version request)
     else
       and_then (as_generate_challenge A (inner self) (req_tee request) (extra_params request))
         (\<lambda>challenge. Ok (SessionStatus_auth uuid now request (timeout self) challenge))))"

text \<open>The response carries the session cookie and the challenge as JSON.\<close>

definition challenge_json :: "Challenge \<Rightarrow> json" where
  "challenge_json c = JObject [(''nonce'', JString (nonce c)), (''extra-params'', challenge_params c)]"

definition auth ::
    "'v kbs_codec \<Rightarrow> 'i Attest \<Rightarrow> 'i AttestationService \<Rightarrow> string \<Rightarrow> int \<Rightarrow> bytes \<Rightarrow>
     (AttestationError, Cookie \<times> json) outcome \<times> 'i AttestationService" where
  "auth J A self uuid now request =
     (case auth_session J A self uuid now request of
        Ok session \<Rightarrow>
          (map_ok (\<lambda>c. (session_cookie session, challenge_json c)) (session_challenge session),
           self\<lparr>session_map := SessionMap_insert session (session_map self)\<rparr>)
      | Err e \<Rightarrow> (Err (RcarAuthFailed e), self)
      | Panic \<Rightarrow> (Panic, self))"

section \<open>Attestation\<close>

text \<open>JSON objects list their members in key order.\<close>

definition kbs_runtime_data :: "Attestation \<Rightarrow> string \<Rightarrow> json" where
  "kbs_runtime_data a n =
     JObject [(''nonce'', JString n), (''tee-pubkey'', tee_pubkey (runtime_data a))]"

definition primary_runtime_data :: "Attestation \<Rightarrow> string \<Rightarrow> json" where
  "primary_runtime_data a n =
     JObject [(''additional-evidence'', JString (additional_evidence (tee_evidence a))),
              (''nonce'', JString n), (''tee-pubkey'', tee_pubkey (runtime_data a))]"

definition collect_evidence ::
    "'v kbs_codec \<Rightarrow> Attestation \<Rightarrow> Tee \<Rightarrow> string \<Rightarrow> (string, IndependentEvidence list) outcome" where
  "collect_evidence J a tee n =
     (if n \<noteq> rt_nonce (runtime_data a)
      then Err ''the nonce in the handshake session is different from the client side in KBS protocol's Attestation message''
      else
        let primary =
              \<lparr>ev_tee = tee, ev_tee_evidence = primary_evidence (tee_evidence a),
               ev_runtime_data = primary_runtime_data a n, ev_init_data = init_data a\<rparr>
        in
        if additional_evidence (tee_evidence a) = [] then Ok [primary]
        else
          and_then (ok_or ''serde_json'' (additional_from_str J (additional_evidence (tee_evidence a))))
            (\<lambda>extra.
              Ok (primary # map (\<lambda>(t, e).
                     \<lparr>ev_tee = t, ev_tee_evidence = e, ev_runtime_data = kbs_runtime_data a n,
                      ev_init_data = None\<rparr>) extra)))"

definition token_response ::
    "'v kbs_codec \<Rightarrow> string \<Rightarrow> Cookie \<Rightarrow> (string, HttpResponse) outcome" where
  "token_response J token c =
     and_then (ok_or ''Serialize token failed'' (value_to_string J (JObject [(''token'', JString token)])))
       (\<lambda>body. Ok \<lparr>resp_status = 200, resp_cookie = Some c, content_type = Some ''application/json'',
                   resp_body = body\<rparr>)"

text \<open>After the first lookup: answered from an attested session, or evidence to verify.\<close>

datatype attest_progress = Answered HttpResponse | Verify string "IndependentEvidence list"

definition attest_check ::
    "'v kbs_codec \<Rightarrow> SessionMap \<Rightarrow> int \<Rightarrow> bytes \<Rightarrow> HttpRequest \<Rightarrow> (string, attest_progress) outcome" where
  "attest_check J m now attestation request =
     and_then (ok_or ''cookie not found'' (map_of (cookies request) KBS_SESSION_ID)) (\<lambda>sid.
     and_then (ok_or ''deserialize Attestation'' (attestation_from_slice J attestation)) (\<lambda>a.
     and_then (ok_or ''No cookie found'' (map_of m sid)) (\<lambda>session.
     if is_expired now session then Err ''session expired.''
     else
       (case session of
          Attested token _ _ \<Rightarrow> map_ok Answered (token_response J token (session_cookie session))
        | _ \<Rightarrow>
            and_then (ok_or ''Failed to serialize Attestation'' (attestation_to_string J a)) (\<lambda>_.
            and_then (session_request session) (\<lambda>req.
            and_then (session_challenge session) (\<lambda>c.
            and_then (collect_evidence J a (req_tee req) (nonce c)) (\<lambda>evs.
              Ok (Verify sid evs)))))))))"

definition attest_verify ::
    "'v kbs_codec \<Rightarrow> 'i Attest \<Rightarrow> 'i \<Rightarrow> SessionMap \<Rightarrow> string \<Rightarrow> IndependentEvidence list \<Rightarrow>
     (string, HttpResponse) outcome \<times> SessionMap" where
  "attest_verify J A i m sid evs =
     (case map_of m sid of
        None \<Rightarrow> (Err ''session not found'', m)
      | Some session \<Rightarrow>
          (case and_then (session_request session) (\<lambda>req.
                and_then (ok_or ''serde_json'' (tee_to_string J (req_tee req))) (\<lambda>_.
                and_then (map_err (\<lambda>e. ''verify TEE evidence failed'') (as_verify A i evs)) (\<lambda>token.
                let session' = attest_session token session in
                and_then (token_response J token (session_cookie session')) (\<lambda>resp.
                  Ok (resp, AList.update sid session' m))))) of
             Ok (resp, m') \<Rightarrow> (Ok resp, m')
           | Err e \<Rightarrow> (Err e, m)
           | Panic \<Rightarrow> (Panic, m)))"

definition attest ::
    "'v kbs_codec \<Rightarrow> 'i Attest \<Rightarrow> 'i AttestationService \<Rightarrow> int \<Rightarrow> bytes \<Rightarrow> HttpRequest \<Rightarrow>
     (AttestationError, HttpResponse) outcome \<times> 'i AttestationService" where
  "attest J A self now attestation request =
     (case attest_check J (session_map self) now attestation request of
        Ok (Answered resp) \<Rightarrow> (Ok resp, self)
      | Ok (Verify sid evs) \<Rightarrow>
          (let (r, m) = attest_verify J A (inner self) (session_map self) sid evs in
           (map_err RcarAttestFailed r, self\<lparr>session_map := m\<rparr>))
      | Err e \<Rightarrow> (Err (RcarAttestFailed e), self)
      | Panic \<Rightarrow> (Panic, self))"

definition get_attest_token_from_session :: "SessionMap \<Rightarrow> int \<Rightarrow> HttpRequest \<Rightarrow> (string, string) outcome" where
  "get_attest_token_from_session m now request =
     and_then (ok_or ''KBS session cookie not found'' (map_of (cookies request) KBS_SESSION_ID)) (\<lambda>sid.
     and_then (ok_or ''session not found'' (map_of m sid)) (\<lambda>session.
     if is_expired now session then Err ''The session is expired''
     else (case session of
             Attested token _ _ \<Rightarrow> Ok token
           | _ \<Rightarrow> Err ''The session is not authorized'')))"

definition register_reference_value ::
    "'i Attest \<Rightarrow> 'i AttestationService \<Rightarrow> string \<Rightarrow> (string, unit) outcome \<times> 'i AttestationService" where
  "register_reference_value A self message =
     (let (r, i) = as_register_reference_value A (inner self) message in (r, self\<lparr>inner := i\<rparr>))"

definition query_reference_value_string ::
    "'v kbs_codec \<Rightarrow> 'i Attest \<Rightarrow> 'i AttestationService \<Rightarrow> string \<Rightarrow> (string, string) outcome" where
  "query_reference_value_string J A self rid =
     and_then (as_query_reference_value A (inner self) rid) (\<lambda>rv.
       (case rv of
          Some v \<Rightarrow> ok_or ''serde_json'' (value_to_string J v)
        | None \<Rightarrow> Err (''No reference value found for the given id: '' @ rid)))"

end
