(* ===== verification/Kbs_Handshake.thy ===== *)
theory Kbs_Handshake
  imports Kbs_Backend "HOL-Library.Transitive_Closure_Table"
begin

text \<open>
  The RCAR handshake as a transition system: authentication requests, attestation requests that
  interleave between their two lookups, the clean-up task, administrative calls and the clock. The
  invariant says what a token stands for.
\<close>

section \<open>Steps\<close>

datatype attest_task =
    Checking bytes HttpRequest
  | Verifying string "IndependentEvidence list"
  | Finished "(string, HttpResponse) outcome"

text \<open>
  \<open>opened\<close> records the request and challenge each session id was opened with; the code does not keep
  it. Session ids are version 4 UUIDs and are taken never to repeat.
\<close>

record 'i kbs_state =
  svc :: "'i AttestationService"
  clock :: int
  tasks :: "nat \<Rightarrow> attest_task option"
  opened :: "string \<Rightarrow> (Request \<times> Challenge) option"

definition after_check :: "(string, attest_progress) outcome \<Rightarrow> attest_task" where
  "after_check r =
     (case r of
        Ok (Answered resp) \<Rightarrow> Finished (Ok resp)
      | Ok (Verify sid evs) \<Rightarrow> Verifying sid evs
      | Err e \<Rightarrow> Finished (Err e)
      | Panic \<Rightarrow> Finished Panic)"

inductive kbs_step :: "'v kbs_codec \<Rightarrow> 'i Attest \<Rightarrow> 'i kbs_state \<Rightarrow> 'i kbs_state \<Rightarrow> bool"
    for J :: "'v kbs_codec" and A :: "'i Attest" where
  step_auth:
    "opened s uuid = None \<Longrightarrow>
     auth_session J A (svc s) uuid (clock s) body = Ok (Authed req c uuid t) \<Longrightarrow>
     auth J A (svc s) uuid (clock s) body = (r, svc') \<Longrightarrow>
     kbs_step J A s (s\<lparr>svc := svc', opened := (opened s)(uuid \<mapsto> (req, c))\<rparr>)"
| step_start:
    "tasks s k = None \<Longrightarrow>
     kbs_step J A s (s\<lparr>tasks := (tasks s)(k \<mapsto> Checking body request)\<rparr>)"
| step_check:
    "tasks s k = Some (Checking body request) \<Longrightarrow>
     kbs_step J A s
       (s\<lparr>tasks := (tasks s)
            (k \<mapsto> after_check (attest_check J (session_map (svc s)) (clock s) body request))\<rparr>)"
| step_verify:
    "tasks s k = Some (Verifying sid evs) \<Longrightarrow>
     attest_verify J A (inner (svc s)) (session_map (svc s)) sid evs = (r, m) \<Longrightarrow>
     kbs_step J A s
       (s\<lparr>svc := (svc s)\<lparr>session_map := m\<rparr>, tasks := (tasks s)(k \<mapsto> Finished r)\<rparr>)"
| step_cleanup:
    "kbs_step J A s
       (s\<lparr>svc := (svc s)\<lparr>session_map := retain_live (clock s) (session_map (svc s))\<rparr>\<rparr>)"
| step_admin: "kbs_step J A s (s\<lparr>svc := (svc s)\<lparr>inner := i\<rparr>\<rparr>)"
| step_tick: "0 \<le> d \<Longrightarrow> kbs_step J A s (s\<lparr>clock := clock s + d\<rparr>)"

inductive_cases kbs_stepE: "kbs_step J A s s'"

definition kbs_init :: "'i AttestationService \<Rightarrow> int \<Rightarrow> 'i kbs_state" where
  "kbs_init self now =
     \<lparr>svc = self\<lparr>session_map := []\<rparr>, clock = now, tasks = (\<lambda>_. None), opened = (\<lambda>_. None)\<rparr>"

section \<open>What a token stands for\<close>

fun json_member :: "json \<Rightarrow> string \<Rightarrow> json option" where
  "json_member (JObject kvs) k = map_of kvs k"
| "json_member _ _ = None"

text \<open>Evidence of the TEE of the request, every part of it bound to the nonce of the challenge.\<close>

definition evidence_bound :: "Request \<Rightarrow> Challenge \<Rightarrow> IndependentEvidence list \<Rightarrow> bool" where
  "evidence_bound req c evs \<longleftrightarrow>
     evs \<noteq> [] \<and> ev_tee (hd evs) = req_tee req \<and>
     (\<forall>e \<in> set evs. json_member (ev_runtime_data e) ''nonce'' = Some (JString (nonce c)))"

definition token_earned :: "'i Attest \<Rightarrow> Request \<Rightarrow> Challenge \<Rightarrow> string \<Rightarrow> bool" where
  "token_earned A req c token \<longleftrightarrow> (\<exists>i evs. evidence_bound req c evs \<and> as_verify A i evs = Ok token)"

definition session_ok :: "'i Attest \<Rightarrow> (string \<Rightarrow> (Request \<times> Challenge) option) \<Rightarrow> string \<Rightarrow> SessionStatus \<Rightarrow> bool" where
  "session_ok A op sid s \<longleftrightarrow>
     session_id s = sid \<and>
     (\<exists>req c. op sid = Some (req, c) \<and>
        (case s of
           Authed req' c' _ _ \<Rightarrow> req' = req \<and> c' = c
         | Attested token _ _ \<Rightarrow> token_earned A req c token))"

definition kbs_inv :: "'i Attest \<Rightarrow> 'i kbs_state \<Rightarrow> bool" where
  "kbs_inv A s \<longleftrightarrow>
     sessions_wf (session_map (svc s)) \<and>
     (\<forall>sid st. map_of (session_map (svc s)) sid = Some st \<longrightarrow> session_ok A (opened s) sid st) \<and>
     (\<forall>k sid evs. tasks s k = Some (Verifying sid evs) \<longrightarrow>
        (\<exists>req c. opened s sid = Some (req, c) \<and> evidence_bound req c evs))"

lemma collect_evidence_bound:
  "collect_evidence J a (req_tee req) (nonce c) = Ok evs \<Longrightarrow> evidence_bound req c evs"
  by (auto simp: collect_evidence_def evidence_bound_def primary_runtime_data_def
      kbs_runtime_data_def outcome_iff Let_def split: if_splits)

lemma attest_check_VerifyE:
  assumes "attest_check J m now body request = Ok (Verify sid evs)"
  obtains req c i t where "map_of (cookies request) KBS_SESSION_ID = Some sid"
    "map_of m sid = Some (Authed req c i t)" "\<not> is_expired now (Authed req c i t)"
    "evidence_bound req c evs"
  using assms
  by (auto simp: attest_check_def outcome_iff split: if_splits SessionStatus.splits
      dest: collect_evidence_bound)

lemma attest_verify_cases:
  assumes "attest_verify J A i m sid evs = (r, m')"
  obtains (unchanged) "m' = m" "\<And>resp. r \<noteq> Ok resp"
  | (attested) req c j t token resp where "map_of m sid = Some (Authed req c j t)"
      "as_verify A i evs = Ok token" "m' = AList.update sid (Attested token j t) m" "r = Ok resp"
proof (cases "map_of m sid")
  case None
  with assms unchanged show thesis by (auto simp: attest_verify_def)
next
  case (Some st)
  show thesis
  proof (cases st)
    case (Authed req c j t)
    with Some assms unchanged attested show thesis
      by (auto simp: attest_verify_def outcome_iff Let_def split: outcome.splits)
  next
    case (Attested tk j t)
    with Some assms unchanged show thesis by (auto simp: attest_verify_def)
  qed
qed

lemma auth_SessionE:
  assumes "auth_session J A self uuid now body = Ok (Authed req c uuid t)"
    and "auth J A self uuid now body = (r, self')"
  shows "self' = self\<lparr>session_map := SessionMap_insert (Authed req c uuid t) (session_map self)\<rparr>"
  using assms by (simp add: auth_def)

lemma kbs_inv_init: "kbs_inv A (kbs_init self now)"
  by (simp add: kbs_inv_def kbs_init_def sessions_wf_def)

lemma kbs_invI:
  assumes "sessions_wf (session_map (svc s))"
    and "\<And>sid st. map_of (session_map (svc s)) sid = Some st \<Longrightarrow> session_ok A (opened s) sid st"
    and "\<And>k sid evs. tasks s k = Some (Verifying sid evs) \<Longrightarrow>
      \<exists>req c. opened s sid = Some (req, c) \<and> evidence_bound req c evs"
  shows "kbs_inv A s"
  using assms by (simp add: kbs_inv_def)

lemma kbs_invD:
  assumes "kbs_inv A s"
  shows "sessions_wf (session_map (svc s))"
    and "map_of (session_map (svc s)) sid = Some st \<Longrightarrow> session_ok A (opened s) sid st"
    and "tasks s k = Some (Verifying sid evs) \<Longrightarrow>
      \<exists>req c. opened s sid = Some (req, c) \<and> evidence_bound req c evs"
  using assms by (simp_all add: kbs_inv_def)

lemma session_ok_extend:
  "session_ok A op sid st \<Longrightarrow> op u = None \<Longrightarrow> session_ok A (op(u \<mapsto> x)) sid st"
  by (auto simp: session_ok_def)

lemma inv_auth:
  assumes "kbs_inv A s" and "opened s uuid = None"
  shows "kbs_inv A (s\<lparr>svc := (svc s)\<lparr>session_map :=
      SessionMap_insert (Authed req c uuid t) (session_map (svc s))\<rparr>,
    opened := (opened s)(uuid \<mapsto> (req, c))\<rparr>)"
proof (rule kbs_invI, goal_cases)
  case 1
  then show ?case using kbs_invD(1) [OF assms(1)] by (simp add: wf_insert)
next
  case (2 sid st)
  show ?case
  proof (cases "map_of (session_map (svc s)) sid = Some st")
    case True
    then show ?thesis
      using session_ok_extend [OF kbs_invD(2) [OF assms(1) True] assms(2)] by simp
  next
    case False
    with 2 have "sid = uuid" "st = Authed req c uuid t"
      by (auto simp: SessionMap_insert_def update_conv' split: if_splits)
    then show ?thesis by (simp add: session_ok_def)
  qed
next
  case (3 k sid evs)
  then have "tasks s k = Some (Verifying sid evs)" by simp
  from kbs_invD(3) [OF assms(1) this] assms(2) show ?case by auto
qed

lemma inv_tasks:
  assumes "kbs_inv A s"
    and "\<And>sid evs. x = Verifying sid evs \<Longrightarrow>
      \<exists>req c. opened s sid = Some (req, c) \<and> evidence_bound req c evs"
  shows "kbs_inv A (s\<lparr>tasks := (tasks s)(k \<mapsto> x)\<rparr>)"
  using assms by (auto simp: kbs_inv_def)

lemma after_check_Verifying:
  "after_check r = Verifying sid evs \<longleftrightarrow> r = Ok (Verify sid evs)"
  by (auto simp: after_check_def split: outcome.splits attest_progress.splits)

lemma inv_check:
  assumes "kbs_inv A s"
  shows "kbs_inv A (s\<lparr>tasks := (tasks s)
    (k \<mapsto> after_check (attest_check J (session_map (svc s)) now body request))\<rparr>)"
proof (rule inv_tasks [OF assms])
  fix sid evs
  assume "after_check (attest_check J (session_map (svc s)) now body request) = Verifying sid evs"
  then obtain req c i t where "map_of (session_map (svc s)) sid = Some (Authed req c i t)"
    "evidence_bound req c evs"
    unfolding after_check_Verifying by (rule attest_check_VerifyE)
  then show "\<exists>req c. opened s sid = Some (req, c) \<and> evidence_bound req c evs"
    using kbs_invD(2) [OF assms] by (fastforce simp: session_ok_def)
qed

lemma inv_verify:
  assumes inv: "kbs_inv A s" and task: "tasks s k = Some (Verifying sid evs)"
    and v: "attest_verify J A (inner (svc s)) (session_map (svc s)) sid evs = (r, m)"
  shows "kbs_inv A (s\<lparr>svc := (svc s)\<lparr>session_map := m\<rparr>, tasks := (tasks s)(k \<mapsto> Finished r)\<rparr>)"
  using v
proof (cases rule: attest_verify_cases)
  case unchanged
  then have "s\<lparr>svc := (svc s)\<lparr>session_map := m\<rparr>\<rparr> = s" by simp
  then show ?thesis using inv_tasks [OF inv, of "Finished r" k] unchanged by simp
next
  case (attested req c j t token resp)
  have ok: "session_ok A (opened s) sid (Authed req c j t)"
    using kbs_invD(2) [OF inv attested(1)] .
  then have op: "opened s sid = Some (req, c)" "j = sid" by (auto simp: session_ok_def)
  have "evidence_bound req c evs" using kbs_invD(3) [OF inv task] op by auto
  then have "token_earned A req c token" using attested(2) by (auto simp: token_earned_def)
  then have new: "session_ok A (opened s) sid (Attested token j t)"
    using op by (simp add: session_ok_def)
  show ?thesis
  proof (rule kbs_invI, goal_cases)
    case 1
    then show ?case using kbs_invD(1) [OF inv] op attested(3) by (simp add: wf_update)
  next
    case (2 sid' st)
    then show ?case
      using new kbs_invD(2) [OF inv] attested(3) by (auto simp: update_conv' split: if_splits)
  next
    case (3 k' sid' evs')
    then have "tasks s k' = Some (Verifying sid' evs')" by (auto split: if_splits)
    from kbs_invD(3) [OF inv this] show ?case by simp
  qed
qed

lemma inv_cleanup:
  assumes "kbs_inv A s"
  shows "kbs_inv A (s\<lparr>svc := (svc s)\<lparr>session_map := retain_live (clock s) (session_map (svc s))\<rparr>\<rparr>)"
  using assms kbs_invD(1) [OF assms]
  by (auto simp: kbs_inv_def wf_retain map_of_retain split: option.splits if_splits)

lemma kbs_step_inv: "kbs_step J A s s' \<Longrightarrow> kbs_inv A s \<Longrightarrow> kbs_inv A s'"
proof (induction rule: kbs_step.induct)
  case (step_auth s uuid body req c t r svc')
  then show ?case using inv_auth [of A s uuid req c t] auth_SessionE [OF step_auth(2,3)] by simp
next
  case (step_start s k body request)
  then show ?case by (auto intro: inv_tasks)
next
  case (step_check s k body request)
  then show ?case by (auto intro: inv_check)
next
  case (step_verify s k sid evs r m)
  then show ?case by (auto intro: inv_verify)
next
  case (step_cleanup s)
  then show ?case by (rule inv_cleanup)
next
  case (step_admin s i)
  then show ?case by (simp add: kbs_inv_def)
next
  case (step_tick d s)
  then show ?case by (simp add: kbs_inv_def)
qed

lemma kbs_reachable_inv: "(kbs_step J A)\<^sup>*\<^sup>* (kbs_init self now) s \<Longrightarrow> kbs_inv A s"
  by (induction rule: rtranclp_induct) (auto intro: kbs_inv_init kbs_step_inv)

end
