(* ===== verification/Kbs_Properties.thy ===== *)
theory Kbs_Properties
  imports Kbs_Handshake
begin

text \<open>
  What the handshake promises: a token is released only for an unexpired session whose evidence was
  verified against the challenge it was opened with, failures change nothing, and what concurrent
  attestation requests of one session can do.
\<close>

section \<open>A sample deployment\<close>

text \<open>A codec and an attestation service for the witnesses: one request, one attestation.\<close>

definition sample_attestation :: Attestation where
  "sample_attestation =
     \<lparr>init_data = None, runtime_data = \<lparr>rt_nonce = ''n'', tee_pubkey = JNull\<rparr>,
      tee_evidence = \<lparr>primary_evidence = JString ''quote'', additional_evidence = []\<rparr>\<rparr>"

definition sample_request :: Request where
  "sample_request = \<lparr>req_version = ''0.4.0'', req_tee = ''sample'', extra_params = JNull\<rparr>"

definition sample_kbs :: "string kbs_codec" where
  "sample_kbs =
     \<lparr>request_from_slice = (\<lambda>_. Some sample_request), version_parse = Some,
      version_req_matches = (\<lambda>v. v = ''0.4.0''),
      attestation_from_slice = (\<lambda>_. Some sample_attestation), attestation_to_string = (\<lambda>_. Some []),
      additional_from_str = (\<lambda>_. None), tee_to_string = Some,
      value_to_string = (\<lambda>v. case json_member v ''token'' of Some (JString t) \<Rightarrow> Some t | _ \<Rightarrow> Some []),
      set_policy_from_slice = (\<lambda>_. None)\<rparr>"

definition sample_challenge :: Challenge where
  "sample_challenge = \<lparr>nonce = ''n'', challenge_params = JString []\<rparr>"

definition sample_attest :: "unit Attest" where
  "sample_attest =
     \<lparr>as_set_policy = (\<lambda>i _ _. (Ok (), i)), as_verify = (\<lambda>i evs. Ok ''token''),
      as_generate_challenge = (\<lambda>i _ _. Ok sample_challenge),
      as_register_reference_value = (\<lambda>i _. (Ok (), i)),
      as_query_reference_value = (\<lambda>i _. Ok None)\<rparr>"

definition sample_http :: HttpRequest where
  "sample_http = \<lparr>cookies = [(KBS_SESSION_ID, ''u'')], bearer = None, req_method = ''POST''\<rparr>"

abbreviation sample_authed :: SessionStatus where
  "sample_authed \<equiv> Authed sample_request sample_challenge ''u'' 300"

definition sample_service :: "unit AttestationService" where
  "sample_service = \<lparr>inner = (), session_map = [(''u'', sample_authed)], timeout = 5\<rparr>"

abbreviation sample_evidence :: "IndependentEvidence list" where
  "sample_evidence \<equiv>
     [\<lparr>ev_tee = ''sample'', ev_tee_evidence = JString ''quote'',
       ev_runtime_data = primary_runtime_data sample_attestation ''n'', ev_init_data = None\<rparr>]"

abbreviation sample_response :: HttpResponse where
  "sample_response \<equiv>
     \<lparr>resp_status = 200, resp_cookie = Some (session_cookie (Attested ''token'' ''u'' 300)),
      content_type = Some ''application/json'', resp_body = ''token''\<rparr>"

lemma sample_check:
  "attest_check sample_kbs [(''u'', sample_authed)] 0 [] sample_http = Ok (Verify ''u'' sample_evidence)"
  by (simp add: attest_check_def sample_kbs_def sample_http_def KBS_SESSION_ID_def is_expired_def
      collect_evidence_def sample_attestation_def sample_request_def sample_challenge_def)

lemma sample_token_response:
  "token_response sample_kbs t c =
     Ok \<lparr>resp_status = 200, resp_cookie = Some c, content_type = Some ''application/json'', resp_body = t\<rparr>"
  by (simp add: token_response_def sample_kbs_def)

lemma sample_verify_with:
  assumes "as_verify A i evs = Ok ''token''"
  shows "attest_verify sample_kbs A i [(''u'', sample_authed)] ''u'' evs =
     (Ok sample_response, [(''u'', Attested ''token'' ''u'' 300)])"
  using assms by (simp add: attest_verify_def sample_token_response session_cookie_def Let_def)
    (simp add: sample_kbs_def)

lemma sample_verify:
  "attest_verify sample_kbs sample_attest () [(''u'', sample_authed)] ''u'' evs =
     (Ok sample_response, [(''u'', Attested ''token'' ''u'' 300)])"
  by (rule sample_verify_with) (simp add: sample_attest_def)

section \<open>Tokens\<close>

text \<open>
  C2. In every interleaving of requests, the session cookie yields a token only when its session was
  opened by an authentication request, has not expired, and the attestation service accepted evidence
  of the TEE named in that request, every part of it bound to that session's own nonce.
\<close>

theorem session_token_earned:
  assumes "(kbs_step J A)\<^sup>*\<^sup>* (kbs_init self now) s"
    and "get_attest_token_from_session (session_map (svc s)) (clock s) request = Ok token"
  shows "\<exists>sid req c st. map_of (cookies request) KBS_SESSION_ID = Some sid \<and>
    opened s sid = Some (req, c) \<and> map_of (session_map (svc s)) sid = Some st \<and>
    \<not> is_expired (clock s) st \<and> token_earned A req c token"
proof -
  from assms(2) obtain sid j t where st: "map_of (cookies request) KBS_SESSION_ID = Some sid"
    "map_of (session_map (svc s)) sid = Some (Attested token j t)"
    "\<not> is_expired (clock s) (Attested token j t)"
    by (auto simp: get_attest_token_from_session_def outcome_iff
        split: if_splits SessionStatus.splits)
  have "session_ok A (opened s) sid (Attested token j t)"
    using kbs_invD(2) [OF kbs_reachable_inv [OF assms(1)] st(2)] .
  then show ?thesis using st by (auto simp: session_ok_def)
qed

text \<open>The states of a complete handshake with a service \<open>A\<close> that gives the sample challenge and token.\<close>

definition handshake_state :: "'i \<Rightarrow> (string \<times> SessionStatus) list \<Rightarrow> attest_task option \<Rightarrow> 'i kbs_state" where
  "handshake_state i m x =
     \<lparr>svc = \<lparr>inner = i, session_map = m, timeout = 5\<rparr>, clock = 0, tasks = (\<lambda>_. None)(0 := x),
      opened = (\<lambda>_. None)(''u'' \<mapsto> (sample_request, sample_challenge))\<rparr>"

abbreviation sample_state :: "(string \<times> SessionStatus) list \<Rightarrow> attest_task option \<Rightarrow> unit kbs_state" where
  "sample_state \<equiv> handshake_state ()"

text \<open>It goes through authentication, the start of the request, its check and the verification.\<close>

lemma handshake_steps:
  assumes "as_generate_challenge A i ''sample'' JNull = Ok sample_challenge"
    and "as_verify A i sample_evidence = Ok ''token''"
  shows "kbs_step sample_kbs A (kbs_init \<lparr>inner = i, session_map = m, timeout = 5\<rparr> 0)
      (handshake_state i [(''u'', sample_authed)] None)"
    and "kbs_step sample_kbs A (handshake_state i [(''u'', sample_authed)] None)
      (handshake_state i [(''u'', sample_authed)] (Some (Checking [] sample_http)))"
    and "kbs_step sample_kbs A (handshake_state i [(''u'', sample_authed)] (Some (Checking [] sample_http)))
      (handshake_state i [(''u'', sample_authed)] (Some (Verifying ''u'' sample_evidence)))"
    and "kbs_step sample_kbs A (handshake_state i [(''u'', sample_authed)] (Some (Verifying ''u'' sample_evidence)))
      (handshake_state i [(''u'', Attested ''token'' ''u'' 300)] (Some (Finished (Ok sample_response))))"
proof -
  let ?step = "kbs_step sample_kbs A" and ?svc = "\<lparr>inner = i, session_map = [], timeout = 5\<rparr>"
  let ?init = "kbs_init \<lparr>inner = i, session_map = m, timeout = 5\<rparr> 0"
  let ?m = "[(''u'', sample_authed)]"
  have au: "auth_session sample_kbs A ?svc ''u'' 0 [] = Ok sample_authed"
    using assms(1) by (simp add: auth_session_def sample_kbs_def sample_request_def SessionStatus_auth_def)
  then have "auth sample_kbs A ?svc ''u'' 0 [] =
      (Ok (session_cookie sample_authed, challenge_json sample_challenge), ?svc\<lparr>session_map := ?m\<rparr>)"
    by (simp add: auth_def SessionMap_insert_def)
  then show "?step ?init (handshake_state i ?m None)"
    using step_auth [of ?init "''u''" sample_kbs A "[]"] au
    by (simp add: kbs_init_def handshake_state_def)
  show "?step (handshake_state i ?m None) (handshake_state i ?m (Some (Checking [] sample_http)))"
    using step_start [of "handshake_state i ?m None" 0 sample_kbs A "[]" sample_http]
    by (simp add: handshake_state_def)
  show "?step (handshake_state i ?m (Some (Checking [] sample_http)))
      (handshake_state i ?m (Some (Verifying ''u'' sample_evidence)))"
    using step_check [of "handshake_state i ?m (Some (Checking [] sample_http))" 0 "[]" sample_http
        sample_kbs A] sample_check
    by (simp add: handshake_state_def after_check_def)
  show "?step (handshake_state i ?m (Some (Verifying ''u'' sample_evidence)))
      (handshake_state i [(''u'', Attested ''token'' ''u'' 300)] (Some (Finished (Ok sample_response))))"
    using step_verify [of "handshake_state i ?m (Some (Verifying ''u'' sample_evidence))" 0 "''u''"
        sample_evidence sample_kbs A] sample_verify_with [OF assms(2)]
    by (simp add: handshake_state_def)
qed

lemma handshake_reachable:
  assumes "as_generate_challenge A i ''sample'' JNull = Ok sample_challenge"
    and "as_verify A i sample_evidence = Ok ''token''"
  shows "(kbs_step sample_kbs A)\<^sup>*\<^sup>* (kbs_init \<lparr>inner = i, session_map = m, timeout = 5\<rparr> 0)
     (handshake_state i [(''u'', Attested ''token'' ''u'' 300)] (Some (Finished (Ok sample_response))))"
  using handshake_steps [OF assms] by (meson converse_rtranclp_into_rtranclp rtranclp.rtrancl_refl)

lemma sample_handshake:
  "(kbs_step sample_kbs sample_attest)\<^sup>*\<^sup>* (kbs_init sample_service 0)
     (sample_state [(''u'', Attested ''token'' ''u'' 300)] (Some (Finished (Ok sample_response))))"
  unfolding sample_service_def by (rule handshake_reachable) (simp_all add: sample_attest_def)

theorem session_token_earned_witness:
  "\<exists>req c. token_earned sample_attest req c ''token''"
  using session_token_earned [OF sample_handshake, of sample_http "''token''"]
  by (auto simp: handshake_state_def get_attest_token_from_session_def sample_http_def is_expired_def)

text \<open>
  C26. Once a session is attested, no step replaces its token or reverts it: it stays as it is until
  the clean-up task removes it after its timeout.
\<close>

theorem attested_session_stable:
  assumes "kbs_step J A s s'" and "sessions_wf (session_map (svc s))"
    and "map_of (session_map (svc s)) sid = Some (Attested token j t)"
  shows "map_of (session_map (svc s')) sid = Some (Attested token j t) \<or>
    map_of (session_map (svc s')) sid = None \<and> t < clock s"
  using assms
proof (induction rule: kbs_step.induct)
  case (step_auth s uuid body req c t r svc')
  then show ?case
    using auth_SessionE [OF step_auth(2,3)]
    by (auto simp: SessionMap_insert_def update_conv' split: if_splits)
next
  case (step_verify s k sid' evs r m)
  from step_verify(2) show ?case
    using step_verify(4) by (cases rule: attest_verify_cases) (auto simp: update_conv')
next
  case (step_cleanup s)
  then show ?case by (auto simp: map_of_retain is_expired_def)
qed auto

theorem attested_session_stable_witness:
  "map_of (session_map (svc (sample_state [(''u'', Attested ''token'' ''u'' 300)] None\<lparr>clock := 5\<rparr>))) ''u'' =
     Some (Attested ''token'' ''u'' 300)"
proof -
  let ?s = "sample_state [(''u'', Attested ''token'' ''u'' 300)] None"
  have "kbs_step sample_kbs sample_attest ?s (?s\<lparr>clock := clock ?s + 5\<rparr>)"
    by (rule step_tick) simp
  moreover have "sessions_wf (session_map (svc ?s))" by (simp add: handshake_state_def sessions_wf_def)
  moreover have "map_of (session_map (svc ?s)) ''u'' = Some (Attested ''token'' ''u'' 300)"
    by (simp add: handshake_state_def)
  ultimately show ?thesis
    using attested_session_stable [of sample_kbs sample_attest ?s _ "''u''" "''token''" "''u''" 300]
    by (fastforce simp: handshake_state_def)
qed

section \<open>One request at a time\<close>



text \<open>
  After a successful attestation, repeating the request until the timeout returns the same token
  without consulting the attestation service again, whatever that service would now say.
\<close>

theorem attest_idempotent:
  assumes "attest J A self now body request = (Ok resp, self')"
    and "map_of (cookies request) KBS_SESSION_ID = Some sid"
    and "map_of (session_map self) sid = Some st" and "now' \<le> session_timeout st"
    and "attestation_from_slice J body' \<noteq> None"
  shows "attest J A' self' now' body' request = (Ok resp, self')"
proof -
  have "\<exists>token j. map_of (session_map self') sid = Some (Attested token j (session_timeout st)) \<and>
      token_response J token (session_cookie (Attested token j (session_timeout st))) = Ok resp"
  proof (cases "attest_check J (session_map self) now body request")
    case (Ok p)
    show ?thesis
    proof (cases p)
      case (Answered r)
      with Ok assms(1-3) show ?thesis
        by (auto simp: attest_def attest_check_def outcome_iff split: if_splits SessionStatus.splits)
    next
      case (Verify sid' evs)
      with Ok assms(2) have "sid' = sid" by (auto elim: attest_check_VerifyE)
      with Ok Verify assms(1,3) show ?thesis
        by (cases st) (auto simp: attest_def attest_verify_def outcome_iff Let_def update_conv'
            split: prod.splits outcome.splits)
    qed
  qed (use assms(1) in \<open>simp_all add: attest_def\<close>)
  then show ?thesis
    using assms(2,4,5) by (auto simp: attest_def attest_check_def is_expired_def)
qed

lemma sample_attest_ok:
  "attest sample_kbs sample_attest sample_service 0 [] sample_http =
     (Ok sample_response, sample_service\<lparr>session_map := [(''u'', Attested ''token'' ''u'' 300)]\<rparr>)"
  using sample_check sample_verify by (simp add: attest_def sample_service_def)

theorem attest_idempotent_witness:
  "attest sample_kbs (sample_attest\<lparr>as_verify := (\<lambda>i evs. Err ''bad quote'')\<rparr>)
     (sample_service\<lparr>session_map := [(''u'', Attested ''token'' ''u'' 300)]\<rparr>) 299 [] sample_http =
     (Ok sample_response, sample_service\<lparr>session_map := [(''u'', Attested ''token'' ''u'' 300)]\<rparr>)"
  using attest_idempotent [OF sample_attest_ok, of "''u''" sample_authed 299 "[]"]
  by (simp add: sample_http_def sample_service_def sample_kbs_def)

section \<open>Concurrent requests\<close>

text \<open>
  Two attestation requests of one session that both pass the first lookup before either verifies:
  when the first succeeds, the second panics, since the session it looks up again is attested and has
  no request any more.
\<close>

theorem concurrent_attest_panics:
  assumes "k \<noteq> l" and "tasks s k = Some (Checking body request)"
    and "tasks s l = Some (Checking body' request')"
    and "attest_check J (session_map (svc s)) (clock s) body request = Ok (Verify sid evs)"
    and "attest_check J (session_map (svc s)) (clock s) body' request' = Ok (Verify sid evs')"
    and "attest_verify J A (inner (svc s)) (session_map (svc s)) sid evs = (Ok resp, m)"
  shows "\<exists>s'. (kbs_step J A)\<^sup>*\<^sup>* s s' \<and> tasks s' k = Some (Finished (Ok resp)) \<and>
    tasks s' l = Some (Finished Panic)"
proof -
  let ?a = "s\<lparr>tasks := (tasks s)(k \<mapsto> Verifying sid evs)\<rparr>"
  let ?b = "?a\<lparr>tasks := (tasks ?a)(l \<mapsto> Verifying sid evs')\<rparr>"
  let ?c = "?b\<lparr>svc := (svc ?b)\<lparr>session_map := m\<rparr>, tasks := (tasks ?b)(k \<mapsto> Finished (Ok resp))\<rparr>"
  let ?d = "?c\<lparr>svc := (svc ?c)\<lparr>session_map := m\<rparr>, tasks := (tasks ?c)(l \<mapsto> Finished Panic)\<rparr>"
  have "kbs_step J A s ?a"
    using step_check [OF assms(2), of J A] assms(4) by (simp add: after_check_def)
  moreover have "kbs_step J A ?a ?b"
    using step_check [of ?a l body' request' J A] assms(1,3,5) by (simp add: after_check_def)
  moreover have "kbs_step J A ?b ?c"
    using assms(1,6) by (intro step_verify [of ?b k sid evs]) simp_all
  moreover have "attest_verify J A (inner (svc s)) m sid evs' = (Panic, m)"
    using assms(6)
  proof (cases rule: attest_verify_cases)
    case (attested req c j t token r)
    then show ?thesis by (simp add: attest_verify_def update_conv')
  qed blast
  then have "kbs_step J A ?c ?d"
    using assms(1) by (intro step_verify [of ?c l sid evs']) simp_all
  ultimately have "(kbs_step J A)\<^sup>*\<^sup>* s ?d"
    by (meson converse_rtranclp_into_rtranclp rtranclp.rtrancl_refl)
  then show ?thesis using assms(1) by (intro exI [of _ ?d]) simp
qed

theorem concurrent_attest_panics_witness:
  "\<exists>s'. (kbs_step sample_kbs sample_attest)\<^sup>*\<^sup>*
      \<lparr>svc = sample_service, clock = 0, tasks = (\<lambda>_. Some (Checking [] sample_http)),
       opened = (\<lambda>_. None)(''u'' \<mapsto> (sample_request, sample_challenge))\<rparr> s' \<and>
    tasks s' 1 = Some (Finished Panic)"
  using concurrent_attest_panics [of 0 1 "\<lparr>svc = sample_service, clock = 0,
      tasks = (\<lambda>_. Some (Checking [] sample_http)),
      opened = (\<lambda>_. None)(''u'' \<mapsto> (sample_request, sample_challenge))\<rparr>" "[]" sample_http "[]" sample_http
      sample_kbs "''u''" sample_evidence sample_evidence sample_attest] sample_check sample_verify
  by (auto simp: sample_service_def)

section \<open>Opening a session\<close>



end
