(* ===== verification/Kbs_Access.thy ===== *)
theory Kbs_Access
  imports Kbs_Backend Policy_Engine
begin

text \<open>
  Who may do what in the Key Broker Service: the administrator backends (\<^verbatim>\<open>kbs/src/admin\<close>), the
  resource policy (\<^verbatim>\<open>kbs/src/policy_engine\<close>) and the verification of attestation tokens
  (\<^verbatim>\<open>kbs/src/token\<close>). The packages behind them (\<^verbatim>\<open>jwt_simple\<close>, \<^verbatim>\<open>regorus\<close>, \<^verbatim>\<open>base64\<close>,
  \<^verbatim>\<open>jsonwebtoken\<close>, \<^verbatim>\<open>openssl\<close>, \<^verbatim>\<open>reqwest\<close>) are parameters. Log output is left out.
\<close>

section \<open>Administrators\<close>

datatype AdminError =
    AdminAccessDenied
  | AdminEndpointsDisabled
  | NoPublicKeyGiven
  | ParsePublicKey string
  | ParseAuthHeaderFailed
  | ReadPublicKey io_error

record SimplePersonaConfig =
  config_id :: string
  public_key_path :: string

type_synonym SimpleAdminConfig = "SimplePersonaConfig list"

record 'k SimplePersona =
  persona_id :: string
  public_key :: 'k

text \<open>\<^verbatim>\<open>jwt_simple\<close>: Ed25519 keys and the verification of a token at a time.\<close>

record 'k jwt_simple =
  key_from_pem :: "string \<Rightarrow> (string, 'k) outcome"
  verify_token :: "'k \<Rightarrow> int \<Rightarrow> string \<Rightarrow> (string, unit) outcome"

text \<open>\<^verbatim>\<open>fs::read_to_string\<close> fails on a file that is not UTF-8.\<close>

definition read_to_string :: "io_env \<Rightarrow> fs \<Rightarrow> path \<Rightarrow> (io_error, string) outcome" where
  "read_to_string io f p = and_then (read_file io f p) (\<lambda>b. ok_or IoInvalidData (from_utf8 b))"

fun SimpleAdminBackend_new ::
    "'k jwt_simple \<Rightarrow> io_env \<Rightarrow> fs \<Rightarrow> SimpleAdminConfig \<Rightarrow> (AdminError, 'k SimplePersona list) outcome" where
  "SimpleAdminBackend_new K io f [] = Ok []"
| "SimpleAdminBackend_new K io f (c # cs) =
     and_then (map_err ReadPublicKey (read_to_string io f (path_of (public_key_path c)))) (\<lambda>pem.
     and_then (map_err ParsePublicKey (key_from_pem K pem)) (\<lambda>k.
     and_then (SimpleAdminBackend_new K io f cs) (\<lambda>personas.
       Ok (\<lparr>persona_id = config_id c, public_key = k\<rparr> # personas))))"

text \<open>The loop over the personas stops at the first key that verifies the token.\<close>

fun personas_loop :: "'k jwt_simple \<Rightarrow> int \<Rightarrow> string \<Rightarrow> 'k SimplePersona list \<Rightarrow> (AdminError, bool) outcome" where
  "personas_loop K now token [] = Ok False"
| "personas_loop K now token (p # ps) =
     (case verify_token K (public_key p) now token of
        Ok _ \<Rightarrow> Ok True
      | Err e \<Rightarrow> personas_loop K now token ps
      | Panic \<Rightarrow> Panic)"

definition simple_validate ::
    "'k jwt_simple \<Rightarrow> 'k SimplePersona list \<Rightarrow> int \<Rightarrow> HttpRequest \<Rightarrow> (AdminError, unit) outcome" where
  "simple_validate K personas now request =
     and_then (ok_or ParseAuthHeaderFailed (bearer request)) (\<lambda>token.
     and_then (personas_loop K now token personas) (\<lambda>token_validated.
       if \<not> token_validated then Err AdminAccessDenied else Ok ()))"

definition allow_all_validate :: "HttpRequest \<Rightarrow> (AdminError, unit) outcome" where
  "allow_all_validate request = Ok ()"

definition deny_all_validate :: "HttpRequest \<Rightarrow> (AdminError, unit) outcome" where
  "deny_all_validate request = Err AdminEndpointsDisabled"

datatype AdminBackendType = Simple SimpleAdminConfig | InsecureAllowAll | DenyAll

definition AdminBackendType_default :: AdminBackendType where
  "AdminBackendType_default = Simple []"

text \<open>The implementations of \<^verbatim>\<open>dyn AdminBackend\<close>.\<close>

datatype 'k Admin =
    SimpleAdminBackend "'k SimplePersona list"
  | InsecureAllowAllBackend
  | DenyAllBackend

definition Admin_try_from ::
    "'k jwt_simple \<Rightarrow> io_env \<Rightarrow> fs \<Rightarrow> AdminBackendType \<Rightarrow> (AdminError, 'k Admin) outcome" where
  "Admin_try_from K io f t =
     (case t of
        InsecureAllowAll \<Rightarrow> Ok InsecureAllowAllBackend
      | Simple config \<Rightarrow> map_ok SimpleAdminBackend (SimpleAdminBackend_new K io f config)
      | DenyAll \<Rightarrow> Ok DenyAllBackend)"

definition validate_admin_token ::
    "'k jwt_simple \<Rightarrow> 'k Admin \<Rightarrow> int \<Rightarrow> HttpRequest \<Rightarrow> (AdminError, unit) outcome" where
  "validate_admin_token K self now request =
     (case self of
        SimpleAdminBackend personas \<Rightarrow> simple_validate K personas now request
      | InsecureAllowAllBackend \<Rightarrow> allow_all_validate request
      | DenyAllBackend \<Rightarrow> deny_all_validate request)"

section \<open>The resource policy\<close>

datatype KbsPolicyEngineError =
    EvaluationError string
  | DataLoadError
  | ResourcePathError
  | IOError io_error
  | DecodeError
  | InputError
  | PolicyLoadError
  | IllegalSetPolicyRequest string
  | InvalidPolicy string

text \<open>
  What the engine uses of \<^verbatim>\<open>regorus\<close> beyond \<open>Policy_Engine\<close>, of \<^verbatim>\<open>base64\<close> (URL-safe, no padding) and
  of \<^verbatim>\<open>serde_json\<close>.
\<close>

record ('e, 'v) opa_regorus = "('e, 'v) regorus" +
  rego_add_policy_from_file :: "'e \<Rightarrow> fs \<Rightarrow> path \<Rightarrow> (string, 'e) outcome"
  rego_eval_bool_query :: "'e \<Rightarrow> string \<Rightarrow> bool \<Rightarrow> (string, bool) outcome"

record encodings =
  b64_encode :: "bytes \<Rightarrow> string"
  b64_decode :: "string \<Rightarrow> bytes option"
  json_from_slice :: "bytes \<Rightarrow> json option"
  json_pointer :: "json \<Rightarrow> string \<Rightarrow> json option"

definition DEFAULT_POLICY_PATH :: string where
  "DEFAULT_POLICY_PATH = ''/opt/confidential-containers/kbs/policy.rego''"

record Opa =
  policy_path :: path

text \<open>\<open>default_policy\<close> is the text of the included file \<^verbatim>\<open>default_policy.rego\<close>.\<close>

definition Opa_new ::
    "string \<Rightarrow> io_env \<Rightarrow> fs \<Rightarrow> string \<Rightarrow> (KbsPolicyEngineError, Opa) outcome \<times> fs" where
  "Opa_new default_policy io f p =
     (case parent p of
        None \<Rightarrow> (Panic, f)
      | Some dir \<Rightarrow>
          (let (r1, f1) = create_dir_all io f dir;
               (r2, f2) =
                 (case r1 of
                    Ok _ \<Rightarrow>
                      if \<not> exists_path f1 (path_of p)
                      then write_file io f1 (path_of p) (bytes_of default_policy) else (Ok (), f1)
                  | _ \<Rightarrow> (r1, f1))
           in (and_then (map_err IOError r2) (\<lambda>_. Ok \<lparr>policy_path = path_of p\<rparr>), f2)))"

definition opa_evaluate ::
    "('e, 'v, 'm) opa_regorus_scheme \<Rightarrow> Opa \<Rightarrow> fs \<Rightarrow> string \<Rightarrow> string \<Rightarrow> (KbsPolicyEngineError, bool) outcome" where
  "opa_evaluate R self f data input_claims =
     and_then (map_err (\<lambda>_. PolicyLoadError) (rego_add_policy_from_file R (rego_new R) f (policy_path self)))
       (\<lambda>engine.
     and_then (map_err EvaluationError (rego_value_from_json R data)) (\<lambda>resource_path_object.
     and_then (map_err (\<lambda>_. DataLoadError) (rego_add_data R engine resource_path_object)) (\<lambda>engine.
     and_then (map_err (\<lambda>_. InputError) (rego_set_input R engine input_claims)) (\<lambda>engine.
       map_err EvaluationError (rego_eval_bool_query R engine ''data.policy.allow'' False)))))"

definition opa_set_policy ::
    "('e, 'v, 'm) opa_regorus_scheme \<Rightarrow> encodings \<Rightarrow> io_env \<Rightarrow> Opa \<Rightarrow> fs \<Rightarrow> string \<Rightarrow>
     (KbsPolicyEngineError, unit) outcome \<times> fs" where
  "opa_set_policy R C io self f policy =
     (case and_then (ok_or DecodeError (b64_decode C policy)) (\<lambda>policy_bytes.
           and_then (ok_or (InvalidPolicy ''utf-8'') (from_utf8 policy_bytes)) (\<lambda>policy_content.
           and_then (map_err InvalidPolicy (rego_add_policy R (rego_new R) ''default'' policy_content)) (\<lambda>_.
             Ok policy_bytes))) of
        Ok policy_bytes \<Rightarrow>
          (let (r, f') = write_file io f (policy_path self) policy_bytes in (map_err IOError r, f'))
      | Err e \<Rightarrow> (Err e, f)
      | Panic \<Rightarrow> (Panic, f))"

definition opa_get_policy ::
    "encodings \<Rightarrow> io_env \<Rightarrow> Opa \<Rightarrow> fs \<Rightarrow> (KbsPolicyEngineError, string) outcome" where
  "opa_get_policy C io self f =
     and_then (map_err IOError (read_file io f (policy_path self))) (\<lambda>policy. Ok (b64_encode C policy))"

definition as_str :: "json \<Rightarrow> string option" where
  "as_str v = (case v of JString s \<Rightarrow> Some s | _ \<Rightarrow> None)"

definition engine_set_policy ::
    "('e, 'v, 'm) opa_regorus_scheme \<Rightarrow> encodings \<Rightarrow> io_env \<Rightarrow> Opa \<Rightarrow> fs \<Rightarrow> bytes \<Rightarrow>
     (KbsPolicyEngineError, unit) outcome \<times> fs" where
  "engine_set_policy R C io self f request =
     (case
        and_then (ok_or (IllegalSetPolicyRequest ''Illegal SetPolicy Request Json'')
          (json_from_slice C request)) (\<lambda>request.
        and_then (ok_or (IllegalSetPolicyRequest ''No `policy` field inside SetPolicy Request Json'')
          (json_pointer C request ''/policy'')) (\<lambda>v.
          ok_or (IllegalSetPolicyRequest ''`policy` field is not a string in SetPolicy Request Json'')
            (as_str v))) of
        Ok policy \<Rightarrow> opa_set_policy R C io self f policy
      | Err e \<Rightarrow> (Err e, f)
      | Panic \<Rightarrow> (Panic, f))"

section \<open>Attestation tokens\<close>

text \<open>The fields of a \<^verbatim>\<open>jsonwebtoken\<close> header and key that the verifier reads.\<close>

datatype AlgorithmParameters =
    RSA_params string string
  | EllipticCurve_params string string string
  | Other_params

record Jwk =
  key_algorithm :: "string option"
  key_id :: "string option"
  x509_chain :: "string list option"
  algorithm :: AlgorithmParameters

record Header =
  header_jwk :: "Jwk option"
  header_kid :: "string option"

text \<open>The packages: \<open>'pk\<close> public keys, \<open>'x\<close> certificates, \<open>'a\<close> algorithms, \<open>'d\<close> decoding keys.\<close>

record ('pk, 'x, 'a, 'd) token_crates =
  rsa_pkey :: "bytes \<Rightarrow> bytes \<Rightarrow> (string, 'pk) outcome"
  ec_p256_pkey :: "bytes \<Rightarrow> bytes \<Rightarrow> (string, 'pk) outcome"
  x509_from_der :: "bytes \<Rightarrow> (string, 'x) outcome"
  x509_from_pem :: "bytes \<Rightarrow> (string, 'x) outcome"
  x509_public_key :: "'x \<Rightarrow> (string, 'pk) outcome"
  public_eq :: "'pk \<Rightarrow> 'pk \<Rightarrow> bool"
  verify_cert :: "'x list \<Rightarrow> 'x \<Rightarrow> 'x list \<Rightarrow> (string, bool) outcome"
  decode_header :: "string \<Rightarrow> (string, Header) outcome"
  algorithm_from_str :: "string \<Rightarrow> (string, 'a) outcome"
  decoding_key_from_jwk :: "Jwk \<Rightarrow> (string, 'd) outcome"
  decode_token :: "string \<Rightarrow> 'd \<Rightarrow> 'a \<Rightarrow> (string, json) outcome"
  url_parse :: "string \<Rightarrow> (string, string \<times> string) outcome"
  url_set_path :: "string \<Rightarrow> string \<Rightarrow> string"
  http_get :: "string \<Rightarrow> (string, bytes) outcome"
  oidc_jwks_uri :: "bytes \<Rightarrow> (string, string) outcome"
  jwkset_from_slice :: "bytes \<Rightarrow> (string, Jwk list) outcome"

datatype JwksGetError = InvalidSourcePath string | AccessFailed string | DeserializeSource string

definition OPENID_CONFIG_URL_SUFFIX :: string where
  "OPENID_CONFIG_URL_SUFFIX = ''.well-known/openid-configuration''"

text \<open>
  \<open>url_parse\<close> gives the scheme and the path of an URL; \<open>url_set_path\<close> is the URL with another path.
\<close>

definition get_jwks_from_file_or_url ::
    "('pk, 'x, 'a, 'd) token_crates \<Rightarrow> io_env \<Rightarrow> fs \<Rightarrow> string \<Rightarrow> (JwksGetError, Jwk list) outcome" where
  "get_jwks_from_file_or_url T io f p =
     and_then (map_err InvalidSourcePath (url_parse T p)) (\<lambda>(scheme, url_path).
       if scheme = ''https'' then
         and_then (map_err AccessFailed (http_get T (url_set_path T p OPENID_CONFIG_URL_SUFFIX))) (\<lambda>b.
         and_then (map_err DeserializeSource (oidc_jwks_uri T b)) (\<lambda>uri.
         and_then (map_err AccessFailed (http_get T uri)) (\<lambda>b.
           map_err DeserializeSource (jwkset_from_slice T b))))
       else if scheme = ''file'' then
         and_then (map_err (\<lambda>e. AccessFailed (''open '' @ url_path)) (read_file io f (path_of url_path)))
           (\<lambda>b. map_err DeserializeSource (jwkset_from_slice T b))
       else Err (InvalidSourcePath (''unsupported scheme '' @ scheme @ '' (must be either file or https)'')))"

record AttestationTokenVerifierConfig =
  config_extra_teekey_paths :: "string list"
  config_trusted_certs_paths :: "string list"
  config_trusted_jwk_sets :: "string list"
  config_insecure_key :: bool

definition AttestationTokenVerifierConfig_default :: AttestationTokenVerifierConfig where
  "AttestationTokenVerifierConfig_default =
     \<lparr>config_extra_teekey_paths = [], config_trusted_certs_paths = [], config_trusted_jwk_sets = [],
      config_insecure_key = False\<rparr>"

record 'x JwkAttestationTokenVerifier =
  trusted_jwk_sets :: "Jwk list"
  trusted_certs :: "'x list"
  insecure_key :: bool

fun load_jwk_sets ::
    "('pk, 'x, 'a, 'd) token_crates \<Rightarrow> io_env \<Rightarrow> fs \<Rightarrow> string list \<Rightarrow> (string, Jwk list) outcome" where
  "load_jwk_sets T io f [] = Ok []"
| "load_jwk_sets T io f (p # ps) =
     and_then (map_err (\<lambda>e. ''error getting JWKS'') (get_jwks_from_file_or_url T io f p)) (\<lambda>keys.
     and_then (load_jwk_sets T io f ps) (\<lambda>rest. Ok (keys @ rest)))"

fun load_certs ::
    "('pk, 'x, 'a, 'd) token_crates \<Rightarrow> io_env \<Rightarrow> fs \<Rightarrow> string list \<Rightarrow> (string, 'x list) outcome" where
  "load_certs T io f [] = Ok []"
| "load_certs T io f (p # ps) =
     and_then (map_err (\<lambda>e. ''failed to read certificate '' @ p) (read_file io f (path_of p))) (\<lambda>b.
     and_then (x509_from_pem T b) (\<lambda>cert.
     and_then (load_certs T io f ps) (\<lambda>rest. Ok (cert # rest))))"

definition JwkAttestationTokenVerifier_new ::
    "('pk, 'x, 'a, 'd) token_crates \<Rightarrow> io_env \<Rightarrow> fs \<Rightarrow> AttestationTokenVerifierConfig \<Rightarrow>
     (string, 'x JwkAttestationTokenVerifier) outcome" where
  "JwkAttestationTokenVerifier_new T io f config =
     and_then (load_jwk_sets T io f (config_trusted_jwk_sets config)) (\<lambda>keys.
     and_then (load_certs T io f (config_trusted_certs_paths config)) (\<lambda>certs.
       Ok \<lparr>trusted_jwk_sets = keys, trusted_certs = certs, insecure_key = config_insecure_key config\<rparr>))"

definition jwk_public_key ::
    "('pk, 'x, 'a, 'd) token_crates \<Rightarrow> encodings \<Rightarrow> Jwk \<Rightarrow> (string, 'pk) outcome" where
  "jwk_public_key T C key =
     (case algorithm key of
        RSA_params n e \<Rightarrow>
          and_then (ok_or ''decode RSA public key parameter n'' (b64_decode C n)) (\<lambda>n.
          and_then (ok_or ''decode RSA public key parameter e'' (b64_decode C e)) (\<lambda>e.
            rsa_pkey T n e))
      | EllipticCurve_params crv x y \<Rightarrow>
          and_then (ok_or ''base64'' (b64_decode C x)) (\<lambda>x.
          and_then (ok_or ''base64'' (b64_decode C y)) (\<lambda>y.
            if crv = ''P-256'' then ec_p256_pkey T x y else Err ''Unsupported elliptic curve''))
      | Other_params \<Rightarrow> Err ''Only RSA or EC JWKs are supported.'')"

text \<open>Newlines are dropped before a certificate of the chain is decoded.\<close>

definition x5c_cert ::
    "('pk, 'x, 'a, 'd) token_crates \<Rightarrow> encodings \<Rightarrow> string \<Rightarrow> (string, 'x) outcome" where
  "x5c_cert T C s =
     and_then (ok_or ''Illegal x5c cert'' (b64_decode C (concat (split_on (CHR 0x0A) s)))) (\<lambda>der.
       map_err (\<lambda>e. ''Invalid x509 in x5c'') (x509_from_der T der))"

fun x5c_chain ::
    "('pk, 'x, 'a, 'd) token_crates \<Rightarrow> encodings \<Rightarrow> string list \<Rightarrow> (string, 'x list) outcome" where
  "x5c_chain T C [] = Ok []"
| "x5c_chain T C (s # ss) =
     and_then (x5c_cert T C s) (\<lambda>c. and_then (x5c_chain T C ss) (\<lambda>cs. Ok (c # cs)))"

definition verify_jwk_endorsement ::
    "('pk, 'x, 'a, 'd) token_crates \<Rightarrow> encodings \<Rightarrow> 'x JwkAttestationTokenVerifier \<Rightarrow> Jwk \<Rightarrow>
     (string, unit) outcome" where
  "verify_jwk_endorsement T C self key =
     and_then (jwk_public_key T C key) (\<lambda>pk.
       (case x509_chain key of
          None \<Rightarrow> Err ''No x5c extension inside JWK. Invalid public key.''
        | Some [] \<Rightarrow> Err ''Empty x5c extension inside JWK. Invalid public key.''
        | Some (leaf # rest) \<Rightarrow>
            and_then (x5c_cert T C leaf) (\<lambda>leaf_cert.
            and_then (x509_public_key T leaf_cert) (\<lambda>leaf_key.
            and_then (bail_if (\<not> public_eq T pk leaf_key) ''jwk does not match x5c'') (\<lambda>_.
            and_then (x5c_chain T C rest) (\<lambda>cert_chain.
            and_then (verify_cert T (trusted_certs self) leaf_cert cert_chain) (\<lambda>valid.
              bail_if (\<not> valid) ''JWK cannot be validated by trust anchor'')))))))"

text \<open>\<^verbatim>\<open>JwkSet::find\<close>: the first key with the given id.\<close>

definition get_verification_jwk ::
    "('pk, 'x, 'a, 'd) token_crates \<Rightarrow> encodings \<Rightarrow> 'x JwkAttestationTokenVerifier \<Rightarrow> Header \<Rightarrow>
     (string, Jwk) outcome" where
  "get_verification_jwk T C self header =
     (case header_jwk header of
        Some key \<Rightarrow>
          if insecure_key self then Ok key
          else if trusted_certs self = []
          then Err ''Cannot verify token since trusted cert is empty''
          else and_then (verify_jwk_endorsement T C self key) (\<lambda>_. Ok key)
      | None \<Rightarrow>
          if trusted_jwk_sets self = []
          then Err ''Cannot verify token since trusted JWK Set is empty''
          else
            and_then (ok_or ''Failed to decode kid in the token header'' (header_kid header)) (\<lambda>kid.
              ok_or (''Failed to find Jwk with kid '' @ kid @ '' in JwkSet'')
                (find (\<lambda>k. key_id k = Some kid) (trusted_jwk_sets self))))"

definition jwk_verify ::
    "('pk, 'x, 'a, 'd) token_crates \<Rightarrow> encodings \<Rightarrow> 'x JwkAttestationTokenVerifier \<Rightarrow> string \<Rightarrow>
     (string, json) outcome" where
  "jwk_verify T C self token =
     and_then (map_err (\<lambda>e. ''Failed to decode attestation token header'') (decode_header T token)) (\<lambda>header.
     and_then (get_verification_jwk T C self header) (\<lambda>key.
     and_then (ok_or ''Failed to find key_algorithm in Jwk'' (key_algorithm key)) (\<lambda>key_alg.
     and_then (algorithm_from_str T key_alg) (\<lambda>alg.
     and_then (decoding_key_from_jwk T key) (\<lambda>dkey.
       map_err (\<lambda>e. ''Failed to decode attestation token'') (decode_token T token dkey alg))))))"

section \<open>The TEE public key of a token\<close>

datatype TokenError =
    TokenVerificationFailed string
  | TokenVerifierInitialization string
  | NoTeePubKeyClaimFound
  | TeePubKeyParseFailed

text \<open>The type of \<^verbatim>\<open>kbs_types\<close>.\<close>

datatype TeePubKey = RSA string string string | EC string string string string

definition TOKEN_TEE_PUBKEY_PATH_ITA :: string where
  "TOKEN_TEE_PUBKEY_PATH_ITA = ''/tdx/attester_runtime_data/tee-pubkey''"

definition TOKEN_TEE_PUBKEY_PATH_ITA_VTPM :: string where
  "TOKEN_TEE_PUBKEY_PATH_ITA_VTPM = ''/tdx/attester_user_data/tee-pubkey''"

definition TOKEN_TEE_PUBKEY_PATH_COCO :: string where
  "TOKEN_TEE_PUBKEY_PATH_COCO = ''/customized_claims/runtime_data/tee-pubkey''"

definition TOKEN_TEE_PUBKEY_PATH_EAR :: string where
  "TOKEN_TEE_PUBKEY_PATH_EAR =
     ''/submods/cpu0/ear.veraison.annotated-evidence/runtime_data_claims/tee-pubkey''"

definition TOKEN_TEE_PUBKEY_PATH_VALUE :: string where
  "TOKEN_TEE_PUBKEY_PATH_VALUE = ''/tee-pubkey''"

record 'x TokenVerifier =
  token_verifier :: "'x JwkAttestationTokenVerifier"
  extra_teekey_paths :: "string list"

definition TokenVerifier_verify ::
    "('pk, 'x, 'a, 'd) token_crates \<Rightarrow> encodings \<Rightarrow> 'x TokenVerifier \<Rightarrow> string \<Rightarrow>
     (TokenError, json) outcome" where
  "TokenVerifier_verify T C self token =
     map_err TokenVerificationFailed (jwk_verify T C (token_verifier self) token)"

definition TokenVerifier_from_config ::
    "('pk, 'x, 'a, 'd) token_crates \<Rightarrow> io_env \<Rightarrow> fs \<Rightarrow> AttestationTokenVerifierConfig \<Rightarrow>
     (TokenError, 'x TokenVerifier) outcome" where
  "TokenVerifier_from_config T io f config =
     and_then (map_err TokenVerifierInitialization (JwkAttestationTokenVerifier_new T io f config)) (\<lambda>v.
       Ok \<lparr>token_verifier = v,
           extra_teekey_paths =
             config_extra_teekey_paths config @
             [TOKEN_TEE_PUBKEY_PATH_ITA, TOKEN_TEE_PUBKEY_PATH_ITA_VTPM, TOKEN_TEE_PUBKEY_PATH_COCO,
              TOKEN_TEE_PUBKEY_PATH_EAR, TOKEN_TEE_PUBKEY_PATH_VALUE]\<rparr>)"

fun extract_loop ::
    "encodings \<Rightarrow> (json \<Rightarrow> TeePubKey option) \<Rightarrow> json \<Rightarrow> string list \<Rightarrow> (TokenError, TeePubKey) outcome" where
  "extract_loop C deserialize claim [] = Err NoTeePubKeyClaimFound"
| "extract_loop C deserialize claim (p # ps) =
     (case json_pointer C claim p of
        Some pkey_value \<Rightarrow> ok_or TeePubKeyParseFailed (deserialize pkey_value)
      | None \<Rightarrow> extract_loop C deserialize claim ps)"

definition extract_tee_public_key ::
    "encodings \<Rightarrow> (json \<Rightarrow> TeePubKey option) \<Rightarrow> 'x TokenVerifier \<Rightarrow> json \<Rightarrow> (TokenError, TeePubKey) outcome" where
  "extract_tee_public_key C deserialize self claim =
     extract_loop C deserialize claim (extra_teekey_paths self)"

end
