(* ===== verification/Kbs_Resource.thy ===== *)
theory Kbs_Resource
  imports Filesystem
begin

text \<open>
  The resource plugin of the Key Broker Service (\<^verbatim>\<open>kbs/src/plugins/implementations/resource\<close>):
  resource descriptors and their syntax (\<^verbatim>\<open>backend.rs\<close>), the repositories on the local file system
  (\<^verbatim>\<open>local_fs.rs\<close>), HashiCorp Vault (\<^verbatim>\<open>vault_kv.rs\<close>) and Aliyun KMS (\<^verbatim>\<open>aliyun_kms.rs\<close>), and the
  plugin itself (\<^verbatim>\<open>mod.rs\<close>), with the sample plugin (\<^verbatim>\<open>sample.rs\<close>). The metrics are left out.
\<close>

section \<open>Errors\<close>

text \<open>An \<^verbatim>\<open>anyhow::Error\<close> of this plugin: a message, or an error of the Vault backend.\<close>

datatype VaultError =
    SecretNotFound string string
  | DataKeyMissing string "string list"
  | VaultApiError string string

datatype anyhow = Message string | Vault VaultError

section \<open>Resource descriptors\<close>

record ResourceDesc =
  repository_name :: string
  resource_type :: string
  resource_tag :: string

text \<open>
  One segment of the regular expression: \<^verbatim>\<open>[a-zA-Z0-9_\-]+[a-zA-Z0-9_\-\.]*\<close>, a first character of
  the small class and then characters of the large one.
\<close>

definition seg_char :: "char \<Rightarrow> bool" where
  "seg_char c \<longleftrightarrow>
     (let n = of_char c :: nat in
      97 \<le> n \<and> n \<le> 122 \<or> 65 \<le> n \<and> n \<le> 90 \<or> 48 \<le> n \<and> n \<le> 57) \<or> c = CHR ''_'' \<or> c = CHR ''-''"

definition segment_ok :: "string \<Rightarrow> bool" where
  "segment_ok s =
     (case s of
        [] \<Rightarrow> False
      | c # cs \<Rightarrow> seg_char c \<and> list_all (\<lambda>c. seg_char c \<or> c = CHR ''.'') cs)"

text \<open>The expression is three segments separated by slashes, anchored at both ends.\<close>

definition ResourceDesc_try_from :: "string \<Rightarrow> (anyhow, ResourceDesc) outcome" where
  "ResourceDesc_try_from value =
     (case split_on CHR ''/'' value of
        [r, t, g] \<Rightarrow>
          if segment_ok r \<and> segment_ok t \<and> segment_ok g
          then Ok \<lparr>repository_name = r, resource_type = t, resource_tag = g\<rparr>
          else Err (Message ''illegal ResourceDesc format.'')
      | _ \<Rightarrow> Err (Message ''illegal ResourceDesc format.''))"

definition ResourceDesc_to_string :: "ResourceDesc \<Rightarrow> string" where
  "ResourceDesc_to_string d =
     repository_name d @ ''/'' @ resource_type d @ ''/'' @ resource_tag d"

definition desc_ok :: "ResourceDesc \<Rightarrow> bool" where
  "desc_ok d \<longleftrightarrow>
     segment_ok (repository_name d) \<and> segment_ok (resource_type d) \<and> segment_ok (resource_tag d)"

section \<open>Repositories\<close>

text \<open>A \<^verbatim>\<open>dyn StorageBackend\<close>.\<close>

record 's StorageBackend =
  read_secret_resource :: "'s \<Rightarrow> ResourceDesc \<Rightarrow> (anyhow, bytes) outcome"
  write_secret_resource :: "'s \<Rightarrow> ResourceDesc \<Rightarrow> bytes \<Rightarrow> (anyhow, unit) outcome \<times> 's"

locale secret_store =
  fixes B :: "'s StorageBackend"
    and lookup :: "'s \<Rightarrow> ResourceDesc \<Rightarrow> bytes option"
    and good :: "'s \<Rightarrow> bool"
  assumes read_secret: "good s \<Longrightarrow> desc_ok d \<Longrightarrow>
      (case lookup s d of
         Some b \<Rightarrow> read_secret_resource B s d = Ok b
       | None \<Rightarrow> \<exists>e. read_secret_resource B s d = Err e)"
    and write_secret: "good s \<Longrightarrow> desc_ok d \<Longrightarrow>
      \<exists>s'. write_secret_resource B s d b = (Ok (), s') \<and> good s' \<and>
           (\<forall>d'. desc_ok d' \<longrightarrow> lookup s' d' = ((lookup s)(d \<mapsto> b)) d')"
begin

lemma write_read:
  assumes "good s" "desc_ok d"
  shows "\<exists>s'. write_secret_resource B s d b = (Ok (), s') \<and> good s' \<and>
    read_secret_resource B s' d = Ok b \<and>
    (\<forall>d' b'. desc_ok d' \<and> d' \<noteq> d \<longrightarrow>
       (read_secret_resource B s' d' = Ok b' \<longleftrightarrow> read_secret_resource B s d' = Ok b'))"
proof -
  obtain s' where s': "write_secret_resource B s d b = (Ok (), s')" "good s'"
    "\<And>d'. desc_ok d' \<Longrightarrow> lookup s' d' = ((lookup s)(d \<mapsto> b)) d'"
    using write_secret [OF assms] by blast
  have rd: "read_secret_resource B t d' = Ok b' \<longleftrightarrow> lookup t d' = Some b'"
    if "good t" "desc_ok d'" for t d' b'
    using read_secret [OF that] by (auto split: option.splits)
  show ?thesis
    using s' assms by (intro exI [of _ s']) (simp add: rd)
qed

end

subsection \<open>Local file system\<close>

record LocalFsRepo =
  repo_dir_path :: path

definition DEFAULT_REPO_DIR_PATH :: string where
  "DEFAULT_REPO_DIR_PATH = ''/opt/confidential-containers/kbs/repository''"

definition LocalFsRepo_new :: "io_env \<Rightarrow> fs \<Rightarrow> string \<Rightarrow> (anyhow, LocalFsRepo) outcome \<times> fs" where
  "LocalFsRepo_new io f dir =
     (let p = path_of dir;
          (r1, f1) = (if \<not> exists_path f p then create_dir_all io f p else (Ok (), f));
          dflt = path_of (dir @ ''/default'');
          (r2, f2) =
            (case r1 of
               Ok _ \<Rightarrow> if \<not> exists_path f1 dflt then create_dir_all io f1 dflt else (Ok (), f1)
             | _ \<Rightarrow> (r1, f1))
      in (and_then (map_err (\<lambda>e. Message ''io'') r2) (\<lambda>_. Ok \<lparr>repo_dir_path = p\<rparr>), f2))"

definition push_path_str :: "path \<Rightarrow> string \<Rightarrow> path" where
  "push_path_str p s = foldl join1 p (split_on CHR ''/'' s)"

definition repo_read :: "io_env \<Rightarrow> LocalFsRepo \<Rightarrow> fs \<Rightarrow> ResourceDesc \<Rightarrow> (anyhow, bytes) outcome" where
  "repo_read io self f d =
     (let resource_path = push_path_str (repo_dir_path self) (ResourceDesc_to_string d) in
      map_err (\<lambda>e. Message ''read resource from local fs'') (read_file io f resource_path))"

definition repo_write ::
    "io_env \<Rightarrow> LocalFsRepo \<Rightarrow> fs \<Rightarrow> ResourceDesc \<Rightarrow> bytes \<Rightarrow> (anyhow, unit) outcome \<times> fs" where
  "repo_write io self f d data =
     (let dir = push_path_str (push_path_str (repo_dir_path self) (repository_name d)) (resource_type d);
          (r1, f1) = (if \<not> exists_path f dir then create_dir_all io f dir else (Ok (), f))
      in (case r1 of
            Ok _ \<Rightarrow>
              (let (r2, f2) = write_file io f1 (push_path_str dir (resource_tag d)) data in
               (map_err (\<lambda>e. Message ''write local fs'') r2, f2))
          | Err e \<Rightarrow> (Err (Message ''create new resource path''), f1)
          | Panic \<Rightarrow> (Panic, f1)))"

definition repo_backend :: "io_env \<Rightarrow> LocalFsRepo \<Rightarrow> fs StorageBackend" where
  "repo_backend io self =
     \<lparr>read_secret_resource = repo_read io self, write_secret_resource = repo_write io self\<rparr>"

subsection \<open>Vault\<close>

text \<open>The key-value engine of Vault through \<^verbatim>\<open>vaultrs\<close>; errors as their message.\<close>

record 'c vaultrs =
  kv1_get :: "'c \<Rightarrow> string \<Rightarrow> string \<Rightarrow> (string, (string \<times> bytes) list) outcome"
  kv1_set :: "'c \<Rightarrow> string \<Rightarrow> string \<Rightarrow> (string \<times> bytes) list \<Rightarrow> (string, unit) outcome \<times> 'c"

record VaultKvBackend =
  mount_path :: string

fun contains :: "string \<Rightarrow> string \<Rightarrow> bool" where
  "contains pat [] = (pat = [])"
| "contains pat (c # cs) \<longleftrightarrow> take (length pat) (c # cs) = pat \<or> contains pat cs"

definition vault_read_result ::
    "'c vaultrs \<Rightarrow> VaultKvBackend \<Rightarrow> 'c \<Rightarrow> ResourceDesc \<Rightarrow> (VaultError, bytes) outcome" where
  "vault_read_result V self c d =
     (let vault_path = ResourceDesc_to_string d in
      and_then (map_err (\<lambda>e. if contains ''status code 404'' e then SecretNotFound vault_path e
                              else VaultApiError vault_path e)
                  (kv1_get V c (mount_path self) vault_path)) (\<lambda>secret_data.
        ok_or (DataKeyMissing vault_path (map fst secret_data)) (map_of secret_data ''data'')))"

definition vault_read :: "'c vaultrs \<Rightarrow> VaultKvBackend \<Rightarrow> 'c \<Rightarrow> ResourceDesc \<Rightarrow> (anyhow, bytes) outcome" where
  "vault_read V self c d = map_err Vault (vault_read_result V self c d)"

definition vault_write ::
    "'c vaultrs \<Rightarrow> VaultKvBackend \<Rightarrow> 'c \<Rightarrow> ResourceDesc \<Rightarrow> bytes \<Rightarrow> (anyhow, unit) outcome \<times> 'c" where
  "vault_write V self c d data =
     (let vault_path = ResourceDesc_to_string d;
          (r, c') = kv1_set V c (mount_path self) vault_path [(''data'', data)]
      in (map_err (\<lambda>e. Message ''Failed to write secret to Vault'') r, c'))"

definition vault_backend :: "'c vaultrs \<Rightarrow> VaultKvBackend \<Rightarrow> 'c StorageBackend" where
  "vault_backend V self =
     \<lparr>read_secret_resource = vault_read V self, write_secret_resource = vault_write V self\<rparr>"

subsection \<open>Aliyun KMS\<close>

text \<open>The secret is fetched by its tag alone; writing is \<^verbatim>\<open>todo!\<close>.\<close>

definition aliyun_read ::
    "('c \<Rightarrow> string \<Rightarrow> (string, bytes) outcome) \<Rightarrow> 'c \<Rightarrow> ResourceDesc \<Rightarrow> (anyhow, bytes) outcome" where
  "aliyun_read get_secret c d =
     map_err (\<lambda>e. Message ''failed to get resource from aliyun KMS'') (get_secret c (resource_tag d))"

definition aliyun_write :: "'c \<Rightarrow> ResourceDesc \<Rightarrow> bytes \<Rightarrow> (anyhow, unit) outcome \<times> 'c" where
  "aliyun_write c d data = (Panic, c)"

definition aliyun_backend :: "('c \<Rightarrow> string \<Rightarrow> (string, bytes) outcome) \<Rightarrow> 'c StorageBackend" where
  "aliyun_backend get_secret =
     \<lparr>read_secret_resource = aliyun_read get_secret, write_secret_resource = aliyun_write\<rparr>"

section \<open>Plugins\<close>

type_synonym query = "(string \<times> string) list"

text \<open>A \<^verbatim>\<open>dyn ClientPlugin\<close>: body, query, path segments and HTTP method.\<close>

record 's ClientPlugin =
  plugin_handle :: "'s \<Rightarrow> bytes \<Rightarrow> query \<Rightarrow> string list \<Rightarrow> string \<Rightarrow> (anyhow, bytes) outcome \<times> 's"
  plugin_validate_auth :: "bytes \<Rightarrow> query \<Rightarrow> string list \<Rightarrow> string \<Rightarrow> (anyhow, bool) outcome"
  plugin_encrypted :: "bytes \<Rightarrow> query \<Rightarrow> string list \<Rightarrow> string \<Rightarrow> (anyhow, bool) outcome"

fun join_slash :: "string list \<Rightarrow> string" where
  "join_slash [] = []"
| "join_slash [s] = s"
| "join_slash (s # t # ss) = s @ ''/'' @ join_slash (t # ss)"

definition ResourceStorage_handle ::
    "'s StorageBackend \<Rightarrow> 's \<Rightarrow> bytes \<Rightarrow> query \<Rightarrow> string list \<Rightarrow> string \<Rightarrow> (anyhow, bytes) outcome \<times> 's" where
  "ResourceStorage_handle B s body q path method =
     (let resource_desc = join_slash path in
      if method = ''POST'' then
        (case ResourceDesc_try_from resource_desc of
           Ok d \<Rightarrow> (let (r, s') = write_secret_resource B s d body in (and_then r (\<lambda>_. Ok []), s'))
         | Err e \<Rightarrow> (Err e, s)
         | Panic \<Rightarrow> (Panic, s))
      else if method = ''GET'' then
        (and_then (ResourceDesc_try_from resource_desc) (\<lambda>d. read_secret_resource B s d), s)
      else (Err (Message ''Illegal HTTP method. Only supports `GET` and `POST`''), s))"

definition ResourceStorage_validate_auth ::
    "bytes \<Rightarrow> query \<Rightarrow> string list \<Rightarrow> string \<Rightarrow> (anyhow, bool) outcome" where
  "ResourceStorage_validate_auth body q path method =
     (if method = ''POST'' then Ok True else Ok False)"

definition ResourceStorage_encrypted ::
    "bytes \<Rightarrow> query \<Rightarrow> string list \<Rightarrow> string \<Rightarrow> (anyhow, bool) outcome" where
  "ResourceStorage_encrypted body q path method =
     (if method = ''GET'' then Ok True else Ok False)"

definition resource_plugin :: "'s StorageBackend \<Rightarrow> 's ClientPlugin" where
  "resource_plugin B =
     \<lparr>plugin_handle = ResourceStorage_handle B, plugin_validate_auth = ResourceStorage_validate_auth,
      plugin_encrypted = ResourceStorage_encrypted\<rparr>"

definition sample_plugin :: "'s ClientPlugin" where
  "sample_plugin =
     \<lparr>plugin_handle = (\<lambda>s body q path method. (Ok (bytes_of ''sample plugin response''), s)),
      plugin_validate_auth = (\<lambda>body q path method. Ok True),
      plugin_encrypted = (\<lambda>body q path method. Ok False)\<rparr>"

section \<open>Descriptor syntax\<close>

lemma segment_okE:
  assumes "segment_ok s"
  shows "CHR ''/'' \<notin> set s" "s \<noteq> []" "s \<noteq> ''.''" "s \<noteq> ''..''"
proof -
  have "\<not> seg_char CHR ''/''" "\<not> seg_char CHR ''.''" by (simp_all add: seg_char_def)
  with assms show "CHR ''/'' \<notin> set s" "s \<noteq> []" "s \<noteq> ''.''" "s \<noteq> ''..''"
    by (auto simp: segment_ok_def list_all_iff split: list.splits)
qed

lemma split_on_nonempty [simp]: "split_on c s \<noteq> []"
  by (induction s) (auto split: list.splits)

lemma split_on_append: "c \<notin> set s \<Longrightarrow> split_on c (s @ c # t) = s # split_on c t"
  by (induction s) auto

lemma join_split: "join_slash (split_on CHR ''/'' s) = s"
proof (induction s)
  case (Cons c s)
  obtain p ps where "split_on CHR ''/'' s = p # ps"
    by (cases "split_on CHR ''/'' s") simp_all
  with Cons show ?case by (cases ps) auto
qed simp

lemma split_desc:
  "desc_ok d \<Longrightarrow>
     split_on CHR ''/'' (ResourceDesc_to_string d) = [repository_name d, resource_type d, resource_tag d]"
  by (simp add: desc_ok_def ResourceDesc_to_string_def split_on_append split_on_none segment_okE(1))

lemma try_from_Ok_iff:
  "ResourceDesc_try_from v = Ok d \<longleftrightarrow> desc_ok d \<and> v = ResourceDesc_to_string d"
proof
  assume "ResourceDesc_try_from v = Ok d"
  then obtain r t g where *: "split_on CHR ''/'' v = [r, t, g]" "segment_ok r" "segment_ok t" "segment_ok g"
    "d = \<lparr>repository_name = r, resource_type = t, resource_tag = g\<rparr>"
    by (auto simp: ResourceDesc_try_from_def split: list.splits if_splits)
  then show "desc_ok d \<and> v = ResourceDesc_to_string d"
    using join_split [of v] by (simp add: desc_ok_def ResourceDesc_to_string_def)
next
  assume "desc_ok d \<and> v = ResourceDesc_to_string d"
  then show "ResourceDesc_try_from v = Ok d"
    by (auto simp: ResourceDesc_try_from_def split_desc) (auto simp: desc_ok_def)
qed

lemma try_from_no_panic [simp]: "ResourceDesc_try_from v \<noteq> Panic"
  by (auto simp: ResourceDesc_try_from_def split: list.splits)

lemma to_string_inj:
  "desc_ok d \<Longrightarrow> desc_ok d' \<Longrightarrow> ResourceDesc_to_string d = ResourceDesc_to_string d' \<longleftrightarrow> d = d'"
  using try_from_Ok_iff by (metis outcome.inject(1))

section \<open>The local repository\<close>

definition desc_path :: "LocalFsRepo \<Rightarrow> ResourceDesc \<Rightarrow> path" where
  "desc_path self d =
     repo_dir_path self @ [repository_name d, resource_type d, resource_tag d]"

lemma push_segment: "segment_ok s \<Longrightarrow> push_path_str p s = p @ [s]"
  using segment_okE [of s] by (simp add: push_path_str_def split_on_none)

lemma push_desc: "desc_ok d \<Longrightarrow> push_path_str (repo_dir_path self) (ResourceDesc_to_string d) = desc_path self d"
  using segment_okE
  by (simp add: push_path_str_def split_desc desc_path_def) (simp add: desc_ok_def segment_okE)

lemma desc_path_inj: "desc_path self d = desc_path self d' \<longleftrightarrow> d = d'"
  by (cases d; cases d') (simp add: desc_path_def)

text \<open>Directories down to two levels below the repository, files at the third.\<close>

definition repo_good :: "LocalFsRepo \<Rightarrow> fs \<Rightarrow> bool" where
  "repo_good self f \<longleftrightarrow>
     (\<forall>n. is_dir f (take n (repo_dir_path self))) \<and>
     (\<forall>a. map_of f (repo_dir_path self @ [a]) \<noteq> None \<longrightarrow> is_dir f (repo_dir_path self @ [a])) \<and>
     (\<forall>a b. map_of f (repo_dir_path self @ [a, b]) \<noteq> None \<longrightarrow> is_dir f (repo_dir_path self @ [a, b])) \<and>
     (\<forall>a b c. map_of f (repo_dir_path self @ [a, b, c]) \<noteq> Some DirNode)"

definition repo_lookup :: "LocalFsRepo \<Rightarrow> fs \<Rightarrow> ResourceDesc \<Rightarrow> bytes option" where
  "repo_lookup self f d = (case map_of f (desc_path self d) of Some (FileNode b) \<Rightarrow> Some b | _ \<Rightarrow> None)"

lemma create_dirs_existing:
  "(\<And>n. is_dir f (d @ take n xs)) \<Longrightarrow> create_dirs io f d (xs @ ys) = create_dirs io f (d @ xs) ys"
proof (induction xs arbitrary: d)
  case (Cons x xs)
  have "is_dir f (d @ [x])" using Cons.prems [of 1] by simp
  moreover have "is_dir f ((d @ [x]) @ take n xs)" for n using Cons.prems [of "Suc n"] by simp
  ultimately show ?case using Cons.IH [of "d @ [x]"] by (simp add: Let_def)
qed simp

lemma create_resource_dir:
  assumes "repo_good self f"
  obtains f' where "create_dir_all no_faults f (repo_dir_path self @ [a, b]) = (Ok (), f')"
    "is_dir f' (repo_dir_path self @ [a, b])" "repo_good self f'" "\<And>d. repo_lookup self f' d = repo_lookup self f d"
proof -
  let ?r = "repo_dir_path self"
  have pre: "is_dir f (take n ?r)" for n using assms by (simp add: repo_good_def)
  have good1: "repo_good self (AList.update (?r @ [a]) DirNode g)"
    "\<And>d. repo_lookup self (AList.update (?r @ [a]) DirNode g) d = repo_lookup self g d"
    if "repo_good self g" for g
    using that by (auto simp: repo_good_def is_dir_def repo_lookup_def desc_path_def)
  have good2: "repo_good self (AList.update (?r @ [a, b]) DirNode g)"
    "\<And>d. repo_lookup self (AList.update (?r @ [a, b]) DirNode g) d = repo_lookup self g d"
    if "repo_good self g" for g
    using that by (auto simp: repo_good_def is_dir_def repo_lookup_def desc_path_def)
  define g where "g = (if is_dir f (?r @ [a]) then f else AList.update (?r @ [a]) DirNode f)"
  have g: "repo_good self g" "\<And>d. repo_lookup self g d = repo_lookup self f d"
    using assms good1 by (simp_all add: g_def)
  define h where "h = (if is_dir g (?r @ [a, b]) then g else AList.update (?r @ [a, b]) DirNode g)"
  have h: "repo_good self h" "\<And>d. repo_lookup self h d = repo_lookup self g d"
    using g good2 by (simp_all add: h_def)
  have "create_dirs no_faults f [] (?r @ [a, b]) = create_dirs no_faults f ?r [a, b]"
    using create_dirs_existing [of f "[]" ?r] pre by simp
  also have "\<dots> = create_dirs no_faults g (?r @ [a]) [b]"
    using assms by (auto simp: Let_def g_def exists_path_def repo_good_def)
  also have "\<dots> = (Ok (), h)"
    using g(1) by (auto simp: Let_def h_def exists_path_def repo_good_def)
  finally have "create_dir_all no_faults f (?r @ [a, b]) = (Ok (), h)"
    by (simp add: create_dir_all_def)
  moreover have "is_dir h (?r @ [a, b])" by (auto simp: h_def is_dir_def)
  ultimately show ?thesis using that h g by simp
qed

lemma repo_write_file:
  assumes "repo_good self f" "is_dir f (repo_dir_path self @ [repository_name d, resource_type d])"
  shows "write_file no_faults f (desc_path self d) b = (Ok (), AList.update (desc_path self d) (FileNode b) f)"
    and "repo_good self (AList.update (desc_path self d) (FileNode b) f)"
    and "repo_lookup self (AList.update (desc_path self d) (FileNode b) f) = (repo_lookup self f)(d \<mapsto> b)"
proof -
  let ?p = "repo_dir_path self @ [repository_name d, resource_type d]"
  show "write_file no_faults f (desc_path self d) b =
      (Ok (), AList.update (desc_path self d) (FileNode b) f)"
    using write_file_ok [of f ?p "resource_tag d" no_faults b] assms
    by (simp add: desc_path_def repo_good_def)
  have "length (take n (repo_dir_path self)) \<noteq> length (desc_path self d)" for n
    by (simp add: desc_path_def)
  then have "take n (repo_dir_path self) \<noteq> desc_path self d" for n by metis
  then show "repo_good self (AList.update (desc_path self d) (FileNode b) f)"
    using assms(1) by (auto simp: repo_good_def is_dir_def) (auto simp: desc_path_def)
  show "repo_lookup self (AList.update (desc_path self d) (FileNode b) f) = (repo_lookup self f)(d \<mapsto> b)"
    by (auto simp: repo_lookup_def desc_path_inj)
qed

interpretation repo: secret_store "repo_backend no_faults self" "repo_lookup self" "repo_good self" for self
proof
  fix f d
  assume good: "repo_good self f" and ok: "desc_ok d"
  show "case repo_lookup self f d of
      Some b \<Rightarrow> read_secret_resource (repo_backend no_faults self) f d = Ok b
    | None \<Rightarrow> \<exists>e. read_secret_resource (repo_backend no_faults self) f d = Err e"
    using ok by (auto simp: repo_backend_def repo_read_def push_desc read_file_def repo_lookup_def
        desc_path_def split: option.splits fnode.splits)
next
  fix f d b
  assume good: "repo_good self f" and ok: "desc_ok d"
  let ?dir = "repo_dir_path self @ [repository_name d, resource_type d]"
  have dir: "push_path_str (push_path_str (repo_dir_path self) (repository_name d)) (resource_type d) = ?dir"
    "push_path_str ?dir (resource_tag d) = desc_path self d"
    using ok by (simp_all add: desc_ok_def push_segment desc_path_def)
  obtain g where g: "(if \<not> exists_path f ?dir then create_dir_all no_faults f ?dir else (Ok (), f)) = (Ok (), g)"
    "is_dir g ?dir" "repo_good self g" "\<And>d. repo_lookup self g d = repo_lookup self f d"
  proof (cases "exists_path f ?dir")
    case True
    then show thesis using that good by (auto simp: repo_good_def exists_path_def)
  next
    case False
    then show thesis using that create_resource_dir [OF good] by (metis (full_types))
  qed
  have "repo_write no_faults self f d b = (Ok (), AList.update (desc_path self d) (FileNode b) g)"
    unfolding repo_write_def Let_def dir using g repo_write_file(1) [OF g(3,2)] dir by simp
  then show "\<exists>s'. write_secret_resource (repo_backend no_faults self) f d b = (Ok (), s') \<and>
      repo_good self s' \<and>
      (\<forall>d'. desc_ok d' \<longrightarrow> repo_lookup self s' d' = ((repo_lookup self f)(d \<mapsto> b)) d')"
    using repo_write_file(2,3) [OF g(3,2)] g(4) by (simp add: repo_backend_def)
qed

section \<open>The Vault repository\<close>

text \<open>Documented: Vault stores the given map under the path, and reading a missing path is a 404.\<close>

definition vault_laws :: "'c vaultrs \<Rightarrow> ('c \<Rightarrow> string \<Rightarrow> string \<Rightarrow> (string \<times> bytes) list option) \<Rightarrow> bool" where
  "vault_laws V at \<longleftrightarrow>
     (\<forall>c m p. case at c m p of
        Some kvs \<Rightarrow> kv1_get V c m p = Ok kvs
      | None \<Rightarrow> kv1_get V c m p = Err ''The Vault server returned status code 404'') \<and>
     (\<forall>c m p kvs. \<exists>c'. kv1_set V c m p kvs = (Ok (), c') \<and>
        (\<forall>m' p'. at c' m' p' = (if m' = m \<and> p' = p then Some kvs else at c m' p')))"

definition vault_lookup :: "VaultKvBackend \<Rightarrow> ('c \<Rightarrow> string \<Rightarrow> string \<Rightarrow> (string \<times> bytes) list option) \<Rightarrow>
    'c \<Rightarrow> ResourceDesc \<Rightarrow> bytes option" where
  "vault_lookup self at c d =
     Option.bind (at c (mount_path self) (ResourceDesc_to_string d)) (\<lambda>kvs. map_of kvs ''data'')"

lemma vault_lawsD:
  assumes "vault_laws V at"
  shows "at c m p = None \<Longrightarrow> kv1_get V c m p = Err ''The Vault server returned status code 404''"
    and "at c m p = Some kvs \<Longrightarrow> kv1_get V c m p = Ok kvs"
    and "\<exists>c'. kv1_set V c m p kvs = (Ok (), c') \<and>
      (\<forall>m' p'. at c' m' p' = (if m' = m \<and> p' = p then Some kvs else at c m' p'))"
proof -
  have get: "case at c m p of Some kvs \<Rightarrow> kv1_get V c m p = Ok kvs
      | None \<Rightarrow> kv1_get V c m p = Err ''The Vault server returned status code 404''"
    using assms unfolding vault_laws_def by (elim conjE allE)
  show "at c m p = None \<Longrightarrow> kv1_get V c m p = Err ''The Vault server returned status code 404''"
    using get by (simp only: option.case)
  show "at c m p = Some kvs \<Longrightarrow> kv1_get V c m p = Ok kvs"
    using get by (simp only: option.case)
  show "\<exists>c'. kv1_set V c m p kvs = (Ok (), c') \<and>
      (\<forall>m' p'. at c' m' p' = (if m' = m \<and> p' = p then Some kvs else at c m' p'))"
    using assms unfolding vault_laws_def by (elim conjE allE)
qed

lemma vault_secret_store:
  assumes V: "vault_laws V at"
  shows "secret_store (vault_backend V self) (vault_lookup self at) (\<lambda>_. True)"
proof
  fix c d
  show "case vault_lookup self at c d of
      Some b \<Rightarrow> read_secret_resource (vault_backend V self) c d = Ok b
    | None \<Rightarrow> \<exists>e. read_secret_resource (vault_backend V self) c d = Err e"
  proof (cases "at c (mount_path self) (ResourceDesc_to_string d)")
    case None
    then have "kv1_get V c (mount_path self) (ResourceDesc_to_string d) =
        Err ''The Vault server returned status code 404''"
      using vault_lawsD(1) [OF V] by blast
    then show ?thesis
      using None by (simp add: vault_lookup_def vault_backend_def vault_read_def vault_read_result_def
          Let_def)
  next
    case (Some kvs)
    then have "kv1_get V c (mount_path self) (ResourceDesc_to_string d) = Ok kvs"
      using vault_lawsD(2) [OF V] by blast
    then show ?thesis
      using Some by (auto simp: vault_lookup_def vault_backend_def vault_read_def vault_read_result_def
          Let_def split: option.splits)
  qed
next
  fix c d b
  assume ok: "desc_ok d"
  obtain c' where c': "kv1_set V c (mount_path self) (ResourceDesc_to_string d) [(''data'', b)] = (Ok (), c')"
    "\<forall>m' p'. at c' m' p' = (if m' = mount_path self \<and> p' = ResourceDesc_to_string d
       then Some [(''data'', b)] else at c m' p')"
    using vault_lawsD(3) [OF V] by blast
  then have "vault_lookup self at c' d' = ((vault_lookup self at c)(d \<mapsto> b)) d'" if "desc_ok d'" for d'
    using that ok to_string_inj [of d' d] by (auto simp: vault_lookup_def)
  then show "\<exists>s'. write_secret_resource (vault_backend V self) c d b = (Ok (), s') \<and> True \<and>
      (\<forall>d'. desc_ok d' \<longrightarrow> vault_lookup self at s' d' = ((vault_lookup self at c)(d \<mapsto> b)) d')"
    using c'(1) by (simp add: vault_backend_def vault_write_def Let_def)
qed

end
