(* ===== verification/Kbs_Api.thy ===== *)
theory Kbs_Api
  imports Kbs_Access Kbs_Resource
begin

text \<open>
  The request handler of the Key Broker Service (\<^verbatim>\<open>kbs/src/api_server.rs\<close>), with the plugin manager
  (\<^verbatim>\<open>kbs/src/plugins/plugin_manager.rs\<close>) and the mapping of errors to responses
  (\<^verbatim>\<open>kbs/src/error.rs\<close>). A request runs here without interference of others; the interleaving of
  attestation requests is in \<open>Kbs_Handshake\<close>. The clock is read once per request. Metrics, log output
  and the HTTP server set-up are left out.
\<close>

section \<open>Errors\<close>

datatype KbsError =
    AdminAuth AdminError
  | AttestationFailed AttestationError
  | HTTPFailed anyhow
  | HTTPSFailed anyhow
  | InvalidRequestPath string
  | JweError string
  | PluginManagerInitialization anyhow
  | PluginNotFound string
  | PluginInternalError anyhow
  | PolicyDeny
  | PolicyEngineFailed KbsPolicyEngineError
  | RvpsError string
  | SerdeError
  | TokenNotFound
  | TokenVerifierError TokenError
  | PrometheusError

definition ERROR_TYPE_PREFIX :: string where
  "ERROR_TYPE_PREFIX = ''https://github.com/confidential-containers/kbs/errors''"

text \<open>\<^verbatim>\<open>AsRefStr\<close>: the name of the variant.\<close>

fun KbsError_as_ref :: "KbsError \<Rightarrow> string" where
  "KbsError_as_ref (AdminAuth _) = ''AdminAuth''"
| "KbsError_as_ref (AttestationFailed _) = ''AttestationError''"
| "KbsError_as_ref (HTTPFailed _) = ''HTTPFailed''"
| "KbsError_as_ref (HTTPSFailed _) = ''HTTPSFailed''"
| "KbsError_as_ref (InvalidRequestPath _) = ''InvalidRequestPath''"
| "KbsError_as_ref (JweError _) = ''JweError''"
| "KbsError_as_ref (PluginManagerInitialization _) = ''PluginManagerInitialization''"
| "KbsError_as_ref (PluginNotFound _) = ''PluginNotFound''"
| "KbsError_as_ref (PluginInternalError _) = ''PluginInternalError''"
| "KbsError_as_ref PolicyDeny = ''PolicyDeny''"
| "KbsError_as_ref (PolicyEngineFailed _) = ''PolicyEngine''"
| "KbsError_as_ref (RvpsError _) = ''RvpsError''"
| "KbsError_as_ref SerdeError = ''SerdeError''"
| "KbsError_as_ref TokenNotFound = ''TokenNotFound''"
| "KbsError_as_ref (TokenVerifierError _) = ''TokenVerifierError''"
| "KbsError_as_ref PrometheusError = ''PrometheusError''"

text \<open>
  The response: its status and the error type of its body; \<open>detail\<close> is the display text and
  \<open>serialize\<close> the JSON printer, whose failure would panic.
\<close>

definition error_response ::
    "(string \<Rightarrow> string \<Rightarrow> string option) \<Rightarrow> (KbsError \<Rightarrow> string) \<Rightarrow> KbsError \<Rightarrow>
     ('e, HttpResponse) outcome" where
  "error_response serialize detail e =
     (case serialize (ERROR_TYPE_PREFIX @ ''/'' @ KbsError_as_ref e) (detail e) of
        None \<Rightarrow> Panic
      | Some body \<Rightarrow>
          Ok \<lparr>resp_status =
                (case e of InvalidRequestPath _ \<Rightarrow> 404 | PluginNotFound _ \<Rightarrow> 404 | _ \<Rightarrow> 401),
              resp_cookie = None, content_type = None, resp_body = body\<rparr>)"

section \<open>The plugin manager\<close>

text \<open>
  The plugins of the default build; \<open>make_storage\<close> is the construction of a resource storage from its
  configuration \<open>'r\<close>, which may change the file system.
\<close>

datatype 'r PluginsConfig = Sample string | ResourceStorage 'r

fun PluginsConfig_to_string :: "'r PluginsConfig \<Rightarrow> string" where
  "PluginsConfig_to_string (Sample _) = ''sample''"
| "PluginsConfig_to_string (ResourceStorage _) = ''resource''"

fun PluginsConfig_try_into ::
    "('r \<Rightarrow> 'f \<Rightarrow> (anyhow, 's StorageBackend) outcome \<times> 'f) \<Rightarrow> 'r PluginsConfig \<Rightarrow> 'f \<Rightarrow>
     (anyhow, 's ClientPlugin) outcome \<times> 'f" where
  "PluginsConfig_try_into make_storage (Sample item) f = (Ok sample_plugin, f)"
| "PluginsConfig_try_into make_storage (ResourceStorage config) f =
     (let (r, f') = make_storage config f in
      (map_ok resource_plugin (map_err (\<lambda>e. Message ''Initialize 'Resource' plugin failed'') r), f'))"

type_synonym 's PluginManager = "(string \<times> 's ClientPlugin) list"

text \<open>Collecting into the map: a later plugin of the same name replaces the earlier one; an error ends it.\<close>

fun PluginManager_try_from ::
    "('r \<Rightarrow> 'f \<Rightarrow> (anyhow, 's StorageBackend) outcome \<times> 'f) \<Rightarrow> 's PluginManager \<Rightarrow> 'r PluginsConfig list \<Rightarrow> 'f \<Rightarrow>
     (anyhow, 's PluginManager) outcome \<times> 'f" where
  "PluginManager_try_from make_storage m [] f = (Ok m, f)"
| "PluginManager_try_from make_storage m (c # cs) f =
     then_st (PluginsConfig_try_into make_storage c f) (\<lambda>plugin f.
       PluginManager_try_from make_storage (AList.update (PluginsConfig_to_string c) plugin m) cs f)"

definition PluginManager_get :: "'s PluginManager \<Rightarrow> string \<Rightarrow> 's ClientPlugin option" where
  "PluginManager_get m name = map_of m name"

section \<open>The server\<close>

record ('k, 'x, 's) ApiServer =
  plugin_manager :: "'s PluginManager"
  policy_engine :: Opa
  admin :: "'k Admin"
  verifier :: "'x TokenVerifier"

text \<open>What a request can change: the attestation service, the policy file, the plugins' state.\<close>

record ('i, 's) server_state =
  attestation_service :: "'i AttestationService"
  files :: fs
  plugin_state :: 's

text \<open>The packages and services the handler calls.\<close>

record ('ver, 'i, 'k, 'e, 'v, 'pk, 'x, 'a, 'd) kbs_env =
  codec :: "'ver kbs_codec"
  attester :: "'i Attest"
  jwt :: "'k jwt_simple"
  rego :: "('e, 'v) opa_regorus"
  enc :: encodings
  tokens :: "('pk, 'x, 'a, 'd) token_crates"
  tee_pub_key_deserialize :: "json \<Rightarrow> TeePubKey option"
  jwe_encrypt :: "TeePubKey \<Rightarrow> bytes \<Rightarrow> (string, string option) outcome"
  kbs_io :: io_env

definition get_attestation_token ::
    "'i AttestationService \<Rightarrow> int \<Rightarrow> HttpRequest \<Rightarrow> (string, string) outcome" where
  "get_attestation_token svc now request =
     (case get_attest_token_from_session (session_map svc) now request of
        Ok token \<Rightarrow> Ok token
      | Panic \<Rightarrow> Panic
      | Err _ \<Rightarrow> ok_or ''parse Authorization header failed'' (bearer request))"

text \<open>\<open>q\<close> lists the query map in the order of its keys, as \<^verbatim>\<open>json!\<close> prints it.\<close>

definition policy_data :: "string \<Rightarrow> string list \<Rightarrow> query \<Rightarrow> json" where
  "policy_data plugin resource_path q =
     JObject [(''plugin'', JString plugin), (''query'', JObject (map (\<lambda>(k, v). (k, JString v)) q)),
              (''resource-path'', JArray (map JString resource_path))]"

definition http_ok :: "string option \<Rightarrow> string \<Rightarrow> HttpResponse" where
  "http_ok ct body = \<lparr>resp_status = 200, resp_cookie = None, content_type = ct, resp_body = body\<rparr>"

text \<open>Administrative calls first validate the administrator.\<close>

definition admin_call ::
    "('ver, 'i, 'k, 'e, 'v, 'pk, 'x, 'a, 'd) kbs_env \<Rightarrow> ('k, 'x, 's) ApiServer \<Rightarrow> int \<Rightarrow> HttpRequest \<Rightarrow>
     ('i, 's) server_state \<Rightarrow>
     (('i, 's) server_state \<Rightarrow> (KbsError, HttpResponse) outcome \<times> ('i, 's) server_state) \<Rightarrow>
     (KbsError, HttpResponse) outcome \<times> ('i, 's) server_state" where
  "admin_call W core now request s k =
     (case map_err AdminAuth (validate_admin_token (jwt W) (admin core) now request) of
        Ok _ \<Rightarrow> k s
      | Err e \<Rightarrow> (Err e, s)
      | Panic \<Rightarrow> (Panic, s))"

text \<open>A challenge that could not be serialised would be answered by an internal server error.\<close>

definition api_auth ::
    "('ver, 'i, 'k, 'e, 'v, 'pk, 'x, 'a, 'd) kbs_env \<Rightarrow> string \<Rightarrow> int \<Rightarrow> bytes \<Rightarrow> ('i, 's) server_state \<Rightarrow>
     (KbsError, HttpResponse) outcome \<times> ('i, 's) server_state" where
  "api_auth W uuid now body s =
     (let (r, svc) = auth (codec W) (attester W) (attestation_service s) uuid now body in
      (and_then (map_err AttestationFailed r) (\<lambda>(c, challenge).
         (case value_to_string (codec W) challenge of
            None \<Rightarrow> Ok \<lparr>resp_status = 500, resp_cookie = None, content_type = None, resp_body = []\<rparr>
          | Some b \<Rightarrow> Ok \<lparr>resp_status = 200, resp_cookie = Some c,
                          content_type = Some ''application/json'', resp_body = b\<rparr>)),
       s\<lparr>attestation_service := svc\<rparr>))"

definition api_attest ::
    "('ver, 'i, 'k, 'e, 'v, 'pk, 'x, 'a, 'd) kbs_env \<Rightarrow> int \<Rightarrow> HttpRequest \<Rightarrow> bytes \<Rightarrow> ('i, 's) server_state \<Rightarrow>
     (KbsError, HttpResponse) outcome \<times> ('i, 's) server_state" where
  "api_attest W now request body s =
     (let (r, svc) = attest (codec W) (attester W) (attestation_service s) now body request in
      (map_err AttestationFailed r, s\<lparr>attestation_service := svc\<rparr>))"

definition api_set_attestation_policy ::
    "('ver, 'i, 'k, 'e, 'v, 'pk, 'x, 'a, 'd) kbs_env \<Rightarrow> bytes \<Rightarrow> ('i, 's) server_state \<Rightarrow>
     (KbsError, HttpResponse) outcome \<times> ('i, 's) server_state" where
  "api_set_attestation_policy W body s =
     (let (r, svc) = set_policy_request (codec W) (attester W) (attestation_service s) body in
      (and_then (map_err AttestationFailed r) (\<lambda>_. Ok (http_ok None [])),
       s\<lparr>attestation_service := svc\<rparr>))"

definition api_query_reference_value ::
    "('ver, 'i, 'k, 'e, 'v, 'pk, 'x, 'a, 'd) kbs_env \<Rightarrow> string list \<Rightarrow> ('i, 's) server_state \<Rightarrow>
     (KbsError, HttpResponse) outcome \<times> ('i, 's) server_state" where
  "api_query_reference_value W resource_path s =
     (and_then (map_err (\<lambda>e. RvpsError (''Failed to get reference_values: '' @ e))
        (query_reference_value_string (codec W) (attester W) (attestation_service s)
           (join_slash resource_path)))
        (\<lambda>b. Ok (http_ok (Some ''application/json'') b)),
      s)"

text \<open>The registration answers \<^verbatim>\<open>()\<close>, which \<^verbatim>\<open>serde_json\<close> prints; the text is dropped.\<close>

definition api_register_reference_value ::
    "('ver, 'i, 'k, 'e, 'v, 'pk, 'x, 'a, 'd) kbs_env \<Rightarrow> bytes \<Rightarrow> ('i, 's) server_state \<Rightarrow>
     (KbsError, HttpResponse) outcome \<times> ('i, 's) server_state" where
  "api_register_reference_value W body s =
     (case from_utf8 body of
        None \<Rightarrow> (Err (RvpsError ''Failed to parse reference value message''), s)
      | Some message \<Rightarrow>
          (let (r, svc) = register_reference_value (attester W) (attestation_service s) message in
           (and_then (map_err (\<lambda>e. RvpsError (''Failed to register reference value: '' @ e)) r) (\<lambda>_.
            and_then (ok_or SerdeError (value_to_string (codec W) JNull)) (\<lambda>_.
              Ok (http_ok (Some ''application/json'') []))),
            s\<lparr>attestation_service := svc\<rparr>)))"

definition api_set_resource_policy ::
    "('ver, 'i, 'k, 'e, 'v, 'pk, 'x, 'a, 'd) kbs_env \<Rightarrow> ('k, 'x, 's) ApiServer \<Rightarrow> bytes \<Rightarrow>
     ('i, 's) server_state \<Rightarrow> (KbsError, HttpResponse) outcome \<times> ('i, 's) server_state" where
  "api_set_resource_policy W core body s =
     (let (r, f) = engine_set_policy (rego W) (enc W) (kbs_io W) (policy_engine core) (files s) body in
      (and_then (map_err PolicyEngineFailed r) (\<lambda>_. Ok (http_ok None [])), s\<lparr>files := f\<rparr>))"

definition api_get_resource_policy ::
    "('ver, 'i, 'k, 'e, 'v, 'pk, 'x, 'a, 'd) kbs_env \<Rightarrow> ('k, 'x, 's) ApiServer \<Rightarrow>
     ('i, 's) server_state \<Rightarrow> (KbsError, HttpResponse) outcome \<times> ('i, 's) server_state" where
  "api_get_resource_policy W core s =
     (and_then (map_err PolicyEngineFailed
        (opa_get_policy (enc W) (kbs_io W) (policy_engine core) (files s)))
        (\<lambda>policy. Ok (http_ok (Some ''text/xml'') policy)),
      s)"

text \<open>A plugin call authorised by the administrator.\<close>

definition plugin_admin_call ::
    "'s ClientPlugin \<Rightarrow> bytes \<Rightarrow> query \<Rightarrow> string list \<Rightarrow> string \<Rightarrow> ('i, 's) server_state \<Rightarrow>
     (KbsError, HttpResponse) outcome \<times> ('i, 's) server_state" where
  "plugin_admin_call P body q resource_path method s =
     (let (r, t) = plugin_handle P (plugin_state s) body q resource_path method in
      (and_then (map_err PluginInternalError r) (\<lambda>response.
         Ok (http_ok (Some ''text/xml'') (str_of response))),
       s\<lparr>plugin_state := t\<rparr>))"

text \<open>The claims of the request, once its token is verified and the policy allows it.\<close>

definition authorized_claims ::
    "('ver, 'i, 'k, 'e, 'v, 'pk, 'x, 'a, 'd) kbs_env \<Rightarrow> ('k, 'x, 's) ApiServer \<Rightarrow> int \<Rightarrow> HttpRequest \<Rightarrow>
     string \<Rightarrow> ('i, 's) server_state \<Rightarrow> (KbsError, json) outcome" where
  "authorized_claims W core now request policy_data_str s =
     and_then (map_err (\<lambda>_. TokenNotFound) (get_attestation_token (attestation_service s) now request)) (\<lambda>token.
     and_then (map_err TokenVerifierError (TokenVerifier_verify (tokens W) (enc W) (verifier core) token)) (\<lambda>claims.
     and_then (ok_or SerdeError (value_to_string (codec W) claims)) (\<lambda>claim_str.
     and_then (map_err PolicyEngineFailed
       (opa_evaluate (rego W) (policy_engine core) (files s) policy_data_str claim_str)) (\<lambda>allowed.
       if \<not> allowed then Err PolicyDeny else Ok claims))))"

definition seal_response ::
    "('ver, 'i, 'k, 'e, 'v, 'pk, 'x, 'a, 'd) kbs_env \<Rightarrow> ('k, 'x, 's) ApiServer \<Rightarrow> json \<Rightarrow> bytes \<Rightarrow> bool \<Rightarrow>
     (KbsError, HttpResponse) outcome" where
  "seal_response W core claims response encrypted =
     (if encrypted then
        and_then (map_err TokenVerifierError
          (extract_tee_public_key (enc W) (tee_pub_key_deserialize W) (verifier core) claims)) (\<lambda>pk.
        and_then (map_err JweError (jwe_encrypt W pk response)) (\<lambda>jwe.
        and_then (ok_or SerdeError jwe) (\<lambda>res.
          Ok (http_ok (Some ''application/json'') res))))
      else Ok (http_ok (Some ''text/xml'') (str_of response)))"

definition plugin_token_call ::
    "('ver, 'i, 'k, 'e, 'v, 'pk, 'x, 'a, 'd) kbs_env \<Rightarrow> ('k, 'x, 's) ApiServer \<Rightarrow> 's ClientPlugin \<Rightarrow> int \<Rightarrow>
     HttpRequest \<Rightarrow> string \<Rightarrow> bytes \<Rightarrow> query \<Rightarrow> string list \<Rightarrow> ('i, 's) server_state \<Rightarrow>
     (KbsError, HttpResponse) outcome \<times> ('i, 's) server_state" where
  "plugin_token_call W core P now request policy_data_str body q resource_path s =
     (case authorized_claims W core now request policy_data_str s of
        Ok claims \<Rightarrow>
          (let (r, t) = plugin_handle P (plugin_state s) body q resource_path (req_method request) in
           (and_then (map_err PluginInternalError r) (\<lambda>response.
            and_then (map_err PluginInternalError
              (plugin_encrypted P body q resource_path (req_method request))) (\<lambda>encrypted.
              seal_response W core claims response encrypted)),
            s\<lparr>plugin_state := t\<rparr>))
      | Err e \<Rightarrow> (Err e, s)
      | Panic \<Rightarrow> (Panic, s))"

definition api_plugin ::
    "('ver, 'i, 'k, 'e, 'v, 'pk, 'x, 'a, 'd) kbs_env \<Rightarrow> ('k, 'x, 's) ApiServer \<Rightarrow> int \<Rightarrow> HttpRequest \<Rightarrow>
     string \<Rightarrow> string \<Rightarrow> bytes \<Rightarrow> query \<Rightarrow> string list \<Rightarrow> ('i, 's) server_state \<Rightarrow>
     (KbsError, HttpResponse) outcome \<times> ('i, 's) server_state" where
  "api_plugin W core now request policy_data_str plugin_name body q resource_path s =
     (case PluginManager_get (plugin_manager core) plugin_name of
        None \<Rightarrow> (Err (PluginNotFound plugin_name), s)
      | Some P \<Rightarrow>
          (case map_err PluginInternalError
                  (plugin_validate_auth P body q resource_path (req_method request)) of
             Ok needs_admin \<Rightarrow>
               if needs_admin
               then admin_call W core now request s
                      (plugin_admin_call P body q resource_path (req_method request))
               else plugin_token_call W core P now request policy_data_str body q resource_path s
           | Err e \<Rightarrow> (Err e, s)
           | Panic \<Rightarrow> (Panic, s)))"

text \<open>
  The handler. \<open>uuid\<close> is the id of a session it may open. The JSON text of the policy data is computed
  first; \<^verbatim>\<open>Value::to_string\<close> does not fail.
\<close>

definition api ::
    "('ver, 'i, 'k, 'e, 'v, 'pk, 'x, 'a, 'd) kbs_env \<Rightarrow> (json \<Rightarrow> string) \<Rightarrow> ('k, 'x, 's) ApiServer \<Rightarrow>
     string \<Rightarrow> int \<Rightarrow> HttpRequest \<Rightarrow> bytes \<Rightarrow> string \<Rightarrow> query \<Rightarrow> ('i, 's) server_state \<Rightarrow>
     (KbsError, HttpResponse) outcome \<times> ('i, 's) server_state" where
  "api W print core uuid now request body path q s =
     (case split_on CHR ''/'' path of
        [] \<Rightarrow> (Err (InvalidRequestPath path), s)
      | plugin # resource_path \<Rightarrow>
          (let post = (req_method request = ''POST'');
               get = (req_method request = ''GET'');
               policy_data_str = print (policy_data plugin resource_path q)
           in
           if plugin = ''auth'' \<and> post then api_auth W uuid now body s
           else if plugin = ''attest'' \<and> post then api_attest W now request body s
           else if plugin = ''attestation-policy'' \<and> post then
             admin_call W core now request s (api_set_attestation_policy W body)
           else if plugin = ''reference-value'' \<and> get then
             admin_call W core now request s (api_query_reference_value W resource_path)
           else if plugin = ''reference-value'' \<and> post then
             admin_call W core now request s (api_register_reference_value W body)
           else if plugin = ''resource-policy'' \<and> post then
             admin_call W core now request s (api_set_resource_policy W core body)
           else if plugin = ''resource-policy'' \<and> get then
             admin_call W core now request s (api_get_resource_policy W core)
           else api_plugin W core now request policy_data_str plugin body q resource_path s))"

end
