(* ===== verification/Kbs_Api_Properties.thy ===== *)
theory Kbs_Api_Properties
  imports Kbs_Api
begin

text \<open>
  What the request handler of the Key Broker Service guarantees: who can read and change what, that
  resources leave the server only sealed to the key of a verified token, and that the local
  repository cannot be left by a request path.
\<close>

section \<open>Routing\<close>

abbreviation route :: "string \<Rightarrow> string" where
  "route p \<equiv> hd (split_on CHR ''/'' p)"

abbreviation route_path :: "string \<Rightarrow> string list" where
  "route_path p \<equiv> tl (split_on CHR ''/'' p)"

text \<open>A request the server answers itself, without a plugin.\<close>

definition builtin :: "HttpRequest \<Rightarrow> string \<Rightarrow> bool" where
  "builtin request p \<longleftrightarrow>
     req_method request = ''POST'' \<and>
       route p \<in> {''auth'', ''attest'', ''attestation-policy'', ''reference-value'', ''resource-policy''} \<or>
     req_method request = ''GET'' \<and> route p \<in> {''reference-value'', ''resource-policy''}"

lemma split_route: "split_on CHR ''/'' p = route p # route_path p"
  by (cases "split_on CHR ''/'' p") simp_all

lemma api_route:
  "api W print core uuid now request body p q s =
    (if route p = ''auth'' \<and> req_method request = ''POST'' then api_auth W uuid now body s
     else if route p = ''attest'' \<and> req_method request = ''POST'' then api_attest W now request body s
     else if route p = ''attestation-policy'' \<and> req_method request = ''POST'' then
       admin_call W core now request s (api_set_attestation_policy W body)
     else if route p = ''reference-value'' \<and> req_method request = ''GET'' then
       admin_call W core now request s (api_query_reference_value W (route_path p))
     else if route p = ''reference-value'' \<and> req_method request = ''POST'' then
       admin_call W core now request s (api_register_reference_value W body)
     else if route p = ''resource-policy'' \<and> req_method request = ''POST'' then
       admin_call W core now request s (api_set_resource_policy W core body)
     else if route p = ''resource-policy'' \<and> req_method request = ''GET'' then
       admin_call W core now request s (api_get_resource_policy W core)
     else api_plugin W core now request (print (policy_data (route p) (route_path p) q)) (route p) body q
           (route_path p) s)"
  unfolding api_def by (subst split_route) (simp only: list.case Let_def)

lemma api_cases:
  obtains (auth) "req_method request = ''POST''" "route p = ''auth''"
      "api W print core uuid now request body p q s = api_auth W uuid now body s"
  | (attest) "req_method request = ''POST''" "route p = ''attest''"
      "api W print core uuid now request body p q s = api_attest W now request body s"
  | (attestation_policy) "req_method request = ''POST''" "route p = ''attestation-policy''"
      "api W print core uuid now request body p q s =
         admin_call W core now request s (api_set_attestation_policy W body)"
  | (query_rv) "req_method request = ''GET''" "route p = ''reference-value''"
      "api W print core uuid now request body p q s =
         admin_call W core now request s (api_query_reference_value W (route_path p))"
  | (register_rv) "req_method request = ''POST''" "route p = ''reference-value''"
      "api W print core uuid now request body p q s =
         admin_call W core now request s (api_register_reference_value W body)"
  | (set_policy) "req_method request = ''POST''" "route p = ''resource-policy''"
      "api W print core uuid now request body p q s =
         admin_call W core now request s (api_set_resource_policy W core body)"
  | (get_policy) "req_method request = ''GET''" "route p = ''resource-policy''"
      "api W print core uuid now request body p q s =
         admin_call W core now request s (api_get_resource_policy W core)"
  | (plugin) "\<not> builtin request p"
      "api W print core uuid now request body p q s =
         api_plugin W core now request (print (policy_data (route p) (route_path p) q)) (route p) body q
           (route_path p) s"
proof (cases "builtin request p")
  case True
  from True consider
      "req_method request = ''POST''" "route p = ''auth''"
    | "req_method request = ''POST''" "route p = ''attest''"
    | "req_method request = ''POST''" "route p = ''attestation-policy''"
    | "req_method request = ''GET''" "route p = ''reference-value''"
    | "req_method request = ''POST''" "route p = ''reference-value''"
    | "req_method request = ''POST''" "route p = ''resource-policy''"
    | "req_method request = ''GET''" "route p = ''resource-policy''"
    by (auto simp: builtin_def)
  then show thesis
  proof cases
    case 1
    then show thesis using auth by (simp add: api_route)
  next
    case 2
    then show thesis using attest by (simp add: api_route)
  next
    case 3
    then show thesis using attestation_policy by (simp add: api_route)
  next
    case 4
    then show thesis using query_rv by (simp add: api_route)
  next
    case 5
    then show thesis using register_rv by (simp add: api_route)
  next
    case 6
    then show thesis using set_policy by (simp add: api_route)
  next
    case 7
    then show thesis using get_policy by (simp add: api_route)
  qed
next
  case False
  have other:
    "(route p = ''auth'' \<and> req_method request = ''POST'') = False"
    "(route p = ''attest'' \<and> req_method request = ''POST'') = False"
    "(route p = ''attestation-policy'' \<and> req_method request = ''POST'') = False"
    "(route p = ''reference-value'' \<and> req_method request = ''GET'') = False"
    "(route p = ''reference-value'' \<and> req_method request = ''POST'') = False"
    "(route p = ''resource-policy'' \<and> req_method request = ''POST'') = False"
    "(route p = ''resource-policy'' \<and> req_method request = ''GET'') = False"
    using False unfolding builtin_def by blast+
  have "api W print core uuid now request body p q s =
      api_plugin W core now request (print (policy_data (route p) (route_path p) q)) (route p) body q
        (route_path p) s"
    unfolding api_route by (simp only: other if_False)
  with False show thesis by (rule plugin)
qed

section \<open>Authorisation\<close>

abbreviation admin_ok :: "('ver, 'i, 'k, 'e, 'v, 'pk, 'x, 'a, 'd) kbs_env \<Rightarrow> ('k, 'x, 's) ApiServer \<Rightarrow> int \<Rightarrow>
    HttpRequest \<Rightarrow> bool" where
  "admin_ok W core now request \<equiv>
     validate_admin_token (jwt W) (admin core) now request = Ok ()"

lemma admin_call_cases:
  obtains (granted) "admin_ok W core now request" "admin_call W core now request s k = k s"
  | (refused) e where "validate_admin_token (jwt W) (admin core) now request = Err e"
      "admin_call W core now request s k = (Err (AdminAuth e), s)"
  | (panic) "validate_admin_token (jwt W) (admin core) now request = Panic"
      "admin_call W core now request s k = (Panic, s)"
  by (cases "validate_admin_token (jwt W) (admin core) now request")
    (simp_all add: admin_call_def that)

text \<open>The token of the request is verified and the policy allows this plugin, path and query.\<close>

definition token_allows ::
    "('ver, 'i, 'k, 'e, 'v, 'pk, 'x, 'a, 'd) kbs_env \<Rightarrow> (json \<Rightarrow> string) \<Rightarrow> ('k, 'x, 's) ApiServer \<Rightarrow> int \<Rightarrow>
     HttpRequest \<Rightarrow> string \<Rightarrow> query \<Rightarrow> ('i, 's) server_state \<Rightarrow> json \<Rightarrow> bool" where
  "token_allows W print core now request p q s claims \<longleftrightarrow>
     (\<exists>token claim_str.
        get_attestation_token (attestation_service s) now request = Ok token \<and>
        TokenVerifier_verify (tokens W) (enc W) (verifier core) token = Ok claims \<and>
        value_to_string (codec W) claims = Some claim_str \<and>
        opa_evaluate (rego W) (policy_engine core) (files s)
          (print (policy_data (route p) (route_path p) q)) claim_str = Ok True)"

lemma authorized_claims_iff:
  "authorized_claims W core now request (print (policy_data (route p) (route_path p) q)) s = Ok claims \<longleftrightarrow>
     token_allows W print core now request p q s claims"
  by (auto simp: authorized_claims_def token_allows_def outcome_iff split: if_splits)

lemma api_plugin_cases:
  obtains (missing) "PluginManager_get (plugin_manager core) n = None"
      "api_plugin W core now request pd n body q rp s = (Err (PluginNotFound n), s)"
  | (failed) r where "api_plugin W core now request pd n body q rp s = (r, s)" "\<And>resp. r \<noteq> Ok resp"
      "\<And>e. r = Err e \<Longrightarrow> \<exists>e'. e = PluginInternalError e'"
  | (by_admin) P where "PluginManager_get (plugin_manager core) n = Some P"
      "plugin_validate_auth P body q rp (req_method request) = Ok True"
      "api_plugin W core now request pd n body q rp s =
         admin_call W core now request s (plugin_admin_call P body q rp (req_method request))"
  | (by_token) P where "PluginManager_get (plugin_manager core) n = Some P"
      "plugin_validate_auth P body q rp (req_method request) = Ok False"
      "api_plugin W core now request pd n body q rp s =
         plugin_token_call W core P now request pd body q rp s"
proof (cases "PluginManager_get (plugin_manager core) n")
  case None
  then show thesis using missing by (simp add: api_plugin_def)
next
  case (Some P)
  show thesis
  proof (cases "plugin_validate_auth P body q rp (req_method request)")
    case (Ok b)
    then show thesis using Some by_admin by_token by (cases b) (simp_all add: api_plugin_def)
  next
    case (Err e)
    then show thesis using Some failed [of "Err (PluginInternalError e)"] by (simp add: api_plugin_def)
  next
    case Panic
    then show thesis using Some failed [of Panic] by (simp add: api_plugin_def)
  qed
qed

lemma plugin_token_call_cases:
  obtains (denied) r where "plugin_token_call W core P now request pd body q rp s = (r, s)"
      "\<And>resp. r \<noteq> Ok resp"
  | (allowed) claims r t where "authorized_claims W core now request pd s = Ok claims"
      "plugin_handle P (plugin_state s) body q rp (req_method request) = (r, t)"
      "plugin_token_call W core P now request pd body q rp s =
         (and_then (map_err PluginInternalError r) (\<lambda>response.
            and_then (map_err PluginInternalError
              (plugin_encrypted P body q rp (req_method request))) (\<lambda>encrypted.
              seal_response W core claims response encrypted)), s\<lparr>plugin_state := t\<rparr>)"
proof (cases "authorized_claims W core now request pd s")
  case (Ok claims)
  then show thesis
    using allowed by (cases "plugin_handle P (plugin_state s) body q rp (req_method request)")
      (simp add: plugin_token_call_def)
next
  case (Err e)
  then show thesis using denied [of "Err e"] by (simp add: plugin_token_call_def)
next
  case Panic
  then show thesis using denied [of Panic] by (simp add: plugin_token_call_def)
qed


section \<open>Frames\<close>

lemma api_frames:
  "files (snd (api_auth W uuid now body s)) = files s"
  "plugin_state (snd (api_auth W uuid now body s)) = plugin_state s"
  "files (snd (api_attest W now request body s)) = files s"
  "plugin_state (snd (api_attest W now request body s)) = plugin_state s"
  "files (snd (api_set_attestation_policy W body s)) = files s"
  "plugin_state (snd (api_set_attestation_policy W body s)) = plugin_state s"
  "files (snd (api_register_reference_value W body s)) = files s"
  "plugin_state (snd (api_register_reference_value W body s)) = plugin_state s"
  "attestation_service (snd (api_set_resource_policy W core body s)) = attestation_service s"
  "plugin_state (snd (api_set_resource_policy W core body s)) = plugin_state s"
  "snd (api_query_reference_value W rp s) = s"
  "snd (api_get_resource_policy W core s) = s"
  by (simp_all add: api_auth_def api_attest_def api_set_attestation_policy_def
      api_register_reference_value_def api_set_resource_policy_def api_query_reference_value_def
      api_get_resource_policy_def Let_def split: prod.split option.split)

lemma inner_auth: "inner (snd (auth J A self uuid now body)) = inner self"
  by (simp add: auth_def split: outcome.split)

lemma inner_attest: "inner (snd (attest J A self now body request)) = inner self"
  by (simp add: attest_def split: outcome.split attest_progress.split prod.split)

lemma api_inner:
  "inner (attestation_service (snd (api_auth W uuid now body s))) = inner (attestation_service s)"
  "inner (attestation_service (snd (api_attest W now request body s))) = inner (attestation_service s)"
  using inner_auth [of "codec W" "attester W" "attestation_service s" uuid now body]
    inner_attest [of "codec W" "attester W" "attestation_service s" now body request]
  by (simp_all add: api_auth_def api_attest_def Let_def split_beta)

lemma admin_call_frame:
  "admin_ok W core now request \<or> snd (admin_call W core now request s k) = s"
  by (cases rule: admin_call_cases [of W core now request s k]) simp_all

lemma plugin_frame:
  assumes "api_plugin W core now request pd n body q rp s = (r, s')"
  shows "attestation_service s' = attestation_service s" "files s' = files s"
    "plugin_state s' \<noteq> plugin_state s \<Longrightarrow>
       admin_ok W core now request \<or> (\<exists>claims. authorized_claims W core now request pd s = Ok claims)"
proof -
  have admin: "attestation_service (snd (plugin_admin_call P body q rp m s)) = attestation_service s"
    "files (snd (plugin_admin_call P body q rp m s)) = files s" for P m
    by (simp_all add: plugin_admin_call_def Let_def split: prod.split)
  have "attestation_service s' = attestation_service s \<and> files s' = files s \<and>
    (plugin_state s' \<noteq> plugin_state s \<longrightarrow>
       admin_ok W core now request \<or> (\<exists>claims. authorized_claims W core now request pd s = Ok claims))"
  proof (cases rule: api_plugin_cases [of core n W now request pd body q rp s])
    case (by_admin P)
    show ?thesis
      by (cases rule: admin_call_cases [of W core now request s
            "plugin_admin_call P body q rp (req_method request)"])
        (use assms by_admin admin [of P "req_method request"] in \<open>auto\<close>)
  next
    case (by_token P)
    show ?thesis
      by (cases rule: plugin_token_call_cases [of W core P now request pd body q rp s])
        (use assms by_token in auto)
  qed (use assms in auto)
  then show "attestation_service s' = attestation_service s" "files s' = files s"
    "plugin_state s' \<noteq> plugin_state s \<Longrightarrow>
       admin_ok W core now request \<or> (\<exists>claims. authorized_claims W core now request pd s = Ok claims)"
    by blast+
qed


section \<open>A sample server\<close>

text \<open>
  One administrator key, one accepted bearer token, a policy that allows everything when its file
  holds one byte, and the resource plugin on a local repository.
\<close>

definition demo_codec :: "unit kbs_codec" where
  "demo_codec =
     \<lparr>request_from_slice = (\<lambda>_. None), version_parse = (\<lambda>_. None), version_req_matches = (\<lambda>_. True),
      attestation_from_slice = (\<lambda>_. None), attestation_to_string = (\<lambda>_. None),
      additional_from_str = (\<lambda>_. None), tee_to_string = (\<lambda>_. None), value_to_string = (\<lambda>_. Some []),
      set_policy_from_slice = (\<lambda>_. None)\<rparr>"

definition demo_attest :: "unit Attest" where
  "demo_attest =
     \<lparr>as_set_policy = (\<lambda>i _ _. (Ok (), i)), as_verify = (\<lambda>i evs. Err []),
      as_generate_challenge = (\<lambda>i _ _. Err []),
      as_register_reference_value = (\<lambda>i _. (Ok (), i)),
      as_query_reference_value = (\<lambda>i _. Ok None)\<rparr>"

definition demo_jwt :: "string jwt_simple" where
  "demo_jwt =
     \<lparr>key_from_pem = Ok, verify_token = (\<lambda>k now t. if t = k then Ok () else Err ''bad signature'')\<rparr>"

definition demo_rego :: "(bytes, unit) opa_regorus" where
  "demo_rego =
     \<lparr>rego_new = [], rego_add_policy = (\<lambda>e n p. if p = [] then Err [] else Ok (bytes_of p)),
      rego_value_from_json = (\<lambda>_. Ok ()), rego_add_data = (\<lambda>e _. Ok e),
      rego_set_input = (\<lambda>e _. Ok e), rego_eval_rule = (\<lambda>e _. Ok ()), rego_value_to_json = (\<lambda>_. Ok []),
      rego_add_policy_from_file =
        (\<lambda>e f p. case map_of f p of
           Some (FileNode b) \<Rightarrow> if valid_utf8 b then (if b = [] then Err [] else Ok b) else Err []
         | _ \<Rightarrow> Err []),
      rego_eval_bool_query = (\<lambda>e _ _. Ok (length e = 1))\<rparr>"

definition demo_enc :: encodings where
  "demo_enc =
     \<lparr>b64_encode = str_of, b64_decode = (\<lambda>s. Some (bytes_of s)),
      json_from_slice = (\<lambda>b. Some (JObject [(''policy'', JString (str_of b))])),
      json_pointer = (\<lambda>v p. case v of JObject kvs \<Rightarrow> map_of kvs (drop 1 p) | _ \<Rightarrow> None)\<rparr>"

definition demo_key :: Jwk where
  "demo_key = \<lparr>key_algorithm = Some ''EdDSA'', key_id = Some ''k'', x509_chain = None, algorithm = Other_params\<rparr>"

abbreviation demo_claims :: json where
  "demo_claims \<equiv> JObject [(''tee-pubkey'', JString ''pub'')]"

definition demo_tokens :: "(unit, unit, unit, unit) token_crates" where
  "demo_tokens =
     \<lparr>rsa_pkey = (\<lambda>_ _. Ok ()), ec_p256_pkey = (\<lambda>_ _. Ok ()), x509_from_der = (\<lambda>_. Ok ()),
      x509_from_pem = (\<lambda>_. Ok ()), x509_public_key = (\<lambda>_. Ok ()), public_eq = (\<lambda>_ _. True),
      verify_cert = (\<lambda>ts l c. Ok (ts \<noteq> [])),
      decode_header = (\<lambda>_. Ok \<lparr>header_jwk = None, header_kid = Some ''k''\<rparr>),
      algorithm_from_str = (\<lambda>_. Ok ()), decoding_key_from_jwk = (\<lambda>_. Ok ()),
      decode_token = (\<lambda>t _ _. if t = ''good'' then Ok demo_claims else Err ''bad signature''),
      url_parse = (\<lambda>_. Err []), url_set_path = (\<lambda>u p. u), http_get = (\<lambda>_. Err []),
      oidc_jwks_uri = (\<lambda>_. Err []), jwkset_from_slice = (\<lambda>_. Ok [demo_key])\<rparr>"

definition demo_env :: "(unit, unit, string, bytes, unit, unit, unit, unit, unit) kbs_env" where
  "demo_env =
     \<lparr>codec = demo_codec, attester = demo_attest, jwt = demo_jwt, rego = demo_rego, enc = demo_enc,
      tokens = demo_tokens, tee_pub_key_deserialize = (\<lambda>v. Some (RSA [] [] [])),
      jwe_encrypt = (\<lambda>k b. Ok (Some (''sealed:'' @ str_of b))), kbs_io = no_faults\<rparr>"

definition demo_repo :: LocalFsRepo where
  "demo_repo = \<lparr>repo_dir_path = [''repo'']\<rparr>"

definition demo_core :: "(string, unit, fs) ApiServer" where
  "demo_core =
     \<lparr>plugin_manager = [(''resource'', resource_plugin (repo_backend no_faults demo_repo))],
      policy_engine = \<lparr>policy_path = [''policy'']\<rparr>,
      admin = SimpleAdminBackend [\<lparr>persona_id = ''root'', public_key = ''adminkey''\<rparr>],
      verifier =
        \<lparr>token_verifier = \<lparr>trusted_jwk_sets = [demo_key], trusted_certs = [], insecure_key = False\<rparr>,
         extra_teekey_paths = [TOKEN_TEE_PUBKEY_PATH_VALUE]\<rparr>\<rparr>"

abbreviation demo_path :: path where
  "demo_path \<equiv> [''repo'', ''default'', ''key'', ''1'']"

abbreviation demo_repo_fs :: fs where
  "demo_repo_fs \<equiv>
     [(demo_path, FileNode [42]), ([''repo'', ''default'', ''key''], DirNode),
      ([''repo'', ''default''], DirNode), ([''repo''], DirNode)]"

definition demo_state :: "(unit, fs) server_state" where
  "demo_state =
     \<lparr>attestation_service = \<lparr>inner = (), session_map = [], timeout = 5\<rparr>,
      files = [([''policy''], FileNode [65])], plugin_state = demo_repo_fs\<rparr>"

definition demo_http :: "string \<Rightarrow> string \<Rightarrow> HttpRequest" where
  "demo_http method token = \<lparr>cookies = [], bearer = Some token, req_method = method\<rparr>"

lemmas demo_defs = demo_env_def demo_codec_def demo_attest_def demo_jwt_def demo_rego_def demo_enc_def
  demo_tokens_def demo_core_def demo_state_def demo_http_def demo_key_def demo_repo_def

lemmas demo_run = api_route api_plugin_def PluginManager_get_def resource_plugin_def
  ResourceStorage_validate_auth_def ResourceStorage_encrypted_def ResourceStorage_handle_def
  plugin_token_call_def plugin_admin_call_def admin_call_def validate_admin_token_def simple_validate_def
  authorized_claims_def get_attestation_token_def get_attest_token_from_session_def
  TokenVerifier_verify_def jwk_verify_def get_verification_jwk_def opa_evaluate_def seal_response_def
  extract_tee_public_key_def TOKEN_TEE_PUBKEY_PATH_VALUE_def http_ok_def Let_def
  repo_backend_def repo_read_def read_file_def
  ResourceDesc_try_from_def segment_ok_def seg_char_def ResourceDesc_to_string_def push_path_str_def
  join1_def

lemma demo_utf8 [simp]: "valid_utf8 [65]"
  by (simp add: valid_utf8.simps [of "[65]"] utf8_next_def byte_at_def)

lemma demo_get:
  "api demo_env print demo_core u 0 (demo_http ''GET'' ''good'') [] ''resource/default/key/1'' [] demo_state =
     (Ok (http_ok (Some ''application/json'') ''sealed:*''), demo_state)"
  by (simp add: demo_defs demo_run str_of_def char_of_def bit_0)


section \<open>Who can do what\<close>

text \<open>
  C3. A request the server passes to a plugin succeeds only when the plugin is registered and either
  the plugin asks for an administrator and the request carries a valid administrator token, or it
  does not and the request's attestation token verifies and the resource policy allows exactly this
  plugin, path and query for the claims of that token.
\<close>

theorem plugin_call_authorized:
  assumes "\<not> builtin request p"
    and "api W print core uuid now request body p q s = (Ok resp, s')"
  shows "\<exists>P. PluginManager_get (plugin_manager core) (route p) = Some P \<and>
    (plugin_validate_auth P body q (route_path p) (req_method request) = Ok True \<and>
       admin_ok W core now request \<or>
     plugin_validate_auth P body q (route_path p) (req_method request) = Ok False \<and>
       (\<exists>claims. token_allows W print core now request p q s claims))"
proof -
  let ?pd = "print (policy_data (route p) (route_path p) q)"
  have api: "api_plugin W core now request ?pd (route p) body q (route_path p) s = (Ok resp, s')"
    using assms by (cases rule: api_cases [of request p W print core uuid now body q s])
      (simp_all add: builtin_def)
  show ?thesis
  proof (cases rule: api_plugin_cases [of core "route p" W now request ?pd body q "route_path p" s])
    case (by_admin P)
    then have "admin_ok W core now request"
      by (cases rule: admin_call_cases [of W core now request s
            "plugin_admin_call P body q (route_path p) (req_method request)"]) (use api in simp_all)
    then show ?thesis using by_admin by blast
  next
    case (by_token P)
    show ?thesis
    proof (cases rule: plugin_token_call_cases [of W core P now request ?pd body q "route_path p" s])
      case (denied r)
      then show ?thesis using api by_token denied(2) [of resp] by simp
    next
      case (allowed claims r t)
      then show ?thesis using by_token(1,2) allowed(1) [unfolded authorized_claims_iff [of W core now request print p q s claims]]
        by blast
    qed
  next
    case (failed r)
    then show ?thesis using api failed(2) [of resp] by simp
  qed (use api in simp_all)
qed

theorem plugin_call_authorized_witness:
  "\<exists>P. PluginManager_get (plugin_manager demo_core) (route ''resource/default/key/1'') = Some P \<and>
    (plugin_validate_auth P [] [] (route_path ''resource/default/key/1'') ''GET'' = Ok True \<and>
       admin_ok demo_env demo_core 0 (demo_http ''GET'' ''good'') \<or>
     plugin_validate_auth P [] [] (route_path ''resource/default/key/1'') ''GET'' = Ok False \<and>
       (\<exists>claims. token_allows demo_env (\<lambda>_. []) demo_core 0 (demo_http ''GET'' ''good'')
          ''resource/default/key/1'' [] demo_state claims))"
proof -
  have m: "req_method (demo_http ''GET'' ''good'') = ''GET''" by (simp add: demo_http_def)
  have "\<not> builtin (demo_http ''GET'' ''good'') ''resource/default/key/1''"
    by (simp add: builtin_def demo_http_def)
  from plugin_call_authorized [OF this demo_get] show ?thesis unfolding m .
qed

text \<open>
  C11. Whatever a request answers, it changes only what its sender may change: the resource policy and
  the attestation service's policies and reference values change only in an administrative call with
  a valid administrator token on the endpoint for them, and a plugin's state changes only with a valid
  administrator token or a verified token the policy allows.
\<close>

theorem changes_are_authorized:
  assumes "api W print core uuid now request body p q s = (r, s')"
  shows "(files s' \<noteq> files s \<longrightarrow>
            admin_ok W core now request \<and> route p = ''resource-policy'' \<and> req_method request = ''POST'') \<and>
         (inner (attestation_service s') \<noteq> inner (attestation_service s) \<longrightarrow>
            admin_ok W core now request \<and> route p \<in> {''attestation-policy'', ''reference-value''} \<and>
            req_method request = ''POST'') \<and>
         (plugin_state s' \<noteq> plugin_state s \<longrightarrow>
            \<not> builtin request p \<and>
            (admin_ok W core now request \<or>
             (\<exists>claims. token_allows W print core now request p q s claims)))"
proof -
  have s': "s' = snd (api W print core uuid now request body p q s)" using assms by simp
  show ?thesis
  proof (cases rule: api_cases [of request p W print core uuid now body q s])
    case auth
    then show ?thesis
      using api_frames(1,2) [of W uuid now body s] api_inner(1) [of W uuid now body s] by (simp add: s')
  next
    case attest
    then show ?thesis
      using api_frames(3,4) [of W now request body s] api_inner(2) [of W now request body s] by (simp add: s')
  next
    case attestation_policy
    then show ?thesis
      using api_frames(5,6) [of W body s]
      by (cases rule: admin_call_cases [of W core now request s "api_set_attestation_policy W body"]) (simp_all add: s')
  next
    case query_rv
    then show ?thesis
      using api_frames(11) [of W "route_path p" s]
      by (cases rule: admin_call_cases [of W core now request s "api_query_reference_value W (route_path p)"])
        (simp_all add: s')
  next
    case register_rv
    then show ?thesis
      using api_frames(7,8) [of W body s]
      by (cases rule: admin_call_cases [of W core now request s "api_register_reference_value W body"]) (simp_all add: s')
  next
    case set_policy
    then show ?thesis
      using api_frames(9,10) [of W core body s]
      by (cases rule: admin_call_cases [of W core now request s "api_set_resource_policy W core body"]) (simp_all add: s')
  next
    case get_policy
    then show ?thesis
      using api_frames(12) [of W core s]
      by (cases rule: admin_call_cases [of W core now request s "api_get_resource_policy W core"]) (simp_all add: s')
  next
    case plugin
    then show ?thesis
      using plugin_frame [of W core now request _ _ body q _ s r s'] assms authorized_claims_iff by metis
  qed
qed

lemma demo_set_policy:
  "api demo_env print demo_core u 0 (demo_http ''POST'' ''adminkey'') [65] ''resource-policy'' []
      (demo_state\<lparr>files := []\<rparr>) = (Ok (http_ok None []), demo_state)"
  by (simp add: demo_defs demo_run api_set_resource_policy_def engine_set_policy_def opa_set_policy_def
      as_str_def from_utf8_def write_file_def is_dir_def exists_path_def) (simp add: str_of_def)

theorem changes_are_authorized_witness:
  "files demo_state \<noteq> files (demo_state\<lparr>files := []\<rparr>) \<and>
   admin_ok demo_env demo_core 0 (demo_http ''POST'' ''adminkey'') \<and>
   route ''resource-policy'' = ''resource-policy''"
proof -
  have "files demo_state \<noteq> files (demo_state\<lparr>files := []\<rparr>)" by (simp add: demo_state_def)
  with changes_are_authorized [OF demo_set_policy [of "\<lambda>_. []" "[]"]] show ?thesis by blast
qed


section \<open>Resources\<close>

lemma route_join:
  "route p = n \<Longrightarrow> route_path p \<noteq> [] \<Longrightarrow> p = n @ ''/'' @ join_slash (route_path p)"
  using join_split [of p] split_route [of p] by (cases "route_path p") simp_all

lemma resource_get_call:
  assumes "PluginManager_get (plugin_manager core) ''resource'' = Some (resource_plugin B)"
    and "route p = ''resource''" and "req_method request = ''GET''"
  shows "api W print core uuid now request body p q s =
    plugin_token_call W core (resource_plugin B) now request
      (print (policy_data ''resource'' (route_path p) q)) body q (route_path p) s"
  using assms by (simp add: api_route api_plugin_def resource_plugin_def ResourceStorage_validate_auth_def)

lemma resource_post_call:
  assumes "PluginManager_get (plugin_manager core) ''resource'' = Some (resource_plugin B)"
    and "route p = ''resource''" and "req_method request = ''POST''"
  shows "api W print core uuid now request body p q s =
    admin_call W core now request s (plugin_admin_call (resource_plugin B) body q (route_path p) ''POST'')"
  using assms by (simp add: api_route api_plugin_def resource_plugin_def ResourceStorage_validate_auth_def)

lemma resource_get_handle:
  "plugin_handle (resource_plugin B) t body q rp ''GET'' =
     (and_then (ResourceDesc_try_from (join_slash rp)) (\<lambda>d. read_secret_resource B t d), t)"
  "plugin_encrypted (resource_plugin B) body q rp ''GET'' = Ok True"
  by (simp_all add: resource_plugin_def ResourceStorage_handle_def ResourceStorage_encrypted_def Let_def)

lemma resource_get_value:
  assumes "PluginManager_get (plugin_manager core) ''resource'' = Some (resource_plugin B)"
    and "route p = ''resource''" and "req_method request = ''GET''"
    and "token_allows W print core now request p q s claims"
    and "join_slash (route_path p) = ResourceDesc_to_string d" and "desc_ok d"
    and "read_secret_resource B (plugin_state s) d = Ok secret"
  shows "api W print core uuid now request body p q s = (seal_response W core claims secret True, s)"
proof -
  have "authorized_claims W core now request (print (policy_data ''resource'' (route_path p) q)) s = Ok claims"
    using assms(2,4) authorized_claims_iff [of W core now request print p q s claims] by simp
  moreover have "ResourceDesc_try_from (ResourceDesc_to_string d) = Ok d"
    using assms(6) by (simp add: try_from_Ok_iff)
  ultimately show ?thesis
    using assms by (simp add: resource_get_call plugin_token_call_def resource_get_handle)
qed

text \<open>
  C4. A resource leaves the server only encrypted: when a GET of the resource plugin succeeds, the
  path names a well-formed descriptor, the resource is the stored one, the token of the request was
  verified and allowed by the policy for this path, and the body of the response is the encryption of
  the resource under the TEE key found in the claims of that token. Nothing is changed.
\<close>

theorem resource_get_sealed:
  assumes "PluginManager_get (plugin_manager core) ''resource'' = Some (resource_plugin B)"
    and "route p = ''resource''" and "req_method request = ''GET''"
    and "api W print core uuid now request body p q s = (Ok resp, s')"
  shows "\<exists>d claims secret pk jwe.
    desc_ok d \<and> p = ''resource/'' @ ResourceDesc_to_string d \<and>
    read_secret_resource B (plugin_state s) d = Ok secret \<and>
    token_allows W print core now request p q s claims \<and>
    extract_tee_public_key (enc W) (tee_pub_key_deserialize W) (verifier core) claims = Ok pk \<and>
    jwe_encrypt W pk secret = Ok (Some jwe) \<and>
    resp = http_ok (Some ''application/json'') jwe \<and> s' = s"
proof -
  let ?pd = "print (policy_data ''resource'' (route_path p) q)"
  have call: "plugin_token_call W core (resource_plugin B) now request ?pd body q (route_path p) s =
      (Ok resp, s')"
    using assms by (simp add: resource_get_call)
  show ?thesis
  proof (cases rule: plugin_token_call_cases [of W core "resource_plugin B" now request ?pd body q "route_path p" s])
    case (denied r)
    then show ?thesis using call denied(2) [of resp] by simp
  next
    case (allowed claims r t)
    have claims: "token_allows W print core now request p q s claims"
      using allowed(1) authorized_claims_iff [of W core now request print p q s claims] assms(2) by simp
    have t: "t = plugin_state s"
      "r = and_then (ResourceDesc_try_from (join_slash (route_path p)))
         (\<lambda>d. read_secret_resource B (plugin_state s) d)"
      using allowed(2) assms(3) by (auto simp: resource_get_handle)
    from call allowed(3) assms(3) obtain secret where secret: "r = Ok secret"
      "seal_response W core claims secret True = Ok resp" "s' = s"
      by (auto simp: outcome_iff resource_get_handle t(1))
    then obtain d where d: "desc_ok d" "join_slash (route_path p) = ResourceDesc_to_string d"
      "read_secret_resource B (plugin_state s) d = Ok secret"
      by (auto simp: t(2) outcome_iff try_from_Ok_iff)
    from secret(2) obtain pk jwe where
      "extract_tee_public_key (enc W) (tee_pub_key_deserialize W) (verifier core) claims = Ok pk"
      "jwe_encrypt W pk secret = Ok (Some jwe)" "resp = http_ok (Some ''application/json'') jwe"
      by (auto simp: seal_response_def outcome_iff)
    moreover have "route_path p \<noteq> []" using d(2) by (auto simp: ResourceDesc_to_string_def)
    then have "p = ''resource/'' @ ResourceDesc_to_string d" using route_join [OF assms(2)] d(2) by simp
    ultimately show ?thesis using d claims secret(3) by blast
  qed
qed

theorem resource_get_sealed_witness:
  "\<exists>d claims secret pk jwe.
    desc_ok d \<and> ''resource/default/key/1'' = ''resource/'' @ ResourceDesc_to_string d \<and>
    read_secret_resource (repo_backend no_faults demo_repo) (plugin_state demo_state) d = Ok secret \<and>
    token_allows demo_env (\<lambda>_. []) demo_core 0 (demo_http ''GET'' ''good'') ''resource/default/key/1'' []
      demo_state claims \<and>
    extract_tee_public_key (enc demo_env) (tee_pub_key_deserialize demo_env) (verifier demo_core) claims = Ok pk \<and>
    jwe_encrypt demo_env pk secret = Ok (Some jwe) \<and>
    http_ok (Some ''application/json'') ''sealed:*'' = http_ok (Some ''application/json'') jwe \<and>
    demo_state = demo_state"
proof (rule resource_get_sealed [OF _ _ _ demo_get])
  show "PluginManager_get (plugin_manager demo_core) ''resource'' =
      Some (resource_plugin (repo_backend no_faults demo_repo))"
    by (simp add: PluginManager_get_def demo_core_def)
qed (simp_all add: demo_http_def)

text \<open>
  End to end, for every repository that is a secret store: after an administrator posts a resource,
  a GET of the same path by a client whose token the policy allows returns the encryption of exactly
  the posted bytes under the client's key, and other resources read as before.
\<close>

lemma resource_post_then_get:
  assumes "secret_store B lookup good" and "good (plugin_state s)" and "desc_ok d"
    and "PluginManager_get (plugin_manager core) ''resource'' = Some (resource_plugin B)"
    and "p = ''resource/'' @ ResourceDesc_to_string d"
    and "req_method post = ''POST''" and "admin_ok W core now post"
  shows "\<exists>t. api W print core uuid now post body p q s =
      (Ok (http_ok (Some ''text/xml'') []), s\<lparr>plugin_state := t\<rparr>) \<and> good t \<and>
    (\<forall>get now' claims.
       req_method get = ''GET'' \<and>
       token_allows W print core now' get p q (s\<lparr>plugin_state := t\<rparr>) claims \<longrightarrow>
       api W print core uuid now' get [] p q (s\<lparr>plugin_state := t\<rparr>) =
         (seal_response W core claims body True, s\<lparr>plugin_state := t\<rparr>)) \<and>
    (\<forall>d' b'. desc_ok d' \<and> d' \<noteq> d \<longrightarrow>
       (read_secret_resource B t d' = Ok b' \<longleftrightarrow> read_secret_resource B (plugin_state s) d' = Ok b'))"
proof -
  obtain t where t: "write_secret_resource B (plugin_state s) d body = (Ok (), t)" "good t"
    "read_secret_resource B t d = Ok body"
    "\<forall>d' b'. desc_ok d' \<and> d' \<noteq> d \<longrightarrow>
       (read_secret_resource B t d' = Ok b' \<longleftrightarrow> read_secret_resource B (plugin_state s) d' = Ok b')"
    using secret_store.write_read [OF assms(1-3), of body] by blast
  have p: "split_on CHR ''/'' p = ''resource'' # [repository_name d, resource_type d, resource_tag d]"
    using assms(5) split_on_append [of "CHR ''/''" "''resource''" "ResourceDesc_to_string d"]
      split_desc [OF assms(3)] by simp
  have join: "join_slash (route_path p) = ResourceDesc_to_string d"
    by (simp add: p ResourceDesc_to_string_def)
  have "ResourceDesc_try_from (ResourceDesc_to_string d) = Ok d"
    using assms(3) by (simp add: try_from_Ok_iff)
  then have "plugin_admin_call (resource_plugin B) body q (route_path p) ''POST'' s =
      (Ok (http_ok (Some ''text/xml'') []), s\<lparr>plugin_state := t\<rparr>)"
    using t(1) join by (simp add: plugin_admin_call_def resource_plugin_def ResourceStorage_handle_def
        Let_def str_of_def)
  then have post: "api W print core uuid now post body p q s =
      (Ok (http_ok (Some ''text/xml'') []), s\<lparr>plugin_state := t\<rparr>)"
    using resource_post_call [OF assms(4) _ assms(6), of p W print uuid now body q s] assms(7) p
    by (simp add: admin_call_def)
  have "api W print core uuid now' get [] p q (s\<lparr>plugin_state := t\<rparr>) =
      (seal_response W core claims body True, s\<lparr>plugin_state := t\<rparr>)"
    if "req_method get = ''GET''" "token_allows W print core now' get p q (s\<lparr>plugin_state := t\<rparr>) claims"
    for get now' claims
    using resource_get_value [OF assms(4) _ that join assms(3)] t(3) p by simp
  then show ?thesis using post t(2,4) by blast
qed


lemma demo_repo_good: "repo_good demo_repo demo_repo_fs"
proof -
  have "is_dir demo_repo_fs (take n [''repo''])" for n
    by (cases n) (simp_all add: is_dir_def)
  then show ?thesis
    by (simp add: repo_good_def demo_repo_def is_dir_def)
qed

lemma resource_post_then_get_demo:
  "\<exists>t. api demo_env (\<lambda>_. []) demo_core [] 0 (demo_http ''POST'' ''adminkey'') [7] ''resource/a/b/c'' [] demo_state =
      (Ok (http_ok (Some ''text/xml'') []), demo_state\<lparr>plugin_state := t\<rparr>) \<and> repo_good demo_repo t \<and>
    (\<forall>get now' claims.
       req_method get = ''GET'' \<and>
       token_allows demo_env (\<lambda>_. []) demo_core now' get ''resource/a/b/c'' [] (demo_state\<lparr>plugin_state := t\<rparr>) claims \<longrightarrow>
       api demo_env (\<lambda>_. []) demo_core [] now' get [] ''resource/a/b/c'' [] (demo_state\<lparr>plugin_state := t\<rparr>) =
         (seal_response demo_env demo_core claims [7] True, demo_state\<lparr>plugin_state := t\<rparr>)) \<and>
    (\<forall>d' b'. desc_ok d' \<and> d' \<noteq> \<lparr>repository_name = ''a'', resource_type = ''b'', resource_tag = ''c''\<rparr> \<longrightarrow>
       (read_secret_resource (repo_backend no_faults demo_repo) t d' = Ok b' \<longleftrightarrow>
        read_secret_resource (repo_backend no_faults demo_repo) (plugin_state demo_state) d' = Ok b'))"
proof (rule resource_post_then_get [OF repo.secret_store_axioms])
  show "repo_good demo_repo (plugin_state demo_state)"
    using demo_repo_good by (simp add: demo_state_def)
  show "desc_ok \<lparr>repository_name = ''a'', resource_type = ''b'', resource_tag = ''c''\<rparr>"
    by (simp add: desc_ok_def segment_ok_def seg_char_def)
  show "admin_ok demo_env demo_core 0 (demo_http ''POST'' ''adminkey'')"
    by (simp add: demo_defs validate_admin_token_def simple_validate_def)
qed (simp_all add: PluginManager_get_def demo_core_def demo_http_def ResourceDesc_to_string_def)

section \<open>Containment\<close>

lemma create_dirs_frame:
  "create_dirs io f d cs = (r, f') \<Longrightarrow> map_of f' p \<noteq> map_of f p \<Longrightarrow>
     map_of f p = None \<and> map_of f' p = Some DirNode \<and> (\<exists>n. 0 < n \<and> n \<le> length cs \<and> p = d @ take n cs)"
proof (induction cs arbitrary: f d)
  case (Cons c cs)
  let ?p = "d @ [c]"
  have lift: "\<exists>m. 0 < m \<and> m \<le> length (c # cs) \<and> p = d @ take m (c # cs)"
    if "0 < n" "n \<le> length cs" "p = ?p @ take n cs" for n
    using that by (intro exI [of _ "Suc n"]) simp
  show ?case
  proof (cases "is_dir f ?p")
    case True
    with Cons.prems Cons.IH [of f ?p] lift show ?thesis by (auto simp: Let_def)
  next
    case False
    show ?thesis
    proof (cases "exists_path f ?p \<or> dir_fault io ?p")
      case True
      with False Cons.prems show ?thesis by (auto simp: Let_def split: if_splits)
    next
      case fresh: False
      let ?g = "AList.update ?p DirNode f"
      have run: "create_dirs io ?g ?p cs = (r, f')"
        using Cons.prems(1) False fresh by (simp add: Let_def)
      have new: "map_of f ?p = None" using fresh by (simp add: exists_path_def)
      show ?thesis
      proof (cases "map_of f' p = map_of ?g p")
        case True
        then have "p = ?p" using Cons.prems(2) by (auto split: if_splits)
        then show ?thesis using True new by (intro conjI exI [of _ 1]) simp_all
      next
        case changed: False
        from Cons.IH [OF run changed] obtain n where
          "map_of ?g p = None" "map_of f' p = Some DirNode" "0 < n" "n \<le> length cs" "p = ?p @ take n cs"
          by blast
        then show ?thesis using lift by (auto split: if_splits)
      qed
    qed
  qed
qed simp

lemma repo_write_frame:
  assumes ok: "desc_ok d" and w: "repo_write io self f d body = (r, f')"
    and ne: "map_of f' p \<noteq> map_of f p"
  shows "\<exists>n. p = take n (desc_path self d) \<and>
    (n < length (desc_path self d) \<longrightarrow> map_of f p = None \<and> map_of f' p = Some DirNode)"
proof (cases "p = desc_path self d")
  case True
  then show ?thesis by (intro exI [of _ "length (desc_path self d)"]) simp
next
  case False
  let ?dir = "repo_dir_path self @ [repository_name d, resource_type d]"
  have dir: "push_path_str (push_path_str (repo_dir_path self) (repository_name d)) (resource_type d) = ?dir"
    "push_path_str ?dir (resource_tag d) = desc_path self d"
    using ok by (simp_all add: desc_ok_def push_segment desc_path_def)
  obtain r1 f1 where c: "(if \<not> exists_path f ?dir then create_dir_all io f ?dir else (Ok (), f)) = (r1, f1)"
    by fastforce
  have eq: "map_of f' p = map_of f1 p"
    using w c False unfolding repo_write_def Let_def dir
    by (auto split: outcome.splits prod.splits dest: write_file_frame)
  then have ch: "map_of f1 p \<noteq> map_of f p" using ne by simp
  then have "create_dirs io f [] ?dir = (r1, f1)"
    using c by (auto simp: create_dir_all_def split: if_splits)
  from create_dirs_frame [OF this ch] obtain n where
    "map_of f p = None" "map_of f1 p = Some DirNode" "n \<le> length ?dir" "p = take n ?dir"
    by auto
  then show ?thesis using eq
    by (intro exI [of _ n]) (auto simp: desc_path_def take_Cons' split: if_splits)
qed

text \<open>
  C24. A request path cannot leave the local repository. Whatever path and method the resource plugin is
  called with, and whatever faults the disk has, the only file it writes is that of a well-formed
  descriptor below the repository directory, the only other changes are directories it creates on the
  way to that file, and what a GET returns is the content of such a file.
\<close>

theorem local_repository_contained:
  assumes "plugin_handle (resource_plugin (repo_backend io self)) f body q path method = (r, f')"
  shows "(\<forall>p. map_of f' p \<noteq> map_of f p \<longrightarrow>
      (\<exists>d n. desc_ok d \<and> join_slash path = ResourceDesc_to_string d \<and> p = take n (desc_path self d) \<and>
         (n < length (desc_path self d) \<longrightarrow> map_of f p = None \<and> map_of f' p = Some DirNode))) \<and>
    (\<forall>b. method = ''GET'' \<and> r = Ok b \<longrightarrow>
      (\<exists>d. desc_ok d \<and> join_slash path = ResourceDesc_to_string d \<and>
         map_of f (desc_path self d) = Some (FileNode b)))"
proof (cases "method = ''POST''")
  case True
  show ?thesis
  proof (cases "ResourceDesc_try_from (join_slash path)")
    case (Ok d)
    then have d: "desc_ok d" "join_slash path = ResourceDesc_to_string d"
      by (simp_all add: try_from_Ok_iff)
    obtain r' where "repo_write io self f d body = (r', f')"
      using assms True Ok by (auto simp: resource_plugin_def ResourceStorage_handle_def repo_backend_def
          Let_def split: prod.splits)
    then show ?thesis using True d repo_write_frame [OF d(1)] by blast
  next
    case (Err e)
    then show ?thesis using assms True
      by (simp add: resource_plugin_def ResourceStorage_handle_def Let_def)
  next
    case Panic
    then show ?thesis by simp
  qed
next
  case False
  then have "f' = f"
    using assms by (auto simp: resource_plugin_def ResourceStorage_handle_def Let_def split: if_splits)
  moreover have "\<exists>d. desc_ok d \<and> join_slash path = ResourceDesc_to_string d \<and>
      map_of f (desc_path self d) = Some (FileNode b)" if "method = ''GET''" "r = Ok b" for b
    using assms that
    by (auto simp: resource_get_handle outcome_iff try_from_Ok_iff repo_backend_def repo_read_def
        push_desc read_file_def Let_def split: if_splits option.splits fnode.splits)
  ultimately show ?thesis by simp
qed


theorem local_repository_contained_witness:
  "\<exists>d. desc_ok d \<and> join_slash [''default'', ''key'', ''1''] = ResourceDesc_to_string d \<and>
     map_of demo_repo_fs (desc_path demo_repo d) = Some (FileNode [42])"
proof -
  have "plugin_handle (resource_plugin (repo_backend no_faults demo_repo)) demo_repo_fs [] []
      [''default'', ''key'', ''1''] ''GET'' = (Ok [42], demo_repo_fs)"
    by (simp add: demo_defs demo_run)
  from local_repository_contained [OF this] show ?thesis by blast
qed

section \<open>Administrators\<close>

lemma personas_loop_True_iff:
  "personas_loop K now token ps = Ok True \<longleftrightarrow>
     (\<exists>i < length ps. verify_token K (public_key (ps ! i)) now token = Ok () \<and>
        (\<forall>j < i. \<exists>e. verify_token K (public_key (ps ! j)) now token = Err e))"
proof (induction ps)
  case (Cons p ps)
  show ?case
  proof (cases "verify_token K (public_key p) now token")
    case (Ok u)
    then show ?thesis by (auto intro: exI [of _ 0])
  next
    case (Err e)
    then show ?thesis
      unfolding Ex_less_Suc2 personas_loop.simps length_Cons
      using Cons.IH by (simp add: All_less_Suc2)
  next
    case Panic
    then show ?thesis
      unfolding Ex_less_Suc2 length_Cons by (simp add: All_less_Suc2)
  qed
qed simp

text \<open>
  The simple administrator backend grants access exactly when the bearer token of the request
  verifies under the key of a configured persona, the personas being tried in order; with the default
  configuration, which has none, and with \<^verbatim>\<open>DenyAll\<close>, every request is refused.
\<close>

theorem simple_admin_grants_iff:
  "(validate_admin_token K (SimpleAdminBackend personas) now request = Ok () \<longleftrightarrow>
      (\<exists>token. bearer request = Some token \<and>
         (\<exists>i < length personas. verify_token K (public_key (personas ! i)) now token = Ok () \<and>
            (\<forall>j < i. \<exists>e. verify_token K (public_key (personas ! j)) now token = Err e)))) \<and>
   (\<exists>a. Admin_try_from K io f AdminBackendType_default = Ok a \<and>
      (\<exists>e. validate_admin_token K a now request = Err e)) \<and>
   (\<exists>a. Admin_try_from K io f DenyAll = Ok a \<and>
      validate_admin_token K a now request = Err AdminEndpointsDisabled)"
proof (intro conjI)
  have "validate_admin_token K (SimpleAdminBackend personas) now request = Ok () \<longleftrightarrow>
      (\<exists>token. bearer request = Some token \<and> personas_loop K now token personas = Ok True)"
    by (auto simp: validate_admin_token_def simple_validate_def outcome_iff)
  then show "validate_admin_token K (SimpleAdminBackend personas) now request = Ok () \<longleftrightarrow>
      (\<exists>token. bearer request = Some token \<and>
         (\<exists>i < length personas. verify_token K (public_key (personas ! i)) now token = Ok () \<and>
            (\<forall>j < i. \<exists>e. verify_token K (public_key (personas ! j)) now token = Err e)))"
    unfolding personas_loop_True_iff .
  show "\<exists>a. Admin_try_from K io f AdminBackendType_default = Ok a \<and>
      (\<exists>e. validate_admin_token K a now request = Err e)"
    by (cases "bearer request") (auto simp: Admin_try_from_def AdminBackendType_default_def
        validate_admin_token_def simple_validate_def)
  show "\<exists>a. Admin_try_from K io f DenyAll = Ok a \<and>
      validate_admin_token K a now request = Err AdminEndpointsDisabled"
    by (simp add: Admin_try_from_def validate_admin_token_def deny_all_validate_def)
qed

theorem simple_admin_grants_iff_witness:
  "validate_admin_token demo_jwt
     (SimpleAdminBackend [\<lparr>persona_id = ''a'', public_key = ''ka''\<rparr>, \<lparr>persona_id = ''b'', public_key = ''kb''\<rparr>])
     0 (demo_http ''POST'' ''kb'') = Ok () \<and>
   (\<exists>e. validate_admin_token demo_jwt (SimpleAdminBackend []) 0 (demo_http ''POST'' ''kb'') = Err e)"
proof
  show "validate_admin_token demo_jwt
     (SimpleAdminBackend [\<lparr>persona_id = ''a'', public_key = ''ka''\<rparr>, \<lparr>persona_id = ''b'', public_key = ''kb''\<rparr>])
     0 (demo_http ''POST'' ''kb'') = Ok ()"
    unfolding simple_admin_grants_iff [THEN conjunct1]
    by (intro exI [of _ "''kb''"] exI [of _ 1] conjI) (simp_all add: demo_http_def demo_jwt_def)
  show "\<exists>e. validate_admin_token demo_jwt (SimpleAdminBackend []) 0 (demo_http ''POST'' ''kb'') = Err e"
    by (simp add: validate_admin_token_def simple_validate_def demo_http_def)
qed

section \<open>The resource policy\<close>

text \<open>Documented: a policy file is loaded as its text would be, under the name of the file.\<close>

definition policy_file_laws :: "('e, 'v, 'm) opa_regorus_scheme \<Rightarrow> bool" where
  "policy_file_laws R \<longleftrightarrow>
     (\<forall>e f p b. map_of f p = Some (FileNode b) \<and> valid_utf8 b \<longrightarrow>
        rego_add_policy_from_file R e f p = rego_add_policy R e (concat (map (\<lambda>c. CHR ''/'' # c) p)) (str_of b))"

definition base64_laws :: "encodings \<Rightarrow> bool" where
  "base64_laws C \<longleftrightarrow> (\<forall>b. b64_decode C (b64_encode C b) = Some b)"

text \<open>The decision a policy text makes on given data and claims.\<close>

definition policy_decides ::
    "('e, 'v, 'm) opa_regorus_scheme \<Rightarrow> path \<Rightarrow> bytes \<Rightarrow> string \<Rightarrow> string \<Rightarrow> (KbsPolicyEngineError, bool) outcome" where
  "policy_decides R p b data input_claims =
     and_then (map_err (\<lambda>_. PolicyLoadError)
       (rego_add_policy R (rego_new R) (concat (map (\<lambda>c. CHR ''/'' # c) p)) (str_of b))) (\<lambda>engine.
     and_then (map_err EvaluationError (rego_value_from_json R data)) (\<lambda>v.
     and_then (map_err (\<lambda>_. DataLoadError) (rego_add_data R engine v)) (\<lambda>engine.
     and_then (map_err (\<lambda>_. InputError) (rego_set_input R engine input_claims)) (\<lambda>engine.
       map_err EvaluationError (rego_eval_bool_query R engine ''data.policy.allow'' False)))))"

text \<open>
  C28. Setting the resource policy. A text that is not base64, not UTF-8 or that the Rego engine rejects
  is refused and the old policy stays; an accepted one becomes the policy file: it is read back
  unchanged and it decides every later request.
\<close>

theorem resource_policy_update:
  assumes "policy_file_laws R" and "base64_laws C"
    and "is_dir f (butlast (policy_path self))" and "\<not> is_dir f (policy_path self)"
    and "\<And>n t. rego_add_policy R (rego_new R) n t \<noteq> Panic"
  shows "((\<exists>e. opa_set_policy R C no_faults self f (b64_encode C b) = (Err e, f)) \<longleftrightarrow>
       \<not> valid_utf8 b \<or> (\<exists>e. rego_add_policy R (rego_new R) ''default'' (str_of b) = Err e)) \<and>
    (valid_utf8 b \<and> is_ok (rego_add_policy R (rego_new R) ''default'' (str_of b)) \<longrightarrow>
      (\<exists>f'. opa_set_policy R C no_faults self f (b64_encode C b) = (Ok (), f') \<and>
         opa_get_policy C no_faults self f' = Ok (b64_encode C b) \<and>
         (\<forall>data claims. opa_evaluate R self f' data claims =
            policy_decides R (policy_path self) b data claims) \<and>
         (\<forall>p. p \<noteq> policy_path self \<longrightarrow> map_of f' p = map_of f p)))"
proof -
  have dec: "b64_decode C (b64_encode C b) = Some b" using assms(2) by (simp add: base64_laws_def)
  let ?f = "AList.update (policy_path self) (FileNode b) f"
  have wr: "write_file no_faults f (policy_path self) b = (Ok (), ?f)"
    using assms(3,4) by (auto simp: write_file_def is_dir_def exists_path_def)
  have st: "opa_set_policy R C no_faults self f (b64_encode C b) =
      (if valid_utf8 b
       then (case rego_add_policy R (rego_new R) ''default'' (str_of b) of
               Ok _ \<Rightarrow> (Ok (), ?f) | Err e \<Rightarrow> (Err (InvalidPolicy e), f) | Panic \<Rightarrow> (Panic, f))
       else (Err (InvalidPolicy ''utf-8''), f))"
    by (simp add: opa_set_policy_def dec from_utf8_def wr split: outcome.splits)
  have ne: "policy_path self \<noteq> []" using assms(4) by (auto simp: is_dir_def)
  have gt: "opa_get_policy C no_faults self ?f = Ok (b64_encode C b)"
    using ne by (simp add: opa_get_policy_def read_file_def)
  have ev: "opa_evaluate R self ?f data claims = policy_decides R (policy_path self) b data claims"
    if "valid_utf8 b" for data claims
  proof -
    have "map_of ?f (policy_path self) = Some (FileNode b)" by simp
    then have "rego_add_policy_from_file R (rego_new R) ?f (policy_path self) =
        rego_add_policy R (rego_new R) (concat (map (\<lambda>c. CHR ''/'' # c) (policy_path self))) (str_of b)"
      using assms(1) that unfolding policy_file_laws_def by blast
    then show ?thesis by (simp add: opa_evaluate_def policy_decides_def)
  qed
  show ?thesis
  proof (cases "rego_add_policy R (rego_new R) ''default'' (str_of b)")
    case (Ok e)
    then show ?thesis using st gt ev by (auto intro!: exI [of _ ?f])
  next
    case (Err e)
    then show ?thesis using st by auto
  next
    case Panic
    then show ?thesis using assms(5) by blast
  qed
qed

lemma str_of_Nil [simp]: "str_of b = [] \<longleftrightarrow> b = []"
  by (simp add: str_of_def)

theorem resource_policy_update_witness:
  "(\<exists>f'. opa_set_policy demo_rego demo_enc no_faults (policy_engine demo_core) []
       (b64_encode demo_enc [65]) = (Ok (), f') \<and>
     opa_get_policy demo_enc no_faults (policy_engine demo_core) f' = Ok (b64_encode demo_enc [65]) \<and>
     (\<forall>data claims. opa_evaluate demo_rego (policy_engine demo_core) f' data claims =
        policy_decides demo_rego (policy_path (policy_engine demo_core)) [65] data claims))"
proof -
  have laws: "policy_file_laws demo_rego" "base64_laws demo_enc"
    by (auto simp: policy_file_laws_def base64_laws_def demo_rego_def demo_enc_def)
  have no_panic: "rego_add_policy demo_rego (rego_new demo_rego) n t \<noteq> Panic" for n t
    by (simp add: demo_rego_def)
  have ok: "is_ok (rego_add_policy demo_rego (rego_new demo_rego) ''default'' (str_of [65]))"
    by (simp add: demo_rego_def str_of_def)
  have dirs: "is_dir [] (butlast (policy_path (policy_engine demo_core)))"
    "\<not> is_dir [] (policy_path (policy_engine demo_core))"
    by (simp_all add: demo_core_def is_dir_def)
  from resource_policy_update [OF laws dirs no_panic, of "[65]"] ok show ?thesis by auto
qed

section \<open>Attestation tokens\<close>

text \<open>What makes a key trusted by the verifier for a token header.\<close>

definition key_trusted ::
    "('pk, 'x, 'a, 'd) token_crates \<Rightarrow> encodings \<Rightarrow> 'x JwkAttestationTokenVerifier \<Rightarrow> Header \<Rightarrow> Jwk \<Rightarrow> bool" where
  "key_trusted T C self header key \<longleftrightarrow>
     (case header_jwk header of
        Some k \<Rightarrow>
          key = k \<and>
          (insecure_key self \<or>
           (\<exists>leaf rest cert chain pk lk.
              x509_chain key = Some (leaf # rest) \<and> jwk_public_key T C key = Ok pk \<and>
              x5c_cert T C leaf = Ok cert \<and> x509_public_key T cert = Ok lk \<and> public_eq T pk lk \<and>
              x5c_chain T C rest = Ok chain \<and> verify_cert T (trusted_certs self) cert chain = Ok True))
      | None \<Rightarrow> key \<in> set (trusted_jwk_sets self) \<and> key_id key = header_kid header)"

lemma endorsement_Ok_iff:
  "verify_jwk_endorsement T C self key = Ok () \<longleftrightarrow>
     (\<exists>leaf rest cert chain pk lk.
        x509_chain key = Some (leaf # rest) \<and> jwk_public_key T C key = Ok pk \<and>
        x5c_cert T C leaf = Ok cert \<and> x509_public_key T cert = Ok lk \<and> public_eq T pk lk \<and>
        x5c_chain T C rest = Ok chain \<and> verify_cert T (trusted_certs self) cert chain = Ok True)"
proof (cases "x509_chain key")
  case None
  then show ?thesis by (simp add: verify_jwk_endorsement_def outcome_iff)
next
  case (Some certs)
  have true: "(\<exists>b. r = Ok b \<and> b) \<longleftrightarrow> r = Ok True" for r :: "(string, bool) outcome"
    by (cases r) simp_all
  show ?thesis
  proof (cases certs)
    case Nil
    with Some show ?thesis by (simp add: verify_jwk_endorsement_def outcome_iff)
  next
    case (Cons leaf rest)
    with Some show ?thesis by (simp add: verify_jwk_endorsement_def outcome_iff true) blast
  qed
qed

lemma verification_jwk_trusted:
  assumes "get_verification_jwk T C self header = Ok key"
  shows "key_trusted T C self header key"
proof (cases "header_jwk header")
  case None
  then show ?thesis
    using assms by (auto simp: get_verification_jwk_def key_trusted_def outcome_iff find_Some_iff
        split: if_splits)
next
  case (Some k)
  then show ?thesis
    using assms endorsement_Ok_iff [of T C self k]
    by (auto simp: get_verification_jwk_def key_trusted_def outcome_iff split: if_splits)
qed

text \<open>
  C17. An attestation token is accepted only when its signature was checked with a trusted key: the key
  in the token header, if its certificate chain leads to a configured trust anchor and its leaf
  certificate carries this very key (or if the insecure option is on), or else a key of the configured
  JWK sets with the key id of the header. A verifier with the default configuration, with no trust
  anchor and no JWK set, accepts no token.
\<close>

theorem token_accepted_only_if_trusted:
  shows "(jwk_verify T C self token = Ok claims \<longrightarrow>
      (\<exists>header key alg a dk. decode_header T token = Ok header \<and> key_trusted T C self header key \<and>
         key_algorithm key = Some alg \<and> algorithm_from_str T alg = Ok a \<and>
         decoding_key_from_jwk T key = Ok dk \<and> decode_token T token dk a = Ok claims)) \<and>
    (\<exists>v. TokenVerifier_from_config T io f AttestationTokenVerifierConfig_default = Ok v \<and>
       TokenVerifier_verify T C v token \<noteq> Ok claims)"
proof (intro conjI impI)
  assume "jwk_verify T C self token = Ok claims"
  then obtain header key alg a dk where "decode_header T token = Ok header"
    "get_verification_jwk T C self header = Ok key" "key_algorithm key = Some alg"
    "algorithm_from_str T alg = Ok a" "decoding_key_from_jwk T key = Ok dk"
    "decode_token T token dk a = Ok claims"
    by (auto simp: jwk_verify_def outcome_iff)
  then show "\<exists>header key alg a dk. decode_header T token = Ok header \<and>
      key_trusted T C self header key \<and> key_algorithm key = Some alg \<and>
      algorithm_from_str T alg = Ok a \<and> decoding_key_from_jwk T key = Ok dk \<and>
      decode_token T token dk a = Ok claims"
    using verification_jwk_trusted by blast
next
  show "\<exists>v. TokenVerifier_from_config T io f AttestationTokenVerifierConfig_default = Ok v \<and>
      TokenVerifier_verify T C v token \<noteq> Ok claims"
    by (auto simp: TokenVerifier_from_config_def JwkAttestationTokenVerifier_new_def
        AttestationTokenVerifierConfig_default_def TokenVerifier_verify_def jwk_verify_def
        get_verification_jwk_def outcome_iff split: option.splits)
qed

theorem token_accepted_only_if_trusted_witness:
  "\<exists>header key alg a dk. decode_header demo_tokens ''good'' = Ok header \<and>
     key_trusted demo_tokens demo_enc (token_verifier (verifier demo_core)) header key \<and>
     key_algorithm key = Some alg \<and> algorithm_from_str demo_tokens alg = Ok a \<and>
     decoding_key_from_jwk demo_tokens key = Ok dk \<and> decode_token demo_tokens ''good'' dk a = Ok demo_claims"
proof -
  have "jwk_verify demo_tokens demo_enc (token_verifier (verifier demo_core)) ''good'' = Ok demo_claims"
    by (simp add: demo_defs demo_run)
  with token_accepted_only_if_trusted show ?thesis by blast
qed

end
