(* ===== verification/Verifier.thy ===== *)
theory Verifier
  imports Crates "HOL-Library.AList"
begin

text \<open>
  The interface of the verifier library (\<^verbatim>\<open>deps/verifier/src/lib.rs\<close>), the two sample verifiers
  and what the architecture-specific verifiers share: \<^verbatim>\<open>anyhow\<close> errors, JSON maps, environment
  flags and fixed-layout structures read with \<^verbatim>\<open>scroll\<close>.

  The locales state what a caller may rely on. \<open>data_verifier\<close>: evidence is accepted only when it
  carries the expected report data. \<open>report_verifier\<close>: moreover an accepted evidence gives at least one
  claim. \<open>bound_verifier\<close>: the same for the initialisation data. The sample
  verifiers give the first contract and not the second.
\<close>

section \<open>Errors\<close>

text \<open>
  An \<^verbatim>\<open>anyhow::Error\<close> is its chain of messages, the outermost context first. A failure of a
  third-party package is \<open>lib_error\<close> of the text it reports.
\<close>

type_synonym anyhow = "string list"

definition bail :: "string \<Rightarrow> (anyhow, 'a) outcome" where
  "bail m = Err [m]"

definition with_context :: "string \<Rightarrow> (anyhow, 'a) outcome \<Rightarrow> (anyhow, 'a) outcome" where
  "with_context m r = map_err (\<lambda>e. m # e) r"

definition lib_error :: "(string, 'a) outcome \<Rightarrow> (anyhow, 'a) outcome" where
  "lib_error r = map_err (\<lambda>e. [e]) r"

lemma bail_iff [outcome_iff]:
  "bail m \<noteq> Ok x" "bail m \<noteq> Panic" "bail m = Err e \<longleftrightarrow> e = [m]"
  by (auto simp: bail_def)

lemma with_context_iff [outcome_iff]:
  "with_context m r = Ok x \<longleftrightarrow> r = Ok x"
  "with_context m r = Err e \<longleftrightarrow> (\<exists>e'. r = Err e' \<and> e = m # e')"
  "with_context m r = Panic \<longleftrightarrow> r = Panic"
  by (simp_all add: with_context_def outcome_iff)

lemma with_context_simps [simp]:
  "with_context m (Ok x) = Ok x" "with_context m (Err e) = Err (m # e)" "with_context m Panic = Panic"
  by (simp_all add: with_context_def)

lemma lib_error_iff [outcome_iff]:
  "lib_error r = Ok x \<longleftrightarrow> r = Ok x"
  "lib_error r = Err e \<longleftrightarrow> (\<exists>m. r = Err m \<and> e = [m])"
  "lib_error r = Panic \<longleftrightarrow> r = Panic"
  by (simp_all add: lib_error_def outcome_iff)

lemma lib_error_simps [simp]:
  "lib_error (Ok x) = Ok x" "lib_error (Err m) = Err [m]" "lib_error Panic = Panic"
  by (simp_all add: lib_error_def)

section \<open>JSON maps\<close>

text \<open>
  \<^verbatim>\<open>serde_json::Map\<close>: \<open>insert\<close> replaces the value of a key it has. Objects are read by key, so the order
  of the list carries no meaning.
\<close>

type_synonym json_map = "(string \<times> json) list"

definition json_insert :: "string \<Rightarrow> json \<Rightarrow> json_map \<Rightarrow> json_map" where
  "json_insert k v m = AList.update k v m"

definition json_extend :: "json_map \<Rightarrow> json_map \<Rightarrow> json_map" where
  "json_extend m custom = foldl (\<lambda>m (k, v). json_insert k v m) m custom"

fun json_get :: "json \<Rightarrow> string \<Rightarrow> json option" where
  "json_get (JObject m) k = map_of m k"
| "json_get _ k = None"

fun as_str :: "json \<Rightarrow> string option" where
  "as_str (JString s) = Some s"
| "as_str _ = None"

lemma map_of_json_insert [simp]: "map_of (json_insert k v m) = (map_of m)(k \<mapsto> v)"
  by (simp add: json_insert_def update_conv')

lemma map_of_json_extend:
  "map_of (json_extend m custom) k =
     (case map_of (rev custom) k of None \<Rightarrow> map_of m k | Some v \<Rightarrow> Some v)"
proof (induction custom arbitrary: m)
  case Nil
  then show ?case by (simp add: json_extend_def)
next
  case (Cons kv custom)
  obtain a v where kv: "kv = (a, v)" by (cases kv)
  have "json_extend m (kv # custom) = json_extend (json_insert a v m) custom"
    by (simp add: json_extend_def kv)
  then show ?case
    using Cons.IH [of "json_insert a v m"] by (auto simp: kv map_add_def split: option.splits)
qed

text \<open>A claim no custom claim names is the one that was there.\<close>

lemma json_extend_other [simp]:
  "k \<notin> fst ` set custom \<Longrightarrow> map_of (json_extend m custom) k = map_of m k"
  by (metis (no_types) map_of_eq_None_iff map_of_json_extend option.simps(4) set_rev)

section \<open>The environment\<close>

text \<open>
  Environment variables, and the encodings and deserialisers shared by the verifiers.
\<close>

record verifier_env =
  env_var :: "string \<Rightarrow> string option"
  b64_decode_std :: "string \<Rightarrow> (string, bytes) outcome"

text \<open>\<^verbatim>\<open>str::to_ascii_lowercase\<close>.\<close>

definition ascii_lower :: "char \<Rightarrow> char" where
  "ascii_lower c =
     (let n = of_char c :: nat in if 65 \<le> n \<and> n \<le> 90 then char_of (n + 32) else c)"

definition to_ascii_lowercase :: "string \<Rightarrow> string" where
  "to_ascii_lowercase s = map ascii_lower s"

definition env_flag :: "verifier_env \<Rightarrow> string \<Rightarrow> bool" where
  "env_flag V name =
     (case env_var V name of
        None \<Rightarrow> False
      | Some v \<Rightarrow> to_ascii_lowercase v \<in> {''1'', ''true'', ''yes'', ''on''})"

section \<open>The interface\<close>

type_synonym TeeEvidenceParsedClaim = json
type_synonym TeeEvidence = json
type_synonym TeeClass = string

datatype ReportData = ReportValue bytes | ReportNotProvided

datatype InitDataHash = InitValue bytes | InitNotProvided

type_synonym verdict = "(anyhow, (TeeEvidenceParsedClaim \<times> TeeClass) list) outcome"

record Verifier =
  v_evaluate :: "TeeEvidence \<Rightarrow> ReportData \<Rightarrow> InitDataHash \<Rightarrow> verdict"
  v_generate_supplemental_challenge :: "string \<Rightarrow> (anyhow, string) outcome"

definition default_supplemental_challenge :: "string \<Rightarrow> (anyhow, string) outcome" where
  "default_supplemental_challenge tee_parameters = Ok []"

definition regularize_data :: "bytes \<Rightarrow> nat \<Rightarrow> bytes" where
  "regularize_data data len =
     (if length data < len then data @ replicate (len - length data) 0
      else if length data = len then data
      else take len data)"

lemma length_regularize_data [simp, bounds]: "length (regularize_data data len) = len"
  by (simp add: regularize_data_def)

lemma regularize_data_exact [simp]: "length data = len \<Longrightarrow> regularize_data data len = data"
  by (simp add: regularize_data_def)

text \<open>
  What padding and truncation lose: two inputs that are regularised alike agree up to the length,
  trailing zeros apart.
\<close>

lemma regularize_data_eq:
  assumes "regularize_data a len = regularize_data b len" and "length a \<le> len" "length b \<le> len"
  shows "a @ replicate (len - length a) 0 = b @ replicate (len - length b) 0"
  using assms by (simp add: regularize_data_def split: if_splits)

lemma regularize_data_inj:
  assumes "regularize_data a len = regularize_data b len" and "length a = length b" "length b \<le> len"
  shows "a = b"
  using regularize_data_eq [OF assms(1)] assms(2,3) by simp

section \<open>What a caller relies on\<close>

text \<open>
  \<open>carries ev rd\<close>: the evidence carries the report data \<open>rd\<close>, and \<open>carries_init\<close> the same for the
  initialisation data.
\<close>

locale data_verifier =
  fixes V :: Verifier
    and carries :: "TeeEvidence \<Rightarrow> bytes \<Rightarrow> bool"
  assumes report_bound:
      "v_evaluate V ev (ReportValue rd) ih = Ok claims \<Longrightarrow> carries ev rd"
begin

lemma rejects_unbound:
  "\<not> carries ev rd \<Longrightarrow> v_evaluate V ev (ReportValue rd) ih \<noteq> Ok claims"
  using report_bound by blast

end

locale report_verifier = data_verifier +
  assumes one_claim:
      "v_evaluate V ev rdo ih = Ok claims \<Longrightarrow> claims \<noteq> []"

locale bound_verifier = report_verifier +
  fixes carries_init :: "TeeEvidence \<Rightarrow> bytes \<Rightarrow> bool"
  assumes init_bound:
    "v_evaluate V ev rdo (InitValue ih) = Ok claims \<Longrightarrow> carries_init ev ih"
begin

lemma accepted_bound:
  assumes "v_evaluate V ev (ReportValue rd) (InitValue ih) = Ok claims"
  shows "carries ev rd \<and> carries_init ev ih"
  using assms report_bound init_bound by blast

end

section \<open>The sample verifiers\<close>

record SampleTeeEvidence =
  sample_svn :: string
  sample_report_data :: string

text \<open>\<open>from_value\<close> is \<^verbatim>\<open>serde_json::from_value\<close> at the evidence type, a parameter.\<close>

definition sample_verify_tee_evidence ::
    "verifier_env \<Rightarrow> ReportData \<Rightarrow> InitDataHash \<Rightarrow> SampleTeeEvidence \<Rightarrow> (anyhow, unit) outcome" where
  "sample_verify_tee_evidence V expected_report_data expected_init_data_hash evidence =
     (case expected_report_data of
        ReportValue expected \<Rightarrow>
          and_then (with_context ''base64 decode report data for sample evidence''
                      (lib_error (b64_decode_std V (sample_report_data evidence)))) (\<lambda>ev_report_data.
          if expected \<noteq> ev_report_data
          then bail ''REPORT_DATA is different from that in Sample Quote''
          else Ok ())
      | ReportNotProvided \<Rightarrow> Ok ())"

definition sample_parse_tee_evidence :: "SampleTeeEvidence \<Rightarrow> (anyhow, TeeEvidenceParsedClaim) outcome" where
  "sample_parse_tee_evidence quote =
     Ok (JObject [(''svn'', JString (sample_svn quote)),
                  (''report_data'', JString (sample_report_data quote)),
                  (''launch_digest'', JString ''abcde''),
                  (''platform_version'', JObject [(''major'', JNumber 1), (''minor'', JNumber 4)]),
                  (''debug'', JBool False)])"

definition Sample_evaluate ::
    "crates \<Rightarrow> verifier_env \<Rightarrow> (json \<Rightarrow> (string, SampleTeeEvidence) outcome) \<Rightarrow>
     TeeEvidence \<Rightarrow> ReportData \<Rightarrow> InitDataHash \<Rightarrow> verdict" where
  "Sample_evaluate E V from_value evidence expected_report_data expected_init_data_hash =
     and_then (with_context ''Deserialize Quote failed.'' (lib_error (from_value evidence)))
       (\<lambda>tee_evidence.
     and_then (with_context ''Evidence's identity verification error.''
                 (sample_verify_tee_evidence V expected_report_data expected_init_data_hash tee_evidence))
       (\<lambda>_.
     and_then (sample_parse_tee_evidence tee_evidence) (\<lambda>claims.
       let claims =
         (case expected_init_data_hash of
            InitValue hash \<Rightarrow>
              (case claims of
                 JObject obj \<Rightarrow>
                   JObject (json_insert ''init_data'' (JString (base64_encode E hash)) obj)
               | _ \<Rightarrow> claims)
          | InitNotProvided \<Rightarrow> claims)
       in Ok [(claims, ''cpu'')])))"

definition Sample :: "crates \<Rightarrow> verifier_env \<Rightarrow> (json \<Rightarrow> (string, SampleTeeEvidence) outcome) \<Rightarrow> Verifier" where
  "Sample E V from_value =
     \<lparr>v_evaluate = Sample_evaluate E V from_value,
      v_generate_supplemental_challenge = default_supplemental_challenge\<rparr>"

definition device_verify_tee_evidence ::
    "verifier_env \<Rightarrow> ReportData \<Rightarrow> InitDataHash \<Rightarrow> SampleTeeEvidence \<Rightarrow> (anyhow, unit) outcome" where
  "device_verify_tee_evidence V expected_report_data expected_init_data_hash evidence =
     (case expected_report_data of
        ReportValue expected \<Rightarrow>
          and_then (with_context ''base64 decode report data for sample evidence''
                      (lib_error (b64_decode_std V (sample_report_data evidence)))) (\<lambda>ev_report_data.
          if expected \<noteq> ev_report_data
          then bail ''REPORT_DATA is different from that in Sample Quote''
          else Ok ())
      | ReportNotProvided \<Rightarrow> Ok ())"

definition device_parse_tee_evidence :: "SampleTeeEvidence \<Rightarrow> (anyhow, TeeEvidenceParsedClaim) outcome" where
  "device_parse_tee_evidence quote = Ok (JObject [(''svn'', JString (sample_svn quote))])"

definition SampleDevice_evaluate ::
    "verifier_env \<Rightarrow> (json \<Rightarrow> (string, SampleTeeEvidence) outcome) \<Rightarrow>
     TeeEvidence \<Rightarrow> ReportData \<Rightarrow> InitDataHash \<Rightarrow> verdict" where
  "SampleDevice_evaluate V from_value evidence expected_report_data expected_init_data_hash =
     and_then (with_context ''Deserialize Quote failed.'' (lib_error (from_value evidence)))
       (\<lambda>tee_evidence.
     and_then (with_context ''Evidence's identity verification error.''
                 (device_verify_tee_evidence V expected_report_data expected_init_data_hash tee_evidence))
       (\<lambda>_.
     and_then (device_parse_tee_evidence tee_evidence) (\<lambda>claims. Ok [(claims, ''gpu'')])))"

definition SampleDevice :: "verifier_env \<Rightarrow> (json \<Rightarrow> (string, SampleTeeEvidence) outcome) \<Rightarrow> Verifier" where
  "SampleDevice V from_value =
     \<lparr>v_evaluate = SampleDevice_evaluate V from_value,
      v_generate_supplemental_challenge = default_supplemental_challenge\<rparr>"

definition sample_carries ::
    "verifier_env \<Rightarrow> (json \<Rightarrow> (string, SampleTeeEvidence) outcome) \<Rightarrow> TeeEvidence \<Rightarrow> bytes \<Rightarrow> bool" where
  "sample_carries V from_value ev rd \<longleftrightarrow>
     (\<exists>e. from_value ev = Ok e \<and> b64_decode_std V (sample_report_data e) = Ok rd)"

lemmas sample_defs =
  Sample_def SampleDevice_def Sample_evaluate_def SampleDevice_evaluate_def
  sample_verify_tee_evidence_def device_verify_tee_evidence_def
  sample_parse_tee_evidence_def device_parse_tee_evidence_def

interpretation sample: report_verifier "Sample E V from_value" "sample_carries V from_value"
  by unfold_locales (auto simp: sample_defs sample_carries_def outcome_iff Let_def split: if_splits)

interpretation sample_device:
  report_verifier "SampleDevice V from_value" "sample_carries V from_value"
  by unfold_locales (auto simp: sample_defs sample_carries_def outcome_iff Let_def split: if_splits)

text \<open>The sample verifier copies the expected initialisation data into its claims, unchecked.\<close>

lemma Sample_init_unchecked:
  assumes "from_value ev = Ok e" and "b64_decode_std V (sample_report_data e) = Ok rd"
  shows "\<exists>m. v_evaluate (Sample E V from_value) ev (ReportValue rd) (InitValue ih) =
      Ok [(JObject m, ''cpu'')] \<and> map_of m ''init_data'' = Some (JString (base64_encode E ih))"
  using assms by (simp add: sample_defs)

section \<open>Choosing a verifier\<close>

datatype TeeKind =
    Sev | AzSnpVtpm | AzTdxVtpm | Tdx | Snp | SampleTee | SampleDeviceTee | Sgx | Csv | Cca | Se
  | HygonDcu | Nvidia | Tpm

text \<open>
  \<open>enabled\<close> are the verifiers the build has features for, each with its constructor; the two sample
  verifiers are always built.
\<close>

definition feature_name :: "TeeKind \<Rightarrow> string" where
  "feature_name t =
     (case t of
        AzSnpVtpm \<Rightarrow> ''az-snp-vtpm-verifier'' | AzTdxVtpm \<Rightarrow> ''az-tdx-vtpm-verifier''
      | Tdx \<Rightarrow> ''tdx-verifier'' | Snp \<Rightarrow> ''snp-verifier'' | Sgx \<Rightarrow> ''sgx-verifier''
      | Csv \<Rightarrow> ''csv-verifier'' | Cca \<Rightarrow> ''cca-verifier'' | Se \<Rightarrow> ''se-verifier''
      | HygonDcu \<Rightarrow> ''hygon-dcu-verifier'' | Nvidia \<Rightarrow> ''nvidia-verifier'' | Tpm \<Rightarrow> ''tpm-verifier''
      | _ \<Rightarrow> [])"

definition to_verifier ::
    "crates \<Rightarrow> verifier_env \<Rightarrow> (json \<Rightarrow> (string, SampleTeeEvidence) outcome) \<Rightarrow>
     (TeeKind \<Rightarrow> 'cfg option \<Rightarrow> (anyhow, Verifier) outcome option) \<Rightarrow>
     TeeKind \<Rightarrow> 'cfg option \<Rightarrow> (anyhow, Verifier) outcome" where
  "to_verifier E V from_value enabled tee cfg =
     (case tee of
        Sev \<Rightarrow> Panic
      | SampleTee \<Rightarrow> Ok (Sample E V from_value)
      | SampleDeviceTee \<Rightarrow> Ok (SampleDevice V from_value)
      | _ \<Rightarrow>
          (case enabled tee cfg of
             Some v \<Rightarrow> v
           | None \<Rightarrow> bail (''feature `'' @ feature_name tee @ ''` is not enabled for `verifier` crate.'')))"

section \<open>Fixed-layout structures\<close>

text \<open>
  \<^verbatim>\<open>derive(Pread)\<close> reads the fields of a structure one after the other; a field \<^verbatim>\<open>[u8; n]\<close> is \<open>n\<close>
  one-byte reads. \<open>gread_fields\<close> gives the fields of a structure of byte arrays.
\<close>

fun gread_array :: "crates \<Rightarrow> nat \<Rightarrow> bytes \<Rightarrow> nat \<Rightarrow> bytes option" where
  "gread_array E 0 data i = Some []"
| "gread_array E (Suc n) data i =
     (case pread E 1 data i of
        None \<Rightarrow> None
      | Some b \<Rightarrow> map_option (\<lambda>bs. word_of_nat b # bs) (gread_array E n data (Suc i)))"

fun gread_fields :: "crates \<Rightarrow> nat list \<Rightarrow> bytes \<Rightarrow> nat \<Rightarrow> bytes list option" where
  "gread_fields E [] data i = Some []"
| "gread_fields E (n # ns) data i =
     (case gread_array E n data i of
        None \<Rightarrow> None
      | Some b \<Rightarrow> map_option (\<lambda>bs. b # bs) (gread_fields E ns data (i + n)))"

fun split_fields :: "nat list \<Rightarrow> bytes \<Rightarrow> bytes list" where
  "split_fields [] data = []"
| "split_fields (n # ns) data = take n data # split_fields ns (drop n data)"

lemma gread_array_eq:
  assumes "scroll_le E" and "0 < n"
  shows "gread_array E n data i =
    (if i + n \<le> length data then Some (take n (drop i data)) else None)"
  using assms(2)
proof (induction n arbitrary: i)
  case 0
  then show ?case by simp
next
  case (Suc n)
  have byte: "pread E 1 data i = (if Suc i \<le> length data then Some (unat (data ! i)) else None)"
    using assms(1) by (simp add: scroll_le_def take_Suc_conv_app_nth hd_drop_conv_nth
        take_Suc_Cons Cons_nth_drop_Suc [symmetric])
  show ?case
  proof (cases n)
    case 0
    then show ?thesis using byte by (simp add: Cons_nth_drop_Suc [symmetric])
  next
    case (Suc k)
    then have n: "0 < n" by simp
    show ?thesis
      unfolding gread_array.simps(2) byte Suc.IH [OF n]
      by (simp add: Cons_nth_drop_Suc [symmetric])
  qed
qed

lemma gread_fields_eq:
  assumes "scroll_le E" and "list_all (\<lambda>n. 0 < n) ns" and "ns \<noteq> []"
  shows "gread_fields E ns data i =
    (if i + sum_list ns \<le> length data then Some (split_fields ns (drop i data)) else None)"
  using assms(2,3)
proof (induction ns arbitrary: i)
  case Nil
  then show ?case by simp
next
  case (Cons n ns)
  show ?case
  proof (cases "ns = []")
    case True
    then show ?thesis using gread_array_eq [OF assms(1)] Cons.prems by simp
  next
    case False
    then show ?thesis
      using gread_array_eq [OF assms(1), of n] Cons by (simp add: ac_simps)
  qed
qed

lemma split_fields_lengths:
  "sum_list ns \<le> length data \<Longrightarrow> map length (split_fields ns data) = ns"
  by (induction ns arbitrary: data) auto

lemma concat_split_fields: "concat (split_fields ns data) = take (sum_list ns) data"
  by (induction ns arbitrary: data) (simp_all add: take_add)

lemma split_fields_concat:
  "map length fs = ns \<Longrightarrow> split_fields ns (concat fs @ rest) = fs"
  by (induction fs arbitrary: ns) auto

text \<open>
  A structure is read exactly from the bytes its fields concatenate to.
\<close>

lemma gread_fields_iff:
  assumes "scroll_le E" and "list_all (\<lambda>n. 0 < n) ns" and "ns \<noteq> []" and "i \<le> length data"
  shows "gread_fields E ns data i = Some fs \<longleftrightarrow>
    map length fs = ns \<and> (\<exists>rest. drop i data = concat fs @ rest)"
proof
  assume "gread_fields E ns data i = Some fs"
  then have le: "sum_list ns \<le> length (drop i data)" and fs: "fs = split_fields ns (drop i data)"
    using gread_fields_eq [OF assms(1-3)] assms(4) by (auto split: if_splits)
  then show "map length fs = ns \<and> (\<exists>rest. drop i data = concat fs @ rest)"
    using split_fields_lengths [OF le] concat_split_fields [of ns "drop i data"]
    by (metis append_take_drop_id)
next
  assume r: "map length fs = ns \<and> (\<exists>rest. drop i data = concat fs @ rest)"
  then obtain rest where rest: "drop i data = concat fs @ rest" by blast
  have "length (drop i data) = sum_list ns + length rest"
    using r rest by (simp add: length_concat)
  then have "i + sum_list ns \<le> length data" using assms(4) by simp
  then show "gread_fields E ns data i = Some fs"
    using gread_fields_eq [OF assms(1-3)] split_fields_concat r rest by simp
qed

end
