(* ===== verification/Snp.thy ===== *)
theory Snp
  imports Verifier
begin

text \<open>
  The AMD SEV-SNP verifier (\<^verbatim>\<open>deps/verifier/src/snp/mod.rs\<close>). The report, the certificates and the
  signature checks come from the \<^verbatim>\<open>sev\<close>, \<^verbatim>\<open>openssl\<close> and \<^verbatim>\<open>x509_parser\<close> packages; the key
  distribution service is reached over HTTP. All of them are parameters. The lemmas show what an accepted
  report is: signed by an endorsement key that chains to the vendor's root, for the firmware
  levels the key is certified for, at VMPL 0, and bound to the expected data.
\<close>

section \<open>Types\<close>

text \<open>The fields of the report the code reads, with the accessor values of its bit fields.\<close>

record TcbVersion =
  tcb_fmc :: "byte option"
  tcb_bootloader :: byte
  tcb_tee :: byte
  tcb_snp :: byte
  tcb_microcode :: byte

record GuestPolicy =
  abi_major :: byte
  abi_minor :: byte
  smt_allowed :: bool
  migrate_ma_allowed :: bool
  debug_allowed :: bool
  single_socket_required :: bool

record AttestationReport =
  report_version :: u32
  vmpl :: u32
  policy :: GuestPolicy
  tsme_enabled :: bool
  plat_smt_enabled :: bool
  snp_report_data :: bytes
  measurement :: bytes
  host_data :: bytes
  reported_tcb :: TcbVersion
  cpuid_fam_id :: "byte option"
  cpuid_mod_id :: "byte option"
  chip_id :: bytes
  report_signature :: bytes

datatype CertType = ARK | ASK | VCEK | VLEK | OtherCert

record CertTableEntry =
  cert_type :: CertType
  cert_data :: bytes

record SnpEvidence =
  attestation_report :: AttestationReport
  cert_chain :: "CertTableEntry list option"

datatype VendorEndorsementKey = Vcek | Vlek

datatype ProcessorGeneration = Milan | Genoa | Turin

record 'c VendorCertificates =
  vendor_ask :: 'c
  vendor_ark :: 'c
  vendor_asvk :: 'c

text \<open>The packages: \<open>'c\<close> certificates, \<open>'t\<close> parsed certificate bodies.\<close>

record ('c, 't) snp_lib =
  stack_from_pem :: "bytes \<Rightarrow> 'c list option"
  vendor_pem :: "ProcessorGeneration \<Rightarrow> bytes"
  cert_from_bytes :: "bytes \<Rightarrow> (string, 'c) outcome"
  verify_signed_by :: "'c \<Rightarrow> 'c \<Rightarrow> (string, unit) outcome"
  verify_chain :: "'c \<Rightarrow> 'c \<Rightarrow> 'c \<Rightarrow> (string, unit) outcome"
  verify_report :: "'c \<Rightarrow> AttestationReport \<Rightarrow> (string, unit) outcome"
  cert_to_der :: "'c \<Rightarrow> (string, bytes) outcome"
  tbs_from_der :: "bytes \<Rightarrow> (string, 't) outcome"
  get_extension_unique :: "'t \<Rightarrow> nat list \<Rightarrow> (string, bytes option) outcome"
  octet_string_from_der :: "bytes \<Rightarrow> (string, bytes) outcome"
  integer_from_der :: "bytes \<Rightarrow> (string, int) outcome"
  common_name_entries :: "'c \<Rightarrow> (string, string) outcome list"
  kds_send :: "string \<Rightarrow> (string, nat \<times> (string, bytes) outcome) outcome"
  snp_from_value :: "json \<Rightarrow> (string, SnpEvidence) outcome"

section \<open>Vendor certificates\<close>

definition HW_ID_OID :: "nat list" where
  "HW_ID_OID = [1, 3, 6, 1, 4, 1, 3704, 1, 4]"

definition UCODE_SPL_OID :: "nat list" where
  "UCODE_SPL_OID = [1, 3, 6, 1, 4, 1, 3704, 1, 3, 8]"

definition SNP_SPL_OID :: "nat list" where
  "SNP_SPL_OID = [1, 3, 6, 1, 4, 1, 3704, 1, 3, 3]"

definition TEE_SPL_OID :: "nat list" where
  "TEE_SPL_OID = [1, 3, 6, 1, 4, 1, 3704, 1, 3, 2]"

definition LOADER_SPL_OID :: "nat list" where
  "LOADER_SPL_OID = [1, 3, 6, 1, 4, 1, 3704, 1, 3, 1]"

definition FMC_SPL_OID :: "nat list" where
  "FMC_SPL_OID = [1, 3, 6, 1, 4, 1, 3704, 1, 3, 9]"

definition KDS_CERT_SITE :: string where
  "KDS_CERT_SITE = ''https://kdsintf.amd.com''"

definition KDS_VCEK :: string where
  "KDS_VCEK = ''/vcek/v1''"

definition REPORT_VERSION_MIN :: u32 where
  "REPORT_VERSION_MIN = 3"

definition REPORT_VERSION_MAX :: u32 where
  "REPORT_VERSION_MAX = 5"

definition vendor_certs_of :: "('c, 't) snp_lib \<Rightarrow> ProcessorGeneration \<Rightarrow> 'c VendorCertificates option" where
  "vendor_certs_of L p =
     (case stack_from_pem L (vendor_pem L p) of
        Some [a, b, c] \<Rightarrow> Some \<lparr>vendor_ask = a, vendor_ark = b, vendor_asvk = c\<rparr>
      | _ \<Rightarrow> None)"

text \<open>\<^verbatim>\<open>CERT_CHAINS\<close> is built at its first use, for all generations; a malformed file panics.\<close>

definition CERT_CHAINS :: "('c, 't) snp_lib \<Rightarrow> ProcessorGeneration \<Rightarrow> (anyhow, 'c VendorCertificates) outcome" where
  "CERT_CHAINS L p =
     (if list_all (\<lambda>p. vendor_certs_of L p \<noteq> None) [Milan, Genoa, Turin]
      then ok_or [''Vendor certs not found for processor type''] (vendor_certs_of L p)
      else Panic)"

fun ProcessorGeneration_display :: "ProcessorGeneration \<Rightarrow> string" where
  "ProcessorGeneration_display Milan = ''Milan''"
| "ProcessorGeneration_display Genoa = ''Genoa''"
| "ProcessorGeneration_display Turin = ''Turin''"

definition get_processor_generation :: "AttestationReport \<Rightarrow> (anyhow, ProcessorGeneration) outcome" where
  "get_processor_generation att_report =
     and_then (ok_or [''Attestation report version 3+ is missing CPU family ID''] (cpuid_fam_id att_report))
       (\<lambda>cpu_fam.
     and_then (ok_or [''Attestation report version 3+ is missing CPU model ID''] (cpuid_mod_id att_report))
       (\<lambda>cpu_mod.
     let m = unat cpu_mod in
     if cpu_fam = 0x19 then
       (if m \<le> 0xF then Ok Milan
        else if 0x10 \<le> m \<and> m \<le> 0x1F \<or> 0xA0 \<le> m \<and> m < 0xAF then Ok Genoa
        else bail ''Processor model not supported'')
     else if cpu_fam = 0x1A then
       (if m \<le> 0x11 then Ok Turin else bail ''Processor model not supported'')
     else bail ''Processor family not supported''))"

section \<open>Fetching the endorsement key\<close>

definition fmt_02 :: "byte \<Rightarrow> string" where
  "fmt_02 b = pad0 2 (fmt_dec (unat b))"

definition spl_query :: "TcbVersion \<Rightarrow> string" where
  "spl_query t =
     ''blSPL='' @ fmt_02 (tcb_bootloader t) @ ''&teeSPL='' @ fmt_02 (tcb_tee t) @
     ''&snpSPL='' @ fmt_02 (tcb_snp t) @ ''&ucodeSPL='' @ fmt_02 (tcb_microcode t)"

definition vcek_url :: "crates \<Rightarrow> AttestationReport \<Rightarrow> ProcessorGeneration \<Rightarrow> (anyhow, string) outcome" where
  "vcek_url E att_report proc_gen =
     (if chip_id att_report = replicate 64 0
      then bail ''Hardware ID is 0s on attestation report. Confirm that MASK_CHIP_ID is set to 0 to request VCEK from KDS.''
      else
        and_then (if proc_gen = Turin then slice (chip_id att_report) 0 8 else Ok (chip_id att_report))
          (\<lambda>hw.
        let hw_id = hex_encode E hw; t = reported_tcb att_report;
            base = KDS_CERT_SITE @ KDS_VCEK @ ''/'' @ ProcessorGeneration_display proc_gen @ ''/'' @ hw_id
        in
        if proc_gen = Turin then
          and_then (ok_or [''A Turin processor must have a fmc value''] (tcb_fmc t)) (\<lambda>fmc.
            Ok (base @ ''?fmcSPL='' @ fmt_02 fmc @ ''&'' @ spl_query t))
        else Ok (base @ ''?'' @ spl_query t)))"

text \<open>The HTTP client of \<^verbatim>\<open>build_vcek_client\<close>, cached or not, is \<open>kds_send\<close>.\<close>

definition fetch_vcek_from_kds ::
    "crates \<Rightarrow> ('c, 't) snp_lib \<Rightarrow> AttestationReport \<Rightarrow> ProcessorGeneration \<Rightarrow> (anyhow, bytes) outcome" where
  "fetch_vcek_from_kds E L att_report proc_gen =
     and_then (vcek_url E att_report proc_gen) (\<lambda>url.
     and_then (with_context ''Unable to send request for VCEK'' (lib_error (kds_send L url)))
       (\<lambda>(status, body).
       if status = 200 then with_context ''Unable to parse VCEK'' (lib_error body)
       else bail (''Unable to fetch VCEK from URL: '' @ fmt_dec status @ '', '' @ url)))"

section \<open>Checking the certificates\<close>

definition get_oid_octets ::
    "('c, 't) snp_lib \<Rightarrow> nat \<Rightarrow> 't \<Rightarrow> nat list \<Rightarrow> (anyhow, bytes) outcome" where
  "get_oid_octets L n vcek oid =
     and_then (lib_error (get_extension_unique L vcek oid)) (\<lambda>ext.
     and_then (ok_or [''Oid not found''] ext) (\<lambda>val.
     if length val = n then Ok val
     else
       and_then (lib_error (octet_string_from_der L val)) (\<lambda>val_octet.
         if length val_octet = n then Ok val_octet else bail ''Unexpected data size'')))"

definition get_oid_int :: "('c, 't) snp_lib \<Rightarrow> 't \<Rightarrow> nat list \<Rightarrow> (anyhow, byte) outcome" where
  "get_oid_int L cert oid =
     and_then (lib_error (get_extension_unique L cert oid)) (\<lambda>ext.
     and_then (ok_or [''Oid not found''] ext) (\<lambda>val.
     and_then (lib_error (integer_from_der L val)) (\<lambda>val_int.
       if 0 \<le> val_int \<and> val_int < 256 then Ok (word_of_int val_int)
       else bail ''Unexpected data size'')))"

definition get_common_name :: "('c, 't) snp_lib \<Rightarrow> 'c \<Rightarrow> (anyhow, string) outcome" where
  "get_common_name L cert =
     (case common_name_entries L cert of
        [] \<Rightarrow> bail ''No CN found''
      | e # rest \<Rightarrow> if rest \<noteq> [] then bail ''No CN found'' else lib_error e)"

text \<open>A comparison of an extension with a field of the report.\<close>

definition check_oid_int ::
    "('c, 't) snp_lib \<Rightarrow> 't \<Rightarrow> nat list \<Rightarrow> byte \<Rightarrow> string \<Rightarrow> (anyhow, unit) outcome" where
  "check_oid_int L cert oid v msg =
     and_then (get_oid_int L cert oid) (\<lambda>x. if x \<noteq> v then Err [msg] else Ok ())"

definition verify_report_tcb ::
    "('c, 't) snp_lib \<Rightarrow> AttestationReport \<Rightarrow> 'c \<Rightarrow> ProcessorGeneration \<Rightarrow> (anyhow, unit) outcome" where
  "verify_report_tcb L report vek proc_gen =
     and_then (lib_error (cert_to_der L vek)) (\<lambda>endorsement_key_der.
     and_then (lib_error (tbs_from_der L endorsement_key_der)) (\<lambda>key.
     and_then (with_context ''No common name found in certificate'' (get_common_name L vek)) (\<lambda>common_name.
     and_then (if common_name = ''VCEK''
               then and_then (get_oid_octets L 64 key HW_ID_OID) (\<lambda>hw.
                      if hw \<noteq> chip_id report then bail ''Chip ID mismatch'' else Ok ())
               else Ok ()) (\<lambda>_.
     let t = reported_tcb report in
     and_then (check_oid_int L key UCODE_SPL_OID (tcb_microcode t) ''Microcode version mismatch'') (\<lambda>_.
     and_then (check_oid_int L key SNP_SPL_OID (tcb_snp t) ''SNP version mismatch'') (\<lambda>_.
     and_then (check_oid_int L key TEE_SPL_OID (tcb_tee t) ''TEE version mismatch'') (\<lambda>_.
     and_then (check_oid_int L key LOADER_SPL_OID (tcb_bootloader t) ''Boot loader version mismatch'') (\<lambda>_.
     if proc_gen = Turin
     then and_then (get_oid_int L key FMC_SPL_OID) (\<lambda>x.
            (case tcb_fmc t of
               None \<Rightarrow> Panic
             | Some fmc \<Rightarrow> if x \<noteq> fmc then Err [''FMC version mismatch''] else Ok ()))
     else Ok ()))))))))"

text \<open>The loop over a given certificate chain; the state is the certificates found so far.\<close>

record 'c found_certs =
  found_ask :: "'c option"
  found_ark :: "'c option"
  found_vek :: "'c option"
  vek_type :: VendorEndorsementKey

definition chain_step ::
    "('c, 't) snp_lib \<Rightarrow> 'c VendorCertificates \<Rightarrow> 'c found_certs \<Rightarrow> CertTableEntry \<Rightarrow>
     (anyhow, 'c found_certs) outcome" where
  "chain_step L vendor_certs st cert =
     (case cert_type cert of
        ARK \<Rightarrow>
          and_then (lib_error (cert_from_bytes L (cert_data cert))) (\<lambda>c.
          and_then (with_context ''Provided ARK has an invalid signature''
                      (lib_error (verify_signed_by L (vendor_ark vendor_certs) c))) (\<lambda>_.
            Ok (st\<lparr>found_ark := Some c\<rparr>)))
      | ASK \<Rightarrow>
          and_then (lib_error (cert_from_bytes L (cert_data cert))) (\<lambda>c. Ok (st\<lparr>found_ask := Some c\<rparr>))
      | VCEK \<Rightarrow>
          if found_vek st = None
          then and_then (lib_error (cert_from_bytes L (cert_data cert))) (\<lambda>c. Ok (st\<lparr>found_vek := Some c\<rparr>))
          else Ok st
      | VLEK \<Rightarrow>
          if found_vek st = None
          then and_then (lib_error (cert_from_bytes L (cert_data cert))) (\<lambda>c.
                 Ok (st\<lparr>vek_type := Vlek, found_vek := Some c\<rparr>))
          else Ok st
      | OtherCert \<Rightarrow> Ok st)"

fun chain_loop ::
    "('c, 't) snp_lib \<Rightarrow> 'c VendorCertificates \<Rightarrow> 'c found_certs \<Rightarrow> CertTableEntry list \<Rightarrow>
     (anyhow, 'c found_certs) outcome" where
  "chain_loop L vendor_certs st [] = Ok st"
| "chain_loop L vendor_certs st (cert # certs) =
     and_then (chain_step L vendor_certs st cert) (\<lambda>st. chain_loop L vendor_certs st certs)"

definition vek_of_chain ::
    "('c, 't) snp_lib \<Rightarrow> 'c VendorCertificates \<Rightarrow> CertTableEntry list \<Rightarrow> (anyhow, 'c) outcome" where
  "vek_of_chain L vendor_certs chain =
     and_then (chain_loop L vendor_certs
                 \<lparr>found_ask = None, found_ark = None, found_vek = None, vek_type = Vcek\<rparr> chain) (\<lambda>st.
     and_then (ok_or [''If a cert chain is provided, it must include a VCEK/VLEK''] (found_vek st)) (\<lambda>vek.
     let ark = (case found_ark st of Some c \<Rightarrow> c | None \<Rightarrow> vendor_ark vendor_certs);
         ask = (case found_ask st of
                  Some c \<Rightarrow> c
                | None \<Rightarrow> (case vek_type st of
                             Vlek \<Rightarrow> vendor_asvk vendor_certs
                           | Vcek \<Rightarrow> vendor_ask vendor_certs))
     in
     and_then (with_context ''Certificate chain provided by user failed to verify''
                 (lib_error (verify_chain L ark ask vek))) (\<lambda>_. Ok vek)))"

definition vek_from_kds ::
    "('c, 't) snp_lib \<Rightarrow> 'c VendorCertificates \<Rightarrow> (anyhow, bytes) outcome \<Rightarrow> (anyhow, 'c) outcome" where
  "vek_from_kds L vendor_certs fetched =
     and_then (with_context ''Failed to fetch VCEK from KDS'' fetched) (\<lambda>vcek_buf.
     and_then (with_context ''Failed to convert KDS VCEK into certificate''
                 (lib_error (cert_from_bytes L vcek_buf))) (\<lambda>vcek.
     and_then (with_context ''Certificate chain from KDS failed verification''
                 (lib_error (verify_chain L (vendor_ark vendor_certs) (vendor_ask vendor_certs) vcek)))
       (\<lambda>_. Ok vcek)))"

section \<open>Evaluation\<close>

definition parse_tee_evidence :: "crates \<Rightarrow> AttestationReport \<Rightarrow> TeeEvidenceParsedClaim" where
  "parse_tee_evidence E report =
     JObject
       [(''policy_abi_major'', JNumber (uint (abi_major (policy report)))),
        (''policy_abi_minor'', JNumber (uint (abi_minor (policy report)))),
        (''policy_smt_allowed'', JBool (smt_allowed (policy report))),
        (''policy_migrate_ma'', JBool (migrate_ma_allowed (policy report))),
        (''policy_debug_allowed'', JBool (debug_allowed (policy report))),
        (''policy_single_socket'', JBool (single_socket_required (policy report))),
        (''reported_tcb_bootloader'', JNumber (uint (tcb_bootloader (reported_tcb report)))),
        (''reported_tcb_tee'', JNumber (uint (tcb_tee (reported_tcb report)))),
        (''reported_tcb_snp'', JNumber (uint (tcb_snp (reported_tcb report)))),
        (''reported_tcb_microcode'', JNumber (uint (tcb_microcode (reported_tcb report)))),
        (''platform_tsme_enabled'', JBool (tsme_enabled report)),
        (''platform_smt_enabled'', JBool (plat_smt_enabled report)),
        (''measurement'', JString (base64_encode E (measurement report))),
        (''report_data'', JString (base64_encode E (snp_report_data report))),
        (''init_data'', JString (base64_encode E (host_data report)))]"

text \<open>The privilege level and the bindings.\<close>

definition snp_check_data :: "AttestationReport \<Rightarrow> ReportData \<Rightarrow> InitDataHash \<Rightarrow> (anyhow, unit) outcome" where
  "snp_check_data report expected_report_data expected_init_data_hash =
     (if vmpl report \<noteq> 0 then bail ''VMPL Check Failed''
      else
        and_then (case expected_report_data of
                    ReportValue expected \<Rightarrow>
                      if regularize_data expected 64 \<noteq> snp_report_data report
                      then bail ''Report Data Mismatch'' else Ok ()
                  | ReportNotProvided \<Rightarrow> Ok ()) (\<lambda>_.
        (case expected_init_data_hash of
           InitValue expected \<Rightarrow>
             if regularize_data expected 32 \<noteq> host_data report
             then bail ''Host Data Mismatch'' else Ok ()
         | InitNotProvided \<Rightarrow> Ok ())))"

definition Snp_evaluate ::
    "crates \<Rightarrow> ('c, 't) snp_lib \<Rightarrow> TeeEvidence \<Rightarrow> ReportData \<Rightarrow> InitDataHash \<Rightarrow> verdict" where
  "Snp_evaluate E L evidence expected_report_data expected_init_data_hash =
     and_then (with_context ''Deserialize SNP Evidence failed'' (lib_error (snp_from_value L evidence)))
       (\<lambda>ev.
     let report = attestation_report ev in
     if report_version report < REPORT_VERSION_MIN
     then bail ''Attestation Report version is too old. Please update your firmware.''
     else if REPORT_VERSION_MAX < report_version report
     then bail ''Unexpected attestation report version. Check SNP Firmware ABI specification''
     else
       and_then (get_processor_generation report) (\<lambda>proc_gen.
       and_then (CERT_CHAINS L proc_gen) (\<lambda>vendor_certs.
       and_then (case cert_chain ev of
                   Some chain \<Rightarrow> vek_of_chain L vendor_certs chain
                 | None \<Rightarrow> vek_from_kds L vendor_certs (fetch_vcek_from_kds E L report proc_gen)) (\<lambda>vek.
       and_then (with_context ''Report signature verification against VEK signature failed''
                   (lib_error (verify_report L vek report))) (\<lambda>_.
       and_then (with_context ''Reported TCB values do not match''
                   (verify_report_tcb L report vek proc_gen)) (\<lambda>_.
       and_then (snp_check_data report expected_report_data expected_init_data_hash) (\<lambda>_.
         Ok [(parse_tee_evidence E report, ''cpu'')])))))))"

definition SnpVerifier :: "crates \<Rightarrow> ('c, 't) snp_lib \<Rightarrow> Verifier" where
  "SnpVerifier E L =
     \<lparr>v_evaluate = Snp_evaluate E L,
      v_generate_supplemental_challenge = default_supplemental_challenge\<rparr>"

section \<open>What acceptance means\<close>

text \<open>An endorsement key is trusted when it chains to the vendor's root, or to a root that one signed.\<close>

definition snp_endorsed :: "('c, 't) snp_lib \<Rightarrow> ProcessorGeneration \<Rightarrow> 'c \<Rightarrow> bool" where
  "snp_endorsed L p vek \<longleftrightarrow>
     (\<exists>vc ark ask. CERT_CHAINS L p = Ok vc \<and>
        (ark = vendor_ark vc \<or> verify_signed_by L (vendor_ark vc) ark = Ok ()) \<and>
        verify_chain L ark ask vek = Ok ())"

text \<open>The firmware levels of the report are those the key is certified for.\<close>

definition snp_certified :: "('c, 't) snp_lib \<Rightarrow> AttestationReport \<Rightarrow> 'c \<Rightarrow> bool" where
  "snp_certified L report vek \<longleftrightarrow>
     (\<exists>der key. cert_to_der L vek = Ok der \<and> tbs_from_der L der = Ok key \<and>
        get_oid_int L key UCODE_SPL_OID = Ok (tcb_microcode (reported_tcb report)) \<and>
        get_oid_int L key SNP_SPL_OID = Ok (tcb_snp (reported_tcb report)) \<and>
        get_oid_int L key TEE_SPL_OID = Ok (tcb_tee (reported_tcb report)) \<and>
        get_oid_int L key LOADER_SPL_OID = Ok (tcb_bootloader (reported_tcb report)) \<and>
        (get_common_name L vek = Ok ''VCEK'' \<longrightarrow> get_oid_octets L 64 key HW_ID_OID = Ok (chip_id report)))"

definition snp_report_ok :: "('c, 't) snp_lib \<Rightarrow> AttestationReport \<Rightarrow> bool" where
  "snp_report_ok L report \<longleftrightarrow>
     3 \<le> report_version report \<and> report_version report \<le> 5 \<and> vmpl report = 0 \<and>
     (\<exists>p vek. get_processor_generation report = Ok p \<and> snp_endorsed L p vek \<and>
        verify_report L vek report = Ok () \<and> snp_certified L report vek)"

lemma check_oid_int_Ok [outcome_iff]:
  "check_oid_int L cert oid v msg = Ok u \<longleftrightarrow> get_oid_int L cert oid = Ok v"
  by (auto simp: check_oid_int_def outcome_iff)

lemma chain_step_ark:
  assumes "chain_step L vc st cert = Ok st'"
    and "\<forall>c. found_ark st = Some c \<longrightarrow> verify_signed_by L (vendor_ark vc) c = Ok ()"
  shows "\<forall>c. found_ark st' = Some c \<longrightarrow> verify_signed_by L (vendor_ark vc) c = Ok ()"
  using assms by (cases "cert_type cert") (auto simp: chain_step_def outcome_iff split: if_splits)

lemma chain_loop_ark:
  assumes "chain_loop L vc st certs = Ok st'"
    and "\<forall>c. found_ark st = Some c \<longrightarrow> verify_signed_by L (vendor_ark vc) c = Ok ()"
  shows "\<forall>c. found_ark st' = Some c \<longrightarrow> verify_signed_by L (vendor_ark vc) c = Ok ()"
  using assms
proof (induction certs arbitrary: st)
  case Nil
  then show ?case by simp
next
  case (Cons cert certs)
  then obtain st1 where st1: "chain_step L vc st cert = Ok st1" "chain_loop L vc st1 certs = Ok st'"
    by (auto simp: outcome_iff)
  show ?case by (rule Cons.IH [OF st1(2) chain_step_ark [OF st1(1) Cons.prems(2)]])
qed

lemma vek_of_chain_endorsed:
  assumes "CERT_CHAINS L p = Ok vc" and "vek_of_chain L vc chain = Ok vek"
  shows "snp_endorsed L p vek"
proof -
  obtain st where loop: "chain_loop L vc \<lparr>found_ask = None, found_ark = None, found_vek = None,
      vek_type = Vcek\<rparr> chain = Ok st"
    and ver: "verify_chain L (case found_ark st of Some c \<Rightarrow> c | None \<Rightarrow> vendor_ark vc)
      (case found_ask st of Some c \<Rightarrow> c | None \<Rightarrow>
        (case vek_type st of Vlek \<Rightarrow> vendor_asvk vc | Vcek \<Rightarrow> vendor_ask vc)) vek = Ok ()"
    using assms(2) unfolding vek_of_chain_def Let_def by (auto simp: outcome_iff)
  have "\<forall>c. found_ark st = Some c \<longrightarrow> verify_signed_by L (vendor_ark vc) c = Ok ()"
    using chain_loop_ark [OF loop] by simp
  then show ?thesis
    using assms(1) ver unfolding snp_endorsed_def by (cases "found_ark st") auto
qed

lemma vek_from_kds_endorsed:
  assumes "CERT_CHAINS L p = Ok vc" and "vek_from_kds L vc r = Ok vek"
  shows "snp_endorsed L p vek"
  using assms unfolding snp_endorsed_def vek_from_kds_def by (auto simp: outcome_iff)

lemma verify_report_tcb_certified:
  assumes "verify_report_tcb L report vek p = Ok ()"
  shows "snp_certified L report vek"
proof -
  let ?t = "reported_tcb report"
  obtain der key cn where key: "cert_to_der L vek = Ok der" "tbs_from_der L der = Ok key"
      "get_common_name L vek = Ok cn"
    and hw: "(if cn = ''VCEK'' then and_then (get_oid_octets L 64 key HW_ID_OID) (\<lambda>hw.
        if hw \<noteq> chip_id report then bail ''Chip ID mismatch'' else Ok ()) else Ok ()) = Ok ()"
    and spl: "get_oid_int L key UCODE_SPL_OID = Ok (tcb_microcode ?t)"
      "get_oid_int L key SNP_SPL_OID = Ok (tcb_snp ?t)"
      "get_oid_int L key TEE_SPL_OID = Ok (tcb_tee ?t)"
      "get_oid_int L key LOADER_SPL_OID = Ok (tcb_bootloader ?t)"
    using assms unfolding verify_report_tcb_def Let_def and_then_Ok_iff check_oid_int_Ok lib_error_iff
      with_context_iff by auto
  have "get_oid_octets L 64 key HW_ID_OID = Ok (chip_id report)" if "cn = ''VCEK''"
    using hw that by (simp add: outcome_iff bail_def split: if_splits)
  then show ?thesis using key spl unfolding snp_certified_def by auto
qed

text \<open>The two expected values against the report.\<close>

definition snp_bound :: "AttestationReport \<Rightarrow> ReportData \<Rightarrow> InitDataHash \<Rightarrow> bool" where
  "snp_bound report rdo iho \<longleftrightarrow>
     (\<forall>rd. rdo = ReportValue rd \<longrightarrow> regularize_data rd 64 = snp_report_data report) \<and>
     (\<forall>ih. iho = InitValue ih \<longrightarrow> regularize_data ih 32 = host_data report)"

lemma snp_check_data_Ok:
  "snp_check_data report rdo iho = Ok u \<longleftrightarrow> vmpl report = 0 \<and> snp_bound report rdo iho"
  by (auto simp: snp_check_data_def snp_bound_def outcome_iff bail_def
      split: if_splits ReportData.splits InitDataHash.splits)

lemma Snp_evaluate_Ok:
  assumes "Snp_evaluate E L ev rdo iho = Ok cs"
  obtains e where "snp_from_value L ev = Ok e" "snp_report_ok L (attestation_report e)"
    "snp_bound (attestation_report e) rdo iho"
    "cs = [(parse_tee_evidence E (attestation_report e), ''cpu'')]"
proof -
  obtain e where e: "snp_from_value L ev = Ok e"
    using assms by (auto simp: Snp_evaluate_def outcome_iff)
  let ?r = "attestation_report e"
  have version: "\<not> report_version ?r < REPORT_VERSION_MIN" "\<not> REPORT_VERSION_MAX < report_version ?r"
    using assms e by (auto simp: Snp_evaluate_def outcome_iff Let_def bail_def split: if_splits)
  obtain p vc vek u1 u2 u3 where p: "get_processor_generation ?r = Ok p" and vc: "CERT_CHAINS L p = Ok vc"
    and vek: "(case cert_chain e of Some chain \<Rightarrow> vek_of_chain L vc chain
        | None \<Rightarrow> vek_from_kds L vc (fetch_vcek_from_kds E L ?r p)) = Ok vek"
    and sig: "verify_report L vek ?r = Ok u1" and tcb: "verify_report_tcb L ?r vek p = Ok u2"
    and data: "snp_check_data ?r rdo iho = Ok u3"
    and cs: "Ok cs = (Ok [(parse_tee_evidence E ?r, ''cpu'')] :: verdict)"
    using assms version unfolding Snp_evaluate_def Let_def
    by (auto simp only: e lib_error_simps with_context_simps and_then.simps if_False
        and_then_Ok_iff with_context_iff lib_error_iff)
  have "snp_endorsed L p vek"
    using vek vc vek_of_chain_endorsed vek_from_kds_endorsed by (cases "cert_chain e") auto
  moreover have "snp_certified L ?r vek" using tcb verify_report_tcb_certified by simp
  moreover have "3 \<le> report_version ?r" "report_version ?r \<le> 5"
    using version by (simp_all add: REPORT_VERSION_MIN_def REPORT_VERSION_MAX_def)
  ultimately show thesis
    using that [OF e] p sig data cs unfolding snp_report_ok_def snp_check_data_Ok by auto
qed

interpretation snp: bound_verifier "SnpVerifier E L"
  "\<lambda>ev rd. \<exists>e. snp_from_value L ev = Ok e \<and> snp_report_ok L (attestation_report e) \<and>
      snp_report_data (attestation_report e) = regularize_data rd 64"
  "\<lambda>ev ih. \<exists>e. snp_from_value L ev = Ok e \<and> snp_report_ok L (attestation_report e) \<and>
      host_data (attestation_report e) = regularize_data ih 32"
proof unfold_locales
  show "\<exists>e. snp_from_value L ev = Ok e \<and> snp_report_ok L (attestation_report e) \<and>
      snp_report_data (attestation_report e) = regularize_data rd 64"
    if "v_evaluate (SnpVerifier E L) ev (ReportValue rd) ih = Ok claims" for ev rd ih claims
  proof -
    from that have "Snp_evaluate E L ev (ReportValue rd) ih = Ok claims" by (simp add: SnpVerifier_def)
    then show ?thesis by (rule Snp_evaluate_Ok) (auto simp: snp_bound_def)
  qed
  show "claims \<noteq> []" if "v_evaluate (SnpVerifier E L) ev rdo ih = Ok claims" for ev rdo ih claims
  proof -
    from that have "Snp_evaluate E L ev rdo ih = Ok claims" by (simp add: SnpVerifier_def)
    then show ?thesis by (rule Snp_evaluate_Ok) simp
  qed
  show "\<exists>e. snp_from_value L ev = Ok e \<and> snp_report_ok L (attestation_report e) \<and>
      host_data (attestation_report e) = regularize_data ih 32"
    if "v_evaluate (SnpVerifier E L) ev rdo (InitValue ih) = Ok claims" for ev rdo ih claims
  proof -
    from that have "Snp_evaluate E L ev rdo (InitValue ih) = Ok claims" by (simp add: SnpVerifier_def)
    then show ?thesis by (rule Snp_evaluate_Ok) (auto simp: snp_bound_def)
  qed
qed

end
