(* ===== verification/Tdx_Quote.thy ===== *)
theory Tdx_Quote
  imports Verifier Eventlog_Properties
begin

text \<open>
  TDX quotes (\<^verbatim>\<open>deps/verifier/src/tdx/quote.rs\<close>) and the claims made of them
  (\<^verbatim>\<open>tdx/claims.rs\<close>). The layout lemmas show that parsing is the inverse of the binary layout, which
  inputs make it panic, and what the claims say of the quote's bytes.
\<close>

section \<open>Quote structures\<close>

definition QUOTE_HEADER_SIZE :: nat where
  "QUOTE_HEADER_SIZE = 48"

record QuoteHeader =
  hdr_version :: bytes
  att_key_type :: bytes
  tee_type :: bytes
  hdr_reserved :: bytes
  vendor_id :: bytes
  user_data :: bytes

record ReportBody2 =
  tcb_svn :: bytes
  mr_seam :: bytes
  mrsigner_seam :: bytes
  seam_attributes :: bytes
  td_attributes :: bytes
  xfam :: bytes
  mr_td :: bytes
  mr_config_id :: bytes
  mr_owner :: bytes
  mr_owner_config :: bytes
  rtmr_0 :: bytes
  rtmr_1 :: bytes
  rtmr_2 :: bytes
  rtmr_3 :: bytes
  report_data :: bytes

record ReportBody2v15 = ReportBody2 +
  tee_tcb_svn2 :: bytes
  mr_servicetd :: bytes

datatype QuoteV5Type = TDX10 | TDX15

datatype QuoteV5Body = Tdx10 ReportBody2 | Tdx15 ReportBody2v15

datatype Quote =
    V4 QuoteHeader ReportBody2
  | V5 QuoteHeader QuoteV5Type bytes QuoteV5Body

text \<open>The sizes of the fields, in the order of \<^verbatim>\<open>repr(C)\<close>.\<close>

definition header_sizes :: "nat list" where
  "header_sizes = [2, 2, 4, 4, 16, 20]"

definition body_sizes :: "nat list" where
  "body_sizes = [16, 48, 48, 8, 8, 8, 48, 48, 48, 48, 48, 48, 48, 48, 64]"

definition body15_sizes :: "nat list" where
  "body15_sizes = body_sizes @ [16, 48]"

definition QuoteHeader_pread :: "crates \<Rightarrow> bytes \<Rightarrow> nat \<Rightarrow> QuoteHeader option" where
  "QuoteHeader_pread E data i =
     (case gread_fields E header_sizes data i of
        Some [v, a, t, r, w, u] \<Rightarrow>
          Some \<lparr>hdr_version = v, att_key_type = a, tee_type = t, hdr_reserved = r, vendor_id = w,
                user_data = u\<rparr>
      | _ \<Rightarrow> None)"

definition ReportBody2_pread :: "crates \<Rightarrow> bytes \<Rightarrow> nat \<Rightarrow> ReportBody2 option" where
  "ReportBody2_pread E data i =
     (case gread_fields E body_sizes data i of
        Some [f0, f1, f2, f3, f4, f5, f6, f7, f8, f9, f10, f11, f12, f13, f14] \<Rightarrow>
          Some \<lparr>tcb_svn = f0, mr_seam = f1, mrsigner_seam = f2, seam_attributes = f3,
                td_attributes = f4, xfam = f5, mr_td = f6, mr_config_id = f7, mr_owner = f8,
                mr_owner_config = f9, rtmr_0 = f10, rtmr_1 = f11, rtmr_2 = f12, rtmr_3 = f13,
                report_data = f14\<rparr>
      | _ \<Rightarrow> None)"

definition ReportBody2v15_pread :: "crates \<Rightarrow> bytes \<Rightarrow> nat \<Rightarrow> ReportBody2v15 option" where
  "ReportBody2v15_pread E data i =
     (case gread_fields E body15_sizes data i of
        Some [f0, f1, f2, f3, f4, f5, f6, f7, f8, f9, f10, f11, f12, f13, f14, f15, f16] \<Rightarrow>
          Some \<lparr>tcb_svn = f0, mr_seam = f1, mrsigner_seam = f2, seam_attributes = f3,
                td_attributes = f4, xfam = f5, mr_td = f6, mr_config_id = f7, mr_owner = f8,
                mr_owner_config = f9, rtmr_0 = f10, rtmr_1 = f11, rtmr_2 = f12, rtmr_3 = f13,
                report_data = f14, tee_tcb_svn2 = f15, mr_servicetd = f16\<rparr>
      | _ \<Rightarrow> None)"

definition QuoteV5Type_from_bytes :: "bytes \<Rightarrow> (anyhow, QuoteV5Type) outcome" where
  "QuoteV5Type_from_bytes b =
     (if length b < 2 then bail ''parse QuoteV5 Type failed. Bytes length < 2 bytes''
      else
        let t = le_nat (take 2 b) in
        if t = 2 then Ok TDX10
        else if t = 3 then Ok TDX15
        else bail (''parse QuoteV5 Type failed. '' @ fmt_dec t @ '' not defined.''))"

text \<open>The in-memory representation of the discriminant, on a little-endian target.\<close>

definition QuoteV5Type_as_bytes :: "QuoteV5Type \<Rightarrow> bytes" where
  "QuoteV5Type_as_bytes t = le_bytes 2 (case t of TDX10 \<Rightarrow> 2 | TDX15 \<Rightarrow> 3)"

text \<open>The \<^verbatim>\<open>body_field!\<close> accessors.\<close>

definition body_field ::
    "(ReportBody2 \<Rightarrow> bytes) \<Rightarrow> (ReportBody2v15 \<Rightarrow> bytes) \<Rightarrow> Quote \<Rightarrow> bytes" where
  "body_field f g q =
     (case q of
        V4 _ b \<Rightarrow> f b
      | V5 _ _ _ b \<Rightarrow> (case b of Tdx10 b \<Rightarrow> f b | Tdx15 b \<Rightarrow> g b))"

abbreviation "quote_report_data \<equiv> body_field report_data report_data"
abbreviation "quote_mr_config_id \<equiv> body_field mr_config_id mr_config_id"
abbreviation "quote_rtmr_0 \<equiv> body_field rtmr_0 rtmr_0"
abbreviation "quote_rtmr_1 \<equiv> body_field rtmr_1 rtmr_1"
abbreviation "quote_rtmr_2 \<equiv> body_field rtmr_2 rtmr_2"
abbreviation "quote_rtmr_3 \<equiv> body_field rtmr_3 rtmr_3"
abbreviation "quote_td_attributes \<equiv> body_field td_attributes td_attributes"

definition parse_tdx_quote :: "crates \<Rightarrow> bytes \<Rightarrow> (anyhow, Quote) outcome" where
  "parse_tdx_quote E quote_bin =
     and_then (slice quote_bin 0 QUOTE_HEADER_SIZE) (\<lambda>quote_header.
     and_then (ok_or [''Parse TD quote header failed''] (QuoteHeader_pread E quote_header 0)) (\<lambda>header.
     if hdr_version header = [4, 0] then
       and_then (ok_or [''Parse TD quote v4 body failed'']
                   (ReportBody2_pread E quote_bin QUOTE_HEADER_SIZE)) (\<lambda>body.
         Ok (V4 header body))
     else if hdr_version header = [5, 0] then
       and_then (slice quote_bin QUOTE_HEADER_SIZE (QUOTE_HEADER_SIZE + 2)) (\<lambda>type_bytes.
       and_then (QuoteV5Type_from_bytes type_bytes) (\<lambda>t.
       and_then (slice quote_bin (QUOTE_HEADER_SIZE + 2) (QUOTE_HEADER_SIZE + 2 + 4)) (\<lambda>sz.
         let offset = QUOTE_HEADER_SIZE + 2 + 4 in
         (case t of
            TDX10 \<Rightarrow>
              and_then (ok_or [''Parse TD quote v5 TDX1.0 body failed'']
                          (ReportBody2_pread E quote_bin offset)) (\<lambda>body.
                Ok (V5 header t sz (Tdx10 body)))
          | TDX15 \<Rightarrow>
              and_then (ok_or [''Parse TD quote v5 TDX1.5 body failed'']
                          (ReportBody2v15_pread E quote_bin offset)) (\<lambda>body.
                Ok (V5 header t sz (Tdx15 body)))))))
     else Err [''Quote version not defined.'']))"

section \<open>The binary layout\<close>

definition header_fields :: "QuoteHeader \<Rightarrow> bytes list" where
  "header_fields h =
     [hdr_version h, att_key_type h, tee_type h, hdr_reserved h, vendor_id h, user_data h]"

definition body_fields :: "'a ReportBody2_scheme \<Rightarrow> bytes list" where
  "body_fields b =
     [tcb_svn b, mr_seam b, mrsigner_seam b, seam_attributes b, td_attributes b, xfam b, mr_td b,
      mr_config_id b, mr_owner b, mr_owner_config b, rtmr_0 b, rtmr_1 b, rtmr_2 b, rtmr_3 b,
      report_data b]"

definition body15_fields :: "ReportBody2v15 \<Rightarrow> bytes list" where
  "body15_fields b = body_fields b @ [tee_tcb_svn2 b, mr_servicetd b]"

fun encode_quote :: "Quote \<Rightarrow> bytes" where
  "encode_quote (V4 h b) = concat (header_fields h) @ concat (body_fields b)"
| "encode_quote (V5 h t sz (Tdx10 b)) =
     concat (header_fields h) @ QuoteV5Type_as_bytes t @ sz @ concat (body_fields b)"
| "encode_quote (V5 h t sz (Tdx15 b)) =
     concat (header_fields h) @ QuoteV5Type_as_bytes t @ sz @ concat (body15_fields b)"

definition tdx_header_ok :: "QuoteHeader \<Rightarrow> bool" where
  "tdx_header_ok h \<longleftrightarrow> map length (header_fields h) = header_sizes"

text \<open>A value of the Rust types whose version and type tags agree with its variant.\<close>

fun quote_ok :: "Quote \<Rightarrow> bool" where
  "quote_ok (V4 h b) \<longleftrightarrow> tdx_header_ok h \<and> hdr_version h = [4, 0] \<and> map length (body_fields b) = body_sizes"
| "quote_ok (V5 h t sz (Tdx10 b)) \<longleftrightarrow>
     tdx_header_ok h \<and> hdr_version h = [5, 0] \<and> t = TDX10 \<and> length sz = 4 \<and>
     map length (body_fields b) = body_sizes"
| "quote_ok (V5 h t sz (Tdx15 b)) \<longleftrightarrow>
     tdx_header_ok h \<and> hdr_version h = [5, 0] \<and> t = TDX15 \<and> length sz = 4 \<and>
     map length (body15_fields b) = body15_sizes"

lemma sizes_pos:
  "list_all (\<lambda>n. 0 < n) header_sizes" "header_sizes \<noteq> []"
  "list_all (\<lambda>n. 0 < n) body_sizes" "body_sizes \<noteq> []"
  "list_all (\<lambda>n. 0 < n) body15_sizes" "body15_sizes \<noteq> []"
  by (simp_all add: header_sizes_def body_sizes_def body15_sizes_def)

lemma sizes_sum [simp]:
  "sum_list header_sizes = 48" "sum_list body_sizes = 584" "sum_list body15_sizes = 648"
  by (simp_all add: header_sizes_def body_sizes_def body15_sizes_def)

lemma QuoteHeader_pread_iff:
  assumes "scroll_le E" and "i \<le> length data"
  shows "QuoteHeader_pread E data i = Some h \<longleftrightarrow>
    tdx_header_ok h \<and> (\<exists>rest. drop i data = concat (header_fields h) @ rest)"
proof -
  have "QuoteHeader_pread E data i = Some h \<longleftrightarrow> gread_fields E header_sizes data i = Some (header_fields h)"
    by (cases h) (auto simp: QuoteHeader_pread_def header_fields_def split: option.splits list.splits)
  then show ?thesis
    using gread_fields_iff [OF assms(1) sizes_pos(1,2) assms(2)] by (simp add: tdx_header_ok_def)
qed

lemma ReportBody2_pread_iff:
  assumes "scroll_le E" and "i \<le> length data"
  shows "ReportBody2_pread E data i = Some b \<longleftrightarrow>
    map length (body_fields b) = body_sizes \<and> (\<exists>rest. drop i data = concat (body_fields b) @ rest)"
proof -
  have "ReportBody2_pread E data i = Some b \<longleftrightarrow> gread_fields E body_sizes data i = Some (body_fields b)"
    by (cases b) (auto simp: ReportBody2_pread_def body_fields_def split: option.splits list.splits)
  then show ?thesis
    using gread_fields_iff [OF assms(1) sizes_pos(3,4) assms(2)] by simp
qed

lemma ReportBody2v15_pread_iff:
  assumes "scroll_le E" and "i \<le> length data"
  shows "ReportBody2v15_pread E data i = Some b \<longleftrightarrow>
    map length (body15_fields b) = body15_sizes \<and>
    (\<exists>rest. drop i data = concat (body15_fields b) @ rest)"
proof -
  have "ReportBody2v15_pread E data i = Some b \<longleftrightarrow>
      gread_fields E body15_sizes data i = Some (body15_fields b)"
    by (cases b) (auto simp: ReportBody2v15_pread_def body15_fields_def body_fields_def
        split: option.splits list.splits)
  then show ?thesis
    using gread_fields_iff [OF assms(1) sizes_pos(5,6) assms(2)] by simp
qed

text \<open>The length of an encoded structure.\<close>

lemma length_concat_fields: "map length fs = ns \<Longrightarrow> length (concat fs) = sum_list ns"
  by (simp add: length_concat)

lemma length_header [simp]: "tdx_header_ok h \<Longrightarrow> length (concat (header_fields h)) = 48"
  unfolding tdx_header_ok_def by (drule length_concat_fields) simp

lemma type_bytes:
  "QuoteV5Type_from_bytes (QuoteV5Type_as_bytes t) = Ok t"
  by (cases t) (simp_all add: QuoteV5Type_from_bytes_def QuoteV5Type_as_bytes_def le_nat_le_bytes Let_def)

lemma length_type_bytes [simp]: "length (QuoteV5Type_as_bytes t) = 2"
  by (simp add: QuoteV5Type_as_bytes_def)

lemma type_from_bytes_Ok:
  assumes "length b = 2" and "QuoteV5Type_from_bytes b = Ok t"
  shows "b = QuoteV5Type_as_bytes t"
proof -
  have "le_nat b = (case t of TDX10 \<Rightarrow> 2 | TDX15 \<Rightarrow> 3)"
    using assms by (auto simp: QuoteV5Type_from_bytes_def Let_def outcome_iff split: if_splits)
  then show ?thesis
    using le_bytes_le_nat [of b] assms(1) by (simp add: QuoteV5Type_as_bytes_def)
qed

text \<open>Every input of at least 48 bytes is a header followed by the rest.\<close>

lemma header_split:
  assumes "48 \<le> length bin"
  obtains h rest where "tdx_header_ok h" "bin = concat (header_fields h) @ rest"
proof -
  let ?fs = "split_fields header_sizes bin"
  have lens: "map length ?fs = header_sizes"
    using assms by (intro split_fields_lengths) simp
  then obtain a b c d e f where fs: "?fs = [a, b, c, d, e, f]"
    by (auto simp: header_sizes_def map_eq_Cons_conv)
  define h where "h = \<lparr>hdr_version = a, att_key_type = b, tee_type = c, hdr_reserved = d,
    vendor_id = e, user_data = f\<rparr>"
  have "header_fields h = ?fs" by (simp add: h_def header_fields_def fs)
  then show thesis
    using that [of h "drop 48 bin"] lens concat_split_fields [of header_sizes bin]
    by (simp add: tdx_header_ok_def)
qed

lemma version_take: "tdx_header_ok h \<Longrightarrow> take 2 (concat (header_fields h) @ rest) = hdr_version h"
  by (auto simp: tdx_header_ok_def header_fields_def header_sizes_def)

lemma parse_body:
  assumes "scroll_le E" and "tdx_header_ok h"
  shows "parse_tdx_quote E (concat (header_fields h) @ rest) =
    (if hdr_version h = [4, 0] then
       and_then (ok_or [''Parse TD quote v4 body failed'']
         (ReportBody2_pread E (concat (header_fields h) @ rest) 48)) (\<lambda>body. Ok (V4 h body))
     else if hdr_version h = [5, 0] then
       and_then (slice rest 0 2) (\<lambda>type_bytes.
       and_then (QuoteV5Type_from_bytes type_bytes) (\<lambda>t.
       and_then (slice rest 2 6) (\<lambda>sz.
         (case t of
            TDX10 \<Rightarrow>
              and_then (ok_or [''Parse TD quote v5 TDX1.0 body failed'']
                (ReportBody2_pread E (concat (header_fields h) @ rest) 54)) (\<lambda>body.
                  Ok (V5 h t sz (Tdx10 body)))
          | TDX15 \<Rightarrow>
              and_then (ok_or [''Parse TD quote v5 TDX1.5 body failed'']
                (ReportBody2v15_pread E (concat (header_fields h) @ rest) 54)) (\<lambda>body.
                  Ok (V5 h t sz (Tdx15 body)))))))
     else Err [''Quote version not defined.''])"
proof -
  let ?hd = "concat (header_fields h)"
  have len: "length ?hd = 48" using assms(2) by simp
  have hd: "slice (?hd @ rest) 0 QUOTE_HEADER_SIZE = (Ok ?hd :: (anyhow, bytes) outcome)"
    using len by (simp add: slice_def range_ok_def QUOTE_HEADER_SIZE_def del: concat.simps)
  have h: "QuoteHeader_pread E ?hd 0 = Some h"
    using QuoteHeader_pread_iff [OF assms(1), of 0 ?hd h] assms(2) by simp
  have "slice (?hd @ rest) (48 + a) (48 + b) = (slice rest a b :: (anyhow, bytes) outcome)" for a b
    using len by (simp add: slice_def range_ok_def)
  from this [of 0 2] this [of 2 6] show ?thesis
    unfolding parse_tdx_quote_def hd
    by (simp add: h QUOTE_HEADER_SIZE_def Let_def)
qed

lemma body_after:
  assumes "scroll_le E" and "length pre = n"
  shows "ReportBody2_pread E (pre @ rest) n = Some b \<longleftrightarrow>
      map length (body_fields b) = body_sizes \<and> (\<exists>r. rest = concat (body_fields b) @ r)"
    "ReportBody2v15_pread E (pre @ rest) n = Some b' \<longleftrightarrow>
      map length (body15_fields b') = body15_sizes \<and> (\<exists>r. rest = concat (body15_fields b') @ r)"
  using ReportBody2_pread_iff [OF assms(1), of n "pre @ rest" b]
    ReportBody2v15_pread_iff [OF assms(1), of n "pre @ rest" b'] assms(2) by simp_all

lemma v5_prefix:
  "slice rest 0 2 = (Ok tb :: ('e, bytes) outcome) \<and> slice rest 2 6 = (Ok sz :: ('e, bytes) outcome) \<longleftrightarrow>
     length tb = 2 \<and> length sz = 4 \<and> (\<exists>r. rest = tb @ sz @ r)"
proof
  assume "slice rest 0 2 = (Ok tb :: ('e, bytes) outcome) \<and> slice rest 2 6 = (Ok sz :: ('e, bytes) outcome)"
  then have "tb = take 2 rest" "sz = take 4 (drop 2 rest)" "6 \<le> length rest"
    by (auto simp: outcome_iff range_ok_def)
  moreover have "rest = take 2 rest @ take 4 (drop 2 rest) @ drop 4 (drop 2 rest)"
    by (metis append_take_drop_id)
  ultimately show "length tb = 2 \<and> length sz = 4 \<and> (\<exists>r. rest = tb @ sz @ r)" by auto
qed (auto simp: outcome_iff range_ok_def)

lemma parse_v5_Ok:
  assumes "scroll_le E" and "tdx_header_ok h" and "hdr_version h = [5, 0]"
  shows "parse_tdx_quote E (concat (header_fields h) @ rest) = Ok q \<longleftrightarrow>
    (\<exists>t sz body r. q = V5 h t sz body \<and> quote_ok q \<and>
       concat (header_fields h) @ rest = encode_quote q @ r)"
proof -
  let ?hd = "concat (header_fields h)"
  have read: "ReportBody2_pread E (?hd @ tb @ sz @ r) 54 = Some b \<longleftrightarrow>
        map length (body_fields b) = body_sizes \<and> (\<exists>r'. r = concat (body_fields b) @ r')"
      "ReportBody2v15_pread E (?hd @ tb @ sz @ r) 54 = Some b' \<longleftrightarrow>
        map length (body15_fields b') = body15_sizes \<and> (\<exists>r'. r = concat (body15_fields b') @ r')"
    if "length tb = 2" "length sz = 4" for tb sz r b b'
    using body_after [OF assms(1), of "?hd @ tb @ sz" 54 r] that assms(2) by simp_all
  show ?thesis
  proof
    assume "parse_tdx_quote E (?hd @ rest) = Ok q"
    then obtain tb t sz where tb: "slice rest 0 2 = (Ok tb :: (anyhow, bytes) outcome)"
        "QuoteV5Type_from_bytes tb = Ok t" "slice rest 2 6 = (Ok sz :: (anyhow, bytes) outcome)"
      and q: "(t = TDX10 \<and> (\<exists>b. ReportBody2_pread E (?hd @ rest) 54 = Some b \<and> q = V5 h t sz (Tdx10 b))) \<or>
        (t = TDX15 \<and> (\<exists>b. ReportBody2v15_pread E (?hd @ rest) 54 = Some b \<and> q = V5 h t sz (Tdx15 b)))"
      using assms(3) unfolding parse_body [OF assms(1,2)]
      by (auto simp: outcome_iff split: QuoteV5Type.splits) (metis QuoteV5Type.exhaust)
    obtain r where r: "rest = tb @ sz @ r" "length tb = 2" "length sz = 4"
      using v5_prefix [of rest tb sz, where ?'e = anyhow] tb by blast
    have "tb = QuoteV5Type_as_bytes t" using type_from_bytes_Ok tb(2) r(2) by blast
    then show "\<exists>t sz body r. q = V5 h t sz body \<and> quote_ok q \<and> ?hd @ rest = encode_quote q @ r"
      using q read [OF r(2,3)] r(1,3) assms(2,3) by auto
  next
    assume "\<exists>t sz body r. q = V5 h t sz body \<and> quote_ok q \<and> ?hd @ rest = encode_quote q @ r"
    then obtain t sz body r where q: "q = V5 h t sz body" "quote_ok q" "?hd @ rest = encode_quote q @ r"
      by blast
    have len: "length sz = 4" using q(1,2) by (cases body) auto
    have rest: "rest = QuoteV5Type_as_bytes t @ sz @ (case body of Tdx10 b \<Rightarrow> concat (body_fields b)
        | Tdx15 b \<Rightarrow> concat (body15_fields b)) @ r"
      using q(1,3) by (cases body) auto
    then have sl: "slice rest 0 2 = (Ok (QuoteV5Type_as_bytes t) :: (anyhow, bytes) outcome)"
      "slice rest 2 6 = (Ok sz :: (anyhow, bytes) outcome)"
      using v5_prefix [of rest "QuoteV5Type_as_bytes t" sz, where ?'e = anyhow] len by auto
    show "parse_tdx_quote E (?hd @ rest) = Ok q"
    proof (cases body)
      case (Tdx10 b)
      then have "ReportBody2_pread E (?hd @ rest) 54 = Some b"
        using read(1) [of "QuoteV5Type_as_bytes t" sz] len rest q(1,2) by simp
      then show ?thesis
        unfolding parse_body [OF assms(1,2)] using Tdx10 q(1,2) assms(3) sl by (simp add: type_bytes)
    next
      case (Tdx15 b)
      then have "ReportBody2v15_pread E (?hd @ rest) 54 = Some b"
        using read(2) [of "QuoteV5Type_as_bytes t" sz] len rest q(1,2) by simp
      then show ?thesis
        unfolding parse_body [OF assms(1,2)] using Tdx15 q(1,2) assms(3) sl by (simp add: type_bytes)
    qed
  qed
qed

lemma parse_v4_Ok:
  assumes "scroll_le E" and "tdx_header_ok h" and "hdr_version h = [4, 0]"
  shows "parse_tdx_quote E (concat (header_fields h) @ rest) = Ok q \<longleftrightarrow>
    (\<exists>b r. q = V4 h b \<and> quote_ok q \<and> concat (header_fields h) @ rest = encode_quote q @ r)"
  using body_after(1) [OF assms(1) length_header [OF assms(2)], of rest] assms(2,3)
  unfolding parse_body [OF assms(1,2)] by (auto simp: outcome_iff)

text \<open>The header of a well-formed quote, which its encoding starts with.\<close>

fun quote_header :: "Quote \<Rightarrow> QuoteHeader" where
  "quote_header (V4 h _) = h"
| "quote_header (V5 h _ _ _) = h"

lemma encode_quote_header:
  "\<exists>r. encode_quote q = concat (header_fields (quote_header q)) @ r"
  by (induction q rule: encode_quote.induct) auto

lemma quote_ok_header:
  "quote_ok q \<Longrightarrow> tdx_header_ok (quote_header q) \<and>
     (hdr_version (quote_header q) = [4, 0] \<and> (\<exists>b. q = V4 (quote_header q) b) \<or>
      hdr_version (quote_header q) = [5, 0] \<and> (\<exists>t sz b. q = V5 (quote_header q) t sz b))"
  by (induction q rule: quote_ok.induct) auto

lemma parse_quote_iff:
  assumes "scroll_le E"
  shows "parse_tdx_quote E bin = Ok q \<longleftrightarrow> quote_ok q \<and> (\<exists>rest. bin = encode_quote q @ rest)"
proof
  assume parsed: "parse_tdx_quote E bin = Ok q"
  then have "48 \<le> length bin"
    by (auto simp: parse_tdx_quote_def outcome_iff range_ok_def QUOTE_HEADER_SIZE_def)
  then obtain h rest where h: "tdx_header_ok h" "bin = concat (header_fields h) @ rest"
    by (rule header_split)
  have "hdr_version h = [4, 0] \<or> hdr_version h = [5, 0]"
    using parsed parse_body [OF assms h(1), of rest] h(2) by (auto split: if_splits)
  then show "quote_ok q \<and> (\<exists>rest. bin = encode_quote q @ rest)"
    using parse_v4_Ok [OF assms h(1)] parse_v5_Ok [OF assms h(1)] parsed h(2) by metis
next
  assume ok: "quote_ok q \<and> (\<exists>rest. bin = encode_quote q @ rest)"
  then obtain rest where bin: "bin = encode_quote q @ rest" by blast
  obtain r where r: "encode_quote q = concat (header_fields (quote_header q)) @ r"
    using encode_quote_header by blast
  have h: "tdx_header_ok (quote_header q)" using ok quote_ok_header by blast
  have "parse_tdx_quote E (concat (header_fields (quote_header q)) @ r @ rest) = Ok q"
    using ok quote_ok_header [of q] parse_v4_Ok [OF assms h] parse_v5_Ok [OF assms h] r
    by (metis append.assoc)
  then show "parse_tdx_quote E bin = Ok q" by (simp add: bin r)
qed

lemma type_from_bytes_no_panic [simp]: "QuoteV5Type_from_bytes b \<noteq> Panic"
  by (simp add: QuoteV5Type_from_bytes_def Let_def bail_def)

lemma type_from_bytes_valid:
  "length b = 2 \<Longrightarrow> (\<exists>t. QuoteV5Type_from_bytes b = Ok t) \<longleftrightarrow> le_nat b \<in> {2, 3}"
  by (auto simp: QuoteV5Type_from_bytes_def Let_def bail_def)

text \<open>
  C36. The slices of \<^verbatim>\<open>parse_tdx_quote\<close> are taken before any length is checked: the parser panics exactly on an
  input shorter than a header, and on a version 5 quote that ends before its type or, with a known type, before
  its size field. Every other input is parsed or refused with an error.
\<close>

theorem parse_quote_panics:
  assumes "scroll_le E"
  shows "parse_tdx_quote E bin = Panic \<longleftrightarrow>
    length bin < 48 \<or>
    take 2 bin = [5, 0] \<and>
      (length bin < 50 \<or> length bin < 54 \<and> le_nat (take 2 (drop 48 bin)) \<in> {2, 3})"
proof (cases "48 \<le> length bin")
  case False
  then show ?thesis
    by (simp add: parse_tdx_quote_def slice_def range_ok_def QUOTE_HEADER_SIZE_def)
next
  case True
  then obtain h rest where h: "tdx_header_ok h" and bin: "bin = concat (header_fields h) @ rest"
    by (rule header_split)
  have len: "length bin = 48 + length rest" and rest: "drop 48 bin = rest"
    using h by (simp_all add: bin)
  have ver: "take 2 bin = hdr_version h" using version_take [OF h] by (simp add: bin)
  have no_body_panic: "and_then (ok_or e x) (\<lambda>b. Ok (f b)) \<noteq> Panic" for e x f
    by (cases x) auto
  show ?thesis
  proof (cases "hdr_version h = [5, 0] \<and> 2 \<le> length rest")
    case v5: True
    have sl: "slice rest 0 2 = (Ok (take 2 rest) :: (anyhow, bytes) outcome)"
      using v5 by (simp add: slice_def range_ok_def)
    have "parse_tdx_quote E bin = Panic \<longleftrightarrow>
        (\<exists>t. QuoteV5Type_from_bytes (take 2 rest) = Ok t) \<and> length rest < 6"
      unfolding bin parse_body [OF assms h] using v5 no_body_panic sl
      by (auto simp: outcome_iff range_ok_def split: QuoteV5Type.splits)
        (metis QuoteV5Type.exhaust)+
    then show ?thesis using type_from_bytes_valid [of "take 2 rest"] v5 len rest ver by auto
  next
    case False
    have "parse_tdx_quote E bin = Panic \<longleftrightarrow> hdr_version h = [5, 0] \<and> length rest < 2"
      unfolding bin parse_body [OF assms h] using False no_body_panic
      by (auto simp: outcome_iff range_ok_def)
    then show ?thesis using False ver len by auto
  qed
qed

theorem parse_quote_panics_witness:
  "parse_tdx_quote reference_crates [5, 0] = Panic"
  using parse_quote_panics [of reference_crates "[5, 0]"] by simp

section \<open>Claims\<close>

text \<open>\<^verbatim>\<open>parse_claim!\<close> of a byte field: its hexadecimal text under a key.\<close>

definition parse_claim :: "crates \<Rightarrow> string \<Rightarrow> bytes \<Rightarrow> string \<times> json" where
  "parse_claim E key field = (key, JString (hex_encode E field))"

definition header_claims :: "crates \<Rightarrow> bytes \<Rightarrow> QuoteHeader \<Rightarrow> json_map" where
  "header_claims E version h =
     [parse_claim E ''version'' version,
      parse_claim E ''att_key_type'' (att_key_type h),
      parse_claim E ''tee_type'' (tee_type h),
      parse_claim E ''reserved'' (hdr_reserved h),
      parse_claim E ''vendor_id'' (vendor_id h),
      parse_claim E ''user_data'' (user_data h)]"

definition body_claims :: "crates \<Rightarrow> 'a ReportBody2_scheme \<Rightarrow> json_map" where
  "body_claims E b =
     [parse_claim E ''tcb_svn'' (tcb_svn b),
      parse_claim E ''mr_seam'' (mr_seam b),
      parse_claim E ''mrsigner_seam'' (mrsigner_seam b),
      parse_claim E ''seam_attributes'' (seam_attributes b),
      parse_claim E ''td_attributes'' (td_attributes b),
      parse_claim E ''xfam'' (xfam b),
      parse_claim E ''mr_td'' (mr_td b),
      parse_claim E ''mr_config_id'' (mr_config_id b),
      parse_claim E ''mr_owner'' (mr_owner b),
      parse_claim E ''mr_owner_config'' (mr_owner_config b),
      parse_claim E ''rtmr_0'' (rtmr_0 b),
      parse_claim E ''rtmr_1'' (rtmr_1 b),
      parse_claim E ''rtmr_2'' (rtmr_2 b),
      parse_claim E ''rtmr_3'' (rtmr_3 b),
      parse_claim E ''report_data'' (report_data b)]"

definition quote_map :: "crates \<Rightarrow> Quote \<Rightarrow> json_map" where
  "quote_map E q =
     (case q of
        V4 h b \<Rightarrow>
          [(''header'', JObject (header_claims E [4, 0] h)), (''body'', JObject (body_claims E b))]
      | V5 h t sz b \<Rightarrow>
          [parse_claim E ''type'' (QuoteV5Type_as_bytes t), parse_claim E ''size'' sz,
           (''header'', JObject (header_claims E [5, 0] h)),
           (''body'', JObject (case b of
              Tdx10 b \<Rightarrow> body_claims E b
            | Tdx15 b \<Rightarrow> body_claims E b @
                [parse_claim E ''tee_tcb_svn2'' (tee_tcb_svn2 b),
                 parse_claim E ''mr_servicetd'' (mr_servicetd b)]))])"

text \<open>\<^verbatim>\<open>bitflags!\<close>: the named bits of the TD attributes, with their names in lower case.\<close>

definition TdAttributesFlags :: "(string \<times> nat) list" where
  "TdAttributesFlags =
     [(''debug'', 0), (''septve_disable'', 28), (''protection_keys'', 30), (''key_locker'', 31),
      (''perfmon'', 63)]"

definition flag_contains :: "u64 \<Rightarrow> nat \<Rightarrow> bool" where
  "flag_contains td n = (Bit_Operations.and td (push_bit n 1) = push_bit n 1)"

definition parse_td_attributes :: "bytes \<Rightarrow> (anyhow, json_map) outcome" where
  "parse_td_attributes data =
     (if length data \<noteq> 8 then bail ''could not convert slice to array''
      else
        let td = word_of_nat (le_nat data) :: u64 in
        Ok (map (\<lambda>(name, n). (name, JBool (flag_contains td n))) TdAttributesFlags))"

definition generate_parsed_claim ::
    "crates \<Rightarrow> (EventlogEntry list \<Rightarrow> (string, json) outcome) \<Rightarrow> Quote \<Rightarrow> CcEventLog option \<Rightarrow>
     (anyhow, TeeEvidenceParsedClaim) outcome" where
  "generate_parsed_claim E log_to_value q cc_eventlog =
     and_then (parse_td_attributes (quote_td_attributes q)) (\<lambda>attrs.
     and_then (case cc_eventlog of
                 None \<Rightarrow> Ok []
               | Some ccel \<Rightarrow>
                   and_then (lib_error (log_to_value (log ccel))) (\<lambda>v. Ok [(''uefi_event_logs'', v)]))
       (\<lambda>claims.
       Ok (JObject (claims @
         [(''quote'', JObject (quote_map E q)),
          (''td_attributes'', JObject attrs),
          parse_claim E ''report_data'' (quote_report_data q),
          parse_claim E ''init_data'' (quote_mr_config_id q)]))))"

datatype PlatformConfigInfoError = ParseDescriptor | ReadInfoLength | InvalidHeader | NotEnoughData

record TdShimPlatformConfigInfo =
  descriptor :: bytes
  info_length :: nat
  pci_data :: bytes

text \<open>The conversions of a 16-byte slice into an array and of a 4-byte slice into an integer cannot fail.\<close>

definition TdShimPlatformConfigInfo_try_from ::
    "bytes \<Rightarrow> (PlatformConfigInfoError, TdShimPlatformConfigInfo) outcome" where
  "TdShimPlatformConfigInfo_try_from data =
     (let descriptor_size = 16; info_size = 4; header_size = descriptor_size + info_size in
      if length data < header_size then Err InvalidHeader
      else
        and_then (slice data 0 descriptor_size) (\<lambda>d.
        and_then (slice data descriptor_size header_size) (\<lambda>l.
        let len = le_nat l; total_size = header_size + len in
        and_then (ok_or NotEnoughData (get_range data header_size total_size)) (\<lambda>rest.
          Ok \<lparr>descriptor = d, info_length = len, pci_data = rest\<rparr>))))"

text \<open>A flag is reported exactly when its bit is set in the little-endian attributes.\<close>

lemma flag_contains_bit: "n < 64 \<Longrightarrow> flag_contains td n \<longleftrightarrow> bit td n"
proof -
  assume n: "n < 64"
  have p: "bit (push_bit n 1 :: u64) m \<longleftrightarrow> m = n" for m
    using n by (auto simp: bit_exp_iff)
  show ?thesis
  proof
    assume "flag_contains td n"
    then have "bit (Bit_Operations.and td (push_bit n 1)) n = bit (push_bit n 1 :: u64) n"
      unfolding flag_contains_def by (rule arg_cong)
    then show "bit td n" by (simp only: bit_and_iff p simp_thms)
  next
    assume "bit td n"
    then show "flag_contains td n"
      unfolding flag_contains_def
      by (intro bit_word_eqI) (auto simp only: bit_and_iff p simp_thms)
  qed
qed

lemma bit_of_bytes:
  assumes "length data = 8"
  shows "bit (word_of_nat (le_nat data) :: u64) n \<longleftrightarrow> n < 64 \<and> odd (le_nat data div 2 ^ n)"
  by (auto simp: bit_simps bit_iff_odd [of "le_nat data"])

lemma parse_td_attributes_Ok:
  "parse_td_attributes data = Ok m \<longleftrightarrow>
     length data = 8 \<and>
     m = map (\<lambda>(name, n). (name, JBool (odd (le_nat data div 2 ^ n)))) TdAttributesFlags"
proof (cases "length data = 8")
  case True
  have "flag_contains (word_of_nat (le_nat data)) n \<longleftrightarrow> odd (le_nat data div 2 ^ n)"
    if "n < 64" for n
    using flag_contains_bit [OF that] bit_of_bytes [OF True] that by simp
  then have "map (\<lambda>(name, n). (name, JBool (flag_contains (word_of_nat (le_nat data)) n))) TdAttributesFlags =
      map (\<lambda>(name, n). (name, JBool (odd (le_nat data div 2 ^ n)))) TdAttributesFlags"
    by (intro map_cong) (auto simp: TdAttributesFlags_def)
  then show ?thesis using True by (auto simp: parse_td_attributes_def Let_def)
qed (simp add: parse_td_attributes_def bail_def)

lemma TdShim_try_from_iff:
  "TdShimPlatformConfigInfo_try_from data = Ok c \<longleftrightarrow>
     length (descriptor c) = 16 \<and> info_length c < 2 ^ 32 \<and> length (pci_data c) = info_length c \<and>
     (\<exists>rest. data = descriptor c @ le_bytes 4 (info_length c) @ pci_data c @ rest)"
proof
  assume ok: "TdShimPlatformConfigInfo_try_from data = Ok c"
  let ?l = "take 4 (drop 16 data)"
  have len: "20 + le_nat ?l \<le> length data" "20 \<le> length data"
    and c: "c = \<lparr>descriptor = take 16 data, info_length = le_nat ?l,
      pci_data = take (le_nat ?l) (drop 20 data)\<rparr>"
    using ok by (auto simp: TdShimPlatformConfigInfo_try_from_def Let_def outcome_iff range_ok_def
        split: if_splits)
  have "length ?l = 4" using len by simp
  then have l: "le_bytes 4 (le_nat ?l) = ?l" "le_nat ?l < 2 ^ 32"
    using le_bytes_le_nat [of ?l] le_nat_less [of ?l] by simp_all
  have "data = take 16 data @ ?l @ drop 20 data"
    using append_take_drop_id [of 16 data] append_take_drop_id [of 4 "drop 16 data"] by simp
  then have "data = descriptor c @ le_bytes 4 (info_length c) @ pci_data c @ drop (info_length c) (drop 20 data)"
    unfolding c by (simp only: TdShimPlatformConfigInfo.simps l append_take_drop_id)
  then show "length (descriptor c) = 16 \<and> info_length c < 2 ^ 32 \<and> length (pci_data c) = info_length c \<and>
     (\<exists>rest. data = descriptor c @ le_bytes 4 (info_length c) @ pci_data c @ rest)"
    using l(2) len by (intro conjI exI) (simp_all add: c)
next
  assume r: "length (descriptor c) = 16 \<and> info_length c < 2 ^ 32 \<and> length (pci_data c) = info_length c \<and>
     (\<exists>rest. data = descriptor c @ le_bytes 4 (info_length c) @ pci_data c @ rest)"
  then obtain rest where data: "data = descriptor c @ le_bytes 4 (info_length c) @ pci_data c @ rest"
    by blast
  have "le_nat (le_bytes 4 (info_length c)) = info_length c"
    using r by (intro le_nat_le_bytes_id) simp
  then show "TdShimPlatformConfigInfo_try_from data = Ok c"
    using r by (simp add: TdShimPlatformConfigInfo_try_from_def Let_def data slice_def get_range_def
        range_ok_def)
qed

end
