(* ===== verification/Intel_Dcap.thy ===== *)
theory Intel_Dcap
  imports Verifier Filesystem
begin

text \<open>
  ECDSA quote verification: through Intel's quote verification library
  (\<^verbatim>\<open>deps/verifier/src/intel_dcap\<close>) and through \<^verbatim>\<open>dcap-qvl\<close> with its collateral cache
  (\<^verbatim>\<open>deps/verifier/src/tdx/dcap_qvl.rs\<close>). Both libraries are parameters. Logging and timing are left
  out.
\<close>

section \<open>Intel's library\<close>

datatype sgx_ql_qv_result_t =
    QV_OK
  | QV_CONFIG_NEEDED
  | QV_OUT_OF_DATE
  | QV_OUT_OF_DATE_CONFIG_NEEDED
  | QV_SW_HARDENING_NEEDED
  | QV_CONFIG_AND_SW_HARDENING_NEEDED
  | QV_TD_RELAUNCH_ADVISED
  | QV_TD_RELAUNCH_ADVISED_CONFIG_NEEDED
  | QV_other nat

record sgx_ql_qv_supplemental_t =
  earliest_issue_date :: int
  latest_issue_date :: int
  earliest_expiration_date :: int
  tcb_level_date_tag :: int
  pck_crl_num :: nat
  root_ca_crl_num :: nat
  pck_ppid :: bytes
  sgx_type :: nat
  dynamic_platform :: nat
  cached_keys :: nat
  smt_enabled :: nat
  root_key_id :: bytes
  sa_list :: bytes

text \<open>
  \<open>dcap_verify\<close> takes the quote, the collateral, the time and the supplemental buffer when one is
  passed, and returns the expiration status, the result and the buffer it wrote. A failure to get the
  collateral is only logged.
\<close>

record 'c dcap_lib =
  dcap_supp_version_and_size :: "bytes \<Rightarrow> (string, nat \<times> nat) outcome"
  dcap_get_collateral :: "bytes \<Rightarrow> 'c option"
  dcap_verify ::
    "bytes \<Rightarrow> 'c option \<Rightarrow> int \<Rightarrow> sgx_ql_qv_supplemental_t option \<Rightarrow>
     (string, nat \<times> sgx_ql_qv_result_t \<times> sgx_ql_qv_supplemental_t) outcome"
  dcap_supp_default :: sgx_ql_qv_supplemental_t
  dcap_supp_size :: nat
  rfc3339_of_timestamp :: "int \<Rightarrow> string option"

definition SgxQlQvResultWrapper_as_str :: "sgx_ql_qv_result_t \<Rightarrow> json" where
  "SgxQlQvResultWrapper_as_str r =
     JString (case r of
        QV_OK \<Rightarrow> ''UpToDate''
      | QV_CONFIG_NEEDED \<Rightarrow> ''ConfigurationNeeded''
      | QV_OUT_OF_DATE \<Rightarrow> ''OutOfDate''
      | QV_OUT_OF_DATE_CONFIG_NEEDED \<Rightarrow> ''OutOfDateConfigurationNeeded''
      | QV_SW_HARDENING_NEEDED \<Rightarrow> ''SWHardeningNeeded''
      | QV_CONFIG_AND_SW_HARDENING_NEEDED \<Rightarrow> ''ConfigurationAndSWHardeningNeeded''
      | QV_TD_RELAUNCH_ADVISED \<Rightarrow> ''TDRelaunchAdvised''
      | QV_TD_RELAUNCH_ADVISED_CONFIG_NEEDED \<Rightarrow> ''TDRelaunchAdvisedConfigurationNeeded''
      | QV_other _ \<Rightarrow> ''TerminalStatus'')"

text \<open>
  \<^verbatim>\<open>CStr::from_ptr\<close> reads up to the first zero byte; a buffer without one is read out of bounds, which
  has no defined result and is a \<open>Panic\<close> of the model.
\<close>

definition get_sa_list :: "bytes \<Rightarrow> (anyhow, json) outcome" where
  "get_sa_list sa =
     (if 0 \<notin> set sa then Panic
      else
        let advisory_ids = from_utf8_lossy (takeWhile (\<lambda>b. b \<noteq> 0) sa) in
        if advisory_ids = [] then Ok (JArray [])
        else Ok (JArray (map JString (split_on CHR '','' advisory_ids))))"

definition format_rfc3339 :: "'c dcap_lib \<Rightarrow> int \<Rightarrow> (anyhow, string) outcome" where
  "format_rfc3339 D timestamp =
     (case rfc3339_of_timestamp D timestamp of None \<Rightarrow> Panic | Some s \<Rightarrow> Ok s)"

definition sgx_type_name :: "nat \<Rightarrow> string" where
  "sgx_type_name t =
     (if t = 0 then ''Standard''
      else if t = 1 then ''Scalable''
      else if t = 2 then ''Scalable with Integrity''
      else ''Unknown ('' @ fmt_dec t @ '')'')"

definition prepare_custom_claims_map ::
    "crates \<Rightarrow> 'c dcap_lib \<Rightarrow> sgx_ql_qv_supplemental_t \<Rightarrow> nat \<Rightarrow> sgx_ql_qv_result_t \<Rightarrow>
     (anyhow, json_map) outcome" where
  "prepare_custom_claims_map E D supp_data collateral_expiration_status quote_verification_result =
     and_then (format_rfc3339 D (earliest_issue_date supp_data)) (\<lambda>d1.
     and_then (format_rfc3339 D (latest_issue_date supp_data)) (\<lambda>d2.
     and_then (format_rfc3339 D (earliest_expiration_date supp_data)) (\<lambda>d3.
     and_then (format_rfc3339 D (tcb_level_date_tag supp_data)) (\<lambda>d4.
     and_then (get_sa_list (sa_list supp_data)) (\<lambda>advisories.
       Ok ([(''earliest_issue_date'', JString d1),
            (''latest_issue_date'', JString d2),
            (''earliest_expiration_date'', JString d3),
            (''tcb_date'', JString d4),
            (''pck_crl_num'', JNumber (int (pck_crl_num supp_data))),
            (''root_ca_crl_num'', JNumber (int (root_ca_crl_num supp_data))),
            (''tcb_eval_num'', JNumber (int (root_ca_crl_num supp_data))),
            (''platform_provider_id'', JString (hex_encode E (pck_ppid supp_data))),
            (''sgx_type'', JString (sgx_type_name (sgx_type supp_data)))] @
           (if sgx_type supp_data > 0 then
              [(''is_dynamic_platform'', JBool (dynamic_platform supp_data = 1)),
               (''is_cached_keys'', JBool (cached_keys supp_data = 1)),
               (''is_smt_enabled'', JBool (smt_enabled supp_data = 1))]
            else []) @
           [(''root_key_id'', JString (hex_encode E (root_key_id supp_data))),
            (''tcb_status'', SgxQlQvResultWrapper_as_str quote_verification_result),
            (''collateral_expiration_status'', JString (fmt_dec collateral_expiration_status)),
            (''advisory_ids'', advisories)]))))))"

definition ecdsa_quote_verification_inner ::
    "crates \<Rightarrow> 'c dcap_lib \<Rightarrow> int \<Rightarrow> bytes \<Rightarrow> (anyhow, json_map) outcome" where
  "ecdsa_quote_verification_inner E D current_time quote =
     and_then (with_context ''tee_get_quote_supplemental_data_size failed''
                 (lib_error (dcap_supp_version_and_size D quote))) (\<lambda>(supp_ver, supp_size).
     let data_size = (if supp_size = dcap_supp_size D then supp_size else 0);
         collateral = dcap_get_collateral D quote;
         p_supplemental_data = (if data_size = 0 then None else Some (dcap_supp_default D))
     in
     and_then (with_context ''tee_verify_quote failed''
                 (lib_error (dcap_verify D quote collateral current_time p_supplemental_data)))
       (\<lambda>(collateral_expiration_status, result, written).
       let supp_data = (if p_supplemental_data = None then dcap_supp_default D else written) in
       (case result of
          QV_other code \<Rightarrow> bail (''Verification completed with Terminal result: 0x'' @ fmt_hex False 2 code)
        | _ \<Rightarrow> prepare_custom_claims_map E D supp_data collateral_expiration_status result)))"

definition ecdsa_quote_verification :: "crates \<Rightarrow> 'd dcap_lib \<Rightarrow> int \<Rightarrow> bytes \<Rightarrow> (anyhow, json_map) outcome" where
  "ecdsa_quote_verification E D now quote = ecdsa_quote_verification_inner E D now quote"

definition extend_using_custom_claims ::
    "TeeEvidenceParsedClaim \<Rightarrow> json_map \<Rightarrow> (anyhow, TeeEvidenceParsedClaim) outcome" where
  "extend_using_custom_claims claim custom =
     (case claim of
        JObject m \<Rightarrow> Ok (JObject (json_extend m custom))
      | _ \<Rightarrow> bail ''failed to extend the claim, not an object'')"

section \<open>Verification with dcap-qvl\<close>

text \<open>
  The collateral \<open>'c\<close> is opaque but for its JSON parts; \<open>qvl_fetch\<close> is the download at an attempt, and
  \<open>rfc3339_parse\<close> gives the Unix timestamp of a date.
\<close>

record qvl_quote =
  qvl_ca :: "(string, string) outcome"
  qvl_fmspc :: "(string, bytes) outcome"
  qvl_is_sgx :: bool

record VerifiedReport =
  vr_status :: string
  vr_advisory_ids :: "string list"
  vr_ppid :: bytes

record 'c qvl_lib =
  qvl_parse :: "bytes \<Rightarrow> (string, qvl_quote) outcome"
  qvl_fetch :: "string \<Rightarrow> bytes \<Rightarrow> nat \<Rightarrow> (string, 'c) outcome"
  qvl_verify :: "bytes \<Rightarrow> 'c \<Rightarrow> nat \<Rightarrow> (string, VerifiedReport) outcome"
  qvl_from_slice :: "bytes \<Rightarrow> 'c option"
  qvl_to_vec :: "'c \<Rightarrow> (string, bytes) outcome"
  qvl_tcb_info :: "'c \<Rightarrow> string"
  qvl_qe_identity :: "'c \<Rightarrow> string"
  rfc3339_parse :: "string \<Rightarrow> int option"
  hex_encode_upper :: "bytes \<Rightarrow> string"

definition DEFAULT_PCS_URL :: string where
  "DEFAULT_PCS_URL = ''https://api.trustedservices.intel.com''"

definition cache_disabled :: "verifier_env \<Rightarrow> bool" where
  "cache_disabled V =
     (case env_var V ''DCAP_QVL_DISABLE_CACHE'' of
        None \<Rightarrow> False
      | Some v \<Rightarrow> to_ascii_lowercase v \<in> {''1'', ''true'', ''yes'', ''on''})"

definition cache_key :: "crates \<Rightarrow> string \<Rightarrow> string \<Rightarrow> string \<Rightarrow> string \<Rightarrow> (anyhow, string) outcome" where
  "cache_key E base_url tee fmspc ca =
     and_then (slice (sha256 E (bytes_of base_url)) 0 4) (\<lambda>d.
       Ok (''collateral_'' @ hex_encode E d @ ''_'' @ tee @ ''_'' @ fmspc @ ''_'' @ ca @ ''.json''))"

text \<open>\<^verbatim>\<open>str::trim\<close> on ASCII white space, and \<^verbatim>\<open>trim_end_matches\<close> of a string: all copies at the end.\<close>

definition is_ascii_white_space :: "char \<Rightarrow> bool" where
  "is_ascii_white_space c \<longleftrightarrow> (let n = of_char c :: nat in 9 \<le> n \<and> n \<le> 13 \<or> n = 32)"

definition str_trim :: "string \<Rightarrow> string" where
  "str_trim s = rev (dropWhile is_ascii_white_space (rev (dropWhile is_ascii_white_space s)))"

function trim_end_str :: "string \<Rightarrow> string \<Rightarrow> string" where
  "trim_end_str p s =
     (if p \<noteq> [] \<and> length p \<le> length s \<and> drop (length s - length p) s = p
      then trim_end_str p (take (length s - length p) s) else s)"
  by pat_completeness auto
termination
  by (relation "measure (\<lambda>(p, s). length s)") (auto simp flip: length_greater_0_conv)

declare trim_end_str.simps [simp del]

definition normalize_base_url :: "string \<Rightarrow> string" where
  "normalize_base_url pccs_url =
     trim_end_str ''/tdx/certification/v4''
       (trim_end_str ''/sgx/certification/v4'' (trim_end_matches CHR ''/'' (str_trim pccs_url)))"

definition read_cache :: "'c qvl_lib \<Rightarrow> io_env \<Rightarrow> fs \<Rightarrow> path \<Rightarrow> 'c option" where
  "read_cache Q io f cache_path =
     (case read_file io f cache_path of Ok data \<Rightarrow> qvl_from_slice Q data | _ \<Rightarrow> None)"

definition write_cache ::
    "'c qvl_lib \<Rightarrow> io_env \<Rightarrow> fs \<Rightarrow> path \<Rightarrow> 'c \<Rightarrow> (anyhow, unit) outcome \<times> fs" where
  "write_cache Q io f cache_path collateral =
     (case create_dir_all io f (butlast cache_path) of
        (Ok _, f1) \<Rightarrow>
          (case with_context ''serialize collateral'' (lib_error (qvl_to_vec Q collateral)) of
             Ok data \<Rightarrow>
               (let (r, f2) = write_file io f1 cache_path data in
                (map_err (\<lambda>e. [''write collateral'']) r, f2))
           | Err e \<Rightarrow> (Err e, f1)
           | Panic \<Rightarrow> (Panic, f1))
      | (Err e, f1) \<Rightarrow> (Err [''create cache directory''], f1)
      | (Panic, f1) \<Rightarrow> (Panic, f1))"

text \<open>\<^verbatim>\<open>dt.unix_timestamp().max(0) as u64\<close>.\<close>

definition timestamp_secs :: "int \<Rightarrow> nat" where
  "timestamp_secs t = nat (max t 0)"

definition cached_collateral_is_fresh :: "crates \<Rightarrow> 'c qvl_lib \<Rightarrow> 'c \<Rightarrow> nat \<Rightarrow> bool" where
  "cached_collateral_is_fresh E Q collateral now_secs =
     (case json_from_str E (qvl_tcb_info Q collateral) of
        None \<Rightarrow> False
      | Some tcb_info_json \<Rightarrow>
          let next_update =
            (case Option.bind (json_get tcb_info_json ''nextUpdate'') as_str of
               None \<Rightarrow> [] | Some s \<Rightarrow> s)
          in
          (case rfc3339_parse Q next_update of
             Some dt \<Rightarrow> now_secs \<le> timestamp_secs dt
           | None \<Rightarrow> False))"

text \<open>
  The retries. \<open>scale\<close> is the next delay, \<^verbatim>\<open>None\<close> when \<^verbatim>\<open>Duration::from_secs_f64\<close> overflows and
  panics; throttling and sleeping only pass time. \<open>max_retries\<close> is the setting cast to 32 bits.
\<close>

record 'd RetrySettings =
  max_retries :: u32
  initial_delay :: 'd
  scale :: "'d \<Rightarrow> 'd option"

definition env_u64 :: "verifier_env \<Rightarrow> string \<Rightarrow> (string \<Rightarrow> u64 option) \<Rightarrow> u64 \<Rightarrow> u64" where
  "env_u64 V name parse default_value =
     (case Option.bind (env_var V name) parse of None \<Rightarrow> default_value | Some v \<Rightarrow> v)"

text \<open>The delays are floating-point settings; \<open>delays\<close> reads them.\<close>

definition collateral_retry_settings ::
    "verifier_env \<Rightarrow> (string \<Rightarrow> u64 option) \<Rightarrow> (verifier_env \<Rightarrow> 'd \<times> ('d \<Rightarrow> 'd option)) \<Rightarrow>
     'd RetrySettings" where
  "collateral_retry_settings V parse delays =
     (let (d, sc) = delays V in
      \<lparr>max_retries = ucast (env_u64 V ''TDX_DCAP_QVL_RETRY_MAX'' parse 0),
       initial_delay = d, scale = sc\<rparr>)"

function backoff_loop ::
    "(nat \<Rightarrow> (string, 'c) outcome) \<Rightarrow> nat \<Rightarrow> ('d \<Rightarrow> 'd option) \<Rightarrow> nat \<Rightarrow> 'd \<Rightarrow> (anyhow, 'c) outcome" where
  "backoff_loop fetch mx sc attempt delay =
     (case fetch attempt of
        Ok collateral \<Rightarrow> Ok collateral
      | Err e \<Rightarrow>
          if mx \<le> attempt then Err [''get collateral'', e]
          else (case sc delay of
                  None \<Rightarrow> Panic
                | Some delay' \<Rightarrow> backoff_loop fetch mx sc (attempt + 1) delay')
      | Panic \<Rightarrow> Panic)"
  by pat_completeness auto
termination
  by (relation "measure (\<lambda>(fetch, mx, sc, attempt, delay). mx - attempt)") auto

declare backoff_loop.simps [simp del]

definition get_collateral_with_backoff ::
    "'c qvl_lib \<Rightarrow> 'd RetrySettings \<Rightarrow> string \<Rightarrow> bytes \<Rightarrow> (anyhow, 'c) outcome" where
  "get_collateral_with_backoff Q settings pccs_url quote =
     backoff_loop (qvl_fetch Q pccs_url quote) (unat (max_retries settings)) (scale settings) 0
       (initial_delay settings)"

text \<open>The end of \<^verbatim>\<open>get_collateral_cached\<close>: what is downloaded is written to the cache.\<close>

definition fetch_and_cache ::
    "'c qvl_lib \<Rightarrow> 'd RetrySettings \<Rightarrow> io_env \<Rightarrow> fs \<Rightarrow> string \<Rightarrow> bytes \<Rightarrow> path \<Rightarrow>
     (anyhow, 'c) outcome \<times> fs" where
  "fetch_and_cache Q settings io f pccs_url quote cache_path =
     (case get_collateral_with_backoff Q settings pccs_url quote of
        Ok c \<Rightarrow> (let (r, f') = write_cache Q io f cache_path c in (map_ok (\<lambda>_. c) r, f'))
      | Err e \<Rightarrow> (Err e, f)
      | Panic \<Rightarrow> (Panic, f))"

definition get_collateral_cached ::
    "crates \<Rightarrow> verifier_env \<Rightarrow> 'c qvl_lib \<Rightarrow> 'd RetrySettings \<Rightarrow> io_env \<Rightarrow> fs \<Rightarrow> nat \<Rightarrow> string option \<Rightarrow>
     bytes \<Rightarrow> path \<Rightarrow> (anyhow, 'c) outcome \<times> fs" where
  "get_collateral_cached E V Q settings io f now pccs_url quote cache_dir =
     (let pccs_url =
        (case map_option str_trim pccs_url of
           None \<Rightarrow> DEFAULT_PCS_URL
         | Some s \<Rightarrow> if s = [] then DEFAULT_PCS_URL else s)
      in
      if cache_disabled V then (get_collateral_with_backoff Q settings pccs_url quote, f)
      else
        (case and_then (with_context ''parse quote'' (lib_error (qvl_parse Q quote))) (\<lambda>q.
              and_then (with_context ''get CA'' (lib_error (qvl_ca q))) (\<lambda>ca.
              and_then (with_context ''get FMSPC'' (lib_error (qvl_fmspc q))) (\<lambda>fmspc.
                cache_key E (normalize_base_url pccs_url) (if qvl_is_sgx q then ''sgx'' else ''tdx'')
                  (hex_encode_upper Q fmspc) ca))) of
           Err e \<Rightarrow> (Err e, f)
         | Panic \<Rightarrow> (Panic, f)
         | Ok key \<Rightarrow>
             let cache_path = cache_dir @ [key];
                 cached = read_cache Q io f cache_path
             in
             (case cached of
                Some c \<Rightarrow>
                  if cached_collateral_is_fresh E Q c now then (Ok c, f)
                  else fetch_and_cache Q settings io f pccs_url quote cache_path
              | None \<Rightarrow> fetch_and_cache Q settings io f pccs_url quote cache_path)))"

definition custom_claims_from_verified_report :: "crates \<Rightarrow> VerifiedReport \<Rightarrow> json_map" where
  "custom_claims_from_verified_report E report =
     [(''tcb_status'', JString (vr_status report)),
      (''advisory_ids'', JArray (map JString (vr_advisory_ids report))),
      (''platform_provider_id'', JString (hex_encode E (vr_ppid report)))]"

definition parse_next_update_secs :: "crates \<Rightarrow> 'c qvl_lib \<Rightarrow> string \<Rightarrow> nat option" where
  "parse_next_update_secs E Q text =
     Option.bind (json_from_str E text) (\<lambda>v.
     Option.bind (json_get v ''nextUpdate'') (\<lambda>u.
     Option.bind (as_str u) (\<lambda>next_update.
       map_option timestamp_secs (rfc3339_parse Q next_update))))"

definition collateral_expired :: "crates \<Rightarrow> 'c qvl_lib \<Rightarrow> 'c \<Rightarrow> nat \<Rightarrow> bool" where
  "collateral_expired E Q collateral now =
     list_ex (\<lambda>next_update. case next_update of None \<Rightarrow> False | Some t \<Rightarrow> t < now)
       [parse_next_update_secs E Q (qvl_tcb_info Q collateral),
        parse_next_update_secs E Q (qvl_qe_identity Q collateral)]"

text \<open>
  \<^verbatim>\<open>ecdsa_quote_verification_with_timing\<close>; the two process-wide settings it makes for the library belong
  to the behaviour of \<open>qvl_verify\<close>.
\<close>

definition qvl_quote_verification ::
    "crates \<Rightarrow> verifier_env \<Rightarrow> 'c qvl_lib \<Rightarrow> 'd RetrySettings \<Rightarrow> io_env \<Rightarrow> fs \<Rightarrow> nat \<Rightarrow> bytes \<Rightarrow>
     (anyhow, json_map) outcome \<times> fs" where
  "qvl_quote_verification E V Q settings io f now quote =
     (let cache_dir =
        path_of (case env_var V ''DCAP_QVL_CACHE_DIR'' of None \<Rightarrow> ''dcap-qvl-cache'' | Some d \<Rightarrow> d);
        (r, f') = get_collateral_cached E V Q settings io f now (env_var V ''PCCS_URL'') quote cache_dir
      in
      (and_then (with_context ''get collateral'' r) (\<lambda>collateral.
       and_then (with_context ''dcap-qvl quote verification failed''
                   (lib_error (qvl_verify Q quote collateral now))) (\<lambda>verified.
         let claims = custom_claims_from_verified_report E verified in
         Ok (if collateral_expired E Q collateral now
             then json_insert ''collateral_expired'' (JBool True) claims else claims))), f'))"

section \<open>What the claims can say\<close>

text \<open>The claims the caller adds itself; neither source of custom claims names one of them.\<close>

definition reserved_claims :: "string set" where
  "reserved_claims = {''quote'', ''td_attributes'', ''report_data'', ''init_data'', ''uefi_event_logs''}"

lemma prepare_custom_claims_map_keys:
  assumes "prepare_custom_claims_map E D supp st r = Ok m"
  shows "fst ` set m \<inter> reserved_claims = {}"
  using assms by (auto simp: prepare_custom_claims_map_def outcome_iff reserved_claims_def split: if_splits)

lemma terminal_case:
  "(case r of QV_other code \<Rightarrow> bail (m code) | _ \<Rightarrow> x) = Ok y \<longleftrightarrow> (\<forall>n. r \<noteq> QV_other n) \<and> x = Ok y"
  by (cases r) (simp_all add: bail_def)

lemma dcap_Ok:
  assumes "ecdsa_quote_verification_inner E D now quote = Ok m"
  obtains supp st r w s where
    "dcap_verify D quote (dcap_get_collateral D quote) now supp = Ok (st, r, w)"
    "\<forall>n. r \<noteq> QV_other n" "prepare_custom_claims_map E D s st r = Ok m"
proof -
  from assms show thesis
    unfolding ecdsa_quote_verification_inner_def Let_def
    by (clarsimp simp only: outcome_iff split_beta terminal_case) (metis prod.collapse that)
qed

lemma dcap_claims_keys:
  assumes "ecdsa_quote_verification_inner E D now quote = Ok m"
  shows "fst ` set m \<inter> reserved_claims = {}"
  using assms by (rule dcap_Ok) (rule prepare_custom_claims_map_keys)

lemma qvl_claims_keys:
  assumes "qvl_quote_verification E V Q settings io f now quote = (Ok m, f')"
  shows "fst ` set m \<inter> reserved_claims = {}"
  using assms
  by (auto simp: qvl_quote_verification_def outcome_iff Let_def custom_claims_from_verified_report_def
      reserved_claims_def json_insert_def split: prod.splits if_splits)

text \<open>A terminal result of Intel's library is never accepted.\<close>

lemma dcap_accepts:
  assumes "ecdsa_quote_verification_inner E D now quote = Ok m"
  shows "\<exists>supp st r w. dcap_verify D quote (dcap_get_collateral D quote) now supp = Ok (st, r, w) \<and>
    (\<forall>n. r \<noteq> QV_other n) \<and> map_of m ''tcb_status'' = Some (SgxQlQvResultWrapper_as_str r)"
proof -
  obtain supp st r w s where v: "dcap_verify D quote (dcap_get_collateral D quote) now supp = Ok (st, r, w)"
    "\<forall>n. r \<noteq> QV_other n" "prepare_custom_claims_map E D s st r = Ok m"
    using assms by (rule dcap_Ok)
  then have "map_of m ''tcb_status'' = Some (SgxQlQvResultWrapper_as_str r)"
    by (auto simp: prepare_custom_claims_map_def outcome_iff)
  then show ?thesis using v by blast
qed

text \<open>The claim \<open>tcb_eval_num\<close> repeats the root CA CRL number.\<close>

lemma tcb_eval_num_is_crl_num:
  "prepare_custom_claims_map E D supp st r = Ok m \<Longrightarrow>
     map_of m ''tcb_eval_num'' = Some (JNumber (int (root_ca_crl_num supp)))"
  by (auto simp: prepare_custom_claims_map_def outcome_iff)

section \<open>The retry loop\<close>

text \<open>
  The loop ends: it makes at most \<open>max_retries + 1\<close> attempts and returns what the first successful one
  returned, or the error of the last.
\<close>

lemma backoff_loop_result:
  assumes "\<forall>d. sc d \<noteq> None" and "\<forall>i. fetch i \<noteq> Panic" and "attempt \<le> mx"
  shows "backoff_loop fetch mx sc attempt delay =
    (case List.find (\<lambda>i. is_ok (fetch i)) [attempt..<Suc mx] of
       Some i \<Rightarrow> map_err (\<lambda>e. [e]) (fetch i)
     | None \<Rightarrow> map_err (\<lambda>e. [''get collateral'', e]) (fetch mx))"
  using assms
proof (induction fetch mx sc attempt delay rule: backoff_loop.induct)
  case (1 fetch mx sc attempt delay)
  have upt: "[attempt..<Suc mx] = attempt # [Suc attempt..<Suc mx]"
    using "1.prems"(3) by (simp add: upt_conv_Cons)
  show ?case
  proof (cases "fetch attempt")
    case (Ok c)
    then show ?thesis by (subst backoff_loop.simps) (simp add: upt del: upt_Suc)
  next
    case (Err e)
    show ?thesis
    proof (cases "mx \<le> attempt")
      case True
      then have "mx = attempt" using "1.prems"(3) by simp
      then show ?thesis using Err by (subst backoff_loop.simps) simp
    next
      case False
      obtain d where d: "sc delay = Some d" using "1.prems"(1) by blast
      then show ?thesis
        using Err False "1.IH" [OF Err False d] "1.prems"
        by (subst backoff_loop.simps) (simp add: upt del: upt_Suc)
    qed
  next
    case Panic
    then show ?thesis using "1.prems"(2) by simp
  qed
qed

end
