(* ===== verification/Tdx.thy ===== *)
theory Tdx
  imports Tdx_Quote Intel_Dcap
begin

text \<open>
  The TDX verifier (\<^verbatim>\<open>deps/verifier/src/tdx/mod.rs\<close>): quote verification, the bindings of the report
  data and of MRCONFIGID, and the replay of the event log into the runtime measurement registers. It
  composes the quote parser, the two quote verification libraries and the event log library.
\<close>

record TdxEvidence =
  cc_eventlog :: "string option"
  tdx_quote :: string

text \<open>
  What a call sees of its surroundings: packages, environment variables, the two verification
  libraries, the clock and the collateral cache. \<open>tdx_chk\<close> is the overflow-check setting of the build.
\<close>

record ('c, 'k, 'd) tdx_env =
  tdx_crates :: crates
  tdx_chk :: bool
  tdx_vars :: verifier_env
  tdx_dcap :: "'c dcap_lib"
  tdx_qvl :: "'k qvl_lib"
  tdx_retry :: "'d RetrySettings"
  tdx_io :: io_env
  tdx_fs :: fs
  tdx_now :: nat
  tdx_from_value :: "json \<Rightarrow> (string, TdxEvidence) outcome"
  tdx_log_to_value :: "EventlogEntry list \<Rightarrow> (string, json) outcome"

definition verify_quote_signature :: "('c, 'k, 'd) tdx_env \<Rightarrow> bytes \<Rightarrow> (anyhow, json_map) outcome" where
  "verify_quote_signature T quote_bin =
     (if env_flag (tdx_vars T) ''TDX_NATIVE_USE_DCAP_QVL''
      then fst (qvl_quote_verification (tdx_crates T) (tdx_vars T) (tdx_qvl T) (tdx_retry T)
                  (tdx_io T) (tdx_fs T) (tdx_now T) quote_bin)
      else ecdsa_quote_verification_inner (tdx_crates T) (tdx_dcap T) (int (tdx_now T)) quote_bin)"

definition check_report_data :: "Quote \<Rightarrow> ReportData \<Rightarrow> (anyhow, unit) outcome" where
  "check_report_data q expected_report_data =
     (case expected_report_data of
        ReportValue expected \<Rightarrow>
          if regularize_data expected 64 \<noteq> quote_report_data q
          then bail ''REPORT_DATA is different from that in TDX Quote''
          else Ok ()
      | ReportNotProvided \<Rightarrow> Ok ())"

definition check_init_data :: "Quote \<Rightarrow> InitDataHash \<Rightarrow> (anyhow, unit) outcome" where
  "check_init_data q expected_init_data_hash =
     (case expected_init_data_hash of
        InitValue expected \<Rightarrow>
          if regularize_data expected 48 \<noteq> quote_mr_config_id q
          then bail ''MRCONFIGID is different from that in TDX Quote''
          else Ok ()
      | InitNotProvided \<Rightarrow> Ok ())"

definition rtmr_measurements :: "Quote \<Rightarrow> ReferenceMeasurement list" where
  "rtmr_measurements q =
     [\<lparr>rm_index = 1, algorithm = Sha384, reference = quote_rtmr_0 q\<rparr>,
      \<lparr>rm_index = 2, algorithm = Sha384, reference = quote_rtmr_1 q\<rparr>,
      \<lparr>rm_index = 3, algorithm = Sha384, reference = quote_rtmr_2 q\<rparr>,
      \<lparr>rm_index = 4, algorithm = Sha384, reference = quote_rtmr_3 q\<rparr>]"

fun replay_error_anyhow :: "replay_error \<Rightarrow> anyhow" where
  "replay_error_anyhow (ReplayFailed m) = [m]"
| "replay_error_anyhow (RegisterMismatch i c r) = [''RTMR mismatch'']"

text \<open>The event log is optional; when it is given it must parse and replay to the registers.\<close>

definition check_eventlog ::
    "('c, 'k, 'd) tdx_env \<Rightarrow> Quote \<Rightarrow> string option \<Rightarrow> (anyhow, CcEventLog option) outcome" where
  "check_eventlog T q el_opt =
     (case el_opt of
        Some el \<Rightarrow>
          if el \<noteq> [] then
            and_then (lib_error (b64_decode_std (tdx_vars T) el)) (\<lambda>ccel_data.
            and_then (map_err (\<lambda>e. [''Parse CC Eventlog failed: '' @ e])
                        (CcEventLog_try_from (tdx_crates T) (tdx_chk T) ccel_data)) (\<lambda>ccel.
            and_then (map_err replay_error_anyhow
                        (replay_and_match (tdx_crates T) ccel (rtmr_measurements q))) (\<lambda>_.
              Ok (Some ccel))))
          else Ok None
      | None \<Rightarrow> Ok None)"

definition tdx_verify_evidence ::
    "('c, 'k, 'd) tdx_env \<Rightarrow> ReportData \<Rightarrow> InitDataHash \<Rightarrow> TdxEvidence \<Rightarrow>
     (anyhow, TeeEvidenceParsedClaim) outcome" where
  "tdx_verify_evidence T expected_report_data expected_init_data_hash evidence =
     (if tdx_quote evidence = [] then bail ''TDX Quote is empty.''
      else
        and_then (lib_error (b64_decode_std (tdx_vars T) (tdx_quote evidence))) (\<lambda>quote_bin.
        and_then (verify_quote_signature T quote_bin) (\<lambda>custom_claims.
        and_then (parse_tdx_quote (tdx_crates T) quote_bin) (\<lambda>q.
        and_then (check_report_data q expected_report_data) (\<lambda>_.
        and_then (check_init_data q expected_init_data_hash) (\<lambda>_.
        and_then (check_eventlog T q (cc_eventlog evidence)) (\<lambda>ccel_option.
        and_then (generate_parsed_claim (tdx_crates T) (tdx_log_to_value T) q ccel_option) (\<lambda>claim.
          extend_using_custom_claims claim custom_claims))))))))"

definition Tdx_evaluate ::
    "('c, 'k, 'd) tdx_env \<Rightarrow> TeeEvidence \<Rightarrow> ReportData \<Rightarrow> InitDataHash \<Rightarrow> verdict" where
  "Tdx_evaluate T evidence expected_report_data expected_init_data_hash =
     and_then (with_context ''Deserialize TDX Evidence failed.'' (lib_error (tdx_from_value T evidence)))
       (\<lambda>tdx_evidence.
     and_then (map_err (\<lambda>e. [''TDX Verifier: '' @ concat e])
                 (tdx_verify_evidence T expected_report_data expected_init_data_hash tdx_evidence))
       (\<lambda>claims. Ok [(claims, ''cpu'')]))"

definition TdxVerifier :: "('c, 'k, 'd) tdx_env \<Rightarrow> Verifier" where
  "TdxVerifier T =
     \<lparr>v_evaluate = Tdx_evaluate T,
      v_generate_supplemental_challenge = default_supplemental_challenge\<rparr>"

section \<open>What acceptance means\<close>

text \<open>\<open>tdx_carries T ev q\<close>: the evidence is a quote whose signature is verified and which parses as \<open>q\<close>.\<close>

definition tdx_carries :: "('c, 'k, 'd) tdx_env \<Rightarrow> TeeEvidence \<Rightarrow> Quote \<Rightarrow> bool" where
  "tdx_carries T ev q \<longleftrightarrow>
     (\<exists>e bin custom. tdx_from_value T ev = Ok e \<and> b64_decode_std (tdx_vars T) (tdx_quote e) = Ok bin \<and>
        verify_quote_signature T bin = Ok custom \<and> parse_tdx_quote (tdx_crates T) bin = Ok q)"

lemma check_data_Ok [outcome_iff]:
  "check_report_data q rdo = Ok u \<longleftrightarrow> (\<forall>rd. rdo = ReportValue rd \<longrightarrow> regularize_data rd 64 = quote_report_data q)"
  "check_init_data q iho = Ok u \<longleftrightarrow> (\<forall>ih. iho = InitValue ih \<longrightarrow> regularize_data ih 48 = quote_mr_config_id q)"
  by (auto simp: check_report_data_def check_init_data_def bail_def split: ReportData.splits InitDataHash.splits)

lemma verify_quote_signature_keys:
  assumes "verify_quote_signature T bin = Ok m"
  shows "fst ` set m \<inter> reserved_claims = {}"
proof (cases "env_flag (tdx_vars T) ''TDX_NATIVE_USE_DCAP_QVL''")
  case True
  then show ?thesis
    using assms qvl_claims_keys [of "tdx_crates T" "tdx_vars T"]
    by (metis prod.collapse verify_quote_signature_def)
next
  case False
  then show ?thesis
    using assms dcap_claims_keys by (metis verify_quote_signature_def)
qed

lemma tdx_verify_Ok:
  assumes "tdx_verify_evidence T rdo iho e = Ok claims"
  obtains bin custom q ccel claim where "b64_decode_std (tdx_vars T) (tdx_quote e) = Ok bin"
    "verify_quote_signature T bin = Ok custom" "parse_tdx_quote (tdx_crates T) bin = Ok q"
    "check_report_data q rdo = Ok ()" "check_init_data q iho = Ok ()"
    "check_eventlog T q (cc_eventlog e) = Ok ccel"
    "generate_parsed_claim (tdx_crates T) (tdx_log_to_value T) q ccel = Ok claim"
    "extend_using_custom_claims claim custom = Ok claims"
  using assms unfolding tdx_verify_evidence_def
  by (clarsimp simp only: outcome_iff split: if_splits)

lemma Tdx_evaluate_Ok:
  assumes "Tdx_evaluate T ev rdo iho = Ok cs"
  obtains e claims where "tdx_from_value T ev = Ok e" "tdx_verify_evidence T rdo iho e = Ok claims"
    "cs = [(claims, ''cpu'')]"
  using assms by (auto simp: Tdx_evaluate_def outcome_iff)

interpretation tdx: bound_verifier "TdxVerifier T"
  "\<lambda>ev rd. \<exists>q. tdx_carries T ev q \<and> quote_report_data q = regularize_data rd 64"
  "\<lambda>ev ih. \<exists>q. tdx_carries T ev q \<and> quote_mr_config_id q = regularize_data ih 48"
proof unfold_locales
  show "\<exists>q. tdx_carries T ev q \<and> quote_report_data q = regularize_data rd 64"
    if "v_evaluate (TdxVerifier T) ev (ReportValue rd) ih = Ok claims" for ev rd ih claims
  proof -
    from that have "Tdx_evaluate T ev (ReportValue rd) ih = Ok claims" by (simp add: TdxVerifier_def)
    then show ?thesis
      by (elim Tdx_evaluate_Ok tdx_verify_Ok) (auto simp: tdx_carries_def check_data_Ok)
  qed
  show "claims \<noteq> []" if "v_evaluate (TdxVerifier T) ev rdo ih = Ok claims" for ev rdo ih claims
    using that by (auto simp: TdxVerifier_def Tdx_evaluate_def outcome_iff)
  show "\<exists>q. tdx_carries T ev q \<and> quote_mr_config_id q = regularize_data ih 48"
    if "v_evaluate (TdxVerifier T) ev rdo (InitValue ih) = Ok claims" for ev rdo ih claims
  proof -
    from that have "Tdx_evaluate T ev rdo (InitValue ih) = Ok claims" by (simp add: TdxVerifier_def)
    then show ?thesis
      by (elim Tdx_evaluate_Ok tdx_verify_Ok) (auto simp: tdx_carries_def check_data_Ok)
  qed
qed

section \<open>The claims\<close>

lemma generate_parsed_claim_Ok:
  assumes "generate_parsed_claim E to_value q ccel = Ok claim"
  obtains m attrs where "claim = JObject m" "map_of m ''quote'' = Some (JObject (quote_map E q))"
    "map_of m ''report_data'' = Some (JString (hex_encode E (quote_report_data q)))"
    "map_of m ''init_data'' = Some (JString (hex_encode E (quote_mr_config_id q)))"
    "parse_td_attributes (quote_td_attributes q) = Ok attrs"
    "map_of m ''td_attributes'' = Some (JObject attrs)"
  using assms
  by (auto simp: generate_parsed_claim_def outcome_iff parse_claim_def split: option.splits)

lemma tdx_claims:
  assumes "generate_parsed_claim E to_value q ccel = Ok claim"
    and "extend_using_custom_claims claim custom = Ok claims"
    and "fst ` set custom \<inter> reserved_claims = {}"
  shows "\<exists>attrs. parse_td_attributes (quote_td_attributes q) = Ok attrs \<and>
    json_get claims ''quote'' = Some (JObject (quote_map E q)) \<and>
    json_get claims ''td_attributes'' = Some (JObject attrs) \<and>
    json_get claims ''report_data'' = Some (JString (hex_encode E (quote_report_data q))) \<and>
    json_get claims ''init_data'' = Some (JString (hex_encode E (quote_mr_config_id q)))"
proof -
  have "k \<notin> fst ` set custom" if "k \<in> reserved_claims" for k using assms(3) that by blast
  then have "''quote'' \<notin> fst ` set custom" "''td_attributes'' \<notin> fst ` set custom"
    "''report_data'' \<notin> fst ` set custom" "''init_data'' \<notin> fst ` set custom"
    by (simp_all add: reserved_claims_def)
  note keys = this [THEN json_extend_other]
  from assms(1) show ?thesis
  proof (rule generate_parsed_claim_Ok)
    fix m attrs
    assume m: "claim = JObject m" "map_of m ''quote'' = Some (JObject (quote_map E q))"
      "map_of m ''report_data'' = Some (JString (hex_encode E (quote_report_data q)))"
      "map_of m ''init_data'' = Some (JString (hex_encode E (quote_mr_config_id q)))"
      "parse_td_attributes (quote_td_attributes q) = Ok attrs"
      "map_of m ''td_attributes'' = Some (JObject attrs)"
    have "claims = JObject (json_extend m custom)"
      using assms(2) m(1) by (simp add: extend_using_custom_claims_def)
    then show ?thesis
      using m(5) by (intro exI [of _ attrs]) (simp add: keys m)
  qed
qed

lemma check_eventlog_Ok:
  assumes "check_eventlog T q el = Ok (Some l)"
  shows "\<forall>(i, r) \<in> {(1, quote_rtmr_0 q), (2, quote_rtmr_1 q), (3, quote_rtmr_2 q), (4, quote_rtmr_3 q)}.
    register_value (tdx_crates T) (log l) i Sha384 = Some r"
  using assms
  by (auto simp: check_eventlog_def outcome_iff replay_and_match_values rtmr_measurements_def
      split: option.splits if_splits)

end
