(* ===== verification/Wasm_Components.thy ===== *)
theory Wasm_Components
  imports Snp Tdx
begin

text \<open>
  The WebAssembly verifier components: SNP (\<^verbatim>\<open>wasm-components/snp-verifier-component/src\<close>) and TDX
  (\<^verbatim>\<open>wasm-components/tdx-verifier-component/src/lib.rs\<close>). They repeat the native verifiers over another
  interface: evidence as bytes, optional expected values, and a JSON text as the answer, an object with
  \<^verbatim>\<open>"status": "failed"\<close> for an error.

  Helper functions the components repeat word for word (\<^verbatim>\<open>get_oid_octets\<close>, \<^verbatim>\<open>get_oid_int\<close>,
  \<^verbatim>\<open>verify_report_tcb\<close>, \<^verbatim>\<open>get_processor_generation\<close>, the quote parser) are those of the native
  verifiers. The lemmas relate the components to the native verifiers.
\<close>

section \<open>The interface\<close>

datatype OptionalData = OptValue bytes | OptNotProvided

fun optional_data :: "OptionalData \<Rightarrow> bytes option" where
  "optional_data (OptValue v) = Some v"
| "optional_data OptNotProvided = None"

text \<open>\<^verbatim>\<open>format!("{e:#}")\<close> joins the chain of messages.\<close>

fun anyhow_alternate :: "anyhow \<Rightarrow> string" where
  "anyhow_alternate [] = []"
| "anyhow_alternate [m] = m"
| "anyhow_alternate (m # e) = m @ '': '' @ anyhow_alternate e"

definition failed_json :: "anyhow \<Rightarrow> json" where
  "failed_json e = JObject [(''status'', JString ''failed''), (''error'', JString (anyhow_alternate e))]"

section \<open>The SNP component\<close>

text \<open>\<open>snp_evidence_from_str\<close> and \<open>report_from_bytes\<close> parse the two forms of evidence.\<close>

record snp_component =
  comp_vars :: verifier_env
  comp_io :: io_env
  snp_evidence_from_str :: "string \<Rightarrow> (string, SnpEvidence) outcome"
  report_from_bytes :: "bytes \<Rightarrow> (string, AttestationReport) outcome"
  json_to_string :: "json \<Rightarrow> (string, string) outcome"

definition starts_with_brace :: "string \<Rightarrow> bool" where
  "starts_with_brace s \<longleftrightarrow>
     (case dropWhile is_ascii_white_space s of c # _ \<Rightarrow> c = CHR ''{'' | [] \<Rightarrow> False)"

definition parse_evidence_bytes :: "snp_component \<Rightarrow> bytes \<Rightarrow> (anyhow, SnpEvidence) outcome" where
  "parse_evidence_bytes C evidence =
     (let from_report =
        and_then (with_context ''parse SNP report bytes'' (lib_error (report_from_bytes C evidence)))
          (\<lambda>report. Ok \<lparr>attestation_report = report, cert_chain = None\<rparr>)
      in
      case from_utf8 evidence of
        Some s \<Rightarrow>
          if starts_with_brace s
          then with_context ''parse SNP evidence JSON'' (lib_error (snp_evidence_from_str C s))
          else from_report
      | None \<Rightarrow> from_report)"

definition snp_cache_disabled :: "snp_component \<Rightarrow> bool" where
  "snp_cache_disabled C \<longleftrightarrow>
     env_var (comp_vars C) ''SNP_VCEK_DISABLE_CACHE'' \<noteq> None \<or>
     env_var (comp_vars C) ''DCAP_QVL_DISABLE_CACHE'' \<noteq> None"

definition snp_cache_dir :: "snp_component \<Rightarrow> fs \<Rightarrow> path option" where
  "snp_cache_dir C f =
     (let dir = (\<lambda>name. case env_var (comp_vars C) name of
                          Some d \<Rightarrow> if d \<noteq> [] then Some (path_of d) else None
                        | None \<Rightarrow> None)
      in
      if snp_cache_disabled C then None
      else
        (case dir ''SNP_VCEK_CACHE_DIR'' of
           Some d \<Rightarrow> Some d
         | None \<Rightarrow>
             (case dir ''DCAP_QVL_CACHE_DIR'' of
                Some d \<Rightarrow> Some d
              | None \<Rightarrow> if exists_path f [''cache''] then Some [''cache''] else None)))"

definition snp_cache_path :: "crates \<Rightarrow> path \<Rightarrow> string \<Rightarrow> path" where
  "snp_cache_path E cache_dir url =
     cache_dir @ [''snp-vcek'', hex_encode E (sha256 E (bytes_of url)) @ ''.der'']"

definition snp_read_cache :: "crates \<Rightarrow> snp_component \<Rightarrow> fs \<Rightarrow> path \<Rightarrow> string \<Rightarrow> bytes option" where
  "snp_read_cache E C f cache_dir url =
     (case read_file (comp_io C) f (snp_cache_path E cache_dir url) of Ok b \<Rightarrow> Some b | _ \<Rightarrow> None)"

definition snp_write_cache ::
    "crates \<Rightarrow> snp_component \<Rightarrow> fs \<Rightarrow> path \<Rightarrow> string \<Rightarrow> bytes \<Rightarrow> (io_error, unit) outcome \<times> fs" where
  "snp_write_cache E C f cache_dir url data =
     (let p = snp_cache_path E cache_dir url in
      case create_dir_all (comp_io C) f (butlast p) of
        (Ok _, f1) \<Rightarrow> write_file (comp_io C) f1 p data
      | (Err e, f1) \<Rightarrow> (Err e, f1)
      | (Panic, f1) \<Rightarrow> (Panic, f1))"

text \<open>A failure to write the cache is only logged.\<close>

definition component_fetch_vcek ::
    "crates \<Rightarrow> snp_component \<Rightarrow> ('c, 't) snp_lib \<Rightarrow> fs \<Rightarrow> AttestationReport \<Rightarrow> ProcessorGeneration \<Rightarrow>
     (anyhow, bytes) outcome \<times> fs" where
  "component_fetch_vcek E C L f att_report proc_gen =
     (case vcek_url E att_report proc_gen of
        Err e \<Rightarrow> (Err e, f)
      | Panic \<Rightarrow> (Panic, f)
      | Ok url \<Rightarrow>
          (case Option.bind (snp_cache_dir C f) (\<lambda>d. snp_read_cache E C f d url) of
             Some b \<Rightarrow> (Ok b, f)
           | None \<Rightarrow>
               (case and_then (with_context (''Unable to send request for VCEK: '' @ url)
                                 (lib_error (kds_send L url))) (\<lambda>(status, body).
                     and_then (with_context ''Unable to parse VCEK'' (lib_error body)) (\<lambda>body.
                     if status \<noteq> 200
                     then bail (''Unable to fetch VCEK from URL: HTTP '' @ fmt_dec status @ '', '' @ url)
                     else Ok body)) of
                  Ok body \<Rightarrow>
                    (case snp_cache_dir C f of
                       Some d \<Rightarrow> (Ok body, snd (snp_write_cache E C f d url body))
                     | None \<Rightarrow> (Ok body, f))
                | Err e \<Rightarrow> (Err e, f)
                | Panic \<Rightarrow> (Panic, f))))"

definition component_snp_evaluate ::
    "crates \<Rightarrow> snp_component \<Rightarrow> ('c, 't) snp_lib \<Rightarrow> fs \<Rightarrow> SnpEvidence \<Rightarrow> bytes option \<Rightarrow> bytes option \<Rightarrow>
     (anyhow, json) outcome" where
  "component_snp_evaluate E C L f ev expected_report_data expected_init_data_hash =
     (let report = attestation_report ev in
      if report_version report < REPORT_VERSION_MIN
      then bail ''Attestation Report version is too old. Please update your firmware.''
      else if REPORT_VERSION_MAX < report_version report
      then bail ''Unexpected attestation report version. Check SNP Firmware ABI specification''
      else
        and_then (get_processor_generation report) (\<lambda>proc_gen.
        and_then (CERT_CHAINS L proc_gen) (\<lambda>vendor_certs.
        and_then (case cert_chain ev of
                    Some chain \<Rightarrow> vek_of_chain L vendor_certs chain
                  | None \<Rightarrow> vek_from_kds L vendor_certs (fst (component_fetch_vcek E C L f report proc_gen)))
          (\<lambda>vek.
        and_then (with_context ''Report signature verification against VEK signature failed''
                    (lib_error (verify_report L vek report))) (\<lambda>_.
        and_then (with_context ''Reported TCB values do not match''
                    (verify_report_tcb L report vek proc_gen)) (\<lambda>_.
        if vmpl report \<noteq> 0 then bail ''VMPL Check Failed''
        else
          and_then (case expected_report_data of
                      Some expected \<Rightarrow>
                        if regularize_data expected 64 \<noteq> snp_report_data report
                        then bail ''Report Data Mismatch'' else Ok ()
                    | None \<Rightarrow> Ok ()) (\<lambda>_.
          and_then (case expected_init_data_hash of
                      Some expected \<Rightarrow>
                        if regularize_data expected 32 \<noteq> host_data report
                        then bail ''Host Data Mismatch'' else Ok ()
                    | None \<Rightarrow> Ok ()) (\<lambda>_.
            Ok (parse_tee_evidence E report)))))))))"

definition snp_evaluate_impl ::
    "crates \<Rightarrow> snp_component \<Rightarrow> ('c, 't) snp_lib \<Rightarrow> fs \<Rightarrow> bytes \<Rightarrow> bytes option \<Rightarrow> bytes option \<Rightarrow>
     (anyhow, string) outcome" where
  "snp_evaluate_impl E C L f evidence expected_report_data expected_init_data_hash =
     and_then (with_context ''parse SNP evidence'' (parse_evidence_bytes C evidence)) (\<lambda>ev.
     and_then (component_snp_evaluate E C L f ev expected_report_data expected_init_data_hash) (\<lambda>claims.
       (case claims of
          JObject m \<Rightarrow> lib_error (json_to_string C (JObject m))
        | _ \<Rightarrow> Err [''claims map is not a JSON object''])))"

text \<open>The exported \<^verbatim>\<open>evaluate\<close>; the printing of a JSON value cannot fail (\<open>print\<close>).\<close>

definition component_answer ::
    "(json \<Rightarrow> string) \<Rightarrow> (anyhow, string) outcome \<Rightarrow> (anyhow, string) outcome" where
  "component_answer print r =
     (case r of Ok v \<Rightarrow> Ok v | Err e \<Rightarrow> Ok (print (failed_json e)) | Panic \<Rightarrow> Panic)"

section \<open>Agreement with the native SNP verifier\<close>

definition report_of_option :: "bytes option \<Rightarrow> ReportData" where
  "report_of_option x = (case x of Some v \<Rightarrow> ReportValue v | None \<Rightarrow> ReportNotProvided)"

definition init_of_option :: "bytes option \<Rightarrow> InitDataHash" where
  "init_of_option x = (case x of Some v \<Rightarrow> InitValue v | None \<Rightarrow> InitNotProvided)"

text \<open>Two results agree when they are the same value or the same kind of failure.\<close>

fun agree :: "('e, 'a) outcome \<Rightarrow> ('e, 'a) outcome \<Rightarrow> bool" where
  "agree (Ok x) (Ok y) = (x = y)"
| "agree (Err _) (Err _) = True"
| "agree Panic Panic = True"
| "agree _ _ = False"

lemma agree_refl [simp]: "agree r r"
  by (cases r) auto

lemma agree_and_then:
  assumes "agree r r'" and "\<And>x. r = Ok x \<Longrightarrow> agree (f x) (g x)"
  shows "agree (and_then r f) (and_then r' g)"
  using assms by (cases r; cases r') auto

lemma agree_with_context: "agree r r' \<Longrightarrow> agree (with_context m r) (with_context m' r')"
  by (cases r; cases r') auto

lemma component_fetch_agrees:
  assumes "Option.bind (snp_cache_dir C f) (\<lambda>d. snp_read_cache E C f d url) = None"
    and "vcek_url E report p = Ok url"
    and "\<forall>status body. kds_send L url = Ok (status, body) \<longrightarrow> (\<exists>b. body = Ok b)"
  shows "agree (fst (component_fetch_vcek E C L f report p)) (fetch_vcek_from_kds E L report p)"
proof (cases "kds_send L url")
  case (Ok r)
  then obtain status b where "r = (status, Ok b)" using assms(3) by (cases r) auto
  then show ?thesis
    using assms(1,2) Ok
    by (auto simp: component_fetch_vcek_def fetch_vcek_from_kds_def bail_def split: option.splits)
qed (use assms(1,2) in \<open>simp_all add: component_fetch_vcek_def fetch_vcek_from_kds_def\<close>)

lemma vek_from_kds_agree:
  assumes "agree r r'"
  shows "agree (vek_from_kds L vc r) (vek_from_kds L vc r')"
  unfolding vek_from_kds_def using assms by (intro agree_and_then agree_with_context) auto

lemma snp_check_data_options:
  "(if vmpl report \<noteq> 0 then bail ''VMPL Check Failed''
    else
      and_then (case rd of
                  Some expected \<Rightarrow>
                    if regularize_data expected 64 \<noteq> snp_report_data report
                    then bail ''Report Data Mismatch'' else Ok ()
                | None \<Rightarrow> Ok ()) (\<lambda>_.
      and_then (case ih of
                  Some expected \<Rightarrow>
                    if regularize_data expected 32 \<noteq> host_data report
                    then bail ''Host Data Mismatch'' else Ok ()
                | None \<Rightarrow> Ok ()) (\<lambda>_. Ok x))) =
   and_then (snp_check_data report (report_of_option rd) (init_of_option ih)) (\<lambda>_. Ok x)"
  by (cases rd; cases ih) (simp_all add: snp_check_data_def report_of_option_def init_of_option_def bail_def)

lemma component_snp_agrees:
  assumes "snp_from_value L value = Ok ev"
    and "\<And>p. get_processor_generation (attestation_report ev) = Ok p \<Longrightarrow> cert_chain ev = None \<Longrightarrow>
      agree (fst (component_fetch_vcek E C L f (attestation_report ev) p))
        (fetch_vcek_from_kds E L (attestation_report ev) p)"
  shows "agree (component_snp_evaluate E C L f ev rd ih)
    (map_ok (\<lambda>cs. fst (hd cs)) (Snp_evaluate E L value (report_of_option rd) (init_of_option ih)))"
proof -
  have map_ok_and_then: "map_ok g (and_then r h) = and_then r (\<lambda>x. map_ok g (h x))" for g r h
    by (cases r) auto
  have map_ok_if: "map_ok g (if b then x else y) = (if b then map_ok g x else map_ok g y)" for g b x y
    by simp
  show ?thesis
    unfolding component_snp_evaluate_def Snp_evaluate_def Let_def snp_check_data_options
    using assms
    by (auto simp: map_ok_and_then bail_def intro!: agree_and_then vek_from_kds_agree split: option.splits)
qed

end
