(* ===== verification/Wasm_Tdx.thy ===== *)
theory Wasm_Tdx
  imports Wasm_Components
begin

text \<open>
  The collateral client of the TDX component (\<^verbatim>\<open>wasm-components/dcap-qvl-wasi/src/lib.rs\<close>) and the
  component itself (\<^verbatim>\<open>wasm-components/tdx-verifier-component/src/lib.rs\<close>). HTTP, PEM, X.509 and URL
  decoding are parameters. \<^verbatim>\<open>char::is_whitespace\<close> is taken on ASCII.
\<close>

section \<open>Endpoints\<close>

record PcsEndpoints =
  pcs_base_url :: string
  pcs_tee :: string
  pcs_fmspc :: string
  pcs_ca :: string

definition PcsEndpoints_new :: "string \<Rightarrow> bool \<Rightarrow> string \<Rightarrow> string \<Rightarrow> PcsEndpoints" where
  "PcsEndpoints_new base_url for_sgx fmspc ca =
     \<lparr>pcs_base_url =
        trim_end_str ''/tdx/certification/v4''
          (trim_end_str ''/sgx/certification/v4'' (trim_end_matches CHR ''/'' (str_trim base_url))),
      pcs_tee = (if for_sgx then ''sgx'' else ''tdx''), pcs_fmspc = fmspc, pcs_ca = ca\<rparr>"

definition mk_url :: "PcsEndpoints \<Rightarrow> string \<Rightarrow> string \<Rightarrow> string" where
  "mk_url p tee path = pcs_base_url p @ ''/'' @ tee @ ''/certification/v4/'' @ path"

definition url_pckcrl :: "PcsEndpoints \<Rightarrow> string" where
  "url_pckcrl p = mk_url p ''sgx'' (''pckcrl?ca='' @ pcs_ca p @ ''&encoding=der'')"

definition url_pckcrl_pem :: "PcsEndpoints \<Rightarrow> string" where
  "url_pckcrl_pem p = mk_url p ''sgx'' (''pckcrl?ca='' @ pcs_ca p @ ''&encoding=pem'')"

definition url_rootcacrl :: "PcsEndpoints \<Rightarrow> string" where
  "url_rootcacrl p = mk_url p ''sgx'' ''rootcacrl''"

definition url_tcb :: "PcsEndpoints \<Rightarrow> string" where
  "url_tcb p = mk_url p (pcs_tee p) (''tcb?fmspc='' @ pcs_fmspc p)"

definition url_qe_identity :: "PcsEndpoints \<Rightarrow> string" where
  "url_qe_identity p = mk_url p (pcs_tee p) ''qe/identity?update=standard''"

section \<open>Parameters and collateral\<close>

record QuoteCollateralV3 =
  pck_crl_issuer_chain :: string
  root_ca_crl :: bytes
  pck_crl :: bytes
  tcb_info_issuer_chain :: string
  tcb_info :: string
  tcb_info_signature :: bytes
  qe_identity_issuer_chain :: string
  qe_identity :: string
  qe_identity_signature :: bytes
  pck_certificate_chain :: "string option"

text \<open>The names of a CRL distribution point.\<close>

datatype general_name = Uri string | OtherGeneralName
datatype dist_point_name = FullName "general_name list" | OtherPointName

type_synonym http_response = "nat \<times> bytes \<times> (string \<times> string) list"

record wasi_lib =
  http_get_bytes :: "string \<Rightarrow> (anyhow, http_response) outcome"
  url_decode :: "string \<Rightarrow> (string, string) outcome"
  pem_parse_many :: "string \<Rightarrow> (string, (string \<times> bytes) list) outcome"
  hex_decode :: "string \<Rightarrow> bytes option"
  cert_extensions :: "bytes \<Rightarrow> (string, (string \<times> bytes) list option) outcome"
  crl_dist_points :: "bytes \<Rightarrow> (string, dist_point_name option list) outcome"
  json_print :: "json \<Rightarrow> string"

definition is_ascii_hexdigit :: "char \<Rightarrow> bool" where
  "is_ascii_hexdigit c \<longleftrightarrow>
     (let n = of_char c :: nat in
      48 \<le> n \<and> n \<le> 57 \<or> 65 \<le> n \<and> n \<le> 70 \<or> 97 \<le> n \<and> n \<le> 102)"

section \<open>DER and its encodings\<close>

definition decode_hex_string :: "wasi_lib \<Rightarrow> string \<Rightarrow> bytes option" where
  "decode_hex_string W s =
     (let filtered = filter (\<lambda>c. \<not> is_ascii_white_space c) s in
      if filtered = [] \<or> length filtered mod 2 \<noteq> 0 \<or> \<not> list_all is_ascii_hexdigit filtered then None
      else hex_decode W filtered)"

definition decode_pem_crl :: "wasi_lib \<Rightarrow> string \<Rightarrow> bytes option" where
  "decode_pem_crl W s =
     (if \<not> str_contains ''BEGIN'' s then None
      else
        (case pem_parse_many W s of
           Ok blocks \<Rightarrow> map_option snd (List.find (\<lambda>(tag, _). tag = ''X509 CRL'' \<or> tag = ''CRL'') blocks)
         | _ \<Rightarrow> None))"

definition decode_base64_string :: "verifier_env \<Rightarrow> string \<Rightarrow> bytes option" where
  "decode_base64_string V s =
     (let filtered = filter (\<lambda>c. \<not> is_ascii_white_space c) s in
      if filtered = [] then None
      else
        (case b64_decode_std V filtered of
           Ok b \<Rightarrow> if b = [] \<or> hd b \<noteq> 0x30 then None else Some b
         | _ \<Rightarrow> None))"

definition first_some :: "'a option \<Rightarrow> 'a option \<Rightarrow> 'a option" where
  "first_some a b = (case a of Some x \<Rightarrow> Some x | None \<Rightarrow> b)"

fun u8_array :: "json list \<Rightarrow> bytes option" where
  "u8_array [] = Some []"
| "u8_array (JNumber n # vs) =
     (if 0 \<le> n \<and> n < 256 then map_option (\<lambda>bs. word_of_int n # bs) (u8_array vs) else None)"
| "u8_array (_ # vs) = None"

fun decode_bytes_value :: "verifier_env \<Rightarrow> wasi_lib \<Rightarrow> json \<Rightarrow> bytes option" where
  "decode_bytes_value V W (JString s) =
     first_some (decode_pem_crl W s) (first_some (decode_hex_string W s) (decode_base64_string V s))"
| "decode_bytes_value V W (JArray l) = u8_array l"
| "decode_bytes_value V W _ = None"

definition decode_crl_bytes :: "verifier_env \<Rightarrow> wasi_lib \<Rightarrow> bytes \<Rightarrow> bytes option" where
  "decode_crl_bytes V W b =
     Option.bind (from_utf8 b) (\<lambda>s.
       first_some (decode_pem_crl W s) (first_some (decode_hex_string W s) (decode_base64_string V s)))"

definition normalize_crl_bytes :: "verifier_env \<Rightarrow> wasi_lib \<Rightarrow> bytes \<Rightarrow> bytes" where
  "normalize_crl_bytes V W b = (case decode_crl_bytes V W b of Some d \<Rightarrow> d | None \<Rightarrow> b)"

definition der_total_len :: "bytes \<Rightarrow> nat option" where
  "der_total_len b =
     (if length b < 2 \<or> b ! 0 \<noteq> 0x30 then None
      else
        let n = unat (b ! 1) in
        if n = 0x81 \<and> 3 \<le> length b then Some (3 + unat (b ! 2))
        else if n = 0x82 \<and> 4 \<le> length b then Some (4 + (unat (b ! 2) * 256 + unat (b ! 3)))
        else if n < 0x80 then Some (2 + n)
        else None)"

definition looks_like_der_crl :: "bytes \<Rightarrow> bool" where
  "looks_like_der_crl b \<longleftrightarrow> der_total_len b = Some (length b)"

definition trim_der_trailing :: "bytes \<Rightarrow> bytes" where
  "trim_der_trailing b =
     (case der_total_len b of
        Some tot \<Rightarrow> if tot \<le> length b \<and> 0 < tot then take tot b else b
      | None \<Rightarrow> b)"

text \<open>The repeated step: trim unless it already is DER.\<close>

definition trim_unless_der :: "bytes \<Rightarrow> bytes" where
  "trim_unless_der b = (if looks_like_der_crl b then b else trim_der_trailing b)"

lemma der_total_len_take:
  assumes "der_total_len b = Some tot" and "tot \<le> length b"
  shows "der_total_len (take tot b) = Some tot"
  using assms by (auto simp: der_total_len_def Let_def nth_take split: if_splits)

lemma trim_unless_der_looks:
  "looks_like_der_crl (trim_unless_der b) \<longleftrightarrow> (\<exists>tot \<le> length b. der_total_len b = Some tot)"
proof (cases "der_total_len b")
  case None
  then show ?thesis by (simp add: trim_unless_der_def trim_der_trailing_def looks_like_der_crl_def)
next
  case (Some tot)
  then have "0 < tot" by (auto simp: der_total_len_def Let_def split: if_splits)
  then show ?thesis
    using Some der_total_len_take [OF Some]
    by (auto simp: trim_unless_der_def trim_der_trailing_def looks_like_der_crl_def min_def)
qed

lemma trim_unless_der_idem [simp]: "trim_unless_der (trim_unless_der b) = trim_unless_der b"
proof (cases "\<exists>tot \<le> length b. der_total_len b = Some tot")
  case True
  then have "looks_like_der_crl (trim_unless_der b)" by (simp add: trim_unless_der_looks)
  then show ?thesis by (simp add: trim_unless_der_def)
next
  case False
  then have "trim_unless_der b = b"
    by (auto simp: trim_unless_der_def trim_der_trailing_def split: option.splits)
  then show ?thesis by simp
qed

section \<open>The cache\<close>

definition obj_str :: "json \<Rightarrow> string \<Rightarrow> string option" where
  "obj_str v k = Option.bind (json_get v k) as_str"

definition obj_bytes :: "verifier_env \<Rightarrow> wasi_lib \<Rightarrow> json \<Rightarrow> string \<Rightarrow> bytes option" where
  "obj_bytes V W v k = Option.bind (json_get v k) (decode_bytes_value V W)"

definition wasi_read_cache ::
    "crates \<Rightarrow> verifier_env \<Rightarrow> wasi_lib \<Rightarrow> io_env \<Rightarrow> fs \<Rightarrow> path \<Rightarrow> QuoteCollateralV3 option" where
  "wasi_read_cache E V W io f cache_path =
     (case read_file io f cache_path of
        Ok data \<Rightarrow>
          Option.bind (Option.bind (from_utf8 data) (json_from_str E)) (\<lambda>v.
          Option.bind (obj_str v ''pck_crl_issuer_chain'') (\<lambda>chain.
          Option.bind (obj_bytes V W v ''root_ca_crl'') (\<lambda>root.
          Option.bind (obj_bytes V W v ''pck_crl'') (\<lambda>pck.
          Option.bind (obj_str v ''tcb_info_issuer_chain'') (\<lambda>tcb_chain.
          Option.bind (obj_str v ''tcb_info'') (\<lambda>tcb.
          Option.bind (obj_bytes V W v ''tcb_info_signature'') (\<lambda>tcb_sig.
          Option.bind (obj_str v ''qe_identity_issuer_chain'') (\<lambda>qe_chain.
          Option.bind (obj_str v ''qe_identity'') (\<lambda>qe.
          Option.bind (obj_bytes V W v ''qe_identity_signature'') (\<lambda>qe_sig.
          let cert_chain = obj_str v ''pck_certificate_chain'';
              root = trim_unless_der (normalize_crl_bytes V W root);
              pck = trim_unless_der (normalize_crl_bytes V W pck)
          in
          if \<not> looks_like_der_crl root \<or> \<not> looks_like_der_crl pck then None
          else Some
            \<lparr>pck_crl_issuer_chain = chain, root_ca_crl = root, pck_crl = pck,
             tcb_info_issuer_chain = tcb_chain, tcb_info = tcb, tcb_info_signature = tcb_sig,
             qe_identity_issuer_chain = qe_chain, qe_identity = qe, qe_identity_signature = qe_sig,
             pck_certificate_chain = cert_chain\<rparr>))))))))))
      | _ \<Rightarrow> None)"

lemma wasi_read_cache_der:
  assumes "wasi_read_cache E V W io f p = Some c"
  shows "looks_like_der_crl (root_ca_crl c) \<and> looks_like_der_crl (pck_crl c)"
  using assms
  by (auto simp: wasi_read_cache_def Let_def split: outcome.splits Option.bind_splits if_splits)

section \<open>Fetching\<close>

definition get_header :: "wasi_lib \<Rightarrow> (string \<times> string) list \<Rightarrow> string \<Rightarrow> (anyhow, string) outcome" where
  "get_header W headers name =
     and_then (ok_or [''Missing '' @ name]
                 (map_option snd
                   (List.find (\<lambda>(k, _). to_ascii_lowercase k = to_ascii_lowercase name) headers))) (\<lambda>v.
       lib_error (url_decode W v))"

text \<open>\<^verbatim>\<open>(200..300).contains(&status)\<close>, and the error of another status.\<close>

definition check_status :: "nat \<Rightarrow> string \<Rightarrow> (anyhow, unit) outcome" where
  "check_status status msg =
     (if 200 \<le> status \<and> status < 300 then Ok () else bail (msg @ fmt_dec status))"

fun first_name :: "general_name list \<Rightarrow> string option" where
  "first_name [] = None"
| "first_name (Uri u # _) = Some u"
| "first_name (OtherGeneralName # ns) = first_name ns"

fun first_uri :: "dist_point_name option list \<Rightarrow> string option" where
  "first_uri [] = None"
| "first_uri (Some (FullName ns) # ps) = first_some (first_name ns) (first_uri ps)"
| "first_uri (_ # ps) = first_uri ps"

fun crl_url_of_extensions :: "wasi_lib \<Rightarrow> (string \<times> bytes) list \<Rightarrow> (anyhow, string option) outcome" where
  "crl_url_of_extensions W [] = Ok None"
| "crl_url_of_extensions W ((oid, v) # exts) =
     (if oid \<noteq> ''2.5.29.31'' then crl_url_of_extensions W exts
      else
        and_then (with_context ''parse CRL DP'' (lib_error (crl_dist_points W v))) (\<lambda>ps.
          (case first_uri ps of
             Some u \<Rightarrow> Ok (Some u)
           | None \<Rightarrow> crl_url_of_extensions W exts)))"

definition crl_url_of_cert :: "wasi_lib \<Rightarrow> bytes \<Rightarrow> (anyhow, string option) outcome" where
  "crl_url_of_cert W cert_der =
     and_then (with_context ''parse certificate'' (lib_error (cert_extensions W cert_der))) (\<lambda>exts.
       (case exts of None \<Rightarrow> Ok None | Some exts \<Rightarrow> crl_url_of_extensions W exts))"

definition root_crl_from_chain :: "wasi_lib \<Rightarrow> string \<Rightarrow> (anyhow, bytes) outcome" where
  "root_crl_from_chain W chain =
     and_then (with_context ''parse issuer chain PEM'' (lib_error (pem_parse_many W chain))) (\<lambda>blocks.
     and_then (ok_or [''no certs in issuer chain''] (if blocks = [] then None else Some (last blocks)))
       (\<lambda>root.
     and_then (crl_url_of_cert W (snd root)) (\<lambda>url.
     and_then (ok_or [''Could not find CRL distribution point in root certificate''] url) (\<lambda>url.
     and_then (http_get_bytes W url) (\<lambda>(status, body, _).
     and_then (check_status status (''Failed to fetch '' @ url @ '': HTTP '')) (\<lambda>_. Ok body))))))"

text \<open>The PCK CRL: in PEM when the DER form does not look right.\<close>

definition fetch_pck_crl :: "verifier_env \<Rightarrow> wasi_lib \<Rightarrow> PcsEndpoints \<Rightarrow> (anyhow, bytes \<times> string) outcome" where
  "fetch_pck_crl V W p =
     and_then (http_get_bytes W (url_pckcrl p)) (\<lambda>(status, crl, headers).
     and_then (check_status status ''Failed to fetch PCK CRL: HTTP '') (\<lambda>_.
     and_then (get_header W headers ''SGX-PCK-CRL-Issuer-Chain'') (\<lambda>chain.
       let crl = normalize_crl_bytes V W crl;
           crl =
             (if looks_like_der_crl crl then crl
              else
                (case http_get_bytes W (url_pckcrl_pem p) of
                   Ok (status, pem_crl, _) \<Rightarrow>
                     if 200 \<le> status \<and> status < 300 \<and> looks_like_der_crl (normalize_crl_bytes V W pem_crl)
                     then normalize_crl_bytes V W pem_crl else crl
                 | _ \<Rightarrow> crl))
       in Ok (trim_unless_der crl, chain))))"

definition fetch_root_crl ::
    "verifier_env \<Rightarrow> wasi_lib \<Rightarrow> PcsEndpoints \<Rightarrow> string \<Rightarrow> (anyhow, bytes) outcome" where
  "fetch_root_crl V W p chain =
     (let from_pccs =
        (if take (length DEFAULT_PCS_URL) (pcs_base_url p) = DEFAULT_PCS_URL then None
         else
           (case http_get_bytes W (url_rootcacrl p) of
              Ok (status, b, _) \<Rightarrow>
                if 200 \<le> status \<and> status < 300
                then Some (case decode_crl_bytes V W b of Some d \<Rightarrow> d | None \<Rightarrow> b) else None
            | _ \<Rightarrow> None))
      in
      and_then (case from_pccs of Some v \<Rightarrow> Ok v | None \<Rightarrow> root_crl_from_chain W chain) (\<lambda>root.
        Ok (trim_unless_der (normalize_crl_bytes V W root))))"

text \<open>A name in single quotes, as in the messages.\<close>

definition quoted :: "string \<Rightarrow> string" where
  "quoted s = CHR 0x27 # s @ [CHR 0x27]"

definition signature_of :: "wasi_lib \<Rightarrow> json \<Rightarrow> string \<Rightarrow> (anyhow, bytes) outcome" where
  "signature_of W v what =
     and_then (ok_or [what @ '' missing '' @ quoted ''signature''] (obj_str v ''signature'')) (\<lambda>s.
       ok_or [what @ '' signature must be hex''] (hex_decode W s))"

definition fetch_collateral_uncached ::
    "crates \<Rightarrow> verifier_env \<Rightarrow> wasi_lib \<Rightarrow> PcsEndpoints \<Rightarrow> (anyhow, QuoteCollateralV3) outcome" where
  "fetch_collateral_uncached E V W p =
     and_then (fetch_pck_crl V W p) (\<lambda>(pck, chain).
     and_then (http_get_bytes W (url_tcb p)) (\<lambda>(status, raw_tcb_info, headers).
     and_then (check_status status ''Failed to fetch TCB info: HTTP '') (\<lambda>_.
     and_then (case get_header W headers ''SGX-TCB-Info-Issuer-Chain'' of
                 Ok c \<Rightarrow> Ok c
               | Err _ \<Rightarrow> get_header W headers ''TCB-Info-Issuer-Chain''
               | Panic \<Rightarrow> Panic) (\<lambda>tcb_chain.
     and_then (ok_or [''TCB info must be UTF-8''] (from_utf8 raw_tcb_info)) (\<lambda>raw_tcb_info.
     and_then (http_get_bytes W (url_qe_identity p)) (\<lambda>(status, raw_qe, headers).
     and_then (check_status status ''Failed to fetch QE identity: HTTP '') (\<lambda>_.
     and_then (get_header W headers ''SGX-Enclave-Identity-Issuer-Chain'') (\<lambda>qe_chain.
     and_then (ok_or [''QE identity must be UTF-8''] (from_utf8 raw_qe)) (\<lambda>raw_qe.
     and_then (fetch_root_crl V W p chain) (\<lambda>root.
     and_then (ok_or [''TCB info should be valid JSON''] (json_from_str E raw_tcb_info)) (\<lambda>tcb_json.
     let tcb = json_print W (case json_get tcb_json ''tcbInfo'' of Some v \<Rightarrow> v | None \<Rightarrow> JNull) in
     and_then (signature_of W tcb_json ''TCB info'') (\<lambda>tcb_sig.
     and_then (ok_or [''QE identity should be valid JSON''] (json_from_str E raw_qe)) (\<lambda>qe_json.
     and_then (ok_or [''QE identity missing '' @ quoted ''enclaveIdentity'']
                 (json_get qe_json ''enclaveIdentity'')) (\<lambda>qe.
     and_then (signature_of W qe_json ''QE identity'') (\<lambda>qe_sig.
       Ok \<lparr>pck_crl_issuer_chain = chain, root_ca_crl = root, pck_crl = pck,
           tcb_info_issuer_chain = tcb_chain, tcb_info = tcb, tcb_info_signature = tcb_sig,
           qe_identity_issuer_chain = qe_chain, qe_identity = json_print W qe,
           qe_identity_signature = qe_sig, pck_certificate_chain = None\<rparr>)))))))))))))))"

text \<open>The remaining functions repeat those of \<open>Intel_Dcap\<close>; the quote parser is that of \<^verbatim>\<open>dcap-qvl\<close>.\<close>

definition wasi_get_collateral_cached ::
    "crates \<Rightarrow> verifier_env \<Rightarrow> QuoteCollateralV3 qvl_lib \<Rightarrow> wasi_lib \<Rightarrow> io_env \<Rightarrow> fs \<Rightarrow> nat \<Rightarrow>
     string option \<Rightarrow> bytes \<Rightarrow> path \<Rightarrow> (anyhow, QuoteCollateralV3) outcome \<times> fs" where
  "wasi_get_collateral_cached E V Q W io f now pccs_url quote cache_dir =
     (let pccs_url = (case pccs_url of Some u \<Rightarrow> u | None \<Rightarrow> DEFAULT_PCS_URL) in
      case and_then (with_context ''parse quote'' (lib_error (qvl_parse Q quote))) (\<lambda>q.
           and_then (with_context ''get CA'' (lib_error (qvl_ca q))) (\<lambda>ca.
           and_then (with_context ''get FMSPC'' (lib_error (qvl_fmspc q))) (\<lambda>fmspc.
             Ok (PcsEndpoints_new pccs_url (qvl_is_sgx q) (hex_encode_upper Q fmspc) ca)))) of
        Err e \<Rightarrow> (Err e, f)
      | Panic \<Rightarrow> (Panic, f)
      | Ok p \<Rightarrow>
          if cache_disabled V then (fetch_collateral_uncached E V W p, f)
          else
            (case cache_key E (pcs_base_url p) (pcs_tee p) (pcs_fmspc p) (pcs_ca p) of
               Err e \<Rightarrow> (Err e, f)
             | Panic \<Rightarrow> (Panic, f)
             | Ok key \<Rightarrow>
                 let cache_path = cache_dir @ [key];
                     fetch =
                       (case fetch_collateral_uncached E V W p of
                          Ok c \<Rightarrow> (let (r, f') = write_cache Q io f cache_path c in (map_ok (\<lambda>_. c) r, f'))
                        | Err e \<Rightarrow> (Err e, f)
                        | Panic \<Rightarrow> (Panic, f))
                 in
                 (case wasi_read_cache E V W io f cache_path of
                    Some cached \<Rightarrow>
                      if cached_collateral_is_fresh E Q cached now then (Ok cached, f) else fetch
                  | None \<Rightarrow> fetch)))"


section \<open>The TDX component\<close>

record tdx_component =
  tc_crates :: crates
  tc_chk :: bool
  tc_vars :: verifier_env
  tc_qvl :: "QuoteCollateralV3 qvl_lib"
  tc_wasi :: wasi_lib
  tc_io :: io_env
  tc_fs :: fs
  tc_now :: nat
  tc_from_str :: "string \<Rightarrow> (string, TdxEvidence) outcome"
  tc_log_to_value :: "EventlogEntry list \<Rightarrow> (string, json) outcome"
  tc_to_string :: "json \<Rightarrow> (string, string) outcome"

text \<open>Unlike the native verifier, the component refuses a value that is too long.\<close>

definition component_regularize_data :: "bytes \<Rightarrow> nat \<Rightarrow> string \<Rightarrow> (anyhow, bytes) outcome" where
  "component_regularize_data expected expected_len field =
     (if expected_len < length expected
      then bail (field @ '' length ('' @ fmt_dec (length expected) @ '') exceeds expected length ('' @
                 fmt_dec expected_len @ '')'')
      else if length expected = expected_len then Ok expected
      else Ok (expected @ replicate (expected_len - length expected) 0))"

definition component_quote_verification :: "tdx_component \<Rightarrow> bytes \<Rightarrow> (anyhow, json_map) outcome \<times> fs" where
  "component_quote_verification C quote =
     (let V = tc_vars C; Q = tc_qvl C; E = tc_crates C; now = tc_now C;
          cache_dir =
            path_of (case env_var V ''DCAP_QVL_CACHE_DIR'' of None \<Rightarrow> ''dcap-qvl-cache'' | Some d \<Rightarrow> d);
          (r, f') = wasi_get_collateral_cached E V Q (tc_wasi C) (tc_io C) (tc_fs C) now
                      (env_var V ''PCCS_URL'') quote cache_dir
      in
      (and_then (with_context ''get collateral'' r) (\<lambda>collateral.
       and_then (with_context ''dcap-qvl quote verification failed''
                   (lib_error (qvl_verify Q quote collateral now))) (\<lambda>verified.
         let claims = custom_claims_from_verified_report E verified in
         Ok (if collateral_expired E Q collateral now
             then json_insert ''collateral_expired'' (JBool True) claims else claims))), f'))"

definition component_parse_evidence ::
    "tdx_component \<Rightarrow> bytes \<Rightarrow> (anyhow, bytes \<times> bytes option) outcome" where
  "component_parse_evidence C evidence =
     (case from_utf8 evidence of
        Some s \<Rightarrow>
          if starts_with_brace s then
            and_then (with_context ''parse evidence JSON'' (lib_error (tc_from_str C s))) (\<lambda>ev.
            if tdx_quote ev = [] then bail ''TDX Quote is empty''
            else
              and_then (with_context ''decode base64 quote''
                          (lib_error (b64_decode_std (tc_vars C) (tdx_quote ev)))) (\<lambda>quote_bin.
              and_then (case cc_eventlog ev of
                          Some el \<Rightarrow>
                            if el \<noteq> []
                            then map_ok Some (with_context ''decode base64 CCEL''
                                   (lib_error (b64_decode_std (tc_vars C) el)))
                            else Ok None
                        | None \<Rightarrow> Ok None) (\<lambda>ccel. Ok (quote_bin, ccel))))
          else Ok (evidence, None)
      | None \<Rightarrow> Ok (evidence, None))"

definition component_check ::
    "bytes option \<Rightarrow> nat \<Rightarrow> string \<Rightarrow> bytes \<Rightarrow> string \<Rightarrow> (anyhow, unit) outcome" where
  "component_check expected n field actual msg =
     (case expected of
        Some v \<Rightarrow>
          and_then (component_regularize_data v n field) (\<lambda>v. if v \<noteq> actual then bail msg else Ok ())
      | None \<Rightarrow> Ok ())"

definition component_check_eventlog ::
    "tdx_component \<Rightarrow> Quote \<Rightarrow> bytes option \<Rightarrow> (anyhow, CcEventLog option) outcome" where
  "component_check_eventlog C q ccel_bin =
     (case ccel_bin of
        Some bin \<Rightarrow>
          if bin \<noteq> [] then
            and_then (map_err (\<lambda>e. [''Parse CCEL failed: '' @ e])
                        (CcEventLog_try_from (tc_crates C) (tc_chk C) bin)) (\<lambda>ccel.
            and_then (map_err replay_error_anyhow
                        (replay_and_match (tc_crates C) ccel (rtmr_measurements q))) (\<lambda>_.
              Ok (Some ccel)))
          else Ok None
      | None \<Rightarrow> Ok None)"

definition component_tdx_claims ::
    "tdx_component \<Rightarrow> bytes \<Rightarrow> bytes option \<Rightarrow> bytes option \<Rightarrow> bytes option \<Rightarrow> (anyhow, json) outcome" where
  "component_tdx_claims C quote_bin ccel_bin expected_report_data expected_init_data_hash =
     (if quote_bin = [] then bail ''TDX Quote is empty''
      else
        and_then (fst (component_quote_verification C quote_bin)) (\<lambda>custom_claims.
        and_then (with_context ''parse TDX quote'' (parse_tdx_quote (tc_crates C) quote_bin)) (\<lambda>q.
        and_then (component_check expected_report_data 64 ''REPORT_DATA'' (quote_report_data q)
                    ''REPORT_DATA is different from that in TDX Quote'') (\<lambda>_.
        and_then (component_check expected_init_data_hash 48 ''MRCONFIGID'' (quote_mr_config_id q)
                    ''MRCONFIGID is different from that in TDX Quote'') (\<lambda>_.
        and_then (component_check_eventlog C q ccel_bin) (\<lambda>ccel.
        and_then (with_context ''generate parsed claim''
                    (generate_parsed_claim (tc_crates C) (tc_log_to_value C) q ccel)) (\<lambda>claim.
          (case claim of
             JObject m \<Rightarrow> Ok (JObject (json_extend m custom_claims))
           | _ \<Rightarrow> bail ''claim is not a JSON object''))))))))"

definition tdx_evaluate_impl ::
    "tdx_component \<Rightarrow> bytes \<Rightarrow> bytes option \<Rightarrow> bytes option \<Rightarrow> (anyhow, string) outcome" where
  "tdx_evaluate_impl C evidence expected_report_data expected_init_data_hash =
     and_then (component_parse_evidence C evidence) (\<lambda>(quote_bin, ccel_bin).
     and_then (component_tdx_claims C quote_bin ccel_bin expected_report_data expected_init_data_hash)
       (\<lambda>claim_map. lib_error (tc_to_string C claim_map)))"

section \<open>Agreement with the native TDX verifier\<close>

lemma component_regularize_small:
  "length v \<le> n \<Longrightarrow> component_regularize_data v n field = Ok (regularize_data v n)"
  by (auto simp: component_regularize_data_def regularize_data_def)

lemma component_regularize_long:
  "n < length v \<Longrightarrow> \<exists>e. component_regularize_data v n field = Err e"
  by (simp add: component_regularize_data_def bail_def)

lemma component_check_small:
  assumes "\<forall>v. rd = Some v \<longrightarrow> length v \<le> 64" and "\<forall>v. ih = Some v \<longrightarrow> length v \<le> 48"
  shows "component_check rd 64 ''REPORT_DATA'' (quote_report_data q)
      ''REPORT_DATA is different from that in TDX Quote'' = check_report_data q (report_of_option rd)"
    "component_check ih 48 ''MRCONFIGID'' (quote_mr_config_id q)
      ''MRCONFIGID is different from that in TDX Quote'' = check_init_data q (init_of_option ih)"
  using assms
  by (cases rd; cases ih; simp add: component_check_def check_report_data_def check_init_data_def
      component_regularize_small report_of_option_def init_of_option_def)+

text \<open>The parts of the environments the two verifiers share.\<close>

definition same_platform :: "tdx_component \<Rightarrow> ('c, 'k, 'd) tdx_env \<Rightarrow> bool" where
  "same_platform C T \<longleftrightarrow>
     tc_crates C = tdx_crates T \<and> tc_chk C = tdx_chk T \<and> tc_vars C = tdx_vars T \<and>
     tc_log_to_value C = tdx_log_to_value T"

lemma eventlog_agrees:
  assumes "same_platform C T"
    and "\<forall>el. cc_eventlog e = Some el \<and> el \<noteq> [] \<longrightarrow>
      (\<exists>b. b \<noteq> [] \<and> b64_decode_std (tdx_vars T) el = Ok b \<and> ccel = Some b)"
    and "cc_eventlog e = None \<or> cc_eventlog e = Some [] \<longrightarrow> ccel = None"
  shows "agree (component_check_eventlog C q ccel) (check_eventlog T q (cc_eventlog e))"
proof (cases "cc_eventlog e = None \<or> cc_eventlog e = Some []")
  case True
  then show ?thesis
    using assms(3) by (auto simp: component_check_eventlog_def check_eventlog_def)
next
  case False
  then obtain el b where "cc_eventlog e = Some el" "el \<noteq> []" "b \<noteq> []"
    "b64_decode_std (tdx_vars T) el = Ok b" "ccel = Some b"
    using assms(2) by (cases "cc_eventlog e") auto
  then show ?thesis
    using assms(1)
    by (cases "CcEventLog_try_from (tdx_crates T) (tdx_chk T) b")
      (simp_all add: component_check_eventlog_def check_eventlog_def same_platform_def)
qed

lemma component_tdx_agrees:
  assumes same: "same_platform C T"
    and quote: "tdx_quote e \<noteq> []" "b64_decode_std (tdx_vars T) (tdx_quote e) = Ok bin" "bin \<noteq> []"
    and sig: "fst (component_quote_verification C bin) = verify_quote_signature T bin"
    and el: "\<forall>el. cc_eventlog e = Some el \<and> el \<noteq> [] \<longrightarrow>
      (\<exists>b. b \<noteq> [] \<and> b64_decode_std (tdx_vars T) el = Ok b \<and> ccel = Some b)"
      "cc_eventlog e = None \<or> cc_eventlog e = Some [] \<longrightarrow> ccel = None"
    and small: "\<forall>v. rd = Some v \<longrightarrow> length v \<le> 64" "\<forall>v. ih = Some v \<longrightarrow> length v \<le> 48"
  shows "agree (component_tdx_claims C bin ccel rd ih)
    (tdx_verify_evidence T (report_of_option rd) (init_of_option ih) e)"
proof -
  have ctx: "agree (with_context m r) r" for m r by (cases r) auto
  have ext: "agree (case claim of JObject m \<Rightarrow> Ok (JObject (json_extend m custom))
      | _ \<Rightarrow> bail ''claim is not a JSON object'') (extend_using_custom_claims claim custom)" for claim custom
    by (cases claim) (simp_all add: extend_using_custom_claims_def bail_def)
  have same': "tc_crates C = tdx_crates T" "tc_log_to_value C = tdx_log_to_value T"
    using same by (simp_all add: same_platform_def)
  show ?thesis
    unfolding component_tdx_claims_def tdx_verify_evidence_def component_check_small [OF small] same'
    using quote sig
    by (auto intro!: agree_and_then ctx ext eventlog_agrees [OF same el])
qed

end
