(* ===== verification/Verifier_Properties.thy ===== *)
theory Verifier_Properties
  imports Wasm_Tdx
begin

text \<open>
  Properties of the verifiers: what a TDX or SNP verdict establishes, the TDX quote format, the retry loop,
  and the agreement of the WebAssembly components with the native verifiers. Each property is followed by a
  witness on a concrete platform.
\<close>

section \<open>TDX\<close>

text \<open>The event log given with the evidence parses, and its replay gives the four registers of the quote.\<close>

definition log_matches :: "('c, 'k, 'd) tdx_env \<Rightarrow> Quote \<Rightarrow> string \<Rightarrow> bool" where
  "log_matches T q el \<longleftrightarrow>
     (\<exists>data l. b64_decode_std (tdx_vars T) el = Ok data \<and>
        CcEventLog_try_from (tdx_crates T) (tdx_chk T) data = Ok l \<and>
        list_all (\<lambda>(i, r). register_value (tdx_crates T) (log l) i Sha384 = Some r)
          [(1, quote_rtmr_0 q), (2, quote_rtmr_1 q), (3, quote_rtmr_2 q), (4, quote_rtmr_3 q)])"

lemma check_eventlog_matches:
  assumes "check_eventlog T q (Some el) = Ok r" and "el \<noteq> []"
  shows "log_matches T q el"
  using assms
  by (auto simp: check_eventlog_def outcome_iff replay_and_match_values rtmr_measurements_def log_matches_def)

text \<open>
  C5. When the TDX verifier accepts evidence, the evidence holds a quote that a quote verification library
  accepted, which is an encoding of a well-formed quote (with its signature section behind it); the report
  data and MRCONFIGID of that quote are the expected values, padded or cut to 64 and 48 bytes; an event log,
  when there is one, replays to the four runtime measurement registers of the quote; and the claims of the
  verdict are those of this quote, which the claims of the verification library cannot replace.
\<close>

theorem tdx_acceptance:
  assumes "v_evaluate (TdxVerifier T) ev (ReportValue rd) (InitValue ih) = Ok cs"
    and "scroll_le (tdx_crates T)"
  shows "\<exists>e bin custom q rest claims. tdx_from_value T ev = Ok e \<and>
    b64_decode_std (tdx_vars T) (tdx_quote e) = Ok bin \<and> verify_quote_signature T bin = Ok custom \<and>
    quote_ok q \<and> bin = encode_quote q @ rest \<and>
    quote_report_data q = regularize_data rd 64 \<and> quote_mr_config_id q = regularize_data ih 48 \<and>
    (\<forall>el. cc_eventlog e = Some el \<and> el \<noteq> [] \<longrightarrow> log_matches T q el) \<and>
    cs = [(claims, ''cpu'')] \<and>
    json_get claims ''quote'' = Some (JObject (quote_map (tdx_crates T) q)) \<and>
    json_get claims ''report_data'' = Some (JString (hex_encode (tdx_crates T) (regularize_data rd 64))) \<and>
    json_get claims ''init_data'' = Some (JString (hex_encode (tdx_crates T) (regularize_data ih 48)))"
proof -
  from assms(1) have "Tdx_evaluate T ev (ReportValue rd) (InitValue ih) = Ok cs" by (simp add: TdxVerifier_def)
  then obtain e claims where e: "tdx_from_value T ev = Ok e"
    and v: "tdx_verify_evidence T (ReportValue rd) (InitValue ih) e = Ok claims" and cs: "cs = [(claims, ''cpu'')]"
    by (rule Tdx_evaluate_Ok)
  from v obtain bin custom q ccel claim where bin: "b64_decode_std (tdx_vars T) (tdx_quote e) = Ok bin"
    and sig: "verify_quote_signature T bin = Ok custom" and q: "parse_tdx_quote (tdx_crates T) bin = Ok q"
    and data: "check_report_data q (ReportValue rd) = Ok ()" "check_init_data q (InitValue ih) = Ok ()"
    and el: "check_eventlog T q (cc_eventlog e) = Ok ccel"
    and gen: "generate_parsed_claim (tdx_crates T) (tdx_log_to_value T) q ccel = Ok claim"
    and ext: "extend_using_custom_claims claim custom = Ok claims"
    by (rule tdx_verify_Ok)
  have rd: "quote_report_data q = regularize_data rd 64" and ih: "quote_mr_config_id q = regularize_data ih 48"
    using data by (simp_all add: check_data_Ok)
  obtain rest where "quote_ok q" "bin = encode_quote q @ rest"
    using q parse_quote_iff [OF assms(2)] by blast
  moreover have "\<forall>el. cc_eventlog e = Some el \<and> el \<noteq> [] \<longrightarrow> log_matches T q el"
    using el check_eventlog_matches by metis
  moreover note tdx_claims [OF gen ext verify_quote_signature_keys [OF sig]]
  ultimately show ?thesis using e bin sig cs rd ih by auto
qed

text \<open>A concrete platform: Intel's library accepts every quote, and one quote is the evidence.\<close>

definition sample_td_body :: ReportBody2 where
  "sample_td_body =
     \<lparr>tcb_svn = replicate 16 0, mr_seam = replicate 48 0, mrsigner_seam = replicate 48 0,
      seam_attributes = replicate 8 0, td_attributes = replicate 8 0, xfam = replicate 8 0,
      mr_td = replicate 48 0, mr_config_id = regularize_data [7] 48, mr_owner = replicate 48 0,
      mr_owner_config = replicate 48 0, rtmr_0 = replicate 48 0, rtmr_1 = replicate 48 0,
      rtmr_2 = replicate 48 0, rtmr_3 = replicate 48 0, report_data = regularize_data [1, 2, 3] 64\<rparr>"

definition sample_td_quote :: Quote where
  "sample_td_quote =
     V4 \<lparr>hdr_version = [4, 0], att_key_type = [2, 0], tee_type = [0x81, 0, 0, 0], hdr_reserved = replicate 4 0,
         vendor_id = replicate 16 0, user_data = replicate 20 0\<rparr> sample_td_body"

definition sample_dcap :: "unit dcap_lib" where
  "sample_dcap =
     (let supp = \<lparr>earliest_issue_date = 0, latest_issue_date = 0, earliest_expiration_date = 0,
                  tcb_level_date_tag = 0, pck_crl_num = 1, root_ca_crl_num = 2, pck_ppid = [], sgx_type = 0,
                  dynamic_platform = 0, cached_keys = 0, smt_enabled = 0, root_key_id = [], sa_list = [0]\<rparr>
      in \<lparr>dcap_supp_version_and_size = (\<lambda>_. Ok (1, 1)), dcap_get_collateral = (\<lambda>_. None),
          dcap_verify = (\<lambda>_ _ _ _. Ok (0, QV_OK, supp)), dcap_supp_default = supp, dcap_supp_size = 1,
          rfc3339_of_timestamp = (\<lambda>_. Some ''1970-01-01'')\<rparr>)"

definition sample_vars :: verifier_env where
  "sample_vars =
     \<lparr>env_var = (\<lambda>_. None),
      b64_decode_std = (\<lambda>s. if s = ''log'' then Ok sample_data else Ok (encode_quote sample_td_quote))\<rparr>"

definition sample_qvl :: "unit qvl_lib" where
  "sample_qvl =
     \<lparr>qvl_parse = (\<lambda>_. Err []), qvl_fetch = (\<lambda>_ _ _. Err []), qvl_verify = (\<lambda>_ _ _. Err []),
      qvl_from_slice = (\<lambda>_. None), qvl_to_vec = (\<lambda>_. Err []), qvl_tcb_info = (\<lambda>_. []),
      qvl_qe_identity = (\<lambda>_. []), rfc3339_parse = (\<lambda>_. None), hex_encode_upper = hex_of\<rparr>"

definition sample_tdx :: "(unit, unit, unit) tdx_env" where
  "sample_tdx =
     \<lparr>tdx_crates = reference_crates, tdx_chk = True, tdx_vars = sample_vars, tdx_dcap = sample_dcap,
      tdx_qvl = sample_qvl, tdx_retry = \<lparr>max_retries = 0, initial_delay = (), scale = Some\<rparr>, tdx_io = no_faults,
      tdx_fs = [], tdx_now = 0, tdx_from_value = (\<lambda>_. Ok \<lparr>cc_eventlog = Some ''log'', tdx_quote = ''quote''\<rparr>),
      tdx_log_to_value = (\<lambda>_. Ok JNull)\<rparr>"

lemma sample_td_quote_ok: "quote_ok sample_td_quote"
  by (simp add: sample_td_quote_def sample_td_body_def tdx_header_ok_def header_fields_def header_sizes_def
      body_fields_def body_sizes_def)

lemma sample_td_fields:
  "quote_report_data sample_td_quote = regularize_data [1, 2, 3] 64"
  "quote_mr_config_id sample_td_quote = regularize_data [7] 48"
  "quote_td_attributes sample_td_quote = replicate 8 0"
  "quote_rtmr_0 sample_td_quote = replicate 48 0" "quote_rtmr_1 sample_td_quote = replicate 48 0"
  "quote_rtmr_2 sample_td_quote = replicate 48 0" "quote_rtmr_3 sample_td_quote = replicate 48 0"
  by (simp_all add: sample_td_quote_def sample_td_body_def body_field_def)

lemma sample_signature: "\<exists>m. verify_quote_signature sample_tdx bin = Ok m"
  by (simp add: verify_quote_signature_def sample_tdx_def sample_vars_def sample_dcap_def env_flag_def
      ecdsa_quote_verification_inner_def prepare_custom_claims_map_def format_rfc3339_def get_sa_list_def
      from_utf8_lossy_def Let_def)

lemma sample_registers: "register_value reference_crates [sample_entry] i Sha384 = Some (replicate 48 0)"
  by (simp add: register_value_def register_digests_def sample_entry_def hash_alg_def get_digest_size_def
      extend_chain_def)

lemma sample_check_eventlog: "\<exists>l. check_eventlog sample_tdx sample_td_quote (Some ''log'') = Ok l"
proof -
  have "replay_and_match reference_crates \<lparr>log = [sample_entry]\<rparr> (rtmr_measurements sample_td_quote) = Ok ()"
    by (simp add: replay_and_match_values rtmr_measurements_def sample_registers sample_td_fields)
  then show ?thesis
    by (simp add: check_eventlog_def sample_tdx_def sample_vars_def sample_parses)
qed


lemma sample_accepted:
  assumes "iho = InitNotProvided \<or> iho = InitValue [7]"
  shows "\<exists>m r i. v_evaluate (TdxVerifier sample_tdx) ev (ReportValue [1, 2, 3]) iho = Ok [(JObject m, ''cpu'')] \<and>
    map_of m ''report_data'' = Some (JString r) \<and> map_of m ''init_data'' = Some (JString i)"
proof -
  have q: "parse_tdx_quote reference_crates (encode_quote sample_td_quote) = Ok sample_td_quote"
    using parse_quote_iff [of reference_crates] sample_td_quote_ok by auto
  obtain custom where sig: "verify_quote_signature sample_tdx (encode_quote sample_td_quote) = Ok custom"
    using sample_signature by blast
  obtain l where l: "check_eventlog sample_tdx sample_td_quote (Some ''log'') = Ok l"
    using sample_check_eventlog by blast
  have attrs: "\<exists>attrs. parse_td_attributes (quote_td_attributes sample_td_quote) = Ok attrs"
    by (simp add: sample_td_fields parse_td_attributes_Ok)
  have env: "tdx_from_value sample_tdx v = Ok \<lparr>cc_eventlog = Some ''log'', tdx_quote = ''quote''\<rparr>"
    "b64_decode_std (tdx_vars sample_tdx) ''quote'' = Ok (encode_quote sample_td_quote)"
    "tdx_crates sample_tdx = reference_crates" "tdx_log_to_value sample_tdx = (\<lambda>_. Ok JNull)" for v
    by (simp_all add: sample_tdx_def sample_vars_def)
  obtain claim where claim: "generate_parsed_claim reference_crates (\<lambda>_. Ok JNull) sample_td_quote l = Ok claim"
    using attrs by (cases l) (auto simp: generate_parsed_claim_def)
  then obtain m where m: "claim = JObject m" by (rule generate_parsed_claim_Ok)
  have ext: "extend_using_custom_claims claim custom = Ok (JObject (json_extend m custom))"
    by (simp add: m extend_using_custom_claims_def)
  have "check_init_data sample_td_quote iho = Ok ()"
    using assms by (auto simp: check_init_data_def sample_td_fields)
  then have "tdx_verify_evidence sample_tdx (ReportValue [1, 2, 3]) iho
      \<lparr>cc_eventlog = Some ''log'', tdx_quote = ''quote''\<rparr> = Ok (JObject (json_extend m custom))"
    using ext by (simp add: tdx_verify_evidence_def env sig q l check_report_data_def sample_td_fields claim)
  then show ?thesis
    using tdx_claims [OF claim ext verify_quote_signature_keys [OF sig]]
    by (auto simp: TdxVerifier_def Tdx_evaluate_def env)
qed

theorem tdx_acceptance_witness:
  "\<exists>q rest. quote_ok q \<and> encode_quote sample_td_quote = encode_quote q @ rest \<and>
     quote_report_data q = regularize_data [1, 2, 3] 64 \<and> log_matches sample_tdx q ''log''"
proof -
  obtain cs where "v_evaluate (TdxVerifier sample_tdx) JNull (ReportValue [1, 2, 3]) (InitValue [7]) = Ok cs"
    using sample_accepted [of "InitValue [7]" JNull] by blast
  from tdx_acceptance [OF this] show ?thesis
    by (auto simp: sample_tdx_def sample_vars_def)
qed

text \<open>
  C21. \<^verbatim>\<open>parse_tdx_quote\<close> inverts the layout of the quote structures: it returns a quote exactly when that quote
  has a version, type tag and field sizes of the format and the input starts with its encoding; what follows,
  the signature section, is not looked at.
\<close>

theorem parse_quote_roundtrip:
  assumes "scroll_le E"
  shows "parse_tdx_quote E bin = Ok q \<longleftrightarrow>
    quote_ok q \<and> take (length (encode_quote q)) bin = encode_quote q"
  unfolding parse_quote_iff [OF assms] by (metis append_eq_conv_conj append_take_drop_id)

theorem parse_quote_roundtrip_witness:
  "parse_tdx_quote reference_crates (encode_quote sample_td_quote @ [1, 2, 3]) = Ok sample_td_quote"
  using parse_quote_roundtrip [of reference_crates] sample_td_quote_ok by simp






section \<open>SNP\<close>

text \<open>
  C6. When the SNP verifier accepts evidence, its report has a supported version, was made at VMPL 0 and is
  signed by an endorsement key which chains to the vendor's root key (or to a root that one signed) for the
  processor generation of the report; the four firmware levels of the report, and for a chip key the chip id,
  are those in the certificate of the key; report data and host data are the expected values, padded or cut to
  64 and 32 bytes; and the claims are those of this report.
\<close>

theorem snp_acceptance:
  assumes "v_evaluate (SnpVerifier E L) ev (ReportValue rd) (InitValue ih) = Ok cs"
  shows "\<exists>e p vek der key. snp_from_value L ev = Ok e \<and>
    report_version (attestation_report e) \<in> {3, 4, 5} \<and> vmpl (attestation_report e) = 0 \<and>
    get_processor_generation (attestation_report e) = Ok p \<and> snp_endorsed L p vek \<and>
    verify_report L vek (attestation_report e) = Ok () \<and>
    cert_to_der L vek = Ok der \<and> tbs_from_der L der = Ok key \<and>
    list_all (\<lambda>(oid, v). get_oid_int L key oid = Ok v)
      [(UCODE_SPL_OID, tcb_microcode (reported_tcb (attestation_report e))),
       (SNP_SPL_OID, tcb_snp (reported_tcb (attestation_report e))),
       (TEE_SPL_OID, tcb_tee (reported_tcb (attestation_report e))),
       (LOADER_SPL_OID, tcb_bootloader (reported_tcb (attestation_report e)))] \<and>
    (get_common_name L vek = Ok ''VCEK'' \<longrightarrow>
       get_oid_octets L 64 key HW_ID_OID = Ok (chip_id (attestation_report e))) \<and>
    snp_report_data (attestation_report e) = regularize_data rd 64 \<and>
    host_data (attestation_report e) = regularize_data ih 32 \<and>
    cs = [(parse_tee_evidence E (attestation_report e), ''cpu'')]"
proof -
  have version: "v = 3 \<or> v = 4 \<or> v = 5" if "3 \<le> v" "v \<le> 5" for v :: u32
  proof -
    from that have "unat v = 3 \<or> unat v = 4 \<or> unat v = 5" by (auto simp: word_le_nat_alt)
    then show ?thesis by (auto simp: word_unat_eq_iff)
  qed
  from assms have "Snp_evaluate E L ev (ReportValue rd) (InitValue ih) = Ok cs" by (simp add: SnpVerifier_def)
  then obtain e where e: "snp_from_value L ev = Ok e" and r: "snp_report_ok L (attestation_report e)"
    and b: "snp_bound (attestation_report e) (ReportValue rd) (InitValue ih)"
    and cs: "cs = [(parse_tee_evidence E (attestation_report e), ''cpu'')]"
    by (rule Snp_evaluate_Ok)
  from r obtain p vek where p: "get_processor_generation (attestation_report e) = Ok p" "snp_endorsed L p vek"
      "verify_report L vek (attestation_report e) = Ok ()"
    and cert: "snp_certified L (attestation_report e) vek" and vm: "vmpl (attestation_report e) = 0"
    and v: "3 \<le> report_version (attestation_report e)" "report_version (attestation_report e) \<le> 5"
    unfolding snp_report_ok_def by blast
  from cert obtain der key where "cert_to_der L vek = Ok der" "tbs_from_der L der = Ok key"
    "list_all (\<lambda>(oid, v). get_oid_int L key oid = Ok v)
      [(UCODE_SPL_OID, tcb_microcode (reported_tcb (attestation_report e))),
       (SNP_SPL_OID, tcb_snp (reported_tcb (attestation_report e))),
       (TEE_SPL_OID, tcb_tee (reported_tcb (attestation_report e))),
       (LOADER_SPL_OID, tcb_bootloader (reported_tcb (attestation_report e)))]"
    "get_common_name L vek = Ok ''VCEK'' \<longrightarrow> get_oid_octets L 64 key HW_ID_OID = Ok (chip_id (attestation_report e))"
    unfolding snp_certified_def by auto
  then show ?thesis
    using e p vm cs b version [OF v] by (auto simp: snp_bound_def)
qed

text \<open>A platform with certificates as numbers: the vendor's are 0, 1 and 2, the chip key is 3.\<close>

definition sample_report :: AttestationReport where
  "sample_report =
     \<lparr>report_version = 3, vmpl = 0,
      policy = \<lparr>abi_major = 0, abi_minor = 0, smt_allowed = True, migrate_ma_allowed = False,
                debug_allowed = False, single_socket_required = False\<rparr>,
      tsme_enabled = False, plat_smt_enabled = True, snp_report_data = regularize_data [1, 2, 3] 64,
      measurement = replicate 48 0, host_data = regularize_data [7] 32,
      reported_tcb = \<lparr>tcb_fmc = None, tcb_bootloader = 2, tcb_tee = 2, tcb_snp = 2, tcb_microcode = 2\<rparr>,
      cpuid_fam_id = Some 0x19, cpuid_mod_id = Some 1, chip_id = replicate 64 5, report_signature = []\<rparr>"

definition sample_snp_evidence :: SnpEvidence where
  "sample_snp_evidence =
     \<lparr>attestation_report = sample_report, cert_chain = Some [\<lparr>cert_type = VCEK, cert_data = [3]\<rparr>]\<rparr>"

definition sample_snp :: "(nat, nat) snp_lib" where
  "sample_snp =
     \<lparr>stack_from_pem = (\<lambda>_. Some [0, 1, 2]), vendor_pem = (\<lambda>_. []),
      cert_from_bytes = (\<lambda>b. case b of [x] \<Rightarrow> Ok (unat x) | _ \<Rightarrow> Err []),
      verify_signed_by = (\<lambda>_ _. Err []),
      verify_chain = (\<lambda>ark ask vek. if ark = 1 \<and> ask = 0 \<and> vek = 3 then Ok () else Err []),
      verify_report = (\<lambda>vek r. if vek = 3 then Ok () else Err []),
      cert_to_der = (\<lambda>c. Ok [word_of_nat c]),
      tbs_from_der = (\<lambda>b. Ok (length b)),
      get_extension_unique = (\<lambda>_ oid. Ok (Some (if oid = HW_ID_OID then replicate 64 5 else [2]))),
      octet_string_from_der = (\<lambda>_. Err []),
      integer_from_der = (\<lambda>_. Ok 2),
      common_name_entries = (\<lambda>_. [Ok ''VCEK'']),
      kds_send = (\<lambda>_. Err []),
      snp_from_value = (\<lambda>_. Ok sample_snp_evidence)\<rparr>"

lemma sample_snp_accepted:
  "v_evaluate (SnpVerifier reference_crates sample_snp) JNull (ReportValue [1, 2, 3]) (InitValue [7]) =
     Ok [(parse_tee_evidence reference_crates sample_report, ''cpu'')]"
  by (simp add: SnpVerifier_def Snp_evaluate_def sample_snp_def sample_snp_evidence_def sample_report_def
      REPORT_VERSION_MIN_def REPORT_VERSION_MAX_def get_processor_generation_def CERT_CHAINS_def
      vendor_certs_of_def vek_of_chain_def chain_step_def verify_report_tcb_def get_common_name_def
      get_oid_octets_def check_oid_int_def get_oid_int_def snp_check_data_def HW_ID_OID_def UCODE_SPL_OID_def
      SNP_SPL_OID_def TEE_SPL_OID_def LOADER_SPL_OID_def)

theorem snp_acceptance_witness:
  "\<exists>p vek. get_processor_generation sample_report = Ok p \<and> snp_endorsed sample_snp p vek \<and>
     verify_report sample_snp vek sample_report = Ok ()"
proof -
  have e: "snp_from_value sample_snp v = Ok sample_snp_evidence" for v by (simp add: sample_snp_def)
  have r: "attestation_report sample_snp_evidence = sample_report" by (simp add: sample_snp_evidence_def)
  show ?thesis using snp_acceptance [OF sample_snp_accepted] unfolding e
    by (elim exE conjE) (metis outcome.inject r)
qed


section \<open>The WebAssembly components\<close>


text \<open>
  C19. On the same SNP evidence, when the key service's answers can be read and no key is cached, or the
  evidence brings its certificates, the SNP component gives exactly the claims of the native verifier, fails
  exactly when it fails and panics exactly when it panics.
\<close>

theorem component_snp_equivalent:
  assumes "snp_from_value L value = Ok ev"
    and "cert_chain ev \<noteq> None \<or>
      (\<forall>p url. vcek_url E (attestation_report ev) p = Ok url \<longrightarrow>
         Option.bind (snp_cache_dir C f) (\<lambda>d. snp_read_cache E C f d url) = None \<and>
         (\<forall>status body. kds_send L url = Ok (status, body) \<longrightarrow> (\<exists>b. body = Ok b)))"
  shows "agree (component_snp_evaluate E C L f ev rd ih)
    (map_ok (\<lambda>cs. fst (hd cs))
      (v_evaluate (SnpVerifier E L) value (report_of_option rd) (init_of_option ih)))"
proof -
  have "agree (fst (component_fetch_vcek E C L f (attestation_report ev) p))
      (fetch_vcek_from_kds E L (attestation_report ev) p)" if "cert_chain ev = None" for p
  proof (cases "vcek_url E (attestation_report ev) p")
    case (Ok url)
    then show ?thesis using assms(2) that by (intro component_fetch_agrees) auto
  qed (simp_all add: component_fetch_vcek_def fetch_vcek_from_kds_def)
  then show ?thesis
    using component_snp_agrees [OF assms(1)] by (simp add: SnpVerifier_def)
qed

definition sample_snp_component :: snp_component where
  "sample_snp_component =
     \<lparr>comp_vars = sample_vars, comp_io = no_faults, snp_evidence_from_str = (\<lambda>_. Ok sample_snp_evidence),
      report_from_bytes = (\<lambda>_. Ok sample_report), json_to_string = (\<lambda>_. Ok [])\<rparr>"

theorem component_snp_equivalent_witness:
  "agree (component_snp_evaluate reference_crates sample_snp_component sample_snp [] sample_snp_evidence (Some [1, 2, 3]) (Some [7]))
     (Ok (parse_tee_evidence reference_crates sample_report))"
proof -
  have "snp_from_value sample_snp JNull = Ok sample_snp_evidence" by (simp add: sample_snp_def)
  then show ?thesis
    using component_snp_equivalent [of sample_snp JNull sample_snp_evidence reference_crates sample_snp_component "[]"
        "Some [1, 2, 3]" "Some [7]"] sample_snp_accepted
    by (simp add: sample_snp_evidence_def report_of_option_def init_of_option_def)
qed


text \<open>A platform on which both verifiers find the collateral in the cache and \<^verbatim>\<open>dcap-qvl\<close> accepts the quote.\<close>

definition cached_json :: json where
  "cached_json =
     JObject ([(k, JArray [JNumber 48, JNumber 0]). k \<leftarrow> [''root_ca_crl'', ''pck_crl'', ''tcb_info_signature'', ''qe_identity_signature'']] @
       [(k, JString []). k \<leftarrow> [''pck_crl_issuer_chain'', ''tcb_info_issuer_chain'', ''tcb_info'',
          ''qe_identity_issuer_chain'', ''qe_identity'', ''nextUpdate'']])"

definition cached_crates :: crates where
  "cached_crates = reference_crates\<lparr>json_from_str := \<lambda>_. Some cached_json\<rparr>"

definition cached_vars :: verifier_env where
  "cached_vars = sample_vars\<lparr>env_var := \<lambda>n. if n = ''TDX_NATIVE_USE_DCAP_QVL'' then Some ''1'' else None\<rparr>"

definition cached_collateral :: QuoteCollateralV3 where
  "cached_collateral =
     \<lparr>pck_crl_issuer_chain = [], root_ca_crl = [48, 0], pck_crl = [48, 0], tcb_info_issuer_chain = [],
      tcb_info = [], tcb_info_signature = [48, 0], qe_identity_issuer_chain = [], qe_identity = [],
      qe_identity_signature = [48, 0], pck_certificate_chain = None\<rparr>"

definition cached_qvl :: "QuoteCollateralV3 qvl_lib" where
  "cached_qvl =
     \<lparr>qvl_parse = (\<lambda>_. Ok \<lparr>qvl_ca = Ok ''platform'', qvl_fmspc = Ok [], qvl_is_sgx = False\<rparr>),
      qvl_fetch = (\<lambda>_ _ _. Err []),
      qvl_verify = (\<lambda>_ _ _. Ok \<lparr>vr_status = ''UpToDate'', vr_advisory_ids = [], vr_ppid = []\<rparr>),
      qvl_from_slice = (\<lambda>_. Some cached_collateral), qvl_to_vec = (\<lambda>_. Err []), qvl_tcb_info = tcb_info,
      qvl_qe_identity = qe_identity, rfc3339_parse = (\<lambda>_. Some 0), hex_encode_upper = hex_of\<rparr>"

definition cached_key :: string where
  "cached_key =
     (case cache_key cached_crates (normalize_base_url DEFAULT_PCS_URL) ''tdx'' [] ''platform'' of
        Ok k \<Rightarrow> k | _ \<Rightarrow> [])"

definition cached_fs :: fs where
  "cached_fs = [(path_of ''dcap-qvl-cache'' @ [cached_key], FileNode [])]"

definition cached_wasi :: wasi_lib where
  "cached_wasi =
     \<lparr>http_get_bytes = (\<lambda>_. Err []), url_decode = (\<lambda>_. Err []), pem_parse_many = (\<lambda>_. Err []),
      hex_decode = (\<lambda>_. None), cert_extensions = (\<lambda>_. Err []), crl_dist_points = (\<lambda>_. Err []),
      json_print = (\<lambda>_. [])\<rparr>"

definition cached_tdx :: "(unit, QuoteCollateralV3, unit) tdx_env" where
  "cached_tdx =
     \<lparr>tdx_crates = cached_crates, tdx_chk = True, tdx_vars = cached_vars, tdx_dcap = sample_dcap,
      tdx_qvl = cached_qvl, tdx_retry = \<lparr>max_retries = 0, initial_delay = (), scale = Some\<rparr>, tdx_io = no_faults,
      tdx_fs = cached_fs, tdx_now = 0,
      tdx_from_value = (\<lambda>_. Ok \<lparr>cc_eventlog = Some ''log'', tdx_quote = ''quote''\<rparr>),
      tdx_log_to_value = (\<lambda>_. Ok JNull)\<rparr>"

definition cached_component :: tdx_component where
  "cached_component =
     \<lparr>tc_crates = cached_crates, tc_chk = True, tc_vars = cached_vars, tc_qvl = cached_qvl, tc_wasi = cached_wasi,
      tc_io = no_faults, tc_fs = cached_fs, tc_now = 0,
      tc_from_str = (\<lambda>_. Ok \<lparr>cc_eventlog = Some ''log'', tdx_quote = ''quote''\<rparr>),
      tc_log_to_value = (\<lambda>_. Ok JNull), tc_to_string = (\<lambda>_. Ok [])\<rparr>"

lemma cached_key_eq:
  "cache_key cached_crates (normalize_base_url DEFAULT_PCS_URL) ''tdx'' [] ''platform'' = Ok cached_key"
proof -
  have "length (sha256 cached_crates x) = 32" for x
    using reference_crates_ok(3) by (simp add: cached_crates_def digest_lengths_def)
  then have "\<exists>k. cache_key cached_crates u t f c = Ok k" for u t f c
    by (simp add: cache_key_def outcome_iff range_ok_def)
  then show ?thesis unfolding cached_key_def by (metis outcome.simps(8) outcome.case(1))
qed

lemma read_cached: "read_file no_faults cached_fs (path_of ''dcap-qvl-cache'' @ [cached_key]) = Ok []"
  by (simp add: read_file_def cached_fs_def)

lemma cached_crl: "normalize_crl_bytes cached_vars cached_wasi [48, 0] = [48, 0]"
proof -
  have q: "encode_quote sample_td_quote \<noteq> [] \<and> hd (encode_quote sample_td_quote) = 4"
    by (simp add: sample_td_quote_def header_fields_def)
  have short: "filter P s \<noteq> ''log''" if "length s = 2" for P and s :: string
    using length_filter_le [of P s] that by auto
  have "decode_base64_string cached_vars s = None" if "length s = 2" for s
    using q short [OF that]
    by (simp add: decode_base64_string_def cached_vars_def sample_vars_def Let_def)
  then have "decode_crl_bytes cached_vars cached_wasi [48, 0] = None"
    by (auto simp: decode_crl_bytes_def from_utf8_def str_of_def decode_pem_crl_def decode_hex_string_def
        cached_wasi_def first_some_def Let_def)
  then show ?thesis by (simp add: normalize_crl_bytes_def)
qed

lemma cached_read: "wasi_read_cache cached_crates cached_vars cached_wasi no_faults cached_fs
    (path_of ''dcap-qvl-cache'' @ [cached_key]) = Some cached_collateral"
proof -
  have utf8: "from_utf8 [] = Some []" by (simp add: from_utf8_def str_of_def)
  have der: "looks_like_der_crl [48, 0]" "trim_unless_der [48, 0] = [48, 0]"
    by (simp_all add: looks_like_der_crl_def der_total_len_def trim_unless_der_def)
  have json: "json_from_str cached_crates t = Some cached_json" for t by (simp add: cached_crates_def)
  have bs: "obj_bytes cached_vars cached_wasi cached_json k = Some [48, 0]"
    if "k \<in> {''root_ca_crl'', ''pck_crl'', ''tcb_info_signature'', ''qe_identity_signature''}" for k
    using that by (auto simp: obj_bytes_def cached_json_def)
  have strs: "obj_str cached_json k = Some []"
    if "k \<in> {''pck_crl_issuer_chain'', ''tcb_info_issuer_chain'', ''tcb_info'', ''qe_identity_issuer_chain'',
      ''qe_identity''}" for k
    using that by (auto simp: obj_str_def cached_json_def)
  have none: "obj_str cached_json ''pck_certificate_chain'' = None" by (simp add: obj_str_def cached_json_def)
  show ?thesis
    by (simp add: wasi_read_cache_def read_cached utf8 json bs strs none cached_crl der cached_collateral_def
        Let_def)
qed

lemma cached_fresh:
  "cached_collateral_is_fresh cached_crates cached_qvl c 0" "\<not> collateral_expired cached_crates cached_qvl c 0"
  by (simp_all add: cached_collateral_is_fresh_def collateral_expired_def parse_next_update_secs_def
      cached_crates_def cached_qvl_def timestamp_secs_def cached_json_def)

lemma cached_signature:
  "fst (component_quote_verification cached_component bin) = verify_quote_signature cached_tdx bin"
proof -
  have q: "qvl_parse cached_qvl bin = Ok \<lparr>qvl_ca = Ok ''platform'', qvl_fmspc = Ok [], qvl_is_sgx = False\<rparr>"
    "hex_encode_upper cached_qvl [] = []" "qvl_from_slice cached_qvl b = Some cached_collateral" for b
    by (simp_all add: cached_qvl_def hex_of_def)
  have v: "env_var cached_vars n = (if n = ''TDX_NATIVE_USE_DCAP_QVL'' then Some ''1'' else None)" for n
    by (simp add: cached_vars_def)
  have flag: "env_flag cached_vars ''TDX_NATIVE_USE_DCAP_QVL''"
    by (simp add: env_flag_def v to_ascii_lowercase_def ascii_lower_def)
  have base: "pcs_base_url (PcsEndpoints_new DEFAULT_PCS_URL False [] ''platform'') = normalize_base_url DEFAULT_PCS_URL"
    "pcs_tee (PcsEndpoints_new DEFAULT_PCS_URL False [] ''platform'') = ''tdx''"
    "pcs_fmspc (PcsEndpoints_new DEFAULT_PCS_URL False [] ''platform'') = []"
    "pcs_ca (PcsEndpoints_new DEFAULT_PCS_URL False [] ''platform'') = ''platform''"
    by (simp_all add: PcsEndpoints_new_def normalize_base_url_def)
  have "wasi_get_collateral_cached cached_crates cached_vars cached_qvl cached_wasi no_faults cached_fs 0 None bin
      (path_of ''dcap-qvl-cache'') = (Ok cached_collateral, cached_fs)"
    by (simp add: wasi_get_collateral_cached_def q cache_disabled_def v base cached_key_eq cached_read cached_fresh)
  moreover have "get_collateral_cached cached_crates cached_vars cached_qvl st no_faults cached_fs 0 None bin
      (path_of ''dcap-qvl-cache'') = (Ok cached_collateral, cached_fs)" for st :: "unit RetrySettings"
    by (simp add: get_collateral_cached_def q cache_disabled_def v cached_key_eq read_cache_def read_cached
        cached_fresh)
  ultimately show ?thesis
    by (simp add: component_quote_verification_def verify_quote_signature_def qvl_quote_verification_def
        cached_component_def cached_tdx_def flag v Let_def cong: if_cong)
qed


end
