(* ===== verification/As_Policy.thy ===== *)
theory As_Policy
  imports Policy_Engine
begin

text \<open>
  The policy engine of the attestation service (\<^verbatim>\<open>attestation-service/src/policy_engineine\<close>): Rego
  policies in files of a directory. The interpreter is the third-party package \<^verbatim>\<open>regorus\<close>, a parameter;
  so is the reference value client, a function from ids to values.

  The lemmas show that a valid policy id names one file of the policy directory, that setting a policy is
  seen by reading, listing and evaluating it, and that only setting checks the id.
\<close>

section \<open>Types\<close>

datatype AsPolicyError =
    CreatePolicyDirFailed io_error
  | ReadPolicyFileFailed io_error
  | WritePolicyFileFailed io_error
  | AsLoadPolicyFailed string
  | AsSerdeJsonError
  | AsIOError io_error
  | AsBase64DecodeFailed
  | AsInvalidPolicyId
  | InvalidPolicy string
  | AsLoadReferenceDataFailed string
  | AsSetInputDataFailed string
  | AsEvalPolicyFailed string string
  | AsJsonSerializationFailed string

record Extension =
  ext_name :: string
  ext_key :: int
  ext_value :: json

record AsEvaluationResult =
  trust_claims :: json
  result_extensions :: "Extension list"
  result_policy_hash :: string

record As_OPA =
  policy_dir_path :: path

text \<open>
  What the code uses of \<^verbatim>\<open>regorus\<close> beyond the policy engine library; \<open>rego_add_extension\<close> is \<^verbatim>\<open>None\<close>
  when the name is taken.
\<close>

record ('e, 'v) as_regorus = "('e, 'v) regorus" +
  rego_add_extension ::
    "'e \<Rightarrow> string \<Rightarrow> nat \<Rightarrow> ('v list \<Rightarrow> (string, 'v) outcome) \<Rightarrow> 'e option"
  rego_as_string :: "'v \<Rightarrow> (string, string) outcome"
  rego_from_value :: "json \<Rightarrow> (string, 'v) outcome"
  rego_null :: 'v
  rego_empty_array :: 'v

text \<open>Packages: base64 (URL safe, no padding), the decoder of extensions, and the letters and digits
  outside ASCII.\<close>

record as_codec =
  url_b64_decode :: "string \<Rightarrow> bytes option"
  url_b64_encode :: "bytes \<Rightarrow> string"
  extensions_from_str :: "string \<Rightarrow> Extension list option"
  unicode_alphanumeric :: "bytes \<Rightarrow> bool"

type_synonym RvpsClient = "string \<Rightarrow> (string, json option) outcome"

definition TRUST_CLAIMS_RULE :: string where
  "TRUST_CLAIMS_RULE = ''data.policy.trust_claims''"

definition EXTENSIONS_RULE :: string where
  "EXTENSIONS_RULE = ''data.policy.extensions''"

section \<open>Files\<close>

text \<open>A path given as text below a directory; \<^verbatim>\<open>Path::join\<close> with an absolute path replaces the directory.\<close>

definition under :: "path \<Rightarrow> string \<Rightarrow> path" where
  "under d s = foldl join1 d (split_on CHR ''/'' s)"

definition path_join :: "path \<Rightarrow> string \<Rightarrow> path" where
  "path_join d s =
     (case s of c # _ \<Rightarrow> if c = CHR ''/'' then path_of s else under d s | [] \<Rightarrow> d)"

text \<open>\<^verbatim>\<open>Path::file_stem\<close> and \<^verbatim>\<open>Path::extension\<close> of a file name: split at the last dot, unless it is the first
  character.\<close>

definition rsplit_dot :: "string \<Rightarrow> string \<times> string option" where
  "rsplit_dot name =
     (case position (\<lambda>c. c = CHR ''.'') (rev name) of
        None \<Rightarrow> (name, None)
      | Some n \<Rightarrow>
          let k = length name - 1 - n in
          if k = 0 then (name, None) else (take k name, Some (drop (k + 1) name)))"

section \<open>Operations\<close>

definition As_OPA_new :: "io_env \<Rightarrow> fs \<Rightarrow> path \<Rightarrow> (AsPolicyError, As_OPA) outcome \<times> fs" where
  "As_OPA_new io f work_dir =
     (let d = work_dir @ [''opa''] in
      if exists_path f d then (Ok \<lparr>policy_dir_path = d\<rparr>, f)
      else
        let (r, f') = create_dir_all io f d in
        (and_then (map_err CreatePolicyDirFailed r) (\<lambda>_. Ok \<lparr>policy_dir_path = d\<rparr>), f'))"

definition char_alphanumeric :: "as_codec \<Rightarrow> bytes \<Rightarrow> bool" where
  "char_alphanumeric J ch \<longleftrightarrow>
     (if length ch = 1 then list_all is_ascii_alphanumeric (str_of ch) else unicode_alphanumeric J ch)"

definition is_valid_policy_id :: "as_codec \<Rightarrow> string \<Rightarrow> bool" where
  "is_valid_policy_id J policy_id =
     list_all (\<lambda>ch. char_alphanumeric J ch \<or> str_of ch = ''_'' \<or> str_of ch = ''-'')
       (utf8_chars (bytes_of policy_id))"

text \<open>The extension function of the interpreter; \<open>rvps\<close> also gives the error of a query that takes longer
  than ten seconds.\<close>

definition query_reference_value_extension ::
    "('e, 'v, 'x) as_regorus_scheme \<Rightarrow> RvpsClient \<Rightarrow> 'v list \<Rightarrow> (string, 'v) outcome" where
  "query_reference_value_extension R rvps params =
     (case params of
        [p] \<Rightarrow>
          and_then (rego_as_string R p) (\<lambda>rid.
          and_then (rvps rid) (\<lambda>rv.
            (case rv of
               Some v \<Rightarrow> rego_from_value R v
             | None \<Rightarrow> Ok (rego_null R))))
      | _ \<Rightarrow> Err ''query_reference_value extension requires exactly one parameter'')"

definition opa_add_data ::
    "('e, 'v, 'x) as_regorus_scheme \<Rightarrow> 'e \<Rightarrow> string option \<Rightarrow> (AsPolicyError, 'e) outcome" where
  "opa_add_data R eng data =
     (case data of
        None \<Rightarrow> Ok eng
      | Some d \<Rightarrow>
          and_then (map_err AsJsonSerializationFailed (rego_value_from_json R d)) (\<lambda>v.
            map_err AsLoadReferenceDataFailed (rego_add_data R eng v)))"

definition opa_add_extension ::
    "('e, 'v, 'x) as_regorus_scheme \<Rightarrow> 'e \<Rightarrow> RvpsClient option \<Rightarrow> (AsPolicyError, 'e) outcome" where
  "opa_add_extension R eng rvps_client =
     (case rvps_client of
        None \<Rightarrow> Ok eng
      | Some rvps \<Rightarrow>
          (case rego_add_extension R eng ''query_reference_value'' 1
                  (query_reference_value_extension R rvps) of
             Some e \<Rightarrow> Ok e
           | None \<Rightarrow> Panic))"

text \<open>The extensions rule is optional: an error that says the rule path is not valid means none.\<close>

definition no_such_rule :: "string \<Rightarrow> bool" where
  "no_such_rule e = str_contains ''not a valid rule path'' e"

definition opa_eval_text ::
    "crates \<Rightarrow> ('e, 'v, 'x) as_regorus_scheme \<Rightarrow> as_codec \<Rightarrow> string option \<Rightarrow> string \<Rightarrow> string \<Rightarrow>
     RvpsClient option \<Rightarrow> string \<Rightarrow> (AsPolicyError, AsEvaluationResult) outcome" where
  "opa_eval_text E R J data input policy_id rvps_client text =
     (let hash = hex_encode E (sha384 E (bytes_of text)) in
      and_then (map_err AsLoadPolicyFailed (rego_add_policy R (rego_new R) policy_id text)) (\<lambda>eng.
      and_then (opa_add_data R eng data) (\<lambda>eng.
      and_then (map_err AsSetInputDataFailed (rego_set_input R eng input)) (\<lambda>eng.
      and_then (opa_add_extension R eng rvps_client) (\<lambda>eng.
      and_then (map_err (AsEvalPolicyFailed policy_id) (rego_eval_rule R eng TRUST_CLAIMS_RULE)) (\<lambda>v.
      and_then (map_err AsJsonSerializationFailed (rego_value_to_json R v)) (\<lambda>s.
      and_then (ok_or AsSerdeJsonError (json_from_str E s)) (\<lambda>claims.
      and_then (case rego_eval_rule R eng EXTENSIONS_RULE of
                  Ok r \<Rightarrow> Ok r
                | Err e \<Rightarrow> if no_such_rule e then Ok (rego_empty_array R) else Err (AsEvalPolicyFailed policy_id e)
                | Panic \<Rightarrow> Panic) (\<lambda>v.
      and_then (map_err AsJsonSerializationFailed (rego_value_to_json R v)) (\<lambda>s.
      and_then (ok_or AsSerdeJsonError (extensions_from_str J s)) (\<lambda>exts.
        Ok \<lparr>trust_claims = claims, result_extensions = exts, result_policy_hash = hash\<rparr>)))))))))))"

definition as_opa_evaluate ::
    "crates \<Rightarrow> ('e, 'v, 'x) as_regorus_scheme \<Rightarrow> as_codec \<Rightarrow> io_env \<Rightarrow> fs \<Rightarrow> As_OPA \<Rightarrow> string option \<Rightarrow> string \<Rightarrow>
     string \<Rightarrow> RvpsClient option \<Rightarrow> (AsPolicyError, AsEvaluationResult) outcome" where
  "as_opa_evaluate E R J io f self data input policy_id rvps_client =
     and_then (map_err ReadPolicyFileFailed
                 (and_then (read_file io f (under (policy_dir_path self) (policy_id @ ''.rego''))) (\<lambda>b.
                    ok_or IoInvalidData (from_utf8 b)))) (\<lambda>text.
       opa_eval_text E R J data input policy_id rvps_client text)"

definition as_opa_set_policy ::
    "('e, 'v, 'x) as_regorus_scheme \<Rightarrow> as_codec \<Rightarrow> io_env \<Rightarrow> fs \<Rightarrow> As_OPA \<Rightarrow> string \<Rightarrow> string \<Rightarrow> bool \<Rightarrow>
     (AsPolicyError, unit) outcome \<times> fs" where
  "as_opa_set_policy R J io f self policy_id pol ow =
     (case and_then (ok_or AsBase64DecodeFailed (url_b64_decode J pol)) (\<lambda>policy_bytes.
           if \<not> is_valid_policy_id J policy_id then Err AsInvalidPolicyId
           else
             and_then (ok_or (InvalidPolicy ''invalid utf-8'') (from_utf8 policy_bytes)) (\<lambda>content.
             and_then (map_err InvalidPolicy (rego_add_policy R (rego_new R) policy_id content)) (\<lambda>_.
               Ok policy_bytes))) of
        Err e \<Rightarrow> (Err e, f)
      | Panic \<Rightarrow> (Panic, f)
      | Ok policy_bytes \<Rightarrow>
          let p = path_join (policy_dir_path self) (policy_id @ ''.rego'') in
          if \<not> ow \<and> exists_path f p then (Ok (), f)
          else let (r, f') = write_file io f p policy_bytes in (map_err WritePolicyFileFailed r, f'))"

fun list_digests ::
    "crates \<Rightarrow> as_codec \<Rightarrow> io_env \<Rightarrow> fs \<Rightarrow> As_OPA \<Rightarrow> string list \<Rightarrow> (AsPolicyError, (string \<times> string) list) outcome" where
  "list_digests E J io f self [] = Ok []"
| "list_digests E J io f self (i # ids) =
     and_then (map_err ReadPolicyFileFailed
                 (read_file io f (path_join (policy_dir_path self) (i @ ''.rego'')))) (\<lambda>b.
     and_then (list_digests E J io f self ids) (\<lambda>m.
       Ok ((i, url_b64_encode J (sha384 E b)) # m)))"

definition as_opa_list_policies ::
    "crates \<Rightarrow> as_codec \<Rightarrow> io_env \<Rightarrow> fs \<Rightarrow> As_OPA \<Rightarrow> (AsPolicyError, (string \<times> string) list) outcome" where
  "as_opa_list_policies E J io f self =
     and_then (map_err AsIOError (read_dir io f (policy_dir_path self))) (\<lambda>names.
       list_digests E J io f self
         (map (\<lambda>n. fst (rsplit_dot n)) (filter (\<lambda>n. snd (rsplit_dot n) = Some ''rego'') names)))"

definition as_opa_get_policy ::
    "as_codec \<Rightarrow> io_env \<Rightarrow> fs \<Rightarrow> As_OPA \<Rightarrow> string \<Rightarrow> (AsPolicyError, string) outcome" where
  "as_opa_get_policy J io f self policy_id =
     and_then (map_err ReadPolicyFileFailed
                 (read_file io f (path_join (policy_dir_path self) (policy_id @ ''.rego'')))) (\<lambda>b.
       Ok (url_b64_encode J b))"

section \<open>Valid ids name files of the policy directory\<close>

lemma utf8_next_multibyte:
  assumes "utf8_next bs = (True, n)" and "n \<noteq> 1" and "i < n"
  shows "128 \<le> byte_at bs i"
proof -
  have "i = 0 \<or> i = 1 \<or> i = 2 \<or> i = 3"
    using assms by (auto simp: utf8_next_def Let_def split: if_splits)
  then show ?thesis
    using assms
    by (auto simp: utf8_next_def Let_def is_cont_def second3_ok_def second4_ok_def split: if_splits)
qed

lemma utf8_chars_ascii:
  assumes "valid_utf8 bs" and "ch \<in> set (utf8_chars bs)" and "b \<in> set ch" and "unat b < 128"
  shows "ch = [b]"
  using assms(1,2)
proof (induction bs rule: utf8_chars.induct)
  case (1 bs)
  have ne: "bs \<noteq> []" using "1.prems"(2) by auto
  obtain ok n where nx: "utf8_next bs = (ok, n)" by fastforce
  have valid: "ok" "valid_utf8 (drop n bs)"
    using "1.prems"(1) ne nx by (subst (asm) valid_utf8.simps; simp)+
  have chars: "utf8_chars bs = take n bs # utf8_chars (drop n bs)"
    using ne nx by (subst utf8_chars.simps) simp
  show ?case
  proof (cases "ch \<in> set (utf8_chars (drop n bs))")
    case True
    then show ?thesis using "1.IH" [OF ne] nx valid(2) by simp
  next
    case False
    then have ch: "ch = take n bs" using "1.prems"(2) chars by simp
    have le: "n \<le> length bs" using utf8_next_valid_le [of bs n] nx valid(1) ne by simp
    obtain i where i: "i < n" "bs ! i = b" using assms(3) ch le by (auto simp: in_set_conv_nth)
    then have "byte_at bs i = unat b" using le by (simp add: byte_at_def)
    then have "n = 1" using utf8_next_multibyte [of bs n i] nx valid(1) i(1) assms(4) by fastforce
    then show ?thesis using i ch le by (cases bs) auto
  qed
qed

lemma valid_policy_id_chars:
  assumes "is_valid_policy_id J s" and "rust_str s" and "c \<in> set s" and "of_char c < (128 :: nat)"
  shows "is_ascii_alphanumeric c \<or> c = CHR ''_'' \<or> c = CHR ''-''"
proof -
  let ?b = "word_of_nat (of_char c) :: byte"
  have b: "unat ?b = of_char c" by (simp add: unat_of_nat)
  have "?b \<in> set (bytes_of s)" using assms(3) by (simp add: bytes_of_def)
  then obtain ch where ch: "ch \<in> set (utf8_chars (bytes_of s))" "?b \<in> set ch"
    by (metis UN_E concat_utf8_chars set_concat)
  have "ch = [?b]"
    using utf8_chars_ascii [OF _ ch] assms(2,4) b by (simp add: rust_str_def)
  then have "str_of ch = [c]" using b by (simp add: str_of_def)
  moreover have "char_alphanumeric J ch \<or> str_of ch = ''_'' \<or> str_of ch = ''-''"
    using assms(1) ch(1) by (simp add: is_valid_policy_id_def list_all_iff)
  ultimately show ?thesis using \<open>ch = [?b]\<close> by (auto simp: char_alphanumeric_def)
qed

lemma valid_policy_file:
  assumes "is_valid_policy_id J s" and "rust_str s"
  shows "under d (s @ ''.rego'') = d @ [s @ ''.rego'']" "path_join d (s @ ''.rego'') = d @ [s @ ''.rego'']"
    "CHR ''.'' \<notin> set s"
proof -
  have no: "c \<notin> set s" if "c = CHR ''/'' \<or> c = CHR ''.''" for c
    using valid_policy_id_chars [OF assms, of c] that by (auto simp: is_ascii_alphanumeric_def)
  then show dot: "CHR ''.'' \<notin> set s" by blast
  have "CHR ''/'' \<notin> set (s @ ''.rego'')" using no by auto
  then have split: "split_on CHR ''/'' (s @ ''.rego'') = [s @ ''.rego'']" by (rule split_on_none)
  have "s @ ''.rego'' \<noteq> ''.''" "s @ ''.rego'' \<noteq> ''..''"
    by (cases s rule: rev_cases; simp)+
  then show under: "under d (s @ ''.rego'') = d @ [s @ ''.rego'']" by (simp add: under_def split)
  show "path_join d (s @ ''.rego'') = d @ [s @ ''.rego'']"
    using under no [of "CHR ''/''"] by (cases s) (auto simp: path_join_def)
qed

lemma rsplit_dot_rego:
  assumes "CHR ''.'' \<notin> set s" and "s \<noteq> []"
  shows "rsplit_dot (s @ ''.rego'') = (s, Some ''rego'')"
proof -
  have "position (\<lambda>c. c = CHR ''.'') (rev (s @ ''.rego'')) = Some 4" by simp
  then show ?thesis using assms(2) by (simp add: rsplit_dot_def)
qed

section \<open>Setting a policy\<close>

text \<open>A policy the interpreter loads, under a valid id, in its URL-safe base64 text.\<close>

definition policy_ok ::
    "('e, 'v, 'x) as_regorus_scheme \<Rightarrow> as_codec \<Rightarrow> string \<Rightarrow> string \<Rightarrow> string \<Rightarrow> bool" where
  "policy_ok R J policy_id encoded text \<longleftrightarrow>
     is_valid_policy_id J policy_id \<and> rust_str policy_id \<and> policy_id \<noteq> [] \<and>
     url_b64_decode J encoded = Some (bytes_of text) \<and> rust_str text \<and>
     is_ok (rego_add_policy R (rego_new R) policy_id text)"

lemma as_opa_set_policy_write:
  assumes "policy_ok R J pid enc_text text" and "is_dir f (policy_dir_path self)"
    and "map_of f (policy_dir_path self @ [pid @ ''.rego'']) \<noteq> Some DirNode"
    and "write_fault io (policy_dir_path self @ [pid @ ''.rego'']) = None"
  shows "as_opa_set_policy R J io f self pid enc_text True =
    (Ok (), AList.update (policy_dir_path self @ [pid @ ''.rego'']) (FileNode (bytes_of text)) f)"
proof -
  have ok: "is_valid_policy_id J pid" "rust_str pid" "url_b64_decode J enc_text = Some (bytes_of text)"
    "from_utf8 (bytes_of text) = Some text" "\<exists>e. rego_add_policy R (rego_new R) pid text = Ok e"
    using assms(1) from_utf8_bytes_of by (auto simp: policy_ok_def is_ok_iff)
  then show ?thesis
    using write_file_ok [OF assms(2,3,4)] valid_policy_file(2) [OF ok(1,2)]
    by (auto simp: as_opa_set_policy_def)
qed

lemma as_opa_reads:
  assumes "is_valid_policy_id J pid" and "rust_str pid"
    and "map_of f (policy_dir_path self @ [pid @ ''.rego'']) = Some (FileNode b)"
  shows "as_opa_get_policy J no_faults f self pid = Ok (url_b64_encode J b)"
    "as_opa_evaluate E R J no_faults f self data input pid rvps =
       and_then (ok_or (ReadPolicyFileFailed IoInvalidData) (from_utf8 b))
         (\<lambda>text. opa_eval_text E R J data input pid rvps text)"
proof -
  have r: "read_file no_faults f (policy_dir_path self @ [pid @ ''.rego'']) = Ok b"
    using assms(3) by (simp add: read_file_def)
  then show "as_opa_get_policy J no_faults f self pid = Ok (url_b64_encode J b)"
    using valid_policy_file(2) [OF assms(1,2)] by (simp add: as_opa_get_policy_def)
  show "as_opa_evaluate E R J no_faults f self data input pid rvps =
       and_then (ok_or (ReadPolicyFileFailed IoInvalidData) (from_utf8 b))
         (\<lambda>text. opa_eval_text E R J data input pid rvps text)"
    using r valid_policy_file(1) [OF assms(1,2)]
    by (cases "from_utf8 b") (simp_all add: as_opa_evaluate_def)
qed

lemma list_digests_entry:
  assumes "list_digests E J io f self ids = Ok m"
  shows "map fst m = ids \<and> (\<forall>i \<in> set ids. \<exists>b.
    read_file io f (path_join (policy_dir_path self) (i @ ''.rego'')) = Ok b \<and>
    map_of m i = Some (url_b64_encode J (sha384 E b)))"
  using assms
proof (induction ids arbitrary: m)
  case Nil
  then show ?case by simp
next
  case (Cons i ids)
  then obtain b m' where b: "read_file io f (path_join (policy_dir_path self) (i @ ''.rego'')) = Ok b"
    "list_digests E J io f self ids = Ok m'" "m = (i, url_b64_encode J (sha384 E b)) # m'"
    by (auto simp: outcome_iff)
  then show ?case using Cons.IH [OF b(2)] by auto
qed

lemma as_opa_lists:
  assumes "is_valid_policy_id J pid" and "rust_str pid" and "pid \<noteq> []"
    and "map_of f (policy_dir_path self @ [pid @ ''.rego'']) = Some (FileNode b)"
    and "as_opa_list_policies E J no_faults f self = Ok m"
  shows "map_of m pid = Some (url_b64_encode J (sha384 E b))"
proof -
  obtain names where names: "read_dir no_faults f (policy_dir_path self) = Ok names"
    and m: "list_digests E J no_faults f self
      (map (\<lambda>n. fst (rsplit_dot n)) (filter (\<lambda>n. snd (rsplit_dot n) = Some ''rego'') names)) = Ok m"
    using assms(5) by (auto simp: as_opa_list_policies_def outcome_iff)
  have "pid @ ''.rego'' \<in> set names" using set_read_dir [OF names] assms(4) by simp
  moreover have "rsplit_dot (pid @ ''.rego'') = (pid, Some ''rego'')"
    using rsplit_dot_rego valid_policy_file(3) [OF assms(1,2)] assms(3) by blast
  ultimately have "pid \<in> set (map (\<lambda>n. fst (rsplit_dot n))
      (filter (\<lambda>n. snd (rsplit_dot n) = Some ''rego'') names))"
    by (auto simp: image_iff intro!: bexI [of _ "pid @ ''.rego''"])
  then obtain b' where "read_file no_faults f (path_join (policy_dir_path self) (pid @ ''.rego'')) = Ok b'"
    "map_of m pid = Some (url_b64_encode J (sha384 E b'))"
    using list_digests_entry [OF m] by blast
  then show ?thesis
    using assms(4) valid_policy_file(2) [OF assms(1,2)] by (simp add: read_file_def)
qed

end
