(* ===== verification/As_Token.thy ===== *)
theory As_Token
  imports As_Policy Verifier Kbs_Session
begin

text \<open>
  The attestation token broker (\<^verbatim>\<open>attestation-service/src/ear_token\<close>): claims are transformed, appraised
  under a policy for their class of device, and collected in a signed EAR token. The EAR, JWT and OpenSSL
  packages are parameters.

  Machine integers are kept at their width: a trust claim is cast to 8 bits, the index of a device in its
  class is one byte.
\<close>

section \<open>Types\<close>

type_synonym i8 = "8 word"

record TeeClaims =
  tc_tee :: Tee
  tc_class :: TeeClass
  tc_claims :: TeeEvidenceParsedClaim
  tc_init_data_claims :: json
  tc_runtime_data_claims :: json

record TokenSignerConfig =
  key_path :: string
  signer_cert_url :: "string option"
  cert_path :: "string option"

record EarTokenConfiguration =
  duration_min :: int
  issuer_name :: string
  developer_name :: string
  build_name :: string
  profile_name :: string
  signer :: "TokenSignerConfig option"
  policy_dir :: string

record 'x Appraisal =
  trust_vector :: "(string \<times> i8) list"
  app_extensions :: 'x
  annotated_evidence :: json_map
  app_policy_id :: "string option"
  app_status :: string

record 'x Ear =
  ear_profile :: string
  ear_iat :: int
  ear_build :: string
  ear_developer :: string
  ear_submods :: "(string \<times> 'x Appraisal) list"
  ear_extensions :: 'x

record EarJwk =
  jwk_x509_url :: "string option"
  jwk_x509_chain :: "string list option"
  jwk_x :: string
  jwk_y :: string

text \<open>
  The packages. \<open>raw_value\<close> converts a JSON value to a \<^verbatim>\<open>RawValue\<close>; \<open>trust_claim_known\<close> are the names
  \<^verbatim>\<open>mut_by_name\<close> accepts; \<open>'x\<close> are extension registers, \<open>'k\<close> private keys, \<open>'c\<close> certificates.
\<close>

record ('x, 'k, 'c) ear_lib =
  raw_value :: "json \<Rightarrow> (string, json) outcome"
  variant_name :: "Tee \<Rightarrow> (string, string) outcome"
  claims_to_string :: "json_map \<Rightarrow> (string, string) outcome"
  trust_claim_known :: "string \<Rightarrow> bool"
  any_set :: "(string \<times> i8) list \<Rightarrow> bool"
  status_of :: "(string \<times> i8) list \<Rightarrow> string"
  extensions_new :: 'x
  extensions_register :: "'x \<Rightarrow> string \<Rightarrow> int \<Rightarrow> json \<Rightarrow> (string, 'x) outcome"
  extensions_set :: "'x \<Rightarrow> string \<Rightarrow> json \<Rightarrow> (string, 'x) outcome"
  add_minutes :: "int \<Rightarrow> int \<Rightarrow> int option"
  cert_der :: "'c \<Rightarrow> (string, bytes) outcome"
  affine_coordinates :: "'k \<Rightarrow> (string, bytes \<times> bytes) outcome"
  sign_jwt :: "EarJwk \<Rightarrow> 'k \<Rightarrow> 'x Ear \<Rightarrow> (string, string) outcome"
  ec_generate :: "(string, 'k) outcome"
  ec_key_from_pem :: "bytes \<Rightarrow> (string, 'k) outcome"
  x509_of_pem :: "string \<Rightarrow> (string, 'c) outcome"

record ('k, 'c) EarAttestationTokenBroker =
  broker_config :: EarTokenConfiguration
  private_key :: 'k
  cert_url :: "string option"
  broker_cert_chain :: "'c list option"

text \<open>\<^verbatim>\<open>dyn PolicyEngine\<close>: its \<^verbatim>\<open>evaluate\<close>.\<close>

type_synonym policy_evaluate =
  "string option \<Rightarrow> string \<Rightarrow> string \<Rightarrow> RvpsClient option \<Rightarrow> (AsPolicyError, AsEvaluationResult) outcome"

section \<open>Claims\<close>

definition json_remove :: "string \<Rightarrow> json_map \<Rightarrow> json_map" where
  "json_remove k m = AList.delete k m"

text \<open>
  One of the two steps of \<^verbatim>\<open>transform_claims\<close>: a claim of the verifier is moved to the output, with the
  data it stands for.
\<close>

definition move_claim ::
    "('x, 'k, 'c) ear_lib \<Rightarrow> string \<Rightarrow> string \<Rightarrow> json \<Rightarrow> json_map \<times> json_map \<Rightarrow>
     (anyhow, json_map \<times> json_map) outcome" where
  "move_claim L claim data_claim data = (\<lambda>(input_map, output).
     (case map_of input_map claim of
        None \<Rightarrow> Ok (input_map, output)
      | Some v \<Rightarrow>
          (case as_str v of
             None \<Rightarrow> Panic
           | Some s \<Rightarrow>
               and_then (lib_error (raw_value L data)) (\<lambda>transformed.
                 Ok (json_remove claim input_map,
                     json_insert data_claim transformed (json_insert claim (JString s) output))))))"

definition transform_claims ::
    "('x, 'k, 'c) ear_lib \<Rightarrow> json \<Rightarrow> json \<Rightarrow> json \<Rightarrow> Tee \<Rightarrow> (anyhow, json_map) outcome" where
  "transform_claims L input_claims init_data_claims runtime_data_claims tee =
     and_then (case input_claims of
                 JObject m \<Rightarrow>
                   and_then (move_claim L ''init_data'' ''init_data_claims'' init_data_claims (m, [])) (\<lambda>st.
                   and_then (move_claim L ''report_data'' ''runtime_data_claims'' runtime_data_claims st)
                     (\<lambda>(m', out). Ok (JObject m', out)))
               | _ \<Rightarrow> Ok (input_claims, [])) (\<lambda>(rest, out).
     and_then (lib_error (raw_value L rest)) (\<lambda>transformed.
     and_then (lib_error (variant_name L tee)) (\<lambda>name.
       Ok (json_insert name transformed out))))"

section \<open>Appraisal\<close>

text \<open>\<^verbatim>\<open>Value::as_i64\<close>, and the loop over the trust claims of the policy result.\<close>

fun as_i64 :: "json \<Rightarrow> int option" where
  "as_i64 (JNumber n) = (if - (2 ^ 63) \<le> n \<and> n < 2 ^ 63 then Some n else None)"
| "as_i64 _ = None"

fun set_trust_claims ::
    "('x, 'k, 'c) ear_lib \<Rightarrow> (string \<times> i8) list \<Rightarrow> json_map \<Rightarrow> (anyhow, (string \<times> i8) list) outcome" where
  "set_trust_claims L tv [] = Ok tv"
| "set_trust_claims L tv ((k, v) # m) =
     and_then (ok_or [''Policy claim value not number''] (as_i64 v)) (\<lambda>claim_value.
       if trust_claim_known L k
       then set_trust_claims L (AList.update k (word_of_int claim_value) tv) m
       else Panic)"

fun set_extensions ::
    "('x, 'k, 'c) ear_lib \<Rightarrow> 'x \<Rightarrow> Extension list \<Rightarrow> (anyhow, 'x) outcome" where
  "set_extensions L x [] = Ok x"
| "set_extensions L x (e # es) =
     and_then (lib_error (raw_value L (ext_value e))) (\<lambda>v.
     and_then (lib_error (extensions_register L x (ext_name e) (ext_key e) v)) (\<lambda>x.
     and_then (lib_error (extensions_set L x (ext_name e) v)) (\<lambda>x.
       set_extensions L x es)))"

fun policy_error_text :: "AsPolicyError \<Rightarrow> string" where
  "policy_error_text (ReadPolicyFileFailed _) = ''Failed to read attestation service policy file''"
| "policy_error_text (AsLoadPolicyFailed e) = ''Failed to load policy: '' @ e"
| "policy_error_text (AsEvalPolicyFailed p e) = ''Failed to evaluate policy `'' @ p @ ''`''"
| "policy_error_text AsInvalidPolicyId = ''Illegal policy id. Only support alphabet, numeric, `-` or `_`''"
| "policy_error_text _ = ''policy error''"

fun as_object :: "json \<Rightarrow> json_map option" where
  "as_object (JObject m) = Some m"
| "as_object _ = None"

lemma as_object_Some [simp]: "as_object v = Some m \<longleftrightarrow> v = JObject m"
  by (cases v) auto

text \<open>One pass of the loop of \<^verbatim>\<open>issue\<close>, up to the choice of the name.\<close>

definition appraise ::
    "('x, 'k, 'c) ear_lib \<Rightarrow> policy_evaluate \<Rightarrow> RvpsClient option \<Rightarrow> string \<Rightarrow> TeeClaims \<Rightarrow>
     (anyhow, 'x Appraisal) outcome" where
  "appraise L ev rvps policy0 t =
     and_then (transform_claims L (tc_claims t) (tc_init_data_claims t) (tc_runtime_data_claims t) (tc_tee t))
       (\<lambda>tcb_claims.
     and_then (lib_error (claims_to_string L tcb_claims)) (\<lambda>tcb_claims_json.
     let policy_id = policy0 @ ''_'' @ tc_class t in
     and_then (map_err (\<lambda>e. [policy_error_text e]) (ev None tcb_claims_json policy_id rvps)) (\<lambda>results.
     and_then (ok_or [''Policy result is not an object''] (as_object (trust_claims results))) (\<lambda>m.
     and_then (set_trust_claims L [] m) (\<lambda>tv.
     if \<not> any_set L tv then bail ''At least one policy claim must be set.''
     else
       and_then (set_extensions L (extensions_new L) (result_extensions results)) (\<lambda>x.
         Ok \<lparr>trust_vector = tv, app_extensions = x, annotated_evidence = tcb_claims,
             app_policy_id = Some policy0, app_status = status_of L tv\<rparr>))))))"

text \<open>\<^verbatim>\<open>*index += 1\<close> on a \<^verbatim>\<open>u8\<close>.\<close>

definition next_index :: "bool \<Rightarrow> (string \<times> byte) list \<Rightarrow> string \<Rightarrow> (anyhow, byte) outcome" where
  "next_index chk indices c =
     (case map_of indices c of
        None \<Rightarrow> Ok 0
      | Some i \<Rightarrow> if chk \<and> i = 255 then Panic else Ok (i + 1))"

fun submods_loop ::
    "('x, 'k, 'c) ear_lib \<Rightarrow> bool \<Rightarrow> policy_evaluate \<Rightarrow> RvpsClient option \<Rightarrow> string \<Rightarrow> (string \<times> byte) list \<Rightarrow>
     (string \<times> 'x Appraisal) list \<Rightarrow> TeeClaims list \<Rightarrow> (anyhow, (string \<times> 'x Appraisal) list) outcome" where
  "submods_loop L chk ev rvps policy0 indices submods [] = Ok submods"
| "submods_loop L chk ev rvps policy0 indices submods (t # ts) =
     and_then (appraise L ev rvps policy0 t) (\<lambda>app.
     and_then (next_index chk indices (tc_class t)) (\<lambda>i.
       submods_loop L chk ev rvps policy0 (AList.update (tc_class t) i indices)
         (AList.update (tc_class t @ fmt_dec (unat i)) app submods) ts))"

section \<open>Issuing\<close>

fun der_chain :: "('x, 'k, 'c) ear_lib \<Rightarrow> as_codec \<Rightarrow> 'c list \<Rightarrow> (anyhow, string list) outcome" where
  "der_chain L J [] = Ok []"
| "der_chain L J (c # cs) =
     and_then (lib_error (cert_der L c)) (\<lambda>der.
     and_then (der_chain L J cs) (\<lambda>rest. Ok (url_b64_encode J der # rest)))"

definition pubkey_jwk ::
    "('x, 'k, 'c) ear_lib \<Rightarrow> as_codec \<Rightarrow> ('k, 'c) EarAttestationTokenBroker \<Rightarrow> (anyhow, EarJwk) outcome" where
  "pubkey_jwk L J self =
     and_then (case broker_cert_chain self of
                 None \<Rightarrow> Ok None | Some certs \<Rightarrow> map_ok Some (der_chain L J certs)) (\<lambda>chain.
     and_then (lib_error (affine_coordinates L (private_key self))) (\<lambda>(x, y).
       Ok \<lparr>jwk_x509_url = cert_url self, jwk_x509_chain = chain, jwk_x = url_b64_encode J x,
           jwk_y = url_b64_encode J y\<rparr>))"

definition issue ::
    "('x, 'k, 'c) ear_lib \<Rightarrow> as_codec \<Rightarrow> bool \<Rightarrow> policy_evaluate \<Rightarrow> int \<Rightarrow>
     ('k, 'c) EarAttestationTokenBroker \<Rightarrow> TeeClaims list \<Rightarrow> string list \<Rightarrow> RvpsClient option \<Rightarrow>
     (anyhow, string) outcome" where
  "issue L J chk ev now self all_tee_claims policy_ids rvps_client =
     (case policy_ids of
        [] \<Rightarrow> bail ''No policy is given for EAR token generation.''
      | policy0 # _ \<Rightarrow>
          and_then (submods_loop L chk ev rvps_client policy0 [] [] all_tee_claims) (\<lambda>submods.
          and_then (ok_or [''Token expiration overflow.''] (add_minutes L now (duration_min (broker_config self))))
            (\<lambda>expiry.
          and_then (lib_error (extensions_register L (extensions_new L) ''exp'' 4 (JNumber expiry))) (\<lambda>x.
          and_then (lib_error (extensions_set L x ''exp'' (JNumber expiry))) (\<lambda>x.
          and_then (pubkey_jwk L J self) (\<lambda>jwk.
            lib_error (sign_jwt L jwk (private_key self)
              \<lparr>ear_profile = profile_name (broker_config self), ear_iat = now,
               ear_build = build_name (broker_config self),
               ear_developer = developer_name (broker_config self),
               ear_submods = submods, ear_extensions = x\<rparr>)))))))"

section \<open>Creating the broker\<close>

text \<open>\<^verbatim>\<open>str::find\<close> and \<^verbatim>\<open>str::split\<close> of a non-empty string.\<close>

fun find_str :: "string \<Rightarrow> string \<Rightarrow> nat option" where
  "find_str p [] = (if p = [] then Some 0 else None)"
| "find_str p (c # s) = (if take (length p) (c # s) = p then Some 0 else map_option Suc (find_str p s))"

lemma find_str_Some: "find_str p s = Some n \<Longrightarrow> n + length p \<le> length s \<and> take (length p) (drop n s) = p"
proof (induction s arbitrary: n)
  case Nil
  then show ?case by (auto split: if_splits)
next
  case (Cons c s)
  show ?case
  proof (cases "take (length p) (c # s) = p")
    case True
    then have "length p \<le> length (c # s)" by (metis length_take min.cobounded1)
    with True Cons.prems show ?thesis by (simp split: if_splits)
  next
    case False
    then show ?thesis using Cons by auto
  qed
qed

function split_str :: "string \<Rightarrow> string \<Rightarrow> string list" where
  "split_str p s =
     (case find_str p s of
        None \<Rightarrow> [s]
      | Some n \<Rightarrow> if p = [] then [s] else take n s # split_str p (drop (n + length p) s))"
  by pat_completeness auto
termination
proof (relation "measure (\<lambda>(p, s). length s)")
  fix p s :: string and n
  assume "find_str p s = Some n" "p \<noteq> []"
  then have "n + length p \<le> length s" "0 < length p" using find_str_Some by auto
  then have "length s - (n + length p) < length s" by linarith
  then show "((p, drop (n + length p) s), p, s) \<in> measure (\<lambda>(p, s). length s)" by simp
qed simp

declare split_str.simps [simp del]

definition END_CERT :: string where
  "END_CERT = ''-----END CERTIFICATE-----''"

definition BEGIN_CERT :: string where
  "BEGIN_CERT = ''-----BEGIN CERTIFICATE-----''"

text \<open>\<^verbatim>\<open>str::trim\<close>, on ASCII white space.\<close>

definition ascii_trim :: "string \<Rightarrow> string" where
  "ascii_trim s =
     (let ws = (\<lambda>c. let n = of_char c :: nat in 9 \<le> n \<and> n \<le> 13 \<or> n = 32) in
      rev (dropWhile ws (rev (dropWhile ws s))))"

fun pem_chain :: "('x, 'k, 'c) ear_lib \<Rightarrow> string list \<Rightarrow> (anyhow, 'c list) outcome" where
  "pem_chain L [] = Ok []"
| "pem_chain L (pem # pems) =
     (let trimmed = ascii_trim pem @ [CHR 0x0A] @ END_CERT in
      if take (length BEGIN_CERT) trimmed \<noteq> BEGIN_CERT then pem_chain L pems
      else
        and_then (map_err (\<lambda>_. [''Invalid PEM certificate chain'']) (x509_of_pem L trimmed)) (\<lambda>cert.
        and_then (pem_chain L pems) (\<lambda>rest. Ok (cert # rest))))"

definition load_signer ::
    "('x, 'k, 'c) ear_lib \<Rightarrow> io_env \<Rightarrow> fs \<Rightarrow> EarTokenConfiguration \<Rightarrow>
     (anyhow, ('k, 'c) EarAttestationTokenBroker) outcome" where
  "load_signer L io f cfg =
     (case signer cfg of
        None \<Rightarrow>
          and_then (lib_error (ec_generate L)) (\<lambda>k.
            Ok \<lparr>broker_config = cfg, private_key = k, cert_url = None, broker_cert_chain = None\<rparr>)
      | Some sg \<Rightarrow>
          and_then (map_err (\<lambda>_. [''Read Token Signer private key failed'']) (read_file io f (path_of (key_path sg))))
            (\<lambda>pem_data.
          and_then (lib_error (ec_key_from_pem L pem_data)) (\<lambda>k.
          and_then (case cert_path sg of
                      None \<Rightarrow> Ok None
                    | Some p \<Rightarrow>
                        and_then (map_err (\<lambda>_. [''Read Token Signer cert file failed''])
                                    (and_then (read_file io f (path_of p)) (\<lambda>b. ok_or IoInvalidData (from_utf8 b))))
                          (\<lambda>text. map_ok Some (pem_chain L (split_str END_CERT text)))) (\<lambda>chain.
            Ok \<lparr>broker_config = cfg, private_key = k, cert_url = signer_cert_url sg,
                broker_cert_chain = chain\<rparr>))))"

text \<open>
  \<^verbatim>\<open>EarAttestationTokenBroker::new\<close>: the two default policies, given as texts, are written unless files
  of their names exist.
\<close>

definition broker_new ::
    "('x, 'k, 'c) ear_lib \<Rightarrow> ('e, 'v, 'y) as_regorus_scheme \<Rightarrow> as_codec \<Rightarrow> io_env \<Rightarrow> fs \<Rightarrow> string \<Rightarrow> string \<Rightarrow>
     EarTokenConfiguration \<Rightarrow> (anyhow, As_OPA \<times> ('k, 'c) EarAttestationTokenBroker) outcome \<times> fs" where
  "broker_new L R J io f cpu_policy gpu_policy cfg =
     (case As_OPA_new io f (path_of (policy_dir cfg)) of
        (Ok opa, f1) \<Rightarrow>
          (case as_opa_set_policy R J io f1 opa ''default_cpu'' (url_b64_encode J (bytes_of cpu_policy)) False of
             (Ok _, f2) \<Rightarrow>
               (case as_opa_set_policy R J io f2 opa ''default_gpu'' (url_b64_encode J (bytes_of gpu_policy)) False of
                  (Ok _, f3) \<Rightarrow> (and_then (load_signer L io f3 cfg) (\<lambda>b. Ok (opa, b)), f3)
                | (Err e, f3) \<Rightarrow> (Err [policy_error_text e], f3)
                | (Panic, f3) \<Rightarrow> (Panic, f3))
           | (Err e, f2) \<Rightarrow> (Err [policy_error_text e], f2)
           | (Panic, f2) \<Rightarrow> (Panic, f2))
      | (Err e, f1) \<Rightarrow> (Err [policy_error_text e], f1)
      | (Panic, f1) \<Rightarrow> (Panic, f1))"

section \<open>Every device is in the token\<close>

definition class_count :: "string \<Rightarrow> TeeClaims list \<Rightarrow> nat" where
  "class_count c ts = length (filter (\<lambda>t. tc_class t = c) ts)"

text \<open>The names \<^verbatim>\<open>issue\<close> gives: the class followed by the number of earlier devices of the class.\<close>

fun submod_names :: "TeeClaims list \<Rightarrow> TeeClaims list \<Rightarrow> string list" where
  "submod_names seen [] = []"
| "submod_names seen (t # ts) =
     (tc_class t @ fmt_dec (class_count (tc_class t) seen)) # submod_names (seen @ [t]) ts"

definition indices_ok :: "TeeClaims list \<Rightarrow> (string \<times> byte) list \<Rightarrow> bool" where
  "indices_ok seen indices \<longleftrightarrow>
     (\<forall>c. class_count c seen \<le> 256 \<and>
        map_of indices c =
          (if class_count c seen = 0 then None else Some (word_of_nat (class_count c seen - 1))))"

lemma class_count_snoc:
  "class_count c (seen @ [t]) = class_count c seen + (if tc_class t = c then 1 else 0)"
  by (simp add: class_count_def)

lemma next_index_count:
  assumes "indices_ok seen indices" and "next_index True indices c = Ok i"
  shows "unat i = class_count c seen" "class_count c seen < 256"
proof -
  let ?n = "class_count c seen"
  have le: "?n \<le> 256"
    and idx: "map_of indices c = (if ?n = 0 then None else Some (word_of_nat (?n - 1)))"
    using assms(1) by (auto simp: indices_ok_def)
  have "unat i = ?n \<and> ?n < 256"
  proof (cases "?n = 0")
    case True
    then show ?thesis using assms(2) idx by (auto simp: next_index_def)
  next
    case False
    let ?w = "word_of_nat (?n - 1) :: byte"
    have "unat ?w = (?n - 1) mod 256" by (simp only: unat_of_nat) simp
    then have w: "unat ?w = ?n - 1" using False le by simp
    have "?w \<noteq> 255" and i: "i = ?w + 1"
      using assms(2) idx False by (auto simp: next_index_def split: if_splits)
    then have "?n - 1 \<noteq> 255" by (metis of_nat_numeral)
    then have lt: "?n < 256" using le False by linarith
    have "unat (?w + 1) = (?n - 1 + 1) mod 256" using w by (simp add: unat_word_ariths)
    then show ?thesis using lt False i by simp
  qed
  then show "unat i = ?n" "?n < 256" by auto
qed

lemma indices_ok_step:
  assumes "indices_ok seen indices" and "next_index True indices (tc_class t) = Ok i"
  shows "indices_ok (seen @ [t]) (AList.update (tc_class t) i indices)"
proof -
  have "i = word_of_nat (class_count (tc_class t) seen)"
    using next_index_count(1) [OF assms, symmetric] by simp
  then show ?thesis
    using next_index_count(2) [OF assms] assms(1)
    by (auto simp: indices_ok_def class_count_snoc update_conv')
qed

definition put_all :: "(string \<times> 'a) list \<Rightarrow> (string \<times> 'a) list \<Rightarrow> (string \<times> 'a) list" where
  "put_all m kvs = foldl (\<lambda>m (k, v). AList.update k v m) m kvs"

lemma submods_loop_result:
  assumes "submods_loop L True ev rvps p indices submods ts = Ok s" and "indices_ok seen indices"
  shows "\<exists>apps. list_all2 (\<lambda>t a. appraise L ev rvps p t = Ok a) ts apps \<and>
    s = put_all submods (zip (submod_names seen ts) apps)"
  using assms
proof (induction ts arbitrary: indices submods seen)
  case Nil
  then show ?case by (simp add: put_all_def)
next
  case (Cons t ts)
  from Cons.prems(1) obtain app i where app: "appraise L ev rvps p t = Ok app"
    and i: "next_index True indices (tc_class t) = Ok i"
    and rest: "submods_loop L True ev rvps p (AList.update (tc_class t) i indices)
      (AList.update (tc_class t @ fmt_dec (unat i)) app submods) ts = Ok s"
    by (auto simp: outcome_iff)
  obtain apps where "list_all2 (\<lambda>t a. appraise L ev rvps p t = Ok a) ts apps"
    "s = put_all (AList.update (tc_class t @ fmt_dec (unat i)) app submods)
      (zip (submod_names (seen @ [t]) ts) apps)"
    using Cons.IH [OF rest indices_ok_step [OF Cons.prems(2) i]] by blast
  then show ?case
    using app next_index_count(1) [OF Cons.prems(2) i]
    by (intro exI [of _ "app # apps"]) (simp add: put_all_def)
qed

text \<open>Names are distinct when no class name contains a digit.\<close>

definition is_digit_char :: "char \<Rightarrow> bool" where
  "is_digit_char c \<longleftrightarrow> 48 \<le> (of_char c :: nat) \<and> (of_char c :: nat) \<le> 57"

lemma fmt_dec_digits: "c \<in> set (fmt_dec n) \<Longrightarrow> is_digit_char c"
proof -
  assume "c \<in> set (fmt_dec n)"
  then obtain d where "d \<in> set (digits 10 n)" and c: "c = digit_char False d"
    by (auto simp: fmt_dec_def)
  then have "d < 10" using digits_less [of 10 n] by auto
  then show ?thesis using c by (simp add: digit_char_def is_digit_char_def of_char_of)
qed

lemma class_name_split:
  assumes "list_all (\<lambda>c. \<not> is_digit_char c) a" and "list_all (\<lambda>c. \<not> is_digit_char c) b"
    and "a @ fmt_dec m = b @ fmt_dec n"
  shows "a = b \<and> m = n"
proof -
  have take: "takeWhile (\<lambda>c. \<not> is_digit_char c) (x @ fmt_dec k) = x"
    if "list_all (\<lambda>c. \<not> is_digit_char c) x" for x k
  proof -
    have "takeWhile (\<lambda>c. \<not> is_digit_char c) (fmt_dec k) = []"
      using fmt_dec_digits [of _ k] by (cases "fmt_dec k") auto
    then show ?thesis using that by (simp add: takeWhile_append list_all_iff)
  qed
  have "a = b" using take [OF assms(1), of m] take [OF assms(2), of n] assms(3) by simp
  then show ?thesis using assms(3) fmt_dec_inj by simp
qed

lemma submod_names_later:
  assumes "list_all (\<lambda>t. list_all (\<lambda>c. \<not> is_digit_char c) (tc_class t)) ts"
    and "list_all (\<lambda>c. \<not> is_digit_char c) a" and "a @ fmt_dec n \<in> set (submod_names seen ts)"
  shows "class_count a seen \<le> n"
  using assms
proof (induction ts arbitrary: seen)
  case Nil
  then show ?case by simp
next
  case (Cons t ts)
  show ?case
  proof (cases "a @ fmt_dec n \<in> set (submod_names (seen @ [t]) ts)")
    case True
    then have "class_count a (seen @ [t]) \<le> n" using Cons by simp
    then show ?thesis by (simp add: class_count_snoc split: if_splits)
  next
    case False
    then have "a @ fmt_dec n = tc_class t @ fmt_dec (class_count (tc_class t) seen)"
      using Cons.prems(3) by simp
    then have "a = tc_class t \<and> n = class_count (tc_class t) seen"
      by (intro class_name_split) (use Cons.prems in simp_all)
    then show ?thesis by simp
  qed
qed

lemma distinct_submod_names:
  assumes "list_all (\<lambda>t. list_all (\<lambda>c. \<not> is_digit_char c) (tc_class t)) ts"
  shows "distinct (submod_names seen ts)"
  using assms
proof (induction ts arbitrary: seen)
  case Nil
  then show ?case by simp
next
  case (Cons t ts)
  have "tc_class t @ fmt_dec (class_count (tc_class t) seen) \<notin> set (submod_names (seen @ [t]) ts)"
  proof
    assume "tc_class t @ fmt_dec (class_count (tc_class t) seen) \<in> set (submod_names (seen @ [t]) ts)"
    then have "class_count (tc_class t) (seen @ [t]) \<le> class_count (tc_class t) seen"
      using Cons.prems by (intro submod_names_later [of ts]) simp_all
    then show False by (simp add: class_count_snoc)
  qed
  then show ?case using Cons by simp
qed

lemma length_submod_names [simp]: "length (submod_names seen ts) = length ts"
  by (induction ts arbitrary: seen) auto

lemma put_all_fresh:
  assumes "distinct ks" and "length ks = length vs" and "set ks \<inter> fst ` set m = {}"
  shows "put_all m (zip ks vs) = m @ zip ks vs"
  using assms
proof (induction ks vs arbitrary: m rule: list_induct2')
  case (4 k ks v vs)
  have upd: "AList.update k v m = m @ [(k, v)]"
    using "4.prems"(3) by (induction m) auto
  have "put_all (m @ [(k, v)]) (zip ks vs) = (m @ [(k, v)]) @ zip ks vs"
    using "4.prems" by (intro "4.IH") auto
  then show ?case by (simp add: put_all_def upd)
qed (simp_all add: put_all_def)

lemma submods_all:
  assumes "submods_loop L True ev rvps p [] [] ts = Ok s"
    and "list_all (\<lambda>t. list_all (\<lambda>c. \<not> is_digit_char c) (tc_class t)) ts"
  obtains apps where "list_all2 (\<lambda>t a. appraise L ev rvps p t = Ok a) ts apps"
    "s = zip (submod_names [] ts) apps"
proof -
  have "indices_ok [] []" by (simp add: indices_ok_def class_count_def)
  then obtain apps where apps: "list_all2 (\<lambda>t a. appraise L ev rvps p t = Ok a) ts apps"
    "s = put_all [] (zip (submod_names [] ts) apps)"
    using submods_loop_result [OF assms(1)] by blast
  then show thesis
    using that put_all_fresh [OF distinct_submod_names [OF assms(2)], where vs = apps and m = "[]"]
    by (simp add: list_all2_lengthD)
qed

lemma issue_Ok:
  assumes "issue L J chk ev now self claims pids rvps = Ok token"
  obtains p ps submods x jwk where "pids = p # ps"
    "submods_loop L chk ev rvps p [] [] claims = Ok submods"
    "sign_jwt L jwk (private_key self)
      \<lparr>ear_profile = profile_name (broker_config self), ear_iat = now,
       ear_build = build_name (broker_config self),
       ear_developer = developer_name (broker_config self),
       ear_submods = submods, ear_extensions = x\<rparr> = Ok token"
proof (cases pids)
  case Nil
  then show thesis using assms by (simp add: issue_def bail_def)
next
  case (Cons p ps)
  with assms that show thesis
    unfolding issue_def by (auto simp: outcome_iff)
qed

lemma appraise_Ok:
  assumes "appraise L ev rvps p t = Ok app"
  obtains input results m where
    "transform_claims L (tc_claims t) (tc_init_data_claims t) (tc_runtime_data_claims t) (tc_tee t) =
       Ok (annotated_evidence app)"
    "claims_to_string L (annotated_evidence app) = Ok input"
    "ev None input (p @ ''_'' @ tc_class t) rvps = Ok results" "trust_claims results = JObject m"
    "set_trust_claims L [] m = Ok (trust_vector app)" "any_set L (trust_vector app)"
    "app_policy_id app = Some p" "app_status app = status_of L (trust_vector app)"
  using assms unfolding appraise_def Let_def
  by (auto simp: outcome_iff bail_def split: if_splits)

text \<open>A value outside 8 bits is reduced; a name the trust vector does not have is a panic.\<close>

lemma set_trust_claims_value:
  assumes "set_trust_claims L tv m = Ok tv'" and "distinct (map fst m)" and "(k, v) \<in> set m"
  shows "\<exists>n. as_i64 v = Some n \<and> trust_claim_known L k \<and> map_of tv' k = Some (word_of_int n)"
  using assms
proof (induction m arbitrary: tv)
  case Nil
  then show ?case by simp
next
  case (Cons kv m)
  obtain k0 v0 where kv: "kv = (k0, v0)" by (cases kv)
  from Cons.prems(1) obtain n where n: "as_i64 v0 = Some n" "trust_claim_known L k0"
    "set_trust_claims L (AList.update k0 (word_of_int n) tv) m = Ok tv'"
    by (auto simp: kv outcome_iff split: if_splits)
  have keep: "map_of tv'' k = map_of tv1 k"
    if "set_trust_claims L tv1 m1 = Ok tv''" "k \<notin> fst ` set m1" for tv1 tv'' m1 k
    using that
  proof (induction m1 arbitrary: tv1)
    case Nil
    then show ?case by simp
  next
    case (Cons a m1)
    then show ?case by (cases a) (auto simp: outcome_iff update_conv' split: if_splits)
  qed
  show ?case
  proof (cases "(k, v) = kv")
    case True
    then have "k \<notin> fst ` set m" using Cons.prems(2) by (auto simp: kv)
    then show ?thesis using keep [OF n(3)] True n by (auto simp: kv update_conv')
  next
    case False
    then show ?thesis using Cons.IH [OF n(3)] Cons.prems by auto
  qed
qed

end
