(* ===== verification/As_Wasm.thy ===== *)
theory As_Wasm
  imports Wasm_Components
begin

text \<open>
  The host of WebAssembly verifier components (\<^verbatim>\<open>attestation-service/src/wasm_verifier/mod.rs\<close>): the
  registry of components, in memory and on disk, and the evaluation of evidence by a component. Wasmtime, the
  signature checker and the index codec are parameters.

  \<^verbatim>\<open>register_component\<close> holds no lock between its lookups, its file writes and the writing of the index, so
  besides the sequential \<open>register_component\<close> there is a step relation \<open>reg_step\<close> that interleaves
  concurrent registrations.
\<close>

section \<open>Types\<close>

record RegistryEntry =
  entry_component_id :: string
  entry_sha256 :: string
  entry_filename :: string

record RegistryIndex =
  idx_by_id :: "(string \<times> RegistryEntry) list"
  idx_by_hash :: "(string \<times> string) list"

record 'm RegistryState =
  by_id :: "(string \<times> RegistryEntry) list"
  by_hash :: "(string \<times> string) list"
  compiled :: "(string \<times> 'm) list"

definition RegistryState_default :: "'m RegistryState" where
  "RegistryState_default = \<lparr>by_id = [], by_hash = [], compiled = []\<rparr>"

text \<open>\<^verbatim>\<open>ResolvedConfig\<close> and the other field of the host that never changes, its \<^verbatim>\<open>PublicKeySet\<close>.\<close>

record ResolvedConfig =
  allow_unsigned :: bool
  registry_dir :: path
  wasi_cache_dir :: path
  trusted_keys :: "bytes list option"

record WasmVerifierConfig =
  wasm_enabled :: bool
  cfg_allow_unsigned :: bool
  trusted_public_keys :: "path list"
  cfg_registry_dir :: "path option"
  default_component_id :: "string option"
  cfg_wasi_cache_dir :: "path option"
  wasmtime_cache_config :: "path option"

text \<open>\<open>key_of_file\<close> reads a public key and \<open>keys_verify\<close> checks a signature against a set of them;
  \<open>run_component\<close> instantiates a component with its cache directory and calls its \<^verbatim>\<open>evaluate\<close>.\<close>

record 'm wasm_lib =
  key_of_file :: "fs \<Rightarrow> path \<Rightarrow> (string, bytes) outcome"
  keys_verify :: "bytes list \<Rightarrow> bytes \<Rightarrow> (string, unit) outcome"
  engine_of_cache_config :: "fs \<Rightarrow> path \<Rightarrow> (string, unit) outcome"
  component_from_binary :: "bytes \<Rightarrow> (string, 'm) outcome"
  index_to_vec :: "RegistryIndex \<Rightarrow> (string, bytes) outcome"
  index_from_slice :: "bytes \<Rightarrow> RegistryIndex option"
  evidence_to_vec :: "json \<Rightarrow> (string, bytes) outcome"
  run_component :: "'m \<Rightarrow> path \<Rightarrow> bytes \<Rightarrow> OptionalData \<Rightarrow> OptionalData \<Rightarrow> (string, string) outcome"

record 'm wasm_host =
  registry :: "'m RegistryState"
  host_fs :: fs

section \<open>The registry on disk\<close>

text \<open>\<^verbatim>\<open>fs::rename\<close> of a file; a fault of the move is a fault of removing the source.\<close>

definition rename_file :: "io_env \<Rightarrow> fs \<Rightarrow> path \<Rightarrow> path \<Rightarrow> (io_error, unit) outcome \<times> fs" where
  "rename_file io f a b =
     (if remove_fault io a then (Err IoFault, f)
      else
        (case map_of f a of
           Some (FileNode x) \<Rightarrow>
             if is_dir f b then (Err IoIsADirectory, f)
             else (Ok (), AList.update b (FileNode x) (AList.delete a f))
         | Some DirNode \<Rightarrow> (Err IoIsADirectory, f)
         | None \<Rightarrow> (Err IoNotFound, f)))"

definition persist_registry_index ::
    "'m wasm_lib \<Rightarrow> io_env \<Rightarrow> fs \<Rightarrow> path \<Rightarrow> RegistryIndex \<Rightarrow> (anyhow, unit) outcome \<times> fs" where
  "persist_registry_index W io f dir idx =
     (case with_context ''serialize registry index'' (lib_error (index_to_vec W idx)) of
        Err e \<Rightarrow> (Err e, f)
      | Panic \<Rightarrow> (Panic, f)
      | Ok data \<Rightarrow>
          let p = dir @ [''index.json'']; tmp = dir @ [''index.json.tmp''] in
          (case write_file io f tmp data of
             (Ok _, f1) \<Rightarrow>
               let (r, f2) = rename_file io f1 tmp p in (map_err (\<lambda>_. [''rename index'']) r, f2)
           | (Err _, f1) \<Rightarrow> (Err [''write index''], f1)
           | (Panic, f1) \<Rightarrow> (Panic, f1)))"

fun load_entries :: "io_env \<Rightarrow> fs \<Rightarrow> path \<Rightarrow> 'm RegistryState \<Rightarrow> (string \<times> RegistryEntry) list \<Rightarrow> 'm RegistryState" where
  "load_entries io f dir st [] = st"
| "load_entries io f dir st ((i, e) # es) =
     (if exists_path f (dir @ [entry_filename e]) then
        load_entries io f dir
          (st\<lparr>by_hash := AList.update (entry_sha256 e) (entry_component_id e) (by_hash st),
              by_id := AList.update i e (by_id st)\<rparr>) es
      else load_entries io f dir st es)"

definition load_registry_index ::
    "'m wasm_lib \<Rightarrow> io_env \<Rightarrow> fs \<Rightarrow> path \<Rightarrow> (anyhow, 'm RegistryState) outcome" where
  "load_registry_index W io f dir =
     (case read_file io f (dir @ [''index.json'']) of
        Ok b \<Rightarrow>
          and_then (ok_or [''parse index.json''] (index_from_slice W b)) (\<lambda>idx.
            Ok (load_entries io f dir RegistryState_default (idx_by_id idx)))
      | _ \<Rightarrow> Ok RegistryState_default)"

section \<open>Creating the host\<close>

fun load_keys :: "'m wasm_lib \<Rightarrow> fs \<Rightarrow> bytes list \<Rightarrow> path list \<Rightarrow> (anyhow, bytes list) outcome" where
  "load_keys W f ks [] = Ok ks"
| "load_keys W f ks (p # ps) =
     and_then (map_err (\<lambda>e. [''load trusted key: '' @ e]) (key_of_file W f p)) (\<lambda>k. load_keys W f (List.insert k ks) ps)"

definition host_keys :: "'m wasm_lib \<Rightarrow> fs \<Rightarrow> WasmVerifierConfig \<Rightarrow> (anyhow, bytes list option) outcome" where
  "host_keys W f c =
     (if cfg_allow_unsigned c then Ok None
      else
        and_then (load_keys W f [] (trusted_public_keys c)) (\<lambda>ks.
          if ks = []
          then bail ''wasm_verifier.enabled is true and allow_unsigned is false, but no trusted_public_keys are configured''
          else Ok (Some ks)))"

text \<open>The directories \<^verbatim>\<open>new\<close> makes, in its order, each with the error of the first that fails.\<close>

fun make_dirs :: "io_env \<Rightarrow> fs \<Rightarrow> path list \<Rightarrow> (anyhow, unit) outcome \<times> fs" where
  "make_dirs io f [] = (Ok (), f)"
| "make_dirs io f (d # ds) =
     (case create_dir_all io f d of
        (Ok _, f') \<Rightarrow> make_dirs io f' ds
      | (Err _, f') \<Rightarrow> (Err [''create directory''], f')
      | (Panic, f') \<Rightarrow> (Panic, f'))"

definition cache_toml :: "path \<Rightarrow> bytes" where
  "cache_toml d =
     bytes_of (''[cache]'' @ [CHR 0x0A] @ ''directory = '' @ [CHR 0x22] @ concat (map (\<lambda>c. CHR ''/'' # c) d) @
               [CHR 0x22, CHR 0x0A])"

definition host_new ::
    "'m wasm_lib \<Rightarrow> io_env \<Rightarrow> path \<Rightarrow> WasmVerifierConfig \<Rightarrow> fs \<Rightarrow>
     (anyhow, (ResolvedConfig \<times> 'm RegistryState) option) outcome \<times> fs" where
  "host_new W io work c f =
     (if \<not> wasm_enabled c then (Ok None, f)
      else
        let rdir = (case cfg_registry_dir c of Some d \<Rightarrow> d | None \<Rightarrow> work @ [''components'']);
            wdir = (case cfg_wasi_cache_dir c of Some d \<Rightarrow> d | None \<Rightarrow> work @ [''wasm-cache'']);
            cpath = (case wasmtime_cache_config c of Some p \<Rightarrow> p | None \<Rightarrow> work @ [''wasmtime-cache.toml'']);
            cdir = work @ [''wasmtime-cache'']
        in
        (case make_dirs io f ([rdir, wdir] @ (if cpath = [] then [] else [butlast cpath]) @ [cdir]) of
           (Err e, f1) \<Rightarrow> (Err e, f1)
         | (Panic, f1) \<Rightarrow> (Panic, f1)
         | (Ok _, f1) \<Rightarrow>
             (case if exists_path f1 cpath then (Ok (), f1) else write_file io f1 cpath (cache_toml cdir) of
                (Err _, f2) \<Rightarrow> (Err [''write cache config''], f2)
              | (Panic, f2) \<Rightarrow> (Panic, f2)
              | (Ok _, f2) \<Rightarrow>
                  (and_then (lib_error (engine_of_cache_config W f2 cpath)) (\<lambda>_.
                   and_then (host_keys W f2 c) (\<lambda>ks.
                   and_then (load_registry_index W io f2 rdir) (\<lambda>st.
                     Ok (Some (\<lparr>allow_unsigned = cfg_allow_unsigned c, registry_dir = rdir,
                                 wasi_cache_dir = wdir, trusted_keys = ks\<rparr>, st))))), f2))))"

section \<open>Registration\<close>

definition sha256_hex :: "crates \<Rightarrow> bytes \<Rightarrow> string" where
  "sha256_hex E data = hex_encode E (sha256 E data)"

definition verify_component_signature ::
    "'m wasm_lib \<Rightarrow> ResolvedConfig \<Rightarrow> bytes \<Rightarrow> (anyhow, unit) outcome" where
  "verify_component_signature W cfg b =
     (if allow_unsigned cfg then Ok ()
      else
        (case trusted_keys cfg of
           None \<Rightarrow> bail ''no trusted keys configured''
         | Some ks \<Rightarrow> map_err (\<lambda>e. [''component signature invalid: '' @ e]) (keys_verify W ks b)))"

text \<open>The phases of \<^verbatim>\<open>register_component\<close>: up to the compilation, and under the write lock.\<close>

datatype 'm checked = Existing string | Compiled 'm

definition reg_check ::
    "crates \<Rightarrow> 'm wasm_lib \<Rightarrow> ResolvedConfig \<Rightarrow> 'm RegistryState \<Rightarrow> bytes \<Rightarrow> (anyhow, 'm checked) outcome" where
  "reg_check E W cfg st b =
     and_then (with_context ''verify component signature'' (verify_component_signature W cfg b)) (\<lambda>_.
       (case map_of (by_hash st) (sha256_hex E b) of
          Some existing \<Rightarrow> Ok (Existing existing)
        | None \<Rightarrow>
            and_then (with_context ''compile component'' (lib_error (component_from_binary W b))) (\<lambda>m.
              Ok (Compiled m))))"

definition component_path :: "ResolvedConfig \<Rightarrow> string \<Rightarrow> path" where
  "component_path cfg cid = registry_dir cfg @ [cid @ ''.wasm'']"

definition reg_insert :: "string \<Rightarrow> string \<Rightarrow> 'm \<Rightarrow> 'm RegistryState \<Rightarrow> 'm RegistryState" where
  "reg_insert cid sha m st =
     st\<lparr>by_id := AList.update cid
          \<lparr>entry_component_id = cid, entry_sha256 = sha, entry_filename = cid @ ''.wasm''\<rparr> (by_id st),
        by_hash := AList.update sha cid (by_hash st),
        compiled := AList.update cid m (compiled st)\<rparr>"

definition snapshot :: "'m RegistryState \<Rightarrow> RegistryIndex" where
  "snapshot st = \<lparr>idx_by_id = by_id st, idx_by_hash = by_hash st\<rparr>"

text \<open>\<open>uuid\<close> is the result of \<^verbatim>\<open>Uuid::new_v4\<close>.\<close>

definition register_component ::
    "crates \<Rightarrow> 'm wasm_lib \<Rightarrow> io_env \<Rightarrow> ResolvedConfig \<Rightarrow> string \<Rightarrow> 'm wasm_host \<Rightarrow> bytes \<Rightarrow>
     (anyhow, string) outcome \<times> 'm wasm_host" where
  "register_component E W io cfg uuid h b =
     (case reg_check E W cfg (registry h) b of
        Err e \<Rightarrow> (Err e, h)
      | Panic \<Rightarrow> (Panic, h)
      | Ok (Existing i) \<Rightarrow> (Ok i, h)
      | Ok (Compiled m) \<Rightarrow>
          (case write_file io (host_fs h) (component_path cfg uuid) b of
             (Err _, f1) \<Rightarrow> (Err [''write component''], h\<lparr>host_fs := f1\<rparr>)
           | (Panic, f1) \<Rightarrow> (Panic, h\<lparr>host_fs := f1\<rparr>)
           | (Ok _, f1) \<Rightarrow>
               (case map_of (by_hash (registry h)) (sha256_hex E b) of
                  Some existing \<Rightarrow>
                    (Ok existing, h\<lparr>host_fs := snd (remove_file io f1 (component_path cfg uuid))\<rparr>)
                | None \<Rightarrow>
                    let st = reg_insert uuid (sha256_hex E b) m (registry h);
                        (r, f2) = persist_registry_index W io f1 (registry_dir cfg) (snapshot st)
                    in (map_ok (\<lambda>_. uuid) r, h\<lparr>registry := st, host_fs := f2\<rparr>))))"

section \<open>Evaluation\<close>

definition get_component_bytes ::
    "io_env \<Rightarrow> ResolvedConfig \<Rightarrow> 'm wasm_host \<Rightarrow> string \<Rightarrow> (anyhow, bytes) outcome" where
  "get_component_bytes io cfg h cid =
     and_then (ok_or [''unknown component_id '' @ cid] (map_of (by_id (registry h)) cid)) (\<lambda>entry.
       map_err (\<lambda>_. [''read component'']) (read_file io (host_fs h) (registry_dir cfg @ [entry_filename entry])))"

definition get_compiled_component ::
    "'m wasm_lib \<Rightarrow> io_env \<Rightarrow> ResolvedConfig \<Rightarrow> 'm wasm_host \<Rightarrow> string \<Rightarrow>
     (anyhow, 'm) outcome \<times> 'm wasm_host" where
  "get_compiled_component W io cfg h cid =
     (case map_of (compiled (registry h)) cid of
        Some m \<Rightarrow> (Ok m, h)
      | None \<Rightarrow>
          (case and_then (get_component_bytes io cfg h cid) (\<lambda>b.
                with_context ''compile component'' (lib_error (component_from_binary W b))) of
             Ok m \<Rightarrow>
               (Ok m, h\<lparr>registry := (registry h)\<lparr>compiled := AList.update cid m (compiled (registry h))\<rparr>\<rparr>)
           | Err e \<Rightarrow> (Err e, h)
           | Panic \<Rightarrow> (Panic, h)))"

definition resolve_component ::
    "crates \<Rightarrow> 'm wasm_lib \<Rightarrow> io_env \<Rightarrow> ResolvedConfig \<Rightarrow> string \<Rightarrow> 'm wasm_host \<Rightarrow> string option \<Rightarrow> bytes option \<Rightarrow>
     (anyhow, 'm \<times> string) outcome \<times> 'm wasm_host" where
  "resolve_component E W io cfg uuid h cid component_bytes =
     (case component_bytes of
        Some b \<Rightarrow>
          (case register_component E W io cfg uuid h b of
             (Ok i, h1) \<Rightarrow>
               (let (r, h2) = get_compiled_component W io cfg h1 i in (map_ok (\<lambda>m. (m, i)) r, h2))
           | (Err e, h1) \<Rightarrow> (Err e, h1)
           | (Panic, h1) \<Rightarrow> (Panic, h1))
      | None \<Rightarrow>
          (case cid of
             None \<Rightarrow> (bail ''no component_id or component bytes provided'', h)
           | Some i \<Rightarrow>
               (let (r, h1) = get_compiled_component W io cfg h i in (map_ok (\<lambda>m. (m, i)) r, h1))))"

definition opt_data :: "bytes option \<Rightarrow> OptionalData" where
  "opt_data x = (case x of Some v \<Rightarrow> OptValue v | None \<Rightarrow> OptNotProvided)"

definition cache_dir_for_component :: "ResolvedConfig \<Rightarrow> string \<Rightarrow> path" where
  "cache_dir_for_component cfg cid = wasi_cache_dir cfg @ [''dcap-qvl-'' @ cid]"

definition host_evaluate ::
    "crates \<Rightarrow> 'm wasm_lib \<Rightarrow> io_env \<Rightarrow> ResolvedConfig \<Rightarrow> string \<Rightarrow> 'm wasm_host \<Rightarrow> string option \<Rightarrow> bytes option \<Rightarrow>
     json \<Rightarrow> bytes option \<Rightarrow> bytes option \<Rightarrow> (anyhow, json) outcome \<times> 'm wasm_host" where
  "host_evaluate E W io cfg uuid h cid component_bytes evidence expected_report expected_init =
     (let (r, h1) = resolve_component E W io cfg uuid h cid component_bytes in
      case with_context ''resolve component'' r of
        Err e \<Rightarrow> (Err e, h1)
      | Panic \<Rightarrow> (Panic, h1)
      | Ok (m, i) \<Rightarrow>
          (case with_context ''serialize evidence JSON'' (lib_error (evidence_to_vec W evidence)) of
             Err e \<Rightarrow> (Err e, h1)
           | Panic \<Rightarrow> (Panic, h1)
           | Ok evidence_bytes \<Rightarrow>
               (case create_dir_all io (host_fs h1) (cache_dir_for_component cfg i) of
                  (Err _, f1) \<Rightarrow> (Err [''create cache directory''], h1\<lparr>host_fs := f1\<rparr>)
                | (Panic, f1) \<Rightarrow> (Panic, h1\<lparr>host_fs := f1\<rparr>)
                | (Ok _, f1) \<Rightarrow>
                    (and_then (lib_error (run_component W m (cache_dir_for_component cfg i) evidence_bytes
                                 (opt_data expected_report) (opt_data expected_init))) (\<lambda>out.
                     and_then (ok_or [''component returned non-JSON string''] (json_from_str E out)) (\<lambda>value.
                     if json_get value ''error'' \<noteq> None
                     then bail ''wasm verifier reported failure'' else Ok value)),
                     h1\<lparr>host_fs := f1\<rparr>))))"

section \<open>Concurrent registrations\<close>

text \<open>
  A registration in progress: compiled, its file written, committed with the index it will persist, or
  returned, or failed in one of its file operations. A step does one phase of one registration.
\<close>

datatype 'm reg_task =
    Checked bytes 'm
  | Written bytes 'm string
  | Committed bytes string RegistryIndex
  | Returned bytes string
  | Failed

record 'm reg_sys =
  sys_registry :: "'m RegistryState"
  sys_fs :: fs
  sys_tasks :: "'m reg_task list"

fun task_uuid :: "'m reg_task \<Rightarrow> string option" where
  "task_uuid (Checked _ _) = None"
| "task_uuid (Written _ _ u) = Some u"
| "task_uuid (Committed _ u _) = Some u"
| "task_uuid (Returned _ u) = Some u"
| "task_uuid Failed = None"

text \<open>\<^verbatim>\<open>Uuid::new_v4\<close> gives an id nobody has.\<close>

definition fresh_uuid :: "string \<Rightarrow> 'm reg_sys \<Rightarrow> bool" where
  "fresh_uuid u s \<longleftrightarrow>
     map_of (by_id (sys_registry s)) u = None \<and> Some u \<notin> task_uuid ` set (sys_tasks s)"

inductive reg_step ::
    "crates \<Rightarrow> 'm wasm_lib \<Rightarrow> io_env \<Rightarrow> ResolvedConfig \<Rightarrow> 'm reg_sys \<Rightarrow> 'm reg_sys \<Rightarrow> bool"
  for E W io cfg where
  reg_found:
    "reg_check E W cfg (sys_registry s) b = Ok (Existing i) \<Longrightarrow>
     reg_step E W io cfg s (s\<lparr>sys_tasks := sys_tasks s @ [Returned b i]\<rparr>)"
| reg_compiled:
    "reg_check E W cfg (sys_registry s) b = Ok (Compiled m) \<Longrightarrow>
     reg_step E W io cfg s (s\<lparr>sys_tasks := sys_tasks s @ [Checked b m]\<rparr>)"
| reg_write:
    "n < length (sys_tasks s) \<Longrightarrow> sys_tasks s ! n = Checked b m \<Longrightarrow> fresh_uuid u s \<Longrightarrow>
     write_file io (sys_fs s) (component_path cfg u) b = (Ok (), f) \<Longrightarrow>
     reg_step E W io cfg s (s\<lparr>sys_fs := f, sys_tasks := (sys_tasks s)[n := Written b m u]\<rparr>)"
| reg_raced:
    "n < length (sys_tasks s) \<Longrightarrow> sys_tasks s ! n = Written b m u \<Longrightarrow>
     map_of (by_hash (sys_registry s)) (sha256_hex E b) = Some i \<Longrightarrow>
     reg_step E W io cfg s
       (s\<lparr>sys_fs := snd (remove_file io (sys_fs s) (component_path cfg u)),
          sys_tasks := (sys_tasks s)[n := Returned b i]\<rparr>)"
| reg_commit:
    "n < length (sys_tasks s) \<Longrightarrow> sys_tasks s ! n = Written b m u \<Longrightarrow>
     map_of (by_hash (sys_registry s)) (sha256_hex E b) = None \<Longrightarrow>
     st = reg_insert u (sha256_hex E b) m (sys_registry s) \<Longrightarrow>
     reg_step E W io cfg s
       (s\<lparr>sys_registry := st, sys_tasks := (sys_tasks s)[n := Committed b u (snapshot st)]\<rparr>)"
| reg_persist:
    "n < length (sys_tasks s) \<Longrightarrow> sys_tasks s ! n = Committed b u idx \<Longrightarrow>
     persist_registry_index W io (sys_fs s) (registry_dir cfg) idx = (Ok (), f) \<Longrightarrow>
     reg_step E W io cfg s (s\<lparr>sys_fs := f, sys_tasks := (sys_tasks s)[n := Returned b u]\<rparr>)"
| reg_write_fails:
    "n < length (sys_tasks s) \<Longrightarrow> sys_tasks s ! n = Checked b m \<Longrightarrow>
     write_file io (sys_fs s) (component_path cfg u) b = (Err e, f) \<Longrightarrow>
     reg_step E W io cfg s (s\<lparr>sys_fs := f, sys_tasks := (sys_tasks s)[n := Failed]\<rparr>)"
| reg_persist_fails:
    "n < length (sys_tasks s) \<Longrightarrow> sys_tasks s ! n = Committed b u idx \<Longrightarrow>
     persist_registry_index W io (sys_fs s) (registry_dir cfg) idx = (Err e', f) \<Longrightarrow>
     reg_step E W io cfg s (s\<lparr>sys_fs := f, sys_tasks := (sys_tasks s)[n := Failed]\<rparr>)"

definition reg_init :: "fs \<Rightarrow> 'm reg_sys" where
  "reg_init f = \<lparr>sys_registry = RegistryState_default, sys_fs = f, sys_tasks = []\<rparr>"

text \<open>Bytes whose signature the host accepts.\<close>

definition accepted :: "'m wasm_lib \<Rightarrow> ResolvedConfig \<Rightarrow> bytes \<Rightarrow> bool" where
  "accepted W cfg b \<longleftrightarrow> verify_component_signature W cfg b = Ok ()"

text \<open>
  The invariant: the two maps of the registry are inverse to each other, a committed or returned
  registration is in them, and every compiled component was made of accepted bytes.
\<close>

fun task_ok :: "crates \<Rightarrow> 'm wasm_lib \<Rightarrow> ResolvedConfig \<Rightarrow> 'm RegistryState \<Rightarrow> 'm reg_task \<Rightarrow> bool" where
  "task_ok E W cfg st (Checked b m) \<longleftrightarrow> accepted W cfg b \<and> component_from_binary W b = Ok m"
| "task_ok E W cfg st (Written b m u) \<longleftrightarrow>
     accepted W cfg b \<and> component_from_binary W b = Ok m \<and> map_of (by_id st) u = None"
| "task_ok E W cfg st (Committed b u idx) \<longleftrightarrow>
     accepted W cfg b \<and> map_of (by_hash st) (sha256_hex E b) = Some u"
| "task_ok E W cfg st (Returned b u) \<longleftrightarrow>
     accepted W cfg b \<and> map_of (by_hash st) (sha256_hex E b) = Some u"
| "task_ok E W cfg st Failed \<longleftrightarrow> True"

definition maps_ok :: "'m RegistryState \<Rightarrow> bool" where
  "maps_ok st \<longleftrightarrow>
     (\<forall>sha i. map_of (by_hash st) sha = Some i \<longleftrightarrow>
        (\<exists>e. map_of (by_id st) i = Some e \<and> entry_sha256 e = sha))"

definition compiled_ok :: "crates \<Rightarrow> 'm wasm_lib \<Rightarrow> ResolvedConfig \<Rightarrow> 'm RegistryState \<Rightarrow> bool" where
  "compiled_ok E W cfg st \<longleftrightarrow>
     (\<forall>i m. map_of (compiled st) i = Some m \<longrightarrow>
        (\<exists>b. accepted W cfg b \<and> component_from_binary W b = Ok m \<and>
             map_of (by_hash st) (sha256_hex E b) = Some i))"

text \<open>Two registrations that have written files have different ids.\<close>

definition uuids_distinct :: "'m reg_task list \<Rightarrow> bool" where
  "uuids_distinct ts \<longleftrightarrow>
     (\<forall>i j b m u. i < length ts \<and> j < length ts \<and> ts ! i = Written b m u \<and> task_uuid (ts ! j) = Some u \<longrightarrow>
        i = j)"

definition reg_inv :: "crates \<Rightarrow> 'm wasm_lib \<Rightarrow> ResolvedConfig \<Rightarrow> 'm reg_sys \<Rightarrow> bool" where
  "reg_inv E W cfg s \<longleftrightarrow>
     maps_ok (sys_registry s) \<and> compiled_ok E W cfg (sys_registry s) \<and> uuids_distinct (sys_tasks s) \<and>
     (\<forall>t \<in> set (sys_tasks s). task_ok E W cfg (sys_registry s) t)"

lemma reg_check_accepted:
  "reg_check E W cfg st b = Ok r \<Longrightarrow> accepted W cfg b"
  by (auto simp: reg_check_def accepted_def outcome_iff)

lemma reg_check_Existing:
  "reg_check E W cfg st b = Ok (Existing i) \<Longrightarrow> map_of (by_hash st) (sha256_hex E b) = Some i"
  by (auto simp: reg_check_def outcome_iff split: option.splits)

lemma reg_check_Compiled:
  "reg_check E W cfg st b = Ok (Compiled m) \<Longrightarrow>
     component_from_binary W b = Ok m \<and> map_of (by_hash st) (sha256_hex E b) = None"
  by (auto simp: reg_check_def outcome_iff split: option.splits)

lemma reg_insert_sel [simp]:
  "map_of (by_hash (reg_insert u sha m st)) = (map_of (by_hash st))(sha \<mapsto> u)"
  "map_of (compiled (reg_insert u sha m st)) = (map_of (compiled st))(u \<mapsto> m)"
  "map_of (by_id (reg_insert u sha m st)) = (map_of (by_id st))
     (u \<mapsto> \<lparr>entry_component_id = u, entry_sha256 = sha, entry_filename = u @ ''.wasm''\<rparr>)"
  by (simp_all add: reg_insert_def)

text \<open>A commit of a new hash under a new id keeps what was there.\<close>

lemma maps_ok_insert:
  assumes "maps_ok st" and "map_of (by_hash st) sha = None" and "map_of (by_id st) u = None"
  shows "maps_ok (reg_insert u sha m st)"
proof -
  have no_u: "map_of (by_hash st) x \<noteq> Some u" for x
    using assms(1,3) unfolding maps_ok_def by (metis option.distinct(1))
  have no_sha: "entry_sha256 e \<noteq> sha" if "map_of (by_id st) i = Some e" for i e
    using assms(1,2) that unfolding maps_ok_def by (metis option.distinct(1))
  show ?thesis
    unfolding maps_ok_def
  proof (intro allI)
    fix x i
    show "map_of (by_hash (reg_insert u sha m st)) x = Some i \<longleftrightarrow>
      (\<exists>e. map_of (by_id (reg_insert u sha m st)) i = Some e \<and> entry_sha256 e = x)"
      using assms(1) no_u no_sha unfolding maps_ok_def by (cases "i = u"; cases "x = sha") auto
  qed
qed

lemma compiled_ok_insert:
  assumes "compiled_ok E W cfg st" and "map_of (by_hash st) (sha256_hex E b) = None"
    and "accepted W cfg b" "component_from_binary W b = Ok m"
  shows "compiled_ok E W cfg (reg_insert u (sha256_hex E b) m st)"
  unfolding compiled_ok_def
proof (intro allI impI)
  fix i m'
  assume m': "map_of (compiled (reg_insert u (sha256_hex E b) m st)) i = Some m'"
  show "\<exists>b'. accepted W cfg b' \<and> component_from_binary W b' = Ok m' \<and>
    map_of (by_hash (reg_insert u (sha256_hex E b) m st)) (sha256_hex E b') = Some i"
  proof (cases "i = u")
    case True
    then show ?thesis using m' assms(3,4) by (intro exI [of _ b]) simp
  next
    case False
    then obtain b' where "accepted W cfg b'" "component_from_binary W b' = Ok m'"
      "map_of (by_hash st) (sha256_hex E b') = Some i"
      using m' assms(1) by (auto simp: compiled_ok_def)
    then show ?thesis using assms(2) by (intro exI [of _ b']) auto
  qed
qed

lemma task_ok_insert:
  assumes "task_ok E W cfg st t" and "map_of (by_hash st) sha = None"
    and "\<And>b m. t \<noteq> Written b m u"
  shows "task_ok E W cfg (reg_insert u sha m st) t"
  using assms by (cases t) auto

lemma set_list_update: "n < length xs \<Longrightarrow> set (xs[n := x]) \<subseteq> insert x (set xs)"
  by (rule set_update_subset_insert)

text \<open>Replacing or adding a task whose id no pending registration has.\<close>

lemma uuids_distinct_snoc:
  assumes "uuids_distinct ts" and "\<And>b m u. t = Written b m u \<Longrightarrow> False"
    and "\<And>b m u. task_uuid t = Some u \<Longrightarrow> Written b m u \<notin> set ts"
  shows "uuids_distinct (ts @ [t])"
  using assms unfolding uuids_distinct_def
  by (auto simp: nth_append less_Suc_eq) (metis nth_mem)+

lemma uuids_distinct_update:
  assumes "uuids_distinct ts" and "n < length ts"
    and "\<And>b m u. t = Written b m u \<Longrightarrow> Some u \<notin> task_uuid ` set ts"
    and "\<And>i b m u. i < length ts \<Longrightarrow> i \<noteq> n \<Longrightarrow> ts ! i = Written b m u \<Longrightarrow> task_uuid t \<noteq> Some u"
  shows "uuids_distinct (ts[n := t])"
  unfolding uuids_distinct_def
proof (intro allI impI, elim conjE)
  fix i j b m u
  assume i: "i < length (ts[n := t])" "ts[n := t] ! i = Written b m u"
    and j: "j < length (ts[n := t])" "task_uuid (ts[n := t] ! j) = Some u"
  show "i = j"
  proof (cases "i = n")
    case True
    then have "t = Written b m u" using i assms(2) by simp
    then have "Some u \<notin> task_uuid ` set ts" by (rule assms(3))
    then have "j = n" using j by (metis image_eqI length_list_update nth_list_update_neq nth_mem)
    then show ?thesis using True by simp
  next
    case False
    then have ti: "i < length ts" "ts ! i = Written b m u" using i by simp_all
    have "j \<noteq> n" using assms(4) [OF ti(1) False ti(2)] j assms(2) by auto
    then show ?thesis using assms(1) ti j unfolding uuids_distinct_def by simp
  qed
qed

lemma uuids_distinct_returned:
  assumes "uuids_distinct ts" and "n < length ts" and "\<And>b m. Written b m u \<notin> set ts"
  shows "uuids_distinct (ts[n := Returned c u])"
proof (rule uuids_distinct_update [OF assms(1,2)])
  show "task_uuid (Returned c u) \<noteq> Some u'" if "i < length ts" "ts ! i = Written b m u'" for i b m u'
    using assms(3) [of b m] that by (metis nth_mem option.inject task_uuid.simps(4))
qed simp

lemma uuids_distinctD:
  "uuids_distinct ts \<Longrightarrow> i < length ts \<Longrightarrow> j < length ts \<Longrightarrow> ts ! i = Written b m u \<Longrightarrow>
     task_uuid (ts ! j) = Some u \<Longrightarrow> i = j"
  unfolding uuids_distinct_def by blast

lemma reg_step_inv:
  assumes "reg_step E W io cfg s s'" and "reg_inv E W cfg s"
  shows "reg_inv E W cfg s'"
proof -
  let ?st = "sys_registry s" and ?ts = "sys_tasks s"
  have inv: "maps_ok ?st" "compiled_ok E W cfg ?st" "uuids_distinct ?ts"
    and tasks: "\<And>t. t \<in> set ?ts \<Longrightarrow> task_ok E W cfg ?st t"
    using assms(2) by (auto simp: reg_inv_def)
  have known: "Written b m i \<notin> set ?ts" if "map_of (by_hash ?st) sha = Some i" for sha b m i
    using that inv(1) tasks [of "Written b m i"] by (auto simp: maps_ok_def)
  have keep: "\<forall>t \<in> set (?ts[n := t']). task_ok E W cfg ?st t"
    if "n < length ?ts" "task_ok E W cfg ?st t'" for n t'
    using set_list_update [OF that(1), of t'] that(2) tasks by blast
  have failed: "uuids_distinct (?ts[n := Failed])" if "n < length ?ts" for n
    by (rule uuids_distinct_update [OF inv(3) that]) auto
  from assms(1) show ?thesis
  proof cases
    case (reg_found b i)
    have "task_ok E W cfg ?st (Returned b i)"
      using reg_check_accepted [OF reg_found(2)] reg_check_Existing [OF reg_found(2)] by simp
    moreover have "uuids_distinct (?ts @ [Returned b i])"
      using known [OF reg_check_Existing [OF reg_found(2)]] by (intro uuids_distinct_snoc inv) auto
    ultimately show ?thesis using inv tasks by (auto simp: reg_inv_def reg_found(1))
  next
    case (reg_compiled b m)
    have "task_ok E W cfg ?st (Checked b m)"
      using reg_check_accepted [OF reg_compiled(2)] reg_check_Compiled [OF reg_compiled(2)] by simp
    moreover have "uuids_distinct (?ts @ [Checked b m])"
      by (intro uuids_distinct_snoc inv) auto
    ultimately show ?thesis using inv tasks by (auto simp: reg_inv_def reg_compiled(1))
  next
    case (reg_write n b m u f)
    have "task_ok E W cfg ?st (Checked b m)" using tasks reg_write(2,3) by (metis nth_mem)
    then have "task_ok E W cfg ?st (Written b m u)" using reg_write(4) by (simp add: fresh_uuid_def)
    note keep [OF reg_write(2) this]
    moreover have "uuids_distinct (?ts[n := Written b m u])"
    proof (rule uuids_distinct_update [OF inv(3) reg_write(2)])
      show "Some u' \<notin> task_uuid ` set ?ts" if "Written b m u = Written b' m' u'" for b' m' u'
        using that reg_write(4) by (simp add: fresh_uuid_def)
      show "task_uuid (Written b m u) \<noteq> Some u'"
        if "i < length ?ts" "?ts ! i = Written b' m' u'" for i b' m' u'
      proof -
        have "Some u' \<in> task_uuid ` set ?ts" using that by (metis image_eqI nth_mem task_uuid.simps(2))
        then show ?thesis using reg_write(4) by (auto simp: fresh_uuid_def)
      qed
    qed
    ultimately show ?thesis using inv by (simp add: reg_inv_def reg_write(1))
  next
    case (reg_raced n b m u i)
    have "task_ok E W cfg ?st (Written b m u)" using tasks reg_raced(2,3) by (metis nth_mem)
    then have "task_ok E W cfg ?st (Returned b i)" using reg_raced(4) by simp
    note keep [OF reg_raced(2) this]
    moreover have "uuids_distinct (?ts[n := Returned b i])"
      by (rule uuids_distinct_returned [OF inv(3) reg_raced(2) known [OF reg_raced(4)]])
    ultimately show ?thesis using inv by (simp add: reg_inv_def reg_raced(1))
  next
    case (reg_commit n b m u st)
    have t: "task_ok E W cfg ?st (Written b m u)" using tasks reg_commit(2,3) by (metis nth_mem)
    have only: "i = n" if "i < length ?ts" "?ts ! i = Written b' m' u" for i b' m'
      using uuids_distinctD [OF inv(3) that(1) reg_commit(2) that(2)] reg_commit(3) by simp
    have "task_ok E W cfg st x" if mem: "x \<in> set (?ts[n := Committed b u (snapshot st)])" for x
    proof -
      obtain i where i: "i < length ?ts" "x = ?ts[n := Committed b u (snapshot st)] ! i"
        using mem by (auto simp: in_set_conv_nth)
      show ?thesis
      proof (cases "i = n")
        case True
        then show ?thesis using i t by (simp add: reg_commit(5))
      next
        case False
        then have x: "x = ?ts ! i" using i by simp
        have "x \<noteq> Written b' m' u" for b' m' using only [OF i(1)] False x by auto
        then show ?thesis
          using tasks [of x] i(1) x task_ok_insert [OF _ reg_commit(4)] by (simp add: reg_commit(5))
      qed
    qed
    moreover have "uuids_distinct (?ts[n := Committed b u (snapshot st)])"
      using only by (intro uuids_distinct_update [OF inv(3) reg_commit(2)]) auto
    ultimately show ?thesis
      using maps_ok_insert [OF inv(1) reg_commit(4)] compiled_ok_insert [OF inv(2) reg_commit(4)] t
      by (auto simp: reg_inv_def reg_commit(1,5))
  next
    case (reg_persist n b u idx f)
    have t: "task_ok E W cfg ?st (Committed b u idx)" using tasks reg_persist(2,3) by (metis nth_mem)
    then have "task_ok E W cfg ?st (Returned b u)" by simp
    note keep [OF reg_persist(2) this]
    moreover have "uuids_distinct (?ts[n := Returned b u])"
      using t by (intro uuids_distinct_returned [OF inv(3) reg_persist(2) known [of "sha256_hex E b"]]) simp
    ultimately show ?thesis using inv by (simp add: reg_inv_def reg_persist(1))
  next
    case (reg_write_fails n b m u e f)
    then show ?thesis using inv keep [OF reg_write_fails(2), of Failed] failed by (simp add: reg_inv_def)
  next
    case (reg_persist_fails n b u idx e f)
    then show ?thesis using inv keep [OF reg_persist_fails(2), of Failed] failed by (simp add: reg_inv_def)
  qed
qed

lemma reg_init_inv: "reg_inv E W cfg (reg_init f)"
  by (simp add: reg_inv_def reg_init_def RegistryState_default_def maps_ok_def compiled_ok_def
      uuids_distinct_def)

lemma reg_reachable_inv:
  assumes "(reg_step E W io cfg)\<^sup>*\<^sup>* (reg_init f) s"
  shows "reg_inv E W cfg s"
  using assms by (induction rule: rtranclp_induct) (auto intro: reg_init_inv reg_step_inv)

end
