(* ===== verification/As_Service.thy ===== *)
theory As_Service
  imports As_Token As_Wasm Kbs_Handshake Rvps
begin

text \<open>
  The attestation service (\<^verbatim>\<open>attestation-service/src/lib.rs\<close>), which puts together the verifiers, the
  component host, the token broker and the reference value provider, and the attestation backend of the key
  broker that has it built in (\<^verbatim>\<open>kbs/src/attestation/coco/builtin.rs\<close>).
\<close>

section \<open>Types\<close>

datatype AsRuntimeData = Raw bytes | Structured json

datatype InitDataInput = DigestInput bytes | Toml string

record 'ha Initdata =
  initdata_version :: string
  initdata_algorithm :: 'ha
  initdata_data :: "(string \<times> string) list"

record 'ha VerificationRequest =
  vr_evidence :: TeeEvidence
  vr_tee :: Tee
  vr_runtime_data :: "AsRuntimeData option"
  vr_hash_algorithm :: 'ha
  vr_init_data :: "InitDataInput option"
  verifier_component :: "bytes option"
  verifier_component_id :: "string option"

text \<open>
  The packages of this file. \<open>tee_kind\<close> is the enum value a name stands for; \<open>hash_digest\<close> is
  \<^verbatim>\<open>HashAlgorithm::digest\<close> on the algorithms \<open>'ha\<close>; \<open>toml_to_json\<close> parses TOML and converts it;
  \<open>enabled\<close> are the verifiers of the build.
\<close>

record ('ha, 'cfg) as_lib =
  tee_kind :: "Tee \<Rightarrow> TeeKind"
  hash_digest :: "'ha \<Rightarrow> bytes \<Rightarrow> bytes"
  sha384_algorithm :: 'ha
  canon_json :: "json \<Rightarrow> (string, bytes) outcome"
  initdata_from_str :: "string \<Rightarrow> (string, 'ha Initdata) outcome"
  toml_to_json :: "string \<Rightarrow> json option"
  sample_from_value :: "json \<Rightarrow> (string, SampleTeeEvidence) outcome"
  enabled_verifiers :: "TeeKind \<Rightarrow> 'cfg option \<Rightarrow> (anyhow, Verifier) outcome option"

record 'cfg AsConfig =
  work_dir :: path
  token_broker_config :: EarTokenConfiguration
  verifier_config :: "'cfg option"
  wasm_verifier_config :: WasmVerifierConfig

text \<open>
  The service and what it changes: the file system, the registry of components when they are enabled, and
  the storage of reference values; and what it reads of its surroundings: the clock, the random generator
  and the ids of \<^verbatim>\<open>Uuid::new_v4\<close>.
\<close>

record ('cfg, 'k, 'c, 's) As =
  as_config :: "'cfg AsConfig"
  as_rvps :: "'s Rvps"
  as_opa :: As_OPA
  token_broker :: "('k, 'c) EarAttestationTokenBroker"
  wasm_verifier :: "ResolvedConfig option"

record ('m, 's) as_state =
  as_fs :: fs
  as_registry :: "'m RegistryState"
  as_rv :: 's
  as_clock :: int
  as_entropy :: "nat \<Rightarrow> bytes option"
  as_uuids :: "nat \<Rightarrow> string"

text \<open>The packages of all parts, to be passed around together.\<close>

record ('ha, 'cfg, 'm, 'x, 'k, 'c, 'e, 'v) as_world =
  w_crates :: crates
  w_env :: verifier_env
  w_lib :: "('ha, 'cfg) as_lib"
  w_wasm :: "'m wasm_lib"
  w_io :: io_env
  w_ear :: "('x, 'k, 'c) ear_lib"
  w_codec :: as_codec
  w_rego :: "('e, 'v) as_regorus"
  w_rvps_codec :: rvps_codec

section \<open>Runtime and initialisation data\<close>

definition parse_runtime_data ::
    "('ha, 'cfg) as_lib \<Rightarrow> AsRuntimeData option \<Rightarrow> 'ha \<Rightarrow> (anyhow, bytes option \<times> json) outcome" where
  "parse_runtime_data L data ha =
     (case data of
        Some (Raw raw) \<Rightarrow> Ok (Some raw, JNull)
      | Some (Structured structured) \<Rightarrow>
          and_then (with_context ''parse JSON structured data'' (lib_error (canon_json L structured))) (\<lambda>materials.
            Ok (Some (hash_digest L ha materials), structured))
      | None \<Rightarrow> Ok (None, JNull))"

text \<open>\<^verbatim>\<open>extract_policy_data\<close>: what follows the declaration, from its brace on, as JSON.\<close>

definition POLICY_DATA :: string where
  "POLICY_DATA = ''policy_data := {''"

definition policy_data_of :: "crates \<Rightarrow> string \<Rightarrow> json option" where
  "policy_data_of E rego_content =
     (case find_str POLICY_DATA rego_content of
        None \<Rightarrow> None
      | Some i \<Rightarrow> json_from_str E (drop (i + length POLICY_DATA - 1) rego_content))"

definition toml_claim :: "('ha, 'cfg) as_lib \<Rightarrow> string \<Rightarrow> json_map \<Rightarrow> json_map" where
  "toml_claim L key m =
     (case map_of m key of
        Some (JString s) \<Rightarrow> (case toml_to_json L s of Some v \<Rightarrow> json_insert key v m | None \<Rightarrow> m)
      | _ \<Rightarrow> m)"

definition policy_claim :: "crates \<Rightarrow> json_map \<Rightarrow> json_map" where
  "policy_claim E m =
     (case map_of m ''policy.rego'' of
        Some (JString s) \<Rightarrow>
          (case policy_data_of E s of
             Some v \<Rightarrow> json_insert ''agent_policy_claims'' v (json_remove ''policy.rego'' m)
           | None \<Rightarrow> m)
      | _ \<Rightarrow> m)"

definition parse_init_data ::
    "crates \<Rightarrow> ('ha, 'cfg) as_lib \<Rightarrow> InitDataInput option \<Rightarrow> (anyhow, bytes option \<times> json) outcome" where
  "parse_init_data E L data =
     (case data of
        Some (DigestInput raw) \<Rightarrow> Ok (Some raw, JNull)
      | Some (Toml structured) \<Rightarrow>
          and_then (with_context ''parse TOML structured data'' (lib_error (initdata_from_str L structured)))
            (\<lambda>initdata.
              let claims = map (\<lambda>(k, v). (k, JString v)) (initdata_data initdata) in
              Ok (Some (hash_digest L (initdata_algorithm initdata) (bytes_of structured)),
                  JObject (policy_claim E (toml_claim L ''aa.toml'' (toml_claim L ''cdh.toml'' claims)))))
      | None \<Rightarrow> Ok (None, JNull))"

section \<open>Evaluation\<close>

definition report_data_of :: "bytes option \<Rightarrow> ReportData" where
  "report_data_of x = (case x of Some d \<Rightarrow> ReportValue d | None \<Rightarrow> ReportNotProvided)"

definition init_data_hash_of :: "bytes option \<Rightarrow> InitDataHash" where
  "init_data_hash_of x = (case x of Some d \<Rightarrow> InitValue d | None \<Rightarrow> InitNotProvided)"

abbreviation verifier_for ::
    "('ha, 'cfg, 'm, 'x, 'k, 'c, 'e, 'v) as_world \<Rightarrow> ('cfg, 'k, 'c, 's) As \<Rightarrow> Tee \<Rightarrow> (anyhow, Verifier) outcome" where
  "verifier_for W self tee \<equiv>
     to_verifier (w_crates W) (w_env W) (sample_from_value (w_lib W)) (enabled_verifiers (w_lib W))
       (tee_kind (w_lib W) tee) (verifier_config (as_config self))"

text \<open>The branch of \<^verbatim>\<open>evaluate\<close> for components; \<open>uuid\<close> is for the registration of an inline component.\<close>

definition wasm_claims ::
    "('ha, 'cfg, 'm, 'x, 'k, 'c, 'e, 'v) as_world \<Rightarrow> ('cfg, 'k, 'c, 's) As \<Rightarrow> ResolvedConfig \<Rightarrow> string \<Rightarrow>
     ('m, 's) as_state \<Rightarrow> 'ha VerificationRequest \<Rightarrow> bytes option \<Rightarrow> bytes option \<Rightarrow> verdict \<times> ('m, 's) as_state" where
  "wasm_claims W self cfg uuid s req report ini =
     (let cid = (case verifier_component_id req of
                   Some i \<Rightarrow> Some i
                 | None \<Rightarrow> default_component_id (wasm_verifier_config (as_config self)));
          component = verifier_component req
      in
      if cid = None \<and> component = None
      then (bail ''wasm verifier hosting is enabled, but no verifier component was provided and no `wasm_verifier.default_component_id` is configured'', s)
      else
        let (r, h) = host_evaluate (w_crates W) (w_wasm W) (w_io W) cfg uuid
                       \<lparr>registry = as_registry s, host_fs = as_fs s\<rparr> cid component (vr_evidence req) report ini
        in (and_then (with_context ''wasm verifier evaluate'' r) (\<lambda>parsed. Ok [(parsed, ''cpu'')]),
            s\<lparr>as_registry := registry h, as_fs := host_fs h\<rparr>))"

definition native_claims ::
    "('ha, 'cfg, 'm, 'x, 'k, 'c, 'e, 'v) as_world \<Rightarrow> ('cfg, 'k, 'c, 's) As \<Rightarrow> 'ha VerificationRequest \<Rightarrow>
     bytes option \<Rightarrow> bytes option \<Rightarrow> verdict" where
  "native_claims W self req report ini =
     and_then (verifier_for W self (vr_tee req)) (\<lambda>V.
       map_err (\<lambda>e. [''Verifier evaluate failed: '' @ concat e])
         (v_evaluate V (vr_evidence req) (report_data_of report) (init_data_hash_of ini)))"

text \<open>One pass of the loop over the requests.\<close>

definition request_claims ::
    "('ha, 'cfg, 'm, 'x, 'k, 'c, 'e, 'v) as_world \<Rightarrow> ('cfg, 'k, 'c, 's) As \<Rightarrow> string \<Rightarrow>
     ('m, 's) as_state \<Rightarrow> 'ha VerificationRequest \<Rightarrow> (anyhow, TeeClaims list) outcome \<times> ('m, 's) as_state" where
  "request_claims W self uuid s req =
     (case with_context ''parse runtime data''
             (parse_runtime_data (w_lib W) (vr_runtime_data req) (vr_hash_algorithm req)) of
        Err e \<Rightarrow> (Err e, s)
      | Panic \<Rightarrow> (Panic, s)
      | Ok (report, runtime_claims) \<Rightarrow>
          (case with_context ''parse init data'' (parse_init_data (w_crates W) (w_lib W) (vr_init_data req)) of
             Err e \<Rightarrow> (Err e, s)
           | Panic \<Rightarrow> (Panic, s)
           | Ok (ini, init_claims) \<Rightarrow>
               (let (r, s') = (case wasm_verifier self of
                                 Some cfg \<Rightarrow> wasm_claims W self cfg uuid s req report ini
                               | None \<Rightarrow> (native_claims W self req report ini, s))
                in (and_then r (\<lambda>claims.
                      Ok (map (\<lambda>(c, cls). \<lparr>tc_tee = vr_tee req, tc_class = cls, tc_claims = c,
                               tc_init_data_claims = init_claims, tc_runtime_data_claims = runtime_claims\<rparr>)
                            claims)), s'))))"

fun requests_loop ::
    "('ha, 'cfg, 'm, 'x, 'k, 'c, 'e, 'v) as_world \<Rightarrow> ('cfg, 'k, 'c, 's) As \<Rightarrow>
     ('m, 's) as_state \<Rightarrow> TeeClaims list \<Rightarrow> 'ha VerificationRequest list \<Rightarrow>
     (anyhow, TeeClaims list) outcome \<times> ('m, 's) as_state" where
  "requests_loop W self s acc [] = (Ok acc, s)"
| "requests_loop W self s acc (req # reqs) =
     (case request_claims W self (as_uuids s (length reqs)) s req of
        (Ok cs, s') \<Rightarrow> requests_loop W self s' (acc @ cs) reqs
      | (Err e, s') \<Rightarrow> (Err e, s')
      | (Panic, s') \<Rightarrow> (Panic, s'))"

definition rvps_client :: "('cfg, 'k, 'c, 's) As \<Rightarrow> ('m, 's) as_state \<Rightarrow> RvpsClient" where
  "rvps_client self s rid = query_reference_value (as_rvps self) (as_rv s) rid"

definition as_evaluate ::
    "('ha, 'cfg, 'm, 'x, 'k, 'c, 'e, 'v) as_world \<Rightarrow> bool \<Rightarrow> ('cfg, 'k, 'c, 's) As \<Rightarrow>
     ('m, 's) as_state \<Rightarrow> 'ha VerificationRequest list \<Rightarrow> string list \<Rightarrow>
     (anyhow, string) outcome \<times> ('m, 's) as_state" where
  "as_evaluate W chk self s reqs policy_ids =
     (if reqs = [] then (bail ''No verification requests provided.'', s)
      else
        (case requests_loop W self s [] reqs of
           (Ok claims, s') \<Rightarrow>
             (issue (w_ear W) (w_codec W) chk
                (as_opa_evaluate (w_crates W) (w_rego W) (w_codec W) (w_io W) (as_fs s') (as_opa self))
                (as_clock s') (token_broker self) claims policy_ids (Some (rvps_client self s')), s')
         | (Err e, s') \<Rightarrow> (Err e, s')
         | (Panic, s') \<Rightarrow> (Panic, s')))"

section \<open>The other operations\<close>

definition register_component_verifier ::
    "('ha, 'cfg, 'm, 'x, 'k, 'c, 'e, 'v) as_world \<Rightarrow> ('cfg, 'k, 'c, 's) As \<Rightarrow> ('m, 's) as_state \<Rightarrow>
     bytes \<Rightarrow> (anyhow, string) outcome \<times> ('m, 's) as_state" where
  "register_component_verifier W self s b =
     (case wasm_verifier self of
        None \<Rightarrow> (bail ''wasm verifier hosting is disabled in config'', s)
      | Some cfg \<Rightarrow>
          (let (r, h) = register_component (w_crates W) (w_wasm W) (w_io W) cfg (as_uuids s 0)
                          \<lparr>registry = as_registry s, host_fs = as_fs s\<rparr> b
           in (r, s\<lparr>as_registry := registry h, as_fs := host_fs h\<rparr>)))"

definition as_set_policy_op ::
    "('ha, 'cfg, 'm, 'x, 'k, 'c, 'e, 'v) as_world \<Rightarrow> ('cfg, 'k, 'c, 's) As \<Rightarrow> ('m, 's) as_state \<Rightarrow>
     string \<Rightarrow> string \<Rightarrow> (anyhow, unit) outcome \<times> ('m, 's) as_state" where
  "as_set_policy_op W self s policy_id pol =
     (let (r, f) = as_opa_set_policy (w_rego W) (w_codec W) (w_io W) (as_fs s) (as_opa self) policy_id pol True
      in (map_err (\<lambda>e. [policy_error_text e]) r, s\<lparr>as_fs := f\<rparr>))"

definition as_list_policies ::
    "('ha, 'cfg, 'm, 'x, 'k, 'c, 'e, 'v) as_world \<Rightarrow> ('cfg, 'k, 'c, 's) As \<Rightarrow> ('m, 's) as_state \<Rightarrow>
     (anyhow, (string \<times> string) list) outcome" where
  "as_list_policies W self s =
     with_context ''Cannot List Policy''
       (map_err (\<lambda>e. [policy_error_text e])
          (as_opa_list_policies (w_crates W) (w_codec W) (w_io W) (as_fs s) (as_opa self)))"

definition as_get_policy ::
    "('ha, 'cfg, 'm, 'x, 'k, 'c, 'e, 'v) as_world \<Rightarrow> ('cfg, 'k, 'c, 's) As \<Rightarrow> ('m, 's) as_state \<Rightarrow>
     string \<Rightarrow> (anyhow, string) outcome" where
  "as_get_policy W self s policy_id =
     with_context ''Cannot Get Policy''
       (map_err (\<lambda>e. [policy_error_text e])
          (as_opa_get_policy (w_codec W) (w_io W) (as_fs s) (as_opa self) policy_id))"

definition as_register_rv ::
    "('ha, 'cfg, 'm, 'x, 'k, 'c, 'e, 'v) as_world \<Rightarrow> ('cfg, 'k, 'c, 's) As \<Rightarrow> ('m, 's) as_state \<Rightarrow> string \<Rightarrow>
     (anyhow, unit) outcome \<times> ('m, 's) as_state" where
  "as_register_rv W self s message =
     (let (r, d) = verify_and_extract (w_rvps_codec W) (as_rvps self) (as_rv s) message
      in (with_context ''register reference value'' (lib_error r), s\<lparr>as_rv := d\<rparr>))"

definition as_query_rv ::
    "('cfg, 'k, 'c, 's) As \<Rightarrow> ('m, 's) as_state \<Rightarrow> string \<Rightarrow> (anyhow, json option) outcome" where
  "as_query_rv self s rid = with_context ''query reference values'' (lib_error (rvps_client self s rid))"

definition as_generate_supplemental_challenge ::
    "('ha, 'cfg, 'm, 'x, 'k, 'c, 'e, 'v) as_world \<Rightarrow> ('cfg, 'k, 'c, 's) As \<Rightarrow> Tee \<Rightarrow> string \<Rightarrow>
     (anyhow, string) outcome" where
  "as_generate_supplemental_challenge W self tee params =
     and_then (verifier_for W self tee) (\<lambda>V. v_generate_supplemental_challenge V params)"

text \<open>
  \<^verbatim>\<open>AttestationService::new\<close>; \<open>rvps\<close> is the result of \<^verbatim>\<open>initialize_rvps_client\<close>, the two texts are
  the default policies of the broker, \<open>surroundings\<close> the clock, the random generator and the ids.
\<close>

definition as_new ::
    "('ha, 'cfg, 'm, 'x, 'k, 'c, 'e, 'v) as_world \<Rightarrow> (string, 's Rvps \<times> 's) outcome \<Rightarrow> string \<Rightarrow> string \<Rightarrow>
     int \<times> (nat \<Rightarrow> bytes option) \<times> (nat \<Rightarrow> string) \<Rightarrow> 'cfg AsConfig \<Rightarrow> fs \<Rightarrow> (anyhow, ('cfg, 'k, 'c, 's) As \<times> ('m, 's) as_state) outcome \<times> fs" where
  "as_new W rvps cpu_policy gpu_policy surroundings config f =
     (case if exists_path f (work_dir config) then (Ok (), f) else create_dir_all (w_io W) f (work_dir config) of
        (Err _, f1) \<Rightarrow> (Err [''Create AS work dir failed''], f1)
      | (Panic, f1) \<Rightarrow> (Panic, f1)
      | (Ok _, f1) \<Rightarrow>
          (case rvps of
             Err e \<Rightarrow> (Err [''Create rvps failed: '' @ e], f1)
           | Panic \<Rightarrow> (Panic, f1)
           | Ok (rv, d) \<Rightarrow>
               (case broker_new (w_ear W) (w_rego W) (w_codec W) (w_io W) f1 cpu_policy gpu_policy
                       (token_broker_config config) of
                  (Err e, f2) \<Rightarrow> (Err e, f2)
                | (Panic, f2) \<Rightarrow> (Panic, f2)
                | (Ok (opa, broker), f2) \<Rightarrow>
                    (case host_new (w_wasm W) (w_io W) (work_dir config) (wasm_verifier_config config) f2 of
                       (Err e, f3) \<Rightarrow> (Err e, f3)
                     | (Panic, f3) \<Rightarrow> (Panic, f3)
                     | (Ok h, f3) \<Rightarrow>
                         (Ok (\<lparr>as_config = config, as_rvps = rv, as_opa = opa, token_broker = broker,
                               wasm_verifier = map_option fst h\<rparr>,
                              \<lparr>as_fs = f3,
                               as_registry = (case h of Some (_, st) \<Rightarrow> st | None \<Rightarrow> RegistryState_default),
                               as_rv = d, as_clock = fst surroundings, as_entropy = fst (snd surroundings),
                               as_uuids = snd (snd surroundings)\<rparr>), f3)))))"

section \<open>The service inside the key broker\<close>

text \<open>
  \<^verbatim>\<open>BuiltInCoCoAs\<close>: \<open>init_data_fields\<close> reads the \<^verbatim>\<open>format\<close> and \<^verbatim>\<open>body\<close> of the initialisation data of
  the protocol, whose type is in \<^verbatim>\<open>kbs_types\<close>.
\<close>

definition builtin_request ::
    "('ha, 'cfg) as_lib \<Rightarrow> (json \<Rightarrow> string \<times> string) \<Rightarrow> IndependentEvidence \<Rightarrow>
     (anyhow, 'ha VerificationRequest) outcome" where
  "builtin_request L init_data_fields ev =
     (let req = \<lparr>vr_evidence = ev_tee_evidence ev, vr_tee = ev_tee ev,
                 vr_runtime_data = Some (Structured (ev_runtime_data ev)),
                 vr_hash_algorithm = sha384_algorithm L, vr_init_data = None,
                 verifier_component = None, verifier_component_id = None\<rparr>
      in
      (case ev_init_data ev of
         None \<Rightarrow> Ok req
       | Some d \<Rightarrow>
           (let (format, body) = init_data_fields d in
            if format \<noteq> ''toml'' then bail (''Unsupported initdata format: '' @ format)
            else Ok (req\<lparr>vr_init_data := Some (Toml body)\<rparr>))))"

fun builtin_requests ::
    "('ha, 'cfg) as_lib \<Rightarrow> (json \<Rightarrow> string \<times> string) \<Rightarrow> IndependentEvidence list \<Rightarrow>
     (anyhow, 'ha VerificationRequest list) outcome" where
  "builtin_requests L idf [] = Ok []"
| "builtin_requests L idf (e # es) =
     and_then (builtin_request L idf e) (\<lambda>req.
     and_then (builtin_requests L idf es) (\<lambda>reqs. Ok (req # reqs)))"

definition builtin_verify ::
    "('ha, 'cfg, 'm, 'x, 'k, 'c, 'e, 'v) as_world \<Rightarrow> (json \<Rightarrow> string \<times> string) \<Rightarrow> bool \<Rightarrow>
     ('cfg, 'k, 'c, 's) As \<Rightarrow> ('m, 's) as_state \<Rightarrow> IndependentEvidence list \<Rightarrow>
     (anyhow, string) outcome \<times> ('m, 's) as_state" where
  "builtin_verify W idf chk self s evs =
     (case builtin_requests (w_lib W) idf evs of
        Err e \<Rightarrow> (Err e, s)
      | Panic \<Rightarrow> (Panic, s)
      | Ok reqs \<Rightarrow> as_evaluate W chk self s reqs [''default''])"

definition builtin_generate_challenge ::
    "('ha, 'cfg, 'm, 'x, 'k, 'c, 'e, 'v) as_world \<Rightarrow> (json \<Rightarrow> string) \<Rightarrow>
     ('cfg, 'k, 'c, 's) As \<Rightarrow> ('m, 's) as_state \<Rightarrow> Tee \<Rightarrow> json \<Rightarrow> (anyhow, Challenge) outcome" where
  "builtin_generate_challenge W to_str self s tee params =
     and_then (if tee_kind (w_lib W) tee = Se then as_generate_supplemental_challenge W self tee (to_str params)
               else lib_error (make_nonce (w_crates W) (as_entropy s))) (\<lambda>n.
       Ok \<lparr>nonce = n, challenge_params = JString []\<rparr>)"

text \<open>
  The service as the \<open>Attest\<close> of the key broker. Its interface has errors as texts and a \<^verbatim>\<open>verify\<close>
  without effects: what \<open>builtin_verify\<close> changes is only the cache of compiled components and its directory
  (\<open>builtin_verify_native\<close>).
\<close>

definition builtin_coco_as ::
    "('ha, 'cfg, 'm, 'x, 'k, 'c, 'e, 'v) as_world \<Rightarrow> (json \<Rightarrow> string \<times> string) \<Rightarrow> bool \<Rightarrow>
     (json \<Rightarrow> string) \<Rightarrow> ('cfg, 'k, 'c, 's) As \<Rightarrow>
     ('m, 's) as_state Attest" where
  "builtin_coco_as W idf chk to_str self =
     \<lparr>as_set_policy = (\<lambda>s i p. let (r, s') = as_set_policy_op W self s i p in (map_err concat r, s')),
      as_verify = (\<lambda>s evs. map_err concat (fst (builtin_verify W idf chk self s evs))),
      as_generate_challenge = (\<lambda>s t p. map_err concat (builtin_generate_challenge W to_str self s t p)),
      as_register_reference_value = (\<lambda>s m. let (r, s') = as_register_rv W self s m in (map_err concat r, s')),
      as_query_reference_value = (\<lambda>s i. map_err concat (as_query_rv self s i))\<rparr>"


section \<open>What the service establishes about a request\<close>

text \<open>The verifier chosen for the request accepted its evidence with the expected data.\<close>

definition natively_verified ::
    "('ha, 'cfg, 'm, 'x, 'k, 'c, 'e, 'v) as_world \<Rightarrow> ('cfg, 'k, 'c, 's) As \<Rightarrow> 'ha VerificationRequest \<Rightarrow>
     TeeClaims list \<Rightarrow> bool" where
  "natively_verified W self req cs \<longleftrightarrow>
     (\<exists>V report runtime_claims ini init_claims claims.
        verifier_for W self (vr_tee req) = Ok V \<and>
        parse_runtime_data (w_lib W) (vr_runtime_data req) (vr_hash_algorithm req) = Ok (report, runtime_claims) \<and>
        parse_init_data (w_crates W) (w_lib W) (vr_init_data req) = Ok (ini, init_claims) \<and>
        v_evaluate V (vr_evidence req) (report_data_of report) (init_data_hash_of ini) = Ok claims \<and>
        cs = map (\<lambda>(c, cls). \<lparr>tc_tee = vr_tee req, tc_class = cls, tc_claims = c,
               tc_init_data_claims = init_claims, tc_runtime_data_claims = runtime_claims\<rparr>) claims)"

lemma request_claims_native:
  assumes "request_claims W self uuid s req = (Ok cs, s')" and "wasm_verifier self = None"
  shows "natively_verified W self req cs \<and> s' = s"
  using assms unfolding request_claims_def natively_verified_def native_claims_def
  by (auto simp: outcome_iff split: outcome.splits)

lemma requests_loop_native:
  assumes "requests_loop W self s acc reqs = (Ok claims, s')" and "wasm_verifier self = None"
  shows "\<exists>css. list_all2 (natively_verified W self) reqs css \<and> claims = acc @ concat css \<and> s' = s"
  using assms(1)
proof (induction reqs arbitrary: s acc)
  case Nil
  then show ?case by simp
next
  case (Cons req reqs)
  from Cons.prems obtain cs s1 where r: "request_claims W self (as_uuids s (length reqs)) s req = (Ok cs, s1)"
    and rest: "requests_loop W self s1 (acc @ cs) reqs = (Ok claims, s')"
    by (auto split: prod.splits outcome.splits)
  obtain css where "list_all2 (natively_verified W self) reqs css" "claims = (acc @ cs) @ concat css" "s' = s1"
    using Cons.IH [OF rest] by blast
  then show ?case
    using request_claims_native [OF r assms(2)] by (intro exI [of _ "cs # css"]) simp
qed

lemma as_evaluate_native:
  assumes "as_evaluate W chk self s reqs pids = (Ok token, s')" and "wasm_verifier self = None"
  obtains css where "reqs \<noteq> []" "list_all2 (natively_verified W self) reqs css" "s' = s"
    "issue (w_ear W) (w_codec W) chk
       (as_opa_evaluate (w_crates W) (w_rego W) (w_codec W) (w_io W) (as_fs s) (as_opa self))
       (as_clock s) (token_broker self) (concat css) pids (Some (rvps_client self s)) = Ok token"
proof -
  from assms(1) obtain claims where ne: "reqs \<noteq> []"
    and l: "requests_loop W self s [] reqs = (Ok claims, s')"
    and i: "issue (w_ear W) (w_codec W) chk
       (as_opa_evaluate (w_crates W) (w_rego W) (w_codec W) (w_io W) (as_fs s') (as_opa self))
       (as_clock s') (token_broker self) claims pids (Some (rvps_client self s')) = Ok token"
    unfolding as_evaluate_def by (auto simp: bail_def split: if_splits prod.splits outcome.splits)
  show thesis using requests_loop_native [OF l assms(2)] ne i that by auto
qed

text \<open>The state of a service without a component host is not changed by an evaluation.\<close>

lemma request_claims_state:
  "wasm_verifier self = None \<Longrightarrow> snd (request_claims W self uuid s req) = s"
  unfolding request_claims_def by (auto split: outcome.splits)

lemma requests_loop_state:
  assumes "wasm_verifier self = None"
  shows "snd (requests_loop W self s acc reqs) = s"
proof (induction reqs arbitrary: s acc)
  case Nil
  then show ?case by simp
next
  case (Cons req reqs)
  show ?case
    using request_claims_state [OF assms, of W "as_uuids s (length reqs)" s req] Cons
    by (cases "request_claims W self (as_uuids s (length reqs)) s req")
      (auto split: outcome.splits)
qed

lemma builtin_verify_native:
  assumes "wasm_verifier self = None"
  shows "snd (builtin_verify W idf chk self s evs) = s"
proof -
  have "snd (as_evaluate W chk self s reqs pids) = s" for reqs pids
    using requests_loop_state [OF assms, of W s "[]" reqs]
    by (auto simp: as_evaluate_def split: prod.splits outcome.splits)
  then show ?thesis by (auto simp: builtin_verify_def split: outcome.splits)
qed

section \<open>Verifiers that bind the report data\<close>

text \<open>
  What the service relies on: every verifier it can choose checks the report data. \<open>carries\<close> is what a
  verifier of that TEE says of evidence it accepted.
\<close>

locale attested_build =
  fixes pick :: "Tee \<Rightarrow> (anyhow, Verifier) outcome"
    and carries :: "Tee \<Rightarrow> TeeEvidence \<Rightarrow> bytes \<Rightarrow> bool"
  assumes chosen_binds: "pick tee = Ok V \<Longrightarrow> report_verifier V (carries tee)"
begin

lemma evidence_carries:
  assumes "pick tee = Ok V" and "v_evaluate V ev (ReportValue rd) ih = Ok claims"
  shows "carries tee ev rd" and "claims \<noteq> []"
  using data_verifier.report_bound [OF report_verifier.axioms(1) [OF chosen_binds [OF assms(1)]] assms(2)]
    report_verifier.one_claim [OF chosen_binds [OF assms(1)] assms(2)] by blast+

end

text \<open>A build with the TDX and SNP verifiers, and what evidence of each kind carries.\<close>

definition tdx_snp_build ::
    "('q, 'w, 'd) tdx_env \<Rightarrow> crates \<Rightarrow> ('t, 'u) snp_lib \<Rightarrow> TeeKind \<Rightarrow> 'cfg option \<Rightarrow> (anyhow, Verifier) outcome option" where
  "tdx_snp_build T E L k cfg =
     (case k of
        Tdx \<Rightarrow> Some (Ok (TdxVerifier T))
      | Snp \<Rightarrow> Some (Ok (SnpVerifier E L))
      | _ \<Rightarrow> None)"

definition build_carries ::
    "verifier_env \<Rightarrow> (json \<Rightarrow> (string, SampleTeeEvidence) outcome) \<Rightarrow> ('q, 'w, 'd) tdx_env \<Rightarrow> ('t, 'u) snp_lib \<Rightarrow>
     TeeKind \<Rightarrow> TeeEvidence \<Rightarrow> bytes \<Rightarrow> bool" where
  "build_carries V from_value T L k ev rd \<longleftrightarrow>
     (case k of
        Tdx \<Rightarrow> \<exists>q. tdx_carries T ev q \<and> quote_report_data q = regularize_data rd 64
      | Snp \<Rightarrow> \<exists>e. snp_from_value L ev = Ok e \<and> snp_report_ok L (attestation_report e) \<and>
                 snp_report_data (attestation_report e) = regularize_data rd 64
      | SampleTee \<Rightarrow> sample_carries V from_value ev rd
      | SampleDeviceTee \<Rightarrow> sample_carries V from_value ev rd
      | _ \<Rightarrow> False)"

lemma tdx_snp_verifier:
  assumes "to_verifier E V from_value (tdx_snp_build T E' L) k cfg = Ok v"
  shows "report_verifier v (build_carries V from_value T L k)"
proof -
  have eqs: "build_carries V from_value T L Tdx =
      (\<lambda>ev rd. \<exists>q. tdx_carries T ev q \<and> quote_report_data q = regularize_data rd 64)"
    "build_carries V from_value T L Snp =
      (\<lambda>ev rd. \<exists>e. snp_from_value L ev = Ok e \<and> snp_report_ok L (attestation_report e) \<and>
        snp_report_data (attestation_report e) = regularize_data rd 64)"
    "build_carries V from_value T L SampleTee = sample_carries V from_value"
    "build_carries V from_value T L SampleDeviceTee = sample_carries V from_value"
    by (auto simp: build_carries_def fun_eq_iff)
  show ?thesis
    using assms tdx.report_verifier_axioms [of T] snp.report_verifier_axioms [of E' L]
      sample.report_verifier_axioms [of E V from_value] sample_device.report_verifier_axioms [of V from_value]
    by (cases k) (auto simp: to_verifier_def tdx_snp_build_def bail_def eqs)
qed

interpretation tdx_snp: attested_build
  "\<lambda>tee. to_verifier E V from_value (tdx_snp_build T E' L) (kind tee) cfg"
  "\<lambda>tee. build_carries V from_value T L (kind tee)"
  by (rule attested_build.intro) (rule tdx_snp_verifier)


section \<open>Evidence the built-in service accepted\<close>

text \<open>The evidence was accepted with the digest of its runtime data as report data.\<close>

definition digest_accepted ::
    "('ha, 'cfg, 'm, 'x, 'k, 'c, 'e, 'v) as_world \<Rightarrow> ('cfg, 'k, 'c, 's) As \<Rightarrow> IndependentEvidence \<Rightarrow> bool" where
  "digest_accepted W self e \<longleftrightarrow>
     (\<exists>materials V ih claims. canon_json (w_lib W) (ev_runtime_data e) = Ok materials \<and>
        verifier_for W self (ev_tee e) = Ok V \<and>
        v_evaluate V (ev_tee_evidence e)
          (ReportValue (hash_digest (w_lib W) (sha384_algorithm (w_lib W)) materials)) ih = Ok claims)"

lemma builtin_request_Ok:
  assumes "builtin_request L idf e = Ok req"
  shows "vr_evidence req = ev_tee_evidence e \<and> vr_tee req = ev_tee e \<and>
    vr_runtime_data req = Some (Structured (ev_runtime_data e)) \<and> vr_hash_algorithm req = sha384_algorithm L"
  using assms by (auto simp: builtin_request_def Let_def bail_def split: option.splits if_splits prod.splits)

lemma builtin_requests_Ok:
  "builtin_requests L idf evs = Ok reqs \<Longrightarrow> list_all2 (\<lambda>e req. builtin_request L idf e = Ok req) evs reqs"
  by (induction evs arbitrary: reqs) (auto simp: outcome_iff)

lemma natively_verified_digest:
  assumes "natively_verified W self req cs" and "builtin_request (w_lib W) idf e = Ok req"
  shows "digest_accepted W self e"
proof -
  note req = builtin_request_Ok [OF assms(2)]
  from assms(1) obtain V report rc ini ic claims where V: "verifier_for W self (vr_tee req) = Ok V"
    and rd: "parse_runtime_data (w_lib W) (vr_runtime_data req) (vr_hash_algorithm req) = Ok (report, rc)"
    and cl: "v_evaluate V (vr_evidence req) (report_data_of report) (init_data_hash_of ini) = Ok claims"
    unfolding natively_verified_def by blast
  from rd obtain m where "canon_json (w_lib W) (ev_runtime_data e) = Ok m"
    "report = Some (hash_digest (w_lib W) (sha384_algorithm (w_lib W)) m)"
    by (auto simp: parse_runtime_data_def req outcome_iff)
  then show ?thesis using V cl req by (auto simp: digest_accepted_def report_data_of_def)
qed

lemma builtin_verify_accepts:
  assumes "fst (builtin_verify W idf chk self s evs) = Ok token" and "wasm_verifier self = None"
  shows "list_all (digest_accepted W self) evs"
proof -
  from assms(1) obtain reqs where reqs: "builtin_requests (w_lib W) idf evs = Ok reqs"
    and ev: "fst (as_evaluate W chk self s reqs [''default'']) = Ok token"
    by (auto simp: builtin_verify_def split: outcome.splits)
  obtain s' where "as_evaluate W chk self s reqs [''default''] = (Ok token, s')"
    using ev by (cases "as_evaluate W chk self s reqs [''default'']") auto
  then obtain css where css: "list_all2 (natively_verified W self) reqs css"
    by (rule as_evaluate_native [OF _ assms(2)])
  note es = builtin_requests_Ok [OF reqs]
  have "digest_accepted W self (evs ! i)" if "i < length evs" for i
  proof (rule natively_verified_digest)
    show "builtin_request (w_lib W) idf (evs ! i) = Ok (reqs ! i)" using es that by (rule list_all2_nthD)
    show "natively_verified W self (reqs ! i) (css ! i)"
      using css that list_all2_lengthD [OF es] by (simp add: list_all2_nthD)
  qed
  then show ?thesis by (simp add: list_all_length)
qed

end
