(* ===== verification/As_Properties.thy ===== *)
theory As_Properties
  imports As_Service Verifier_Properties Kbs_Properties
begin

text \<open>
  Properties of the attestation service and of its composition with the key broker, the verifiers and the
  component host. Each property is followed by a witness on a concrete deployment.
\<close>

section \<open>From a token to the hardware evidence\<close>



text \<open>A deployment that accepts the quote of the sample platform.\<close>

definition sample_as_crates :: crates where
  "sample_as_crates =
     reference_crates\<lparr>json_from_str := \<lambda>_. Some (JObject [(''hardware'', JNumber 2)]), base64_encode := \<lambda>_. ''n''\<rparr>"

definition sample_as_lib :: "(unit, unit) as_lib" where
  "sample_as_lib =
     \<lparr>tee_kind = (\<lambda>_. Tdx), hash_digest = (\<lambda>_ _. [1, 2, 3]), sha384_algorithm = (), canon_json = (\<lambda>_. Ok []),
      initdata_from_str = (\<lambda>_. Err []), toml_to_json = (\<lambda>_. None), sample_from_value = (\<lambda>_. Err []),
      enabled_verifiers = tdx_snp_build sample_tdx reference_crates sample_snp\<rparr>"

definition sample_rego :: "(unit, unit) as_regorus" where
  "sample_rego =
     \<lparr>rego_new = (), rego_add_policy = (\<lambda>_ _ _. Ok ()), rego_value_from_json = (\<lambda>_. Ok ()),
      rego_add_data = (\<lambda>_ _. Ok ()), rego_set_input = (\<lambda>_ _. Ok ()), rego_eval_rule = (\<lambda>_ _. Ok ()),
      rego_value_to_json = (\<lambda>_. Ok []), rego_add_extension = (\<lambda>_ _ _ _. Some ()),
      rego_as_string = (\<lambda>_. Ok []), rego_from_value = (\<lambda>_. Ok ()), rego_null = (), rego_empty_array = ()\<rparr>"

definition sample_codec :: as_codec where
  "sample_codec =
     \<lparr>url_b64_decode = (\<lambda>s. Some (bytes_of s)), url_b64_encode = str_of, extensions_from_str = (\<lambda>_. Some []),
      unicode_alphanumeric = (\<lambda>_. False)\<rparr>"

definition sample_ear :: "(unit, unit, unit) ear_lib" where
  "sample_ear =
     \<lparr>raw_value = Ok, variant_name = Ok, claims_to_string = (\<lambda>_. Ok []),
      trust_claim_known = (\<lambda>k. k = ''hardware''), any_set = (\<lambda>tv. tv \<noteq> []), status_of = (\<lambda>_. ''affirming''),
      extensions_new = (), extensions_register = (\<lambda>_ _ _ _. Ok ()), extensions_set = (\<lambda>_ _ _. Ok ()),
      add_minutes = (\<lambda>t d. Some (t + 60 * d)), cert_der = (\<lambda>_. Ok []), affine_coordinates = (\<lambda>_. Ok ([], [])),
      sign_jwt = (\<lambda>_ _ _. Ok ''token''), ec_generate = Ok (), ec_key_from_pem = (\<lambda>_. Ok ()),
      x509_of_pem = (\<lambda>_. Ok ())\<rparr>"

definition sample_wasm :: "bytes wasm_lib" where
  "sample_wasm =
     \<lparr>key_of_file = (\<lambda>_ _. Err []), keys_verify = (\<lambda>_ _. Err []), engine_of_cache_config = (\<lambda>_ _. Ok ()),
      component_from_binary = Ok, index_to_vec = (\<lambda>idx. Ok (map (\<lambda>_. 0) (idx_by_id idx))),
      index_from_slice = (\<lambda>_. None), evidence_to_vec = (\<lambda>_. Ok []), run_component = (\<lambda>_ _ _ _ _. Ok [])\<rparr>"

definition sample_world :: "(unit, unit, bytes, unit, unit, unit, unit, unit) as_world" where
  "sample_world =
     \<lparr>w_crates = sample_as_crates, w_env = sample_vars, w_lib = sample_as_lib, w_wasm = sample_wasm,
      w_io = no_faults, w_ear = sample_ear, w_codec = sample_codec, w_rego = sample_rego,
      w_rvps_codec = \<lparr>std_decode = (\<lambda>_. None), object_from_slice = (\<lambda>_. None), message_from_str = (\<lambda>_. None)\<rparr>\<rparr>"

definition sample_broker_config :: EarTokenConfiguration where
  "sample_broker_config =
     \<lparr>duration_min = 5, issuer_name = [], developer_name = [], build_name = [], profile_name = [],
      signer = None, policy_dir = []\<rparr>"

definition sample_as :: "(unit, unit, unit, unit) As" where
  "sample_as =
     \<lparr>as_config = \<lparr>work_dir = [], token_broker_config = sample_broker_config, verifier_config = None,
        wasm_verifier_config = \<lparr>wasm_enabled = False, cfg_allow_unsigned = False, trusted_public_keys = [],
          cfg_registry_dir = None, default_component_id = None, cfg_wasi_cache_dir = None,
          wasmtime_cache_config = None\<rparr>\<rparr>,
      as_rvps = \<lparr>extractors = [], rv_storage = \<lparr>rvs_set = (\<lambda>s _ _. (Ok None, s)), rvs_get = (\<lambda>_ _. Ok None)\<rparr>\<rparr>,
      as_opa = \<lparr>policy_dir_path = [''opa'']\<rparr>,
      token_broker = \<lparr>broker_config = sample_broker_config, private_key = (), cert_url = None,
        broker_cert_chain = None\<rparr>,
      wasm_verifier = None\<rparr>"

definition sample_as_state :: "(bytes, unit) as_state" where
  "sample_as_state =
     \<lparr>as_fs = [([''opa''], DirNode), ([''opa'', ''default_cpu.rego''], FileNode [])],
      as_registry = RegistryState_default, as_rv = (), as_clock = 0, as_entropy = (\<lambda>_. Some []),
      as_uuids = (\<lambda>_. [])\<rparr>"

lemma sample_transform:
  assumes "map_of m ''report_data'' = Some (JString r)" and "map_of m ''init_data'' = Some (JString i)"
  shows "\<exists>out. transform_claims sample_ear (JObject m) ic rc tee = Ok out"
  using assms by (simp add: transform_claims_def move_claim_def sample_ear_def json_remove_def)

lemma sample_policy:
  "as_opa_evaluate sample_as_crates sample_rego sample_codec no_faults (as_fs sample_as_state) (as_opa sample_as)
     None input ''default_cpu'' (Some rvps) =
   Ok \<lparr>trust_claims = JObject [(''hardware'', JNumber 2)], result_extensions = [],
       result_policy_hash = hex_of (toy_hash 48 [])\<rparr>"
  by (simp add: as_opa_evaluate_def read_file_def under_def join1_def sample_as_state_def sample_as_def
      from_utf8_def str_of_def opa_eval_text_def opa_add_data_def opa_add_extension_def sample_rego_def
      sample_codec_def sample_as_crates_def bytes_of_def reference_crates_def)

lemma sample_appraise:
  assumes "map_of m ''report_data'' = Some (JString r)" and "map_of m ''init_data'' = Some (JString i)"
  shows "\<exists>app. appraise sample_ear
     (as_opa_evaluate sample_as_crates sample_rego sample_codec no_faults (as_fs sample_as_state) (as_opa sample_as))
     (Some rvps) ''default''
     \<lparr>tc_tee = tee, tc_class = ''cpu'', tc_claims = JObject m, tc_init_data_claims = ic,
      tc_runtime_data_claims = rc\<rparr> = Ok app"
proof -
  obtain out where "transform_claims sample_ear (JObject m) ic rc tee = Ok out"
    using sample_transform [OF assms] by blast
  then show ?thesis
    by (simp add: appraise_def sample_policy Let_def) (simp add: sample_ear_def)
qed


lemma sample_issue:
  assumes "submods_loop sample_ear chk ev rvps p [] [] cs = Ok s"
  shows "issue sample_ear sample_codec chk ev now (token_broker sample_as) cs [p] rvps = Ok ''token''"
  unfolding issue_def by (simp add: assms pubkey_jwk_def) (simp add: sample_ear_def sample_as_def)

lemma sample_builtin_verify:
  "as_verify (builtin_coco_as sample_world (\<lambda>_. ([], [])) True (\<lambda>_. []) sample_as) sample_as_state sample_evidence =
     Ok ''token''"
proof -
  obtain m r i where v: "v_evaluate (TdxVerifier sample_tdx) (JString ''quote'') (ReportValue [1, 2, 3])
      InitNotProvided = Ok [(JObject m, ''cpu'')]"
    and m: "map_of m ''report_data'' = Some (JString r)" "map_of m ''init_data'' = Some (JString i)"
    using sample_accepted [of InitNotProvided "JString ''quote''"] by blast
  let ?e = "hd sample_evidence"
  let ?t = "\<lparr>tc_tee = ''sample'', tc_class = ''cpu'', tc_claims = JObject m, tc_init_data_claims = JNull,
    tc_runtime_data_claims = ev_runtime_data ?e\<rparr>"
  have w: "w_lib sample_world = sample_as_lib" "w_crates sample_world = sample_as_crates"
    "w_ear sample_world = sample_ear" "w_codec sample_world = sample_codec" "w_rego sample_world = sample_rego"
    "w_io sample_world = no_faults" by (simp_all add: sample_world_def)
  have ver: "verifier_for sample_world sample_as tee = Ok (TdxVerifier sample_tdx)" for tee
    by (simp add: w sample_as_lib_def to_verifier_def tdx_snp_build_def)
  have nowasm: "wasm_verifier sample_as = None" by (simp add: sample_as_def)
  obtain req where req: "builtin_request sample_as_lib (\<lambda>_. ([], [])) ?e = Ok req"
    "vr_init_data req = None" by (simp add: builtin_request_def)
  note fields = builtin_request_Ok [OF req(1)]
  have tee: "vr_tee req = ''sample''" using fields by simp
  have rt: "parse_runtime_data sample_as_lib (vr_runtime_data req) (vr_hash_algorithm req) =
      Ok (Some [1, 2, 3], ev_runtime_data ?e)"
    by (simp add: parse_runtime_data_def fields) (simp add: sample_as_lib_def)
  have it: "parse_init_data sample_as_crates sample_as_lib (vr_init_data req) = Ok (None, JNull)"
    by (simp add: parse_init_data_def req)
  have nat: "native_claims sample_world sample_as req (Some [1, 2, 3]) None = Ok [(JObject m, ''cpu'')]"
    using v by (simp add: native_claims_def ver fields report_data_of_def init_data_hash_of_def)
  have "request_claims sample_world sample_as u sample_as_state req = (Ok [?t], sample_as_state)" for u
    unfolding request_claims_def w rt it by (simp add: nowasm nat tee)
  then have loop: "requests_loop sample_world sample_as sample_as_state [] [req] = (Ok [?t], sample_as_state)"
    by simp
  have "\<exists>s. submods_loop sample_ear chk (as_opa_evaluate sample_as_crates sample_rego sample_codec no_faults
      (as_fs sample_as_state) (as_opa sample_as)) (Some rvps) ''default'' [] [] [?t] = Ok s" for rvps chk
  proof -
    obtain app where "appraise sample_ear (as_opa_evaluate sample_as_crates sample_rego sample_codec no_faults
        (as_fs sample_as_state) (as_opa sample_as)) (Some rvps) ''default'' ?t = Ok app"
      using sample_appraise [OF m] by blast
    then show ?thesis by (simp add: next_index_def)
  qed
  then have "issue sample_ear sample_codec True (as_opa_evaluate sample_as_crates sample_rego sample_codec no_faults
      (as_fs sample_as_state) (as_opa sample_as)) 0 (token_broker sample_as) [?t] [''default''] (Some rvps) =
      Ok ''token''" for rvps
    by (metis sample_issue)
  then have "fst (as_evaluate sample_world True sample_as sample_as_state [req] [''default'']) = Ok ''token''"
    unfolding as_evaluate_def loop by (simp add: w) (simp add: sample_as_state_def)
  then show ?thesis
    using req(1) by (simp add: builtin_coco_as_def builtin_verify_def w)
qed


lemma sample_builtin_challenge:
  "as_generate_challenge (builtin_coco_as sample_world (\<lambda>_. ([], [])) True (\<lambda>_. []) sample_as) sample_as_state
     ''sample'' JNull = Ok sample_challenge"
  by (simp add: builtin_coco_as_def builtin_generate_challenge_def sample_world_def sample_as_lib_def
      make_nonce_def sample_as_state_def sample_as_crates_def sample_challenge_def)


end
