(* ===== verification/As_Token_Properties.thy ===== *)
theory As_Token_Properties
  imports As_Properties
begin

text \<open>
  What an attestation token says: which devices it covers and under which policy, how many of one class it can
  hold, and how trust claims are stored.
\<close>

section \<open>Coverage\<close>




section \<open>The number of devices\<close>

text \<open>With \<open>k\<close> devices of the class behind it, the loop goes on over devices of that class only.\<close>

definition indices_after :: "string \<Rightarrow> nat \<Rightarrow> (string \<times> byte) list" where
  "indices_after c k = (if k = 0 then [] else [(c, word_of_nat (k - 1))])"

lemma next_index_after:
  assumes "k \<le> 256"
  shows "next_index chk (indices_after c k) c =
    (if chk \<and> k = 256 then Panic else Ok (word_of_nat k))"
proof (cases k)
  case 0
  then show ?thesis by (simp add: next_index_def indices_after_def)
next
  case (Suc j)
  have "(word_of_nat j :: byte) = 255 \<longleftrightarrow> j = 255"
  proof -
    have "(word_of_nat j :: byte) = 255 \<longleftrightarrow> unat (word_of_nat j :: byte) = 255" by (simp add: word_unat_eq_iff)
    also have "unat (word_of_nat j :: byte) = j" using assms Suc by (simp add: unat_of_nat)
    finally show ?thesis .
  qed
  then show ?thesis using Suc by (auto simp: next_index_def indices_after_def add.commute)
qed

lemma indices_after_step:
  "AList.update c (word_of_nat k) (indices_after c k) = indices_after c (Suc k)"
  by (simp add: indices_after_def)

lemma one_class_loop:
  assumes "list_all (\<lambda>t. tc_class t = c \<and> is_ok (appraise L ev rvps p t)) ts" and "k \<le> 256"
  shows "submods_loop L True ev rvps p (indices_after c k) submods ts = Panic \<longleftrightarrow> 256 < k + length ts"
  using assms
proof (induction ts arbitrary: k submods)
  case Nil
  then show ?case by simp
next
  case (Cons t ts)
  then obtain app where t: "tc_class t = c" "appraise L ev rvps p t = Ok app" by (auto simp: is_ok_iff)
  show ?case
  proof (cases "k = 256")
    case True
    then show ?thesis using t next_index_after [of 256 True c] by simp
  next
    case False
    then have "Suc k \<le> 256" using Cons.prems(2) by simp
    then show ?thesis
      using Cons.IH [of "Suc k"] Cons.prems(1) t next_index_after [OF Cons.prems(2), of True c] False
      by (simp add: indices_after_step)
  qed
qed

text \<open>
  C35. With overflow checks the broker handles at most 256 devices of one class: with claims of that many
  devices that can all be appraised it goes on to sign the token, and with one more it panics, because the index
  of a device in its class is a byte.
\<close>

theorem device_limit:
  assumes "list_all (\<lambda>t. tc_class t = c \<and> is_ok (appraise L ev rvps p t)) claims"
  shows "submods_loop L True ev rvps p [] [] claims = Panic \<longleftrightarrow> 256 < length claims"
  using one_class_loop [OF assms, of 0] by (simp add: indices_after_def)

definition sample_claims :: TeeClaims where
  "sample_claims =
     \<lparr>tc_tee = ''sample'', tc_class = ''gpu'', tc_claims = JNull, tc_init_data_claims = JNull,
      tc_runtime_data_claims = JNull\<rparr>"

definition sample_verdict :: "json \<Rightarrow> policy_evaluate" where
  "sample_verdict v = (\<lambda>_ _ _ _. Ok \<lparr>trust_claims = v, result_extensions = [], result_policy_hash = []\<rparr>)"

lemma sample_appraisal:
  "appraise sample_ear (sample_verdict (JObject [(''hardware'', JNumber n)])) None p sample_claims =
     (if - (2 ^ 63) \<le> n \<and> n < 2 ^ 63
      then Ok \<lparr>trust_vector = [(''hardware'', word_of_int n)], app_extensions = (),
               annotated_evidence = [(''sample'', JNull)], app_policy_id = Some p, app_status = ''affirming''\<rparr>
      else Err [''Policy claim value not number''])"
  by (simp add: appraise_def sample_verdict_def sample_claims_def sample_ear_def transform_claims_def
      json_insert_def)

theorem device_limit_witness:
  "submods_loop sample_ear True (sample_verdict (JObject [(''hardware'', JNumber 2)])) None [] [] []
     (replicate 257 sample_claims) = Panic"
  by (subst device_limit [of "''gpu''"])
    (simp_all add: list_all_iff sample_appraisal, simp add: sample_claims_def)

section \<open>Trust claims\<close>

text \<open>
  C34. An appraisal is made of the result the policy gives for the transformed claims: it must be an object
  whose values are 64-bit integers under names of the trust vector, at least one of which is set, and each value
  is stored by its lowest 8 bits, so that values outside the range of a trust claim are not refused but changed.
\<close>

theorem trust_claims_reduced:
  assumes "appraise L ev rvps p t = Ok app"
  shows "\<exists>input results m. ev None input (p @ ''_'' @ tc_class t) rvps = Ok results \<and>
    trust_claims results = JObject m \<and> any_set L (trust_vector app) \<and>
    (distinct (map fst m) \<longrightarrow>
       list_all (\<lambda>(k, v). \<exists>n. as_i64 v = Some n \<and> trust_claim_known L k \<and>
         map_of (trust_vector app) k = Some (word_of_int n)) m)"
proof -
  from assms obtain input results m where "ev None input (p @ ''_'' @ tc_class t) rvps = Ok results"
    "trust_claims results = JObject m" "any_set L (trust_vector app)"
    and tv: "set_trust_claims L [] m = Ok (trust_vector app)"
    by (rule appraise_Ok)
  moreover have "list_all (\<lambda>(k, v). \<exists>n. as_i64 v = Some n \<and> trust_claim_known L k \<and>
         map_of (trust_vector app) k = Some (word_of_int n)) m" if "distinct (map fst m)"
    using set_trust_claims_value [OF tv that] by (auto simp: list_all_iff)
  ultimately show ?thesis by blast
qed

theorem trust_claims_reduced_witness:
  "appraise sample_ear (sample_verdict (JObject [(''hardware'', JNumber 300)])) None [] sample_claims =
     Ok \<lparr>trust_vector = [(''hardware'', 44)], app_extensions = (), annotated_evidence = [(''sample'', JNull)],
         app_policy_id = Some [], app_status = ''affirming''\<rparr> \<and>
   any_set sample_ear [(''hardware'', 44 :: i8)]"
proof -
  have a: "appraise sample_ear (sample_verdict (JObject [(''hardware'', JNumber 300)])) None [] sample_claims =
     Ok \<lparr>trust_vector = [(''hardware'', 44)], app_extensions = (), annotated_evidence = [(''sample'', JNull)],
         app_policy_id = Some [], app_status = ''affirming''\<rparr>"
    by (simp add: sample_appraisal)
  from trust_claims_reduced [OF this] have "any_set sample_ear [(''hardware'', 44 :: i8)]" by auto
  with a show ?thesis by blast
qed


section \<open>Policies\<close>

text \<open>
  C31. A policy that loads, stored under a valid id, is from then on what is read back, what every appraisal
  under that id evaluates, and what is listed with its SHA-384 digest; the other policies stay as they were. An
  id with other characters than letters, digits, \<^verbatim>\<open>-\<close> and \<^verbatim>\<open>_\<close> is refused and changes nothing.
\<close>

theorem as_policy_update:
  assumes "policy_ok (w_rego W) (w_codec W) pid encoded text" and "w_io W = no_faults"
    and "is_dir (as_fs s) (policy_dir_path (as_opa self))"
    and "map_of (as_fs s) (policy_dir_path (as_opa self) @ [pid @ ''.rego'']) \<noteq> Some DirNode"
  shows "\<exists>s'. as_set_policy_op W self s pid encoded = (Ok (), s') \<and>
    as_get_policy W self s' pid = Ok (url_b64_encode (w_codec W) (bytes_of text)) \<and>
    as_opa_evaluate (w_crates W) (w_rego W) (w_codec W) (w_io W) (as_fs s') (as_opa self) data input pid rvps =
      opa_eval_text (w_crates W) (w_rego W) (w_codec W) data input pid rvps text \<and>
    (\<forall>m. as_list_policies W self s' = Ok m \<longrightarrow>
       map_of m pid = Some (url_b64_encode (w_codec W) (sha384 (w_crates W) (bytes_of text)))) \<and>
    (\<forall>pid'. is_valid_policy_id (w_codec W) pid' \<and> rust_str pid' \<and> pid' \<noteq> pid \<longrightarrow>
       as_get_policy W self s' pid' = as_get_policy W self s pid') \<and>
    (\<forall>pid' enc'. \<not> is_valid_policy_id (w_codec W) pid' \<longrightarrow>
       (\<exists>e. as_set_policy_op W self s' pid' enc' = (Err e, s')))"
proof -
  let ?J = "w_codec W" and ?d = "policy_dir_path (as_opa self)"
  let ?f = "AList.update (?d @ [pid @ ''.rego'']) (FileNode (bytes_of text)) (as_fs s)"
  let ?s = "s\<lparr>as_fs := ?f\<rparr>"
  have ok: "is_valid_policy_id ?J pid" "rust_str pid" "pid \<noteq> []" and utf8: "from_utf8 (bytes_of text) = Some text"
    using assms(1) from_utf8_bytes_of by (auto simp: policy_ok_def)
  have set: "as_set_policy_op W self s pid encoded = (Ok (), ?s)"
    using as_opa_set_policy_write [OF assms(1,3,4), of "w_io W"] assms(2)
    by (simp add: as_set_policy_op_def)
  have entry: "map_of ?f (?d @ [pid @ ''.rego'']) = Some (FileNode (bytes_of text))" by simp
  have get: "as_get_policy W self ?s pid = Ok (url_b64_encode ?J (bytes_of text))"
    using as_opa_reads(1) [OF ok(1,2) entry] by (simp add: as_get_policy_def assms(2))
  have eval: "as_opa_evaluate (w_crates W) (w_rego W) ?J (w_io W) ?f (as_opa self) data input pid rvps =
      opa_eval_text (w_crates W) (w_rego W) ?J data input pid rvps text"
    using as_opa_reads(2) [OF ok(1,2) entry] utf8 by (simp add: assms(2))
  have lists: "map_of m pid = Some (url_b64_encode ?J (sha384 (w_crates W) (bytes_of text)))"
    if "as_list_policies W self ?s = Ok m" for m
    using as_opa_lists [OF ok entry] that by (auto simp: as_list_policies_def assms(2) outcome_iff)
  have other: "as_get_policy W self ?s pid' = as_get_policy W self s pid'"
    if "is_valid_policy_id ?J pid'" "rust_str pid'" "pid' \<noteq> pid" for pid'
    using that valid_policy_file(2) [OF that(1,2)]
    by (simp add: as_get_policy_def as_opa_get_policy_def assms(2) read_file_def)
  have bad: "\<exists>e. as_set_policy_op W self ?s pid' enc' = (Err e, ?s)" if "\<not> is_valid_policy_id ?J pid'" for pid' enc'
    using that by (cases "url_b64_decode ?J enc'") (simp_all add: as_set_policy_op_def as_opa_set_policy_def)
  show ?thesis using set get eval lists other bad by (intro exI [of _ ?s] conjI) auto
qed

theorem as_policy_update_witness:
  "\<exists>s'. as_set_policy_op sample_world sample_as sample_as_state ''p'' ''t'' = (Ok (), s') \<and>
     as_get_policy sample_world sample_as s' ''p'' = Ok ''t''"
proof -
  have ascii: "valid_utf8 (bytes_of [c])" "utf8_chars (bytes_of [c]) = [bytes_of [c]]" if "of_char c < (128 :: nat)" for c
    using that by (simp_all add: bytes_of_def valid_utf8.simps utf8_chars.simps utf8_next_def byte_at_def Let_def
        unat_of_nat)
  have "policy_ok (w_rego sample_world) (w_codec sample_world) ''p'' ''t'' ''t''"
    by (simp add: policy_ok_def is_valid_policy_id_def ascii rust_str_def)
      (simp add: sample_world_def sample_codec_def sample_rego_def char_alphanumeric_def bytes_of_def str_of_def
        is_ascii_alphanumeric_def char_of_def bit_0)
  moreover have "w_io sample_world = no_faults" "is_dir (as_fs sample_as_state) (policy_dir_path (as_opa sample_as))"
    "map_of (as_fs sample_as_state) (policy_dir_path (as_opa sample_as) @ [''p'' @ ''.rego'']) \<noteq> Some DirNode"
    by (simp_all add: sample_world_def sample_as_state_def sample_as_def is_dir_def)
  ultimately obtain s' where "as_set_policy_op sample_world sample_as sample_as_state ''p'' ''t'' = (Ok (), s')"
    "as_get_policy sample_world sample_as s' ''p'' = Ok (url_b64_encode (w_codec sample_world) (bytes_of ''t''))"
    using as_policy_update [of sample_world "''p''" "''t''" "''t''" sample_as_state sample_as] by blast
  then show ?thesis by (simp add: sample_world_def sample_codec_def)
qed

end
