(* ===== verification/As_Wasm_Properties.thy ===== *)
theory As_Wasm_Properties
  imports As_Properties
begin

text \<open>
  What the registry of WebAssembly verifier components keeps when registrations run concurrently, and two ways
  in which it falls short after a restart.
\<close>

section \<open>Concurrent registrations\<close>

text \<open>
  C20. However registrations interleave, two that returned for components of one digest returned the same id,
  and two of different digests different ids; the id of a returned registration is known by its digest; and
  every compiled component was made of bytes whose signature the host accepted, registered under that id.
\<close>

theorem registry_consistent:
  assumes "(reg_step E W io cfg)\<^sup>*\<^sup>* (reg_init f) s"
    and "Returned b1 i1 \<in> set (sys_tasks s)" "Returned b2 i2 \<in> set (sys_tasks s)"
  shows "(i1 = i2 \<longleftrightarrow> sha256_hex E b1 = sha256_hex E b2) \<and> accepted W cfg b1 \<and>
    map_of (by_hash (sys_registry s)) (sha256_hex E b1) = Some i1 \<and>
    (\<forall>i m. map_of (compiled (sys_registry s)) i = Some m \<longrightarrow>
      (\<exists>b. accepted W cfg b \<and> component_from_binary W b = Ok m \<and>
           map_of (by_hash (sys_registry s)) (sha256_hex E b) = Some i))"
proof -
  have inv: "maps_ok (sys_registry s)" "compiled_ok E W cfg (sys_registry s)"
    and tasks: "\<And>t. t \<in> set (sys_tasks s) \<Longrightarrow> task_ok E W cfg (sys_registry s) t"
    using reg_reachable_inv [OF assms(1)] by (auto simp: reg_inv_def)
  have t1: "map_of (by_hash (sys_registry s)) (sha256_hex E b1) = Some i1" "accepted W cfg b1"
    and t2: "map_of (by_hash (sys_registry s)) (sha256_hex E b2) = Some i2"
    using tasks [OF assms(2)] tasks [OF assms(3)] by simp_all
  have "i1 = i2 \<longleftrightarrow> sha256_hex E b1 = sha256_hex E b2"
    using inv(1) t1(1) t2 unfolding maps_ok_def by (metis option.inject)
  then show ?thesis using t1 inv(2) by (simp add: compiled_ok_def)
qed

text \<open>
  A host that takes unsigned components, with an index made of the ids. Two components are registered
  concurrently, under the ids \<^verbatim>\<open>1\<close> and \<^verbatim>\<open>2\<close>.
\<close>

definition open_cfg :: ResolvedConfig where
  "open_cfg = \<lparr>allow_unsigned = True, registry_dir = [''r''], wasi_cache_dir = [''w''], trusted_keys = None\<rparr>"

definition race_entry :: "string \<Rightarrow> bytes \<Rightarrow> RegistryEntry" where
  "race_entry i b =
     \<lparr>entry_component_id = i, entry_sha256 = sha256_hex reference_crates b, entry_filename = i @ ''.wasm''\<rparr>"

definition race_index :: "nat \<Rightarrow> RegistryIndex" where
  "race_index n =
     \<lparr>idx_by_id = take n [(''1'', race_entry ''1'' [1]), (''2'', race_entry ''2'' [2])],
      idx_by_hash = take n [(sha256_hex reference_crates [1], ''1''), (sha256_hex reference_crates [2], ''2'')]\<rparr>"

definition race_registry :: "nat \<Rightarrow> bytes RegistryState" where
  "race_registry n =
     \<lparr>by_id = idx_by_id (race_index n), by_hash = idx_by_hash (race_index n),
      compiled = take n [(''1'', [1]), (''2'', [2])]\<rparr>"

definition race_wasm :: "bytes wasm_lib" where
  "race_wasm =
     sample_wasm\<lparr>index_to_vec := \<lambda>idx. Ok [word_of_nat (length (idx_by_id idx))],
                  index_from_slice := \<lambda>b. Some (race_index (unat (hd b)))\<rparr>"

definition race_files :: "nat \<Rightarrow> byte option \<Rightarrow> fs" where
  "race_files n idx =
     [([''r''], DirNode)] @ take n [([''r'', ''1.wasm''], FileNode [1]), ([''r'', ''2.wasm''], FileNode [2])] @
     (case idx of Some k \<Rightarrow> [([''r'', ''index.json''], FileNode [k])] | None \<Rightarrow> [])"

definition race_state :: "nat \<Rightarrow> fs \<Rightarrow> bytes reg_task list \<Rightarrow> bytes reg_sys" where
  "race_state n f ts = \<lparr>sys_registry = race_registry n, sys_fs = f, sys_tasks = ts\<rparr>"

lemma race_hashes: "sha256_hex reference_crates [1] \<noteq> sha256_hex reference_crates [2]"
  by (simp add: sha256_hex_def hex_of_inj toy_hash_def)

lemmas race_hashes_sym = race_hashes [symmetric]

lemma race_numerals [simp]: "take 2 [x, y] = [x, y]" "take 1 (x # xs) = [x]"
  by (simp_all add: numeral_2_eq_2)

lemma race_snapshot: "snapshot (race_registry n) = race_index n"
  by (simp add: snapshot_def race_registry_def)

lemma race_insert:
  "reg_insert ''1'' (sha256_hex reference_crates [1]) [1] (race_registry 0) = race_registry 1"
  "reg_insert ''2'' (sha256_hex reference_crates [2]) [2] (race_registry 1) = race_registry 2"
  using race_hashes by (simp_all add: reg_insert_def race_registry_def race_index_def race_entry_def)

lemma race_check:
  "reg_check reference_crates race_wasm open_cfg (race_registry 0) b = Ok (Compiled b)"
  by (simp add: reg_check_def verify_component_signature_def open_cfg_def race_registry_def race_index_def
      race_wasm_def sample_wasm_def)

lemma race_write:
  "write_file no_faults (race_files 0 None) (component_path open_cfg ''1'') [1] = (Ok (), race_files 1 None)"
  "write_file no_faults (race_files 1 None) (component_path open_cfg ''2'') [2] = (Ok (), race_files 2 None)"
  by (simp_all add: write_file_def component_path_def open_cfg_def race_files_def is_dir_def exists_path_def)

lemma race_persist:
  "persist_registry_index race_wasm no_faults (race_files 2 None) (registry_dir open_cfg) (race_index 2) =
     (Ok (), race_files 2 (Some 2))"
  "persist_registry_index race_wasm no_faults (race_files 2 (Some 2)) (registry_dir open_cfg) (race_index 1) =
     (Ok (), race_files 2 (Some 1))"
  by (simp_all add: persist_registry_index_def write_file_def rename_file_def open_cfg_def race_files_def
      is_dir_def exists_path_def race_wasm_def race_index_def)

lemma race_run:
  "(reg_step reference_crates race_wasm no_faults open_cfg)\<^sup>*\<^sup>* (reg_init (race_files 0 None))
     (race_state 2 (race_files 2 (Some 1)) [Returned [1] ''1'', Returned [2] ''2''])"
proof -
  let ?S = "reg_step reference_crates race_wasm no_faults open_cfg"
  let ?c1 = "Committed [1] ''1'' (race_index 1)" and ?c2 = "Committed [2] ''2'' (race_index 2)"
  have init: "reg_init (race_files 0 None) = race_state 0 (race_files 0 None) []"
    by (simp add: reg_init_def race_state_def race_registry_def race_index_def RegistryState_default_def)
  have s1: "?S (race_state 0 (race_files 0 None) []) (race_state 0 (race_files 0 None) [Checked [1] [1]])"
    using reg_compiled [of reference_crates race_wasm open_cfg "race_state 0 (race_files 0 None) []" "[1]" "[1]"]
    by (simp add: race_state_def race_check)
  have s2: "?S (race_state 0 (race_files 0 None) [Checked [1] [1]])
      (race_state 0 (race_files 0 None) [Checked [1] [1], Checked [2] [2]])"
    using reg_compiled [of reference_crates race_wasm open_cfg "race_state 0 (race_files 0 None) [Checked [1] [1]]" "[2]" "[2]"]
    by (simp add: race_state_def race_check)
  have s3: "?S (race_state 0 (race_files 0 None) [Checked [1] [1], Checked [2] [2]])
      (race_state 0 (race_files 1 None) [Written [1] [1] ''1'', Checked [2] [2]])"
    using reg_write [of 0 "race_state 0 (race_files 0 None) [Checked [1] [1], Checked [2] [2]]" "[1]" "[1]" "''1''"
        no_faults open_cfg "race_files 1 None"] race_write(1)
    by (simp add: race_state_def fresh_uuid_def race_registry_def race_index_def)
  have s4: "?S (race_state 0 (race_files 1 None) [Written [1] [1] ''1'', Checked [2] [2]])
      (race_state 0 (race_files 2 None) [Written [1] [1] ''1'', Written [2] [2] ''2''])"
    using reg_write [of 1 "race_state 0 (race_files 1 None) [Written [1] [1] ''1'', Checked [2] [2]]" "[2]" "[2]" "''2''"
        no_faults open_cfg "race_files 2 None"] race_write(2)
    by (simp add: race_state_def fresh_uuid_def race_registry_def race_index_def)
  have s5: "?S (race_state 0 (race_files 2 None) [Written [1] [1] ''1'', Written [2] [2] ''2''])
      (race_state 1 (race_files 2 None) [?c1, Written [2] [2] ''2''])"
    using reg_commit [of 0 "race_state 0 (race_files 2 None) [Written [1] [1] ''1'', Written [2] [2] ''2'']" "[1]" "[1]"
        "''1''" reference_crates "race_registry 1"] race_insert(1) race_snapshot
    by (simp add: race_state_def) (simp add: race_registry_def race_index_def)
  have s6: "?S (race_state 1 (race_files 2 None) [?c1, Written [2] [2] ''2''])
      (race_state 2 (race_files 2 None) [?c1, ?c2])"
    using reg_commit [of 1 "race_state 1 (race_files 2 None) [?c1, Written [2] [2] ''2'']" "[2]" "[2]"
        "''2''" reference_crates "race_registry 2"] race_insert(2) race_snapshot race_hashes_sym
    by (simp add: race_state_def) (simp add: race_registry_def race_index_def)
  have s7: "?S (race_state 2 (race_files 2 None) [?c1, ?c2])
      (race_state 2 (race_files 2 (Some 2)) [?c1, Returned [2] ''2''])"
    using reg_persist [of 1 "race_state 2 (race_files 2 None) [?c1, ?c2]" "[2]" "''2''" "race_index 2"
        race_wasm no_faults open_cfg] race_persist(1)
    by (simp add: race_state_def)
  have s8: "?S (race_state 2 (race_files 2 (Some 2)) [?c1, Returned [2] ''2''])
      (race_state 2 (race_files 2 (Some 1)) [Returned [1] ''1'', Returned [2] ''2''])"
    using reg_persist [of 0 "race_state 2 (race_files 2 (Some 2)) [?c1, Returned [2] ''2'']" "[1]" "''1''"
        "race_index 1" race_wasm no_faults open_cfg] race_persist(2)
    by (simp add: race_state_def)
  show ?thesis
    unfolding init using s1 s2 s3 s4 s5 s6 s7 s8
    by (meson converse_rtranclp_into_rtranclp rtranclp.rtrancl_refl)
qed

theorem registry_consistent_witness:
  "''1'' \<noteq> ''2'' \<and> sha256_hex reference_crates [1] \<noteq> sha256_hex reference_crates [2]"
  using registry_consistent [OF race_run, of "[1]" "''1''" "[2]" "''2''"] by (simp add: race_state_def)

text \<open>
  The order in which concurrent registrations write the index is not the order in which they entered the
  registry: two registrations can both return an id while the index on disk holds only the first, so that after
  a restart the host no longer knows the second component.
\<close>

theorem registry_index_race:
  "\<exists>s st. (reg_step reference_crates race_wasm no_faults open_cfg)\<^sup>*\<^sup>* (reg_init (race_files 0 None)) s \<and>
     set (sys_tasks s) = {Returned [1] ''1'', Returned [2] ''2''} \<and>
     map_of (by_id (sys_registry s)) ''2'' \<noteq> None \<and>
     load_registry_index race_wasm no_faults (sys_fs s) (registry_dir open_cfg) = Ok st \<and>
     map_of (by_id st) ''1'' \<noteq> None \<and> map_of (by_id (st :: bytes RegistryState)) ''2'' = None"
proof -
  let ?s = "race_state 2 (race_files 2 (Some 1)) [Returned [1] ''1'', Returned [2] ''2'']"
  have "\<exists>st :: bytes RegistryState. load_registry_index race_wasm no_faults (sys_fs ?s) (registry_dir open_cfg) = Ok st \<and>
      map_of (by_id st) ''1'' \<noteq> None \<and> map_of (by_id st) ''2'' = None"
    by (simp add: load_registry_index_def race_state_def race_files_def read_file_def open_cfg_def race_wasm_def
        race_index_def race_entry_def exists_path_def RegistryState_default_def)
  moreover have "set (sys_tasks ?s) = {Returned [1] ''1'', Returned [2] ''2''}" "map_of (by_id (sys_registry ?s)) ''2'' \<noteq> None"
    by (simp_all add: race_state_def race_registry_def race_index_def)
  ultimately show ?thesis using race_run by blast
qed

section \<open>After a restart\<close>

text \<open>
  A component of the index that is not yet compiled is compiled from its file: neither its signature nor its
  digest is checked again.
\<close>

lemma reload_unchecked:
  assumes "map_of (compiled (registry h)) cid = None" and "map_of (by_id (registry h)) cid = Some e"
    and "read_file io (host_fs h) (registry_dir cfg @ [entry_filename e]) = Ok b" and "component_from_binary W b = Ok m"
  shows "fst (get_compiled_component W io cfg h cid) = Ok m"
  using assms by (simp add: get_compiled_component_def get_component_bytes_def)

end
