(* ===== verification/Kbs_Jwe.thy ===== *)
theory Kbs_Jwe
  imports Kbs_Access Verifier
begin

text \<open>
  The encryption of responses (\<^verbatim>\<open>kbs/src/jwe.rs\<close>): a fresh content key encrypts the payload with
  AES-256-GCM and is itself encrypted to the TEE key, with RSA or by a key agreement on P-256 or P-521. The
  cryptographic packages (\<^verbatim>\<open>aes_gcm\<close>, \<^verbatim>\<open>aes_kw\<close>, \<^verbatim>\<open>rsa\<close>, \<^verbatim>\<open>p256\<close>, \<^verbatim>\<open>p521\<close>, \<^verbatim>\<open>concat_kdf\<close>) and
  \<^verbatim>\<open>kbs_types\<close> are parameters; what is drawn from the random generators is an argument.

  \<open>jwe_open\<close> is the receiver of RFC 7516 and RFC 7518, the specification the encryption is checked against; the
  locale \<open>jose\<close> states what it relies on: that the primitives of the packages undo each other.
\<close>

section \<open>Packages\<close>

datatype RsaPadding = Pkcs1v15Encrypt | OaepSha256

datatype Curve = P256 | P521

record ProtectedHeader =
  ph_alg :: string
  ph_enc :: string
  ph_other_fields :: json_map

record Response =
  protected :: ProtectedHeader
  encrypted_key :: bytes
  rsp_iv :: bytes
  ciphertext :: bytes
  rsp_aad :: "bytes option"
  rsp_tag :: bytes

text \<open>
  \<open>'rk\<close> are RSA public keys, \<open>'pk\<close> points of a curve and \<open>'sk\<close> its secrets. \<open>aes_encrypt key iv aad data\<close> gives the
  ciphertext and the tag; \<open>point_x\<close> and \<open>point_y\<close> are the coordinates of an encoded point.
\<close>

record ('rk, 'pk, 'sk) jose_lib =
  url_decode :: "string \<Rightarrow> (string, bytes) outcome"
  url_encode :: "bytes \<Rightarrow> string"
  generate_aad :: "ProtectedHeader \<Rightarrow> (string, bytes) outcome"
  aes_encrypt :: "bytes \<Rightarrow> bytes \<Rightarrow> bytes \<Rightarrow> bytes \<Rightarrow> (string, bytes \<times> bytes) outcome"
  rsa_public_key :: "nat \<Rightarrow> nat \<Rightarrow> (string, 'rk) outcome"
  rsa_encrypt :: "RsaPadding \<Rightarrow> 'rk \<Rightarrow> bytes \<Rightarrow> bytes \<Rightarrow> (string, bytes) outcome"
  from_encoded_point :: "Curve \<Rightarrow> bytes \<Rightarrow> bytes \<Rightarrow> 'pk option"
  secret_public :: "Curve \<Rightarrow> 'sk \<Rightarrow> 'pk"
  diffie_hellman :: "Curve \<Rightarrow> 'sk \<Rightarrow> 'pk \<Rightarrow> bytes"
  point_x :: "Curve \<Rightarrow> 'pk \<Rightarrow> bytes option"
  point_y :: "Curve \<Rightarrow> 'pk \<Rightarrow> bytes option"
  concat_kdf :: "bytes \<Rightarrow> bytes \<Rightarrow> nat \<Rightarrow> (string, bytes) outcome"
  kw_wrap :: "bytes \<Rightarrow> bytes \<Rightarrow> (string, bytes) outcome"

text \<open>What one call draws: the content key, the initialisation vector, the RSA padding and a curve secret.\<close>

record 'sk jwe_random =
  rnd_key :: bytes
  rnd_iv :: bytes
  rnd_padding :: bytes
  rnd_secret :: "Curve \<Rightarrow> 'sk"

section \<open>Encryption\<close>

definition RSA1_5_ALGORITHM :: string where
  "RSA1_5_ALGORITHM = ''RSA1_5''"

definition RSA_OAEP256_ALGORITHM :: string where
  "RSA_OAEP256_ALGORITHM = ''RSA-OAEP-256''"

definition ECDH_ES_A256KW :: string where
  "ECDH_ES_A256KW = ''ECDH-ES+A256KW''"

definition EC_KTY :: string where
  "EC_KTY = ''EC''"

definition P256_CURVE :: string where
  "P256_CURVE = ''P-256''"

definition P521_CURVE :: string where
  "P521_CURVE = ''P-521''"

definition AES_GCM_256_ALGORITHM :: string where
  "AES_GCM_256_ALGORITHM = ''A256GCM''"

definition AES_GCM_256_KEY_BITS :: nat where
  "AES_GCM_256_KEY_BITS = 256"

lemmas jwe_names = RSA1_5_ALGORITHM_def RSA_OAEP256_ALGORITHM_def ECDH_ES_A256KW_def EC_KTY_def P256_CURVE_def
  P521_CURVE_def AES_GCM_256_ALGORITHM_def

text \<open>\<^verbatim>\<open>BigUint::from_bytes_be\<close> and \<^verbatim>\<open>u32::to_be_bytes\<close>.\<close>

definition be_nat :: "bytes \<Rightarrow> nat" where
  "be_nat bs = le_nat (rev bs)"

definition be_bytes32 :: "nat \<Rightarrow> bytes" where
  "be_bytes32 n = rev (le_bytes 4 n)"

definition seal_payload ::
    "('rk, 'pk, 'sk) jose_lib \<Rightarrow> 'sk jwe_random \<Rightarrow> ProtectedHeader \<Rightarrow> bytes \<Rightarrow> (anyhow, bytes \<times> bytes) outcome" where
  "seal_payload L R header payload_data =
     and_then (with_context ''Generate JWE AAD'' (lib_error (generate_aad L header))) (\<lambda>aad.
     map_err (\<lambda>e. [''AES encrypt Resource payload failed: '' @ e])
       (aes_encrypt L (rnd_key R) (rnd_iv R) aad payload_data))"

definition rsa_response ::
    "('rk, 'pk, 'sk) jose_lib \<Rightarrow> 'sk jwe_random \<Rightarrow> RsaPadding \<Rightarrow> string \<Rightarrow> string \<Rightarrow> string \<Rightarrow> bytes \<Rightarrow>
     (anyhow, Response) outcome" where
  "rsa_response L R padding alg k_mod k_exp payload_data =
     (let header = \<lparr>ph_alg = alg, ph_enc = AES_GCM_256_ALGORITHM, ph_other_fields = []\<rparr> in
      and_then (seal_payload L R header payload_data) (\<lambda>(ct, tag).
      and_then (with_context ''base64 decode k_mod failed'' (lib_error (url_decode L k_mod))) (\<lambda>k_mod.
      and_then (with_context ''base64 decode k_exp failed'' (lib_error (url_decode L k_exp))) (\<lambda>k_exp.
      and_then (with_context ''Building RSA key from modulus and exponent failed''
                  (lib_error (rsa_public_key L (be_nat k_mod) (be_nat k_exp)))) (\<lambda>rsa_pub_key.
      and_then (with_context ''RSA encrypt sym key failed''
                  (lib_error (rsa_encrypt L padding rsa_pub_key (rnd_padding R) (rnd_key R)))) (\<lambda>encrypted.
        Ok \<lparr>protected = header, encrypted_key = encrypted, rsp_iv = rnd_iv R, ciphertext = ct,
            rsp_aad = None, rsp_tag = tag\<rparr>))))))"

definition rsa_1v15 ::
    "('rk, 'pk, 'sk) jose_lib \<Rightarrow> 'sk jwe_random \<Rightarrow> string \<Rightarrow> string \<Rightarrow> bytes \<Rightarrow> (anyhow, Response) outcome" where
  "rsa_1v15 L R k_mod k_exp payload_data =
     rsa_response L R Pkcs1v15Encrypt RSA1_5_ALGORITHM k_mod k_exp payload_data"

definition rsa_oaep256 ::
    "('rk, 'pk, 'sk) jose_lib \<Rightarrow> 'sk jwe_random \<Rightarrow> string \<Rightarrow> string \<Rightarrow> bytes \<Rightarrow> (anyhow, Response) outcome" where
  "rsa_oaep256 L R k_mod k_exp payload_data =
     rsa_response L R OaepSha256 RSA_OAEP256_ALGORITHM k_mod k_exp payload_data"

definition coordinate ::
    "('rk, 'pk, 'sk) jose_lib \<Rightarrow> nat \<Rightarrow> string \<Rightarrow> string \<Rightarrow> string \<Rightarrow> (anyhow, bytes) outcome" where
  "coordinate L n name upper s =
     and_then (with_context (''base64 decode '' @ name @ '' failed'') (lib_error (url_decode L s))) (\<lambda>b.
       if length b = n then Ok b else bail (''invalid bytes length of coordinates '' @ upper))"

definition key_derivation_materials :: bytes where
  "key_derivation_materials =
     be_bytes32 (length ECDH_ES_A256KW) @ bytes_of ECDH_ES_A256KW @ be_bytes32 0 @ be_bytes32 0 @
     be_bytes32 AES_GCM_256_KEY_BITS"

definition wrapping_key_of :: "('rk, 'pk, 'sk) jose_lib \<Rightarrow> bytes \<Rightarrow> (anyhow, bytes) outcome" where
  "wrapping_key_of L z =
     map_err (\<lambda>e. [''failed to do concat KDF: '' @ e]) (concat_kdf L z key_derivation_materials 32)"

definition epk_header :: "string \<Rightarrow> string \<Rightarrow> string \<Rightarrow> ProtectedHeader" where
  "epk_header crv x y =
     \<lparr>ph_alg = ECDH_ES_A256KW, ph_enc = AES_GCM_256_ALGORITHM,
      ph_other_fields =
        [(''epk'', JObject [(''crv'', JString crv), (''kty'', JString EC_KTY), (''x'', JString x), (''y'', JString y)])]\<rparr>"

text \<open>
  The two functions of the curves have the same text but for the curve, its name and the size of a coordinate.
  The wrapping key fills a buffer of 32 bytes, so that its conversion to an array cannot fail.
\<close>

definition ecdh_es_a256kw ::
    "('rk, 'pk, 'sk) jose_lib \<Rightarrow> 'sk jwe_random \<Rightarrow> Curve \<Rightarrow> string \<Rightarrow> nat \<Rightarrow> string \<Rightarrow> string \<Rightarrow> bytes \<Rightarrow>
     (anyhow, Response) outcome" where
  "ecdh_es_a256kw L R c crv n x y payload_data =
     and_then (coordinate L n ''x'' ''X'' x) (\<lambda>x.
     and_then (coordinate L n ''y'' ''Y'' y) (\<lambda>y.
     and_then (ok_or [''invalid TEE public key''] (from_encoded_point L c x y)) (\<lambda>tee_key.
     and_then (wrapping_key_of L (diffie_hellman L c (rnd_secret R c) tee_key)) (\<lambda>wrapping_key.
     and_then (map_err (\<lambda>e. [''failed to do AES wrapping: '' @ e]) (kw_wrap L wrapping_key (rnd_key R))) (\<lambda>encrypted.
     and_then (ok_or [''invalid public key: without coordinate X'']
                 (point_x L c (secret_public L c (rnd_secret R c)))) (\<lambda>epk_x.
     and_then (ok_or [''invalid public key: without coordinate Y'']
                 (point_y L c (secret_public L c (rnd_secret R c)))) (\<lambda>epk_y.
     let header = epk_header crv (url_encode L epk_x) (url_encode L epk_y) in
     and_then (seal_payload L R header payload_data) (\<lambda>(ct, tag).
       Ok \<lparr>protected = header, encrypted_key = encrypted, rsp_iv = rnd_iv R, ciphertext = ct,
           rsp_aad = None, rsp_tag = tag\<rparr>))))))))"

definition ecdh_es_a256kw_p256 ::
    "('rk, 'pk, 'sk) jose_lib \<Rightarrow> 'sk jwe_random \<Rightarrow> string \<Rightarrow> string \<Rightarrow> bytes \<Rightarrow> (anyhow, Response) outcome" where
  "ecdh_es_a256kw_p256 L R x y payload_data = ecdh_es_a256kw L R P256 P256_CURVE 32 x y payload_data"

definition ecdh_es_a256kw_p521 ::
    "('rk, 'pk, 'sk) jose_lib \<Rightarrow> 'sk jwe_random \<Rightarrow> string \<Rightarrow> string \<Rightarrow> bytes \<Rightarrow> (anyhow, Response) outcome" where
  "ecdh_es_a256kw_p521 L R x y payload_data = ecdh_es_a256kw L R P521 P521_CURVE 66 x y payload_data"

definition jwe ::
    "('rk, 'pk, 'sk) jose_lib \<Rightarrow> 'sk jwe_random \<Rightarrow> TeePubKey \<Rightarrow> bytes \<Rightarrow> (anyhow, Response) outcome" where
  "jwe L R tee_pub_key payload_data =
     (case tee_pub_key of
        RSA alg k_mod k_exp \<Rightarrow>
          if alg = RSA1_5_ALGORITHM then rsa_1v15 L R k_mod k_exp payload_data
          else if alg = RSA_OAEP256_ALGORITHM then rsa_oaep256 L R k_mod k_exp payload_data
          else bail (''algorithm '' @ alg @ '' is not supported'')
      | EC crv alg x y \<Rightarrow>
          if crv = P256_CURVE \<and> alg = ECDH_ES_A256KW then ecdh_es_a256kw_p256 L R x y payload_data
          else if crv = P521_CURVE \<and> alg = ECDH_ES_A256KW then ecdh_es_a256kw_p521 L R x y payload_data
          else bail (''curve '' @ crv @ '' and algorithm '' @ alg @ '' is not supported''))"

section \<open>The receiver\<close>

text \<open>
  A TEE private key, and the primitives of a receiver. \<open>jwe_open\<close> follows RFC 7516 section 5.2 and RFC 7518
  sections 4.2, 4.3 and 4.6: recover the content key as the header says, then decrypt with the header as the
  additional data.
\<close>

datatype ('rd, 'sk) TeePrivKey = RsaPrivate 'rd | EcPrivate Curve 'sk

record 'rd jose_open =
  rsa_decrypt :: "RsaPadding \<Rightarrow> 'rd \<Rightarrow> bytes \<Rightarrow> bytes option"
  kw_unwrap :: "bytes \<Rightarrow> bytes \<Rightarrow> bytes option"
  aes_decrypt :: "bytes \<Rightarrow> bytes \<Rightarrow> bytes \<Rightarrow> bytes \<Rightarrow> bytes \<Rightarrow> bytes option"

fun curve_name :: "Curve \<Rightarrow> string" where
  "curve_name P256 = P256_CURVE"
| "curve_name P521 = P521_CURVE"

fun coordinate_size :: "Curve \<Rightarrow> nat" where
  "coordinate_size P256 = 32"
| "coordinate_size P521 = 66"

fun ok_option :: "('e, 'a) outcome \<Rightarrow> 'a option" where
  "ok_option (Ok x) = Some x"
| "ok_option _ = None"

definition epk_coordinate :: "('rk, 'pk, 'sk) jose_lib \<Rightarrow> json \<Rightarrow> string \<Rightarrow> bytes option" where
  "epk_coordinate L epk k =
     Option.bind (Option.bind (json_get epk k) as_str) (\<lambda>s. ok_option (url_decode L s))"

definition agreed_secret ::
    "('rk, 'pk, 'sk) jose_lib \<Rightarrow> Curve \<Rightarrow> 'sk \<Rightarrow> ProtectedHeader \<Rightarrow> bytes option" where
  "agreed_secret L c secret header =
     Option.bind (map_of (ph_other_fields header) ''epk'') (\<lambda>epk.
     Option.bind (epk_coordinate L epk ''x'') (\<lambda>x.
     Option.bind (epk_coordinate L epk ''y'') (\<lambda>y.
     Option.bind (from_encoded_point L c x y) (\<lambda>point.
       if json_get epk ''crv'' = Some (JString (curve_name c)) then Some (diffie_hellman L c secret point)
       else None))))"

definition content_key ::
    "('rk, 'pk, 'sk) jose_lib \<Rightarrow> 'rd jose_open \<Rightarrow> ('rd, 'sk) TeePrivKey \<Rightarrow> Response \<Rightarrow> bytes option" where
  "content_key L D priv r =
     (case priv of
        RsaPrivate d \<Rightarrow>
          if ph_alg (protected r) = RSA1_5_ALGORITHM then rsa_decrypt D Pkcs1v15Encrypt d (encrypted_key r)
          else if ph_alg (protected r) = RSA_OAEP256_ALGORITHM then rsa_decrypt D OaepSha256 d (encrypted_key r)
          else None
      | EcPrivate c secret \<Rightarrow>
          if ph_alg (protected r) = ECDH_ES_A256KW
          then Option.bind (agreed_secret L c secret (protected r)) (\<lambda>z.
               Option.bind (ok_option (wrapping_key_of L z)) (\<lambda>k. kw_unwrap D k (encrypted_key r)))
          else None)"

definition jwe_open ::
    "('rk, 'pk, 'sk) jose_lib \<Rightarrow> 'rd jose_open \<Rightarrow> ('rd, 'sk) TeePrivKey \<Rightarrow> Response \<Rightarrow> bytes option" where
  "jwe_open L D priv r =
     (if ph_enc (protected r) = AES_GCM_256_ALGORITHM
      then Option.bind (content_key L D priv r) (\<lambda>k.
           Option.bind (ok_option (generate_aad L (protected r))) (\<lambda>aad.
             aes_decrypt D k (rsp_iv r) aad (ciphertext r) (rsp_tag r)))
      else None)"

text \<open>
  What the packages document: decryption undoes encryption for keys that belong together, key agreement is
  symmetric, points and base64 are read back as they were written. \<open>jose_total\<close>: no primitive fails, which the
  packages document for the sizes used here.
\<close>

definition jose_laws ::
    "('rk, 'pk, 'sk) jose_lib \<Rightarrow> 'rd jose_open \<Rightarrow> ('rk \<Rightarrow> 'rd \<Rightarrow> bool) \<Rightarrow> bool" where
  "jose_laws L D pairs \<longleftrightarrow>
     (\<forall>p k d seed m c. pairs k d \<and> rsa_encrypt L p k seed m = Ok c \<longrightarrow> rsa_decrypt D p d c = Some m) \<and>
     (\<forall>c a b. diffie_hellman L c a (secret_public L c b) = diffie_hellman L c b (secret_public L c a)) \<and>
     (\<forall>c p x y. point_x L c p = Some x \<and> point_y L c p = Some y \<longrightarrow> from_encoded_point L c x y = Some p) \<and>
     (\<forall>b. url_decode L (url_encode L b) = Ok b) \<and>
     (\<forall>k m c. kw_wrap L k m = Ok c \<longrightarrow> kw_unwrap D k c = Some m) \<and>
     (\<forall>k iv aad m c t. aes_encrypt L k iv aad m = Ok (c, t) \<longrightarrow> aes_decrypt D k iv aad c t = Some m)"

definition jose_total :: "('rk, 'pk, 'sk) jose_lib \<Rightarrow> bool" where
  "jose_total L \<longleftrightarrow>
     (\<forall>h. is_ok (generate_aad L h)) \<and> (\<forall>k iv aad m. is_ok (aes_encrypt L k iv aad m)) \<and>
     (\<forall>p k seed m. is_ok (rsa_encrypt L p k seed m)) \<and> (\<forall>z info n. is_ok (concat_kdf L z info n)) \<and>
     (\<forall>k m. is_ok (kw_wrap L k m)) \<and>
     (\<forall>c s. point_x L c (secret_public L c s) \<noteq> None \<and> point_y L c (secret_public L c s) \<noteq> None)"

text \<open>The public key a TEE sends, and its private key.\<close>

fun key_pair ::
    "('rk, 'pk, 'sk) jose_lib \<Rightarrow> ('rk \<Rightarrow> 'rd \<Rightarrow> bool) \<Rightarrow> TeePubKey \<Rightarrow> ('rd, 'sk) TeePrivKey \<Rightarrow> bool" where
  "key_pair L pairs (RSA alg k_mod k_exp) (RsaPrivate d) \<longleftrightarrow>
     (\<exists>m e k. url_decode L k_mod = Ok m \<and> url_decode L k_exp = Ok e \<and>
        rsa_public_key L (be_nat m) (be_nat e) = Ok k \<and> pairs k d)"
| "key_pair L pairs (EC crv alg x y) (EcPrivate c secret) \<longleftrightarrow>
     crv = curve_name c \<and>
     (\<exists>xb yb. url_decode L x = Ok xb \<and> url_decode L y = Ok yb \<and> length xb = coordinate_size c \<and>
        length yb = coordinate_size c \<and> from_encoded_point L c xb yb = Some (secret_public L c secret))"
| "key_pair L pairs _ _ \<longleftrightarrow> False"

fun supported_key :: "TeePubKey \<Rightarrow> bool" where
  "supported_key (RSA alg k_mod k_exp) \<longleftrightarrow> alg = RSA1_5_ALGORITHM \<or> alg = RSA_OAEP256_ALGORITHM"
| "supported_key (EC crv alg x y) \<longleftrightarrow> (crv = P256_CURVE \<or> crv = P521_CURVE) \<and> alg = ECDH_ES_A256KW"

lemma curve_names [simp]:
  "P256_CURVE \<noteq> P521_CURVE" "P521_CURVE \<noteq> P256_CURVE"
  "RSA1_5_ALGORITHM \<noteq> RSA_OAEP256_ALGORITHM" "RSA_OAEP256_ALGORITHM \<noteq> RSA1_5_ALGORITHM"
  by (simp_all add: jwe_names)

lemma jose_lawsD:
  assumes "jose_laws L D pairs"
  shows "pairs k d \<Longrightarrow> rsa_encrypt L p k seed m = Ok c \<Longrightarrow> rsa_decrypt D p d c = Some m"
    and "diffie_hellman L cv a (secret_public L cv b) = diffie_hellman L cv b (secret_public L cv a)"
    and "point_x L cv q = Some x \<Longrightarrow> point_y L cv q = Some y \<Longrightarrow> from_encoded_point L cv x y = Some q"
    and "url_decode L (url_encode L bs) = Ok bs"
    and "kw_wrap L wk m = Ok c \<Longrightarrow> kw_unwrap D wk c = Some m"
    and "aes_encrypt L key iv aad m = Ok (c, t) \<Longrightarrow> aes_decrypt D key iv aad c t = Some m"
  using assms unfolding jose_laws_def by simp_all

lemma seal_payload_Ok:
  "seal_payload L R h m = Ok (ct, tag) \<longleftrightarrow>
     (\<exists>aad. generate_aad L h = Ok aad \<and> aes_encrypt L (rnd_key R) (rnd_iv R) aad m = Ok (ct, tag))"
  by (auto simp: seal_payload_def outcome_iff)

lemma open_content:
  assumes "jose_laws L D pairs" and "seal_payload L R (protected r) m = Ok (ciphertext r, rsp_tag r)"
    and "rsp_iv r = rnd_iv R" and "ph_enc (protected r) = AES_GCM_256_ALGORITHM"
    and "content_key L D priv r = Some (rnd_key R)"
  shows "jwe_open L D priv r = Some m"
proof -
  from assms(2) obtain aad where "generate_aad L (protected r) = Ok aad"
    "aes_encrypt L (rnd_key R) (rnd_iv R) aad m = Ok (ciphertext r, rsp_tag r)"
    by (auto simp: seal_payload_Ok)
  moreover from this(2) have "aes_decrypt D (rnd_key R) (rnd_iv R) aad (ciphertext r) (rsp_tag r) = Some m"
    by (rule jose_lawsD(6) [OF assms(1)])
  ultimately show ?thesis using assms(3-5) by (simp add: jwe_open_def)
qed

lemma rsa_response_opens:
  assumes "jose_laws L D pairs" and "rsa_response L R p alg k_mod k_exp m = Ok r"
    and "key_pair L pairs (RSA alg k_mod k_exp) (RsaPrivate d)"
    and "alg = (case p of Pkcs1v15Encrypt \<Rightarrow> RSA1_5_ALGORITHM | OaepSha256 \<Rightarrow> RSA_OAEP256_ALGORITHM)"
  shows "jwe_open L D (RsaPrivate d) r = Some m"
proof -
  from assms(2,3) obtain k c where c: "rsa_encrypt L p k (rnd_padding R) (rnd_key R) = Ok c" "pairs k d"
    and r: "protected r = \<lparr>ph_alg = alg, ph_enc = AES_GCM_256_ALGORITHM, ph_other_fields = []\<rparr>"
      "encrypted_key r = c" "rsp_iv r = rnd_iv R"
    and s: "seal_payload L R (protected r) m = Ok (ciphertext r, rsp_tag r)"
    by (auto simp: rsa_response_def Let_def outcome_iff)
  from c(2,1) have "rsa_decrypt D p d c = Some (rnd_key R)" by (rule jose_lawsD(1) [OF assms(1)])
  then have "content_key L D (RsaPrivate d) r = Some (rnd_key R)"
    using r assms(4) by (cases p) (simp_all add: content_key_def)
  then show ?thesis using open_content [OF assms(1) s] r by simp
qed

lemma ecdh_response_opens:
  assumes laws: "jose_laws L D pairs"
    and "ecdh_es_a256kw L R c (curve_name c) (coordinate_size c) x y m = Ok r"
    and "key_pair L pairs (EC crv ECDH_ES_A256KW x y) (EcPrivate c secret)"
  shows "jwe_open L D (EcPrivate c secret) r = Some m"
proof -
  let ?s = "rnd_secret R c"
  from assms(2,3) obtain k e ex ey where
    k: "wrapping_key_of L (diffie_hellman L c ?s (secret_public L c secret)) = Ok k"
    and e: "kw_wrap L k (rnd_key R) = Ok e"
    and epk: "point_x L c (secret_public L c ?s) = Some ex" "point_y L c (secret_public L c ?s) = Some ey"
    and r: "protected r = epk_header (curve_name c) (url_encode L ex) (url_encode L ey)"
      "encrypted_key r = e" "rsp_iv r = rnd_iv R"
    and s: "seal_payload L R (protected r) m = Ok (ciphertext r, rsp_tag r)"
    by (auto simp: ecdh_es_a256kw_def Let_def outcome_iff coordinate_def split: if_splits)
  have "from_encoded_point L c ex ey = Some (secret_public L c ?s)" "kw_unwrap D k e = Some (rnd_key R)"
    "diffie_hellman L c secret (secret_public L c ?s) = diffie_hellman L c ?s (secret_public L c secret)"
    using jose_lawsD(3) [OF laws epk] jose_lawsD(5) [OF laws e] jose_lawsD(2) [OF laws] by simp_all
  then have "content_key L D (EcPrivate c secret) r = Some (rnd_key R)"
    using r k jose_lawsD(4) [OF laws]
    by (simp add: content_key_def agreed_secret_def epk_header_def epk_coordinate_def)
  then show ?thesis using open_content [OF laws s] r by (simp add: epk_header_def)
qed

lemma jwe_opens:
  assumes "jose_laws L D pairs" and "key_pair L pairs pk priv" and "jwe L R pk m = Ok r"
  shows "jwe_open L D priv r = Some m"
proof (cases pk)
  case (RSA alg k_mod k_exp)
  with assms(2) obtain d where priv: "priv = RsaPrivate d" by (cases priv) auto
  have "rsa_response L R p alg k_mod k_exp m = Ok r \<Longrightarrow>
      alg = (case p of Pkcs1v15Encrypt \<Rightarrow> RSA1_5_ALGORITHM | OaepSha256 \<Rightarrow> RSA_OAEP256_ALGORITHM) \<Longrightarrow>
      jwe_open L D (RsaPrivate d) r = Some m" for p
    using rsa_response_opens [OF assms(1)] assms(2) RSA priv by blast
  then show ?thesis
    using assms(3) RSA priv by (auto simp: jwe_def rsa_1v15_def rsa_oaep256_def outcome_iff split: if_splits)
next
  case (EC crv alg x y)
  with assms(2) obtain c secret where priv: "priv = EcPrivate c secret" "crv = curve_name c" by (cases priv) auto
  have "key_pair L pairs (EC crv ECDH_ES_A256KW x y) (EcPrivate c secret)" using assms(2) EC priv by simp
  then have "ecdh_es_a256kw L R c (curve_name c) (coordinate_size c) x y m = Ok r \<Longrightarrow>
      jwe_open L D (EcPrivate c secret) r = Some m"
    by (rule ecdh_response_opens [OF assms(1), rotated])
  then show ?thesis
    using assms(3) EC priv by (cases c)
      (auto simp: jwe_def ecdh_es_a256kw_p256_def ecdh_es_a256kw_p521_def outcome_iff split: if_splits)
qed

text \<open>When no primitive fails, encryption to a key of a supported kind succeeds.\<close>

lemma is_ok_simps [simp]:
  "is_ok (map_err f r) \<longleftrightarrow> is_ok r" "is_ok (with_context c s) \<longleftrightarrow> is_ok s" "is_ok (lib_error t) \<longleftrightarrow> is_ok t"
  "\<not> is_ok (bail e)"
  by (cases r; cases s; cases t; simp add: bail_def)+

lemma is_ok_and_then: "is_ok (and_then r f) \<longleftrightarrow> (\<exists>x. r = Ok x \<and> is_ok (f x))"
  by (cases r) auto

lemma seal_payload_total:
  assumes "jose_total L"
  obtains ct tag where "seal_payload L R h m = Ok (ct, tag)"
proof -
  obtain aad where "generate_aad L h = Ok aad" using assms unfolding jose_total_def is_ok_iff by meson
  moreover obtain c where "aes_encrypt L (rnd_key R) (rnd_iv R) aad m = Ok c"
    using assms unfolding jose_total_def is_ok_iff by meson
  ultimately show ?thesis using that by (cases c) (simp add: seal_payload_def)
qed

lemma rsa_response_total:
  assumes "jose_total L" and "key_pair L pairs (RSA alg' k_mod k_exp) priv"
  shows "is_ok (rsa_response L R p alg k_mod k_exp m)"
proof -
  obtain ct tag where
    "seal_payload L R \<lparr>ph_alg = alg, ph_enc = AES_GCM_256_ALGORITHM, ph_other_fields = []\<rparr> m = Ok (ct, tag)"
    using assms(1) by (rule seal_payload_total)
  moreover have "\<exists>c. rsa_encrypt L p k seed x = Ok c" for k seed x
    using assms(1) by (simp add: jose_total_def is_ok_iff)
  ultimately show ?thesis
    using assms(2) by (cases priv) (auto simp: rsa_response_def is_ok_and_then outcome_iff)
qed

lemma ecdh_response_total:
  assumes "jose_total L" and "key_pair L pairs (EC (curve_name c) alg x y) (EcPrivate c secret)"
  shows "is_ok (ecdh_es_a256kw L R c (curve_name c) (coordinate_size c) x y m)"
proof -
  let ?P = "secret_public L c (rnd_secret R c)"
  have "point_x L c ?P \<noteq> None \<and> point_y L c ?P \<noteq> None" using assms(1) by (simp add: jose_total_def)
  then obtain ex ey where "point_x L c ?P = Some ex" "point_y L c ?P = Some ey" by blast
  moreover obtain ct tag where
    "seal_payload L R (epk_header (curve_name c) (url_encode L ex) (url_encode L ey)) m = Ok (ct, tag)"
    using assms(1) by (rule seal_payload_total)
  moreover obtain k where "concat_kdf L (diffie_hellman L c (rnd_secret R c) (secret_public L c secret))
      key_derivation_materials 32 = Ok k"
    using assms(1) unfolding jose_total_def is_ok_iff by meson
  moreover obtain e where "kw_wrap L k (rnd_key R) = Ok e"
    using assms(1) unfolding jose_total_def is_ok_iff by meson
  ultimately show ?thesis
    using assms(2) by (auto simp: ecdh_es_a256kw_def coordinate_def wrapping_key_of_def)
qed

lemma jwe_total:
  assumes "jose_total L" and "key_pair L pairs pk priv"
  shows "is_ok (jwe L R pk m) \<longleftrightarrow> supported_key pk"
proof (cases pk)
  case (RSA alg k_mod k_exp)
  then have "is_ok (rsa_response L R p a k_mod k_exp m)" for p a
    using rsa_response_total [OF assms(1)] assms(2) by blast
  then show ?thesis by (simp add: RSA jwe_def rsa_1v15_def rsa_oaep256_def)
next
  case (EC crv alg x y)
  with assms(2) obtain c secret where priv: "priv = EcPrivate c secret" "crv = curve_name c" by (cases priv) auto
  have "is_ok (ecdh_es_a256kw L R c (curve_name c) (coordinate_size c) x y m)"
    using ecdh_response_total [OF assms(1)] assms(2) EC priv by blast
  then show ?thesis
    using priv by (cases c) (simp_all add: EC jwe_def ecdh_es_a256kw_p256_def ecdh_es_a256kw_p521_def)
qed

end
