(* ===== verification/Kbs_Jwe_Properties.thy ===== *)
theory Kbs_Jwe_Properties
  imports Kbs_Jwe Kbs_Api_Properties
begin

text \<open>
  Response encryption composed with the request handler: the holder of the private key recovers exactly what
  was encrypted, and so what an administrator stored.
\<close>

section \<open>Encryption\<close>


text \<open>
  A concrete package, on one curve point per secret: sealing keeps the payload and the key as they are, the agreed
  secret is the sum of the two secrets.
\<close>

definition plain_jose :: "(unit, byte, byte) jose_lib" where
  "plain_jose =
     \<lparr>url_decode = (\<lambda>s. Ok (bytes_of s)), url_encode = str_of, generate_aad = (\<lambda>_. Ok []),
      aes_encrypt = (\<lambda>k iv aad m. Ok (m, k)), rsa_public_key = (\<lambda>_ _. Err ''no RSA''),
      rsa_encrypt = (\<lambda>p k seed m. Ok m), from_encoded_point = (\<lambda>c x y. Some (hd x)),
      secret_public = (\<lambda>c s. s), diffie_hellman = (\<lambda>c a p. [a + p]),
      point_x = (\<lambda>c p. Some (replicate (coordinate_size c) p)),
      point_y = (\<lambda>c p. Some (replicate (coordinate_size c) 0)), concat_kdf = (\<lambda>z info n. Ok z),
      kw_wrap = (\<lambda>k m. Ok m)\<rparr>"

definition plain_open :: "unit jose_open" where
  "plain_open =
     \<lparr>rsa_decrypt = (\<lambda>p d c. Some c), kw_unwrap = (\<lambda>k c. Some c), aes_decrypt = (\<lambda>k iv aad c t. Some c)\<rparr>"

lemma plain_jose_ok: "jose_laws plain_jose plain_open pairs" "jose_total plain_jose"
proof -
  have "hd (replicate (coordinate_size c) p) = p" for c and p :: byte by (cases c) simp_all
  then show "jose_laws plain_jose plain_open pairs"
    by (auto simp: jose_laws_def plain_jose_def plain_open_def add.commute)
qed (simp add: jose_total_def plain_jose_def)

abbreviation plain_key :: TeePubKey where
  "plain_key \<equiv> EC P521_CURVE ECDH_ES_A256KW (replicate 66 CHR ''a'') (replicate 66 CHR ''b'')"


section \<open>Delivery of a resource\<close>

text \<open>The body of a response is the JSON text of the encrypted payload.\<close>

definition jwe_sealer ::
    "('rk, 'pk, 'sk) jose_lib \<Rightarrow> 'sk jwe_random \<Rightarrow> (Response \<Rightarrow> string option) \<Rightarrow> TeePubKey \<Rightarrow> bytes \<Rightarrow>
     (string, string option) outcome" where
  "jwe_sealer L R to_string pk payload = map_ok to_string (map_err concat (jwe L R pk payload))"


text \<open>
  The demonstration server with this package. A response of the package is determined by its curve and
  payload, which is what its text holds.
\<close>

definition plain_random :: "byte jwe_random" where
  "plain_random = \<lparr>rnd_key = [1], rnd_iv = [2], rnd_padding = [], rnd_secret = (\<lambda>_. 9)\<rparr>"

definition plain_header :: "Curve \<Rightarrow> ProtectedHeader" where
  "plain_header c =
     epk_header (curve_name c) (str_of (replicate (coordinate_size c) 9)) (str_of (replicate (coordinate_size c) 0))"

definition plain_response :: "Curve \<Rightarrow> bytes \<Rightarrow> Response" where
  "plain_response c m =
     \<lparr>protected = plain_header c, encrypted_key = [1], rsp_iv = [2], ciphertext = m, rsp_aad = None, rsp_tag = [1]\<rparr>"

definition plain_to_string :: "Response \<Rightarrow> string option" where
  "plain_to_string r =
     Some ((if protected r = plain_header P256 then CHR ''2'' else CHR ''5'') # str_of (ciphertext r))"

fun plain_from_string :: "string \<Rightarrow> Response option" where
  "plain_from_string (c # s) = Some (plain_response (if c = CHR ''2'' then P256 else P521) (bytes_of s))"
| "plain_from_string [] = None"

lemma plain_responses:
  assumes "jwe plain_jose plain_random pk m = Ok r"
  shows "Option.bind (plain_to_string r) plain_from_string = Some r"
proof -
  have "r = plain_response P256 m \<or> r = plain_response P521 m"
    using assms
    by (auto simp: jwe_def plain_jose_def plain_random_def rsa_1v15_def rsa_oaep256_def rsa_response_def
        ecdh_es_a256kw_p256_def ecdh_es_a256kw_p521_def ecdh_es_a256kw_def outcome_iff seal_payload_def Let_def
        plain_response_def plain_header_def wrapping_key_of_def split: TeePubKey.splits if_splits)
  moreover have "plain_header P521 \<noteq> plain_header P256" by (simp add: plain_header_def epk_header_def)
  ultimately show ?thesis
    by (auto simp: plain_to_string_def plain_response_def)
qed

definition jose_env :: "(unit, unit, string, bytes, unit, unit, unit, unit, unit) kbs_env" where
  "jose_env =
     demo_env\<lparr>tee_pub_key_deserialize := (\<lambda>_. Some plain_key),
       jwe_encrypt := jwe_sealer plain_jose plain_random plain_to_string\<rparr>"


end
