(* ===== verification/Kbs_Liveness.thy ===== *)
theory Kbs_Liveness
  imports Kbs_Properties
begin

text \<open>
  What the handshake eventually does: in an unending run of the key broker that keeps scheduling a request, an
  attestation request of an honest client that is in time and alone in its session is answered with a token.
\<close>

section \<open>Runs\<close>

definition kbs_run :: "'v kbs_codec \<Rightarrow> 'i Attest \<Rightarrow> 'i AttestationService \<Rightarrow> int \<Rightarrow> (nat \<Rightarrow> 'i kbs_state) \<Rightarrow> bool" where
  "kbs_run J A self now r \<longleftrightarrow> r 0 = kbs_init self now \<and> (\<forall>n. kbs_step J A (r n) (r (Suc n)))"

fun is_finished :: "attest_task \<Rightarrow> bool" where
  "is_finished (Finished _) = True"
| "is_finished _ = False"

definition pending :: "'i kbs_state \<Rightarrow> nat \<Rightarrow> bool" where
  "pending s k \<longleftrightarrow> (\<exists>x. tasks s k = Some x \<and> \<not> is_finished x)"

text \<open>Fairness: a request that is not finished takes a step some time later.\<close>

definition scheduled :: "(nat \<Rightarrow> 'i kbs_state) \<Rightarrow> nat \<Rightarrow> bool" where
  "scheduled r k \<longleftrightarrow> (\<forall>n. pending (r n) k \<longrightarrow> (\<exists>j\<ge>n. tasks (r (Suc j)) k \<noteq> tasks (r j) k))"

text \<open>
  An honest request for the session \<open>sid\<close>: it names the session and carries an attestation whose evidence \<open>evs\<close>
  for the challenge the attestation service accepts, and what has to be serialised can be.
\<close>

definition honest ::
    "'v kbs_codec \<Rightarrow> 'i Attest \<Rightarrow> bytes \<Rightarrow> HttpRequest \<Rightarrow> string \<Rightarrow> Request \<Rightarrow> Challenge \<Rightarrow> IndependentEvidence list \<Rightarrow> bool" where
  "honest J A body request sid req c evs \<longleftrightarrow>
     map_of (cookies request) KBS_SESSION_ID = Some sid \<and>
     (\<exists>a. attestation_from_slice J body = Some a \<and> attestation_to_string J a \<noteq> None \<and>
        collect_evidence J a (req_tee req) (nonce c) = Ok evs) \<and>
     tee_to_string J (req_tee req) \<noteq> None \<and>
     (\<forall>t. value_to_string J (JObject [(''token'', JString t)]) \<noteq> None) \<and>
     (\<forall>i. \<exists>t. as_verify A i evs = Ok t)"

text \<open>The session waits for its attestation until \<open>t\<close>, and no request but \<open>k\<close> is verifying evidence for it.\<close>

definition waiting :: "'i kbs_state \<Rightarrow> nat \<Rightarrow> string \<Rightarrow> Request \<Rightarrow> Challenge \<Rightarrow> int \<Rightarrow> bool" where
  "waiting s k sid req c t \<longleftrightarrow>
     map_of (session_map (svc s)) sid = Some (Authed req c sid t) \<and> sessions_wf (session_map (svc s)) \<and>
     (\<forall>k' evs. tasks s k' = Some (Verifying sid evs) \<longrightarrow> k' = k)"

definition answered :: "'i Attest \<Rightarrow> 'i kbs_state \<Rightarrow> nat \<Rightarrow> HttpRequest \<Rightarrow> string \<Rightarrow> int \<Rightarrow> IndependentEvidence list \<Rightarrow> bool" where
  "answered A s k request sid t evs \<longleftrightarrow>
     (\<exists>resp token. tasks s k = Some (Finished (Ok resp)) \<and> resp_status resp = 200 \<and>
        as_verify A (inner (svc s)) evs = Ok token \<and>
        map_of (session_map (svc s)) sid = Some (Attested token sid t) \<and>
        get_attest_token_from_session (session_map (svc s)) (clock s) request = Ok token)"

section \<open>The phases of a request\<close>

lemma run_inv: "kbs_run J A self now r \<Longrightarrow> kbs_inv A (r n)"
  by (induction n) (auto simp: kbs_run_def intro: kbs_inv_init kbs_step_inv)

text \<open>A phase that is not kept for ever is left, and only for the next one.\<close>

lemma phase_left:
  fixes n :: nat
  assumes "P n" and "\<And>j. n \<le> j \<Longrightarrow> P j \<Longrightarrow> P (Suc j) \<or> Q (Suc j)" and "\<exists>j\<ge>n. \<not> P j"
  shows "\<exists>j\<ge>n. Q j"
proof (rule ccontr)
  assume no: "\<not> ?thesis"
  have "P (n + d)" for d
  proof (induction d)
    case (Suc d)
    then have "P (Suc (n + d)) \<or> Q (Suc (n + d))" using assms(2) [of "n + d"] by simp
    then show ?case using no [unfolded not_ex, rule_format, of "Suc (n + d)"] by auto
  qed (use assms(1) in simp)
  then show False using assms(3) by (metis le_add_diff_inverse)
qed

lemma scheduled_leaves:
  assumes "scheduled r k" and "P n" and "\<And>j. P j \<Longrightarrow> tasks (r j) k = Some x" and "\<not> is_finished x"
  shows "\<exists>j\<ge>n. \<not> P j"
proof -
  have "pending (r n) k" using assms(2-4) by (auto simp: pending_def)
  then obtain j where "j \<ge> n" "tasks (r (Suc j)) k \<noteq> tasks (r j) k" using assms(1) by (auto simp: scheduled_def)
  then have "\<not> P (Suc j) \<or> \<not> P j" using assms(3) by metis
  then show ?thesis using \<open>j \<ge> n\<close> le_SucI by blast
qed

text \<open>Whatever step is taken, a session that is in time and not being verified keeps waiting.\<close>

lemma session_waits:
  assumes "kbs_step J A s s'" and "waiting s k sid req c t" and "clock s \<le> t"
    and "\<And>evs. tasks s k = Some (Verifying sid evs) \<Longrightarrow> tasks s' k = tasks s k"
  shows "map_of (session_map (svc s')) sid = Some (Authed req c sid t)"
  using assms
proof (induction rule: kbs_step.induct)
  case (step_auth s uuid body req' c' t' r svc')
  then show ?case
    using auth_SessionE [OF step_auth(2,3)]
    by (auto simp: waiting_def SessionMap_insert_def update_conv' split: if_splits)
next
  case (step_verify s k' sid' evs r m)
  have "sid' \<noteq> sid" using step_verify(1,3,5) by (fastforce simp: waiting_def)
  from step_verify(2) show ?case
    using step_verify(3) \<open>sid' \<noteq> sid\<close> by (cases rule: attest_verify_cases) (auto simp: update_conv' waiting_def)
next
  case (step_cleanup s)
  then show ?case by (auto simp: waiting_def map_of_retain is_expired_def)
qed (auto simp: waiting_def)

lemma honest_check:
  assumes "honest J A body request sid req c evs" and "map_of m sid = Some (Authed req c sid t)" and "now \<le> t"
  shows "attest_check J m now body request = Ok (Verify sid evs)"
  using assms by (auto simp: honest_def attest_check_def is_expired_def)

lemma honest_verify:
  assumes "honest J A body request sid req c evs" and "map_of m sid = Some (Authed req c sid t)"
  shows "\<exists>resp token. as_verify A i evs = Ok token \<and> resp_status resp = 200 \<and>
    attest_verify J A i m sid evs = (Ok resp, AList.update sid (Attested token sid t) m)"
proof -
  obtain token where "as_verify A i evs = Ok token" using assms(1) by (auto simp: honest_def)
  moreover obtain x y where "tee_to_string J (req_tee req) = Some x"
    "value_to_string J (JObject [(''token'', JString token)]) = Some y"
    using assms(1) unfolding honest_def by blast
  ultimately show ?thesis using assms(2) by (simp add: attest_verify_def token_response_def Let_def)
qed

lemma check_step:
  assumes "kbs_step J A s s'" and "tasks s k = Some (Checking body request)"
    and "honest J A body request sid req c evs" and "waiting s k sid req c t" and "clock s \<le> t"
  shows "tasks s' k = Some (Checking body request) \<or> tasks s' k = Some (Verifying sid evs)"
  using assms
proof (induction rule: kbs_step.induct)
  case (step_check s k' body' request')
  show ?case
  proof (cases "k' = k")
    case True
    have "attest_check J (session_map (svc s)) (clock s) body request = Ok (Verify sid evs)"
      using honest_check step_check(3,4,5) unfolding waiting_def by fast
    then show ?thesis using True step_check(1,2) by (simp add: after_check_def)
  qed (use step_check in simp)
qed auto

lemma verify_step:
  assumes "kbs_step J A s s'" and "tasks s k = Some (Verifying sid evs)"
    and "honest J A body request sid req c evs" and "waiting s k sid req c t" and "clock s \<le> t"
  shows "tasks s' k = Some (Verifying sid evs) \<or> answered A s' k request sid t evs"
  using assms
proof (induction rule: kbs_step.induct)
  case (step_verify s k' sid' evs' r m)
  show ?case
  proof (cases "k' = k")
    case True
    obtain resp token where v: "as_verify A (inner (svc s)) evs = Ok token" "resp_status resp = 200"
      "attest_verify J A (inner (svc s)) (session_map (svc s)) sid evs =
         (Ok resp, AList.update sid (Attested token sid t) (session_map (svc s)))"
      using honest_verify [OF step_verify(4)] step_verify(5) unfolding waiting_def by blast
    moreover have "map_of (cookies request) KBS_SESSION_ID = Some sid" using step_verify(4) by (simp add: honest_def)
    ultimately show ?thesis using True step_verify(1-3,6)
      by (simp add: answered_def get_attest_token_from_session_def is_expired_def update_conv')
  qed (use step_verify in simp)
qed auto

text \<open>
  C15. In every run of the key broker that keeps scheduling it, the attestation request of an honest client ends with
  a response of status 200, and the session then holds a token of the attestation service for the evidence of this
  request, which the cookie of the client yields. The session was open when the request arrived, no other request
  verifies evidence for it, and the clock stays within its timeout until the request is answered.
\<close>

theorem honest_request_answered:
  assumes run: "kbs_run J A self now r" and fair: "scheduled r k"
    and start: "tasks (r n) k = Some (Checking body request)"
    and sess: "map_of (session_map (svc (r n))) sid = Some (Authed req c sid t)"
    and hon: "honest J A body request sid req c evs"
    and time: "\<forall>j. pending (r j) k \<longrightarrow> clock (r j) \<le> t"
    and alone: "\<forall>j k' evs'. tasks (r j) k' = Some (Verifying sid evs') \<longrightarrow> k' = k"
  shows "\<exists>j\<ge>n. answered A (r j) k request sid t evs"
proof -
  have step: "kbs_step J A (r j) (r (Suc j))" for j using run by (simp add: kbs_run_def)
  have wait: "waiting (r j) k sid req c t \<longleftrightarrow> map_of (session_map (svc (r j))) sid = Some (Authed req c sid t)" for j
    using alone kbs_invD(1) [OF run_inv [OF run]] by (auto simp: waiting_def)
  let ?P = "\<lambda>x j. tasks (r j) k = Some x \<and> waiting (r j) k sid req c t"
  let ?C = "Checking body request" and ?V = "Verifying sid evs"
  have clk: "clock (r j) \<le> t" if "?P x j" "\<not> is_finished x" for x j
    using that time by (auto simp: pending_def)
  have "\<exists>j\<ge>n. ?P ?V j"
  proof (rule phase_left)
    show "?P ?C n" using start sess wait by simp
    show "?P ?C (Suc j) \<or> ?P ?V (Suc j)" if p: "?P ?C j" for j
      using check_step [OF step _ hon, of j k t] session_waits [OF step, of j k sid req c t] clk [OF p] p wait by simp
    show "\<exists>j\<ge>n. \<not> ?P ?C j"
      by (rule scheduled_leaves [OF fair, of _ n ?C]) (use start sess wait in simp_all)
  qed
  then obtain i where i: "n \<le> i" "?P ?V i" by blast
  have "\<exists>j\<ge>i. answered A (r j) k request sid t evs"
  proof (rule phase_left)
    show "?P ?V i" using i by simp
    show "?P ?V (Suc j) \<or> answered A (r (Suc j)) k request sid t evs" if p: "?P ?V j" for j
      using verify_step [OF step _ hon, of j k t] session_waits [OF step, of j k sid req c t] clk [OF p] p wait by auto
    show "\<exists>j\<ge>i. \<not> ?P ?V j"
      by (rule scheduled_leaves [OF fair, of _ i ?V]) (use i in simp_all)
  qed
  then show ?thesis using i(1) le_trans by blast
qed

text \<open>The sample handshake, after which nothing happens any more.\<close>

definition sample_run :: "nat \<Rightarrow> unit kbs_state" where
  "sample_run n =
     (if n = 0 then kbs_init sample_service 0
      else if n = 1 then sample_state [(''u'', sample_authed)] None
      else if n = 2 then sample_state [(''u'', sample_authed)] (Some (Checking [] sample_http))
      else if n = 3 then sample_state [(''u'', sample_authed)] (Some (Verifying ''u'' sample_evidence))
      else sample_state [(''u'', Attested ''token'' ''u'' 300)] (Some (Finished (Ok sample_response))))"

lemma sample_run_tasks:
  "tasks (sample_run n) k =
     (if k \<noteq> 0 \<or> n \<le> 1 then None else if n = 2 then Some (Checking [] sample_http)
      else if n = 3 then Some (Verifying ''u'' sample_evidence) else Some (Finished (Ok sample_response)))"
  by (simp add: sample_run_def handshake_state_def kbs_init_def)

lemma sample_run_run: "kbs_run sample_kbs sample_attest sample_service 0 sample_run"
  unfolding kbs_run_def
proof (intro conjI allI)
  fix n :: nat
  note steps = handshake_steps [where A = sample_attest and i = "()"]
  consider "n = 0" | "n = 1" | "n = 2" | "n = 3" | "n \<ge> 4" by linarith
  then show "kbs_step sample_kbs sample_attest (sample_run n) (sample_run (Suc n))"
  proof cases
    case 5
    then show ?thesis using step_tick [of 0 sample_kbs sample_attest "sample_run n"] by (simp add: sample_run_def)
  qed (use steps in \<open>simp_all add: sample_run_def sample_attest_def sample_service_def\<close>)
qed (simp add: sample_run_def)

lemma sample_run_scheduled: "scheduled sample_run 0"
proof -
  have "\<exists>j\<ge>n. tasks (sample_run (Suc j)) 0 \<noteq> tasks (sample_run j) 0" if "pending (sample_run n) 0" for n
  proof -
    have "n = 2 \<or> n = 3" using that by (auto simp: pending_def sample_run_tasks split: if_splits)
    then show ?thesis by (intro exI [of _ 3]) (auto simp: sample_run_tasks)
  qed
  then show ?thesis by (simp add: scheduled_def)
qed

lemma sample_honest:
  "honest sample_kbs sample_attest [] sample_http ''u'' sample_request sample_challenge sample_evidence"
  by (simp add: honest_def sample_http_def sample_kbs_def sample_attestation_def collect_evidence_def
      sample_challenge_def sample_request_def sample_attest_def)

theorem honest_request_answered_witness:
  "\<exists>j\<ge>2. answered sample_attest (sample_run j) 0 sample_http ''u'' 300 sample_evidence"
proof (rule honest_request_answered [OF sample_run_run sample_run_scheduled _ _ sample_honest])
  show "tasks (sample_run 2) 0 = Some (Checking [] sample_http)" by (simp add: sample_run_tasks)
  show "map_of (session_map (svc (sample_run 2))) ''u'' = Some (Authed sample_request sample_challenge ''u'' 300)"
    by (simp add: sample_run_def handshake_state_def)
  show "\<forall>j. pending (sample_run j) 0 \<longrightarrow> clock (sample_run j) \<le> 300"
    by (simp add: sample_run_def handshake_state_def kbs_init_def)
  show "\<forall>j k' evs'. tasks (sample_run j) k' = Some (Verifying ''u'' evs') \<longrightarrow> k' = 0"
    by (simp add: sample_run_tasks)
qed

end
