(* ===== verification/Kbs_Plugins.thy ===== *)
theory Kbs_Plugins
  imports Kbs_Resource
begin

text \<open>
  The optional plugins of the Key Broker Service: the Nebula certificate authority
  (\<^verbatim>\<open>kbs/src/plugins/implementations/nebula_ca.rs\<close>), which runs the \<^verbatim>\<open>nebula-cert\<close> program, and the PKCS#11
  backend (\<^verbatim>\<open>pkcs11.rs\<close>), which keeps resources and wrapping keys in a hardware module.

  The program and the module are parameters. A command gets its arguments and the file system, and gives its exit
  status, its output and the file system after it; a session with a module is a state \<open>'h\<close> that the \<^verbatim>\<open>cryptoki\<close>
  calls read and change. Messages leave out the arguments of a command. The lemmas show that a credential request
  leaves no file behind, and what a client reads back from a module.
\<close>

section \<open>The Nebula certificate authority\<close>

record nebula_sys =
  run_cmd :: "string \<Rightarrow> string list \<Rightarrow> fs \<Rightarrow> (string, bool \<times> bytes) outcome \<times> fs"
  semver_matches :: "string \<Rightarrow> string \<Rightarrow> (string, bool) outcome"
  tempdir_name :: "fs \<Rightarrow> path \<Rightarrow> (string, string) outcome"
  credential_to_vec :: "bytes \<Rightarrow> bytes \<Rightarrow> bytes \<Rightarrow> (string, bytes) outcome"
  nebula_io :: io_env

definition DEFAULT_NEBULA_CA_NAME :: string where
  "DEFAULT_NEBULA_CA_NAME = ''Trustee Nebula CA plugin''"

definition DEFAULT_NEBULA_CERT_PATH :: string where
  "DEFAULT_NEBULA_CERT_PATH = ''nebula-cert''"

definition DEFAULT_WORK_DIR :: string where
  "DEFAULT_WORK_DIR = ''/opt/confidential-containers/kbs/nebula-ca''"

definition NEBULA_CERT_VERSION_REQUIREMENT :: string where
  "NEBULA_CERT_VERSION_REQUIREMENT = ''>=1.9.5''"

record NebulaCredentialParams =
  np_name :: string
  np_ip :: string
  np_duration :: "string option"
  np_groups :: "string option"
  np_subnets :: "string option"

text \<open>The query goes through JSON: an object of strings, of which two are required.\<close>

definition NebulaCredentialParams_try_from :: "query \<Rightarrow> (anyhow, NebulaCredentialParams) outcome" where
  "NebulaCredentialParams_try_from q =
     and_then (ok_or (Message ''missing field `name`'') (map_of q ''name'')) (\<lambda>name.
     and_then (ok_or (Message ''missing field `ip`'') (map_of q ''ip'')) (\<lambda>ip.
       Ok \<lparr>np_name = name, np_ip = ip, np_duration = map_of q ''duration'', np_groups = map_of q ''groups'',
           np_subnets = map_of q ''subnets''\<rparr>))"

definition add_option_string_arg :: "string \<Rightarrow> string option \<Rightarrow> string list \<Rightarrow> string list" where
  "add_option_string_arg name v args = (case v of Some x \<Rightarrow> args @ [name, x] | None \<Rightarrow> args)"

definition add_option_u32_arg :: "string \<Rightarrow> u32 option \<Rightarrow> string list \<Rightarrow> string list" where
  "add_option_u32_arg name v args = (case v of Some x \<Rightarrow> args @ [name, fmt_dec (unat x)] | None \<Rightarrow> args)"

definition credential_args :: "NebulaCredentialParams \<Rightarrow> string list" where
  "credential_args params =
     add_option_string_arg ''-subnets'' (np_subnets params)
       (add_option_string_arg ''-groups'' (np_groups params)
         (add_option_string_arg ''-duration'' (np_duration params)
           [''-name'', np_name params, ''-ip'', np_ip params]))"

record SelfSignedNebulaCaConfig =
  ca_name :: "string option"
  ca_argon_iterations :: "u32 option"
  ca_argon_memory :: "u32 option"
  ca_argon_parallelism :: "u32 option"
  ca_curve :: "string option"
  ca_duration :: "string option"
  ca_groups :: "string option"
  ca_ips :: "string option"
  ca_out_qr :: "string option"
  ca_subnets :: "string option"

definition SelfSignedNebulaCaConfig_default :: SelfSignedNebulaCaConfig where
  "SelfSignedNebulaCaConfig_default =
     \<lparr>ca_name = None, ca_argon_iterations = None, ca_argon_memory = None, ca_argon_parallelism = None,
      ca_curve = None, ca_duration = None, ca_groups = None, ca_ips = None, ca_out_qr = None, ca_subnets = None\<rparr>"

definition ca_args :: "SelfSignedNebulaCaConfig \<Rightarrow> string list" where
  "ca_args ca =
     (let args = [''-name'', (case ca_name ca of Some n \<Rightarrow> n | None \<Rightarrow> DEFAULT_NEBULA_CA_NAME)];
          args = add_option_u32_arg ''-argon-iterations'' (ca_argon_iterations ca) args;
          args = add_option_u32_arg ''-argon-memory'' (ca_argon_memory ca) args;
          args = add_option_u32_arg ''-argon-parallelism'' (ca_argon_parallelism ca) args;
          args = add_option_string_arg ''-curve'' (ca_curve ca) args;
          args = add_option_string_arg ''-duration'' (ca_duration ca) args;
          args = add_option_string_arg ''-groups'' (ca_groups ca) args;
          args = add_option_string_arg ''-ips'' (ca_ips ca) args;
          args = add_option_string_arg ''-out-qr'' (ca_out_qr ca) args
      in add_option_string_arg ''-subnets'' (ca_subnets ca) args)"

text \<open>A command that must succeed: not started, or ended with another status, is an error.\<close>

definition run_checked ::
    "nebula_sys \<Rightarrow> string \<Rightarrow> string \<Rightarrow> string list \<Rightarrow> fs \<Rightarrow> (anyhow, bytes) outcome \<times> fs" where
  "run_checked N program verb args f =
     (let (r, f') = run_cmd N program (verb # args) f in
      (and_then (map_err (\<lambda>_. Message (program @ '' '' @ verb)) r) (\<lambda>(success, out).
         if \<not> success then Err (Message (program @ '' '' @ verb)) else Ok out), f'))"

definition nebula_ca ::
    "nebula_sys \<Rightarrow> string \<Rightarrow> SelfSignedNebulaCaConfig \<Rightarrow> path \<Rightarrow> path \<Rightarrow> fs \<Rightarrow> (anyhow, unit) outcome \<times> fs" where
  "nebula_ca N program config crt key f =
     (let (r, f') = run_checked N program ''ca''
            (ca_args config @ [''-out-crt'', show_path crt, ''-out-key'', show_path key]) f in
      (map_ok (\<lambda>_. ()) r, f'))"

definition trim_end :: "string \<Rightarrow> string" where
  "trim_end s = rev (dropWhile (\<lambda>c. c \<in> {CHR '' '', CHR 0x09, CHR 0x0A, CHR 0x0B, CHR 0x0C, CHR 0x0D}) (rev s))"

definition nebula_print :: "nebula_sys \<Rightarrow> string \<Rightarrow> path \<Rightarrow> fs \<Rightarrow> (anyhow, string) outcome \<times> fs" where
  "nebula_print N program crt f =
     (let (r, f') = run_checked N program ''print'' [''-path'', show_path crt] f in
      (and_then r (\<lambda>out. and_then (ok_or (Message ''invalid utf-8'') (from_utf8 out)) (\<lambda>s. Ok (trim_end s))), f'))"

definition nebula_sign ::
    "nebula_sys \<Rightarrow> string \<Rightarrow> NebulaCredentialParams \<Rightarrow> path \<Rightarrow> path \<Rightarrow> path \<Rightarrow> path \<Rightarrow> fs \<Rightarrow>
     (anyhow, unit) outcome \<times> fs" where
  "nebula_sign N program params ca_key ca_crt node_key node_crt f =
     (let (r, f') = run_checked N program ''sign''
            (credential_args params @ [''-ca-key'', show_path ca_key, ''-ca-crt'', show_path ca_crt,
               ''-out-key'', show_path node_key, ''-out-crt'', show_path node_crt]) f in
      (map_ok (\<lambda>_. ()) r, f'))"

definition nebula_verify ::
    "nebula_sys \<Rightarrow> string \<Rightarrow> path \<Rightarrow> path \<Rightarrow> fs \<Rightarrow> (anyhow, unit) outcome \<times> fs" where
  "nebula_verify N program ca_crt node_crt f =
     (let (r, f') = run_checked N program ''verify'' [''-ca'', show_path ca_crt, ''-crt'', show_path node_crt] f in
      (map_ok (\<lambda>_. ()) r, f'))"

definition strip_prefix :: "string \<Rightarrow> string \<Rightarrow> string option" where
  "strip_prefix p s = (if take (length p) s = p then Some (drop (length p) s) else None)"

definition nebula_version :: "nebula_sys \<Rightarrow> string \<Rightarrow> fs \<Rightarrow> (anyhow, string) outcome \<times> fs" where
  "nebula_version N program f =
     (let (r, f') = run_checked N program ''--version'' [] f in
      (and_then r (\<lambda>out.
       and_then (ok_or (Message ''invalid utf-8'') (from_utf8 out)) (\<lambda>version.
       and_then (ok_or (Message ''Failed to parse Nebula version'') (strip_prefix ''Version: '' version)) (\<lambda>v.
         Ok (trim_end v)))), f'))"

definition version_checked :: "nebula_sys \<Rightarrow> string \<Rightarrow> fs \<Rightarrow> (anyhow, string) outcome \<times> fs" where
  "version_checked N program f =
     (let (r, f') = nebula_version N program f in
      (and_then r (\<lambda>version.
       and_then (map_err Message (semver_matches N NEBULA_CERT_VERSION_REQUIREMENT version)) (\<lambda>ok.
         if \<not> ok then Err (Message (''nebula-ca version requirement not satisfied: '' @ version @ '' '' @
                                   NEBULA_CERT_VERSION_REQUIREMENT))
         else Ok version)), f'))"

record NebulaCaPlugin =
  nebula_program :: string
  nebula_key :: path
  nebula_crt :: path
  nebula_work_dir :: path

record NebulaCaPluginConfig =
  nc_work_dir :: "string option"
  nc_nebula_cert_bin_path :: "string option"
  nc_ca_config :: "SelfSignedNebulaCaConfig option"

definition NebulaCaPlugin_try_from ::
    "nebula_sys \<Rightarrow> NebulaCaPluginConfig \<Rightarrow> fs \<Rightarrow> (anyhow, NebulaCaPlugin) outcome \<times> fs" where
  "NebulaCaPlugin_try_from N config f =
     (let work_dir = path_of (case nc_work_dir config of Some d \<Rightarrow> d | None \<Rightarrow> DEFAULT_WORK_DIR);
          program = (case nc_nebula_cert_bin_path config of Some p \<Rightarrow> p | None \<Rightarrow> DEFAULT_NEBULA_CERT_PATH);
          crt = work_dir @ [''ca'', ''ca.crt'']; key = work_dir @ [''ca'', ''ca.key'']
      in
      then_st (version_checked N program f) (\<lambda>_ f.
      then_st (let (r, f) = create_dir_all (nebula_io N) f (work_dir @ [''ca'']) in
               (map_err (\<lambda>_. Message (''Create '' @ show_path (work_dir @ [''ca'']) @ '' dir'')) r, f)) (\<lambda>_ f.
      then_st (if \<not> exists_path f crt \<and> \<not> exists_path f key
               then nebula_ca N program
                      (case nc_ca_config config of Some c \<Rightarrow> c | None \<Rightarrow> SelfSignedNebulaCaConfig_default) crt key f
               else (Ok (), f)) (\<lambda>_ f.
      if \<not> exists_path f crt \<or> \<not> exists_path f key then (Err (Message ''Nebula CA not found''), f)
      else then_st (nebula_print N program crt f) (\<lambda>_ f.
        (Ok \<lparr>nebula_program = program, nebula_key = key, nebula_crt = crt, nebula_work_dir = work_dir\<rparr>, f))))))"

definition read_context :: "nebula_sys \<Rightarrow> fs \<Rightarrow> path \<Rightarrow> (anyhow, bytes) outcome" where
  "read_context N f p = map_err (\<lambda>_. Message (''read '' @ show_path p)) (read_file (nebula_io N) f p)"

definition create_credential ::
    "nebula_sys \<Rightarrow> NebulaCaPlugin \<Rightarrow> path \<Rightarrow> path \<Rightarrow> NebulaCredentialParams \<Rightarrow> fs \<Rightarrow>
     (anyhow, bytes \<times> bytes \<times> bytes) outcome \<times> fs" where
  "create_credential N self node_key node_crt params f =
     then_st (let (r, f) = nebula_sign N (nebula_program self) params (nebula_key self) (nebula_crt self) node_key node_crt f
              in (map_err (\<lambda>_. Message ''Failed to create credential'') r, f)) (\<lambda>_ f.
     then_st (let (r, f) = nebula_verify N (nebula_program self) (nebula_crt self) node_crt f
              in (map_err (\<lambda>_. Message ''Failed to verify credential'') r, f)) (\<lambda>_ f.
       (and_then (read_context N f node_crt) (\<lambda>crt.
        and_then (read_context N f node_key) (\<lambda>key.
        and_then (read_context N f (nebula_crt self)) (\<lambda>ca. Ok (crt, key, ca)))), f)))"

text \<open>A temporary directory is removed with its contents when its handle is dropped, on every path.\<close>

definition remove_tree :: "path \<Rightarrow> fs \<Rightarrow> fs" where
  "remove_tree d f = filter (\<lambda>(p, _). take (length d) p \<noteq> d) f"

definition Nebula_handle ::
    "nebula_sys \<Rightarrow> NebulaCaPlugin \<Rightarrow> fs \<Rightarrow> bytes \<Rightarrow> query \<Rightarrow> string list \<Rightarrow> string \<Rightarrow> (anyhow, bytes) outcome \<times> fs" where
  "Nebula_handle N self f body q path method =
     (case path of
        [p] \<Rightarrow>
          if method \<noteq> ''GET'' then (Err (Message ''Illegal HTTP method. Only GET is supported''), f)
          else if p = ''credential'' then
            then_st (NebulaCredentialParams_try_from q, f) (\<lambda>params f.
            then_st (map_err Message (tempdir_name N f (nebula_work_dir self)), f) (\<lambda>tmp f.
              let dir = nebula_work_dir self @ [tmp];
                  (r, f) = create_credential N self (dir @ [''node.key'']) (dir @ [''node.crt'']) params
                             (AList.update dir DirNode f)
              in (and_then r (\<lambda>(crt, key, ca). map_err Message (credential_to_vec N crt key ca)), remove_tree dir f)))
          else (Err (Message (p @ '' not supported'')), f)
      | _ \<Rightarrow> (Err (Message ''Illegal path. Only one path segment is supported''), f))"

definition nebula_plugin :: "nebula_sys \<Rightarrow> NebulaCaPlugin \<Rightarrow> fs ClientPlugin" where
  "nebula_plugin N self =
     \<lparr>plugin_handle = Nebula_handle N self,
      plugin_validate_auth = (\<lambda>body q path method. Ok False),
      plugin_encrypted = (\<lambda>body q path method. Ok True)\<rparr>"

subsection \<open>A credential request leaves nothing behind\<close>

text \<open>
  What is documented of \<^verbatim>\<open>nebula-cert\<close>: \<^verbatim>\<open>sign\<close> writes no file but its two outputs, and \<^verbatim>\<open>verify\<close> none. A
  temporary directory has a plain name that is not in use.
\<close>

definition plain_name :: "string \<Rightarrow> bool" where
  "plain_name c \<longleftrightarrow> c \<noteq> [] \<and> c \<noteq> ''.'' \<and> c \<noteq> ''..'' \<and> CHR ''/'' \<notin> set c"

definition nebula_outputs_only :: "nebula_sys \<Rightarrow> bool" where
  "nebula_outputs_only N \<longleftrightarrow>
     (\<forall>program args ca_key ca_crt k c f p. list_all plain_name k \<and> list_all plain_name c \<and> p \<noteq> k \<and> p \<noteq> c \<longrightarrow>
        map_of (snd (run_cmd N program (''sign'' # args @ [''-ca-key'', ca_key, ''-ca-crt'', ca_crt,
           ''-out-key'', show_path k, ''-out-crt'', show_path c]) f)) p = map_of f p) \<and>
     (\<forall>program args f p. map_of (snd (run_cmd N program (''verify'' # args) f)) p = map_of f p)"

definition tempdir_fresh :: "nebula_sys \<Rightarrow> bool" where
  "tempdir_fresh N \<longleftrightarrow>
     (\<forall>f d name. tempdir_name N f d = Ok name \<longrightarrow>
        plain_name name \<and> (\<forall>p. take (length d + 1) p = d @ [name] \<longrightarrow> map_of f p = None))"

lemma map_of_remove_tree: "map_of (remove_tree d f) p = (if take (length d) p = d then None else map_of f p)"
  by (induction f) (auto simp: remove_tree_def)

lemma snd_run_checked: "snd (run_checked N program verb args f) = snd (run_cmd N program (verb # args) f)"
  by (simp add: run_checked_def split_beta)

lemma create_credential_frame:
  assumes laws: "nebula_outputs_only N" and k: "list_all plain_name k" and c: "list_all plain_name c"
    and p: "p \<noteq> k" "p \<noteq> c"
  shows "map_of (snd (create_credential N self k c params f)) p = map_of f p"
proof -
  have sign: "map_of (snd (nebula_sign N program params a b k c f)) p = map_of f p" for program a b f
    using laws k c p unfolding nebula_sign_def nebula_outputs_only_def
    by (simp add: split_beta snd_run_checked)
  have verify: "map_of (snd (nebula_verify N program a c f)) p = map_of f p" for program a f
    using laws unfolding nebula_verify_def nebula_outputs_only_def by (simp add: split_beta snd_run_checked)
  show ?thesis
    unfolding create_credential_def by (simp add: snd_then_st split_beta sign verify split: outcome.split)
qed

lemma Nebula_handle_frame:
  assumes laws: "nebula_outputs_only N" "tempdir_fresh N" and wd: "list_all plain_name (nebula_work_dir self)"
  shows "map_of (snd (Nebula_handle N self f body q path method)) p = map_of f p"
proof -
  have step: "map_of (remove_tree (nebula_work_dir self @ [tmp]) (snd (create_credential N self
      (nebula_work_dir self @ [tmp, ''node.key'']) (nebula_work_dir self @ [tmp, ''node.crt'']) params
      (AList.update (nebula_work_dir self @ [tmp]) DirNode f)))) p = map_of f p"
    if t: "tempdir_name N f (nebula_work_dir self) = Ok tmp" for tmp params
  proof (cases "take (length (nebula_work_dir self) + 1) p = nebula_work_dir self @ [tmp]")
    case True
    then have "map_of f p = None" using laws(2) t unfolding tempdir_fresh_def by blast
    then show ?thesis using True by (simp add: map_of_remove_tree)
  next
    case False
    have tmp: "plain_name tmp" using laws(2) t unfolding tempdir_fresh_def by blast
    have names: "plain_name ''node.key''" "plain_name ''node.crt''" by (simp_all add: plain_name_def)
    have "p \<noteq> nebula_work_dir self @ [tmp, x]" "p \<noteq> nebula_work_dir self @ [tmp]" for x using False by auto
    then show ?thesis
      using False create_credential_frame [OF laws(1)] wd tmp names
      by (simp add: map_of_remove_tree update_conv')
  qed
  show ?thesis
    unfolding Nebula_handle_def
    by (auto simp: snd_then_st split_beta Let_def step map_err_iff split: list.split outcome.split)
qed

section \<open>The PKCS#11 backend\<close>

datatype RsaMechanism = RsaPkcsOaep | RsaPkcsTest

datatype HashMechanism = MGF1_SHA256 | MGF1_SHA1

text \<open>Both variants are OAEP padding; they differ in the hash function.\<close>

fun to_pkcs11_mechanism :: "RsaMechanism \<Rightarrow> HashMechanism" where
  "to_pkcs11_mechanism RsaPkcsOaep = MGF1_SHA256"
| "to_pkcs11_mechanism RsaPkcsTest = MGF1_SHA1"

datatype ObjectClass = SECRET_KEY | PUBLIC_KEY | PRIVATE_KEY

datatype Attribute =
    Label bytes | Value bytes | Class ObjectClass | KeyType_GENERIC_SECRET | Extractable bool | Private bool

record ('m, 'h, 'o) cryptoki =
  Pkcs11_new :: "string \<Rightarrow> (string, 'm) outcome"
  pkcs11_initialize :: "'m \<Rightarrow> (string, unit) outcome"
  get_slots_with_token :: "'m \<Rightarrow> (string, nat list) outcome"
  open_rw_session :: "'m \<Rightarrow> nat \<Rightarrow> (string, 'h) outcome"
  session_login :: "'h \<Rightarrow> string \<Rightarrow> (string, unit) outcome"
  find_objects :: "'h \<Rightarrow> Attribute list \<Rightarrow> (string, 'o list) outcome"
  value_available :: "'h \<Rightarrow> 'o \<Rightarrow> (string, bool) outcome"
  get_value_attributes :: "'h \<Rightarrow> 'o \<Rightarrow> (string, Attribute list) outcome"
  create_object :: "'h \<Rightarrow> Attribute list \<Rightarrow> (string, unit) outcome \<times> 'h"
  hsm_encrypt :: "'h \<Rightarrow> HashMechanism \<Rightarrow> 'o \<Rightarrow> bytes \<Rightarrow> (string, bytes) outcome"
  hsm_decrypt :: "'h \<Rightarrow> HashMechanism \<Rightarrow> 'o \<Rightarrow> bytes \<Rightarrow> (string, bytes) outcome"

record Pkcs11Config =
  pk_module :: string
  pk_slot_index :: byte
  pk_pin :: string
  pk_rsa_mechanism :: RsaMechanism
  pk_lookup_label :: string

record Pkcs11Backend =
  pb_lookup_label :: string
  pb_rsa_mechanism :: RsaMechanism

text \<open>The session is the state of the plugin; initialising a module is unwrapped.\<close>

definition Pkcs11Backend_try_from ::
    "('m, 'h, 'o) cryptoki \<Rightarrow> Pkcs11Config \<Rightarrow> (anyhow, Pkcs11Backend \<times> 'h) outcome" where
  "Pkcs11Backend_try_from H config =
     and_then (map_err (\<lambda>_. Message ''unable to open pkcs11 module'') (Pkcs11_new H (pk_module config))) (\<lambda>pkcs11.
     and_then (case pkcs11_initialize H pkcs11 of Ok _ \<Rightarrow> Ok () | _ \<Rightarrow> Panic) (\<lambda>_.
     and_then (map_err Message (get_slots_with_token H pkcs11)) (\<lambda>slots.
     if length slots \<le> unat (pk_slot_index config) then Err (Message ''Slot index out of range'')
     else
       and_then (map_err Message (open_rw_session H pkcs11 (slots ! unat (pk_slot_index config)))) (\<lambda>session.
       and_then (map_err Message (session_login H session (pk_pin config))) (\<lambda>_.
         Ok (\<lparr>pb_lookup_label = pk_lookup_label config, pb_rsa_mechanism = pk_rsa_mechanism config\<rparr>, session))))))"

definition pkcs11_read :: "('m, 'h, 'o) cryptoki \<Rightarrow> 'h \<Rightarrow> ResourceDesc \<Rightarrow> (anyhow, bytes) outcome" where
  "pkcs11_read H session d =
     and_then (map_err Message (find_objects H session [Label (bytes_of (ResourceDesc_to_string d))])) (\<lambda>objects.
     case objects of
       [] \<Rightarrow> Err (Message (''Could not find object with label '' @ ResourceDesc_to_string d))
     | obj # _ \<Rightarrow>
         and_then (map_err Message (value_available H session obj)) (\<lambda>available.
         if \<not> available then Err (Message ''Key does not have value attribute available.'')
         else
           and_then (map_err (\<lambda>_. Message ''unable to fetch attributes'') (get_value_attributes H session obj)) (\<lambda>vs.
           case vs of
             [] \<Rightarrow> Err (Message ''empty attributes returned'')
           | Value b # _ \<Rightarrow> Ok b
           | _ \<Rightarrow> Err (Message ''Failed to get value.''))))"

definition pkcs11_write ::
    "('m, 'h, 'o) cryptoki \<Rightarrow> 'h \<Rightarrow> ResourceDesc \<Rightarrow> bytes \<Rightarrow> (anyhow, unit) outcome \<times> 'h" where
  "pkcs11_write H session d data =
     (let (r, session) = create_object H session
            [Class SECRET_KEY, KeyType_GENERIC_SECRET, Extractable True, Private True, Value data,
             Label (bytes_of (ResourceDesc_to_string d))]
      in (map_err Message r, session))"

definition pkcs11_backend :: "('m, 'h, 'o) cryptoki \<Rightarrow> 'h StorageBackend" where
  "pkcs11_backend H = \<lparr>read_secret_resource = pkcs11_read H, write_secret_resource = pkcs11_write H\<rparr>"

text \<open>\<^verbatim>\<open>Vec::remove\<close> of the first element panics when there is none.\<close>

definition wrapkey_wrap :: "('m, 'h, 'o) cryptoki \<Rightarrow> Pkcs11Backend \<Rightarrow> 'h \<Rightarrow> bytes \<Rightarrow> (anyhow, bytes) outcome" where
  "wrapkey_wrap H self session body =
     and_then (map_err (\<lambda>_. Message ''unable to find public wrap key in PKCS11 module'')
         (find_objects H session [Label (bytes_of (pb_lookup_label self)), Class PUBLIC_KEY])) (\<lambda>pubkey.
     case pubkey of
       [] \<Rightarrow> Panic
     | key # _ \<Rightarrow> map_err (\<lambda>_. Message ''unable to encrypt HTTP body with public wrap key'')
                   (hsm_encrypt H session (to_pkcs11_mechanism (pb_rsa_mechanism self)) key body))"

definition wrapkey_unwrap :: "('m, 'h, 'o) cryptoki \<Rightarrow> Pkcs11Backend \<Rightarrow> 'h \<Rightarrow> bytes \<Rightarrow> (anyhow, bytes) outcome" where
  "wrapkey_unwrap H self session body =
     and_then (map_err (\<lambda>_. Message ''unable to find private wrap key in PKCS11 module'')
         (find_objects H session [Label (bytes_of (pb_lookup_label self)), Class PRIVATE_KEY])) (\<lambda>privkey.
     case privkey of
       [] \<Rightarrow> Panic
     | key # _ \<Rightarrow> map_err (\<lambda>_. Message ''unable to decrypt HTTP body with private wrap key'')
                   (hsm_decrypt H session (to_pkcs11_mechanism (pb_rsa_mechanism self)) key body))"

definition wrap_key_handle ::
    "('m, 'h, 'o) cryptoki \<Rightarrow> Pkcs11Backend \<Rightarrow> 'h \<Rightarrow> bytes \<Rightarrow> string \<Rightarrow> (anyhow, bytes) outcome" where
  "wrap_key_handle H self session body method =
     (if method = ''POST'' then wrapkey_wrap H self session body
      else if method = ''GET'' then wrapkey_unwrap H self session body
      else Err (Message ''invalid method''))"

definition pkcs11_resource_handle ::
    "('m, 'h, 'o) cryptoki \<Rightarrow> 'h \<Rightarrow> string \<Rightarrow> bytes \<Rightarrow> string \<Rightarrow> (anyhow, bytes) outcome \<times> 'h" where
  "pkcs11_resource_handle H session tag body method =
     then_st (map_err (\<lambda>_. Message ''invalid path'') (ResourceDesc_try_from tag), session) (\<lambda>d session.
       if method = ''GET'' then (pkcs11_read H session d, session)
       else if method = ''POST'' then then_st (pkcs11_write H session d body) (\<lambda>_ session. (Ok [], session))
       else (Err (Message ''Illegal HTTP method. Only supports `GET` and `POST`''), session))"

text \<open>\<^verbatim>\<open>str::split_once\<close> at a slash.\<close>

definition split_once_slash :: "string \<Rightarrow> (string \<times> string) option" where
  "split_once_slash s =
     (let a = takeWhile (\<lambda>c. c \<noteq> CHR ''/'') s in
      if length a < length s then Some (a, drop (length a + 1) s) else None)"

definition Pkcs11_handle ::
    "('m, 'h, 'o) cryptoki \<Rightarrow> Pkcs11Backend \<Rightarrow> 'h \<Rightarrow> bytes \<Rightarrow> query \<Rightarrow> string list \<Rightarrow> string \<Rightarrow>
     (anyhow, bytes) outcome \<times> 'h" where
  "Pkcs11_handle H self session body q path method =
     (let desc = join_slash path in
      if desc = ''wrap-key'' then (wrap_key_handle H self session body method, session)
      else
        (case split_once_slash desc of
           None \<Rightarrow> (Err (Message ''accessed path is invalid''), session)
         | Some (action, params) \<Rightarrow>
             if action = ''resource'' then pkcs11_resource_handle H session params body method
             else (Err (Message ''invalid path''), session)))"

definition Pkcs11_validate_auth :: "bytes \<Rightarrow> query \<Rightarrow> string list \<Rightarrow> string \<Rightarrow> (anyhow, bool) outcome" where
  "Pkcs11_validate_auth body q path method =
     (if method = ''GET'' then Ok False else if method = ''POST'' then Ok True else Err (Message ''invalid method''))"

definition pkcs11_plugin :: "('m, 'h, 'o) cryptoki \<Rightarrow> Pkcs11Backend \<Rightarrow> 'h ClientPlugin" where
  "pkcs11_plugin H self =
     \<lparr>plugin_handle = Pkcs11_handle H self, plugin_validate_auth = Pkcs11_validate_auth,
      plugin_encrypted = (\<lambda>body q path method. Ok True)\<rparr>"

subsection \<open>What a module keeps\<close>

text \<open>
  \<open>hsm_store H objs\<close>: the module lists its objects \<open>objs\<close> in the order they were created, finds the ones that have
  every attribute asked for, and gives the value of an extractable one.
\<close>

definition attr_value :: "Attribute list \<Rightarrow> bytes option" where
  "attr_value as = (case filter (\<lambda>a. case a of Value _ \<Rightarrow> True | _ \<Rightarrow> False) as of Value b # _ \<Rightarrow> Some b | _ \<Rightarrow> None)"

definition hsm_store :: "('m, 'h, 'o) cryptoki \<Rightarrow> ('h \<Rightarrow> ('o \<times> Attribute list) list) \<Rightarrow> bool" where
  "hsm_store H objs \<longleftrightarrow>
     (\<forall>h t. find_objects H h t = Ok (map fst (filter (\<lambda>(x, as). set t \<subseteq> set as) (objs h)))) \<and>
     (\<forall>h x as. map_of (objs h) x = Some as \<longrightarrow> value_available H h x = Ok (attr_value as \<noteq> None)) \<and>
     (\<forall>h x as b. map_of (objs h) x = Some as \<and> attr_value as = Some b \<longrightarrow> get_value_attributes H h x = Ok [Value b]) \<and>
     (\<forall>h. distinct (map fst (objs h))) \<and>
     (\<forall>h as. \<exists>x h'. create_object H h as = (Ok (), h') \<and> objs h' = objs h @ [(x, as)])"

definition labelled :: "ResourceDesc \<Rightarrow> ('o \<times> Attribute list) \<Rightarrow> bool" where
  "labelled d xa \<longleftrightarrow> Label (bytes_of (ResourceDesc_to_string d)) \<in> set (snd xa)"

lemma pkcs11_read_first:
  assumes H: "hsm_store H objs"
  shows "pkcs11_read H h d = (case filter (labelled d) (objs h) of
      [] \<Rightarrow> Err (Message (''Could not find object with label '' @ ResourceDesc_to_string d))
    | (x, as) # _ \<Rightarrow> (case attr_value as of
        None \<Rightarrow> Err (Message ''Key does not have value attribute available.'') | Some b \<Rightarrow> Ok b))"
proof -
  have lab: "labelled d = (\<lambda>(x, as). set [Label (bytes_of (ResourceDesc_to_string d))] \<subseteq> set as)"
    by (auto simp: fun_eq_iff labelled_def)
  have find: "find_objects H h [Label (bytes_of (ResourceDesc_to_string d))] = Ok (map fst (filter (labelled d) (objs h)))"
    unfolding lab using H unfolding hsm_store_def by blast
  show ?thesis
  proof (cases "filter (labelled d) (objs h)")
    case Nil
    then show ?thesis using find by (simp add: pkcs11_read_def)
  next
    case (Cons xa rest)
    obtain x as where xa: "xa = (x, as)" by (cases xa)
    have "(x, as) \<in> set (objs h)" using Cons xa by (auto dest!: Cons_eq_filterD [OF sym])
    then have m: "map_of (objs h) x = Some as" using H by (simp add: hsm_store_def)
    then have av: "value_available H h x = Ok (attr_value as \<noteq> None)" using H by (simp add: hsm_store_def)
    have "get_value_attributes H h x = Ok [Value b]" if "attr_value as = Some b" for b
      using H m that by (simp add: hsm_store_def)
    then show ?thesis using find Cons xa av by (simp add: pkcs11_read_def split: option.split)
  qed
qed

lemma pkcs11_write_appends:
  assumes "hsm_store H objs"
  obtains x as h' where "pkcs11_write H h d b = (Ok (), h')" "objs h' = objs h @ [(x, as)]"
    "attr_value as = Some b" "\<And>d'. labelled d' (x, as) \<longleftrightarrow> bytes_of (ResourceDesc_to_string d') = bytes_of (ResourceDesc_to_string d)"
proof -
  let ?as = "[Class SECRET_KEY, KeyType_GENERIC_SECRET, Extractable True, Private True, Value b,
      Label (bytes_of (ResourceDesc_to_string d))]"
  obtain x h' where "create_object H h ?as = (Ok (), h')" "objs h' = objs h @ [(x, ?as)]"
    using assms unfolding hsm_store_def by blast
  then show thesis by (intro that [of h' x ?as]) (auto simp: pkcs11_write_def attr_value_def labelled_def)
qed

text \<open>
  A resource is read back after the first write of its name. A second write adds an object and does not replace the
  first, which is the one that is read from then on.
\<close>

lemma pkcs11_first_write_read:
  assumes "hsm_store H objs" and "filter (labelled d) (objs h) = []"
  shows "\<exists>h'. pkcs11_write H h d b = (Ok (), h') \<and> pkcs11_read H h' d = Ok b"
proof -
  obtain x as h' where w: "pkcs11_write H h d b = (Ok (), h')" "objs h' = objs h @ [(x, as)]" "attr_value as = Some b"
    "labelled d (x, as)"
    by (rule pkcs11_write_appends [OF assms(1), of h d b]) simp
  then have "filter (labelled d) (objs h') = [(x, as)]" using assms(2) by simp
  then have "pkcs11_read H h' d = Ok b" using pkcs11_read_first [OF assms(1), of h' d] w(3) by simp
  then show ?thesis using w(1) by blast
qed

lemma pkcs11_later_write_hidden:
  assumes "hsm_store H objs" and "pkcs11_read H h d = Ok b"
  shows "\<exists>h'. pkcs11_write H h d' b' = (Ok (), h') \<and> pkcs11_read H h' d = Ok b"
proof -
  obtain x as h' where w: "pkcs11_write H h d' b' = (Ok (), h')" "objs h' = objs h @ [(x, as)]"
    by (rule pkcs11_write_appends [OF assms(1)])
  obtain y r where "filter (labelled d) (objs h) = y # r"
    using assms(2) pkcs11_read_first [OF assms(1)] by (cases "filter (labelled d) (objs h)") auto
  then have "pkcs11_read H h' d = pkcs11_read H h d"
    using w(2) pkcs11_read_first [OF assms(1)] by (simp add: split_beta)
  then show ?thesis using w(1) assms(2) by auto
qed

subsection \<open>Wrapping\<close>

text \<open>The module decrypts with the private key of the pair what it encrypted with the public one.\<close>

definition hsm_pair :: "('m, 'h, 'o) cryptoki \<Rightarrow> 'h \<Rightarrow> bytes \<Rightarrow> bool" where
  "hsm_pair H h label \<longleftrightarrow>
     (\<exists>pub priv pubs privs. find_objects H h [Label label, Class PUBLIC_KEY] = Ok (pub # pubs) \<and>
        find_objects H h [Label label, Class PRIVATE_KEY] = Ok (priv # privs) \<and>
        (\<forall>m x c. hsm_encrypt H h m pub x = Ok c \<longrightarrow> hsm_decrypt H h m priv c = Ok x))"

lemma wrap_unwrap:
  assumes "hsm_pair H h (bytes_of (pb_lookup_label self))"
    and "Pkcs11_handle H self h body q [''wrap-key''] ''POST'' = (Ok c, h')"
  shows "Pkcs11_handle H self h' c q' [''wrap-key''] ''GET'' = (Ok body, h)"
  using assms by (auto simp: hsm_pair_def Pkcs11_handle_def wrap_key_handle_def wrapkey_wrap_def wrapkey_unwrap_def
      map_err_iff)

text \<open>Without the wrapping keys in the module, a request panics.\<close>

lemma wrap_without_key_panics:
  assumes "find_objects H h [Label (bytes_of (pb_lookup_label self)), Class PUBLIC_KEY] = Ok []"
  shows "fst (Pkcs11_handle H self h body q [''wrap-key''] ''POST'') = Panic"
  using assms by (simp add: Pkcs11_handle_def wrap_key_handle_def wrapkey_wrap_def)

end
