(* ===== verification/Vtpm.thy ===== *)
theory Vtpm
  imports Snp Tdx
begin

text \<open>
  The verifiers of TPM quotes: the two Azure verifiers (\<^verbatim>\<open>deps/verifier/src/az_snp_vtpm/mod.rs\<close>,
  \<^verbatim>\<open>az_tdx_vtpm/mod.rs\<close>), where a virtual TPM is endorsed by an SNP report or a TDX quote, and the TPM verifier
  (\<^verbatim>\<open>tpm/mod.rs\<close>, \<^verbatim>\<open>tpm/config.rs\<close>), where the attestation key is in a list of trusted keys.

  Parameters are the vTPM packages (quotes \<open>'q\<close> and the paravisor's report \<open>'h\<close>), \<^verbatim>\<open>openssl\<close>, \<^verbatim>\<open>jsonwebkey\<close>,
  \<^verbatim>\<open>tss_esapi\<close> and the deserialisers. The lemmas show the chain of trust of accepted evidence, that the quote
  carries the report data and the initialisation data, and when an input makes a verifier panic.
\<close>

section \<open>Quotes\<close>

record ('q, 'k, 'h, 'j) vtpm_lib =
  quote_nonce :: "'q \<Rightarrow> (string, bytes) outcome"
  pcrs_sha256 :: "'q \<Rightarrow> bytes list"
  quote_verify_signature :: "'q \<Rightarrow> 'k \<Rightarrow> (string, unit) outcome"
  quote_verify_pcrs :: "'q \<Rightarrow> (string, unit) outcome"
  public_key_from_der :: "bytes \<Rightarrow> (string, 'k) outcome"
  HclReport_new :: "bytes \<Rightarrow> (string, 'h) outcome"
  hcl_ak_pub :: "'h \<Rightarrow> (string, 'j) outcome"
  jwk_try_to_der :: "'j \<Rightarrow> (string, bytes) outcome"
  var_data_sha256 :: "'h \<Rightarrow> bytes"

definition INITDATA_PCR :: nat where
  "INITDATA_PCR = 8"

definition HCL_VMPL_VALUE :: u32 where
  "HCL_VMPL_VALUE = 0"

definition SNP_REPORT_SIGNATURE_OFFSET :: nat where
  "SNP_REPORT_SIGNATURE_OFFSET = 0x2a0"

text \<open>The \<^verbatim>\<open>pcrNN\<close> entries, inserted one after the other.\<close>

definition insert_pcrs :: "crates \<Rightarrow> bytes list \<Rightarrow> json_map \<Rightarrow> json_map" where
  "insert_pcrs E pcrs m =
     foldl (\<lambda>m (i, pcr). json_insert (''pcr'' @ pad0 2 (fmt_dec i)) (JString (hex_encode E pcr)) m) m
       (enumerate 0 pcrs)"

definition extend_claim ::
    "crates \<Rightarrow> ('q, 'k, 'h, 'j) vtpm_lib \<Rightarrow> TeeEvidenceParsedClaim \<Rightarrow> 'q \<Rightarrow> (anyhow, TeeEvidenceParsedClaim) outcome" where
  "extend_claim E T claim q =
     (case claim of
        JObject m \<Rightarrow>
          let pcrs = pcrs_sha256 T q;
              m = json_insert ''tpm'' (JObject (insert_pcrs E pcrs [])) m
          in
          and_then (index pcrs INITDATA_PCR) (\<lambda>pcr.
          let m = json_insert ''init_data'' (JString (hex_encode E pcr)) m in
          and_then (lib_error (quote_nonce T q)) (\<lambda>nonce.
            Ok (JObject (json_insert ''report_data'' (JString (hex_encode E nonce)) m))))
      | _ \<Rightarrow> bail ''failed to extend the claim, not an object'')"

definition az_verify_nonce :: "('q, 'k, 'h, 'j) vtpm_lib \<Rightarrow> 'q \<Rightarrow> bytes \<Rightarrow> (anyhow, unit) outcome" where
  "az_verify_nonce T q expected =
     and_then (lib_error (quote_nonce T q)) (\<lambda>nonce.
       if nonce \<noteq> expected then bail ''TPM quote nonce doesn't match expected report_data'' else Ok ())"

definition az_verify_signature ::
    "('q, 'k, 'h, 'j) vtpm_lib \<Rightarrow> string \<Rightarrow> 'q \<Rightarrow> 'h \<Rightarrow> (anyhow, unit) outcome" where
  "az_verify_signature T failure q hcl_report =
     and_then (with_context ''Failed to get AKpub'' (lib_error (hcl_ak_pub T hcl_report))) (\<lambda>ak_pub.
     and_then (lib_error (jwk_try_to_der T ak_pub)) (\<lambda>der.
     and_then (with_context ''Failed to parse AKpub'' (lib_error (public_key_from_der T der))) (\<lambda>ak_pub.
       with_context failure (lib_error (quote_verify_signature T q ak_pub)))))"

definition verify_pcrs :: "('q, 'k, 'h, 'j) vtpm_lib \<Rightarrow> 'q \<Rightarrow> (anyhow, unit) outcome" where
  "verify_pcrs T q = with_context ''Digest of PCRs does not match digest in Quote'' (lib_error (quote_verify_pcrs T q))"

text \<open>\<^verbatim>\<open>copy_from_slice\<close> panics unless the lengths are equal, indexing when there is no such element.\<close>

definition init_data_digest :: "crates \<Rightarrow> bytes \<Rightarrow> (anyhow, bytes) outcome" where
  "init_data_digest E expected =
     (if length expected \<noteq> 32 then Panic else Ok (sha256 E (replicate 32 0 @ expected)))"

definition verify_init_data :: "crates \<Rightarrow> InitDataHash \<Rightarrow> bytes list \<Rightarrow> (anyhow, unit) outcome" where
  "verify_init_data E expected pcrs =
     (case expected of
        InitNotProvided \<Rightarrow> Ok ()
      | InitValue expected_init_data_hash \<Rightarrow>
          and_then (init_data_digest E expected_init_data_hash) (\<lambda>digest.
          and_then (index pcrs INITDATA_PCR) (\<lambda>init_data_pcr.
            if digest \<noteq> init_data_pcr
            then bail ''Expected init_data digest is different from the content of PCR8'' else Ok ())))"

section \<open>The Azure SNP verifier\<close>

record 'q AzSnpEvidence =
  az_quote :: 'q
  az_report :: bytes
  az_vcek :: string

record ('q, 'h, 'c, 's, 'e) az_snp_lib =
  az_snp_from_value :: "json \<Rightarrow> (string, 'q AzSnpEvidence) outcome"
  hcl_snp_report :: "'h \<Rightarrow> (string, AttestationReport) outcome"
  vcek_from_pem :: "string \<Rightarrow> (string, 'c) outcome"
  amd_chain_validate :: "'c \<Rightarrow> 'c \<Rightarrow> (string, unit) outcome"
  vcek_validate :: "'c \<Rightarrow> 'c \<Rightarrow> 'c \<Rightarrow> (string, unit) outcome"
  signature_to_ecdsa :: "bytes \<Rightarrow> (string, 's) outcome"
  report_write_bytes :: "AttestationReport \<Rightarrow> (string, bytes) outcome"
  cert_ec_key :: "'c \<Rightarrow> (string, 'e) outcome"
  ecdsa_sig_verify :: "'s \<Rightarrow> bytes \<Rightarrow> 'e \<Rightarrow> (string, bool) outcome"

record 'c AzSnpVtpm =
  ca_ask :: 'c
  ca_ark :: 'c

definition AzSnpVtpm_new :: "('c, 't) snp_lib \<Rightarrow> (anyhow, 'c AzSnpVtpm) outcome" where
  "AzSnpVtpm_new L =
     (case CERT_CHAINS L Milan of
        Ok vendor_certs \<Rightarrow> Ok \<lparr>ca_ask = vendor_ask vendor_certs, ca_ark = vendor_ark vendor_certs\<rparr>
      | Err _ \<Rightarrow> bail ''Failed to load Milan cert chain''
      | Panic \<Rightarrow> Panic)"

definition verify_report_data :: "bytes \<Rightarrow> AttestationReport \<Rightarrow> (anyhow, unit) outcome" where
  "verify_report_data var_data_hash snp_report =
     and_then (slice (snp_report_data snp_report) 0 32) (\<lambda>rd.
       if var_data_hash \<noteq> rd then bail ''SNP report report_data mismatch'' else Ok ())"

definition verify_report_signature ::
    "crates \<Rightarrow> ('c, 't) snp_lib \<Rightarrow> ('q, 'h, 'c, 's, 'e) az_snp_lib \<Rightarrow> AttestationReport \<Rightarrow> 'c \<Rightarrow>
     (anyhow, unit) outcome" where
  "verify_report_signature E L A report vcek =
     and_then (lib_error (cert_to_der L vcek)) (\<lambda>endorsement_key_der.
     and_then (lib_error (tbs_from_der L endorsement_key_der)) (\<lambda>key.
     and_then (with_context ''No common name found in certificate'' (get_common_name L vcek)) (\<lambda>common_name.
     and_then (if common_name = ''VCEK''
               then and_then (get_oid_octets L 64 key HW_ID_OID) (\<lambda>hw.
                      if hw \<noteq> chip_id report then bail ''Chip ID mismatch'' else Ok ())
               else Ok ()) (\<lambda>_.
     let t = reported_tcb report in
     and_then (check_oid_int L key UCODE_SPL_OID (tcb_microcode t) ''Microcode version mismatch'') (\<lambda>_.
     and_then (check_oid_int L key SNP_SPL_OID (tcb_snp t) ''SNP version mismatch'') (\<lambda>_.
     and_then (check_oid_int L key TEE_SPL_OID (tcb_tee t) ''TEE version mismatch'') (\<lambda>_.
     and_then (check_oid_int L key LOADER_SPL_OID (tcb_bootloader t) ''Boot loader version mismatch'') (\<lambda>_.
     and_then (lib_error (signature_to_ecdsa A (report_signature report))) (\<lambda>sig.
     and_then (with_context ''Failed to write report bytes'' (lib_error (report_write_bytes A report))) (\<lambda>raw.
     and_then (slice raw 0 SNP_REPORT_SIGNATURE_OFFSET) (\<lambda>data.
     and_then (lib_error (cert_ec_key A vcek)) (\<lambda>pub_key.
     and_then (lib_error (ecdsa_sig_verify A sig (sha384 E data) pub_key)) (\<lambda>signed.
       if \<not> signed then bail ''Signature validation failed.'' else Ok ())))))))))))))"

definition verify_snp_report ::
    "crates \<Rightarrow> ('c, 't) snp_lib \<Rightarrow> ('q, 'h, 'c, 's, 'e) az_snp_lib \<Rightarrow> AttestationReport \<Rightarrow> 'c \<Rightarrow>
     (anyhow, unit) outcome" where
  "verify_snp_report E L A snp_report vcek =
     and_then (verify_report_signature E L A snp_report vcek) (\<lambda>_.
       if vmpl snp_report \<noteq> HCL_VMPL_VALUE then bail ''VMPL of SNP report is not 0'' else Ok ())"

definition fmt_bool :: "bool \<Rightarrow> string" where
  "fmt_bool b = (if b then ''true'' else ''false'')"

text \<open>Every value is printed to a string.\<close>

definition parse_tee_evidence_az :: "crates \<Rightarrow> AttestationReport \<Rightarrow> TeeEvidenceParsedClaim" where
  "parse_tee_evidence_az E report =
     (let dec = (\<lambda>b. JString (fmt_dec (unat (b :: byte)))); flag = (\<lambda>b. JString (fmt_bool b)) in
      JObject
       [(''policy_abi_major'', dec (abi_major (policy report))),
        (''policy_abi_minor'', dec (abi_minor (policy report))),
        (''policy_smt_allowed'', flag (smt_allowed (policy report))),
        (''policy_migrate_ma'', flag (migrate_ma_allowed (policy report))),
        (''policy_debug_allowed'', flag (debug_allowed (policy report))),
        (''policy_single_socket'', flag (single_socket_required (policy report))),
        (''reported_tcb_bootloader'', dec (tcb_bootloader (reported_tcb report))),
        (''reported_tcb_tee'', dec (tcb_tee (reported_tcb report))),
        (''reported_tcb_snp'', dec (tcb_snp (reported_tcb report))),
        (''reported_tcb_microcode'', dec (tcb_microcode (reported_tcb report))),
        (''platform_tsme_enabled'', flag (tsme_enabled report)),
        (''platform_smt_enabled'', flag (plat_smt_enabled report)),
        (''measurement'', JString (base64_encode E (measurement report))),
        (''report_data'', JString (base64_encode E (snp_report_data report))),
        (''init_data'', JString (base64_encode E (host_data report)))])"

definition AzSnpVtpm_evaluate ::
    "crates \<Rightarrow> ('c, 't) snp_lib \<Rightarrow> ('q, 'k, 'h, 'j) vtpm_lib \<Rightarrow> ('q, 'h, 'c, 's, 'e) az_snp_lib \<Rightarrow> 'c AzSnpVtpm \<Rightarrow>
     TeeEvidence \<Rightarrow> ReportData \<Rightarrow> InitDataHash \<Rightarrow> verdict" where
  "AzSnpVtpm_evaluate E L T A self evidence expected_report_data expected_init_data_hash =
     (case expected_report_data of
        ReportNotProvided \<Rightarrow> bail ''unexpected empty report data''
      | ReportValue expected_report_data \<Rightarrow>
          and_then (with_context ''Failed to deserialize Azure vTPM SEV-SNP evidence''
              (lib_error (az_snp_from_value A evidence))) (\<lambda>evidence.
          and_then (lib_error (HclReport_new T (az_report evidence))) (\<lambda>hcl_report.
          and_then (az_verify_signature T ''vTPM quote is not signed by AKpub'' (az_quote evidence) hcl_report) (\<lambda>_.
          and_then (az_verify_nonce T (az_quote evidence) expected_report_data) (\<lambda>_.
          and_then (verify_pcrs T (az_quote evidence)) (\<lambda>_.
          let var_data_hash = var_data_sha256 T hcl_report in
          and_then (lib_error (hcl_snp_report A hcl_report)) (\<lambda>snp_report.
          and_then (verify_report_data var_data_hash snp_report) (\<lambda>_.
          and_then (lib_error (vcek_from_pem A (az_vcek evidence))) (\<lambda>vcek.
          and_then (with_context ''Failed to validate CA chain''
              (lib_error (amd_chain_validate A (ca_ask self) (ca_ark self)))) (\<lambda>_.
          and_then (with_context ''Failed to validate VCEK''
              (lib_error (vcek_validate A vcek (ca_ask self) (ca_ark self)))) (\<lambda>_.
          and_then (verify_snp_report E L A snp_report vcek) (\<lambda>_.
          and_then (verify_init_data E expected_init_data_hash (pcrs_sha256 T (az_quote evidence))) (\<lambda>_.
          and_then (extend_claim E T (parse_tee_evidence_az E snp_report) (az_quote evidence)) (\<lambda>claim.
            Ok [(claim, ''cpu'')]))))))))))))))"

section \<open>The Azure TDX verifier\<close>

record 'q AzTdxEvidence =
  at_tpm_quote :: 'q
  at_hcl_report :: bytes
  at_td_quote :: bytes

record ('q, 'd) az_tdx_lib =
  az_tdx_from_value :: "json \<Rightarrow> (string, 'q AzTdxEvidence) outcome"
  at_dcap :: "'d dcap_lib"
  at_now :: int
  at_log_to_value :: "EventlogEntry list \<Rightarrow> (string, json) outcome"

definition verify_hcl_var_data :: "('q, 'k, 'h, 'j) vtpm_lib \<Rightarrow> 'h \<Rightarrow> Quote \<Rightarrow> (anyhow, unit) outcome" where
  "verify_hcl_var_data T hcl_report td_quote =
     and_then (slice (quote_report_data td_quote) 0 32) (\<lambda>rd.
       if var_data_sha256 T hcl_report \<noteq> rd then bail ''TDX Quote report data mismatch'' else Ok ())"

definition AzTdxVtpm_evaluate ::
    "crates \<Rightarrow> ('q, 'k, 'h, 'j) vtpm_lib \<Rightarrow> ('q, 'd) az_tdx_lib \<Rightarrow> TeeEvidence \<Rightarrow> ReportData \<Rightarrow> InitDataHash \<Rightarrow> verdict" where
  "AzTdxVtpm_evaluate E T A evidence expected_report_data expected_init_data_hash =
     (case expected_report_data of
        ReportNotProvided \<Rightarrow> bail ''unexpected empty report data''
      | ReportValue expected_report_data \<Rightarrow>
          and_then (with_context ''Failed to deserialize Azure vTPM TDX evidence''
              (lib_error (az_tdx_from_value A evidence))) (\<lambda>evidence.
          and_then (lib_error (HclReport_new T (at_hcl_report evidence))) (\<lambda>hcl_report.
          and_then (az_verify_signature T ''Failed to verify vTPM quote'' (at_tpm_quote evidence) hcl_report) (\<lambda>_.
          and_then (az_verify_nonce T (at_tpm_quote evidence) expected_report_data) (\<lambda>_.
          and_then (verify_pcrs T (at_tpm_quote evidence)) (\<lambda>_.
          and_then (ecdsa_quote_verification E (at_dcap A) (at_now A) (at_td_quote evidence)) (\<lambda>custom_claims.
          and_then (parse_tdx_quote E (at_td_quote evidence)) (\<lambda>td_quote.
          and_then (verify_hcl_var_data T hcl_report td_quote) (\<lambda>_.
          and_then (verify_init_data E expected_init_data_hash (pcrs_sha256 T (at_tpm_quote evidence))) (\<lambda>_.
          and_then (generate_parsed_claim E (at_log_to_value A) td_quote None) (\<lambda>claim.
          and_then (extend_claim E T claim (at_tpm_quote evidence)) (\<lambda>claim.
          and_then (extend_using_custom_claims claim custom_claims) (\<lambda>claim.
            Ok [(claim, ''cpu'')])))))))))))))"

section \<open>The TPM verifier\<close>

definition MAX_TRUSTED_AK_KEYS :: nat where
  "MAX_TRUSTED_AK_KEYS = 100"

definition DEFAULT_TRUSTED_AK_KEYS_DIR :: string where
  "DEFAULT_TRUSTED_AK_KEYS_DIR = ''/etc/tpm/trusted_ak_keys''"

definition TPM_REPORT_DATA_SIZE :: nat where
  "TPM_REPORT_DATA_SIZE = 32"

record TpmVerifierConfig =
  trusted_ak_keys_dir :: string
  max_trusted_ak_keys :: nat

definition TpmVerifierConfig_default :: TpmVerifierConfig where
  "TpmVerifierConfig_default =
     \<lparr>trusted_ak_keys_dir = DEFAULT_TRUSTED_AK_KEYS_DIR, max_trusted_ak_keys = MAX_TRUSTED_AK_KEYS\<rparr>"

record TpmQuote =
  tq_signature :: string
  tq_message :: string
  tq_pcrs :: "string list"

record TpmEvidence =
  ak_public :: string
  tpm_quote :: TpmQuote

datatype TssSignature = RsaSsa bytes | OtherSignature

record ('q, 'k, 'h, 'j) tpm_lib =
  tpm_vtpm :: "('q, 'k, 'h, 'j) vtpm_lib"
  tpm_from_value :: "json \<Rightarrow> (string, TpmEvidence) outcome"
  tpm_b64_decode :: "string \<Rightarrow> (string, bytes) outcome"
  tpm_hex_decode :: "string \<Rightarrow> (string, bytes) outcome"
  signature_unmarshall :: "bytes \<Rightarrow> (string, TssSignature) outcome"
  vtpm_quote_of :: "bytes \<Rightarrow> bytes \<Rightarrow> bytes list \<Rightarrow> (string, 'q) outcome"
  public_key_from_pem :: "bytes \<Rightarrow> (string, 'k) outcome"
  public_key_to_der :: "'k \<Rightarrow> (string, bytes) outcome"

definition extract_raw_signature_bytes :: "('q, 'k, 'h, 'j) tpm_lib \<Rightarrow> TpmQuote \<Rightarrow> (anyhow, bytes) outcome" where
  "extract_raw_signature_bytes P self =
     and_then (with_context ''Failed to decode signature from base64'' (lib_error (tpm_b64_decode P (tq_signature self))))
       (\<lambda>marshalled.
     and_then (with_context ''Failed to unmarshal TSS signature'' (lib_error (signature_unmarshall P marshalled))) (\<lambda>sig.
       case sig of
         RsaSsa bs \<Rightarrow> Ok bs
       | OtherSignature \<Rightarrow> bail ''Unsupported signature type, expected RSA-SSA''))"

fun parse_pcr_values :: "('q, 'k, 'h, 'j) tpm_lib \<Rightarrow> string list \<Rightarrow> (anyhow, bytes list) outcome" where
  "parse_pcr_values P [] = Ok []"
| "parse_pcr_values P (pcr_str # rest) =
     (if length pcr_str \<noteq> 64
      then bail (''PCR should be 64 hex characters (32 bytes), got '' @ fmt_dec (length pcr_str))
      else
        and_then (with_context (''Failed to decode PCR from hex: '' @ pcr_str) (lib_error (tpm_hex_decode P pcr_str)))
          (\<lambda>pcr_bytes.
        if length pcr_bytes \<noteq> 32 then bail (''PCR should be exactly 32 bytes, got '' @ fmt_dec (length pcr_bytes))
        else and_then (parse_pcr_values P rest) (\<lambda>pcrs. Ok (pcr_bytes # pcrs))))"

definition to_quote :: "('q, 'k, 'h, 'j) tpm_lib \<Rightarrow> TpmQuote \<Rightarrow> (anyhow, 'q) outcome" where
  "to_quote P self =
     and_then (extract_raw_signature_bytes P self) (\<lambda>raw_signature_bytes.
     and_then (with_context ''Failed to decode message from base64'' (lib_error (tpm_b64_decode P (tq_message self))))
       (\<lambda>message.
     and_then (parse_pcr_values P (tq_pcrs self)) (\<lambda>pcrs.
       with_context ''Failed to construct Quote from parsed data''
         (lib_error (vtpm_quote_of P raw_signature_bytes message pcrs)))))"

text \<open>\<^verbatim>\<open>Path::extension\<close>: what follows the last dot of the file name, unless the name only starts with it.\<close>

definition path_extension :: "string \<Rightarrow> string option" where
  "path_extension name =
     (let ext = rev (takeWhile (\<lambda>c. c \<noteq> CHR ''.'') (rev name)) in
      if length ext + 1 < length name then Some ext else None)"

text \<open>A key file that cannot be used gives no hash; the messages are only logged.\<close>

definition load_and_hash_key ::
    "crates \<Rightarrow> ('q, 'k, 'h, 'j) tpm_lib \<Rightarrow> io_env \<Rightarrow> fs \<Rightarrow> path \<Rightarrow> bytes option" where
  "load_and_hash_key E P io f p =
     (case read_file io f p of
        Ok content \<Rightarrow>
          if from_utf8 content = None then None
          else (case public_key_from_pem P content of
                  Ok pkey \<Rightarrow> (case public_key_to_der P pkey of Ok key_bytes \<Rightarrow> Some (sha256 E key_bytes) | _ \<Rightarrow> None)
                | _ \<Rightarrow> None)
      | _ \<Rightarrow> None)"

type_synonym TpmVerifier = "bytes set"

definition is_file :: "fs \<Rightarrow> path \<Rightarrow> bool" where
  "is_file f p \<longleftrightarrow> (case map_of f p of Some (FileNode _) \<Rightarrow> True | _ \<Rightarrow> False)"

definition key_paths :: "fs \<Rightarrow> path \<Rightarrow> nat \<Rightarrow> string list \<Rightarrow> path list" where
  "key_paths f dir n names =
     take n (map (\<lambda>x. dir @ [x]) (filter (\<lambda>x. is_file f (dir @ [x]) \<and> path_extension x = Some ''pub'') names))"

definition TpmVerifier_new ::
    "crates \<Rightarrow> ('q, 'k, 'h, 'j) tpm_lib \<Rightarrow> io_env \<Rightarrow> fs \<Rightarrow> TpmVerifierConfig option \<Rightarrow> (io_error, TpmVerifier) outcome" where
  "TpmVerifier_new E P io f config =
     (let config = (case config of Some c \<Rightarrow> c | None \<Rightarrow> TpmVerifierConfig_default);
          dir = path_of (trusted_ak_keys_dir config)
      in
      and_then (read_dir io f dir) (\<lambda>names.
        Ok (set (List.map_filter (load_and_hash_key E P io f) (key_paths f dir (max_trusted_ak_keys config) names)))))"

definition TpmVerifier_default ::
    "crates \<Rightarrow> ('q, 'k, 'h, 'j) tpm_lib \<Rightarrow> io_env \<Rightarrow> fs \<Rightarrow> TpmVerifier" where
  "TpmVerifier_default E P io f =
     (case TpmVerifier_new E P io f (Some TpmVerifierConfig_default) of Ok v \<Rightarrow> v | _ \<Rightarrow> {})"

definition tpm_verify_signature :: "('q, 'k, 'h, 'j) tpm_lib \<Rightarrow> 'q \<Rightarrow> string \<Rightarrow> (anyhow, unit) outcome" where
  "tpm_verify_signature P q ak =
     and_then (with_context ''Base64 decode of AK public failed'' (lib_error (tpm_b64_decode P ak))) (\<lambda>pub_bytes.
     and_then (with_context ''Failed to parse AK public key'' (lib_error (public_key_from_der (tpm_vtpm P) pub_bytes)))
       (\<lambda>ak_pub.
       with_context ''TPM quote signature verification failed''
         (lib_error (quote_verify_signature (tpm_vtpm P) q ak_pub))))"

text \<open>\<^verbatim>\<open>Vec::resize\<close> pads with zeros or truncates.\<close>

definition tpm_verify_nonce :: "('q, 'k, 'h, 'j) tpm_lib \<Rightarrow> 'q \<Rightarrow> bytes \<Rightarrow> (anyhow, unit) outcome" where
  "tpm_verify_nonce P q expected =
     and_then (lib_error (quote_nonce (tpm_vtpm P) q)) (\<lambda>nonce.
       if nonce = take TPM_REPORT_DATA_SIZE expected @ replicate (TPM_REPORT_DATA_SIZE - length expected) 0
       then Ok () else bail ''TPM quote nonce doesn't match expected report_data'')"

definition tpm_verify_init_data ::
    "crates \<Rightarrow> ('q, 'k, 'h, 'j) tpm_lib \<Rightarrow> InitDataHash \<Rightarrow> 'q \<Rightarrow> (anyhow, unit) outcome" where
  "tpm_verify_init_data E P expected q =
     (case expected of
        InitValue expected_init_data_hash \<Rightarrow>
          and_then (init_data_digest E expected_init_data_hash) (\<lambda>digest.
          and_then (index (pcrs_sha256 (tpm_vtpm P) q) INITDATA_PCR) (\<lambda>init_data_pcr.
            if digest = init_data_pcr then Ok () else bail ''TPM PCR[8] doesn't match expected initdata hash''))
      | InitNotProvided \<Rightarrow> Ok ())"

definition tpm_parse_tee_evidence ::
    "crates \<Rightarrow> ('q, 'k, 'h, 'j) tpm_lib \<Rightarrow> 'q \<Rightarrow> (anyhow, TeeEvidenceParsedClaim) outcome" where
  "tpm_parse_tee_evidence E P q =
     and_then (index (pcrs_sha256 (tpm_vtpm P) q) INITDATA_PCR) (\<lambda>pcr.
       let nonce = (case quote_nonce (tpm_vtpm P) q of Ok n \<Rightarrow> n | _ \<Rightarrow> []) in
       Ok (JObject [(''init_data'', JString (hex_encode E pcr)), (''report_data'', JString (hex_encode E nonce))]))"

definition tpm_extend_claim ::
    "crates \<Rightarrow> ('q, 'k, 'h, 'j) tpm_lib \<Rightarrow> TeeEvidenceParsedClaim \<Rightarrow> 'q \<Rightarrow> (anyhow, TeeEvidenceParsedClaim) outcome" where
  "tpm_extend_claim E P claim q =
     (case claim of
        JObject m \<Rightarrow> Ok (JObject (insert_pcrs E (pcrs_sha256 (tpm_vtpm P) q) m))
      | _ \<Rightarrow> bail ''failed to extend the claim, not an object'')"

definition Tpm_evaluate ::
    "crates \<Rightarrow> ('q, 'k, 'h, 'j) tpm_lib \<Rightarrow> TpmVerifier \<Rightarrow> TeeEvidence \<Rightarrow> ReportData \<Rightarrow> InitDataHash \<Rightarrow> verdict" where
  "Tpm_evaluate E P trusted_ak_hashes evidence expected_report_data expected_init_data_hash =
     and_then (with_context ''Failed to deserialize TPM Evidence'' (lib_error (tpm_from_value P evidence))) (\<lambda>guest_ev.
     and_then (with_context ''Failed to convert quote from string format'' (to_quote P (tpm_quote guest_ev))) (\<lambda>q.
     and_then (lib_error (tpm_b64_decode P (ak_public guest_ev))) (\<lambda>ak_public_bytes.
     if sha256 E ak_public_bytes \<notin> trusted_ak_hashes
     then bail ''The provided AK public key is not in the list of trusted keys''
     else
       and_then (tpm_verify_signature P q (ak_public guest_ev)) (\<lambda>_.
       and_then (verify_pcrs (tpm_vtpm P) q) (\<lambda>_.
       and_then (case expected_report_data of
                   ReportValue rd \<Rightarrow> tpm_verify_nonce P q rd
                 | ReportNotProvided \<Rightarrow> Ok ()) (\<lambda>_.
       and_then (tpm_verify_init_data E P expected_init_data_hash q) (\<lambda>_.
       and_then (tpm_parse_tee_evidence E P q) (\<lambda>claims.
       and_then (tpm_extend_claim E P claims q) (\<lambda>claims.
         Ok [(claims, ''cpu'')])))))))))"

definition AzSnpVtpmVerifier ::
    "crates \<Rightarrow> ('c, 't) snp_lib \<Rightarrow> ('q, 'k, 'h, 'j) vtpm_lib \<Rightarrow> ('q, 'h, 'c, 's, 'e) az_snp_lib \<Rightarrow> 'c AzSnpVtpm \<Rightarrow> Verifier" where
  "AzSnpVtpmVerifier E L T A self =
     \<lparr>v_evaluate = AzSnpVtpm_evaluate E L T A self,
      v_generate_supplemental_challenge = default_supplemental_challenge\<rparr>"

definition AzTdxVtpmVerifier ::
    "crates \<Rightarrow> ('q, 'k, 'h, 'j) vtpm_lib \<Rightarrow> ('q, 'd) az_tdx_lib \<Rightarrow> Verifier" where
  "AzTdxVtpmVerifier E T A =
     \<lparr>v_evaluate = AzTdxVtpm_evaluate E T A,
      v_generate_supplemental_challenge = default_supplemental_challenge\<rparr>"

definition TpmVerifierV :: "crates \<Rightarrow> ('q, 'k, 'h, 'j) tpm_lib \<Rightarrow> TpmVerifier \<Rightarrow> Verifier" where
  "TpmVerifierV E P trusted =
     \<lparr>v_evaluate = Tpm_evaluate E P trusted,
      v_generate_supplemental_challenge = default_supplemental_challenge\<rparr>"

section \<open>What acceptance means\<close>

text \<open>The quote is signed with the attestation key the paravisor's report names.\<close>

definition ak_signed :: "('q, 'k, 'h, 'j) vtpm_lib \<Rightarrow> 'q \<Rightarrow> 'h \<Rightarrow> bool" where
  "ak_signed T q hcl \<longleftrightarrow>
     (\<exists>jwk der key. hcl_ak_pub T hcl = Ok jwk \<and> jwk_try_to_der T jwk = Ok der \<and> public_key_from_der T der = Ok key \<and>
        quote_verify_signature T q key = Ok ())"

text \<open>The initialisation data was extended into the register, which held zeros before.\<close>

definition init_data_measured :: "crates \<Rightarrow> bytes list \<Rightarrow> bytes \<Rightarrow> bool" where
  "init_data_measured E pcrs ih \<longleftrightarrow>
     length ih = 32 \<and> INITDATA_PCR < length pcrs \<and> pcrs ! INITDATA_PCR = sha256 E (replicate 32 0 @ ih)"

definition init_data_ok :: "crates \<Rightarrow> bytes list \<Rightarrow> InitDataHash \<Rightarrow> bool" where
  "init_data_ok E pcrs iho \<longleftrightarrow> (\<forall>ih. iho = InitValue ih \<longrightarrow> init_data_measured E pcrs ih)"

lemma init_data_digest_iff [outcome_iff]:
  "init_data_digest E ih = Ok d \<longleftrightarrow> length ih = 32 \<and> d = sha256 E (replicate 32 0 @ ih)"
  "init_data_digest E ih = Panic \<longleftrightarrow> length ih \<noteq> 32"
  "init_data_digest E ih \<noteq> Err e"
  by (auto simp: init_data_digest_def)

lemma verify_init_data_iff [outcome_iff]:
  "verify_init_data E iho pcrs = Ok u \<longleftrightarrow> init_data_ok E pcrs iho"
  "tpm_verify_init_data E P iho q = Ok u \<longleftrightarrow> init_data_ok E (pcrs_sha256 (tpm_vtpm P) q) iho"
  by (auto simp: verify_init_data_def tpm_verify_init_data_def init_data_ok_def init_data_measured_def outcome_iff
      index_def split: InitDataHash.splits if_splits)

text \<open>An initialisation data hash of another size, or a quote with fewer registers, is a panic.\<close>

lemma verify_init_data_panic:
  "verify_init_data E (InitValue ih) pcrs = Panic \<longleftrightarrow> length ih \<noteq> 32 \<or> length pcrs \<le> INITDATA_PCR"
  by (auto simp: verify_init_data_def outcome_iff index_def split: if_splits)

lemma az_verify_signature_iff [outcome_iff]:
  "az_verify_signature T m q hcl = Ok u \<longleftrightarrow> ak_signed T q hcl"
  by (auto simp: az_verify_signature_def ak_signed_def outcome_iff)

lemma az_verify_nonce_iff [outcome_iff]:
  "az_verify_nonce T q rd = Ok u \<longleftrightarrow> quote_nonce T q = Ok rd"
  by (auto simp: az_verify_nonce_def outcome_iff)

lemma verify_pcrs_iff [outcome_iff]: "verify_pcrs T q = Ok u \<longleftrightarrow> quote_verify_pcrs T q = Ok ()"
  by (auto simp: verify_pcrs_def outcome_iff)

lemma resize_regularize: "take n rd @ replicate (n - length rd) 0 = regularize_data rd n"
  by (auto simp: regularize_data_def)

lemma tpm_verify_nonce_iff [outcome_iff]:
  "tpm_verify_nonce P q rd = Ok u \<longleftrightarrow> quote_nonce (tpm_vtpm P) q = Ok (regularize_data rd 32)"
  unfolding tpm_verify_nonce_def resize_regularize TPM_REPORT_DATA_SIZE_def by (auto simp: outcome_iff split: if_splits)

definition pcr_claims :: "crates \<Rightarrow> ('q, 'k, 'h, 'j) vtpm_lib \<Rightarrow> 'q \<Rightarrow> bytes \<Rightarrow> json_map \<Rightarrow> json_map" where
  "pcr_claims E T q nonce m =
     json_insert ''report_data'' (JString (hex_encode E nonce))
       (json_insert ''init_data'' (JString (hex_encode E (pcrs_sha256 T q ! INITDATA_PCR)))
         (json_insert ''tpm'' (JObject (insert_pcrs E (pcrs_sha256 T q) [])) m))"

lemma extend_claim_iff:
  "extend_claim E T (JObject m) q = Ok c \<longleftrightarrow>
     INITDATA_PCR < length (pcrs_sha256 T q) \<and>
     (\<exists>nonce. quote_nonce T q = Ok nonce \<and> c = JObject (pcr_claims E T q nonce m))"
  by (auto simp: extend_claim_def pcr_claims_def outcome_iff Let_def index_def split: if_splits)

text \<open>The report's levels are certified, and its first 672 bytes are signed with the endorsement key.\<close>

definition az_report_signed ::
    "crates \<Rightarrow> ('q, 'h, 'c, 's, 'e) az_snp_lib \<Rightarrow> AttestationReport \<Rightarrow> 'c \<Rightarrow> bool" where
  "az_report_signed E A report vcek \<longleftrightarrow>
     (\<exists>sig raw key. signature_to_ecdsa A (report_signature report) = Ok sig \<and> report_write_bytes A report = Ok raw \<and>
        672 \<le> length raw \<and> cert_ec_key A vcek = Ok key \<and> ecdsa_sig_verify A sig (sha384 E (take 672 raw)) key = Ok True)"

lemma chip_check_iff:
  "(if cn = ''VCEK''
    then and_then (get_oid_octets L 64 key HW_ID_OID) (\<lambda>hw. if hw \<noteq> chip then bail ''Chip ID mismatch'' else Ok ())
    else Ok ()) = Ok u \<longleftrightarrow> (cn = ''VCEK'' \<longrightarrow> get_oid_octets L 64 key HW_ID_OID = Ok chip)"
  by (auto simp: outcome_iff split: if_splits)

lemma verify_report_signature_iff [outcome_iff]:
  "verify_report_signature E L A report vcek = Ok u \<longleftrightarrow>
     snp_certified L report vcek \<and> (\<exists>cn. get_common_name L vcek = Ok cn) \<and> az_report_signed E A report vcek"
proof -
  have tail: "and_then (lib_error (signature_to_ecdsa A (report_signature report))) (\<lambda>sig.
     and_then (with_context ''Failed to write report bytes'' (lib_error (report_write_bytes A report))) (\<lambda>raw.
     and_then (slice raw 0 SNP_REPORT_SIGNATURE_OFFSET) (\<lambda>data.
     and_then (lib_error (cert_ec_key A vcek)) (\<lambda>pub_key.
     and_then (lib_error (ecdsa_sig_verify A sig (sha384 E data) pub_key)) (\<lambda>signed.
       if \<not> signed then bail ''Signature validation failed.'' else Ok ()))))) = Ok u \<longleftrightarrow> az_report_signed E A report vcek"
    for u
    by (auto simp: outcome_iff az_report_signed_def SNP_REPORT_SIGNATURE_OFFSET_def slice_def range_ok_def
        split: if_splits)
  show ?thesis
    unfolding verify_report_signature_def Let_def snp_certified_def
    by (simp only: and_then_Ok_iff [of "lib_error (cert_to_der L vcek)"]
        and_then_Ok_iff [of "lib_error (tbs_from_der L x)" for x]
        and_then_Ok_iff [of "with_context m (get_common_name L vcek)" for m]
        and_then_Ok_iff [of "if c then t else e" for c t e] and_then_Ok_iff [of "check_oid_int L k oid v m" for k oid v m]
        chip_check_iff check_oid_int_Ok tail lib_error_iff with_context_iff)
      auto
qed

lemma verify_snp_report_iff [outcome_iff]:
  "verify_snp_report E L A report vcek = Ok u \<longleftrightarrow>
     vmpl report = 0 \<and> snp_certified L report vcek \<and> (\<exists>cn. get_common_name L vcek = Ok cn) \<and>
     az_report_signed E A report vcek"
  by (auto simp: verify_snp_report_def outcome_iff HCL_VMPL_VALUE_def)

lemma report_data_prefix_iff:
  "verify_report_data h report = Ok u \<longleftrightarrow> 32 \<le> length (snp_report_data report) \<and> h = take 32 (snp_report_data report)"
  by (auto simp: verify_report_data_def outcome_iff slice_def range_ok_def split: if_splits)

text \<open>
  The chain of trust of the Azure SNP verifier: the AMD root, the endorsement key, the SNP report, the paravisor's
  report with the attestation key, the quote, and in the quote the report data and the registers.
\<close>

definition az_snp_trusted ::
    "crates \<Rightarrow> ('c, 't) snp_lib \<Rightarrow> ('q, 'k, 'h, 'j) vtpm_lib \<Rightarrow> ('q, 'h, 'c, 's, 'e) az_snp_lib \<Rightarrow> 'c AzSnpVtpm \<Rightarrow>
     'q AzSnpEvidence \<Rightarrow> AttestationReport \<Rightarrow> bool" where
  "az_snp_trusted E L T A self ev report \<longleftrightarrow>
     (\<exists>hcl vcek.
        HclReport_new T (az_report ev) = Ok hcl \<and> ak_signed T (az_quote ev) hcl \<and>
        quote_verify_pcrs T (az_quote ev) = Ok () \<and>
        hcl_snp_report A hcl = Ok report \<and>
        32 \<le> length (snp_report_data report) \<and> var_data_sha256 T hcl = take 32 (snp_report_data report) \<and>
        vcek_from_pem A (az_vcek ev) = Ok vcek \<and>
        amd_chain_validate A (ca_ask self) (ca_ark self) = Ok () \<and>
        vcek_validate A vcek (ca_ask self) (ca_ark self) = Ok () \<and>
        vmpl report = 0 \<and> snp_certified L report vcek \<and> (\<exists>cn. get_common_name L vcek = Ok cn) \<and>
        az_report_signed E A report vcek)"

fun object_of :: "json \<Rightarrow> json_map" where
  "object_of (JObject m) = m"
| "object_of _ = []"

lemma parse_az_object: "parse_tee_evidence_az E report = JObject (object_of (parse_tee_evidence_az E report))"
  by (simp add: parse_tee_evidence_az_def Let_def)

lemma AzSnpVtpm_evaluate_iff:
  "AzSnpVtpm_evaluate E L T A self evidence (ReportValue rd) iho = Ok cs \<longleftrightarrow>
     (\<exists>ev report. az_snp_from_value A evidence = Ok ev \<and> az_snp_trusted E L T A self ev report \<and>
        quote_nonce T (az_quote ev) = Ok rd \<and> init_data_ok E (pcrs_sha256 T (az_quote ev)) iho \<and>
        INITDATA_PCR < length (pcrs_sha256 T (az_quote ev)) \<and>
        cs = [(JObject (pcr_claims E T (az_quote ev) rd (object_of (parse_tee_evidence_az E report))), ''cpu'')])"
proof -
  have ext: "extend_claim E T (parse_tee_evidence_az E report) q = Ok c \<longleftrightarrow>
      INITDATA_PCR < length (pcrs_sha256 T q) \<and> (\<exists>nonce. quote_nonce T q = Ok nonce \<and>
        c = JObject (pcr_claims E T q nonce (object_of (parse_tee_evidence_az E report))))" for report q c
    by (subst parse_az_object) (rule extend_claim_iff)
  show ?thesis
    unfolding AzSnpVtpm_evaluate_def ReportData.case Let_def and_then_Ok_iff with_context_iff lib_error_iff
      az_verify_signature_iff az_verify_nonce_iff verify_pcrs_iff report_data_prefix_iff verify_snp_report_iff
      verify_init_data_iff ext az_snp_trusted_def
    by (safe; simp; blast)
qed

definition az_tdx_trusted ::
    "crates \<Rightarrow> ('q, 'k, 'h, 'j) vtpm_lib \<Rightarrow> ('q, 'd) az_tdx_lib \<Rightarrow> 'q AzTdxEvidence \<Rightarrow> json_map \<Rightarrow> Quote \<Rightarrow> bool" where
  "az_tdx_trusted E T A ev custom q \<longleftrightarrow>
     (\<exists>hcl. HclReport_new T (at_hcl_report ev) = Ok hcl \<and> ak_signed T (at_tpm_quote ev) hcl \<and>
        quote_verify_pcrs T (at_tpm_quote ev) = Ok () \<and>
        ecdsa_quote_verification E (at_dcap A) (at_now A) (at_td_quote ev) = Ok custom \<and>
        parse_tdx_quote E (at_td_quote ev) = Ok q \<and>
        32 \<le> length (quote_report_data q) \<and> var_data_sha256 T hcl = take 32 (quote_report_data q))"

lemma hcl_var_data_iff:
  "verify_hcl_var_data T hcl q = Ok u \<longleftrightarrow>
     32 \<le> length (quote_report_data q) \<and> var_data_sha256 T hcl = take 32 (quote_report_data q)"
  by (auto simp: verify_hcl_var_data_def outcome_iff slice_def range_ok_def split: if_splits)

lemma AzTdxVtpm_evaluate_iff:
  "AzTdxVtpm_evaluate E T A evidence (ReportValue rd) iho = Ok cs \<longleftrightarrow>
     (\<exists>ev custom q m. az_tdx_from_value A evidence = Ok ev \<and> az_tdx_trusted E T A ev custom q \<and>
        quote_nonce T (at_tpm_quote ev) = Ok rd \<and> init_data_ok E (pcrs_sha256 T (at_tpm_quote ev)) iho \<and>
        INITDATA_PCR < length (pcrs_sha256 T (at_tpm_quote ev)) \<and>
        generate_parsed_claim E (at_log_to_value A) q None = Ok (JObject m) \<and>
        cs = [(JObject (json_extend (pcr_claims E T (at_tpm_quote ev) rd m) custom), ''cpu'')])"
proof -
  have claims: "(\<exists>x. generate_parsed_claim E tv q None = Ok x \<and>
      (\<exists>y. extend_claim E T x t = Ok y \<and> (\<exists>z. extend_using_custom_claims y custom = Ok z \<and> P z))) \<longleftrightarrow>
      (\<exists>m nonce. generate_parsed_claim E tv q None = Ok (JObject m) \<and> INITDATA_PCR < length (pcrs_sha256 T t) \<and>
        quote_nonce T t = Ok nonce \<and> P (JObject (json_extend (pcr_claims E T t nonce m) custom)))"
    for tv q t custom P
  proof
    assume "\<exists>x. generate_parsed_claim E tv q None = Ok x \<and>
      (\<exists>y. extend_claim E T x t = Ok y \<and> (\<exists>z. extend_using_custom_claims y custom = Ok z \<and> P z))"
    then obtain x y z where "generate_parsed_claim E tv q None = Ok x" "extend_claim E T x t = Ok y"
      "extend_using_custom_claims y custom = Ok z" "P z" by blast
    moreover obtain m where "x = JObject m" using calculation(1) by (rule generate_parsed_claim_Ok)
    ultimately show "\<exists>m nonce. generate_parsed_claim E tv q None = Ok (JObject m) \<and>
        INITDATA_PCR < length (pcrs_sha256 T t) \<and> quote_nonce T t = Ok nonce \<and>
        P (JObject (json_extend (pcr_claims E T t nonce m) custom))"
      by (auto simp: extend_claim_iff extend_using_custom_claims_def)
  qed (auto simp: extend_claim_iff extend_using_custom_claims_def)
  show ?thesis
    unfolding AzTdxVtpm_evaluate_def ReportData.case and_then_Ok_iff with_context_iff lib_error_iff
      az_verify_signature_iff az_verify_nonce_iff verify_pcrs_iff hcl_var_data_iff verify_init_data_iff claims
      az_tdx_trusted_def
    by (safe; simp; blast)
qed

text \<open>A trusted key signed the quote.\<close>

definition tpm_trusted :: "crates \<Rightarrow> ('q, 'k, 'h, 'j) tpm_lib \<Rightarrow> TpmVerifier \<Rightarrow> TpmEvidence \<Rightarrow> 'q \<Rightarrow> bool" where
  "tpm_trusted E P trusted ev q \<longleftrightarrow>
     to_quote P (tpm_quote ev) = Ok q \<and>
     (\<exists>der key. tpm_b64_decode P (ak_public ev) = Ok der \<and> sha256 E der \<in> trusted \<and>
        public_key_from_der (tpm_vtpm P) der = Ok key \<and> quote_verify_signature (tpm_vtpm P) q key = Ok ()) \<and>
     quote_verify_pcrs (tpm_vtpm P) q = Ok ()"

lemma tpm_claims_iff:
  "tpm_parse_tee_evidence E P q = Ok c \<longleftrightarrow>
     INITDATA_PCR < length (pcrs_sha256 (tpm_vtpm P) q) \<and>
     c = JObject [(''init_data'', JString (hex_encode E (pcrs_sha256 (tpm_vtpm P) q ! INITDATA_PCR))),
       (''report_data'', JString (hex_encode E (case quote_nonce (tpm_vtpm P) q of Ok n \<Rightarrow> n | _ \<Rightarrow> [])))]"
  by (auto simp: tpm_parse_tee_evidence_def outcome_iff index_def Let_def split: if_splits)

lemma tpm_signature_iff:
  "tpm_verify_signature P q ak = Ok u \<longleftrightarrow>
     (\<exists>der key. tpm_b64_decode P ak = Ok der \<and> public_key_from_der (tpm_vtpm P) der = Ok key \<and>
        quote_verify_signature (tpm_vtpm P) q key = Ok ())"
  by (auto simp: tpm_verify_signature_def outcome_iff)

definition tpm_nonce_ok :: "('q, 'k, 'h, 'j) tpm_lib \<Rightarrow> 'q \<Rightarrow> ReportData \<Rightarrow> bool" where
  "tpm_nonce_ok P q rdo \<longleftrightarrow> (\<forall>rd. rdo = ReportValue rd \<longrightarrow> quote_nonce (tpm_vtpm P) q = Ok (regularize_data rd 32))"

lemma Tpm_evaluate_iff:
  "Tpm_evaluate E P trusted evidence rdo iho = Ok cs \<longleftrightarrow>
     (\<exists>ev q m. tpm_from_value P evidence = Ok ev \<and> tpm_trusted E P trusted ev q \<and> tpm_nonce_ok P q rdo \<and>
        init_data_ok E (pcrs_sha256 (tpm_vtpm P) q) iho \<and> tpm_parse_tee_evidence E P q = Ok (JObject m) \<and>
        cs = [(JObject (insert_pcrs E (pcrs_sha256 (tpm_vtpm P) q) m), ''cpu'')])"
proof -
  have nonce: "(case rdo of ReportValue rd \<Rightarrow> tpm_verify_nonce P q rd | ReportNotProvided \<Rightarrow> Ok ()) = Ok u \<longleftrightarrow>
      tpm_nonce_ok P q rdo" for q u
    by (auto simp: tpm_nonce_ok_def tpm_verify_nonce_iff split: ReportData.splits)
  have claims: "(\<exists>x. tpm_parse_tee_evidence E P q = Ok x \<and> (\<exists>y. tpm_extend_claim E P x q = Ok y \<and> R y)) \<longleftrightarrow>
      (\<exists>m. tpm_parse_tee_evidence E P q = Ok (JObject m) \<and> R (JObject (insert_pcrs E (pcrs_sha256 (tpm_vtpm P) q) m)))"
    for q R
    by (auto simp: tpm_claims_iff tpm_extend_claim_def)
  have split: "(if b then bail m else r) = Ok y \<longleftrightarrow> \<not> b \<and> r = Ok y" for b m r and y :: "(json \<times> string) list"
    by (simp add: bail_def)
  show ?thesis
    unfolding Tpm_evaluate_def and_then_Ok_iff with_context_iff lib_error_iff split tpm_signature_iff
      verify_pcrs_iff nonce verify_init_data_iff claims tpm_trusted_def
    by (safe; simp; blast)
qed

section \<open>Interpretations\<close>

interpretation az_snp: bound_verifier "AzSnpVtpmVerifier E L T A self"
  "\<lambda>ev rd. \<exists>e report. az_snp_from_value A ev = Ok e \<and> az_snp_trusted E L T A self e report \<and>
      quote_nonce T (az_quote e) = Ok rd"
  "\<lambda>ev ih. \<exists>e report. az_snp_from_value A ev = Ok e \<and> az_snp_trusted E L T A self e report \<and>
      init_data_measured E (pcrs_sha256 T (az_quote e)) ih"
proof unfold_locales
  note iff = AzSnpVtpm_evaluate_iff [of E L T A self]
  show "\<exists>e report. az_snp_from_value A ev = Ok e \<and> az_snp_trusted E L T A self e report \<and>
      quote_nonce T (az_quote e) = Ok rd"
    if "v_evaluate (AzSnpVtpmVerifier E L T A self) ev (ReportValue rd) ih = Ok claims" for ev rd ih claims
    using that iff by (auto simp: AzSnpVtpmVerifier_def)
  show "claims \<noteq> []" if "v_evaluate (AzSnpVtpmVerifier E L T A self) ev rdo ih = Ok claims" for ev rdo ih claims
    using that iff by (cases rdo) (auto simp: AzSnpVtpmVerifier_def AzSnpVtpm_evaluate_def bail_def)
  show "\<exists>e report. az_snp_from_value A ev = Ok e \<and> az_snp_trusted E L T A self e report \<and>
      init_data_measured E (pcrs_sha256 T (az_quote e)) ih"
    if "v_evaluate (AzSnpVtpmVerifier E L T A self) ev rdo (InitValue ih) = Ok claims" for ev rdo ih claims
    using that iff by (cases rdo) (auto simp: AzSnpVtpmVerifier_def init_data_ok_def AzSnpVtpm_evaluate_def bail_def)
qed

interpretation az_tdx: bound_verifier "AzTdxVtpmVerifier E T A"
  "\<lambda>ev rd. \<exists>e custom q. az_tdx_from_value A ev = Ok e \<and> az_tdx_trusted E T A e custom q \<and>
      quote_nonce T (at_tpm_quote e) = Ok rd"
  "\<lambda>ev ih. \<exists>e custom q. az_tdx_from_value A ev = Ok e \<and> az_tdx_trusted E T A e custom q \<and>
      init_data_measured E (pcrs_sha256 T (at_tpm_quote e)) ih"
proof unfold_locales
  note iff = AzTdxVtpm_evaluate_iff [of E T A]
  show "\<exists>e custom q. az_tdx_from_value A ev = Ok e \<and> az_tdx_trusted E T A e custom q \<and>
      quote_nonce T (at_tpm_quote e) = Ok rd"
    if "v_evaluate (AzTdxVtpmVerifier E T A) ev (ReportValue rd) ih = Ok claims" for ev rd ih claims
    using that iff by (auto simp: AzTdxVtpmVerifier_def)
  show "claims \<noteq> []" if "v_evaluate (AzTdxVtpmVerifier E T A) ev rdo ih = Ok claims" for ev rdo ih claims
    using that iff by (cases rdo) (auto simp: AzTdxVtpmVerifier_def AzTdxVtpm_evaluate_def bail_def)
  show "\<exists>e custom q. az_tdx_from_value A ev = Ok e \<and> az_tdx_trusted E T A e custom q \<and>
      init_data_measured E (pcrs_sha256 T (at_tpm_quote e)) ih"
    if "v_evaluate (AzTdxVtpmVerifier E T A) ev rdo (InitValue ih) = Ok claims" for ev rdo ih claims
    using that iff by (cases rdo) (auto simp: AzTdxVtpmVerifier_def init_data_ok_def AzTdxVtpm_evaluate_def bail_def)
qed

interpretation tpm: bound_verifier "TpmVerifierV E P trusted"
  "\<lambda>ev rd. \<exists>e q. tpm_from_value P ev = Ok e \<and> tpm_trusted E P trusted e q \<and>
      quote_nonce (tpm_vtpm P) q = Ok (regularize_data rd 32)"
  "\<lambda>ev ih. \<exists>e q. tpm_from_value P ev = Ok e \<and> tpm_trusted E P trusted e q \<and>
      init_data_measured E (pcrs_sha256 (tpm_vtpm P) q) ih"
  by unfold_locales (auto simp: TpmVerifierV_def Tpm_evaluate_iff init_data_ok_def tpm_nonce_ok_def)

section \<open>Properties\<close>

text \<open>
  C7. The Azure SNP verifier accepts evidence exactly when the whole chain of trust holds: the fixed AMD root
  endorses the key that signed the SNP report, issued at VMPL 0 for the certified firmware levels; the report data
  of that report is the hash of the paravisor's data, which holds the key that signed the TPM quote; the quote's
  nonce is the expected report data, its digest matches the registers, and the initialisation data was measured
  into register 8. The claims are those of the report with the registers, and name the nonce and register 8.
\<close>

theorem az_snp_chain_of_trust:
  "v_evaluate (AzSnpVtpmVerifier E L T A self) evidence (ReportValue rd) iho = Ok cs \<longleftrightarrow>
     (\<exists>ev report. az_snp_from_value A evidence = Ok ev \<and> az_snp_trusted E L T A self ev report \<and>
        quote_nonce T (az_quote ev) = Ok rd \<and> init_data_ok E (pcrs_sha256 T (az_quote ev)) iho \<and>
        8 < length (pcrs_sha256 T (az_quote ev)) \<and>
        cs = [(JObject (pcr_claims E T (az_quote ev) rd (object_of (parse_tee_evidence_az E report))), ''cpu'')])"
  using AzSnpVtpm_evaluate_iff [of E L T A self evidence rd iho cs]
  by (simp add: AzSnpVtpmVerifier_def INITDATA_PCR_def)

text \<open>
  The TPM verifier accepts evidence exactly when the quote is signed with a key whose hash is in the trusted
  set, its registers match its digest, its nonce is the report data cut or padded to 32 bytes, the initialisation
  data was measured into register 8 and the quote has that register.
\<close>

theorem tpm_accepts_iff:
  "(\<exists>cs. v_evaluate (TpmVerifierV E P trusted) evidence (ReportValue rd) iho = Ok cs) \<longleftrightarrow>
     (\<exists>ev q. tpm_from_value P evidence = Ok ev \<and> tpm_trusted E P trusted ev q \<and>
        quote_nonce (tpm_vtpm P) q = Ok (regularize_data rd 32) \<and>
        init_data_ok E (pcrs_sha256 (tpm_vtpm P) q) iho \<and> 8 < length (pcrs_sha256 (tpm_vtpm P) q))"
  by (simp add: TpmVerifierV_def Tpm_evaluate_iff tpm_nonce_ok_def tpm_claims_iff INITDATA_PCR_def)
    blast

text \<open>
  The keys a verifier trusts are hashes of readable \<^verbatim>\<open>.pub\<close> files of its directory, at most the configured
  number of them; without the directory there is no verifier, and the default one trusts no key.
\<close>

lemma trusted_keys:
  assumes "TpmVerifier_new E P io f config = Ok trusted"
  shows "finite trusted" and "card trusted \<le> max_trusted_ak_keys (case config of Some c \<Rightarrow> c | None \<Rightarrow> TpmVerifierConfig_default)"
proof -
  let ?c = "case config of Some c \<Rightarrow> c | None \<Rightarrow> TpmVerifierConfig_default"
  obtain names where t: "trusted = set (List.map_filter (load_and_hash_key E P io f)
      (key_paths f (path_of (trusted_ak_keys_dir ?c)) (max_trusted_ak_keys ?c) names))"
    using assms by (auto simp: TpmVerifier_new_def Let_def outcome_iff)
  then show "finite trusted" by simp
  have "length (List.map_filter g xs) \<le> length xs" for g :: "path \<Rightarrow> bytes option" and xs
    by (simp add: map_filter_def)
  then have "card trusted \<le> length (key_paths f (path_of (trusted_ak_keys_dir ?c)) (max_trusted_ak_keys ?c) names)"
    unfolding t by (meson card_length le_trans)
  then show "card trusted \<le> max_trusted_ak_keys ?c" by (simp add: key_paths_def)
qed

lemma no_directory_trusts_nothing:
  assumes "\<not> exists_path f (path_of DEFAULT_TRUSTED_AK_KEYS_DIR)"
  shows "\<not> is_ok (TpmVerifier_new E P io f None)" and "TpmVerifier_default E P io f = {}"
  using assms by (auto simp: TpmVerifier_new_def TpmVerifier_default_def Let_def TpmVerifierConfig_default_def read_dir_def)

end
