(* ===== verification/Sgx.thy ===== *)
theory Sgx
  imports Tdx
begin

text \<open>
  The SGX verifier (\<^verbatim>\<open>deps/verifier/src/sgx\<close>: \<^verbatim>\<open>types.rs\<close>, \<^verbatim>\<open>claims.rs\<close>, \<^verbatim>\<open>mod.rs\<close>): the fixed part of a
  version 3 quote, its claims and the bindings of report data and CONFIGID. The quote is verified by the DCAP
  library of \<^verbatim>\<open>Intel_Dcap\<close>. The \<^verbatim>\<open>Display\<close> of a quote only prints it.
\<close>

section \<open>Quotes\<close>

definition SGX_QUOTE_SIZE :: nat where
  "SGX_QUOTE_SIZE = 436"

record sgx_quote_header_t =
  sh_version :: bytes
  sh_att_key_type :: bytes
  sh_att_key_data_0 :: bytes
  sh_qe_svn :: bytes
  sh_pce_svn :: bytes
  sh_vendor_id :: bytes
  sh_user_data :: bytes

record sgx_attributes_t =
  sa_flags :: bytes
  sa_xfrm :: bytes

record sgx_report_body_t =
  sb_cpu_svn :: bytes
  sb_misc_select :: bytes
  sb_reserved1 :: bytes
  sb_isv_ext_prod_id :: bytes
  sb_attributes :: sgx_attributes_t
  sb_mr_enclave :: bytes
  sb_reserved2 :: bytes
  sb_mr_signer :: bytes
  sb_reserved3 :: bytes
  sb_config_id :: bytes
  sb_isv_prod_id :: bytes
  sb_isv_svn :: bytes
  sb_config_svn :: bytes
  sb_reserved4 :: bytes
  sb_isv_family_id :: bytes
  sb_report_data :: bytes

record sgx_quote3_t =
  sq_header :: sgx_quote_header_t
  sq_report_body :: sgx_report_body_t
  sq_signature_data_len :: nat

definition sgx_header_sizes :: "nat list" where
  "sgx_header_sizes = [2, 2, 4, 2, 2, 16, 20]"

definition sgx_attributes_sizes :: "nat list" where
  "sgx_attributes_sizes = [8, 8]"

definition sgx_body_sizes :: "nat list" where
  "sgx_body_sizes = [16, 4, 12, 16] @ sgx_attributes_sizes @ [32, 32, 32, 32, 64, 2, 2, 2, 42, 16, 64]"

definition sgx_header_pread :: "crates \<Rightarrow> bytes \<Rightarrow> nat \<Rightarrow> sgx_quote_header_t option" where
  "sgx_header_pread E data i =
     (case gread_fields E sgx_header_sizes data i of
        Some [f0, f1, f2, f3, f4, f5, f6] \<Rightarrow>
          Some \<lparr>sh_version = f0, sh_att_key_type = f1, sh_att_key_data_0 = f2, sh_qe_svn = f3, sh_pce_svn = f4,
                sh_vendor_id = f5, sh_user_data = f6\<rparr>
      | _ \<Rightarrow> None)"

definition sgx_body_pread :: "crates \<Rightarrow> bytes \<Rightarrow> nat \<Rightarrow> sgx_report_body_t option" where
  "sgx_body_pread E data i =
     (case gread_fields E sgx_body_sizes data i of
        Some [f0, f1, f2, f3, f4, f5, f6, f7, f8, f9, f10, f11, f12, f13, f14, f15, f16] \<Rightarrow>
          Some \<lparr>sb_cpu_svn = f0, sb_misc_select = f1, sb_reserved1 = f2, sb_isv_ext_prod_id = f3,
                sb_attributes = \<lparr>sa_flags = f4, sa_xfrm = f5\<rparr>, sb_mr_enclave = f6, sb_reserved2 = f7,
                sb_mr_signer = f8, sb_reserved3 = f9, sb_config_id = f10, sb_isv_prod_id = f11, sb_isv_svn = f12,
                sb_config_svn = f13, sb_reserved4 = f14, sb_isv_family_id = f15, sb_report_data = f16\<rparr>
      | _ \<Rightarrow> None)"

definition sgx_quote_pread :: "crates \<Rightarrow> bytes \<Rightarrow> sgx_quote3_t option" where
  "sgx_quote_pread E data =
     Option.bind (sgx_header_pread E data 0) (\<lambda>h.
     Option.bind (sgx_body_pread E data 48) (\<lambda>b.
     Option.bind (pread E 4 data 432) (\<lambda>n.
       Some \<lparr>sq_header = h, sq_report_body = b, sq_signature_data_len = n\<rparr>)))"

text \<open>Slicing a shorter input panics.\<close>

definition parse_sgx_quote :: "crates \<Rightarrow> bytes \<Rightarrow> (anyhow, sgx_quote3_t) outcome" where
  "parse_sgx_quote E quote =
     and_then (slice quote 0 SGX_QUOTE_SIZE) (\<lambda>quote_body.
       ok_or [''Parse SGX quote failed''] (sgx_quote_pread E quote_body))"

section \<open>Claims\<close>

definition sgx_header_claims :: "crates \<Rightarrow> sgx_quote_header_t \<Rightarrow> json_map" where
  "sgx_header_claims E h =
     [parse_claim E ''version'' (sh_version h),
      parse_claim E ''att_key_type'' (sh_att_key_type h),
      parse_claim E ''att_key_data_0'' (sh_att_key_data_0 h),
      parse_claim E ''qe_svn'' (sh_qe_svn h),
      parse_claim E ''pce_svn'' (sh_pce_svn h),
      parse_claim E ''vendor_id'' (sh_vendor_id h),
      parse_claim E ''user_data'' (sh_user_data h)]"

definition sgx_body_claims :: "crates \<Rightarrow> sgx_report_body_t \<Rightarrow> json_map" where
  "sgx_body_claims E b =
     [parse_claim E ''cpu_svn'' (sb_cpu_svn b),
      parse_claim E ''misc_select'' (sb_misc_select b),
      parse_claim E ''reserved1'' (sb_reserved1 b),
      parse_claim E ''isv_ext_prod_id'' (sb_isv_ext_prod_id b),
      parse_claim E ''attributes.flags'' (sa_flags (sb_attributes b)),
      parse_claim E ''attributes.xfrm'' (sa_xfrm (sb_attributes b)),
      parse_claim E ''mr_enclave'' (sb_mr_enclave b),
      parse_claim E ''reserved2'' (sb_reserved2 b),
      parse_claim E ''mr_signer'' (sb_mr_signer b),
      parse_claim E ''reserved3'' (sb_reserved3 b),
      parse_claim E ''config_id'' (sb_config_id b),
      parse_claim E ''isv_prod_id'' (sb_isv_prod_id b),
      parse_claim E ''isv_svn'' (sb_isv_svn b),
      parse_claim E ''config_svn'' (sb_config_svn b),
      parse_claim E ''reserved4'' (sb_reserved4 b),
      parse_claim E ''isv_family_id'' (sb_isv_family_id b),
      parse_claim E ''report_data'' (sb_report_data b)]"

definition sgx_generate_parsed_claims :: "crates \<Rightarrow> sgx_quote3_t \<Rightarrow> TeeEvidenceParsedClaim" where
  "sgx_generate_parsed_claims E q =
     JObject
       [(''header'', JObject (sgx_header_claims E (sq_header q))),
        (''body'', JObject (sgx_body_claims E (sq_report_body q))),
        parse_claim E ''report_data'' (sb_report_data (sq_report_body q)),
        parse_claim E ''init_data'' (sb_config_id (sq_report_body q))]"

section \<open>Evaluation\<close>

record 'd sgx_env =
  sgx_crates :: crates
  sgx_vars :: verifier_env
  sgx_dcap :: "'d dcap_lib"
  sgx_now :: int
  sgx_from_value :: "json \<Rightarrow> (string, string) outcome"

definition sgx_check_data :: "sgx_report_body_t \<Rightarrow> ReportData \<Rightarrow> InitDataHash \<Rightarrow> (anyhow, unit) outcome" where
  "sgx_check_data b expected_report_data expected_init_data_hash =
     and_then (case expected_report_data of
                 ReportValue expected \<Rightarrow>
                   if regularize_data expected 64 \<noteq> sb_report_data b
                   then bail ''REPORT_DATA is different from that in SGX Quote'' else Ok ()
               | ReportNotProvided \<Rightarrow> Ok ()) (\<lambda>_.
       case expected_init_data_hash of
         InitValue expected \<Rightarrow>
           if regularize_data expected 64 \<noteq> sb_config_id b
           then bail ''CONFIGID is different from that in SGX Quote'' else Ok ()
       | InitNotProvided \<Rightarrow> Ok ())"

definition sgx_verify_evidence ::
    "'d sgx_env \<Rightarrow> ReportData \<Rightarrow> InitDataHash \<Rightarrow> string \<Rightarrow> (anyhow, TeeEvidenceParsedClaim) outcome" where
  "sgx_verify_evidence S expected_report_data expected_init_data_hash quote =
     (if quote = [] then bail ''SGX Quote is empty.''
      else
        and_then (lib_error (b64_decode_std (sgx_vars S) quote)) (\<lambda>quote_bin.
        and_then (with_context ''Evidence's identity verification error.''
            (ecdsa_quote_verification (sgx_crates S) (sgx_dcap S) (sgx_now S) quote_bin)) (\<lambda>custom_claims.
        and_then (parse_sgx_quote (sgx_crates S) quote_bin) (\<lambda>q.
        and_then (sgx_check_data (sq_report_body q) expected_report_data expected_init_data_hash) (\<lambda>_.
          extend_using_custom_claims (sgx_generate_parsed_claims (sgx_crates S) q) custom_claims)))))"

definition Sgx_evaluate :: "'d sgx_env \<Rightarrow> TeeEvidence \<Rightarrow> ReportData \<Rightarrow> InitDataHash \<Rightarrow> verdict" where
  "Sgx_evaluate S evidence expected_report_data expected_init_data_hash =
     and_then (with_context ''Deserialize Quote failed.'' (lib_error (sgx_from_value S evidence))) (\<lambda>quote.
     and_then (map_err (\<lambda>e. [''SGX Verifier: '' @ concat e])
         (sgx_verify_evidence S expected_report_data expected_init_data_hash quote)) (\<lambda>claims.
       Ok [(claims, ''cpu'')]))"

definition SgxVerifier :: "'d sgx_env \<Rightarrow> Verifier" where
  "SgxVerifier S =
     \<lparr>v_evaluate = Sgx_evaluate S, v_generate_supplemental_challenge = default_supplemental_challenge\<rparr>"

section \<open>The layout of a quote\<close>

definition sgx_header_fields :: "sgx_quote_header_t \<Rightarrow> bytes list" where
  "sgx_header_fields h =
     [sh_version h, sh_att_key_type h, sh_att_key_data_0 h, sh_qe_svn h, sh_pce_svn h, sh_vendor_id h, sh_user_data h]"

definition sgx_body_fields :: "sgx_report_body_t \<Rightarrow> bytes list" where
  "sgx_body_fields b =
     [sb_cpu_svn b, sb_misc_select b, sb_reserved1 b, sb_isv_ext_prod_id b, sa_flags (sb_attributes b),
      sa_xfrm (sb_attributes b), sb_mr_enclave b, sb_reserved2 b, sb_mr_signer b, sb_reserved3 b, sb_config_id b,
      sb_isv_prod_id b, sb_isv_svn b, sb_config_svn b, sb_reserved4 b, sb_isv_family_id b, sb_report_data b]"

definition sgx_quote_ok :: "sgx_quote3_t \<Rightarrow> bool" where
  "sgx_quote_ok q \<longleftrightarrow>
     map length (sgx_header_fields (sq_header q)) = sgx_header_sizes \<and>
     map length (sgx_body_fields (sq_report_body q)) = sgx_body_sizes \<and> sq_signature_data_len q < 2 ^ 32"

definition encode_sgx_quote :: "sgx_quote3_t \<Rightarrow> bytes" where
  "encode_sgx_quote q =
     concat (sgx_header_fields (sq_header q)) @ concat (sgx_body_fields (sq_report_body q)) @
     le_bytes 4 (sq_signature_data_len q)"

lemma sgx_header_pread_iff:
  "sgx_header_pread E data i = Some h \<longleftrightarrow> gread_fields E sgx_header_sizes data i = Some (sgx_header_fields h)"
  by (cases h) (auto simp: sgx_header_pread_def sgx_header_fields_def split: option.splits list.splits)

lemma sgx_body_pread_iff:
  "sgx_body_pread E data i = Some b \<longleftrightarrow> gread_fields E sgx_body_sizes data i = Some (sgx_body_fields b)"
proof -
  have "b = \<lparr>sb_cpu_svn = sb_cpu_svn b, sb_misc_select = sb_misc_select b, sb_reserved1 = sb_reserved1 b,
      sb_isv_ext_prod_id = sb_isv_ext_prod_id b,
      sb_attributes = \<lparr>sa_flags = sa_flags (sb_attributes b), sa_xfrm = sa_xfrm (sb_attributes b)\<rparr>,
      sb_mr_enclave = sb_mr_enclave b, sb_reserved2 = sb_reserved2 b, sb_mr_signer = sb_mr_signer b,
      sb_reserved3 = sb_reserved3 b, sb_config_id = sb_config_id b, sb_isv_prod_id = sb_isv_prod_id b,
      sb_isv_svn = sb_isv_svn b, sb_config_svn = sb_config_svn b, sb_reserved4 = sb_reserved4 b,
      sb_isv_family_id = sb_isv_family_id b, sb_report_data = sb_report_data b\<rparr>" by simp
  then show ?thesis
    unfolding sgx_body_pread_def sgx_body_fields_def
    by (auto split: option.splits list.splits)
qed

lemma sgx_sizes:
  "list_all (\<lambda>n. 0 < n) sgx_header_sizes" "sgx_header_sizes \<noteq> []" "sum_list sgx_header_sizes = 48"
  "list_all (\<lambda>n. 0 < n) sgx_body_sizes" "sgx_body_sizes \<noteq> []" "sum_list sgx_body_sizes = 384"
  by (simp_all add: sgx_header_sizes_def sgx_body_sizes_def sgx_attributes_sizes_def)

lemma sgx_concat_lengths:
  "map length fs = sgx_header_sizes \<Longrightarrow> length (concat fs) = 48"
  "map length fs = sgx_body_sizes \<Longrightarrow> length (concat fs) = 384"
  using length_concat_fields [of fs] sgx_sizes by metis+

lemma sgx_lengths:
  assumes "sgx_quote_ok q"
  shows "length (concat (sgx_header_fields (sq_header q))) = 48"
    and "length (concat (sgx_body_fields (sq_report_body q))) = 384" and "length (encode_sgx_quote q) = 436"
proof -
  show h: "length (concat (sgx_header_fields (sq_header q))) = 48"
    using assms sgx_concat_lengths(1) unfolding sgx_quote_ok_def by blast
  show b: "length (concat (sgx_body_fields (sq_report_body q))) = 384"
    using assms sgx_concat_lengths(2) unfolding sgx_quote_ok_def by blast
  show "length (encode_sgx_quote q) = 436" by (simp add: encode_sgx_quote_def h b)
qed

lemma sgx_pread_iff:
  assumes "scroll_le E" and "length bs = 436"
  shows "sgx_quote_pread E bs = Some q \<longleftrightarrow> sgx_quote_ok q \<and> bs = encode_sgx_quote q"
proof -
  let ?h = "concat (sgx_header_fields (sq_header q))" and ?b = "concat (sgx_body_fields (sq_report_body q))"
  let ?n = "sq_signature_data_len q"
  have "sgx_quote_pread E bs = Some q \<longleftrightarrow> sgx_header_pread E bs 0 = Some (sq_header q) \<and>
      sgx_body_pread E bs 48 = Some (sq_report_body q) \<and> pread E 4 bs 432 = Some ?n"
    by (cases q) (auto simp: sgx_quote_pread_def bind_eq_Some_conv)
  also have "\<dots> \<longleftrightarrow> (map length (sgx_header_fields (sq_header q)) = sgx_header_sizes \<and> (\<exists>r. bs = ?h @ r)) \<and>
      (map length (sgx_body_fields (sq_report_body q)) = sgx_body_sizes \<and> (\<exists>r. drop 48 bs = ?b @ r)) \<and>
      ?n = le_nat (drop 432 bs)"
    using gread_fields_iff [OF assms(1) sgx_sizes(1,2), of 0 bs] gread_fields_iff [OF assms(1) sgx_sizes(4,5), of 48 bs]
      assms pread_Some_iff [OF assms(1), of 4 bs 432]
    by (simp add: sgx_header_pread_iff sgx_body_pread_iff)
  also have "\<dots> \<longleftrightarrow> sgx_quote_ok q \<and> bs = encode_sgx_quote q"
  proof
    assume l: "(map length (sgx_header_fields (sq_header q)) = sgx_header_sizes \<and> (\<exists>r. bs = ?h @ r)) \<and>
      (map length (sgx_body_fields (sq_report_body q)) = sgx_body_sizes \<and> (\<exists>r. drop 48 bs = ?b @ r)) \<and>
      ?n = le_nat (drop 432 bs)"
    then have lens: "length ?h = 48" "length ?b = 384"
      using sgx_concat_lengths by blast+
    from l lens have parts: "take 48 bs = ?h" "take 384 (drop 48 bs) = ?b" by auto
    have "drop 432 bs = drop 384 (drop 48 bs)" by simp
    then have "bs = ?h @ ?b @ drop 432 bs"
      using append_take_drop_id [of 48 bs] append_take_drop_id [of 384 "drop 48 bs"] parts by simp
    moreover have "le_bytes 4 (le_nat (drop 432 bs)) = drop 432 bs" "le_nat (drop 432 bs) < 2 ^ 32"
      using le_bytes_le_nat [of "drop 432 bs"] le_nat_less [of "drop 432 bs"] assms(2) by simp_all
    ultimately show "sgx_quote_ok q \<and> bs = encode_sgx_quote q"
      using l by (simp add: sgx_quote_ok_def encode_sgx_quote_def)
  next
    assume r: "sgx_quote_ok q \<and> bs = encode_sgx_quote q"
    then have bs: "bs = ?h @ ?b @ le_bytes 4 ?n" by (simp add: encode_sgx_quote_def)
    have lens: "length ?h = 48" "length ?b = 384" using r sgx_lengths by blast+
    then have "drop 48 bs = ?b @ le_bytes 4 ?n" "drop 432 bs = le_bytes 4 ?n" by (simp_all add: bs)
    moreover have "le_nat (le_bytes 4 ?n) = ?n"
      using r by (intro le_nat_le_bytes_id) (simp add: sgx_quote_ok_def)
    moreover have "\<exists>r. bs = ?h @ r" using bs by blast
    ultimately show "(map length (sgx_header_fields (sq_header q)) = sgx_header_sizes \<and> (\<exists>r. bs = ?h @ r)) \<and>
      (map length (sgx_body_fields (sq_report_body q)) = sgx_body_sizes \<and> (\<exists>r. drop 48 bs = ?b @ r)) \<and>
      ?n = le_nat (drop 432 bs)"
      using r by (simp add: sgx_quote_ok_def)
  qed
  finally show ?thesis .
qed

lemma parse_sgx_quote_iff:
  assumes "scroll_le E"
  shows "parse_sgx_quote E bs = Ok q \<longleftrightarrow> sgx_quote_ok q \<and> (\<exists>rest. bs = encode_sgx_quote q @ rest)"
proof (cases "436 \<le> length bs")
  case True
  then have "parse_sgx_quote E bs = Ok q \<longleftrightarrow> sgx_quote_ok q \<and> take 436 bs = encode_sgx_quote q"
    using sgx_pread_iff [OF assms, of "take 436 bs" q]
    by (simp add: parse_sgx_quote_def slice_def range_ok_def SGX_QUOTE_SIZE_def outcome_iff)
  also have "\<dots> \<longleftrightarrow> sgx_quote_ok q \<and> (\<exists>rest. bs = encode_sgx_quote q @ rest)"
    using sgx_lengths(3) [of q] append_take_drop_id [of 436 bs] by (metis append_eq_conv_conj)
  finally show ?thesis .
next
  case False
  then show ?thesis
    using sgx_lengths(3) [of q] by (auto simp: parse_sgx_quote_def slice_def range_ok_def SGX_QUOTE_SIZE_def)
qed

lemma parse_sgx_quote_panic: "parse_sgx_quote E bs = Panic \<longleftrightarrow> length bs < 436"
  by (auto simp: parse_sgx_quote_def slice_def range_ok_def SGX_QUOTE_SIZE_def outcome_iff)

section \<open>What acceptance means\<close>

definition sgx_bound :: "sgx_report_body_t \<Rightarrow> ReportData \<Rightarrow> InitDataHash \<Rightarrow> bool" where
  "sgx_bound b rdo iho \<longleftrightarrow>
     (\<forall>rd. rdo = ReportValue rd \<longrightarrow> sb_report_data b = regularize_data rd 64) \<and>
     (\<forall>ih. iho = InitValue ih \<longrightarrow> sb_config_id b = regularize_data ih 64)"

lemma sgx_check_data_iff [outcome_iff]: "sgx_check_data b rdo iho = Ok u \<longleftrightarrow> sgx_bound b rdo iho"
  by (auto simp: sgx_check_data_def sgx_bound_def outcome_iff split: ReportData.splits InitDataHash.splits if_splits)

definition sgx_carries :: "'d sgx_env \<Rightarrow> TeeEvidence \<Rightarrow> json_map \<Rightarrow> sgx_quote3_t \<Rightarrow> bool" where
  "sgx_carries S ev custom q \<longleftrightarrow>
     (\<exists>quote bin. sgx_from_value S ev = Ok quote \<and> quote \<noteq> [] \<and> b64_decode_std (sgx_vars S) quote = Ok bin \<and>
        ecdsa_quote_verification (sgx_crates S) (sgx_dcap S) (sgx_now S) bin = Ok custom \<and>
        parse_sgx_quote (sgx_crates S) bin = Ok q)"

definition sgx_claims :: "crates \<Rightarrow> sgx_quote3_t \<Rightarrow> json_map \<Rightarrow> json_map" where
  "sgx_claims E q custom =
     json_extend
       [(''header'', JObject (sgx_header_claims E (sq_header q))),
        (''body'', JObject (sgx_body_claims E (sq_report_body q))),
        parse_claim E ''report_data'' (sb_report_data (sq_report_body q)),
        parse_claim E ''init_data'' (sb_config_id (sq_report_body q))] custom"

lemma Sgx_evaluate_iff:
  "Sgx_evaluate S ev rdo iho = Ok cs \<longleftrightarrow>
     (\<exists>custom q. sgx_carries S ev custom q \<and> sgx_bound (sq_report_body q) rdo iho \<and>
        cs = [(JObject (sgx_claims (sgx_crates S) q custom), ''cpu'')])"
proof -
  have ext: "extend_using_custom_claims (sgx_generate_parsed_claims E q) custom = Ok c \<longleftrightarrow>
      c = JObject (sgx_claims E q custom)" for E q custom c
    by (auto simp: extend_using_custom_claims_def sgx_generate_parsed_claims_def sgx_claims_def)
  have split: "(if b then bail m else r) = Ok y \<longleftrightarrow> \<not> b \<and> r = Ok y" for b m r and y :: json
    by (simp add: bail_def)
  have err: "map_err g r = Ok y \<longleftrightarrow> r = Ok y" for g :: "anyhow \<Rightarrow> anyhow" and r and y :: json
    by (cases r) simp_all
  show ?thesis
    unfolding Sgx_evaluate_def sgx_verify_evidence_def sgx_carries_def and_then_Ok_iff with_context_iff lib_error_iff
      err split ext sgx_check_data_iff
    by (safe; simp; blast)
qed

interpretation sgx: bound_verifier "SgxVerifier S"
  "\<lambda>ev rd. \<exists>custom q. sgx_carries S ev custom q \<and> sb_report_data (sq_report_body q) = regularize_data rd 64"
  "\<lambda>ev ih. \<exists>custom q. sgx_carries S ev custom q \<and> sb_config_id (sq_report_body q) = regularize_data ih 64"
  by unfold_locales (auto simp: SgxVerifier_def Sgx_evaluate_iff sgx_bound_def)

section \<open>Properties\<close>


definition zero_sgx_quote :: sgx_quote3_t where
  "zero_sgx_quote =
     \<lparr>sq_header = \<lparr>sh_version = [3, 0], sh_att_key_type = [2, 0], sh_att_key_data_0 = replicate 4 0,
        sh_qe_svn = [8, 0], sh_pce_svn = [13, 0], sh_vendor_id = replicate 16 0, sh_user_data = replicate 20 0\<rparr>,
      sq_report_body = \<lparr>sb_cpu_svn = replicate 16 0, sb_misc_select = replicate 4 0, sb_reserved1 = replicate 12 0,
        sb_isv_ext_prod_id = replicate 16 0, sb_attributes = \<lparr>sa_flags = replicate 8 0, sa_xfrm = replicate 8 0\<rparr>,
        sb_mr_enclave = replicate 32 1, sb_reserved2 = replicate 32 0, sb_mr_signer = replicate 32 2,
        sb_reserved3 = replicate 32 0, sb_config_id = replicate 64 0, sb_isv_prod_id = [0, 0], sb_isv_svn = [0, 0],
        sb_config_svn = [0, 0], sb_reserved4 = replicate 42 0, sb_isv_family_id = replicate 16 0,
        sb_report_data = replicate 64 5\<rparr>,
      sq_signature_data_len = 4600\<rparr>"


end
