(* ===== verification/Csv.thy ===== *)
theory Csv
  imports Eventlog Filesystem Verifier
begin

text \<open>
  The verifiers of the Hygon platforms: CSV guests (\<^verbatim>\<open>deps/verifier/src/csv/mod.rs\<close>) and DCU accelerators
  (\<^verbatim>\<open>deps/verifier/src/hygon_dcu/mod.rs\<close>). The reports, the certificates and their signatures are those of the
  \<^verbatim>\<open>csv_rs\<close> package, a parameter, as are the root certificate that is compiled in and the key distribution
  service. The position of an invalid byte is left out of the error of a serial number that is not UTF-8. A
  certificate of the authority has type \<open>'a\<close>, one of the platform \<open>'b\<close>.
\<close>

section \<open>Reports\<close>

text \<open>The bits of a policy, as the JSON values its accessors are serialised to.\<close>

record CsvPolicy =
  csv_nodbg :: json
  csv_noks :: json
  csv_es :: json
  csv_nosend :: json
  csv_domain :: json
  csv_csv :: json
  csv_csv3 :: json
  csv_asid_reuse :: json
  csv_hsk_version :: json
  csv_cek_version :: json
  csv_api_major :: json
  csv_api_minor :: json

record CsvTeeInfo =
  csv_policy :: CsvPolicy
  csv_user_pubkey_digest :: bytes
  csv_vm_id :: bytes
  csv_vm_version :: bytes
  csv_report_data :: bytes
  csv_mnonce :: bytes
  csv_measure :: bytes
  csv_sig_usage_le :: bytes
  csv_sig_algo_le :: bytes

record CsvV2Info =
  csv_build :: json
  csv_rtmr_version :: json
  csv_reserved0 :: bytes
  csv_rtmr0 :: bytes
  csv_rtmr1 :: bytes
  csv_rtmr2 :: bytes
  csv_rtmr3 :: bytes
  csv_rtmr4 :: bytes
  csv_reserved1 :: bytes

text \<open>A version 1 report has the value its policy is masked with, in little-endian bytes.\<close>

datatype CsvReport = CsvReportV1 CsvTeeInfo bytes | CsvReportV2 CsvTeeInfo CsvV2Info

fun csv_tee_info :: "CsvReport \<Rightarrow> CsvTeeInfo" where
  "csv_tee_info (CsvReportV1 t _) = t"
| "csv_tee_info (CsvReportV2 t _) = t"

record ('w, 'a, 'b) CsvEvidence =
  csv_attestation_report :: 'w
  csv_hsk_cek :: "('a \<times> 'b) option"
  csv_pek :: 'b
  csv_serial_number :: bytes
  csv_cc_eventlog :: "string option"

record ('w, 'a, 'b) csv_lib =
  csv_from_value :: "json \<Rightarrow> (string, ('w, 'a, 'b) CsvEvidence) outcome"
  csv_report_try_from :: "'w \<Rightarrow> (string, CsvReport) outcome"
  policy_xor :: "CsvPolicy \<Rightarrow> bytes \<Rightarrow> CsvPolicy"
  HRK :: bytes
  ca_decode :: "bytes \<Rightarrow> (string, 'a \<times> bytes) outcome"
  csv_decode :: "bytes \<Rightarrow> (string, 'b \<times> bytes) outcome"
  ca_verifies_ca :: "'a \<Rightarrow> 'a \<Rightarrow> (string, unit) outcome"
  ca_verifies_csv :: "'a \<Rightarrow> 'b \<Rightarrow> (string, unit) outcome"
  csv_verifies_csv :: "'b \<Rightarrow> 'b \<Rightarrow> (string, unit) outcome"
  csv_verifies_report :: "'b \<Rightarrow> CsvTeeInfo \<Rightarrow> (string, unit) outcome"
  csv_kds_get :: "string \<Rightarrow> (string, nat \<times> (string, bytes) outcome) outcome"
  csv_b64_decode :: "string \<Rightarrow> (string, bytes) outcome"
  csv_log_to_value :: "EventlogEntry list \<Rightarrow> (string, json) outcome"

section \<open>Certificates\<close>

definition DEFAULT_CSV_CERT_DIR :: string where
  "DEFAULT_CSV_CERT_DIR = ''/opt/hygon/csv''"

definition try_load_hskcek_offline :: "io_env \<Rightarrow> fs \<Rightarrow> string \<Rightarrow> bytes option" where
  "try_load_hskcek_offline io f chip_id =
     (case read_file io f (path_of (DEFAULT_CSV_CERT_DIR @ ''/hsk_cek/'' @ chip_id @ ''/hsk_cek.cert'')) of
        Ok b \<Rightarrow> Some b | _ \<Rightarrow> None)"

definition download_hskcek_from_kds :: "('w, 'a, 'b) csv_lib \<Rightarrow> string \<Rightarrow> (anyhow, bytes) outcome" where
  "download_hskcek_from_kds L chip_id =
     and_then (with_context ''Unable to send request for HSK_CEK''
         (lib_error (csv_kds_get L (''https://cert.hygon.cn/hsk_cek?snumber='' @ chip_id)))) (\<lambda>(status, body).
       if status = 200 then with_context ''Unable to parse HSK_CEK'' (lib_error body)
       else bail (''Unable to fetch HSK_CEK from URL: '' @ fmt_dec status))"

text \<open>The error of a failed check holds the text of the failure.\<close>

definition csv_check :: "string \<Rightarrow> (string, unit) outcome \<Rightarrow> (anyhow, unit) outcome" where
  "csv_check what r = map_err (\<lambda>e. [what @ '' failed: '' @ e]) r"

definition csv_verify_report_signature ::
    "('w, 'a, 'b) csv_lib \<Rightarrow> CsvReport \<Rightarrow> 'a \<Rightarrow> 'b \<Rightarrow> 'b \<Rightarrow> (anyhow, unit) outcome" where
  "csv_verify_report_signature L report hsk cek pek =
     and_then (map_err (\<lambda>_. [''IO error'']) (ca_decode L (HRK L))) (\<lambda>(hrk, _).
     and_then (csv_check ''HRK cert Signature verification'' (ca_verifies_ca L hrk hrk)) (\<lambda>_.
     and_then (csv_check ''HSK cert Signature validation'' (ca_verifies_ca L hrk hsk)) (\<lambda>_.
     and_then (csv_check ''CEK cert Signature validation'' (ca_verifies_csv L hsk cek)) (\<lambda>_.
     and_then (csv_check ''PEK cert Signature validation'' (csv_verifies_csv L cek pek)) (\<lambda>_.
       csv_check ''Attestation Report Signature validation'' (csv_verifies_report L pek (csv_tee_info report)))))))"

definition csv_load_certs ::
    "('w, 'a, 'b) csv_lib \<Rightarrow> io_env \<Rightarrow> fs \<Rightarrow> string \<Rightarrow> ('a \<times> 'b) option \<Rightarrow> (anyhow, 'a \<times> 'b) outcome" where
  "csv_load_certs L io f chip_id hsk_cek =
     (case hsk_cek of
        Some certs \<Rightarrow> Ok certs
      | None \<Rightarrow>
          and_then (case try_load_hskcek_offline io f chip_id of
                      Some cert_data \<Rightarrow> Ok cert_data
                    | None \<Rightarrow> download_hskcek_from_kds L chip_id) (\<lambda>cert_data.
          and_then (lib_error (ca_decode L cert_data)) (\<lambda>(hsk, rest).
          and_then (lib_error (csv_decode L rest)) (\<lambda>(cek, _). Ok (hsk, cek)))))"

section \<open>Claims\<close>

definition csv_policy_claims :: "CsvPolicy \<Rightarrow> json" where
  "csv_policy_claims p =
     JObject
       [(''nodbg'', csv_nodbg p), (''noks'', csv_noks p), (''es'', csv_es p), (''nosend'', csv_nosend p),
        (''domain'', csv_domain p), (''csv'', csv_csv p), (''csv3'', csv_csv3 p),
        (''asid_reuse'', csv_asid_reuse p), (''hsk_version'', csv_hsk_version p),
        (''cek_version'', csv_cek_version p), (''api_major'', csv_api_major p), (''api_minor'', csv_api_minor p)]"

definition csv_common_claims :: "crates \<Rightarrow> string \<Rightarrow> CsvPolicy \<Rightarrow> CsvTeeInfo \<Rightarrow> json_map" where
  "csv_common_claims E version p t =
     [(''version'', JString version), (''policy'', csv_policy_claims p),
      (''user_pubkey_digest'', JString (hex_encode E (csv_user_pubkey_digest t))),
      (''vm_id'', JString (hex_encode E (csv_vm_id t))),
      (''vm_version'', JString (hex_encode E (csv_vm_version t))),
      (''report_data'', JString (hex_encode E (csv_report_data t))),
      (''mnonce'', JString (hex_encode E (csv_mnonce t))),
      (''measure'', JString (hex_encode E (csv_measure t))),
      (''sig_usage'', JString (hex_encode E (csv_sig_usage_le t))),
      (''sig_algo'', JString (hex_encode E (csv_sig_algo_le t)))]"

definition csv_v1_claims :: "crates \<Rightarrow> ('w, 'a, 'b) csv_lib \<Rightarrow> CsvTeeInfo \<Rightarrow> bytes \<Rightarrow> string \<Rightarrow> json_map" where
  "csv_v1_claims E L t anonce serial =
     csv_common_claims E ''1'' (policy_xor L (csv_policy t) anonce) t @
     [(''anonce'', JString (hex_encode E anonce)), (''serial_number'', JString serial)]"

definition csv_v2_claims :: "crates \<Rightarrow> CsvTeeInfo \<Rightarrow> CsvV2Info \<Rightarrow> string \<Rightarrow> json_map" where
  "csv_v2_claims E t x serial =
     csv_common_claims E ''2'' (csv_policy t) t @
     [(''build'', csv_build x), (''rtmr_version'', csv_rtmr_version x),
      (''reserved0'', JString (hex_encode E (csv_reserved0 x))),
      (''rtmr0'', JString (hex_encode E (csv_rtmr0 x))), (''rtmr1'', JString (hex_encode E (csv_rtmr1 x))),
      (''rtmr2'', JString (hex_encode E (csv_rtmr2 x))), (''rtmr3'', JString (hex_encode E (csv_rtmr3 x))),
      (''rtmr4'', JString (hex_encode E (csv_rtmr4 x))),
      (''reserved1'', JString (hex_encode E (csv_reserved1 x))), (''serial_number'', JString serial)]"

section \<open>Evaluation\<close>

definition csv_compare_obj :: "CsvV2Info \<Rightarrow> ReferenceMeasurement list" where
  "csv_compare_obj x =
     [\<lparr>rm_index = 1, algorithm = Sm3, reference = csv_rtmr1 x\<rparr>,
      \<lparr>rm_index = 2, algorithm = Sm3, reference = csv_rtmr2 x\<rparr>,
      \<lparr>rm_index = 3, algorithm = Sm3, reference = csv_rtmr3 x\<rparr>,
      \<lparr>rm_index = 4, algorithm = Sm3, reference = csv_rtmr4 x\<rparr>]"

definition csv_replay_error :: "replay_error \<Rightarrow> anyhow" where
  "csv_replay_error e = (case e of ReplayFailed m \<Rightarrow> [m] | RegisterMismatch i c r \<Rightarrow> [''RTMR mismatch''])"

definition csv_eventlog_claims ::
    "crates \<Rightarrow> ('w, 'a, 'b) csv_lib \<Rightarrow> bool \<Rightarrow> CsvV2Info \<Rightarrow> string option \<Rightarrow> json_map \<Rightarrow> (anyhow, json_map) outcome" where
  "csv_eventlog_claims E L chk x cc_eventlog claims =
     (case cc_eventlog of
        None \<Rightarrow> Ok claims
      | Some el \<Rightarrow>
          and_then (lib_error (csv_b64_decode L el)) (\<lambda>ccel_data.
          and_then (map_err (\<lambda>e. [''Parse CC Eventlog failed: '' @ e]) (CcEventLog_try_from E chk ccel_data)) (\<lambda>ccel.
          and_then (map_err csv_replay_error (replay_and_match E ccel (csv_compare_obj x))) (\<lambda>_.
          and_then (lib_error (csv_log_to_value L (log ccel))) (\<lambda>v.
            Ok (json_insert ''uefi_event_logs'' v claims))))))"

definition csv_check_report_data :: "CsvReport \<Rightarrow> ReportData \<Rightarrow> (anyhow, unit) outcome" where
  "csv_check_report_data report expected_report_data =
     (case expected_report_data of
        ReportValue expected \<Rightarrow>
          if regularize_data expected 64 \<noteq> csv_report_data (csv_tee_info report)
          then bail ''REPORT_DATA is different from that in CSV Quote'' else Ok ()
      | ReportNotProvided \<Rightarrow> Ok ())"

record ('w, 'a, 'b) csv_env =
  csv_crates :: crates
  csv_pkg :: "('w, 'a, 'b) csv_lib"
  csv_chk :: bool
  csv_io :: io_env
  csv_fs :: fs

definition Csv_evaluate ::
    "('w, 'a, 'b) csv_env \<Rightarrow> TeeEvidence \<Rightarrow> ReportData \<Rightarrow> InitDataHash \<Rightarrow> verdict" where
  "Csv_evaluate W evidence expected_report_data expected_init_data_hash =
     (let L = csv_pkg W; E = csv_crates W in
      and_then (with_context ''Deserialize Quote failed.'' (lib_error (csv_from_value L evidence))) (\<lambda>ev.
      and_then (lib_error (csv_report_try_from L (csv_attestation_report ev))) (\<lambda>report.
      and_then (ok_or [''invalid utf-8''] (from_utf8 (csv_serial_number ev))) (\<lambda>serial.
      let chip_id = trim_end_matches (CHR 0x00) serial in
      and_then (csv_load_certs L (csv_io W) (csv_fs W) chip_id (csv_hsk_cek ev)) (\<lambda>(hsk, cek).
      and_then (csv_verify_report_signature L report hsk cek (csv_pek ev)) (\<lambda>_.
      and_then (csv_check_report_data report expected_report_data) (\<lambda>_.
        case report of
          CsvReportV1 t anonce \<Rightarrow> Ok [(JObject (csv_v1_claims E L t anonce chip_id), ''cpu'')]
        | CsvReportV2 t x \<Rightarrow>
            and_then (csv_eventlog_claims E L (csv_chk W) x (csv_cc_eventlog ev) (csv_v2_claims E t x chip_id)) (\<lambda>claims.
              Ok [(JObject claims, ''cpu'')]))))))))"

definition CsvVerifier :: "('w, 'a, 'b) csv_env \<Rightarrow> Verifier" where
  "CsvVerifier W =
     \<lparr>v_evaluate = Csv_evaluate W, v_generate_supplemental_challenge = default_supplemental_challenge\<rparr>"

section \<open>Accelerators\<close>

record DcuReport =
  dcu_version :: json
  dcu_chip_id :: bytes
  dcu_user_data :: bytes
  dcu_measure :: bytes
  dcu_reserved :: bytes
  dcu_sig_usage :: nat
  dcu_sig_algo :: nat

record dcu_lib =
  dcu_from_value :: "json \<Rightarrow> (string, DcuReport list) outcome"
  verify_reports :: "DcuReport list \<Rightarrow> bytes \<Rightarrow> (string, unit) outcome"

definition HYGON_DCU_TEE_CLASS :: string where
  "HYGON_DCU_TEE_CLASS = ''dcu''"

definition dcu_report_claims :: "crates \<Rightarrow> DcuReport \<Rightarrow> json" where
  "dcu_report_claims E r =
     JObject
       [(''body'', JObject
          [(''version'', dcu_version r), (''chip_id'', JString (hex_encode E (dcu_chip_id r))),
           (''user_data'', JString (hex_encode E (dcu_user_data r))),
           (''measure'', JString (hex_encode E (dcu_measure r))),
           (''reserved'', JString (hex_encode E (dcu_reserved r))),
           (''sig_usage'', JString (fmt_hex False 0 (dcu_sig_usage r))),
           (''sig_algo'', JString (fmt_hex False 0 (dcu_sig_algo r)))]),
        (''report_data'', JString (hex_encode E (dcu_user_data r)))]"

definition dcu_parse_tee_evidence :: "crates \<Rightarrow> DcuReport list \<Rightarrow> TeeEvidenceParsedClaim" where
  "dcu_parse_tee_evidence E reports =
     JObject (foldl (\<lambda>m (i, r). json_insert (fmt_dec i) (dcu_report_claims E r) m) [] (enumerate 0 reports))"

definition HygonDcu_evaluate ::
    "crates \<Rightarrow> dcu_lib \<Rightarrow> TeeEvidence \<Rightarrow> ReportData \<Rightarrow> InitDataHash \<Rightarrow> verdict" where
  "HygonDcu_evaluate E L evidence expected_report_data expected_init_data_hash =
     and_then (lib_error (dcu_from_value L evidence)) (\<lambda>reports.
     and_then (case expected_report_data of
                 ReportValue expected \<Rightarrow> Ok (regularize_data expected 64)
               | ReportNotProvided \<Rightarrow> bail ''DCU must check report data'') (\<lambda>user_data.
     and_then (lib_error (verify_reports L reports user_data)) (\<lambda>_.
       Ok [(dcu_parse_tee_evidence E reports, ''dcu'')])))"

definition HygonDcuVerifier :: "crates \<Rightarrow> dcu_lib \<Rightarrow> Verifier" where
  "HygonDcuVerifier E L =
     \<lparr>v_evaluate = HygonDcu_evaluate E L, v_generate_supplemental_challenge = default_supplemental_challenge\<rparr>"

interpretation hygon_dcu: report_verifier "HygonDcuVerifier E L"
  "\<lambda>ev rd. \<exists>reports. dcu_from_value L ev = Ok reports \<and> verify_reports L reports (regularize_data rd 64) = Ok ()"
  by unfold_locales (auto simp: HygonDcuVerifier_def HygonDcu_evaluate_def outcome_iff split: ReportData.splits)

section \<open>What acceptance means\<close>

text \<open>The report is signed at the end of a chain of certificates that starts at the compiled-in root.\<close>

definition csv_chain_ok :: "('w, 'a, 'b) csv_lib \<Rightarrow> 'a \<Rightarrow> 'b \<Rightarrow> 'b \<Rightarrow> CsvTeeInfo \<Rightarrow> bool" where
  "csv_chain_ok L hsk cek pek t \<longleftrightarrow>
     (\<exists>hrk rest. ca_decode L (HRK L) = Ok (hrk, rest) \<and> ca_verifies_ca L hrk hrk = Ok () \<and>
        ca_verifies_ca L hrk hsk = Ok () \<and> ca_verifies_csv L hsk cek = Ok () \<and>
        csv_verifies_csv L cek pek = Ok () \<and> csv_verifies_report L pek t = Ok ())"

lemma csv_check_iff [outcome_iff]: "csv_check m r = Ok u \<longleftrightarrow> r = Ok ()"
  by (cases r) (simp_all add: csv_check_def)

lemma csv_signature_iff [outcome_iff]:
  "csv_verify_report_signature L report hsk cek pek = Ok u \<longleftrightarrow> csv_chain_ok L hsk cek pek (csv_tee_info report)"
  by (auto simp: csv_verify_report_signature_def csv_chain_ok_def outcome_iff split: prod.splits)

definition csv_report_bound :: "CsvReport \<Rightarrow> ReportData \<Rightarrow> bool" where
  "csv_report_bound report rdo \<longleftrightarrow>
     (\<forall>rd. rdo = ReportValue rd \<longrightarrow> csv_report_data (csv_tee_info report) = regularize_data rd 64)"

lemma csv_check_report_data_iff [outcome_iff]:
  "csv_check_report_data report rdo = Ok u \<longleftrightarrow> csv_report_bound report rdo"
  by (auto simp: csv_check_report_data_def csv_report_bound_def outcome_iff split: ReportData.splits if_splits)

text \<open>An event log, when there is one, replays to the registers of the report.\<close>

definition csv_eventlog_ok :: "crates \<Rightarrow> ('w, 'a, 'b) csv_lib \<Rightarrow> bool \<Rightarrow> CsvV2Info \<Rightarrow> string option \<Rightarrow> bool" where
  "csv_eventlog_ok E L chk x el \<longleftrightarrow>
     (\<forall>s. el = Some s \<longrightarrow> (\<exists>data ccel. csv_b64_decode L s = Ok data \<and> CcEventLog_try_from E chk data = Ok ccel \<and>
        replay_and_match E ccel (csv_compare_obj x) = Ok ()))"

lemma csv_eventlog_claims_ok:
  "csv_eventlog_claims E L chk x el m = Ok m' \<Longrightarrow> csv_eventlog_ok E L chk x el"
  by (auto simp: csv_eventlog_claims_def csv_eventlog_ok_def outcome_iff split: option.splits)

definition csv_accepted :: "('w, 'a, 'b) csv_env \<Rightarrow> TeeEvidence \<Rightarrow> ('w, 'a, 'b) CsvEvidence \<Rightarrow> CsvReport \<Rightarrow> bool" where
  "csv_accepted W evidence ev report \<longleftrightarrow>
     csv_from_value (csv_pkg W) evidence = Ok ev \<and>
     csv_report_try_from (csv_pkg W) (csv_attestation_report ev) = Ok report \<and>
     (\<exists>hsk cek. csv_chain_ok (csv_pkg W) hsk cek (csv_pek ev) (csv_tee_info report)) \<and>
     (\<forall>t x. report = CsvReportV2 t x \<longrightarrow> csv_eventlog_ok (csv_crates W) (csv_pkg W) (csv_chk W) x (csv_cc_eventlog ev))"

lemma Csv_evaluate_Ok:
  assumes "Csv_evaluate W evidence rdo iho = Ok cs"
  obtains ev report m where "csv_accepted W evidence ev report" "csv_report_bound report rdo"
    "cs = [(JObject m, ''cpu'')]"
proof -
  let ?L = "csv_pkg W" and ?E = "csv_crates W"
  obtain ev report serial hsk cek where ev: "csv_from_value ?L evidence = Ok ev"
      "csv_report_try_from ?L (csv_attestation_report ev) = Ok report"
    and sig: "csv_chain_ok ?L hsk cek (csv_pek ev) (csv_tee_info report)" and bound: "csv_report_bound report rdo"
    and claims: "(case report of
          CsvReportV1 t anonce \<Rightarrow> Ok [(JObject (csv_v1_claims ?E ?L t anonce (trim_end_matches (CHR 0x00) serial)), ''cpu'')]
        | CsvReportV2 t x \<Rightarrow> and_then (csv_eventlog_claims ?E ?L (csv_chk W) x (csv_cc_eventlog ev)
            (csv_v2_claims ?E t x (trim_end_matches (CHR 0x00) serial))) (\<lambda>claims. Ok [(JObject claims, ''cpu'')])) = Ok cs"
    using assms unfolding Csv_evaluate_def Let_def
    by (clarsimp simp only: and_then_Ok_iff with_context_iff lib_error_iff csv_signature_iff csv_check_report_data_iff
        split_beta)
  obtain m where cs: "cs = [(JObject m, ''cpu'')]"
    using claims by (cases report) (auto simp: outcome_iff)
  have "csv_eventlog_ok ?E ?L (csv_chk W) x (csv_cc_eventlog ev)" if "report = CsvReportV2 t x" for t x
    using claims that csv_eventlog_claims_ok by (auto simp: outcome_iff)
  then have "csv_accepted W evidence ev report" using ev sig unfolding csv_accepted_def by blast
  then show thesis using bound cs by (rule that)
qed

interpretation hygon_csv: report_verifier "CsvVerifier W"
  "\<lambda>ev rd. \<exists>e report. csv_accepted W ev e report \<and> csv_report_data (csv_tee_info report) = regularize_data rd 64"
proof unfold_locales
  show "\<exists>e report. csv_accepted W ev e report \<and> csv_report_data (csv_tee_info report) = regularize_data rd 64"
    if "v_evaluate (CsvVerifier W) ev (ReportValue rd) ih = Ok claims" for ev rd ih claims
  proof -
    from that have "Csv_evaluate W ev (ReportValue rd) ih = Ok claims" by (simp add: CsvVerifier_def)
    then show ?thesis by (rule Csv_evaluate_Ok) (auto simp: csv_report_bound_def)
  qed
  show "claims \<noteq> []" if "v_evaluate (CsvVerifier W) ev rdo ih = Ok claims" for ev rdo ih claims
  proof -
    from that have "Csv_evaluate W ev rdo ih = Ok claims" by (simp add: CsvVerifier_def)
    then show ?thesis by (rule Csv_evaluate_Ok) simp
  qed
qed

text \<open>Neither verifier looks at the initialisation data.\<close>

lemma hygon_ignores_init_data:
  "v_evaluate (CsvVerifier W) ev rdo iho = v_evaluate (CsvVerifier W) ev rdo iho'"
  "v_evaluate (HygonDcuVerifier E L) ev rdo iho = v_evaluate (HygonDcuVerifier E L) ev rdo iho'"
  by (simp_all add: CsvVerifier_def Csv_evaluate_def HygonDcuVerifier_def HygonDcu_evaluate_def)

end
