(* ===== verification/Cca.thy ===== *)
theory Cca
  imports Filesystem Verifier
begin

text \<open>
  The Arm CCA verifier (\<^verbatim>\<open>deps/verifier/src/cca\<close>: \<^verbatim>\<open>config.rs\<close>, \<^verbatim>\<open>local.rs\<close>, \<^verbatim>\<open>remote.rs\<close>, \<^verbatim>\<open>mod.rs\<close>). A
  token is verified against local stores by the \<^verbatim>\<open>ccatoken\<close> package, or by a Veraison service whose result is
  a signed EAR; both packages are parameters, as are the deserialisers. Of an EAR the code reads the nonce and
  the annotated evidence of its submodules. Values of \<^verbatim>\<open>ear::RawValue\<close> are JSON values.
\<close>

section \<open>Types\<close>

datatype CcaVerifierConfig = CcaLocal string string | CcaRemote string "string option"

record CcaPlatformClaims =
  cca_platform_instance_id :: string
  cca_platform_implementation_id :: string

record RealmClaims =
  cca_realm_personalization_value :: string
  cca_realm_initial_measurement :: string
  cca_realm_extensible_measurements :: "string list"
  cca_realm_hash_algo_id :: string
  cca_realm_challenge :: string

record EvidenceClaimsSet =
  ec_realm :: RealmClaims
  ec_platform :: CcaPlatformClaims
  ec_report_data :: string
  ec_init_data :: string

text \<open>What the code reads of a decoded token, and of an EAR.\<close>

record cca_token =
  tk_challenge :: bytes
  tk_perso :: bytes
  tk_rim :: bytes
  tk_rem :: "bytes list"
  tk_hash_alg :: string
  tk_inst_id :: bytes
  tk_impl_id :: bytes

record cca_ear =
  ear_submods :: "(string \<times> json_map) list"
  ear_nonce :: "string option"

text \<open>Trust anchors \<open>'t\<close>, reference values \<open>'r\<close>, evidence \<open>'e\<close>, and the clients \<open>'d\<close>, \<open>'a\<close>, \<open>'s\<close> of the service.\<close>

record ('t, 'r, 'e, 'd, 'a, 's) cca_lib =
  cca_config_from_json :: "bytes \<Rightarrow> (string, CcaVerifierConfig) outcome"
  cca_from_value :: "json \<Rightarrow> (string, bytes) outcome"
  tas_load_json :: "string \<Rightarrow> (string, 't) outcome"
  rvs_load_json :: "string \<Rightarrow> (string, 'r) outcome"
  evidence_decode :: "bytes \<Rightarrow> (string, 'e) outcome"
  evidence_verify :: "'e \<Rightarrow> 't \<Rightarrow> (string, 'e) outcome"
  evidence_appraise :: "'e \<Rightarrow> 'r \<Rightarrow> (string, 'e) outcome"
  realm_instance_affirming :: "'e \<Rightarrow> bool"
  evidence_token :: "'e \<Rightarrow> cca_token"
  disco_build :: "string \<Rightarrow> string option \<Rightarrow> (string, 'd) outcome"
  get_verification_api :: "'d \<Rightarrow> (string, 'a) outcome"
  get_api_endpoint :: "'a \<Rightarrow> string \<Rightarrow> (string, string) outcome"
  cr_build :: "string \<Rightarrow> string option \<Rightarrow> (string, 's) outcome"
  cr_run :: "'s \<Rightarrow> bytes \<Rightarrow> bytes \<times> string \<Rightarrow> (string, string) outcome"
  ear_verification_key :: "'a \<Rightarrow> string"
  ear_from_jwt_jwk :: "string \<Rightarrow> string \<Rightarrow> (string, cca_ear) outcome"
  cca_b64_decode :: "string \<Rightarrow> (string, bytes) outcome"
  cca_b64_url_decode :: "string \<Rightarrow> (string, bytes) outcome"
  platform_from_json :: "json_map \<Rightarrow> (string, CcaPlatformClaims) outcome"
  realm_from_json :: "json_map \<Rightarrow> (string, RealmClaims) outcome"

section \<open>Configuration\<close>

definition DEFAULT_CCA_CONFIG :: string where
  "DEFAULT_CCA_CONFIG = ''/opt/confidential-containers/attestation-service/cca/config.json''"

definition io_text :: "io_error \<Rightarrow> string" where
  "io_text e =
     (case e of
        IoNotFound \<Rightarrow> ''not found'' | IoIsADirectory \<Rightarrow> ''is a directory'' | IoNotADirectory \<Rightarrow> ''not a directory''
      | IoFault \<Rightarrow> ''fault'' | IoInvalidData \<Rightarrow> ''invalid data'')"

definition CcaConfig_try_from ::
    "('t, 'r, 'e, 'd, 'a, 's) cca_lib \<Rightarrow> io_env \<Rightarrow> fs \<Rightarrow> string \<Rightarrow> (string, CcaVerifierConfig) outcome" where
  "CcaConfig_try_from L io f config_path =
     and_then (map_err (\<lambda>e. ''IO error: '' @ io_text e) (read_file io f (path_of config_path))) (\<lambda>content.
       map_err (\<lambda>e. ''failed to parse CCA config file: '' @ e) (cca_config_from_json L content))"

section \<open>The local verifier\<close>

definition cca_read_to_string :: "io_env \<Rightarrow> fs \<Rightarrow> string \<Rightarrow> (anyhow, string) outcome" where
  "cca_read_to_string io f p =
     and_then (map_err (\<lambda>e. [io_text e]) (read_file io f (path_of p))) (\<lambda>b. ok_or [io_text IoInvalidData] (from_utf8 b))"

definition realm_annotated_evidence :: "crates \<Rightarrow> cca_token \<Rightarrow> (anyhow, json_map) outcome" where
  "realm_annotated_evidence E t =
     and_then (index (tk_rem t) 0) (\<lambda>rem0.
     and_then (index (tk_rem t) 1) (\<lambda>rem1.
     and_then (index (tk_rem t) 2) (\<lambda>rem2.
     and_then (index (tk_rem t) 3) (\<lambda>rem3.
       Ok [(''cca-realm-challenge'', JString (base64_encode E (tk_challenge t))),
           (''cca-realm-extensible-measurements'',
              JArray (map (\<lambda>r. JString (base64_encode E r)) [rem0, rem1, rem2, rem3])),
           (''cca-realm-hash-algo-id'', JString (tk_hash_alg t)),
           (''cca-realm-initial-measurement'', JString (base64_encode E (tk_rim t))),
           (''cca-realm-personalization-value'', JString (base64_encode E (tk_perso t)))]))))"

definition platform_annotated_evidence :: "crates \<Rightarrow> cca_token \<Rightarrow> json_map" where
  "platform_annotated_evidence E t =
     [(''cca-platform-instance-id'', JString (base64_encode E (tk_inst_id t))),
      (''cca-platform-implementation-id'', JString (base64_encode E (tk_impl_id t)))]"

definition cca_local_verify ::
    "crates \<Rightarrow> ('t, 'r, 'e, 'd, 'a, 's) cca_lib \<Rightarrow> io_env \<Rightarrow> fs \<Rightarrow> CcaVerifierConfig \<Rightarrow> bytes \<Rightarrow> bytes \<Rightarrow>
     (anyhow, cca_ear) outcome" where
  "cca_local_verify E L io f config token expected_report_data =
     (case config of
        CcaRemote _ _ \<Rightarrow> bail ''expecting local configuration''
      | CcaLocal ta_store rv_store \<Rightarrow>
          and_then (with_context ''loading TA store'' (cca_read_to_string io f ta_store)) (\<lambda>jta.
          and_then (with_context ''loading RV store'' (cca_read_to_string io f rv_store)) (\<lambda>jrv.
          and_then (with_context (''loading trust anchors from JSON store '' @ ta_store)
              (lib_error (tas_load_json L jta))) (\<lambda>tas.
          and_then (with_context (''loading reference values from JSON store '' @ rv_store)
              (lib_error (rvs_load_json L jrv))) (\<lambda>rvs.
          and_then (with_context ''decoding CCA evidence'' (lib_error (evidence_decode L token))) (\<lambda>e.
          and_then (with_context ''verifying CCA evidence'' (lib_error (evidence_verify L e tas))) (\<lambda>e.
          and_then (with_context ''appraising CCA evidence'' (lib_error (evidence_appraise L e rvs))) (\<lambda>e.
          if \<not> realm_instance_affirming L e then bail ''RAK signature or RAK attestation could not be verified''
          else if expected_report_data \<noteq> tk_challenge (evidence_token L e)
          then bail ''realm token challenge claim does not match expected_report_data''
          else
            and_then (with_context ''synthesizing CCA Realm TCB claims-set''
                (realm_annotated_evidence E (evidence_token L e))) (\<lambda>realm.
              Ok \<lparr>ear_submods = [(''CCA_SSD_PLATFORM'', platform_annotated_evidence E (evidence_token L e)),
                                 (''CCA_REALM'', realm)],
                  ear_nonce = None\<rparr>)))))))))"

section \<open>The remote verifier\<close>

definition MEDIA_TYPE :: string where
  "MEDIA_TYPE = ''application/eat-collection; profile='' @ [CHR 0x22] @ ''http://arm.com/CCA-SSD/1.0.0'' @ [CHR 0x22]"

definition evidence_builder :: "bytes \<Rightarrow> bytes \<times> string" where
  "evidence_builder token = (token, MEDIA_TYPE)"

definition cca_remote_verify ::
    "('t, 'r, 'e, 'd, 'a, 's) cca_lib \<Rightarrow> CcaVerifierConfig \<Rightarrow> bytes \<Rightarrow> bytes \<Rightarrow> (anyhow, cca_ear) outcome" where
  "cca_remote_verify L config token expected_report_data =
     (case config of
        CcaLocal _ _ \<Rightarrow> bail ''expecting remote configuration''
      | CcaRemote address ca_cert \<Rightarrow>
          and_then (with_context ''Failed to start API discovery with the service''
              (lib_error (disco_build L address ca_cert))) (\<lambda>disco.
          and_then (with_context ''Failed to discover the verification endpoint details''
              (lib_error (get_verification_api L disco))) (\<lambda>api.
          and_then (with_context ''Could not locate a newChallengeResponseSession endpoint''
              (lib_error (get_api_endpoint L api ''newChallengeResponseSession''))) (\<lambda>relpath.
          and_then (with_context ''Failed to start challenge-response API with the service''
              (lib_error (cr_build L (address @ relpath) ca_cert))) (\<lambda>cr.
          and_then (map_err (\<lambda>e. [''remote verification failed with error: '' @ e])
              (cr_run L cr expected_report_data (evidence_builder token))) (\<lambda>result.
          and_then (with_context ''decrypting EAR with the decoding key''
              (lib_error (ear_from_jwt_jwk L result (ear_verification_key L api)))) (\<lambda>plain_ear.
          case ear_nonce plain_ear of
            None \<Rightarrow> bail ''no nonce found in EAR''
          | Some nonce \<Rightarrow>
              and_then (with_context ''base64-decoding nonce from EAR'' (lib_error (cca_b64_url_decode L nonce))) (\<lambda>n.
                if expected_report_data \<noteq> n then bail ''nonce verification failed'' else Ok plain_ear))))))))"

section \<open>Evaluation\<close>

definition b642hex :: "crates \<Rightarrow> ('t, 'r, 'e, 'd, 'a, 's) cca_lib \<Rightarrow> string \<Rightarrow> (anyhow, string) outcome" where
  "b642hex E L b64 = map_ok (hex_encode E) (lib_error (cca_b64_decode L b64))"

definition assemble_cca_evidence ::
    "crates \<Rightarrow> ('t, 'r, 'e, 'd, 'a, 's) cca_lib \<Rightarrow> json_map \<Rightarrow> json_map \<Rightarrow> (anyhow, EvidenceClaimsSet) outcome" where
  "assemble_cca_evidence E L realm_claims platform_claims =
     and_then (lib_error (platform_from_json L platform_claims)) (\<lambda>p.
     and_then (lib_error (realm_from_json L realm_claims)) (\<lambda>r.
     and_then (b642hex E L (cca_realm_personalization_value r)) (\<lambda>init_data.
     and_then (b642hex E L (cca_realm_challenge r)) (\<lambda>report_data.
       Ok \<lparr>ec_realm = r, ec_platform = p, ec_report_data = report_data, ec_init_data = init_data\<rparr>))))"

definition cca_generate_parsed_claim :: "EvidenceClaimsSet \<Rightarrow> TeeEvidenceParsedClaim" where
  "cca_generate_parsed_claim tcb =
     JObject
       [(''realm'', JObject
          [(''cca-realm-personalization-value'', JString (cca_realm_personalization_value (ec_realm tcb))),
           (''cca-realm-initial-measurement'', JString (cca_realm_initial_measurement (ec_realm tcb))),
           (''cca-realm-extensible-measurements'',
              JArray (map JString (cca_realm_extensible_measurements (ec_realm tcb)))),
           (''cca-realm-hash-algo-id'', JString (cca_realm_hash_algo_id (ec_realm tcb))),
           (''cca-realm-challenge'', JString (cca_realm_challenge (ec_realm tcb)))]),
        (''platform'', JObject
          [(''cca-platform-instance-id'', JString (cca_platform_instance_id (ec_platform tcb))),
           (''cca-platform-implementation-id'', JString (cca_platform_implementation_id (ec_platform tcb)))]),
        (''report_data'', JString (ec_report_data tcb)),
        (''init_data'', JString (ec_init_data tcb))]"

definition cca_check_init_data ::
    "('t, 'r, 'e, 'd, 'a, 's) cca_lib \<Rightarrow> EvidenceClaimsSet \<Rightarrow> InitDataHash \<Rightarrow> (anyhow, unit) outcome" where
  "cca_check_init_data L tcb expected =
     (case expected of
        InitValue expected_init_data_hash \<Rightarrow>
          and_then (with_context ''Failed to decode base64''
              (lib_error (cca_b64_decode L (cca_realm_personalization_value (ec_realm tcb))))) (\<lambda>perso.
            if expected_init_data_hash \<noteq> perso then bail ''init data hash is different from that in CCA token'' else Ok ())
      | InitNotProvided \<Rightarrow> Ok ())"

definition cca_verify ::
    "crates \<Rightarrow> ('t, 'r, 'e, 'd, 'a, 's) cca_lib \<Rightarrow> io_env \<Rightarrow> fs \<Rightarrow> CcaVerifierConfig \<Rightarrow> bytes \<Rightarrow> bytes \<Rightarrow>
     (anyhow, cca_ear) outcome" where
  "cca_verify E L io f config token rd =
     (case config of
        CcaRemote _ _ \<Rightarrow> cca_remote_verify L config token rd
      | CcaLocal _ _ \<Rightarrow> cca_local_verify E L io f config token rd)"

record ('t, 'r, 'e, 'd, 'a, 's) cca_env =
  cca_crates :: crates
  cca_pkg :: "('t, 'r, 'e, 'd, 'a, 's) cca_lib"
  cca_io :: io_env
  cca_fs :: fs
  cca_vars :: verifier_env

definition Cca_evaluate ::
    "('t, 'r, 'e, 'd, 'a, 's) cca_env \<Rightarrow> TeeEvidence \<Rightarrow> ReportData \<Rightarrow> InitDataHash \<Rightarrow> verdict" where
  "Cca_evaluate W evidence expected_report_data expected_init_data_hash =
     (let E = cca_crates W; L = cca_pkg W;
          config_file = (case env_var (cca_vars W) ''CCA_CONFIG_FILE'' of Some p \<Rightarrow> p | None \<Rightarrow> DEFAULT_CCA_CONFIG)
      in
      and_then (map_err (\<lambda>e. [''parsing '' @ config_file @ '': '' @ e])
          (CcaConfig_try_from L (cca_io W) (cca_fs W) config_file)) (\<lambda>config.
      case expected_report_data of
        ReportNotProvided \<Rightarrow> bail ''CCA verifier must provide report data field!''
      | ReportValue expected_report_data \<Rightarrow>
          let rd = regularize_data expected_report_data 64 in
          and_then (with_context ''Deserialize CCA Evidence failed.'' (lib_error (cca_from_value L evidence))) (\<lambda>token.
          and_then (cca_verify E L (cca_io W) (cca_fs W) config token rd) (\<lambda>ear.
          and_then (ok_or [''no entry found for CCA_REALM''] (map_of (ear_submods ear) ''CCA_REALM'')) (\<lambda>realm_claims.
          and_then (ok_or [''no entry found for CCA_SSD_PLATFORM''] (map_of (ear_submods ear) ''CCA_SSD_PLATFORM''))
            (\<lambda>platform_claims.
          and_then (assemble_cca_evidence E L realm_claims platform_claims) (\<lambda>tcb.
          and_then (cca_check_init_data L tcb expected_init_data_hash) (\<lambda>_.
            Ok [(cca_generate_parsed_claim tcb, ''cpu'')]))))))))"

definition CcaVerifier :: "('t, 'r, 'e, 'd, 'a, 's) cca_env \<Rightarrow> Verifier" where
  "CcaVerifier W =
     \<lparr>v_evaluate = Cca_evaluate W, v_generate_supplemental_challenge = default_supplemental_challenge\<rparr>"

section \<open>What acceptance means\<close>

text \<open>
  A local result: the token is verified with the anchors, its realm key is attested and its challenge is the
  expected value. A remote one: the service signed a result with that nonce.
\<close>

definition cca_attests ::
    "crates \<Rightarrow> ('t, 'r, 'e, 'd, 'a, 's) cca_lib \<Rightarrow> CcaVerifierConfig \<Rightarrow> bytes \<Rightarrow> bytes \<Rightarrow> cca_ear \<Rightarrow> bool" where
  "cca_attests E L config token rd ear \<longleftrightarrow>
     (case config of
        CcaLocal _ _ \<Rightarrow>
          \<exists>tas rvs e0 e1 e realm. evidence_decode L token = Ok e0 \<and> evidence_verify L e0 tas = Ok e1 \<and>
            evidence_appraise L e1 rvs = Ok e \<and> realm_instance_affirming L e \<and> tk_challenge (evidence_token L e) = rd \<and>
            realm_annotated_evidence E (evidence_token L e) = Ok realm \<and>
            ear_submods ear = [(''CCA_SSD_PLATFORM'', platform_annotated_evidence E (evidence_token L e)), (''CCA_REALM'', realm)]
      | CcaRemote _ _ \<Rightarrow>
          \<exists>cr result key nonce. cr_run L cr rd (evidence_builder token) = Ok result \<and>
            ear_from_jwt_jwk L result key = Ok ear \<and> ear_nonce ear = Some nonce \<and> cca_b64_url_decode L nonce = Ok rd)"

lemma bail_ifs:
  "(if b then bail m else r) = Ok y \<longleftrightarrow> \<not> b \<and> r = Ok y"
  by (simp add: bail_def)

lemma cca_local_attests:
  assumes "cca_local_verify E L io f (CcaLocal ta rv) token rd = Ok ear"
  shows "cca_attests E L (CcaLocal ta rv) token rd ear"
proof -
  obtain tas rvs e0 e1 e realm where "evidence_decode L token = Ok e0" "evidence_verify L e0 tas = Ok e1"
    "evidence_appraise L e1 rvs = Ok e" "realm_instance_affirming L e" "tk_challenge (evidence_token L e) = rd"
    "realm_annotated_evidence E (evidence_token L e) = Ok realm"
    "(Ok ear :: (anyhow, cca_ear) outcome) = Ok \<lparr>ear_submods = [(''CCA_SSD_PLATFORM'', platform_annotated_evidence E (evidence_token L e)), (''CCA_REALM'', realm)],
            ear_nonce = None\<rparr>"
    using assms unfolding cca_local_verify_def CcaVerifierConfig.case and_then_Ok_iff with_context_iff lib_error_iff
      bail_ifs not_not by metis
  then show ?thesis unfolding cca_attests_def CcaVerifierConfig.case by (intro exI conjI) simp_all
qed

lemma cca_remote_attests:
  assumes "cca_remote_verify L (CcaRemote a c) token rd = Ok ear"
  shows "cca_attests E L (CcaRemote a c) token rd ear"
proof -
  obtain cr result api where r: "cr_run L cr rd (evidence_builder token) = Ok result"
    "ear_from_jwt_jwk L result (ear_verification_key L api) = Ok ear"
    "\<exists>nonce. ear_nonce ear = Some nonce \<and> cca_b64_url_decode L nonce = Ok rd"
    using assms unfolding cca_remote_verify_def CcaVerifierConfig.case
    by (auto simp: and_then_Ok_iff with_context_iff lib_error_iff bail_ifs bail_iff map_err_iff split: option.splits)
  then show ?thesis unfolding cca_attests_def by auto
qed

lemma cca_verify_attests:
  "cca_verify E L io f config token rd = Ok ear \<Longrightarrow> cca_attests E L config token rd ear"
  by (cases config) (simp_all add: cca_verify_def cca_local_attests cca_remote_attests)

definition cca_accepted ::
    "('t, 'r, 'e, 'd, 'a, 's) cca_env \<Rightarrow> TeeEvidence \<Rightarrow> bytes \<Rightarrow> EvidenceClaimsSet \<Rightarrow> bool" where
  "cca_accepted W evidence rd tcb \<longleftrightarrow>
     (\<exists>config token ear realm platform. cca_from_value (cca_pkg W) evidence = Ok token \<and>
        cca_attests (cca_crates W) (cca_pkg W) config token (regularize_data rd 64) ear \<and>
        map_of (ear_submods ear) ''CCA_REALM'' = Some realm \<and>
        map_of (ear_submods ear) ''CCA_SSD_PLATFORM'' = Some platform \<and>
        assemble_cca_evidence (cca_crates W) (cca_pkg W) realm platform = Ok tcb)"

lemma cca_check_init_data_iff [outcome_iff]:
  "cca_check_init_data L tcb iho = Ok u \<longleftrightarrow>
     (\<forall>ih. iho = InitValue ih \<longrightarrow> cca_b64_decode L (cca_realm_personalization_value (ec_realm tcb)) = Ok ih)"
  by (auto simp: cca_check_init_data_def outcome_iff split: InitDataHash.splits)

lemma Cca_evaluate_Ok:
  assumes "Cca_evaluate W evidence rdo iho = Ok cs"
  obtains rd tcb where "rdo = ReportValue rd" "cca_accepted W evidence rd tcb"
    "cca_check_init_data (cca_pkg W) tcb iho = Ok ()" "cs = [(cca_generate_parsed_claim tcb, ''cpu'')]"
proof (cases rdo)
  case (ReportValue rd)
  obtain config token ear realm platform tcb u where "cca_from_value (cca_pkg W) evidence = Ok token"
    and v: "cca_verify (cca_crates W) (cca_pkg W) (cca_io W) (cca_fs W) config token (regularize_data rd 64) = Ok ear"
    and "map_of (ear_submods ear) ''CCA_REALM'' = Some realm"
    "map_of (ear_submods ear) ''CCA_SSD_PLATFORM'' = Some platform"
    "assemble_cca_evidence (cca_crates W) (cca_pkg W) realm platform = Ok tcb"
    and rest: "cca_check_init_data (cca_pkg W) tcb iho = Ok u"
      "Ok [(cca_generate_parsed_claim tcb, ''cpu'')] = (Ok cs :: verdict)"
    using assms unfolding Cca_evaluate_def Let_def ReportValue ReportData.case and_then_Ok_iff with_context_iff
      lib_error_iff ok_or_iff(1) by blast
  then have "cca_accepted W evidence rd tcb" using cca_verify_attests [OF v] unfolding cca_accepted_def by blast
  with ReportValue show thesis using rest by (intro that) auto
next
  case ReportNotProvided
  then show thesis using assms by (simp add: Cca_evaluate_def outcome_iff Let_def)
qed

interpretation cca: bound_verifier "CcaVerifier W"
  "\<lambda>ev rd. \<exists>tcb. cca_accepted W ev rd tcb"
  "\<lambda>ev ih. \<exists>rd tcb. cca_accepted W ev rd tcb \<and>
      cca_b64_decode (cca_pkg W) (cca_realm_personalization_value (ec_realm tcb)) = Ok ih"
proof unfold_locales
  show "\<exists>tcb. cca_accepted W ev rd tcb"
    if "v_evaluate (CcaVerifier W) ev (ReportValue rd) ih = Ok claims" for ev rd ih claims
  proof -
    from that have "Cca_evaluate W ev (ReportValue rd) ih = Ok claims" by (simp add: CcaVerifier_def)
    then show ?thesis by (rule Cca_evaluate_Ok) auto
  qed
  show "claims \<noteq> []" if "v_evaluate (CcaVerifier W) ev rdo ih = Ok claims" for ev rdo ih claims
  proof -
    from that have "Cca_evaluate W ev rdo ih = Ok claims" by (simp add: CcaVerifier_def)
    then show ?thesis by (rule Cca_evaluate_Ok) simp
  qed
  show "\<exists>rd tcb. cca_accepted W ev rd tcb \<and>
      cca_b64_decode (cca_pkg W) (cca_realm_personalization_value (ec_realm tcb)) = Ok ih"
    if "v_evaluate (CcaVerifier W) ev rdo (InitValue ih) = Ok claims" for ev rdo ih claims
  proof -
    from that have "Cca_evaluate W ev rdo (InitValue ih) = Ok claims" by (simp add: CcaVerifier_def)
    then show ?thesis by (rule Cca_evaluate_Ok) (auto simp: cca_check_init_data_iff)
  qed
qed

text \<open>
  The initialisation data hash is not regularised, unlike the report data and unlike in the other verifiers: a
  personalisation value of 64 bytes only matches a hash of 64 bytes.
\<close>

lemma cca_init_data_exact:
  assumes "cca_b64_decode L (cca_realm_personalization_value (ec_realm tcb)) = Ok perso" and "length perso = 64"
    and "length ih \<noteq> 64"
  shows "\<not> is_ok (cca_check_init_data L tcb (InitValue ih))"
  using assms by (auto simp: cca_check_init_data_def bail_def)

end
