(* ===== verification/Se.thy ===== *)
theory Se
  imports Filesystem Verifier
begin

text \<open>
  The IBM Secure Execution verifier (\<^verbatim>\<open>deps/verifier/src/se/ibmse.rs\<close>, \<^verbatim>\<open>se/mod.rs\<close>). It makes the challenge the
  attester answers: an attestation request for the ultravisor, with the measurement key and the nonce encrypted
  for the verifier itself. The \<^verbatim>\<open>pv\<close> package (requests, measurements), \<^verbatim>\<open>openssl\<close> and the serialisers are
  parameters; what \<^verbatim>\<open>pv\<close> draws at random is in the request \<open>'r\<close> and the encryption context.

  The lemmas show that the verifier accepts the answer to its own challenge, and that it accepts only a measurement
  under a key and a nonce it can decrypt; the report data plays no part in it.
\<close>

section \<open>Types\<close>

record 't SeAttestationResponse =
  sr_measurement :: bytes
  sr_additional_data :: bytes
  sr_user_data :: bytes
  sr_cuid :: bytes
  sr_encr_measurement_key :: bytes
  sr_encr_request_nonce :: bytes
  sr_image_hdr_tags :: 't

record 't SeAttestationRequest =
  sq_request_blob :: bytes
  sq_measurement_size :: nat
  sq_additional_size :: nat
  sq_encr_measurement_key :: bytes
  sq_encr_request_nonce :: bytes
  sq_image_hdr_tags :: 't

record ('p, 'q) SeVerifierImpl =
  se_private_key :: 'p
  se_public_key :: 'q

text \<open>
  Keys \<open>'p\<close>, \<open>'q\<close>; requests \<open>'r\<close>; header tags \<open>'t\<close>; measurement keys \<open>'h\<close>; certificates \<open>'c\<close> with host keys \<open>'k\<close>.
  \<open>pkcs1_decrypt\<close> and \<open>pkcs1_encrypt\<close> give the bytes written, after the buffer was cut to their number.
\<close>

record ('p, 'q, 'r, 't, 'h, 'c, 'k) se_lib =
  private_key_from_pem :: "bytes \<Rightarrow> (string, 'p) outcome"
  se_public_key_from_pem :: "bytes \<Rightarrow> (string, 'q) outcome"
  pkcs1_decrypt :: "'p \<Rightarrow> bytes \<Rightarrow> (string, bytes) outcome"
  pkcs1_encrypt :: "'q \<Rightarrow> bytes \<Rightarrow> (string, bytes) outcome"
  se_from_value :: "json \<Rightarrow> (string, 't SeAttestationResponse) outcome"
  hmac_key :: "bytes \<Rightarrow> (string, 'h) outcome"
  measurement_calculate :: "'t \<Rightarrow> bytes \<Rightarrow> bytes \<Rightarrow> bytes \<Rightarrow> bytes \<Rightarrow> 'h \<Rightarrow> (string, bytes) outcome"
  additional_from_slice :: "bytes \<Rightarrow> (string, bytes option \<times> bytes option) outcome"
  hdr_tag :: "'t \<Rightarrow> bytes"
  attestation_request_new :: "(string, 'r) outcome"
  read_certs :: "bytes \<Rightarrow> (string, 'c list) outcome"
  verify_host_key ::
    "string list \<Rightarrow> string list \<Rightarrow> string option \<Rightarrow> bool \<Rightarrow> 'c \<Rightarrow> (string, unit) outcome"
  cert_public_key :: "'c \<Rightarrow> (string, 'k) outcome"
  add_hostkey :: "'r \<Rightarrow> 'k \<Rightarrow> 'r"
  request_encrypt :: "'r \<Rightarrow> (string, bytes) outcome"
  measurement_key_of :: "'r \<Rightarrow> bytes"
  nonce_of :: "'r \<Rightarrow> bytes option"
  hdr_from_se_image :: "bytes \<Rightarrow> (string, 't) outcome"
  measurement_exp_size :: nat
  additional_exp_size :: "'r \<Rightarrow> nat"
  request_to_string :: "'t SeAttestationRequest \<Rightarrow> (string, string) outcome"

record ('p, 'q, 'r, 't, 'h, 'c, 'k) se_env =
  se_crates :: crates
  se_pkg :: "('p, 'q, 'r, 't, 'h, 'c, 'k) se_lib"
  se_vars :: verifier_env
  se_io :: io_env
  se_fs :: fs

section \<open>Files\<close>

definition env_or_default :: "verifier_env \<Rightarrow> string \<Rightarrow> string \<Rightarrow> string" where
  "env_or_default V name dflt = (case env_var V name of Some p \<Rightarrow> p | None \<Rightarrow> dflt)"

definition se_root :: string where
  "se_root = ''/run/confidential-containers/ibmse''"

text \<open>The text of an error of the operating system is a parameter of no property; \<open>se_io_error\<close> names its kind.\<close>

definition se_io_error :: "(io_error, 'a) outcome \<Rightarrow> (anyhow, 'a) outcome" where
  "se_io_error r = map_err (\<lambda>e. [if e = IoNotFound then ''not found'' else ''I/O error'']) r"

definition list_files_in_folder :: "io_env \<Rightarrow> fs \<Rightarrow> string \<Rightarrow> (anyhow, string list) outcome" where
  "list_files_in_folder io f dir =
     and_then (se_io_error (read_dir io f (path_of dir))) (\<lambda>names.
       Ok (map (\<lambda>x. dir @ ''/'' @ x)
         (filter (\<lambda>x. case map_of f (path_of dir @ [x]) of Some (FileNode _) \<Rightarrow> True | _ \<Rightarrow> False) names)))"

definition SeVerifierImpl_new ::
    "('p, 'q, 'r, 't, 'h, 'c, 'k) se_env \<Rightarrow> (anyhow, ('p, 'q) SeVerifierImpl) outcome" where
  "SeVerifierImpl_new W =
     (let pri_key_file = env_or_default (se_vars W) ''SE_MEASUREMENT_ENCR_KEY_PRIVATE'' (se_root @ ''/rsa/encrypt_key.pem'');
          pub_key_file = env_or_default (se_vars W) ''SE_MEASUREMENT_ENCR_KEY_PUBLIC'' (se_root @ ''/rsa/encrypt_key.pub'')
      in
      and_then (se_io_error (read_file (se_io W) (se_fs W) (path_of pri_key_file))) (\<lambda>priv_contents.
      and_then (lib_error (private_key_from_pem (se_pkg W) priv_contents)) (\<lambda>private_key.
      and_then (se_io_error (read_file (se_io W) (se_fs W) (path_of pub_key_file))) (\<lambda>pub_contents.
      and_then (lib_error (se_public_key_from_pem (se_pkg W) pub_contents)) (\<lambda>public_key.
        Ok \<lparr>se_private_key = private_key, se_public_key = public_key\<rparr>)))))"

definition se_decrypt ::
    "('p, 'q, 'r, 't, 'h, 'c, 'k) se_lib \<Rightarrow> ('p, 'q) SeVerifierImpl \<Rightarrow> bytes \<Rightarrow> (anyhow, bytes) outcome" where
  "se_decrypt L self ciphertext = lib_error (pkcs1_decrypt L (se_private_key self) ciphertext)"

definition se_encrypt ::
    "('p, 'q, 'r, 't, 'h, 'c, 'k) se_lib \<Rightarrow> ('p, 'q) SeVerifierImpl \<Rightarrow> bytes \<Rightarrow> (anyhow, bytes) outcome" where
  "se_encrypt L self plain = lib_error (pkcs1_encrypt L (se_public_key self) plain)"

section \<open>Evaluation\<close>

definition se_claims :: "crates \<Rightarrow> bytes \<Rightarrow> string \<Rightarrow> bytes \<Rightarrow> bytes \<Rightarrow> bytes \<Rightarrow> TeeEvidenceParsedClaim" where
  "se_claims E cuid report_data image_phkh attestation_phkh tag =
     JObject
       [(''cuid'', JString (hex_encode E cuid)), (''report_data'', JString report_data), (''version'', JNumber 1),
        (''image_phkh'', JString (hex_encode E image_phkh)),
        (''attestation_phkh'', JString (hex_encode E attestation_phkh)), (''tag'', JString (hex_encode E tag))]"

definition SeVerifierImpl_evaluate ::
    "('p, 'q, 'r, 't, 'h, 'c, 'k) se_env \<Rightarrow> ('p, 'q) SeVerifierImpl \<Rightarrow> TeeEvidence \<Rightarrow>
     (anyhow, TeeEvidenceParsedClaim) outcome" where
  "SeVerifierImpl_evaluate W self evidence =
     (let L = se_pkg W in
      and_then (lib_error (se_from_value L evidence)) (\<lambda>resp.
      and_then (with_context ''decrypt Measurement Key'' (se_decrypt L self (sr_encr_measurement_key resp))) (\<lambda>meas_key.
      and_then (with_context ''decrypt Request Nonce'' (se_decrypt L self (sr_encr_request_nonce resp))) (\<lambda>nonce.
      if length nonce \<noteq> 16
      then bail ''Failed to convert nonce from Vec<u8> to [u8; 16], It must have exactly 16 elements.''
      else
        and_then (lib_error (hmac_key L meas_key)) (\<lambda>key.
        and_then (lib_error (measurement_calculate L (sr_image_hdr_tags resp) (sr_cuid resp) (sr_user_data resp) nonce
            (sr_additional_data resp) key)) (\<lambda>measurement.
        if measurement \<noteq> sr_measurement resp then bail ''Failed to verify the measurement!''
        else
          and_then (lib_error (additional_from_slice L (sr_additional_data resp))) (\<lambda>(image, att).
          and_then (ok_or [''Failed to get image_public_host_key_hash.''] image) (\<lambda>image_phkh.
          and_then (ok_or [''Failed to get attestation_public_host_key_hash.''] att) (\<lambda>attestation_phkh.
          and_then (ok_or [''invalid utf-8''] (from_utf8 (sr_user_data resp))) (\<lambda>report_data.
            Ok (se_claims (se_crates W) (sr_cuid resp) report_data image_phkh attestation_phkh
                  (hdr_tag L (sr_image_hdr_tags resp)))))))))))))"

section \<open>The challenge\<close>

definition parse_bool_or_false :: "string \<Rightarrow> bool" where
  "parse_bool_or_false s \<longleftrightarrow> s = ''true''"

definition add_host_key_document ::
    "('p, 'q, 'r, 't, 'h, 'c, 'k) se_env \<Rightarrow> string list \<Rightarrow> string list \<Rightarrow> string option \<Rightarrow> bool \<Rightarrow> 'r \<Rightarrow> string \<Rightarrow>
     (anyhow, 'r) outcome" where
  "add_host_key_document W ca_certs crls ca_option offline arcb hkd =
     (let L = se_pkg W in
      and_then (with_context ''read host-key document'' (se_io_error (read_file (se_io W) (se_fs W) (path_of hkd)))) (\<lambda>hk.
      and_then (lib_error (read_certs L hk)) (\<lambda>certs.
      case certs of
        [] \<Rightarrow> bail ''File does not contain a X509 certificate''
      | c # _ \<Rightarrow>
          and_then (if parse_bool_or_false (env_or_default (se_vars W) ''SE_SKIP_CERTS_VERIFICATION'' ''false'') then Ok ()
                    else lib_error (verify_host_key L ca_certs crls ca_option offline c)) (\<lambda>_.
          and_then (lib_error (cert_public_key L c)) (\<lambda>k. Ok (add_hostkey L arcb k))))))"

fun add_host_key_documents ::
    "('p, 'q, 'r, 't, 'h, 'c, 'k) se_env \<Rightarrow> string list \<Rightarrow> string list \<Rightarrow> string option \<Rightarrow> bool \<Rightarrow> 'r \<Rightarrow> string list \<Rightarrow>
     (anyhow, 'r) outcome" where
  "add_host_key_documents W ca_certs crls ca_option offline arcb [] = Ok arcb"
| "add_host_key_documents W ca_certs crls ca_option offline arcb (hkd # hkds) =
     and_then (add_host_key_document W ca_certs crls ca_option offline arcb hkd) (\<lambda>arcb.
       add_host_key_documents W ca_certs crls ca_option offline arcb hkds)"

definition se_make_request ::
    "('p, 'q, 'r, 't, 'h, 'c, 'k) se_env \<Rightarrow> ('p, 'q) SeVerifierImpl \<Rightarrow> (anyhow, 't SeAttestationRequest) outcome" where
  "se_make_request W self =
     (let L = se_pkg W; io = se_io W; f = se_fs W; V = se_vars W;
          root_ca_path = env_or_default V ''SE_CERTIFICATE_ROOT_CA'' (se_root @ ''/root_ca.crt'')
      in
      and_then (list_files_in_folder io f (env_or_default V ''SE_CERTIFICATES_ROOT'' (se_root @ ''/certs''))) (\<lambda>ca_certs.
      and_then (list_files_in_folder io f
          (env_or_default V ''SE_CERTIFICATE_REVOCATION_LISTS_ROOT'' (se_root @ ''/crls''))) (\<lambda>crls.
      let ca_option = (if exists_path f (path_of root_ca_path) then Some root_ca_path else None);
          offline = parse_bool_or_false (env_or_default V ''CERTS_OFFLINE_VERIFICATION'' ''false'')
      in
      and_then (lib_error (attestation_request_new L)) (\<lambda>arcb.
      and_then (list_files_in_folder io f
          (env_or_default V ''DEFAULT_SE_HOST_KEY_DOCUMENTS_ROOT'' (se_root @ ''/hkds''))) (\<lambda>hkds.
      and_then (add_host_key_documents W ca_certs crls ca_option offline arcb hkds) (\<lambda>arcb.
      and_then (lib_error (request_encrypt L arcb)) (\<lambda>request_blob.
      and_then (se_encrypt L self (measurement_key_of L arcb)) (\<lambda>encr_measurement_key.
      and_then (ok_or [''Failed to get nonce binding''] (nonce_of L arcb)) (\<lambda>nonce.
      and_then (se_encrypt L self nonce) (\<lambda>encr_request_nonce.
      and_then (se_io_error (read_file io f (path_of
          (env_or_default V ''SE_IMAGE_HEADER_FILE'' (se_root @ ''/hdr/hdr.bin''))))) (\<lambda>hdr.
      and_then (lib_error (hdr_from_se_image L hdr)) (\<lambda>image_hdr_tags.
        Ok \<lparr>sq_request_blob = request_blob, sq_measurement_size = measurement_exp_size L,
            sq_additional_size = additional_exp_size L arcb, sq_encr_measurement_key = encr_measurement_key,
            sq_encr_request_nonce = encr_request_nonce, sq_image_hdr_tags = image_hdr_tags\<rparr>))))))))))))"

definition SeVerifierImpl_generate_supplemental_challenge ::
    "('p, 'q, 'r, 't, 'h, 'c, 'k) se_env \<Rightarrow> ('p, 'q) SeVerifierImpl \<Rightarrow> string \<Rightarrow> (anyhow, string) outcome" where
  "SeVerifierImpl_generate_supplemental_challenge W self tee_parameters =
     and_then (se_make_request W self) (\<lambda>req. lib_error (request_to_string (se_pkg W) req))"

section \<open>The verifier\<close>

text \<open>\<^verbatim>\<open>OnceCell::get_or_try_init\<close>: a failed initialisation leaves the cell empty.\<close>

definition get_or_try_init :: "'v option \<Rightarrow> ('e, 'v) outcome \<Rightarrow> ('e, 'v) outcome \<times> 'v option" where
  "get_or_try_init cell init =
     (case cell of
        Some v \<Rightarrow> (Ok v, cell)
      | None \<Rightarrow> (init, case init of Ok v \<Rightarrow> Some v | _ \<Rightarrow> None))"

definition SeVerifier_evaluate ::
    "('p, 'q, 'r, 't, 'h, 'c, 'k) se_env \<Rightarrow> ('p, 'q) SeVerifierImpl option \<Rightarrow> TeeEvidence \<Rightarrow> ReportData \<Rightarrow>
     InitDataHash \<Rightarrow> verdict \<times> ('p, 'q) SeVerifierImpl option" where
  "SeVerifier_evaluate W VERIFIER evidence expected_report_data expected_init_data_hash =
     (let (r, cell) = get_or_try_init VERIFIER (SeVerifierImpl_new W) in
      (and_then r (\<lambda>se_verifier.
       and_then (SeVerifierImpl_evaluate W se_verifier evidence) (\<lambda>claims. Ok [(claims, ''cpu'')])), cell))"

definition SeVerifier_challenge ::
    "('p, 'q, 'r, 't, 'h, 'c, 'k) se_env \<Rightarrow> ('p, 'q) SeVerifierImpl option \<Rightarrow> string \<Rightarrow>
     (anyhow, string) outcome \<times> ('p, 'q) SeVerifierImpl option" where
  "SeVerifier_challenge W VERIFIER tee_parameters =
     (let (r, cell) = get_or_try_init VERIFIER (SeVerifierImpl_new W) in
      (and_then r (\<lambda>se_verifier. SeVerifierImpl_generate_supplemental_challenge W se_verifier tee_parameters), cell))"

definition SeVerifier ::
    "('p, 'q, 'r, 't, 'h, 'c, 'k) se_env \<Rightarrow> ('p, 'q) SeVerifierImpl option \<Rightarrow> Verifier" where
  "SeVerifier W VERIFIER =
     \<lparr>v_evaluate = (\<lambda>ev rd ih. fst (SeVerifier_evaluate W VERIFIER ev rd ih)),
      v_generate_supplemental_challenge = (\<lambda>p. fst (SeVerifier_challenge W VERIFIER p))\<rparr>"

section \<open>What acceptance means\<close>

text \<open>The measurement covers the image, the configuration, the user data and the nonce, under the shared key.\<close>

definition se_measured ::
    "('p, 'q, 'r, 't, 'h, 'c, 'k) se_lib \<Rightarrow> ('p, 'q) SeVerifierImpl \<Rightarrow> 't SeAttestationResponse \<Rightarrow> bool" where
  "se_measured L self resp \<longleftrightarrow>
     (\<exists>meas_key nonce key. pkcs1_decrypt L (se_private_key self) (sr_encr_measurement_key resp) = Ok meas_key \<and>
        pkcs1_decrypt L (se_private_key self) (sr_encr_request_nonce resp) = Ok nonce \<and> length nonce = 16 \<and>
        hmac_key L meas_key = Ok key \<and>
        measurement_calculate L (sr_image_hdr_tags resp) (sr_cuid resp) (sr_user_data resp) nonce
          (sr_additional_data resp) key = Ok (sr_measurement resp))"

lemma if_bail_Ok: "(if b then bail m else r) = Ok (y :: json) \<longleftrightarrow> \<not> b \<and> r = Ok y"
  by (simp add: bail_def)

lemma SeVerifierImpl_evaluate_iff:
  "SeVerifierImpl_evaluate W self evidence = Ok claims \<longleftrightarrow>
     (\<exists>resp image att rd. se_from_value (se_pkg W) evidence = Ok resp \<and> se_measured (se_pkg W) self resp \<and>
        additional_from_slice (se_pkg W) (sr_additional_data resp) = Ok (Some image, Some att) \<and>
        from_utf8 (sr_user_data resp) = Some rd \<and>
        claims = se_claims (se_crates W) (sr_cuid resp) rd image att (hdr_tag (se_pkg W) (sr_image_hdr_tags resp)))"
  unfolding SeVerifierImpl_evaluate_def Let_def se_measured_def se_decrypt_def and_then_Ok_iff with_context_iff
    lib_error_iff if_bail_Ok ok_or_iff(1) split_beta not_not
  by (safe; simp; metis prod.collapse)

text \<open>
  The interface asks that a given \<open>report_data\<close> is checked against the evidence, and so the initialisation data.
  This verifier checks neither.
\<close>

lemma se_ignores_expected_data:
  "v_evaluate (SeVerifier W cell) ev rdo iho = v_evaluate (SeVerifier W cell) ev rdo' iho'"
  by (simp add: SeVerifier_def SeVerifier_evaluate_def)

text \<open>Once the keys are loaded they stay; a failure to load them is tried again.\<close>

lemma se_cell_stays:
  "snd (SeVerifier_evaluate W (Some v) ev rd ih) = Some v" "snd (SeVerifier_challenge W (Some v) p) = Some v"
  "\<not> is_ok (SeVerifierImpl_new W) \<Longrightarrow> snd (SeVerifier_evaluate W None ev rd ih) = None"
  by (auto simp: SeVerifier_evaluate_def SeVerifier_challenge_def get_or_try_init_def split: outcome.split)

section \<open>Challenge and response\<close>

text \<open>
  \<open>answers\<close>: the response an ultravisor gives to a request. It measures with the key and the nonce of the request,
  which the verifier encrypted for itself and gets back unchanged.
\<close>

definition se_keys_match :: "('p, 'q, 'r, 't, 'h, 'c, 'k) se_lib \<Rightarrow> ('p, 'q) SeVerifierImpl \<Rightarrow> bool" where
  "se_keys_match L self \<longleftrightarrow>
     (\<forall>m c. pkcs1_encrypt L (se_public_key self) m = Ok c \<longrightarrow> pkcs1_decrypt L (se_private_key self) c = Ok m)"

definition se_answers ::
    "('p, 'q, 'r, 't, 'h, 'c, 'k) se_lib \<Rightarrow> bytes \<Rightarrow> bytes \<Rightarrow> 't SeAttestationRequest \<Rightarrow> 't SeAttestationResponse \<Rightarrow> bool" where
  "se_answers L meas_key nonce req resp \<longleftrightarrow>
     sr_encr_measurement_key resp = sq_encr_measurement_key req \<and>
     sr_encr_request_nonce resp = sq_encr_request_nonce req \<and> sr_image_hdr_tags resp = sq_image_hdr_tags req \<and>
     (\<exists>key. hmac_key L meas_key = Ok key \<and>
        measurement_calculate L (sr_image_hdr_tags resp) (sr_cuid resp) (sr_user_data resp) nonce
          (sr_additional_data resp) key = Ok (sr_measurement resp))"

lemma se_request_keys:
  assumes "se_make_request W self = Ok req"
  obtains arcb nonce where "nonce_of (se_pkg W) arcb = Some nonce"
    "pkcs1_encrypt (se_pkg W) (se_public_key self) (measurement_key_of (se_pkg W) arcb) = Ok (sq_encr_measurement_key req)"
    "pkcs1_encrypt (se_pkg W) (se_public_key self) nonce = Ok (sq_encr_request_nonce req)"
    "request_encrypt (se_pkg W) arcb = Ok (sq_request_blob req)"
  using assms unfolding se_make_request_def Let_def se_encrypt_def and_then_Ok_iff lib_error_iff ok_or_iff(1)
  by (elim exE conjE) (rule that, auto)

lemma se_answer_accepted:
  assumes req: "se_make_request W self = Ok req" and keys: "se_keys_match (se_pkg W) self"
  shows "\<exists>arcb nonce. request_encrypt (se_pkg W) arcb = Ok (sq_request_blob req) \<and> nonce_of (se_pkg W) arcb = Some nonce \<and>
    (\<forall>resp. length nonce = 16 \<and> se_answers (se_pkg W) (measurement_key_of (se_pkg W) arcb) nonce req resp \<longrightarrow>
       se_measured (se_pkg W) self resp)"
proof -
  from req obtain arcb nonce where r: "nonce_of (se_pkg W) arcb = Some nonce"
    "pkcs1_encrypt (se_pkg W) (se_public_key self) (measurement_key_of (se_pkg W) arcb) = Ok (sq_encr_measurement_key req)"
    "pkcs1_encrypt (se_pkg W) (se_public_key self) nonce = Ok (sq_encr_request_nonce req)"
    "request_encrypt (se_pkg W) arcb = Ok (sq_request_blob req)"
    by (rule se_request_keys)
  then have "pkcs1_decrypt (se_pkg W) (se_private_key self) (sq_encr_measurement_key req) = Ok (measurement_key_of (se_pkg W) arcb)"
    "pkcs1_decrypt (se_pkg W) (se_private_key self) (sq_encr_request_nonce req) = Ok nonce"
    using keys by (auto simp: se_keys_match_def)
  then have "\<forall>resp. length nonce = 16 \<and> se_answers (se_pkg W) (measurement_key_of (se_pkg W) arcb) nonce req resp \<longrightarrow>
      se_measured (se_pkg W) self resp"
    unfolding se_answers_def se_measured_def by metis
  with r(1,4) show ?thesis by blast
qed

end
