(* ===== verification/Nvidia_Spdm.thy ===== *)
theory Nvidia_Spdm
  imports Verifier
begin

unbundle bit_operations_syntax

text \<open>
  The SPDM 1.1 messages in an NVIDIA attestation report (\<^verbatim>\<open>deps/verifier/src/nvidia/spdm_request.rs\<close>,
  \<^verbatim>\<open>spdm_response.rs\<close>): the request, the measurement record and the opaque data of the response. The
  \<^verbatim>\<open>Display\<close> implementations of the messages only print them.

  The sizes read from a message are at most 24 bits wide and offsets stay within a slice, so that sums of offsets
  and sizes do not overflow \<^verbatim>\<open>usize\<close>. The index of a measurement count is a \<^verbatim>\<open>u8\<close> and can: \<open>chk\<close> is the
  overflow-check setting of the build. A \<^verbatim>\<open>HashMap\<close> is an association list read by key.
\<close>

section \<open>Requests\<close>

definition SPDM_VERSION_SUPPORTED :: byte where
  "SPDM_VERSION_SUPPORTED = 0x11"

definition SPDM_NONCE_SIZE :: nat where
  "SPDM_NONCE_SIZE = 32"

definition DMTF_MEASUREMENT_SPECIFICATION_VALUE :: byte where
  "DMTF_MEASUREMENT_SPECIFICATION_VALUE = 1"

record SpdmGetMeasurementRequest =
  rq_spdm_version :: byte
  rq_code :: byte
  rq_param1 :: byte
  rq_param2 :: byte
  rq_nonce :: bytes
  rq_slot_id_param :: byte

definition SPDM_GET_MEASUREMENT_REQUEST_SIZE :: nat where
  "SPDM_GET_MEASUREMENT_REQUEST_SIZE = 37"

definition version_error :: "byte \<Rightarrow> string" where
  "version_error v = ''SPDM version 0x'' @ fmt_hex False 0 (unat v) @ '' not supported''"

definition SpdmGetMeasurementRequest_decode ::
    "bytes \<Rightarrow> (anyhow, SpdmGetMeasurementRequest \<times> nat) outcome" where
  "SpdmGetMeasurementRequest_decode bs =
     (if length bs < SPDM_GET_MEASUREMENT_REQUEST_SIZE then bail ''SpdmGetMeasurmentRequest message is too small''
      else if bs ! 0 \<noteq> SPDM_VERSION_SUPPORTED then bail (version_error (bs ! 0))
      else
        and_then (slice bs 4 36) (\<lambda>nonce.
          Ok (\<lparr>rq_spdm_version = bs ! 0, rq_code = bs ! 1, rq_param1 = bs ! 2, rq_param2 = bs ! 3,
               rq_nonce = nonce, rq_slot_id_param = bs ! 36\<rparr>, SPDM_GET_MEASUREMENT_REQUEST_SIZE)))"

section \<open>Measurements\<close>

text \<open>\<^verbatim>\<open>u24::from_le_bytes\<close> and \<^verbatim>\<open>u16::from_le_bytes\<close>.\<close>

definition u24_from_le_bytes :: "bytes \<Rightarrow> nat" where
  "u24_from_le_bytes bs =
     unat (bs ! 0) OR push_bit 8 (unat (bs ! 1)) OR push_bit 16 (unat (bs ! 2))"

record DmtfMeasurement =
  dm_type :: byte
  dm_size :: nat
  dm_value :: bytes

definition DmtfMeasurement_decode :: "bytes \<Rightarrow> (anyhow, DmtfMeasurement) outcome" where
  "DmtfMeasurement_decode bs =
     (if length bs < 3 then bail ''DMTF measurement must be bigger than 3 bytes''
      else
        and_then (slice bs 1 3) (\<lambda>array.
        and_then (ok_or [''DMTF measurement overflow''] (get_range bs 3 (3 + le_nat array))) (\<lambda>value.
          Ok \<lparr>dm_type = bs ! 0, dm_size = le_nat array, dm_value = value\<rparr>)))"

record MeasurementBlock =
  mb_index :: byte
  mb_specification :: byte
  mb_size :: nat
  mb_measurement :: DmtfMeasurement

fun measurement_loop :: "nat \<Rightarrow> bytes \<Rightarrow> nat \<Rightarrow> (anyhow, MeasurementBlock list) outcome" where
  "measurement_loop 0 bs offset = Ok []"
| "measurement_loop (Suc n) bs offset =
     (if length bs < offset + 4 then bail ''MeasurementBlock overflow''
      else if bs ! (offset + 1) \<noteq> DMTF_MEASUREMENT_SPECIFICATION_VALUE
      then bail ''Only measurements encoded in the DMTF layout are supported''
      else
        and_then (slice bs (offset + 2) (offset + 4)) (\<lambda>array.
        and_then (ok_or [''Measurement overflow''] (get_range bs (offset + 4) (offset + 4 + le_nat array))) (\<lambda>data.
        and_then (DmtfMeasurement_decode data) (\<lambda>m.
        and_then (measurement_loop n bs (offset + 4 + le_nat array)) (\<lambda>blocks.
          Ok (\<lparr>mb_index = bs ! offset, mb_specification = bs ! (offset + 1), mb_size = le_nat array,
               mb_measurement = m\<rparr> # blocks))))))"

definition MeasurementRecord_decode :: "nat \<Rightarrow> bytes \<Rightarrow> (anyhow, MeasurementBlock list) outcome" where
  "MeasurementRecord_decode number_of_blocks bs = measurement_loop number_of_blocks bs 0"

section \<open>Opaque data\<close>

datatype OpaqueDataType =
    CertIssuerName | CertAuthorityKeyIdentifier | DriverVersion | GpuInfo | IdSku | VbiosVersion
  | ManufacturerId | TamperDetection | Smc | Vpr | Nvdec0Status | MsrsCnt | CprInfo | BoardId | ChipSku
  | ChipSkuMod | Project | ProjectSku | ProjectSkuMod | Fwid | ProtectedPcieStatus | SwitchPdi
  | FloorsweptPorts | PositionId | LockSwitchStatus | GpuLinkConn | InvalidType

definition OpaqueDataType_codes :: "(nat \<times> OpaqueDataType) list" where
  "OpaqueDataType_codes =
     [(1, CertIssuerName), (2, CertAuthorityKeyIdentifier), (3, DriverVersion), (4, GpuInfo), (5, IdSku),
      (6, VbiosVersion), (7, ManufacturerId), (8, TamperDetection), (9, Smc), (10, Vpr), (11, Nvdec0Status),
      (12, MsrsCnt), (13, CprInfo), (14, BoardId), (15, ChipSku), (16, ChipSkuMod), (17, Project),
      (18, ProjectSku), (19, ProjectSkuMod), (20, Fwid), (21, ProtectedPcieStatus), (22, SwitchPdi),
      (23, FloorsweptPorts), (24, PositionId), (25, LockSwitchStatus), (32, GpuLinkConn)]"

definition OpaqueDataType_from_u16 :: "nat \<Rightarrow> OpaqueDataType option" where
  "OpaqueDataType_from_u16 v = map_of OpaqueDataType_codes v"

fun OpaqueDataType_to_string :: "OpaqueDataType \<Rightarrow> string" where
  "OpaqueDataType_to_string CertIssuerName = ''cert_issuer_name''"
| "OpaqueDataType_to_string CertAuthorityKeyIdentifier = ''cert_authority_key_identifier''"
| "OpaqueDataType_to_string DriverVersion = ''driver_version''"
| "OpaqueDataType_to_string GpuInfo = ''gpu_info''"
| "OpaqueDataType_to_string IdSku = ''id_sku''"
| "OpaqueDataType_to_string VbiosVersion = ''vbios_version''"
| "OpaqueDataType_to_string ManufacturerId = ''manufacturer_id''"
| "OpaqueDataType_to_string TamperDetection = ''tamper_detection''"
| "OpaqueDataType_to_string Smc = ''smc''"
| "OpaqueDataType_to_string Vpr = ''vpr''"
| "OpaqueDataType_to_string Nvdec0Status = ''nvdec0_status''"
| "OpaqueDataType_to_string MsrsCnt = ''measurement_count''"
| "OpaqueDataType_to_string CprInfo = ''cpr_info''"
| "OpaqueDataType_to_string BoardId = ''board_id''"
| "OpaqueDataType_to_string ChipSku = ''chip_sku''"
| "OpaqueDataType_to_string ChipSkuMod = ''chip_sku_mod''"
| "OpaqueDataType_to_string Project = ''project''"
| "OpaqueDataType_to_string ProjectSku = ''project_sku''"
| "OpaqueDataType_to_string ProjectSkuMod = ''project_sku_mod''"
| "OpaqueDataType_to_string Fwid = ''fwid''"
| "OpaqueDataType_to_string ProtectedPcieStatus = ''protected_pcie_status''"
| "OpaqueDataType_to_string SwitchPdi = ''switch_pdi''"
| "OpaqueDataType_to_string FloorsweptPorts = ''floorswept_ports''"
| "OpaqueDataType_to_string PositionId = ''position_id''"
| "OpaqueDataType_to_string LockSwitchStatus = ''lock_switch_status''"
| "OpaqueDataType_to_string GpuLinkConn = ''gpu_link_conn''"
| "OpaqueDataType_to_string InvalidType = ''invalid''"

fun join_with :: "string \<Rightarrow> string list \<Rightarrow> string" where
  "join_with sep [] = []"
| "join_with sep [s] = s"
| "join_with sep (s # t # ss) = s @ sep @ join_with sep (t # ss)"

definition format_vbios_version :: "bytes \<Rightarrow> string option" where
  "format_vbios_version bs =
     Option.bind (get_range bs 0 (length bs div 2)) (\<lambda>half.
       let version = join_with ''.'' (map (\<lambda>b. fmt_hex False 2 (unat b)) (rev half)) in
       if length bs div 2 < length bs
       then Some (version @ ''.'' @ fmt_hex False 2 (unat (bs ! (length bs div 2)))) else None)"

definition decode_switch_pdi :: "crates \<Rightarrow> bytes \<Rightarrow> (anyhow, json) outcome" where
  "decode_switch_pdi E bs =
     (if length bs mod 8 \<noteq> 0 then bail ''OpaqueDataType is not multiple of 8''
      else Ok (JArray (map (\<lambda>c. JString (hex_encode E c)) (chunks_exact 8 bs))))"

text \<open>The index is incremented after each chunk, the last one included.\<close>

fun count_loop :: "bool \<Rightarrow> byte \<Rightarrow> json_map \<Rightarrow> bytes list \<Rightarrow> (anyhow, json_map) outcome" where
  "count_loop chk i values [] = Ok values"
| "count_loop chk i values (c # cs) =
     (if chk \<and> i = 255 then Panic
      else count_loop chk (i + 1) (json_insert (fmt_dec (unat i)) (JNumber (int (le_nat c))) values) cs)"

definition decode_measurement_count :: "bool \<Rightarrow> bytes \<Rightarrow> (anyhow, json) outcome" where
  "decode_measurement_count chk bs =
     (if length bs mod 4 \<noteq> 0 then bail ''OpaqueDataType is not multiple of 4''
      else map_ok JObject (count_loop chk 1 [] (chunks_exact 4 bs)))"

definition opaque_value :: "crates \<Rightarrow> bool \<Rightarrow> OpaqueDataType \<Rightarrow> bytes \<Rightarrow> (anyhow, json) outcome" where
  "opaque_value E chk t data =
     (if t \<in> {DriverVersion, ChipSku, ChipSkuMod, Nvdec0Status, Project, ProjectSku, ProtectedPcieStatus}
      then Ok (JString (trim_end_matches (CHR 0x00) (from_utf8_lossy data)))
      else if t = VbiosVersion
      then and_then (ok_or [''Invalid gpu vbios version''] (format_vbios_version data)) (\<lambda>v. Ok (JString v))
      else if t = MsrsCnt then decode_measurement_count chk data
      else if t = SwitchPdi then decode_switch_pdi E data
      else if t = InvalidType then bail ''Hashmap: Invalid OpaqueDataType''
      else Ok (JString (hex_encode E data)))"

function opaque_loop ::
    "crates \<Rightarrow> bool \<Rightarrow> bytes \<Rightarrow> nat \<Rightarrow> json_map \<Rightarrow> (anyhow, json_map) outcome" where
  "opaque_loop E chk bs offset m =
     (if offset + 4 < length bs then
        and_then (slice bs offset (offset + 2)) (\<lambda>ty.
        and_then (ok_or [''Invalid OpaqueDataType '' @ fmt_dec (le_nat ty)]
                    (OpaqueDataType_from_u16 (le_nat ty))) (\<lambda>t.
        and_then (slice bs (offset + 2) (offset + 4)) (\<lambda>len.
        and_then (ok_or [''OpaqueData overflow: offset 0x'' @ fmt_hex False 0 (offset + 4) @ '', data_size 0x'' @
                         fmt_hex False 0 (le_nat len)]
                    (get_range bs (offset + 4) (offset + 4 + le_nat len))) (\<lambda>data.
        and_then (opaque_value E chk t data) (\<lambda>v.
          if map_of m (OpaqueDataType_to_string t) \<noteq> None
          then bail (''Duplicated OpaqueDataType: '' @ OpaqueDataType_to_string t)
          else opaque_loop E chk bs (offset + 4 + le_nat len) (json_insert (OpaqueDataType_to_string t) v m))))))
      else Ok m)"
  by pat_completeness auto
termination
  by (relation "measure (\<lambda>(E, chk, bs, offset, m). length bs - offset)") auto

declare opaque_loop.simps [simp del]

definition OpaqueData_decode :: "crates \<Rightarrow> bool \<Rightarrow> bytes \<Rightarrow> (anyhow, json_map) outcome" where
  "OpaqueData_decode E chk bs =
     (if bs = [] then Ok []
      else
        and_then (opaque_loop E chk bs 0 []) (\<lambda>m.
          if map_of m (OpaqueDataType_to_string VbiosVersion) = None \<or>
             map_of m (OpaqueDataType_to_string DriverVersion) = None
          then bail ''Both vbios_version and driver_version must be present in the report''
          else Ok m))"

section \<open>Responses\<close>

record SpdmGetMeasurementsResponse =
  rs_spdm_version :: byte
  rs_code :: byte
  rs_param1 :: byte
  rs_param2 :: byte
  number_of_blocks :: nat
  measurement_record_length :: nat
  measurement_record :: "MeasurementBlock list"
  rs_nonce :: bytes
  opaque_data_length :: nat
  opaque_data :: json_map
  rs_signature :: bytes

definition response_record :: "bytes \<Rightarrow> nat \<Rightarrow> nat \<Rightarrow> (anyhow, MeasurementBlock list) outcome" where
  "response_record bs n len =
     (if 0 < len
      then and_then (ok_or [''MeasurementRecord overflow''] (get_range bs 8 (8 + len))) (\<lambda>data.
             MeasurementRecord_decode n data)
      else Ok [])"

definition response_opaque :: "crates \<Rightarrow> bool \<Rightarrow> bytes \<Rightarrow> nat \<Rightarrow> nat \<Rightarrow> (anyhow, json_map) outcome" where
  "response_opaque E chk bs offset len =
     (if 0 < len
      then and_then (ok_or [''OpaqueData overflow''] (get_range bs offset (offset + len))) (\<lambda>data.
             OpaqueData_decode E chk data)
      else Ok [])"

definition SpdmGetMeasurementsResponse_decode ::
    "crates \<Rightarrow> bool \<Rightarrow> bytes \<Rightarrow> nat \<Rightarrow> (anyhow, SpdmGetMeasurementsResponse \<times> nat) outcome" where
  "SpdmGetMeasurementsResponse_decode E chk bs signature_length =
     (if length bs < 8 then bail ''SpdmGetMeasurementsResponse message smaller 8 bytes''
      else if bs ! 0 \<noteq> SPDM_VERSION_SUPPORTED then bail (version_error (bs ! 0))
      else
        and_then (slice bs 5 8) (\<lambda>array.
        let n = unat (bs ! 4); len = u24_from_le_bytes array in
        and_then (response_record bs n len) (\<lambda>record.
        let offset = 8 + len in
        and_then (ok_or [''Nonce overflow''] (get_range bs offset (offset + 32))) (\<lambda>nonce.
        let offset = offset + 32 in
        and_then (ok_or [''OpaqueDataLength overlow''] (get_range bs offset (offset + 2))) (\<lambda>array.
        let opaque_len = le_nat array; offset = offset + 2 in
        and_then (response_opaque E chk bs offset opaque_len) (\<lambda>opaque.
        let offset = offset + opaque_len in
        and_then (ok_or [''Signature overflow''] (get_range bs offset (offset + signature_length))) (\<lambda>signature.
          Ok (\<lparr>rs_spdm_version = bs ! 0, rs_code = bs ! 1, rs_param1 = bs ! 2, rs_param2 = bs ! 3,
               number_of_blocks = n, measurement_record_length = len, measurement_record = record,
               rs_nonce = nonce, opaque_data_length = opaque_len, opaque_data = opaque,
               rs_signature = signature\<rparr>, offset + signature_length))))))))"

section \<open>Layout of the messages\<close>

lemma or_push_bit: "(x :: nat) < 2 ^ n \<Longrightarrow> x OR push_bit n y = x + 2 ^ n * y"
proof -
  assume "x < 2 ^ n"
  then have low: "take_bit n x = x" by (simp add: take_bit_nat_eq_self)
  have "x AND push_bit n y = 0"
  proof (rule bit_eqI)
    fix i
    have "bit x i \<longleftrightarrow> i < n \<and> bit x i" by (subst (1) low [symmetric]) (simp add: bit_take_bit_iff)
    then show "bit (x AND push_bit n y) i \<longleftrightarrow> bit (0 :: nat) i" by (auto simp: bit_simps)
  qed
  then show ?thesis by (simp add: disjunctive_add_eq_or [symmetric] push_bit_eq_mult)
qed

lemma u24_le: "length bs = 3 \<Longrightarrow> u24_from_le_bytes bs = le_nat bs"
proof -
  assume "length bs = 3"
  then obtain a b c where bs: "bs = [a, b, c]" by (auto simp: numeral_3_eq_3 length_Suc_conv)
  have lt: "unat a < 2 ^ 8" "unat b < 2 ^ 8" using bounds(4) [of a] bounds(4) [of b] by simp_all
  have "push_bit 8 (unat b) OR push_bit 16 (unat c) = push_bit 8 (unat b OR push_bit 8 (unat c))"
    by (simp add: push_bit_or)
  then show ?thesis
    using or_push_bit [OF lt(1)] or_push_bit [OF lt(2)] by (simp add: u24_from_le_bytes_def bs)
qed

text \<open>\<open>record_layout\<close>: the bytes start with the blocks, each with padding behind its measurement.\<close>

fun record_layout :: "MeasurementBlock list \<Rightarrow> bytes \<Rightarrow> bool" where
  "record_layout [] bs \<longleftrightarrow> True"
| "record_layout (b # blocks) bs \<longleftrightarrow>
     (\<exists>pad rest.
        bs = [mb_index b, 1] @ le_bytes 2 (mb_size b) @ [dm_type (mb_measurement b)] @
             le_bytes 2 (dm_size (mb_measurement b)) @ dm_value (mb_measurement b) @ pad @ rest \<and>
        mb_specification b = 1 \<and> length (dm_value (mb_measurement b)) = dm_size (mb_measurement b) \<and>
        mb_size b = 3 + dm_size (mb_measurement b) + length pad \<and> mb_size b < 65536 \<and>
        record_layout blocks rest)"

lemma split_at_length:
  "xs @ ys = zs \<Longrightarrow> length xs = k \<Longrightarrow> take k zs = xs \<and> drop k zs = ys \<and> k \<le> length zs"
  by auto

lemma le16_append:
  assumes "k < 65536"
  shows "le_bytes 2 k @ ys = b # c # zs \<longleftrightarrow> k = le_nat [b, c] \<and> ys = zs"
proof -
  have "le_bytes 2 k @ ys = b # c # zs \<longleftrightarrow> le_bytes 2 k = [b, c] \<and> ys = zs"
    using append_eq_append_conv [of "le_bytes 2 k" "[b, c]" ys zs] by simp
  moreover have "le_bytes 2 k = [b, c] \<longleftrightarrow> k = le_nat [b, c]"
    using le_nat_le_bytes_id [of k 2] le_bytes_le_nat [of "[b, c]"] assms by (auto simp: numeral_2_eq_2)
  ultimately show ?thesis by simp
qed

lemma le_nat2_less: "le_nat [b, c] < 65536"
  using le_nat_less [of "[b, c]"] by simp

lemma DmtfMeasurement_decode_iff:
  "DmtfMeasurement_decode bs = Ok m \<longleftrightarrow>
     (\<exists>pad. bs = [dm_type m] @ le_bytes 2 (dm_size m) @ dm_value m @ pad \<and>
        length (dm_value m) = dm_size m \<and> dm_size m < 65536)"
proof (cases "3 \<le> length bs")
  case True
  then obtain t b c rest where bs: "bs = t # b # c # rest" by (auto simp: numeral_3_eq_3 Suc_le_length_iff)
  have dec: "DmtfMeasurement_decode bs =
      (if le_nat [b, c] \<le> length rest
       then Ok \<lparr>dm_type = t, dm_size = le_nat [b, c], dm_value = take (le_nat [b, c]) rest\<rparr>
       else Err [''DMTF measurement overflow''])"
    by (simp add: bs DmtfMeasurement_decode_def slice_def get_range_def range_ok_def numeral_2_eq_2 numeral_3_eq_3)
  show ?thesis (is "_ \<longleftrightarrow> ?R")
  proof
    assume "DmtfMeasurement_decode bs = Ok m"
    then have m: "m = \<lparr>dm_type = t, dm_size = le_nat [b, c], dm_value = take (le_nat [b, c]) rest\<rparr>"
      "le_nat [b, c] \<le> length rest"
      by (auto simp: dec split: if_splits)
    show ?R
      using le16_append [OF le_nat2_less, of b c "take (le_nat [b, c]) rest @ drop (le_nat [b, c]) rest" b c rest] m
        le_nat2_less [of b c]
      by (intro exI [of _ "drop (le_nat [b, c]) rest"]) (simp add: bs)
  next
    assume ?R
    then obtain pad where pad: "bs = [dm_type m] @ le_bytes 2 (dm_size m) @ dm_value m @ pad"
      "length (dm_value m) = dm_size m" "dm_size m < 65536" by blast
    then have t: "dm_type m = t" and tl: "le_bytes 2 (dm_size m) @ dm_value m @ pad = b # c # rest"
      by (simp_all add: bs)
    from tl have "dm_size m = le_nat [b, c]" "dm_value m @ pad = rest"
      using le16_append [OF pad(3)] by blast+
    with t show "DmtfMeasurement_decode bs = Ok m" using pad(2) by (auto simp: dec)
  qed
next
  case False
  then show ?thesis by (auto simp: DmtfMeasurement_decode_def outcome_iff)
qed

lemma measurement_loop_shift: "measurement_loop n bs offset = measurement_loop n (drop offset bs) 0"
proof (induction n arbitrary: bs offset)
  case 0
  then show ?case by simp
next
  case (Suc n)
  have tail: "measurement_loop n bs (offset + 4 + k) = measurement_loop n (drop offset bs) (0 + 4 + k)" for k
    using Suc [of bs "offset + 4 + k"] Suc [of "drop offset bs" "4 + k"] by (simp add: add.commute add.left_commute)
  show ?case
    unfolding measurement_loop.simps tail
    by (auto simp: slice_def get_range_def range_ok_def add.commute add.left_commute intro!: and_then_cong)
qed

lemma four_bytes:
  assumes "4 \<le> length bs"
  obtains a b c d rest where "bs = a # b # c # d # rest"
  using assms by (auto simp: numeral_eq_Suc Suc_le_length_iff)

lemma measurement_step:
  "measurement_loop (Suc n) (i # sp # c # d # rest) 0 =
     (if sp \<noteq> 1 then bail ''Only measurements encoded in the DMTF layout are supported''
      else if length rest < le_nat [c, d] then Err [''Measurement overflow'']
      else and_then (DmtfMeasurement_decode (take (le_nat [c, d]) rest)) (\<lambda>m.
           and_then (measurement_loop n (drop (le_nat [c, d]) rest) 0) (\<lambda>blocks.
             Ok (\<lparr>mb_index = i, mb_specification = sp, mb_size = le_nat [c, d], mb_measurement = m\<rparr> # blocks))))"
proof -
  let ?bs = "i # sp # c # d # rest" and ?k = "le_nat [c, d]"
  have "drop (?k + 4) ?bs = drop ?k rest" unfolding drop_drop [symmetric] by simp
  then have tail: "drop (4 + ?k) ?bs = drop ?k rest" by (simp only: add.commute)
  have parts: "slice ?bs (0 + 2) (0 + 4) = (Ok [c, d] :: (anyhow, bytes) outcome)"
    "get_range ?bs (0 + 4) (0 + 4 + ?k) = (if length rest < ?k then None else Some (take ?k rest))"
    "measurement_loop n ?bs (0 + 4 + ?k) = measurement_loop n (drop ?k rest) 0"
    using measurement_loop_shift [of n ?bs "0 + 4 + ?k"]
    by (simp_all add: slice_def get_range_def range_ok_def tail del: le_nat.simps)
  show ?thesis
    unfolding measurement_loop.simps parts and_then.simps
    by (simp add: DMTF_MEASUREMENT_SPECIFICATION_VALUE_def del: le_nat.simps)
qed

lemma record_layout_iff:
  "MeasurementRecord_decode n bs = Ok blocks \<longleftrightarrow> length blocks = n \<and> record_layout blocks bs"
  unfolding MeasurementRecord_decode_def
proof (induction n arbitrary: bs blocks)
  case 0
  then show ?case by auto
next
  case (Suc n)
  show ?case
  proof (cases "4 \<le> length bs")
    case False
    then show ?thesis by (cases blocks) (auto simp: outcome_iff)
  next
    case True
    then obtain i sp c d rest where bs: "bs = i # sp # c # d # rest" by (rule four_bytes)
    let ?k = "le_nat [c, d]"
    note step = measurement_step [of n i sp c d rest, folded bs]
    show ?thesis
    proof (cases blocks)
      case Nil
      then show ?thesis by (auto simp: step outcome_iff split: if_splits)
    next
      case (Cons b bl)
      let ?m = "mb_measurement b"
      have "measurement_loop (Suc n) bs 0 = Ok blocks \<longleftrightarrow>
          sp = 1 \<and> ?k \<le> length rest \<and> mb_index b = i \<and> mb_specification b = 1 \<and> mb_size b = ?k \<and>
          DmtfMeasurement_decode (take ?k rest) = Ok ?m \<and> measurement_loop n (drop ?k rest) 0 = Ok bl"
        by (cases b) (auto simp: Cons step outcome_iff simp del: measurement_loop.simps le_nat.simps)
      also have "\<dots> \<longleftrightarrow> length blocks = Suc n \<and> record_layout blocks bs" (is "?L \<longleftrightarrow> ?R")
      proof
        assume ?L
        then obtain pad where pad: "take ?k rest = [dm_type ?m] @ le_bytes 2 (dm_size ?m) @ dm_value ?m @ pad"
          "length (dm_value ?m) = dm_size ?m" and b: "sp = 1" "?k \<le> length rest" "mb_index b = i"
          "mb_specification b = 1" "mb_size b = ?k" and bl: "length bl = n" "record_layout bl (drop ?k rest)"
          by (auto simp: DmtfMeasurement_decode_iff Suc)
        have "length (take ?k rest) = 3 + dm_size ?m + length pad" unfolding pad(1) by (simp add: pad(2))
        then have size: "mb_size b = 3 + dm_size ?m + length pad" using b by simp
        have "bs = [mb_index b, 1] @ le_bytes 2 (mb_size b) @ take ?k rest @ drop ?k rest"
          using le16_append [OF le_nat2_less, of c d rest c d rest] b by (simp add: bs)
        then have "bs = [mb_index b, 1] @ le_bytes 2 (mb_size b) @ [dm_type ?m] @ le_bytes 2 (dm_size ?m) @
            dm_value ?m @ pad @ drop ?k rest"
          unfolding pad(1) by simp
        then show ?R
          unfolding Cons record_layout.simps using pad(2) b bl size le_nat2_less [of c d]
          by (intro conjI exI [of _ pad] exI [of _ "drop ?k rest"]) simp_all
      next
        assume ?R
        then obtain pad more where eq: "bs = [mb_index b, 1] @ le_bytes 2 (mb_size b) @ [dm_type ?m] @
            le_bytes 2 (dm_size ?m) @ dm_value ?m @ pad @ more"
          and b: "mb_specification b = 1" "length (dm_value ?m) = dm_size ?m"
            "mb_size b = 3 + dm_size ?m + length pad" "mb_size b < 65536"
          and bl: "length bl = n" "record_layout bl more"
          by (auto simp: Cons)
        from eq have i: "mb_index b = i" "sp = 1" and tl: "le_bytes 2 (mb_size b) @ ([dm_type ?m] @
            le_bytes 2 (dm_size ?m) @ dm_value ?m @ pad) @ more = c # d # rest"
          by (simp_all add: bs)
        let ?X = "[dm_type ?m] @ le_bytes 2 (dm_size ?m) @ dm_value ?m @ pad"
        have k: "mb_size b = ?k" and rest: "?X @ more = rest"
          using tl unfolding le16_append [OF b(4)] by (rule conjunct1, rule conjunct2)
        have len: "length ?X = ?k" unfolding k [symmetric] using b(2,3) by simp
        have td: "take ?k rest = ?X \<and> drop ?k rest = more \<and> ?k \<le> length rest"
          by (rule split_at_length [OF rest len])
        have "DmtfMeasurement_decode (take ?k rest) = Ok ?m"
          unfolding DmtfMeasurement_decode_iff using td b by (intro exI [of _ pad]) simp
        then show ?L using td i k b(1) bl by (simp add: Suc del: le_nat.simps)
      qed
      finally show ?thesis .
    qed
  qed
qed

text \<open>
  \<open>items_layout\<close>: the bytes are the items, each with its decoded value, and at most four bytes that are not looked
  at.
\<close>

definition OpaqueDataType_code :: "OpaqueDataType \<Rightarrow> nat option" where
  "OpaqueDataType_code t = map_of (map (\<lambda>(c, t). (t, c)) OpaqueDataType_codes) t"

fun items_layout :: "crates \<Rightarrow> bool \<Rightarrow> (OpaqueDataType \<times> json) list \<Rightarrow> bytes \<Rightarrow> bool" where
  "items_layout E chk [] bs \<longleftrightarrow> length bs \<le> 4"
| "items_layout E chk ((t, v) # items) bs \<longleftrightarrow>
     (\<exists>c data rest.
        OpaqueDataType_code t = Some c \<and> bs = le_bytes 2 c @ le_bytes 2 (length data) @ data @ rest \<and>
        length data < 65536 \<and> 4 < length bs \<and> opaque_value E chk t data = Ok v \<and> items_layout E chk items rest)"

lemma OpaqueDataType_codes_distinct:
  "distinct (map fst OpaqueDataType_codes)" "distinct (map snd OpaqueDataType_codes)"
  by (simp_all add: OpaqueDataType_codes_def)

lemma OpaqueDataType_code_iff: "OpaqueDataType_code t = Some c \<longleftrightarrow> OpaqueDataType_from_u16 c = Some t"
proof -
  have "distinct (map fst (map (\<lambda>(c, t). (t, c)) OpaqueDataType_codes))"
    using OpaqueDataType_codes_distinct(2) by (simp add: comp_def case_prod_unfold)
  then have "OpaqueDataType_code t = Some c \<longleftrightarrow> (c, t) \<in> set OpaqueDataType_codes"
    unfolding OpaqueDataType_code_def by (subst map_of_eq_Some_iff) auto
  then show ?thesis
    using OpaqueDataType_codes_distinct(1) by (simp add: OpaqueDataType_from_u16_def map_of_eq_Some_iff)
qed

lemma OpaqueDataType_code_less: "OpaqueDataType_code t = Some c \<Longrightarrow> c < 65536"
proof -
  assume "OpaqueDataType_code t = Some c"
  then have "(c, t) \<in> set OpaqueDataType_codes"
    unfolding OpaqueDataType_code_iff OpaqueDataType_from_u16_def by (rule map_of_SomeD)
  then show ?thesis by (auto simp: OpaqueDataType_codes_def)
qed

lemma OpaqueDataType_to_string_inj:
  "OpaqueDataType_to_string s = OpaqueDataType_to_string t \<longleftrightarrow> s = t"
  by (cases s; cases t; simp)

definition insert_items :: "json_map \<Rightarrow> (OpaqueDataType \<times> json) list \<Rightarrow> json_map" where
  "insert_items m items = foldl (\<lambda>m (t, v). json_insert (OpaqueDataType_to_string t) v m) m items"

definition new_items :: "json_map \<Rightarrow> (OpaqueDataType \<times> json) list \<Rightarrow> bool" where
  "new_items m items \<longleftrightarrow>
     distinct (map fst items) \<and> list_all (\<lambda>(t, v). map_of m (OpaqueDataType_to_string t) = None) items"

lemma new_items_simps [simp]:
  "new_items m []"
  "new_items m ((t, v) # items) \<longleftrightarrow>
     map_of m (OpaqueDataType_to_string t) = None \<and> new_items (json_insert (OpaqueDataType_to_string t) v m) items"
  by (auto simp: new_items_def list_all_iff OpaqueDataType_to_string_inj split: if_splits) force+

lemma opaque_step:
  assumes "drop offset bs = x # y # z # w # rest" and "rest \<noteq> []"
  shows "opaque_loop E chk bs offset m = Ok m' \<longleftrightarrow>
    (\<exists>t v. OpaqueDataType_from_u16 (le_nat [x, y]) = Some t \<and> le_nat [z, w] \<le> length rest \<and>
       opaque_value E chk t (take (le_nat [z, w]) rest) = Ok v \<and>
       map_of m (OpaqueDataType_to_string t) = None \<and>
       opaque_loop E chk bs (offset + 4 + le_nat [z, w]) (json_insert (OpaqueDataType_to_string t) v m) = Ok m')"
proof -
  have len: "length bs = offset + 4 + length rest"
    using arg_cong [OF assms(1), of length] assms(2) by (cases rest) auto
  have rest: "drop (offset + 4) bs = rest" "drop (offset + 2) bs = z # w # rest"
    using arg_cong [OF assms(1), of "drop 4"] arg_cong [OF assms(1), of "drop 2"]
    by (simp_all add: numeral_eq_Suc)
  have parts: "slice bs offset (offset + 2) = Ok [x, y]" "slice bs (offset + 2) (offset + 4) = Ok [z, w]"
    "get_range bs (offset + 4) (offset + 4 + k) = (if k \<le> length rest then Some (take k rest) else None)" for k
    using assms(1) rest len by (simp_all add: slice_def get_range_def range_ok_def numeral_eq_Suc)
  show ?thesis
    unfolding opaque_loop.simps [of E chk bs offset m] parts using len assms(2)
    by (auto simp: outcome_iff simp del: le_nat.simps split: if_splits)
qed

lemma items_layout_step:
  assumes "rest \<noteq> []"
  shows "items_layout E chk ((t, v) # items) (x # y # z # w # rest) \<longleftrightarrow>
    OpaqueDataType_from_u16 (le_nat [x, y]) = Some t \<and> le_nat [z, w] \<le> length rest \<and>
    opaque_value E chk t (take (le_nat [z, w]) rest) = Ok v \<and> items_layout E chk items (drop (le_nat [z, w]) rest)"
    (is "?L \<longleftrightarrow> ?R")
proof
  assume ?L
  then obtain c data more where c: "OpaqueDataType_code t = Some c"
    and eq: "x # y # z # w # rest = le_bytes 2 c @ le_bytes 2 (length data) @ data @ more"
    and d: "length data < 65536" "opaque_value E chk t data = Ok v" "items_layout E chk items more"
    by auto
  have cxy: "c = le_nat [x, y]" "le_bytes 2 (length data) @ data @ more = z # w # rest"
    using le16_append [OF OpaqueDataType_code_less [OF c]] eq [symmetric] by blast+
  then have "length data = le_nat [z, w]" "data @ more = rest"
    using le16_append [OF d(1)] by blast+
  then show ?R using c cxy d by (auto simp: OpaqueDataType_code_iff)
next
  assume R: ?R
  let ?k = "le_nat [z, w]" and ?c = "le_nat [x, y]"
  have "le_bytes 2 ?k @ rest = z # w # rest" "le_bytes 2 ?c @ z # w # rest = x # y # z # w # rest"
    using le16_append [OF le_nat2_less] by blast+
  moreover have "length (take ?k rest) = ?k" using R by simp
  ultimately show ?L
    unfolding items_layout.simps OpaqueDataType_code_iff using R le_nat2_less [of z w] assms
    by (intro exI [of _ ?c] exI [of _ "take ?k rest"] exI [of _ "drop ?k rest"] conjI)
      (simp_all del: le_nat.simps)
qed

lemma opaque_loop_iff:
  "opaque_loop E chk bs offset m = Ok m' \<longleftrightarrow>
     (\<exists>items. items_layout E chk items (drop offset bs) \<and> new_items m items \<and> m' = insert_items m items)"
proof (induction "length bs - offset" arbitrary: offset m rule: less_induct)
  case less
  show ?case
  proof (cases "offset + 4 < length bs")
    case False
    then have end_: "items_layout E chk items (drop offset bs) \<longleftrightarrow> items = []" for items by (cases items) auto
    then show ?thesis
      using False opaque_loop.simps [of E chk bs offset m] by (auto simp: insert_items_def)
  next
    case True
    then have "4 \<le> length (drop offset bs)" by simp
    then obtain x y z w rest where bs: "drop offset bs = x # y # z # w # rest" by (rule four_bytes)
    have rest: "rest \<noteq> []" using arg_cong [OF bs, of length] True by auto
    let ?k = "le_nat [z, w]"
    have drop: "drop (offset + 4 + ?k) bs = drop ?k rest"
      using arg_cong [OF bs, of "drop (4 + ?k)"] by (simp add: add.commute add.left_commute numeral_eq_Suc)
    have IH: "opaque_loop E chk bs (offset + 4 + ?k) n = Ok m' \<longleftrightarrow>
        (\<exists>items. items_layout E chk items (drop ?k rest) \<and> new_items n items \<and> m' = insert_items n items)" for n
      using less [of "offset + 4 + ?k" n] True drop by simp
    show ?thesis
      unfolding opaque_step [OF bs rest] IH bs
    proof
      assume "\<exists>t v. OpaqueDataType_from_u16 (le_nat [x, y]) = Some t \<and> ?k \<le> length rest \<and>
          opaque_value E chk t (take ?k rest) = Ok v \<and> map_of m (OpaqueDataType_to_string t) = None \<and>
          (\<exists>items. items_layout E chk items (drop ?k rest) \<and>
             new_items (json_insert (OpaqueDataType_to_string t) v m) items \<and>
             m' = insert_items (json_insert (OpaqueDataType_to_string t) v m) items)"
      then obtain t v items where *: "items_layout E chk ((t, v) # items) (x # y # z # w # rest)"
        "new_items m ((t, v) # items)" "m' = insert_items m ((t, v) # items)"
        unfolding items_layout_step [OF rest] by (auto simp: insert_items_def simp del: le_nat.simps)
      then show "\<exists>items. items_layout E chk items (x # y # z # w # rest) \<and> new_items m items \<and> m' = insert_items m items"
        by blast
    next
      assume "\<exists>items. items_layout E chk items (x # y # z # w # rest) \<and> new_items m items \<and> m' = insert_items m items"
      then obtain items where *: "items_layout E chk items (x # y # z # w # rest)" "new_items m items"
        "m' = insert_items m items" by blast
      then obtain t v its where items: "items = (t, v) # its" using rest by (cases items) auto
      show "\<exists>t v. OpaqueDataType_from_u16 (le_nat [x, y]) = Some t \<and> ?k \<le> length rest \<and>
          opaque_value E chk t (take ?k rest) = Ok v \<and> map_of m (OpaqueDataType_to_string t) = None \<and>
          (\<exists>items. items_layout E chk items (drop ?k rest) \<and>
             new_items (json_insert (OpaqueDataType_to_string t) v m) items \<and>
             m' = insert_items (json_insert (OpaqueDataType_to_string t) v m) items)"
        using * unfolding items items_layout_step [OF rest] by (auto simp: insert_items_def simp del: le_nat.simps)
    qed
  qed
qed

text \<open>
  A response is its signed part and the signature. \<open>rec\<close> and \<open>opq\<close> are the bytes of the measurement record and of
  the opaque data.
\<close>

definition signed_part :: "SpdmGetMeasurementsResponse \<Rightarrow> bytes \<Rightarrow> bytes \<Rightarrow> bytes" where
  "signed_part r rec opq =
     [rs_spdm_version r, rs_code r, rs_param1 r, rs_param2 r, word_of_nat (number_of_blocks r)] @
     le_bytes 3 (measurement_record_length r) @ rec @ rs_nonce r @ le_bytes 2 (opaque_data_length r) @ opq"

definition record_ok :: "SpdmGetMeasurementsResponse \<Rightarrow> bytes \<Rightarrow> bool" where
  "record_ok r rec \<longleftrightarrow>
     length rec = measurement_record_length r \<and> measurement_record_length r < 2 ^ 24 \<and> number_of_blocks r < 256 \<and>
     (if rec = [] then measurement_record r = []
      else length (measurement_record r) = number_of_blocks r \<and> record_layout (measurement_record r) rec)"

definition opaque_ok :: "crates \<Rightarrow> bool \<Rightarrow> SpdmGetMeasurementsResponse \<Rightarrow> bytes \<Rightarrow> bool" where
  "opaque_ok E chk r opq \<longleftrightarrow>
     length opq = opaque_data_length r \<and> opaque_data_length r < 65536 \<and>
     (if opq = [] then opaque_data r = []
      else \<exists>items. items_layout E chk items opq \<and> distinct (map fst items) \<and>
             opaque_data r = insert_items [] items \<and> {VbiosVersion, DriverVersion} \<subseteq> fst ` set items)"

definition response_ok :: "crates \<Rightarrow> bool \<Rightarrow> nat \<Rightarrow> SpdmGetMeasurementsResponse \<Rightarrow> bytes \<Rightarrow> bytes \<Rightarrow> bool" where
  "response_ok E chk k r rec opq \<longleftrightarrow>
     rs_spdm_version r = SPDM_VERSION_SUPPORTED \<and> length (rs_nonce r) = 32 \<and> length (rs_signature r) = k \<and>
     record_ok r rec \<and> opaque_ok E chk r opq"

lemma map_of_insert_items:
  "map_of (insert_items m items) (OpaqueDataType_to_string t) = None \<longleftrightarrow>
     map_of m (OpaqueDataType_to_string t) = None \<and> t \<notin> fst ` set items"
proof (induction items arbitrary: m)
  case Nil
  then show ?case by (simp add: insert_items_def)
next
  case (Cons i items)
  obtain u v where "i = (u, v)" by (cases i)
  with Cons [of "json_insert (OpaqueDataType_to_string u) v m"] show ?case
    by (auto simp: insert_items_def OpaqueDataType_to_string_inj)
qed

lemma OpaqueData_decode_iff:
  assumes "opq \<noteq> []"
  shows "OpaqueData_decode E chk opq = Ok m \<longleftrightarrow>
    (\<exists>items. items_layout E chk items opq \<and> distinct (map fst items) \<and> m = insert_items [] items \<and>
       {VbiosVersion, DriverVersion} \<subseteq> fst ` set items)"
proof -
  have new: "new_items [] items \<longleftrightarrow> distinct (map fst items)" for items
    by (auto simp: new_items_def list_all_iff)
  have present: "map_of (insert_items [] items) (OpaqueDataType_to_string t) \<noteq> None \<longleftrightarrow> t \<in> fst ` set items" for items t
    by (simp add: map_of_insert_items del: not_None_eq)
  have "OpaqueData_decode E chk opq = Ok m \<longleftrightarrow>
      opaque_loop E chk opq 0 [] = Ok m \<and> map_of m (OpaqueDataType_to_string VbiosVersion) \<noteq> None \<and>
      map_of m (OpaqueDataType_to_string DriverVersion) \<noteq> None"
    using assms unfolding OpaqueData_decode_def by (auto simp: outcome_iff simp del: OpaqueDataType_to_string.simps)
  also have "\<dots> \<longleftrightarrow> (\<exists>items. items_layout E chk items opq \<and> distinct (map fst items) \<and> m = insert_items [] items \<and>
       {VbiosVersion, DriverVersion} \<subseteq> fst ` set items)"
    unfolding opaque_loop_iff new insert_subset present [symmetric] by auto
  finally show ?thesis .
qed

lemma get_range_drop:
  "get_range bs i (i + n) = (if i + n \<le> length bs then Some (take n (drop i bs)) else None)"
  by (simp add: get_range_def range_ok_def)

lemma response_record_iff:
  assumes "8 \<le> length bs"
  shows "response_record bs n len = Ok blocks \<longleftrightarrow>
    8 + len \<le> length bs \<and>
    (if take len (drop 8 bs) = [] then blocks = []
     else length blocks = n \<and> record_layout blocks (take len (drop 8 bs)))"
  using assms by (auto simp: response_record_def get_range_drop outcome_iff record_layout_iff)

lemma response_opaque_iff:
  assumes "i \<le> length bs"
  shows "response_opaque E chk bs i len = Ok m \<longleftrightarrow>
    i + len \<le> length bs \<and>
    (if take len (drop i bs) = [] then m = []
     else \<exists>items. items_layout E chk items (take len (drop i bs)) \<and> distinct (map fst items) \<and>
       m = insert_items [] items \<and> {VbiosVersion, DriverVersion} \<subseteq> fst ` set items)"
proof (cases "0 < len \<and> i + len \<le> length bs")
  case True
  then have "take len (drop i bs) \<noteq> []" by auto
  with True show ?thesis by (simp add: response_opaque_def get_range_drop OpaqueData_decode_iff)
next
  case False
  with assms show ?thesis by (auto simp: response_opaque_def get_range_drop outcome_iff)
qed

text \<open>Decoding, with the offsets of the parts written out.\<close>

lemma eight_bytes:
  assumes "8 \<le> length bs"
  obtains a b c d e f g h rest where "bs = a # b # c # d # e # f # g # h # rest"
  using assms by (auto simp: numeral_eq_Suc Suc_le_length_iff)

lemma response_offsets:
  fixes a b c d e f g h :: byte and rest :: bytes
  defines "bs \<equiv> a # b # c # d # e # f # g # h # rest" and "len \<equiv> le_nat [f, g, h]"
  shows "SpdmGetMeasurementsResponse_decode E chk bs k = Ok (r, n) \<longleftrightarrow>
    (\<exists>record opaque olen. a = SPDM_VERSION_SUPPORTED \<and> 42 + len \<le> length bs \<and>
       olen = le_nat (take 2 (drop (40 + len) bs)) \<and> 42 + len + olen + k \<le> length bs \<and>
       response_record bs (unat e) len = Ok record \<and> response_opaque E chk bs (42 + len) olen = Ok opaque \<and>
       r = \<lparr>rs_spdm_version = a, rs_code = b, rs_param1 = c, rs_param2 = d, number_of_blocks = unat e,
            measurement_record_length = len, measurement_record = record, rs_nonce = take 32 (drop (8 + len) bs),
            opaque_data_length = olen, opaque_data = opaque, rs_signature = take k (drop (42 + len + olen) bs)\<rparr> \<and>
       n = 42 + len + olen + k)"
proof -
  have u24: "u24_from_le_bytes [f, g, h] = len" by (simp add: u24_le len_def del: le_nat.simps)
  have head: "slice bs 5 8 = (Ok [f, g, h] :: (anyhow, bytes) outcome)" "\<not> length bs < 8"
    "bs ! 0 = a" "bs ! 1 = b" "bs ! 2 = c" "bs ! 3 = d" "bs ! 4 = e"
    by (simp_all add: bs_def slice_def range_ok_def numeral_eq_Suc)
  have opq: "42 + len + olen \<le> length bs" if "response_opaque E chk bs (42 + len) olen = Ok m" "42 + len \<le> length bs"
    for olen m
    using that response_opaque_iff by blast
  show ?thesis
    unfolding SpdmGetMeasurementsResponse_decode_def Let_def head(1,3-7) and_then.simps(1) u24 get_range_drop if_not_P [OF head(2)]
    by (auto simp: outcome_iff add.assoc split: if_splits)
qed

lemma drop_step: "drop i bs = take n (drop i bs) @ drop (i + n) bs"
  by (metis add.commute append_take_drop_id drop_drop)

lemma le_bytes_take: "i + n \<le> length bs \<Longrightarrow> le_bytes n (le_nat (take n (drop i bs))) = take n (drop i bs)"
  using le_bytes_le_nat [of "take n (drop i bs)"] by simp

lemma response_decode_layout:
  assumes "SpdmGetMeasurementsResponse_decode E chk bs k = Ok (r, n)"
  shows "\<exists>rec opq rest. bs = signed_part r rec opq @ rs_signature r @ rest \<and> response_ok E chk k r rec opq \<and>
    n = length (signed_part r rec opq) + k"
proof -
  have "8 \<le> length bs"
    using assms by (auto simp: SpdmGetMeasurementsResponse_decode_def outcome_iff split: if_splits)
  then obtain a b c d e f g h tl where bs: "bs = a # b # c # d # e # f # g # h # tl" by (rule eight_bytes)
  let ?len = "le_nat [f, g, h]"
  from assms obtain blks opaque olen where v: "a = SPDM_VERSION_SUPPORTED" and le: "42 + ?len \<le> length bs"
    and olen: "olen = le_nat (take 2 (drop (40 + ?len) bs))" and le': "42 + ?len + olen + k \<le> length bs"
    and rec: "response_record bs (unat e) ?len = Ok blks"
    and opq: "response_opaque E chk bs (42 + ?len) olen = Ok opaque"
    and r: "r = \<lparr>rs_spdm_version = a, rs_code = b, rs_param1 = c, rs_param2 = d, number_of_blocks = unat e,
            measurement_record_length = ?len, measurement_record = blks, rs_nonce = take 32 (drop (8 + ?len) bs),
            opaque_data_length = olen, opaque_data = opaque, rs_signature = take k (drop (42 + ?len + olen) bs)\<rparr>"
    and n: "n = 42 + ?len + olen + k"
    unfolding bs response_offsets by blast
  let ?rec = "take ?len (drop 8 bs)" and ?opq = "take olen (drop (42 + ?len) bs)"
  have small: "?len < 2 ^ 24" "unat e < 256" "olen < 65536"
    using le_nat_less [of "[f, g, h]"] bounds(4) [of e] le_nat_less [of "take 2 (drop (40 + ?len) bs)"] le
    by (simp_all add: olen)
  have lens: "length ?rec = ?len" "length ?opq = olen" using le le' by simp_all
  have tail: "drop 8 bs = ?rec @ take 32 (drop (8 + ?len) bs) @ take 2 (drop (40 + ?len) bs) @ ?opq @
      take k (drop (42 + ?len + olen) bs) @ drop (42 + ?len + olen + k) bs"
    using drop_step [of 8 bs ?len] drop_step [of "8 + ?len" bs 32] drop_step [of "40 + ?len" bs 2]
      drop_step [of "42 + ?len" bs olen] drop_step [of "42 + ?len + olen" bs k]
    by (simp add: add.assoc add.commute [of ?len] del: le_nat.simps)
  have hd: "bs = [a, b, c, d, e] @ le_bytes 3 ?len @ drop 8 bs"
    using le_bytes_le_nat [of "[f, g, h]"] by (simp add: bs numeral_3_eq_3 del: le_nat.simps)
  have two: "le_bytes 2 olen = take 2 (drop (40 + ?len) bs)"
    unfolding olen using le by (intro le_bytes_take) simp
  have eq: "bs = signed_part r ?rec ?opq @ rs_signature r @ drop (42 + ?len + olen + k) bs"
    by (subst hd, subst tail) (simp add: signed_part_def r two del: le_nat.simps)
  have "record_ok r ?rec"
    using rec lens(1) small unfolding response_record_iff [OF \<open>8 \<le> length bs\<close>] record_ok_def
    by (simp add: r del: le_nat.simps take_eq_Nil)
  moreover have "opaque_ok E chk r ?opq"
    using opq lens(2) small unfolding response_opaque_iff [OF le] opaque_ok_def
    by (simp add: r del: le_nat.simps take_eq_Nil insert_subset)
  ultimately have "response_ok E chk k r ?rec ?opq"
    using le le' v by (simp add: response_ok_def r del: le_nat.simps)
  moreover have "n = length (signed_part r ?rec ?opq) + k"
    using le le' lens by (simp add: n r signed_part_def del: le_nat.simps)
  ultimately show ?thesis using eq by blast
qed

lemma response_layout_decode:
  assumes "response_ok E chk k r rec opq"
  shows "SpdmGetMeasurementsResponse_decode E chk (signed_part r rec opq @ rs_signature r @ rest) k =
    Ok (r, length (signed_part r rec opq) + k)"
proof -
  let ?len = "measurement_record_length r" and ?olen = "opaque_data_length r"
  let ?bs = "signed_part r rec opq @ rs_signature r @ rest"
  have ok: "rs_spdm_version r = SPDM_VERSION_SUPPORTED" "length (rs_nonce r) = 32" "length (rs_signature r) = k"
    "record_ok r rec" "opaque_ok E chk r opq"
    using assms by (simp_all add: response_ok_def)
  have sizes: "length rec = ?len" "?len < 2 ^ 24" "number_of_blocks r < 256" "length opq = ?olen" "?olen < 65536"
    using ok(4,5) by (simp_all add: record_ok_def opaque_ok_def)
  obtain f g h where fgh: "le_bytes 3 ?len = [f, g, h]"
    using that by (simp add: numeral_3_eq_3)
  have len: "le_nat [f, g, h] = ?len" using le_nat_le_bytes_id [of ?len 3] sizes(2) by (simp add: fgh)
  let ?T = "rec @ rs_nonce r @ le_bytes 2 ?olen @ opq @ rs_signature r @ rest"
  let ?e = "word_of_nat (number_of_blocks r) :: byte"
  have bs: "?bs = rs_spdm_version r # rs_code r # rs_param1 r # rs_param2 r # ?e # f # g # h # ?T"
    by (simp add: signed_part_def fgh)
  have e: "unat ?e = number_of_blocks r" using sizes(3) by (simp add: unat_of_nat)
  have "drop 8 ?bs = ?T" unfolding bs by simp
  then have d8: "drop (8 + n) ?bs = drop n ?T" for n by (metis drop_drop add.commute)
  have parts: "take ?len (drop 8 ?bs) = rec" "take 32 (drop (8 + ?len) ?bs) = rs_nonce r"
    "take 2 (drop (40 + ?len) ?bs) = le_bytes 2 ?olen" "take ?olen (drop (42 + ?len) ?bs) = opq"
    "take k (drop (42 + ?len + ?olen) ?bs) = rs_signature r"
    using d8 [of 0] d8 [of ?len] d8 [of "32 + ?len"] d8 [of "34 + ?len"] d8 [of "34 + ?len + ?olen"] sizes ok(2,3)
    by (simp_all add: add.assoc)
  have total: "length ?bs = 42 + ?len + ?olen + k + length rest" "length (signed_part r rec opq) = 42 + ?len + ?olen"
    using sizes ok by (simp_all add: signed_part_def)
  have olen: "le_nat (take 2 (drop (40 + ?len) ?bs)) = ?olen"
    unfolding parts using sizes(5) by (intro le_nat_le_bytes_id) simp
  have le8: "8 \<le> length ?bs" and le42: "42 + ?len \<le> length ?bs" unfolding total by simp_all
  have rec: "response_record ?bs (number_of_blocks r) ?len = Ok (measurement_record r)"
    unfolding response_record_iff [OF le8] parts using ok(4) by (simp add: total record_ok_def del: length_append)
  have opq: "response_opaque E chk ?bs (42 + ?len) ?olen = Ok (opaque_data r)"
    unfolding response_opaque_iff [OF le42] parts using ok(5)
    by (simp add: total opaque_ok_def del: length_append insert_subset)
  note off = response_offsets [of E chk "rs_spdm_version r" "rs_code r" "rs_param1 r" "rs_param2 r" ?e f g h ?T k r,
      folded bs, unfolded len e]
  show ?thesis
    unfolding total(2) off
    by (intro exI [of _ "measurement_record r"] exI [of _ "opaque_data r"] exI [of _ ?olen] conjI ok(1) rec opq
        olen [symmetric])
      (simp_all only: total(1) parts, simp_all)
qed

text \<open>The count of measurements panics from 255 measurements on, because the index of the next one is computed.\<close>

lemma count_loop_panics:
  "count_loop True i m cs = Panic \<longleftrightarrow> 256 \<le> unat i + length cs" if "0 < unat i \<or> cs \<noteq> []"
  using that
proof (induction cs arbitrary: i m)
  case Nil
  then show ?case using bounds(4) [of i] by simp
next
  case (Cons c cs)
  show ?case
  proof (cases "i = 255")
    case False
    then have "unat i \<noteq> 255" by (simp add: word_unat_eq_iff)
    then have "unat i + 1 < 256" using bounds(4) [of i] by simp
    then have "unat (i + 1) = unat i + 1" by (simp add: unat_word_ariths)
    then show ?thesis using Cons.IH [of "i + 1"] False by simp
  qed simp
qed

end
