(* ===== verification/Nvidia.thy ===== *)
theory Nvidia
  imports Nvidia_Spdm Filesystem
begin

text \<open>
  The NVIDIA device verifier (\<^verbatim>\<open>deps/verifier/src/nvidia\<close>: \<^verbatim>\<open>cert_chain.rs\<close>, \<^verbatim>\<open>report.rs\<close>,
  \<^verbatim>\<open>nras_jwks.rs\<close>, \<^verbatim>\<open>nras_response.rs\<close>, \<^verbatim>\<open>mod.rs\<close>): a local verifier of attestation reports and a remote
  one that asks the NVIDIA remote attestation service.

  Parameters are \<^verbatim>\<open>openssl\<close> and \<^verbatim>\<open>x509_parser\<close> (certificates, ECDSA), \<^verbatim>\<open>hex\<close> and \<^verbatim>\<open>base64\<close>, the
  deserialisers of \<^verbatim>\<open>serde\<close>, \<^verbatim>\<open>jsonwebtoken\<close>, \<^verbatim>\<open>reqwest\<close> and the root certificate file that is compiled
  in. Of the architectures of \<^verbatim>\<open>nvml_wrapper\<close> the source tells only \<^verbatim>\<open>Hopper\<close> apart.
\<close>

section \<open>What the verifier calls\<close>

datatype DeviceArchitecture = Hopper | OtherArchitecture string

record NvDeviceReportAndCert =
  nv_arch :: DeviceArchitecture
  nv_uuid :: string
  nv_evidence :: string
  nv_certificate :: string

record NrasResponseInternal =
  nri_jwt :: "string list"
  nri_eat :: "(string \<times> string) list"

record HttpReply =
  reply_success :: bool
  reply_status :: string
  reply_text :: "(string, string) outcome"

record ('x, 's, 'k) x509_lib =
  nvidia_device_root :: bytes
  x509_from_pem :: "bytes \<Rightarrow> (string, 'x) outcome"
  x509_stack_from_pem :: "bytes \<Rightarrow> (string, 'x list) outcome"
  x509_sha1 :: "'x \<Rightarrow> (string, bytes) outcome"
  x509_to_der :: "'x \<Rightarrow> (string, bytes) outcome"
  der_extension_unique :: "bytes \<Rightarrow> nat list \<Rightarrow> (string, bytes option) outcome"
  x509_verify_cert :: "'x \<Rightarrow> 'x \<Rightarrow> 'x list \<Rightarrow> (string, bool) outcome"
  ecdsa_sig :: "bytes \<Rightarrow> bytes \<Rightarrow> (string, 's) outcome"
  x509_ec_key :: "'x \<Rightarrow> (string, 'k) outcome"
  ecdsa_verify :: "'s \<Rightarrow> bytes \<Rightarrow> 'k \<Rightarrow> (string, bool) outcome"

record ('j, 'q, 'd) nras_lib =
  http_get :: "string \<Rightarrow> (string, HttpReply) outcome"
  http_post :: "string \<Rightarrow> json \<Rightarrow> (string, HttpReply) outcome"
  jwk_set_from_json :: "string \<Rightarrow> (string, 'j) outcome"
  jwk_find :: "'j \<Rightarrow> string \<Rightarrow> 'q option"
  jwt_header_kid :: "string \<Rightarrow> (string, string option) outcome"
  decoding_key_from_jwk :: "'q \<Rightarrow> (string, 'd) outcome"
  jwt_decode_es384 :: "string \<Rightarrow> 'd \<Rightarrow> (string, unit) outcome"
  nras_from_str :: "string \<Rightarrow> (string, NrasResponseInternal) outcome"
  json_parse :: "string \<Rightarrow> (string, json) outcome"
  b64_decode_no_pad :: "string \<Rightarrow> (string, bytes) outcome"
  pointer_of :: "json \<Rightarrow> string \<Rightarrow> json option"

record nv_codec =
  nv_from_value :: "json \<Rightarrow> (string, NvDeviceReportAndCert list) outcome"
  hex_decode_nv :: "string \<Rightarrow> (string, bytes) outcome"
  b64_decode_nv :: "string \<Rightarrow> (string, bytes) outcome"
  arch_to_string :: "DeviceArchitecture \<Rightarrow> string"

section \<open>Certificate chains\<close>

definition certificate_fingerprint :: "crates \<Rightarrow> ('x, 's, 'k) x509_lib \<Rightarrow> 'x \<Rightarrow> (anyhow, string) outcome" where
  "certificate_fingerprint E L cert = map_ok (hex_encode E) (lib_error (x509_sha1 L cert))"

text \<open>The lazily initialised root certificate and its fingerprint; a failure to initialise is a panic.\<close>

definition NVIDIA_ROOT_CA :: "crates \<Rightarrow> ('x, 's, 'k) x509_lib \<Rightarrow> (anyhow, 'x \<times> string) outcome" where
  "NVIDIA_ROOT_CA E L =
     (case x509_from_pem L (nvidia_device_root L) of
        Ok cert \<Rightarrow>
          (case certificate_fingerprint E L cert of Ok digest \<Rightarrow> Ok (cert, digest) | _ \<Rightarrow> Panic)
      | _ \<Rightarrow> Panic)"

definition NvidiaCertificateChain_decode :: "('x, 's, 'k) x509_lib \<Rightarrow> bytes \<Rightarrow> (anyhow, 'x list) outcome" where
  "NvidiaCertificateChain_decode L bs = lib_error (x509_stack_from_pem L bs)"

definition get_root_certificate :: "'x list \<Rightarrow> (anyhow, 'x) outcome" where
  "get_root_certificate certs =
     (if certs = [] then bail ''Root CA certificate not found in the NVIDIA certificate chain'' else Ok (last certs))"

definition get_leaf_certificate :: "'x list \<Rightarrow> (anyhow, 'x) outcome" where
  "get_leaf_certificate certs =
     (if certs = [] then bail ''Leaf certificate not found in the NVIDIA certificate chain'' else Ok (hd certs))"

definition check_root_ca_is_trusted :: "crates \<Rightarrow> ('x, 's, 'k) x509_lib \<Rightarrow> 'x list \<Rightarrow> (anyhow, unit) outcome" where
  "check_root_ca_is_trusted E L certs =
     and_then (get_root_certificate certs) (\<lambda>root_ca.
     and_then (certificate_fingerprint E L root_ca) (\<lambda>digest.
     and_then (NVIDIA_ROOT_CA E L) (\<lambda>(_, trusted).
       if digest \<noteq> trusted then bail ''Root CA in the certificate chain is not trusted'' else Ok ())))"

definition fwid_oid :: "nat list" where
  "fwid_oid = [2, 23, 133, 5, 4, 1]"

definition get_fwid_from_cert :: "crates \<Rightarrow> ('x, 's, 'k) x509_lib \<Rightarrow> bool \<Rightarrow> 'x \<Rightarrow> (anyhow, string) outcome" where
  "get_fwid_from_cert E L chk cert =
     and_then (lib_error (x509_to_der L cert)) (\<lambda>der.
     and_then (lib_error (der_extension_unique L der fwid_oid)) (\<lambda>ext.
     and_then (ok_or [''FwId oid not found in the NVIDIA signing certificate''] ext) (\<lambda>value.
     and_then (sub_usize chk (length value) 48) (\<lambda>start.
     and_then (ok_or [''Unexpected fwid oid size''] (get_range value start (length value))) (\<lambda>fwid.
       Ok (hex_encode E fwid))))))"

definition NvidiaCertificateChain_verify ::
    "crates \<Rightarrow> ('x, 's, 'k) x509_lib \<Rightarrow> bool \<Rightarrow> 'x list \<Rightarrow> string \<Rightarrow> (anyhow, unit) outcome" where
  "NvidiaCertificateChain_verify E L chk certs expected_fwid =
     (if length certs < 2
      then bail ''Certificate chain must have at least the root CA and signing certificates''
      else
        and_then (check_root_ca_is_trusted E L certs) (\<lambda>_.
        and_then (get_leaf_certificate certs) (\<lambda>leaf_cert.
        and_then (get_fwid_from_cert E L chk leaf_cert) (\<lambda>cert_fwid.
        if cert_fwid \<noteq> expected_fwid
        then bail (''Fwid mismatch: certificate '' @ cert_fwid @ '', evidence '' @ expected_fwid)
        else
          and_then (NVIDIA_ROOT_CA E L) (\<lambda>(trusted, _).
          and_then (lib_error (x509_verify_cert L trusted leaf_cert (butlast certs))) (\<lambda>verified.
            if \<not> verified then bail ''Report certificate chain failed to verify'' else Ok ()))))))"

section \<open>Attestation reports\<close>

record NvidiaAttestationReport =
  request :: SpdmGetMeasurementRequest
  response :: SpdmGetMeasurementsResponse

definition NvidiaAttestationReport_decode ::
    "crates \<Rightarrow> bool \<Rightarrow> bytes \<Rightarrow> nat \<Rightarrow> (anyhow, NvidiaAttestationReport \<times> nat) outcome" where
  "NvidiaAttestationReport_decode E chk report_bytes signature_length =
     (if length report_bytes < SPDM_GET_MEASUREMENT_REQUEST_SIZE then bail ''Attestation report data is too small''
      else
        and_then (SpdmGetMeasurementRequest_decode (take SPDM_GET_MEASUREMENT_REQUEST_SIZE report_bytes))
          (\<lambda>(request, request_size).
        and_then (SpdmGetMeasurementsResponse_decode E chk (drop SPDM_GET_MEASUREMENT_REQUEST_SIZE report_bytes)
            signature_length) (\<lambda>(response, response_size).
          Ok (\<lparr>request = request, response = response\<rparr>, request_size + response_size))))"

definition get_fwid :: "NvidiaAttestationReport \<Rightarrow> (anyhow, string) outcome" where
  "get_fwid self =
     and_then (ok_or [''Nvidia report fwid not found'']
         (map_of (opaque_data (response self)) (OpaqueDataType_to_string Fwid))) (\<lambda>v.
       case v of JString fwid \<Rightarrow> Ok fwid | _ \<Rightarrow> bail ''Nvidia report fwid value mismatch'')"

definition nv_verify_signature ::
    "crates \<Rightarrow> ('x, 's, 'k) x509_lib \<Rightarrow> bytes \<Rightarrow> bytes \<Rightarrow> 'x \<Rightarrow> (anyhow, unit) outcome" where
  "nv_verify_signature E L signed_bytes signature_bytes signing_cert =
     (if length signature_bytes \<noteq> 96 then bail ''Invalid raw ECDSA P-384 signature''
      else
        and_then (lib_error (ecdsa_sig L (take 48 signature_bytes) (drop 48 signature_bytes))) (\<lambda>sig.
        and_then (lib_error (x509_ec_key L signing_cert)) (\<lambda>ec_key.
        and_then (map_err (\<lambda>e. [''NVIDIA report signature verification error: '' @ e @ ''.''])
            (ecdsa_verify L sig (sha384 E signed_bytes) ec_key)) (\<lambda>result.
          if \<not> result then bail ''NVIDIA report signature verification failed.'' else Ok ()))))"

definition validate_nonce :: "NvidiaAttestationReport \<Rightarrow> bytes \<Rightarrow> (anyhow, unit) outcome" where
  "validate_nonce self expected_nonce =
     (if expected_nonce \<noteq> rq_nonce (request self) then bail ''Nvidia report nonce mismatch'' else Ok ())"

definition NvidiaAttestationReport_try_new ::
    "crates \<Rightarrow> ('x, 's, 'k) x509_lib \<Rightarrow> bool \<Rightarrow> bytes \<Rightarrow> nat \<Rightarrow> bytes \<Rightarrow> bytes \<Rightarrow>
     (anyhow, NvidiaAttestationReport) outcome" where
  "NvidiaAttestationReport_try_new E L chk report_bytes report_signature_length cert_chain_bytes expected_nonce =
     and_then (NvidiaAttestationReport_decode E chk report_bytes report_signature_length) (\<lambda>(report, report_size).
     and_then (NvidiaCertificateChain_decode L cert_chain_bytes) (\<lambda>cert_chain.
     and_then (get_leaf_certificate cert_chain) (\<lambda>leaf_cert.
     if report_size < report_signature_length then bail ''Nvidia report size too small''
     else
       and_then (ok_or [''Nvidia report signed data overflow'']
           (get_range report_bytes 0 (report_size - report_signature_length))) (\<lambda>signed_data.
       and_then (nv_verify_signature E L signed_data (rs_signature (response report)) leaf_cert) (\<lambda>_.
       and_then (get_fwid report) (\<lambda>fwid.
       and_then (NvidiaCertificateChain_verify E L chk cert_chain fwid) (\<lambda>_.
       and_then (validate_nonce report expected_nonce) (\<lambda>_.
         Ok report))))))))"

section \<open>The remote attestation service\<close>

definition NRAS_JWKS_URL :: string where
  "NRAS_JWKS_URL = ''https://nras.attestation.nvidia.com/.well-known/jwks.json''"

definition NRAS_URL :: string where
  "NRAS_URL = ''https://nras.attestation.nvidia.com/v4/attest''"

text \<open>The error of a reply that is not a success holds its text, or is the failure to read it.\<close>

definition reply_error :: "string \<Rightarrow> HttpReply \<Rightarrow> (anyhow, 'a) outcome" where
  "reply_error what res =
     and_then (lib_error (reply_text res)) (\<lambda>details.
       bail (what @ reply_status res @ ''. Details: '' @ details))"

definition NrasJwks_new :: "('j, 'q, 'd) nras_lib \<Rightarrow> (anyhow, 'j) outcome" where
  "NrasJwks_new N =
     and_then (lib_error (http_get N NRAS_JWKS_URL)) (\<lambda>res.
       if \<not> reply_success res then reply_error ''JWKS Request Failed with '' res
       else and_then (lib_error (reply_text res)) (\<lambda>body. lib_error (jwk_set_from_json N body)))"

record NrasResponse =
  nras_jwt :: string
  nras_eat :: string

definition NrasResponse_from_str :: "('j, 'q, 'd) nras_lib \<Rightarrow> string \<Rightarrow> (anyhow, NrasResponse) outcome" where
  "NrasResponse_from_str N s =
     and_then (lib_error (nras_from_str N s)) (\<lambda>response.
       if length (nri_jwt response) \<noteq> 2 then bail ''Unexpected Payload Format''
       else if length (nri_eat response) \<noteq> 1 then bail ''Unexpected submod count.''
       else Ok \<lparr>nras_jwt = nri_jwt response ! 1, nras_eat = snd (hd (nri_eat response))\<rparr>)"

definition get_jwt_kid :: "('j, 'q, 'd) nras_lib \<Rightarrow> string \<Rightarrow> (anyhow, string) outcome" where
  "get_jwt_kid N jwt =
     and_then (lib_error (jwt_header_kid N jwt)) (\<lambda>kid. ok_or [''Could not find KID''] kid)"

definition validate_jwt :: "('j, 'q, 'd) nras_lib \<Rightarrow> string \<Rightarrow> 'j \<Rightarrow> (anyhow, unit) outcome" where
  "validate_jwt N jwt jwks =
     and_then (get_jwt_kid N jwt) (\<lambda>kid.
     and_then (ok_or [''Could not find KID in JWKs''] (jwk_find N jwks kid)) (\<lambda>jwk.
     and_then (lib_error (decoding_key_from_jwk N jwk)) (\<lambda>decoding_key.
       lib_error (jwt_decode_es384 N jwt decoding_key))))"

definition NrasResponse_validate :: "('j, 'q, 'd) nras_lib \<Rightarrow> NrasResponse \<Rightarrow> 'j \<Rightarrow> (anyhow, unit) outcome" where
  "NrasResponse_validate N self jwks =
     and_then (validate_jwt N (nras_jwt self) jwks) (\<lambda>_. validate_jwt N (nras_eat self) jwks)"

definition get_jwt_payload :: "('j, 'q, 'd) nras_lib \<Rightarrow> string \<Rightarrow> (anyhow, json) outcome" where
  "get_jwt_payload N jwt =
     (let parts = split_on CHR ''.'' jwt in
      if length parts \<noteq> 3 then bail ''Malformed JWT''
      else
        and_then (lib_error (b64_decode_no_pad N (parts ! 1))) (\<lambda>payload_bytes.
          lib_error (json_parse N (from_utf8_lossy payload_bytes))))"

definition NrasResponse_claims ::
    "('j, 'q, 'd) nras_lib \<Rightarrow> NrasResponse \<Rightarrow> (anyhow, TeeEvidenceParsedClaim) outcome" where
  "NrasResponse_claims N self =
     and_then (get_jwt_payload N (nras_eat self)) (\<lambda>claims.
     and_then (get_jwt_payload N (nras_jwt self)) (\<lambda>jwt_claims.
       case pointer_of N jwt_claims ''/x-nvidia-overall-att-result'' of
         Some overall_result \<Rightarrow>
           (case claims of
              JObject m \<Rightarrow> Ok (JObject (json_insert ''x-nvidia-overall-att-result'' overall_result m))
            | _ \<Rightarrow> bail ''Unexpected claims format.'')
       | None \<Rightarrow> Ok claims))"

section \<open>The verifier\<close>

definition HOPPER_SIGNATURE_LENGTH :: nat where
  "HOPPER_SIGNATURE_LENGTH = 96"

datatype NvidiaVerifierType = NvidiaLocal | NvidiaRemote "string option"

record 'j Nvidia =
  verifier_type :: NvidiaVerifierType
  nras_jwks :: "'j option"

definition Nvidia_new :: "('j, 'q, 'd) nras_lib \<Rightarrow> NvidiaVerifierType option \<Rightarrow> (anyhow, 'j Nvidia) outcome" where
  "Nvidia_new N config =
     (let t = (case config of Some c \<Rightarrow> c | None \<Rightarrow> NvidiaLocal) in
      and_then (case t of NvidiaRemote _ \<Rightarrow> map_ok Some (NrasJwks_new N) | NvidiaLocal \<Rightarrow> Ok None) (\<lambda>jwks.
        Ok \<lparr>verifier_type = t, nras_jwks = jwks\<rparr>))"

text \<open>The claims of a device as they are serialised: the keys of the measurement map are printed.\<close>

definition device_claims_new ::
    "crates \<Rightarrow> nv_codec \<Rightarrow> DeviceArchitecture \<Rightarrow> string \<Rightarrow> NvidiaAttestationReport \<Rightarrow> json" where
  "device_claims_new E D arch uuid report =
     JObject
       [(''arch'', JString (arch_to_string D arch)), (''uuid'', JString uuid),
        (''measurements'', JObject (foldl (\<lambda>m b. json_insert (fmt_dec (unat (mb_index b)))
             (JString (hex_encode E (dm_value (mb_measurement b)))) m) [] (measurement_record (response report)))),
        (''config'', JObject (opaque_data (response report)))]"

definition report_vec :: "nv_codec \<Rightarrow> NvDeviceReportAndCert \<Rightarrow> (anyhow, bytes) outcome" where
  "report_vec D device =
     (case hex_decode_nv D (nv_evidence device) of
        Ok evidence \<Rightarrow> Ok evidence
      | Err _ \<Rightarrow> lib_error (b64_decode_nv D (nv_evidence device))
      | Panic \<Rightarrow> Panic)"

definition evaluate_device_locally ::
    "crates \<Rightarrow> ('x, 's, 'k) x509_lib \<Rightarrow> nv_codec \<Rightarrow> bool \<Rightarrow> NvDeviceReportAndCert \<Rightarrow> bytes \<Rightarrow>
     (anyhow, TeeEvidenceParsedClaim \<times> string) outcome" where
  "evaluate_device_locally E L D chk device expected_nonce =
     (if nv_arch device \<noteq> Hopper then bail ''Device architecture not supported''
      else
        and_then (lib_error (b64_decode_nv D (nv_certificate device))) (\<lambda>cert_chain.
        and_then (report_vec D device) (\<lambda>bs.
        and_then (NvidiaAttestationReport_try_new E L chk bs HOPPER_SIGNATURE_LENGTH cert_chain expected_nonce)
          (\<lambda>report.
            Ok (device_claims_new E D (nv_arch device) (nv_uuid device) report, ''gpu'')))))"

definition nras_request :: "crates \<Rightarrow> nv_codec \<Rightarrow> NvDeviceReportAndCert \<Rightarrow> string \<Rightarrow> bytes \<Rightarrow> json" where
  "nras_request E D device evidence_b64 expected_nonce =
     JObject
       [(''nonce'', JString (hex_encode E expected_nonce)),
        (''arch'', JString (to_uppercase (arch_to_string D (nv_arch device)))),
        (''evidence_list'', JArray [JObject [(''evidence'', JString evidence_b64),
                                            (''certificate'', JString (nv_certificate device))]]),
        (''claims_version'', JString ''3.0'')]"

fun as_bool :: "json \<Rightarrow> bool option" where
  "as_bool (JBool b) = Some b"
| "as_bool _ = None"

definition evaluate_device_remotely ::
    "crates \<Rightarrow> ('j, 'q, 'd) nras_lib \<Rightarrow> nv_codec \<Rightarrow> 'j Nvidia \<Rightarrow> NvDeviceReportAndCert \<Rightarrow> bytes \<Rightarrow> string option \<Rightarrow>
     (anyhow, TeeEvidenceParsedClaim \<times> string) outcome" where
  "evaluate_device_remotely E N D self device expected_nonce verifier_url =
     (if nv_arch device \<noteq> Hopper then Panic
      else
        let evidence_b64 =
              (case hex_decode_nv D (nv_evidence device) of
                 Ok evidence \<Rightarrow> base64_encode E evidence | _ \<Rightarrow> nv_evidence device);
            request_url = (case verifier_url of Some u \<Rightarrow> u | None \<Rightarrow> NRAS_URL) @ ''/'' @ ''gpu''
        in
        and_then (lib_error (http_post N request_url (nras_request E D device evidence_b64 expected_nonce))) (\<lambda>res.
        if \<not> reply_success res then reply_error ''Request Failed with '' res
        else
          and_then (lib_error (reply_text res)) (\<lambda>body.
          and_then (NrasResponse_from_str N body) (\<lambda>response.
          and_then (case nras_jwks self of
                      Some jwks \<Rightarrow> NrasResponse_validate N response jwks
                    | None \<Rightarrow> bail ''JWKs not available.'') (\<lambda>_.
          and_then (NrasResponse_claims N response) (\<lambda>claims.
          and_then (ok_or [''Couldn't find nonce status.'']
              (pointer_of N claims ''/x-nvidia-gpu-attestation-report-nonce-match'')) (\<lambda>status.
          and_then (ok_or [''Nonce status malformed''] (as_bool status)) (\<lambda>nonce_ok.
            if \<not> nonce_ok then bail ''Report Data Mismatch'' else Ok (claims, ''gpu'')))))))))"

record ('x, 's, 'k, 'j, 'q, 'd) nvidia_env =
  nv_crates :: crates
  nv_x509 :: "('x, 's, 'k) x509_lib"
  nv_nras :: "('j, 'q, 'd) nras_lib"
  nv_data :: nv_codec
  nv_chk :: bool

definition evaluate_device ::
    "('x, 's, 'k, 'j, 'q, 'd) nvidia_env \<Rightarrow> 'j Nvidia \<Rightarrow> bytes \<Rightarrow> NvDeviceReportAndCert \<Rightarrow>
     (anyhow, TeeEvidenceParsedClaim \<times> TeeClass) outcome" where
  "evaluate_device W self expected_nonce device =
     (case verifier_type self of
        NvidiaLocal \<Rightarrow> evaluate_device_locally (nv_crates W) (nv_x509 W) (nv_data W) (nv_chk W) device expected_nonce
      | NvidiaRemote url \<Rightarrow>
          evaluate_device_remotely (nv_crates W) (nv_nras W) (nv_data W) self device expected_nonce url)"

fun evaluate_devices ::
    "('x, 's, 'k, 'j, 'q, 'd) nvidia_env \<Rightarrow> 'j Nvidia \<Rightarrow> bytes \<Rightarrow> NvDeviceReportAndCert list \<Rightarrow> verdict" where
  "evaluate_devices W self expected_nonce [] = Ok []"
| "evaluate_devices W self expected_nonce (d # ds) =
     and_then (evaluate_device W self expected_nonce d) (\<lambda>claims.
     and_then (evaluate_devices W self expected_nonce ds) (\<lambda>all_claims. Ok (claims # all_claims)))"

definition Nvidia_evaluate ::
    "('x, 's, 'k, 'j, 'q, 'd) nvidia_env \<Rightarrow> 'j Nvidia \<Rightarrow> TeeEvidence \<Rightarrow> ReportData \<Rightarrow> InitDataHash \<Rightarrow> verdict" where
  "Nvidia_evaluate W self evidence expected_report_data expected_init_data_hash =
     and_then (with_context ''Failed to deserialize the NVIDIA device evidence''
         (lib_error (nv_from_value (nv_data W) evidence))) (\<lambda>devices.
       case expected_report_data of
         ReportValue expected_nonce \<Rightarrow>
           evaluate_devices W self (regularize_data expected_nonce SPDM_NONCE_SIZE) devices
       | ReportNotProvided \<Rightarrow> bail ''Nvidia report data not provided'')"

definition NvidiaVerifier :: "('x, 's, 'k, 'j, 'q, 'd) nvidia_env \<Rightarrow> 'j Nvidia \<Rightarrow> Verifier" where
  "NvidiaVerifier W self =
     \<lparr>v_evaluate = Nvidia_evaluate W self,
      v_generate_supplemental_challenge = default_supplemental_challenge\<rparr>"

section \<open>What is accepted\<close>

definition request_bytes :: "SpdmGetMeasurementRequest \<Rightarrow> bytes" where
  "request_bytes q =
     [rq_spdm_version q, rq_code q, rq_param1 q, rq_param2 q] @ rq_nonce q @ [rq_slot_id_param q]"

definition request_ok :: "SpdmGetMeasurementRequest \<Rightarrow> bool" where
  "request_ok q \<longleftrightarrow> rq_spdm_version q = SPDM_VERSION_SUPPORTED \<and> length (rq_nonce q) = SPDM_NONCE_SIZE"

lemma request_decode_iff:
  assumes "length bs = 37"
  shows "SpdmGetMeasurementRequest_decode bs = Ok (q, n) \<longleftrightarrow> bs = request_bytes q \<and> request_ok q \<and> n = 37"
proof -
  obtain a b c d rest where bs: "bs = a # b # c # d # rest" using assms by (auto simp: numeral_eq_Suc length_Suc_conv)
  then have "length rest = 33" using assms by simp
  then have rest: "rest = take 32 rest @ [rest ! 32]" by (simp add: take_Suc_conv_app_nth [symmetric])
  have dec: "SpdmGetMeasurementRequest_decode bs =
      (if a \<noteq> SPDM_VERSION_SUPPORTED then bail (version_error a)
       else Ok (\<lparr>rq_spdm_version = a, rq_code = b, rq_param1 = c, rq_param2 = d, rq_nonce = take 32 rest,
                rq_slot_id_param = rest ! 32\<rparr>, 37))"
    using assms \<open>length rest = 33\<close>
    by (simp add: SpdmGetMeasurementRequest_decode_def SPDM_GET_MEASUREMENT_REQUEST_SIZE_def bs slice_def range_ok_def)
  show ?thesis
  proof
    assume "SpdmGetMeasurementRequest_decode bs = Ok (q, n)"
    then have "a = SPDM_VERSION_SUPPORTED" "n = 37"
      "q = \<lparr>rq_spdm_version = a, rq_code = b, rq_param1 = c, rq_param2 = d, rq_nonce = take 32 rest,
        rq_slot_id_param = rest ! 32\<rparr>"
      unfolding dec by (auto simp: bail_def split: if_splits)
    then show "bs = request_bytes q \<and> request_ok q \<and> n = 37"
      using rest \<open>length rest = 33\<close> by (simp add: bs request_bytes_def request_ok_def SPDM_NONCE_SIZE_def)
  next
    assume q: "bs = request_bytes q \<and> request_ok q \<and> n = 37"
    then have "rest = rq_nonce q @ [rq_slot_id_param q]" "length (rq_nonce q) = 32"
      by (simp_all add: bs request_bytes_def request_ok_def SPDM_NONCE_SIZE_def)
    then have "take 32 rest = rq_nonce q" "rest ! 32 = rq_slot_id_param q" by (simp_all add: nth_append)
    then show "SpdmGetMeasurementRequest_decode bs = Ok (q, n)"
      using q unfolding dec by (simp add: bs request_bytes_def request_ok_def)
  qed
qed

text \<open>The bytes the signature covers: the request and the response up to its signature.\<close>

definition report_signed :: "NvidiaAttestationReport \<Rightarrow> bytes \<Rightarrow> bytes \<Rightarrow> bytes" where
  "report_signed report rec opq = request_bytes (request report) @ signed_part (response report) rec opq"

definition report_ok ::
    "crates \<Rightarrow> bool \<Rightarrow> nat \<Rightarrow> NvidiaAttestationReport \<Rightarrow> bytes \<Rightarrow> bytes \<Rightarrow> bool" where
  "report_ok E chk k report rec opq \<longleftrightarrow>
     request_ok (request report) \<and> response_ok E chk k (response report) rec opq"

lemma length_request_bytes: "request_ok q \<Longrightarrow> length (request_bytes q) = 37"
  by (simp add: request_ok_def request_bytes_def SPDM_NONCE_SIZE_def)

lemma report_decode_iff:
  "NvidiaAttestationReport_decode E chk bs k = Ok (report, n) \<longleftrightarrow>
     (\<exists>rec opq rest. bs = report_signed report rec opq @ rs_signature (response report) @ rest \<and>
        report_ok E chk k report rec opq \<and> n = length (report_signed report rec opq) + k)"
proof
  assume "NvidiaAttestationReport_decode E chk bs k = Ok (report, n)"
  then obtain qn rn where le: "37 \<le> length bs"
    and q: "SpdmGetMeasurementRequest_decode (take 37 bs) = Ok (request report, qn)"
    and r: "SpdmGetMeasurementsResponse_decode E chk (drop 37 bs) k = Ok (response report, rn)" and n: "n = qn + rn"
    by (auto simp: NvidiaAttestationReport_decode_def SPDM_GET_MEASUREMENT_REQUEST_SIZE_def outcome_iff not_less
        split: if_splits)
  from q have q': "take 37 bs = request_bytes (request report)" "request_ok (request report)" "qn = 37"
    using request_decode_iff [of "take 37 bs"] le by auto
  from response_decode_layout [OF r] obtain rec opq rest where
    "drop 37 bs = signed_part (response report) rec opq @ rs_signature (response report) @ rest"
    "response_ok E chk k (response report) rec opq" "rn = length (signed_part (response report) rec opq) + k"
    by blast
  moreover have "bs = take 37 bs @ drop 37 bs" by simp
  ultimately show "\<exists>rec opq rest. bs = report_signed report rec opq @ rs_signature (response report) @ rest \<and>
      report_ok E chk k report rec opq \<and> n = length (report_signed report rec opq) + k"
    using q' n by (intro exI [of _ rec] exI [of _ opq] exI [of _ rest])
      (simp add: report_signed_def report_ok_def length_request_bytes)
next
  assume "\<exists>rec opq rest. bs = report_signed report rec opq @ rs_signature (response report) @ rest \<and>
      report_ok E chk k report rec opq \<and> n = length (report_signed report rec opq) + k"
  then obtain rec opq rest where bs: "bs = report_signed report rec opq @ rs_signature (response report) @ rest"
    and ok: "request_ok (request report)" "response_ok E chk k (response report) rec opq"
    and n: "n = length (report_signed report rec opq) + k"
    by (auto simp: report_ok_def)
  note len = length_request_bytes [OF ok(1)]
  have parts: "take 37 bs = request_bytes (request report)"
    "drop 37 bs = signed_part (response report) rec opq @ rs_signature (response report) @ rest"
    by (simp_all add: bs report_signed_def len)
  have q: "SpdmGetMeasurementRequest_decode (take 37 bs) = Ok (request report, 37)"
    using request_decode_iff [of "take 37 bs"] ok(1) len by (simp add: parts)
  have "\<not> length bs < 37" by (simp add: bs report_signed_def len)
  then show "NvidiaAttestationReport_decode E chk bs k = Ok (report, n)"
    using q response_layout_decode [OF ok(2), of rest] n
    by (simp add: NvidiaAttestationReport_decode_def SPDM_GET_MEASUREMENT_REQUEST_SIZE_def parts report_signed_def len)
qed

text \<open>A chain that ends in the NVIDIA root, verifies against it and whose leaf has the firmware identity.\<close>

definition cert_fwid :: "crates \<Rightarrow> ('x, 's, 'k) x509_lib \<Rightarrow> 'x \<Rightarrow> string \<Rightarrow> bool" where
  "cert_fwid E L cert fwid \<longleftrightarrow>
     (\<exists>der ext. x509_to_der L cert = Ok der \<and> der_extension_unique L der fwid_oid = Ok (Some ext) \<and>
        48 \<le> length ext \<and> fwid = hex_encode E (drop (length ext - 48) ext))"

definition chain_trusted :: "crates \<Rightarrow> ('x, 's, 'k) x509_lib \<Rightarrow> 'x list \<Rightarrow> string \<Rightarrow> bool" where
  "chain_trusted E L certs fwid \<longleftrightarrow>
     2 \<le> length certs \<and> cert_fwid E L (hd certs) fwid \<and>
     (\<exists>root d d'. x509_from_pem L (nvidia_device_root L) = Ok root \<and> x509_sha1 L root = Ok d \<and>
        x509_sha1 L (last certs) = Ok d' \<and> hex_encode E d' = hex_encode E d \<and>
        x509_verify_cert L root (hd certs) (butlast certs) = Ok True)"

lemma root_ca_iff:
  "NVIDIA_ROOT_CA E L = Ok (root, digest) \<longleftrightarrow>
     x509_from_pem L (nvidia_device_root L) = Ok root \<and> (\<exists>d. x509_sha1 L root = Ok d \<and> digest = hex_encode E d)"
  by (auto simp: NVIDIA_ROOT_CA_def certificate_fingerprint_def outcome_iff split: outcome.splits)

lemma last_48:
  "and_then (sub_usize chk (length v) 48) (\<lambda>start. and_then (ok_or e (get_range v start (length v))) (\<lambda>x. Ok (g x))) =
     (if 48 \<le> length v then Ok (g (drop (length v - 48) v)) else if chk then Panic else Err e)"
  by (auto simp: sub_usize_def get_range_def range_ok_def usize_bound_def ok_or_def)

lemma fwid_iff: "get_fwid_from_cert E L chk cert = Ok fwid \<longleftrightarrow> cert_fwid E L cert fwid"
  unfolding get_fwid_from_cert_def cert_fwid_def last_48 by (auto simp: outcome_iff split: if_splits)

lemma chain_verify_iff:
  "NvidiaCertificateChain_verify E L chk certs fwid = Ok () \<longleftrightarrow> chain_trusted E L certs fwid"
  by (auto simp: NvidiaCertificateChain_verify_def check_root_ca_is_trusted_def get_root_certificate_def
      get_leaf_certificate_def certificate_fingerprint_def chain_trusted_def outcome_iff fwid_iff root_ca_iff
      split: if_splits prod.splits)

definition signed_by :: "crates \<Rightarrow> ('x, 's, 'k) x509_lib \<Rightarrow> 'x \<Rightarrow> bytes \<Rightarrow> bytes \<Rightarrow> bool" where
  "signed_by E L cert data signature \<longleftrightarrow>
     length signature = 96 \<and>
     (\<exists>sig key. ecdsa_sig L (take 48 signature) (drop 48 signature) = Ok sig \<and> x509_ec_key L cert = Ok key \<and>
        ecdsa_verify L sig (sha384 E data) key = Ok True)"

lemma verify_signature_iff:
  "nv_verify_signature E L data signature cert = Ok () \<longleftrightarrow> signed_by E L cert data signature"
  by (auto simp: nv_verify_signature_def signed_by_def outcome_iff split: if_splits)

lemma get_fwid_iff:
  "get_fwid report = Ok fwid \<longleftrightarrow> map_of (opaque_data (response report)) ''fwid'' = Some (JString fwid)"
  by (cases "map_of (opaque_data (response report)) ''fwid''")
    (auto simp: get_fwid_def ok_or_def bail_def split: json.split)

definition report_attested ::
    "crates \<Rightarrow> ('x, 's, 'k) x509_lib \<Rightarrow> bool \<Rightarrow> nat \<Rightarrow> bytes \<Rightarrow> bytes \<Rightarrow> bytes \<Rightarrow> NvidiaAttestationReport \<Rightarrow> bool" where
  "report_attested E L chk k bs chain nonce report \<longleftrightarrow>
     (\<exists>rec opq rest certs fwid.
        bs = report_signed report rec opq @ rs_signature (response report) @ rest \<and>
        report_ok E chk k report rec opq \<and>
        x509_stack_from_pem L chain = Ok certs \<and>
        signed_by E L (hd certs) (report_signed report rec opq) (rs_signature (response report)) \<and>
        map_of (opaque_data (response report)) ''fwid'' = Some (JString fwid) \<and>
        chain_trusted E L certs fwid \<and>
        rq_nonce (request report) = nonce)"

lemma try_new_iff:
  "NvidiaAttestationReport_try_new E L chk bs k chain nonce = Ok report \<longleftrightarrow>
     report_attested E L chk k bs chain nonce report"
proof
  assume "NvidiaAttestationReport_try_new E L chk bs k chain nonce = Ok report"
  then obtain n certs fwid where dec: "NvidiaAttestationReport_decode E chk bs k = Ok (report, n)"
    and certs: "x509_stack_from_pem L chain = Ok certs"
    and sig: "signed_by E L (hd certs) (take (n - k) bs) (rs_signature (response report))"
    and fwid: "map_of (opaque_data (response report)) ''fwid'' = Some (JString fwid)"
    and trusted: "chain_trusted E L certs fwid" and nonce: "rq_nonce (request report) = nonce"
    by (auto simp: NvidiaAttestationReport_try_new_def NvidiaCertificateChain_decode_def get_leaf_certificate_def
        validate_nonce_def outcome_iff verify_signature_iff get_fwid_iff chain_verify_iff get_range_def
        simp del: OpaqueDataType_to_string.simps split: if_splits)
  from dec obtain rec opq rest where lay: "bs = report_signed report rec opq @ rs_signature (response report) @ rest"
    "report_ok E chk k report rec opq" "n = length (report_signed report rec opq) + k"
    unfolding report_decode_iff by blast
  with sig have "signed_by E L (hd certs) (report_signed report rec opq) (rs_signature (response report))" by simp
  with lay(1,2) certs fwid trusted nonce show "report_attested E L chk k bs chain nonce report"
    unfolding report_attested_def by blast
next
  assume "report_attested E L chk k bs chain nonce report"
  then obtain rec opq rest certs fwid where lay: "bs = report_signed report rec opq @ rs_signature (response report) @ rest"
    "report_ok E chk k report rec opq"
    and certs: "x509_stack_from_pem L chain = Ok certs"
    and sig: "signed_by E L (hd certs) (report_signed report rec opq) (rs_signature (response report))"
    and fwid: "map_of (opaque_data (response report)) ''fwid'' = Some (JString fwid)"
    and trusted: "chain_trusted E L certs fwid" and nonce: "rq_nonce (request report) = nonce"
    unfolding report_attested_def by blast
  have "NvidiaAttestationReport_decode E chk bs k = Ok (report, length (report_signed report rec opq) + k)"
    unfolding report_decode_iff using lay by blast
  moreover have "certs \<noteq> []" using trusted by (auto simp: chain_trusted_def)
  moreover have "get_range bs 0 (length (report_signed report rec opq)) = Some (report_signed report rec opq)"
    by (simp add: lay(1) get_range_def range_ok_def)
  ultimately show "NvidiaAttestationReport_try_new E L chk bs k chain nonce = Ok report"
    using certs sig [folded verify_signature_iff] fwid [folded get_fwid_iff]
      trusted [folded chain_verify_iff [where chk = chk]] nonce
    by (simp add: NvidiaAttestationReport_try_new_def NvidiaCertificateChain_decode_def get_leaf_certificate_def
        validate_nonce_def)
qed

section \<open>Devices\<close>

text \<open>A device the local verifier accepts, with the report its claims are made from.\<close>

definition device_attested ::
    "crates \<Rightarrow> ('x, 's, 'k) x509_lib \<Rightarrow> nv_codec \<Rightarrow> bool \<Rightarrow> bytes \<Rightarrow> NvDeviceReportAndCert \<Rightarrow>
     TeeEvidenceParsedClaim \<times> TeeClass \<Rightarrow> bool" where
  "device_attested E L D chk nonce device result \<longleftrightarrow>
     nv_arch device = Hopper \<and>
     (\<exists>chain bs report.
        b64_decode_nv D (nv_certificate device) = Ok chain \<and> report_vec D device = Ok bs \<and>
        report_attested E L chk HOPPER_SIGNATURE_LENGTH bs chain nonce report \<and>
        result = (device_claims_new E D Hopper (nv_uuid device) report, ''gpu''))"

lemma device_locally_iff:
  "evaluate_device_locally E L D chk device nonce = Ok result \<longleftrightarrow> device_attested E L D chk nonce device result"
  by (auto simp: evaluate_device_locally_def device_attested_def outcome_iff try_new_iff)

text \<open>The reply of the remote service: both its tokens are signed and it reports that the nonce matches.\<close>

definition nras_confirms ::
    "crates \<Rightarrow> ('j, 'q, 'd) nras_lib \<Rightarrow> nv_codec \<Rightarrow> 'j \<Rightarrow> string \<Rightarrow> bytes \<Rightarrow> NvDeviceReportAndCert \<Rightarrow> json \<Rightarrow> bool" where
  "nras_confirms E N D jwks url nonce device claims \<longleftrightarrow>
     (\<exists>evidence res body response.
        http_post N url (nras_request E D device evidence nonce) = Ok res \<and> reply_success res \<and>
        reply_text res = Ok body \<and> NrasResponse_from_str N body = Ok response \<and>
        validate_jwt N (nras_jwt response) jwks = Ok () \<and> validate_jwt N (nras_eat response) jwks = Ok () \<and>
        NrasResponse_claims N response = Ok claims \<and>
        pointer_of N claims ''/x-nvidia-gpu-attestation-report-nonce-match'' = Some (JBool True))"

lemma as_bool_iff: "as_bool v = Some b \<longleftrightarrow> v = JBool b"
  by (cases v) auto

lemma device_remotely:
  assumes "evaluate_device_remotely E N D self device nonce url = Ok (claims, cls)"
  shows "cls = ''gpu''" and "\<exists>jwks url. nras_jwks self = Some jwks \<and> nras_confirms E N D jwks url nonce device claims"
proof -
  let ?ev = "case hex_decode_nv D (nv_evidence device) of Ok e \<Rightarrow> base64_encode E e | _ \<Rightarrow> nv_evidence device"
  let ?url = "(case url of Some u \<Rightarrow> u | None \<Rightarrow> NRAS_URL) @ ''/'' @ ''gpu''"
  obtain res body response jwks where r: "http_post N ?url (nras_request E D device ?ev nonce) = Ok res" "reply_success res"
    "reply_text res = Ok body" "NrasResponse_from_str N body = Ok response" "nras_jwks self = Some jwks"
    "NrasResponse_validate N response jwks = Ok ()" "NrasResponse_claims N response = Ok claims"
    "pointer_of N claims ''/x-nvidia-gpu-attestation-report-nonce-match'' = Some (JBool True)" "cls = ''gpu''"
    using assms unfolding evaluate_device_remotely_def Let_def
    by (auto simp: outcome_iff as_bool_iff reply_error_def split: if_splits option.splits)
  then show "cls = ''gpu''" and "\<exists>jwks url. nras_jwks self = Some jwks \<and> nras_confirms E N D jwks url nonce device claims"
    unfolding nras_confirms_def
    by (simp, intro exI [of _ jwks] exI [of _ ?url] conjI exI [of _ ?ev] exI [of _ res] exI [of _ body]
        exI [of _ response])
      (use r in \<open>auto simp: NrasResponse_validate_def outcome_iff\<close>)
qed

lemma evaluate_devices_iff:
  "evaluate_devices W self nonce ds = Ok claims \<longleftrightarrow>
     list_all2 (\<lambda>d c. evaluate_device W self nonce d = Ok c) ds claims"
  by (induction ds arbitrary: claims) (auto simp: outcome_iff list_all2_Cons1)

definition device_carries ::
    "('x, 's, 'k, 'j, 'q, 'd) nvidia_env \<Rightarrow> 'j Nvidia \<Rightarrow> bytes \<Rightarrow> NvDeviceReportAndCert \<Rightarrow> bool" where
  "device_carries W self nonce d \<longleftrightarrow>
     (case verifier_type self of
        NvidiaLocal \<Rightarrow> \<exists>bs. report_vec (nv_data W) d = Ok bs \<and> take SPDM_NONCE_SIZE (drop 4 bs) = nonce
      | NvidiaRemote _ \<Rightarrow> \<exists>jwks url claims. nras_jwks self = Some jwks \<and>
          nras_confirms (nv_crates W) (nv_nras W) (nv_data W) jwks url nonce d claims)"

definition nvidia_carries ::
    "('x, 's, 'k, 'j, 'q, 'd) nvidia_env \<Rightarrow> 'j Nvidia \<Rightarrow> TeeEvidence \<Rightarrow> bytes \<Rightarrow> bool" where
  "nvidia_carries W self ev rd \<longleftrightarrow>
     (\<exists>devices. nv_from_value (nv_data W) ev = Ok devices \<and>
        list_all (device_carries W self (regularize_data rd SPDM_NONCE_SIZE)) devices)"

lemma attested_nonce:
  assumes "report_attested E L chk k bs chain nonce report"
  shows "take SPDM_NONCE_SIZE (drop 4 bs) = nonce"
  using assms unfolding report_attested_def
  by (auto simp: report_signed_def request_bytes_def report_ok_def request_ok_def)

lemma evaluate_device_carries:
  assumes "evaluate_device W self nonce d = Ok c"
  shows "device_carries W self nonce d"
proof (cases "verifier_type self")
  case NvidiaLocal
  then have "device_attested (nv_crates W) (nv_x509 W) (nv_data W) (nv_chk W) nonce d c"
    using assms by (simp add: evaluate_device_def device_locally_iff)
  then show ?thesis using attested_nonce NvidiaLocal by (fastforce simp: device_attested_def device_carries_def)
next
  case (NvidiaRemote url)
  then show ?thesis
    using assms device_remotely(2) [of "nv_crates W" "nv_nras W" "nv_data W" self d nonce url "fst c" "snd c"]
    by (auto simp: evaluate_device_def device_carries_def)
qed

interpretation nvidia: data_verifier "NvidiaVerifier W self" "nvidia_carries W self"
proof
  fix ev rd ih claims
  assume "v_evaluate (NvidiaVerifier W self) ev (ReportValue rd) ih = Ok claims"
  then obtain devices where "nv_from_value (nv_data W) ev = Ok devices"
    "list_all2 (\<lambda>d c. evaluate_device W self (regularize_data rd SPDM_NONCE_SIZE) d = Ok c) devices claims"
    by (auto simp: NvidiaVerifier_def Nvidia_evaluate_def outcome_iff evaluate_devices_iff)
  then show "nvidia_carries W self ev rd"
    unfolding nvidia_carries_def
    by (auto simp: list_all_length list_all2_conv_all_nth intro!: evaluate_device_carries)
qed

section \<open>Properties\<close>

text \<open>
  C22. A report is decoded exactly when its bytes are laid out as the request, the response up to its signature
  and a signature of the expected length, followed by anything: the version is 1.1, the record has the announced
  number of blocks, each with its measurement inside, the opaque data has distinct known types with the two
  mandatory ones, and the size that is returned is the one of the signed bytes plus the signature.
\<close>

theorem nvidia_report_layout:
  "NvidiaAttestationReport_decode E chk bs k = Ok (report, n) \<longleftrightarrow>
     (\<exists>rec opq rest. bs = report_signed report rec opq @ rs_signature (response report) @ rest \<and>
        report_ok E chk k report rec opq \<and> n = length (report_signed report rec opq) + k)"
  by (rule report_decode_iff)

text \<open>
  C8. The local verifier accepts a list of devices exactly when every device is a Hopper GPU whose report bytes
  are signed, up to the signature, with the key of the first certificate of a chain that verifies against the
  NVIDIA root; the firmware identity of that certificate is the one in the report, the nonce in the signed
  request is the regularised report data, and the claims are the measurements and opaque data of that report.
\<close>

theorem nvidia_local_accepts_iff:
  "v_evaluate (NvidiaVerifier W \<lparr>verifier_type = NvidiaLocal, nras_jwks = jwks\<rparr>) ev (ReportValue rd) ih = Ok claims \<longleftrightarrow>
     (\<exists>devices. nv_from_value (nv_data W) ev = Ok devices \<and>
        list_all2 (device_attested (nv_crates W) (nv_x509 W) (nv_data W) (nv_chk W) (regularize_data rd 32))
          devices claims)"
  by (auto simp: NvidiaVerifier_def Nvidia_evaluate_def outcome_iff evaluate_devices_iff evaluate_device_def
      device_locally_iff SPDM_NONCE_SIZE_def)

text \<open>
  Without devices there is nothing to verify: the evidence is accepted, whatever the report data, with no claim.
  The remote verifier has no answer for an architecture other than Hopper and panics, and so does the local one
  on a certificate whose firmware identity is shorter than the 48 bytes it takes, in a build with overflow checks.
\<close>

lemma nvidia_no_devices:
  "nv_from_value (nv_data W) ev = Ok [] \<Longrightarrow> v_evaluate (NvidiaVerifier W self) ev (ReportValue rd) ih = Ok []"
  by (simp add: NvidiaVerifier_def Nvidia_evaluate_def)

lemma nvidia_remote_panics:
  "nv_arch device \<noteq> Hopper \<Longrightarrow> evaluate_device_remotely E N D self device nonce url = Panic"
  by (simp add: evaluate_device_remotely_def)

lemma nvidia_short_fwid_panics:
  assumes "x509_to_der L cert = Ok der" and "der_extension_unique L der fwid_oid = Ok (Some ext)" and "length ext < 48"
  shows "get_fwid_from_cert E L True cert = Panic" and "is_ok (get_fwid_from_cert E L False cert) = False"
  using assms unfolding get_fwid_from_cert_def last_48 by simp_all

end
