(* ===== verification/Verifier_Build.thy ===== *)
theory Verifier_Build
  imports As_Service Vtpm Sgx Csv Cca Se Nvidia
begin

text \<open>
  The verifier library built with every feature (\<^verbatim>\<open>deps/verifier/src/lib.rs\<close>): the constructor of each verifier in
  \<^verbatim>\<open>to_verifier\<close> and the configuration they take. Each verifier has its own environment.

  The property of this theory is the contract of the interface, over all platforms: evidence accepted with expected
  report data carries that data. Secure Execution is the exception.
\<close>

record VerifierConfig =
  nvidia_verifier :: "NvidiaVerifierType option"
  tpm_verifier :: "TpmVerifierConfig option"

definition all_verifiers ::
    "crates \<Rightarrow> ('c, 't) snp_lib \<Rightarrow> ('td1, 'td2, 'td3) tdx_env \<Rightarrow> ('q, 'k, 'h, 'j) vtpm_lib \<Rightarrow>
     ('q, 'h, 'c, 's, 'e) az_snp_lib \<Rightarrow> ('q, 'd) az_tdx_lib \<Rightarrow> 'sg sgx_env \<Rightarrow> ('w, 'a, 'b) csv_env \<Rightarrow>
     ('t1, 'r1, 'e1, 'd1, 'a1, 's1) cca_env \<Rightarrow>
     (('p, 'pq, 'r, 'bt, 'hm, 'hc, 'hk) se_env \<times> ('p, 'pq) SeVerifierImpl option) \<Rightarrow> dcu_lib \<Rightarrow>
     ('x, 'xs, 'xk, 'nj, 'nq, 'nd) nvidia_env \<Rightarrow> (('q', 'k', 'h', 'j') tpm_lib \<times> io_env \<times> fs) \<Rightarrow>
     TeeKind \<Rightarrow> VerifierConfig option \<Rightarrow> (anyhow, Verifier) outcome option" where
  "all_verifiers E L T vt A At Sg C Ca S D N P k config =
     (case k of
        AzSnpVtpm \<Rightarrow> Some (and_then (AzSnpVtpm_new L) (\<lambda>self. Ok (AzSnpVtpmVerifier E L vt A self)))
      | AzTdxVtpm \<Rightarrow> Some (Ok (AzTdxVtpmVerifier E vt At))
      | Tdx \<Rightarrow> Some (Ok (TdxVerifier T))
      | Snp \<Rightarrow> Some (Ok (SnpVerifier E L))
      | Sgx \<Rightarrow> Some (Ok (SgxVerifier Sg))
      | Csv \<Rightarrow> Some (Ok (CsvVerifier C))
      | Cca \<Rightarrow> Some (Ok (CcaVerifier Ca))
      | Se \<Rightarrow> Some (Ok (SeVerifier (fst S) (snd S)))
      | HygonDcu \<Rightarrow> Some (Ok (HygonDcuVerifier E D))
      | Nvidia \<Rightarrow>
          Some (and_then (Nvidia_new (nv_nras N) (Option.bind config nvidia_verifier)) (\<lambda>self. Ok (NvidiaVerifier N self)))
      | Tpm \<Rightarrow>
          (case P of (lib, io, f) \<Rightarrow>
             Some (and_then (map_err (\<lambda>_. [''Failed to read trusted AK keys directory''])
                 (TpmVerifier_new E lib io f (Option.bind config tpm_verifier))) (\<lambda>keys. Ok (TpmVerifierV E lib keys))))
      | _ \<Rightarrow> None)"

text \<open>What evidence of each kind carries when it is accepted.\<close>

definition all_carries ::
    "verifier_env \<Rightarrow> (json \<Rightarrow> (string, SampleTeeEvidence) outcome) \<Rightarrow> crates \<Rightarrow> ('c, 't) snp_lib \<Rightarrow>
     ('td1, 'td2, 'td3) tdx_env \<Rightarrow> ('q, 'k, 'h, 'j) vtpm_lib \<Rightarrow> ('q, 'h, 'c, 's, 'e) az_snp_lib \<Rightarrow> ('q, 'd) az_tdx_lib \<Rightarrow>
     'sg sgx_env \<Rightarrow> ('w, 'a, 'b) csv_env \<Rightarrow> ('t1, 'r1, 'e1, 'd1, 'a1, 's1) cca_env \<Rightarrow> dcu_lib \<Rightarrow>
     ('x, 'xs, 'xk, 'nj, 'nq, 'nd) nvidia_env \<Rightarrow> (('q', 'k', 'h', 'j') tpm_lib \<times> io_env \<times> fs) \<Rightarrow>
     TeeKind \<Rightarrow> TeeEvidence \<Rightarrow> bytes \<Rightarrow> bool" where
  "all_carries V from_value E L T vt A At Sg C Ca D N P k ev rd \<longleftrightarrow>
     (case k of
        AzSnpVtpm \<Rightarrow> \<exists>self e report. AzSnpVtpm_new L = Ok self \<and> az_snp_from_value A ev = Ok e \<and>
          az_snp_trusted E L vt A self e report \<and> quote_nonce vt (az_quote e) = Ok rd
      | AzTdxVtpm \<Rightarrow> \<exists>e custom q. az_tdx_from_value At ev = Ok e \<and> az_tdx_trusted E vt At e custom q \<and>
          quote_nonce vt (at_tpm_quote e) = Ok rd
      | Sgx \<Rightarrow> \<exists>custom q. sgx_carries Sg ev custom q \<and> sb_report_data (sq_report_body q) = regularize_data rd 64
      | Csv \<Rightarrow> \<exists>e report. csv_accepted C ev e report \<and> csv_report_data (csv_tee_info report) = regularize_data rd 64
      | Cca \<Rightarrow> \<exists>tcb. cca_accepted Ca ev rd tcb
      | HygonDcu \<Rightarrow> \<exists>reports. dcu_from_value D ev = Ok reports \<and> verify_reports D reports (regularize_data rd 64) = Ok ()
      | Nvidia \<Rightarrow> \<exists>self. nvidia_carries N self ev rd
      | Tpm \<Rightarrow> \<exists>keys e q. tpm_from_value (fst P) ev = Ok e \<and> tpm_trusted E (fst P) keys e q \<and>
          quote_nonce (tpm_vtpm (fst P)) q = Ok (regularize_data rd 32)
      | _ \<Rightarrow> build_carries V from_value T L k ev rd)"

lemma all_carries_kinds:
  "all_carries V from_value E L T vt A At Sg C Ca D N P Tdx ev rd = build_carries V from_value T L Tdx ev rd"
  "all_carries V from_value E L T vt A At Sg C Ca D N P Snp ev rd = build_carries V from_value T L Snp ev rd"
  "all_carries V from_value E L T vt A At Sg C Ca D N P SampleTee ev rd = build_carries V from_value T L SampleTee ev rd"
  "all_carries V from_value E L T vt A At Sg C Ca D N P SampleDeviceTee ev rd =
     build_carries V from_value T L SampleDeviceTee ev rd"
  by (simp_all add: all_carries_def)

text \<open>The verifiers of the smaller build are the same ones in this build.\<close>

lemma shared_verifiers:
  assumes "k \<in> {Tdx, Snp, SampleTee, SampleDeviceTee}"
  shows "to_verifier E V from_value (all_verifiers E L T vt A At Sg C Ca S D N P) k config =
    to_verifier E V from_value (tdx_snp_build T E L) k config"
  using assms by (auto simp: to_verifier_def all_verifiers_def tdx_snp_build_def)


definition demo_dcu :: dcu_lib where
  "demo_dcu =
     \<lparr>dcu_from_value = (\<lambda>_. Ok [\<lparr>dcu_version = JNumber 1, dcu_chip_id = [1], dcu_user_data = replicate 64 0,
        dcu_measure = [2], dcu_reserved = [], dcu_sig_usage = 0, dcu_sig_algo = 0\<rparr>]),
      verify_reports = (\<lambda>rs rd. if list_all (\<lambda>r. dcu_user_data r = rd) rs then Ok () else Err ''mismatch'')\<rparr>"


end
