(* ===== verification/As_Frontends.thy ===== *)
theory As_Frontends
  imports As_Service
begin

text \<open>
  The two network front ends of the attestation service: the gRPC server
  (\<^verbatim>\<open>attestation-service/src/bin/grpc/mod.rs\<close>) and the REST server (\<^verbatim>\<open>bin/restful/mod.rs\<close>, with the routes of
  \<^verbatim>\<open>bin/restful-as.rs\<close>). A handler takes the decoded message and the service and gives the answer and the changed
  state. Request ids and logging are left out.
\<close>

section \<open>Packages\<close>

text \<open>
  \<open>url_safe_encode\<close> and \<open>url_safe_decode\<close> are \<^verbatim>\<open>URL_SAFE_NO_PAD\<close>; \<open>value_from_slice\<close> and \<open>value_to_text\<close> read and
  write JSON documents; \<open>tee_name\<close> is the name of a TEE in the protocol (\<^verbatim>\<open>kbs_types::Tee\<close>).
\<close>

record 'ha frontend_lib =
  url_safe_encode :: "bytes \<Rightarrow> string"
  url_safe_decode :: "string \<Rightarrow> bytes option"
  value_from_slice :: "bytes \<Rightarrow> json option"
  value_to_text :: "json \<Rightarrow> string option"
  hash_algorithm_from :: "string \<Rightarrow> (string, 'ha) outcome"
  tee_name :: "TeeKind \<Rightarrow> Tee"

text \<open>\<^verbatim>\<open>e.chain().enumerate()\<close>: the causes of an error, numbered, one on a line.\<close>

fun numbered_causes :: "nat \<Rightarrow> anyhow \<Rightarrow> string" where
  "numbered_causes i [] = []"
| "numbered_causes i [e] = fmt_dec i @ '': '' @ e"
| "numbered_causes i (e # es) = fmt_dec i @ '': '' @ e @ [CHR 0x0A] @ numbered_causes (Suc i) es"

definition error_stack :: "anyhow \<Rightarrow> string" where
  "error_stack e = numbered_causes 0 e"

section \<open>gRPC messages\<close>

datatype GrpcRuntimeData = RawRuntimeData string | StructuredRuntimeData string

datatype GrpcInitData = InitDataDigest string | InitDataToml string

record IndividualAttestationRequest =
  iar_tee :: string
  iar_evidence :: string
  iar_runtime_data :: "GrpcRuntimeData option"
  iar_init_data :: "GrpcInitData option"
  iar_hash_algorithm :: string

record GrpcAttestationRequest =
  gar_requests :: "IndividualAttestationRequest list"
  gar_policy_ids :: "string list"

section \<open>The gRPC server\<close>

definition to_kbs_tee :: "string \<Rightarrow> (anyhow, TeeKind) outcome" where
  "to_kbs_tee tee =
     (if tee = ''sev'' then Ok Sev
      else if tee = ''sgx'' then Ok Sgx
      else if tee = ''snp'' then Ok Snp
      else if tee = ''tdx'' then Ok Tdx
      else if tee = ''csv'' then Ok Csv
      else if tee = ''sample'' then Ok SampleTee
      else if tee = ''az-snp-vtpm'' then Ok AzSnpVtpm
      else if tee = ''cca'' then Ok Cca
      else if tee = ''az-tdx-vtpm'' then Ok AzTdxVtpm
      else if tee = ''se'' then Ok Se
      else if tee = ''hygondcu'' then Ok HygonDcu
      else if tee = ''nvidia'' then Ok Nvidia
      else if tee = ''tpm'' then Ok Tpm
      else bail (''Unsupported TEE type: '' @ tee))"

definition grpc_runtime_data ::
    "crates \<Rightarrow> 'ha frontend_lib \<Rightarrow> GrpcRuntimeData option \<Rightarrow> (string, AsRuntimeData option) outcome" where
  "grpc_runtime_data E F data =
     (case data of
        Some (RawRuntimeData raw) \<Rightarrow>
          and_then (ok_or ''base64 decode runtime data'' (url_safe_decode F raw)) (\<lambda>b. Ok (Some (Raw b)))
      | Some (StructuredRuntimeData structured) \<Rightarrow>
          and_then (ok_or ''parse structured runtime data'' (json_from_str E structured)) (\<lambda>v. Ok (Some (Structured v)))
      | None \<Rightarrow> Ok None)"

definition grpc_init_data :: "'ha frontend_lib \<Rightarrow> GrpcInitData option \<Rightarrow> (string, InitDataInput option) outcome" where
  "grpc_init_data F data =
     (case data of
        Some (InitDataDigest raw) \<Rightarrow>
          and_then (ok_or ''base64 decode init data'' (url_safe_decode F raw)) (\<lambda>b. Ok (Some (DigestInput b)))
      | Some (InitDataToml structured) \<Rightarrow> Ok (Some (Toml structured))
      | None \<Rightarrow> Ok None)"

definition grpc_verification_request ::
    "crates \<Rightarrow> ('ha, 'cfg) as_lib \<Rightarrow> 'ha frontend_lib \<Rightarrow> IndividualAttestationRequest \<Rightarrow>
     (string, 'ha VerificationRequest) outcome" where
  "grpc_verification_request E L F r =
     and_then (map_err (\<lambda>e. ''parse TEE type: '' @ concat e) (to_kbs_tee (iar_tee r))) (\<lambda>tee.
     and_then (ok_or ''Illegal input Evidence'' (url_safe_decode F (iar_evidence r))) (\<lambda>b.
     and_then (ok_or ''failed to parse tee evidence'' (value_from_slice F b)) (\<lambda>evidence.
     and_then (grpc_runtime_data E F (iar_runtime_data r)) (\<lambda>runtime_data.
     and_then (grpc_init_data F (iar_init_data r)) (\<lambda>init_data.
     and_then (if iar_hash_algorithm r \<noteq> []
               then map_err (\<lambda>e. ''parse runtime data HashAlgorithm failed: '' @ e)
                      (hash_algorithm_from F (iar_hash_algorithm r))
               else Ok (sha384_algorithm L)) (\<lambda>ha.
       Ok \<lparr>vr_evidence = evidence, vr_tee = tee_name F tee, vr_runtime_data = runtime_data,
           vr_hash_algorithm = ha, vr_init_data = init_data,
           verifier_component = None, verifier_component_id = None\<rparr>))))))"

fun grpc_verification_requests ::
    "crates \<Rightarrow> ('ha, 'cfg) as_lib \<Rightarrow> 'ha frontend_lib \<Rightarrow> IndividualAttestationRequest list \<Rightarrow>
     (string, 'ha VerificationRequest list) outcome" where
  "grpc_verification_requests E L F [] = Ok []"
| "grpc_verification_requests E L F (r # rs) =
     and_then (grpc_verification_request E L F r) (\<lambda>req.
     and_then (grpc_verification_requests E L F rs) (\<lambda>reqs. Ok (req # reqs)))"

text \<open>\<^verbatim>\<open>policy_ids\<close> of a request, of either server.\<close>

definition requested_policies :: "string list \<Rightarrow> string list" where
  "requested_policies ids = (if ids = [] then [''default''] else ids)"

definition attestation_evaluate ::
    "('ha, 'cfg, 'm, 'x, 'k, 'c, 'e, 'v) as_world \<Rightarrow> 'ha frontend_lib \<Rightarrow> bool \<Rightarrow> ('cfg, 'k, 'c, 's) As \<Rightarrow>
     ('m, 's) as_state \<Rightarrow> GrpcAttestationRequest \<Rightarrow> (string, string) outcome \<times> ('m, 's) as_state" where
  "attestation_evaluate W F chk self s request =
     (case grpc_verification_requests (w_crates W) (w_lib W) F (gar_requests request) of
        Err e \<Rightarrow> (Err e, s)
      | Panic \<Rightarrow> (Panic, s)
      | Ok reqs \<Rightarrow>
          (let (r, s') = as_evaluate W chk self s reqs (requested_policies (gar_policy_ids request))
           in (map_err (\<lambda>e. ''Attestation evaluation failed: '' @ [CHR 0x0A] @ error_stack e) r, s')))"

definition set_attestation_policy ::
    "('ha, 'cfg, 'm, 'x, 'k, 'c, 'e, 'v) as_world \<Rightarrow> ('cfg, 'k, 'c, 's) As \<Rightarrow> ('m, 's) as_state \<Rightarrow>
     string \<Rightarrow> string \<Rightarrow> (string, unit) outcome \<times> ('m, 's) as_state" where
  "set_attestation_policy W self s policy_id pol =
     (let (r, s') = as_set_policy_op W self s policy_id pol
      in (map_err (\<lambda>e. ''Set Attestation Policy Failed: '' @ concat e) r, s'))"

definition get_attestation_challenge ::
    "('ha, 'cfg, 'm, 'x, 'k, 'c, 'e, 'v) as_world \<Rightarrow> 'ha frontend_lib \<Rightarrow> ('cfg, 'k, 'c, 's) As \<Rightarrow>
     (string \<times> string) list \<Rightarrow> (string, string) outcome" where
  "get_attestation_challenge W F self kvs =
     and_then (ok_or ''Error parse inner_tee tee'' (map_of kvs ''tee'')) (\<lambda>inner_tee.
     and_then (ok_or ''Error parse inner_tee tee_params'' (map_of kvs ''tee_params'')) (\<lambda>tee_params.
     and_then (map_err (\<lambda>e. ''Error parse TEE type: '' @ concat e) (to_kbs_tee inner_tee)) (\<lambda>tee.
       map_err (\<lambda>e. ''Challenge: '' @ concat e)
         (as_generate_supplemental_challenge W self (tee_name F tee) tee_params))))"

definition query_reference_value_rpc ::
    "'ha frontend_lib \<Rightarrow> ('cfg, 'k, 'c, 's) As \<Rightarrow> ('m, 's) as_state \<Rightarrow> string \<Rightarrow> (string, string option) outcome" where
  "query_reference_value_rpc F self s rid =
     and_then (map_err (\<lambda>e. ''Failed to query reference values: '' @ concat e) (as_query_rv self s rid)) (\<lambda>values.
       (case values of
          Some v \<Rightarrow> and_then (ok_or ''Failed to serialize reference values'' (value_to_text F v)) (\<lambda>t. Ok (Some t))
        | None \<Rightarrow> Ok None))"

definition register_reference_value_rpc ::
    "('ha, 'cfg, 'm, 'x, 'k, 'c, 'e, 'v) as_world \<Rightarrow> ('cfg, 'k, 'c, 's) As \<Rightarrow> ('m, 's) as_state \<Rightarrow> string \<Rightarrow>
     (string, unit) outcome \<times> ('m, 's) as_state" where
  "register_reference_value_rpc W self s message =
     (let (r, s') = as_register_rv W self s message
      in (map_err (\<lambda>e. ''Register reference value: '' @ concat e) r, s'))"

text \<open>\<^verbatim>\<open>AttestationServer::new\<close>; \<open>read_config\<close> reads the configuration file.\<close>

definition AttestationServer_new ::
    "('ha, 'cfg, 'm, 'x, 'k, 'c, 'e, 'v) as_world \<Rightarrow> (string \<Rightarrow> fs \<Rightarrow> (string, 'cfg AsConfig) outcome) \<Rightarrow> 'cfg AsConfig \<Rightarrow>
     (string, 's Rvps \<times> 's) outcome \<Rightarrow> string \<Rightarrow> string \<Rightarrow> int \<times> (nat \<Rightarrow> bytes option) \<times> (nat \<Rightarrow> string) \<Rightarrow>
     string option \<Rightarrow> fs \<Rightarrow> (anyhow, ('cfg, 'k, 'c, 's) As \<times> ('m, 's) as_state) outcome \<times> fs" where
  "AttestationServer_new W read_config config_default rvps cpu_policy gpu_policy surroundings config_path f =
     (case (case config_path of Some p \<Rightarrow> read_config p f | None \<Rightarrow> Ok config_default) of
        Err e \<Rightarrow> (bail (''Failed to read Attestation Service config file: '' @ e), f)
      | Panic \<Rightarrow> (Panic, f)
      | Ok config \<Rightarrow> as_new W rvps cpu_policy gpu_policy surroundings config f)"

section \<open>The REST server\<close>

datatype RestRuntimeData = RestRaw string | RestStructured json

datatype RestInitData = RestInitDataDigest string | RestInitDataToml string

record RestIndividualRequest =
  rr_tee :: string
  rr_evidence :: string
  rr_verifier_component :: "string option"
  rr_verifier_component_id :: "string option"
  rr_runtime_data :: "RestRuntimeData option"
  rr_init_data :: "RestInitData option"
  rr_hash_algorithm :: "string option"

record RestAttestationRequest =
  rar_requests :: "RestIndividualRequest list"
  rar_policy_ids :: "string list"

definition to_tee :: "string \<Rightarrow> (anyhow, TeeKind) outcome" where
  "to_tee tee =
     (if tee = ''az-snp-vtpm'' then Ok AzSnpVtpm
      else if tee = ''sev'' then Ok Sev
      else if tee = ''sgx'' then Ok Sgx
      else if tee = ''snp'' then Ok Snp
      else if tee = ''tdx'' then Ok Tdx
      else if tee = ''cca'' then Ok Cca
      else if tee = ''csv'' then Ok Csv
      else if tee = ''sample'' then Ok SampleTee
      else if tee = ''sampledevice'' then Ok SampleDeviceTee
      else if tee = ''az-tdx-vtpm'' then Ok AzTdxVtpm
      else if tee = ''se'' then Ok Se
      else if tee = ''hygondcu'' then Ok HygonDcu
      else bail (''tee `'' @ tee @ '' not supported`''))"

definition rest_parse_runtime_data :: "'ha frontend_lib \<Rightarrow> RestRuntimeData \<Rightarrow> (anyhow, AsRuntimeData) outcome" where
  "rest_parse_runtime_data F data =
     (case data of
        RestRaw raw \<Rightarrow> and_then (ok_or [''base64 decode raw runtime data''] (url_safe_decode F raw)) (\<lambda>b. Ok (Raw b))
      | RestStructured structured \<Rightarrow> Ok (Structured structured))"

definition rest_parse_init_data :: "'ha frontend_lib \<Rightarrow> RestInitData \<Rightarrow> (anyhow, InitDataInput) outcome" where
  "rest_parse_init_data F data =
     (case data of
        RestInitDataDigest raw \<Rightarrow>
          and_then (ok_or [''base64 decode raw init data''] (url_safe_decode F raw)) (\<lambda>b. Ok (DigestInput b))
      | RestInitDataToml structured \<Rightarrow> Ok (Toml structured))"

text \<open>\<^verbatim>\<open>.map(f).transpose()\<close>\<close>

definition transposed :: "('a \<Rightarrow> ('e, 'b) outcome) \<Rightarrow> 'a option \<Rightarrow> ('e, 'b option) outcome" where
  "transposed f x = (case x of None \<Rightarrow> Ok None | Some a \<Rightarrow> map_ok Some (f a))"

definition rest_verification_request ::
    "('ha, 'cfg) as_lib \<Rightarrow> 'ha frontend_lib \<Rightarrow> RestIndividualRequest \<Rightarrow> (anyhow, 'ha VerificationRequest) outcome" where
  "rest_verification_request L F r =
     and_then (ok_or [''base64 decode evidence''] (url_safe_decode F (rr_evidence r))) (\<lambda>b.
     and_then (ok_or [''failed to parse evidence as JSON''] (value_from_slice F b)) (\<lambda>evidence.
     and_then (transposed (\<lambda>s. ok_or [''base64 decode verifier component''] (url_safe_decode F s))
                 (rr_verifier_component r)) (\<lambda>component.
     and_then (to_tee (rr_tee r)) (\<lambda>tee.
     and_then (with_context ''decode given Runtime Data''
                 (transposed (rest_parse_runtime_data F) (rr_runtime_data r))) (\<lambda>runtime_data.
     and_then (with_context ''decode given Init Data''
                 (transposed (rest_parse_init_data F) (rr_init_data r))) (\<lambda>init_data.
     and_then (case rr_hash_algorithm r of
                 Some a \<Rightarrow> with_context ''parse runtime data HashAlgorithm failed'' (lib_error (hash_algorithm_from F a))
               | None \<Rightarrow> Ok (sha384_algorithm L)) (\<lambda>ha.
       Ok \<lparr>vr_evidence = evidence, vr_tee = tee_name F tee, vr_runtime_data = runtime_data,
           vr_hash_algorithm = ha, vr_init_data = init_data,
           verifier_component = component, verifier_component_id = rr_verifier_component_id r\<rparr>)))))))"

fun rest_verification_requests ::
    "('ha, 'cfg) as_lib \<Rightarrow> 'ha frontend_lib \<Rightarrow> RestIndividualRequest list \<Rightarrow>
     (anyhow, 'ha VerificationRequest list) outcome" where
  "rest_verification_requests L F [] = Ok []"
| "rest_verification_requests L F (r # rs) =
     and_then (rest_verification_request L F r) (\<lambda>req.
     and_then (rest_verification_requests L F rs) (\<lambda>reqs. Ok (req # reqs)))"

text \<open>An answer of status 200 with a body; the error response of \<^verbatim>\<open>Error::InternalError\<close>.\<close>

definition rest_ok :: "string option \<Rightarrow> string \<Rightarrow> HttpResponse" where
  "rest_ok ctype body = \<lparr>resp_status = 200, resp_cookie = None, content_type = ctype, resp_body = body\<rparr>"

definition rest_error_response :: "anyhow \<Rightarrow> HttpResponse" where
  "rest_error_response e =
     \<lparr>resp_status = 500, resp_cookie = None, content_type = None,
      resp_body = ''An internal error occured: '' @ [CHR 0x0A] @ error_stack e\<rparr>"

definition rest_attestation ::
    "('ha, 'cfg, 'm, 'x, 'k, 'c, 'e, 'v) as_world \<Rightarrow> 'ha frontend_lib \<Rightarrow> bool \<Rightarrow> ('cfg, 'k, 'c, 's) As \<Rightarrow>
     ('m, 's) as_state \<Rightarrow> RestAttestationRequest \<Rightarrow> (anyhow, HttpResponse) outcome \<times> ('m, 's) as_state" where
  "rest_attestation W F chk self s request =
     (case rest_verification_requests (w_lib W) F (rar_requests request) of
        Err e \<Rightarrow> (Err e, s)
      | Panic \<Rightarrow> (Panic, s)
      | Ok reqs \<Rightarrow>
          (let (r, s') = as_evaluate W chk self s reqs (requested_policies (rar_policy_ids request))
           in (and_then (with_context ''attestation report evaluate'' r) (\<lambda>token. Ok (rest_ok None token)), s')))"

definition rest_register_component ::
    "('ha, 'cfg, 'm, 'x, 'k, 'c, 'e, 'v) as_world \<Rightarrow> 'ha frontend_lib \<Rightarrow> ('cfg, 'k, 'c, 's) As \<Rightarrow>
     ('m, 's) as_state \<Rightarrow> string \<Rightarrow> (anyhow, HttpResponse) outcome \<times> ('m, 's) as_state" where
  "rest_register_component W F self s component =
     (case ok_or [''base64 decode verifier component''] (url_safe_decode F component) of
        Err e \<Rightarrow> (Err e, s)
      | Panic \<Rightarrow> (Panic, s)
      | Ok b \<Rightarrow>
          (let (r, s') = register_component_verifier W self s b
           in (and_then (with_context ''register component verifier'' r) (\<lambda>i.
               and_then (ok_or [''json''] (value_to_text F (JObject [(''component_id'', JString i)]))) (\<lambda>body.
                 Ok (rest_ok (Some ''application/json'') body))), s')))"

definition rest_set_policy ::
    "('ha, 'cfg, 'm, 'x, 'k, 'c, 'e, 'v) as_world \<Rightarrow> ('cfg, 'k, 'c, 's) As \<Rightarrow> ('m, 's) as_state \<Rightarrow>
     string \<Rightarrow> string \<Rightarrow> (anyhow, HttpResponse) outcome \<times> ('m, 's) as_state" where
  "rest_set_policy W self s policy_id pol =
     (let (r, s') = as_set_policy_op W self s policy_id pol
      in (and_then (with_context ''set policy'' r) (\<lambda>_. Ok (rest_ok None [])), s'))"

definition rest_get_challenge ::
    "('ha, 'cfg, 'm, 'x, 'k, 'c, 'e, 'v) as_world \<Rightarrow> 'ha frontend_lib \<Rightarrow> ('cfg, 'k, 'c, 's) As \<Rightarrow>
     (string \<times> string) list \<Rightarrow> (anyhow, HttpResponse) outcome" where
  "rest_get_challenge W F self kvs =
     and_then (ok_or [''Failed to get inner tee''] (map_of kvs ''tee'')) (\<lambda>inner_tee.
     and_then (ok_or [''Failed to get inner tee_params''] (map_of kvs ''tee_params'')) (\<lambda>tee_params.
     and_then (to_tee inner_tee) (\<lambda>tee.
     and_then (with_context ''generate challenge''
                 (as_generate_supplemental_challenge W self (tee_name F tee) tee_params)) (\<lambda>challenge.
       Ok (rest_ok None challenge)))))"

text \<open>\<open>matched\<close> is the parameter \<^verbatim>\<open>policy_id\<close> of the matched route.\<close>

definition rest_get_policies ::
    "('ha, 'cfg, 'm, 'x, 'k, 'c, 'e, 'v) as_world \<Rightarrow> 'ha frontend_lib \<Rightarrow> ('cfg, 'k, 'c, 's) As \<Rightarrow>
     ('m, 's) as_state \<Rightarrow> string option \<Rightarrow> (anyhow, HttpResponse) outcome" where
  "rest_get_policies W F self s matched =
     (case matched of
        Some policy_id \<Rightarrow>
          and_then (with_context ''get policy'' (as_get_policy W self s policy_id)) (\<lambda>pol. Ok (rest_ok None pol))
      | None \<Rightarrow>
          and_then (with_context ''get policies'' (as_list_policies W self s)) (\<lambda>policies.
          and_then (ok_or [''serialize response body'']
                      (value_to_text F (JArray (map (\<lambda>(i, d). JObject [(''policy-hash'', JString d), (''policy-id'', JString i)])
                         policies)))) (\<lambda>body. Ok (rest_ok None body))))"

text \<open>
  The routes of \<^verbatim>\<open>main\<close>. A message that is not the JSON the extractor expects is answered with 400, an unknown path
  with 404 and another method with 405, by the framework.
\<close>

datatype rest_body =
    AttestationBody RestAttestationRequest
  | SetPolicyBody string string
  | ChallengeBody "(string \<times> string) list"
  | ComponentBody string
  | OtherBody

definition rest_status :: "nat \<Rightarrow> HttpResponse" where
  "rest_status n = \<lparr>resp_status = n, resp_cookie = None, content_type = None, resp_body = []\<rparr>"

definition answer :: "(anyhow, HttpResponse) outcome \<Rightarrow> (unit, HttpResponse) outcome" where
  "answer r = (case r of Ok resp \<Rightarrow> Ok resp | Err e \<Rightarrow> Ok (rest_error_response e) | Panic \<Rightarrow> Panic)"

definition restful_api ::
    "('ha, 'cfg, 'm, 'x, 'k, 'c, 'e, 'v) as_world \<Rightarrow> 'ha frontend_lib \<Rightarrow> bool \<Rightarrow> ('cfg, 'k, 'c, 's) As \<Rightarrow>
     ('m, 's) as_state \<Rightarrow> string \<Rightarrow> string \<Rightarrow> rest_body \<Rightarrow> (unit, HttpResponse) outcome \<times> ('m, 's) as_state" where
  "restful_api W F chk self s meth url body =
     (if url = ''/attestation'' then
        if meth \<noteq> ''POST'' then (Ok (rest_status 405), s)
        else (case body of
                AttestationBody r \<Rightarrow> (let (x, s') = rest_attestation W F chk self s r in (answer x, s'))
              | _ \<Rightarrow> (Ok (rest_status 400), s))
      else if url = ''/policy'' then
        if meth = ''POST''
        then (case body of
                SetPolicyBody i p \<Rightarrow> (let (x, s') = rest_set_policy W self s i p in (answer x, s'))
              | _ \<Rightarrow> (Ok (rest_status 400), s))
        else if meth = ''GET'' then (answer (rest_get_policies W F self s None), s)
        else (Ok (rest_status 405), s)
      else if url = ''/challenge'' then
        if meth \<noteq> ''POST'' then (Ok (rest_status 405), s)
        else (case body of
                ChallengeBody c \<Rightarrow> (answer (rest_get_challenge W F self c), s)
              | _ \<Rightarrow> (Ok (rest_status 400), s))
      else if url = ''/component'' then
        if meth \<noteq> ''POST'' then (Ok (rest_status 405), s)
        else (case body of
                ComponentBody b \<Rightarrow> (let (x, s') = rest_register_component W F self s b in (answer x, s'))
              | _ \<Rightarrow> (Ok (rest_status 400), s))
      else (Ok (rest_status 404), s))"

section \<open>The TEEs a front end takes\<close>

text \<open>The names of the TEEs in the protocol.\<close>

fun protocol_name :: "TeeKind \<Rightarrow> string" where
  "protocol_name Sev = ''sev''"
| "protocol_name AzSnpVtpm = ''az-snp-vtpm''"
| "protocol_name AzTdxVtpm = ''az-tdx-vtpm''"
| "protocol_name Tdx = ''tdx''"
| "protocol_name Snp = ''snp''"
| "protocol_name SampleTee = ''sample''"
| "protocol_name SampleDeviceTee = ''sampledevice''"
| "protocol_name Sgx = ''sgx''"
| "protocol_name Csv = ''csv''"
| "protocol_name Cca = ''cca''"
| "protocol_name Se = ''se''"
| "protocol_name HygonDcu = ''hygondcu''"
| "protocol_name Nvidia = ''nvidia''"
| "protocol_name Tpm = ''tpm''"

lemma protocol_name_inj [simp]: "protocol_name k = protocol_name k' \<longleftrightarrow> k = k'"
  by (cases k; cases k') simp_all

text \<open>
  The two front ends take different TEEs: the gRPC server all but the sample device, the REST server all but Nvidia
  devices and plain TPMs.
\<close>

lemma to_kbs_tee_iff: "to_kbs_tee t = Ok k \<longleftrightarrow> t = protocol_name k \<and> k \<noteq> SampleDeviceTee"
  by (cases k) (auto simp: to_kbs_tee_def bail_def)

lemma to_tee_iff: "to_tee t = Ok k \<longleftrightarrow> t = protocol_name k \<and> k \<notin> {Nvidia, Tpm}"
  by (cases k) (auto simp: to_tee_def bail_def)

text \<open>
  For a TEE both take, the two servers make the same request of the same message. In the REST message structured
  runtime data is JSON, in the gRPC message it is the text of it.
\<close>

definition same_message :: "crates \<Rightarrow> IndividualAttestationRequest \<Rightarrow> RestIndividualRequest \<Rightarrow> bool" where
  "same_message E g r \<longleftrightarrow>
     rr_tee r = iar_tee g \<and> rr_evidence r = iar_evidence g \<and> rr_verifier_component r = None \<and>
     rr_verifier_component_id r = None \<and>
     rel_option (\<lambda>x y. case (x, y) of
         (RawRuntimeData a, RestRaw b) \<Rightarrow> b = a
       | (StructuredRuntimeData a, RestStructured v) \<Rightarrow> json_from_str E a = Some v
       | _ \<Rightarrow> False) (iar_runtime_data g) (rr_runtime_data r) \<and>
     rel_option (\<lambda>x y. case (x, y) of
         (InitDataDigest a, RestInitDataDigest b) \<Rightarrow> b = a
       | (InitDataToml a, RestInitDataToml b) \<Rightarrow> b = a
       | _ \<Rightarrow> False) (iar_init_data g) (rr_init_data r) \<and>
     rr_hash_algorithm r = (if iar_hash_algorithm g = [] then None else Some (iar_hash_algorithm g))"

lemma front_ends_agree:
  assumes m: "same_message E g r" and k: "iar_tee g = protocol_name k" "k \<notin> {SampleDeviceTee, Nvidia, Tpm}"
  shows "grpc_verification_request E L F g = Ok req \<longleftrightarrow> rest_verification_request L F r = Ok req"
proof -
  have tee: "to_kbs_tee (iar_tee g) = Ok k" "to_tee (rr_tee r) = Ok k"
    using k m by (simp_all add: to_kbs_tee_iff to_tee_iff same_message_def)
  have rt: "grpc_runtime_data E F (iar_runtime_data g) = Ok x \<longleftrightarrow>
      transposed (rest_parse_runtime_data F) (rr_runtime_data r) = Ok x" for x
    using m by (cases "iar_runtime_data g"; cases "rr_runtime_data r")
      (auto simp: same_message_def grpc_runtime_data_def transposed_def rest_parse_runtime_data_def outcome_iff
        split: GrpcRuntimeData.splits RestRuntimeData.splits)
  have it: "grpc_init_data F (iar_init_data g) = Ok x \<longleftrightarrow>
      transposed (rest_parse_init_data F) (rr_init_data r) = Ok x" for x
    using m by (cases "iar_init_data g"; cases "rr_init_data r")
      (auto simp: same_message_def grpc_init_data_def transposed_def rest_parse_init_data_def outcome_iff
        split: GrpcInitData.splits RestInitData.splits)
  have other: "rr_evidence r = iar_evidence g" "rr_verifier_component r = None" "rr_verifier_component_id r = None"
    "rr_hash_algorithm r = (if iar_hash_algorithm g = [] then None else Some (iar_hash_algorithm g))"
    using m by (simp_all add: same_message_def)
  show ?thesis
    unfolding grpc_verification_request_def rest_verification_request_def and_then_Ok_iff with_context_iff lib_error_iff
      ok_or_iff(1) rt it other
    by (auto simp: tee transposed_def outcome_iff)
qed

text \<open>No route leads to a single policy.\<close>

lemma single_policy_unreachable:
  "restful_api W F chk self s ''GET'' (''/policy/'' @ i) body = (Ok (rest_status 404), s)"
  by (simp add: restful_api_def)

end
