(* ===== verification/Kbs_Clients.thy ===== *)
theory Kbs_Clients
  imports As_Frontends
begin

text \<open>
  The client of a remote attestation service in the key broker (\<^verbatim>\<open>kbs/src/attestation/coco/grpc.rs\<close>), as another
  \<open>Attest\<close> of the handshake. Composed with the gRPC server it does what the built-in service does.
\<close>

section \<open>Packages\<close>

text \<open>
  \<open>gc_tee_to_string\<close> is \<^verbatim>\<open>serde_json::to_string\<close> of a TEE, \<open>gc_value_display\<close> the text of a JSON value,
  \<open>gc_is_se\<close> tells \<^verbatim>\<open>Tee::Se\<close> and \<open>gc_init_data_fields\<close> reads the format and the body of the initialisation data.
\<close>

record grpc_client_lib =
  gc_tee_to_string :: "Tee \<Rightarrow> string option"
  gc_is_se :: "Tee \<Rightarrow> bool"
  gc_value_display :: "json \<Rightarrow> string"
  gc_url_safe_encode :: "bytes \<Rightarrow> string"
  gc_json_from_str :: "string \<Rightarrow> json option"
  gc_init_data_fields :: "json \<Rightarrow> string \<times> string"

text \<open>The connection pool and the calls over one of its connections, in a world \<open>'i\<close> that has the remote service.\<close>

record 'i as_channel =
  pool_get :: "'i \<Rightarrow> (string, unit) outcome"
  rpc_set_attestation_policy :: "'i \<Rightarrow> string \<Rightarrow> string \<Rightarrow> (string, unit) outcome \<times> 'i"
  rpc_attestation_evaluate :: "'i \<Rightarrow> GrpcAttestationRequest \<Rightarrow> (string, string) outcome"
  rpc_get_attestation_challenge :: "'i \<Rightarrow> (string \<times> string) list \<Rightarrow> (string, string) outcome"
  rpc_register_reference_value :: "'i \<Rightarrow> string \<Rightarrow> (string, unit) outcome \<times> 'i"
  rpc_query_reference_value :: "'i \<Rightarrow> string \<Rightarrow> (string, string option) outcome"

section \<open>Configuration\<close>

definition DEFAULT_AS_ADDR :: string where
  "DEFAULT_AS_ADDR = ''http://127.0.0.1:50004''"

definition DEFAULT_POOL_SIZE :: nat where
  "DEFAULT_POOL_SIZE = 100"

definition COCO_AS_HASH_ALGORITHM :: string where
  "COCO_AS_HASH_ALGORITHM = ''sha384''"

record GrpcConfig =
  as_addr :: string
  pool_size :: nat

definition GrpcConfig_default :: GrpcConfig where
  "GrpcConfig_default = \<lparr>as_addr = DEFAULT_AS_ADDR, pool_size = DEFAULT_POOL_SIZE\<rparr>"

section \<open>The client\<close>

definition trim_quotes :: "string \<Rightarrow> string" where
  "trim_quotes s = dropWhile (\<lambda>c. c = CHR 0x22) (trim_end_matches (CHR 0x22) s)"

definition client_request ::
    "grpc_client_lib \<Rightarrow> IndependentEvidence \<Rightarrow> (string, IndividualAttestationRequest) outcome" where
  "client_request G ev =
     and_then (ok_or ''CoCo AS client: serialize tee type failed.'' (gc_tee_to_string G (ev_tee ev))) (\<lambda>tee.
       let request = \<lparr>iar_tee = trim_quotes tee,
             iar_evidence = gc_url_safe_encode G (bytes_of (gc_value_display G (ev_tee_evidence ev))),
             iar_runtime_data = Some (StructuredRuntimeData (gc_value_display G (ev_runtime_data ev))),
             iar_init_data = None, iar_hash_algorithm = COCO_AS_HASH_ALGORITHM\<rparr>
       in
       (case ev_init_data ev of
          None \<Rightarrow> Ok request
        | Some d \<Rightarrow>
            (let (format, body) = gc_init_data_fields G d in
             if format \<noteq> ''toml'' then Err (''Unsupported initdata format: '' @ format)
             else Ok (request\<lparr>iar_init_data := Some (InitDataToml body)\<rparr>))))"

fun client_requests ::
    "grpc_client_lib \<Rightarrow> IndependentEvidence list \<Rightarrow> (string, IndividualAttestationRequest list) outcome" where
  "client_requests G [] = Ok []"
| "client_requests G (e # es) =
     and_then (client_request G e) (\<lambda>r. and_then (client_requests G es) (\<lambda>rs. Ok (r # rs)))"

definition grpc_verify ::
    "grpc_client_lib \<Rightarrow> 'i as_channel \<Rightarrow> 'i \<Rightarrow> IndependentEvidence list \<Rightarrow> (string, string) outcome" where
  "grpc_verify G Ch i evs =
     and_then (client_requests G evs) (\<lambda>requests.
     and_then (pool_get Ch i) (\<lambda>_.
       rpc_attestation_evaluate Ch i \<lparr>gar_requests = requests, gar_policy_ids = [''default'']\<rparr>))"

definition grpc_generate_challenge ::
    "crates \<Rightarrow> grpc_client_lib \<Rightarrow> 'i as_channel \<Rightarrow> (nat \<Rightarrow> bytes option) \<Rightarrow> 'i \<Rightarrow> Tee \<Rightarrow> json \<Rightarrow>
     (string, Challenge) outcome" where
  "grpc_generate_challenge E G Ch fill i tee tee_parameters =
     and_then (if gc_is_se G tee
               then and_then (pool_get Ch i) (\<lambda>_.
                      rpc_get_attestation_challenge Ch i
                        [(''tee'', ''se''), (''tee_params'', gc_value_display G tee_parameters)])
               else make_nonce E fill) (\<lambda>n.
       Ok \<lparr>nonce = n, challenge_params = JString []\<rparr>)"

definition grpc_set_policy ::
    "'i as_channel \<Rightarrow> 'i \<Rightarrow> string \<Rightarrow> string \<Rightarrow> (string, unit) outcome \<times> 'i" where
  "grpc_set_policy Ch i policy_id pol =
     (case pool_get Ch i of
        Ok _ \<Rightarrow> (let (r, i') = rpc_set_attestation_policy Ch i policy_id pol
                 in (map_err (\<lambda>e. ''Set Policy Failed: '' @ e) r, i'))
      | Err e \<Rightarrow> (Err e, i)
      | Panic \<Rightarrow> (Panic, i))"

definition grpc_register_reference_value :: "'i as_channel \<Rightarrow> 'i \<Rightarrow> string \<Rightarrow> (string, unit) outcome \<times> 'i" where
  "grpc_register_reference_value Ch i message =
     (case pool_get Ch i of
        Ok _ \<Rightarrow> (let (r, i') = rpc_register_reference_value Ch i message
                 in (map_err (\<lambda>e. ''Failed to set reference values: '' @ e) r, i'))
      | Err e \<Rightarrow> (Err e, i)
      | Panic \<Rightarrow> (Panic, i))"

definition grpc_query_reference_value ::
    "grpc_client_lib \<Rightarrow> 'i as_channel \<Rightarrow> 'i \<Rightarrow> string \<Rightarrow> (string, json option) outcome" where
  "grpc_query_reference_value G Ch i rid =
     and_then (pool_get Ch i) (\<lambda>_.
     and_then (map_err (\<lambda>e. ''Failed to get reference values: '' @ e) (rpc_query_reference_value Ch i rid)) (\<lambda>res.
       (case res of
          Some t \<Rightarrow> and_then (ok_or ''serde_json'' (gc_json_from_str G t)) (\<lambda>v. Ok (Some v))
        | None \<Rightarrow> Ok None)))"

definition grpc_client_pool ::
    "crates \<Rightarrow> grpc_client_lib \<Rightarrow> 'i as_channel \<Rightarrow> ('i \<Rightarrow> nat \<Rightarrow> bytes option) \<Rightarrow> 'i Attest" where
  "grpc_client_pool E G Ch fill =
     \<lparr>as_set_policy = grpc_set_policy Ch, as_verify = grpc_verify G Ch,
      as_generate_challenge = (\<lambda>i. grpc_generate_challenge E G Ch (fill i) i),
      as_register_reference_value = grpc_register_reference_value Ch,
      as_query_reference_value = grpc_query_reference_value G Ch\<rparr>"

section \<open>The client connected to the server\<close>

text \<open>
  A channel to the gRPC server of the attestation service; the connection holds, and a panic of a handler reaches the
  client as a failed call.
\<close>

definition over_wire :: "(string, 'a) outcome \<Rightarrow> (string, 'a) outcome" where
  "over_wire r = (case r of Panic \<Rightarrow> Err ''transport error'' | _ \<Rightarrow> r)"

definition server_channel ::
    "('ha, 'cfg, 'm, 'x, 'k, 'c, 'e, 'v) as_world \<Rightarrow> 'ha frontend_lib \<Rightarrow> bool \<Rightarrow> ('cfg, 'k, 'c, 's) As \<Rightarrow>
     ('m, 's) as_state as_channel" where
  "server_channel W F chk self =
     \<lparr>pool_get = (\<lambda>s. Ok ()),
      rpc_set_attestation_policy = (\<lambda>s i p. let (r, s') = set_attestation_policy W self s i p in (over_wire r, s')),
      rpc_attestation_evaluate = (\<lambda>s r. over_wire (fst (attestation_evaluate W F chk self s r))),
      rpc_get_attestation_challenge = (\<lambda>s kvs. over_wire (get_attestation_challenge W F self kvs)),
      rpc_register_reference_value = (\<lambda>s m. let (r, s') = register_reference_value_rpc W self s m in (over_wire r, s')),
      rpc_query_reference_value = (\<lambda>s i. over_wire (query_reference_value_rpc F self s i))\<rparr>"

definition remote_coco_as ::
    "('ha, 'cfg, 'm, 'x, 'k, 'c, 'e, 'v) as_world \<Rightarrow> 'ha frontend_lib \<Rightarrow> grpc_client_lib \<Rightarrow> bool \<Rightarrow>
     ('cfg, 'k, 'c, 's) As \<Rightarrow> ('m, 's) as_state Attest" where
  "remote_coco_as W F G chk self = grpc_client_pool (w_crates W) G (server_channel W F chk self) as_entropy"

text \<open>
  What client and server agree on: base64 decodes what it encoded, the names of the protocol for the TEEs, which is
  also their JSON text, the name of SHA-384, and the JSON texts of the values sent.
\<close>

definition protocol_laws :: "('ha, 'cfg) as_lib \<Rightarrow> 'ha frontend_lib \<Rightarrow> grpc_client_lib \<Rightarrow> bool" where
  "protocol_laws L F G \<longleftrightarrow>
     (\<forall>b. url_safe_decode F (gc_url_safe_encode G b) = Some b) \<and>
     (\<forall>k. tee_name F k = protocol_name k \<and> tee_kind L (protocol_name k) = k \<and>
          gc_tee_to_string G (protocol_name k) = Some ([CHR 0x22] @ protocol_name k @ [CHR 0x22])) \<and>
     (\<forall>t. gc_is_se G t \<longleftrightarrow> tee_kind L t = Se) \<and>
     hash_algorithm_from F COCO_AS_HASH_ALGORITHM = Ok (sha384_algorithm L)"

definition json_travels :: "crates \<Rightarrow> 'ha frontend_lib \<Rightarrow> grpc_client_lib \<Rightarrow> json \<Rightarrow> bool" where
  "json_travels E F G v \<longleftrightarrow>
     value_from_slice F (bytes_of (gc_value_display G v)) = Some v \<and> json_from_str E (gc_value_display G v) = Some v \<and>
     (\<exists>t. value_to_text F v = Some t \<and> gc_json_from_str G t = Some v)"

text \<open>Evidence that can be sent: of a TEE the server knows, which the sample device is not.\<close>

definition sendable :: "crates \<Rightarrow> 'ha frontend_lib \<Rightarrow> grpc_client_lib \<Rightarrow> IndependentEvidence \<Rightarrow> bool" where
  "sendable E F G e \<longleftrightarrow>
     ev_tee e \<in> protocol_name ` (- {SampleDeviceTee}) \<and>
     json_travels E F G (ev_tee_evidence e) \<and> json_travels E F G (ev_runtime_data e)"

section \<open>Remote and built-in agree\<close>

lemma over_wire_Ok [simp]: "over_wire r = Ok x \<longleftrightarrow> r = Ok x"
  by (simp add: over_wire_def split: outcome.split)

lemma to_kbs_tee_name: "k \<noteq> SampleDeviceTee \<Longrightarrow> to_kbs_tee (protocol_name k) = Ok k"
  by (simp add: to_kbs_tee_iff)

lemma trim_quoted: "trim_quotes ([CHR 0x22] @ protocol_name k @ [CHR 0x22]) = protocol_name k"
  by (cases k) (simp_all add: trim_quotes_def trim_end_matches_def)

text \<open>A request, packed by the client and unpacked by the server, is the one the built-in service makes.\<close>

lemma request_travels:
  assumes "protocol_laws L F G" and "sendable E F G e"
  shows "(\<exists>r. client_request G e = Ok r \<and> grpc_verification_request E L F r = Ok req) \<longleftrightarrow>
    builtin_request L (gc_init_data_fields G) e = Ok req"
proof -
  obtain k where k: "ev_tee e = protocol_name k" "k \<noteq> SampleDeviceTee"
    using assms(2) by (auto simp: sendable_def)
  have laws: "gc_tee_to_string G (ev_tee e) = Some ([CHR 0x22] @ protocol_name k @ [CHR 0x22])"
    "tee_name F k = ev_tee e" "\<And>b. url_safe_decode F (gc_url_safe_encode G b) = Some b"
    "hash_algorithm_from F COCO_AS_HASH_ALGORITHM = Ok (sha384_algorithm L)"
    using assms(1) k by (simp_all add: protocol_laws_def)
  have json: "value_from_slice F (bytes_of (gc_value_display G (ev_tee_evidence e))) = Some (ev_tee_evidence e)"
    "json_from_str E (gc_value_display G (ev_runtime_data e)) = Some (ev_runtime_data e)"
    using assms(2) by (simp_all add: sendable_def json_travels_def)
  show ?thesis
    by (cases "ev_init_data e")
      (auto simp: client_request_def builtin_request_def grpc_verification_request_def laws json trim_quoted
        to_kbs_tee_name k(2) grpc_runtime_data_def grpc_init_data_def Let_def bail_def split: prod.splits
        simp: COCO_AS_HASH_ALGORITHM_def [symmetric] simp del: append_Cons append_Nil)
qed

lemma requests_travel:
  assumes "protocol_laws L F G" and "list_all (sendable E F G) evs"
  shows "(\<exists>rs. client_requests G evs = Ok rs \<and> grpc_verification_requests E L F rs = Ok reqs) \<longleftrightarrow>
    builtin_requests L (gc_init_data_fields G) evs = Ok reqs"
  using assms(2)
proof (induction evs arbitrary: reqs)
  case (Cons e evs)
  then have e: "sendable E F G e" and evs: "list_all (sendable E F G) evs" by simp_all
  have "(\<exists>rs. client_requests G (e # evs) = Ok rs \<and> grpc_verification_requests E L F rs = Ok reqs) \<longleftrightarrow>
      (\<exists>q qs. reqs = q # qs \<and> (\<exists>r. client_request G e = Ok r \<and> grpc_verification_request E L F r = Ok q) \<and>
        (\<exists>rs. client_requests G evs = Ok rs \<and> grpc_verification_requests E L F rs = Ok qs))"
    by (auto simp: outcome_iff)
  also have "\<dots> \<longleftrightarrow> builtin_requests L (gc_init_data_fields G) (e # evs) = Ok reqs"
    unfolding request_travels [OF assms(1) e] Cons.IH [OF evs] by (auto simp: outcome_iff)
  finally show ?case .
qed auto

lemma attestation_evaluate_Ok:
  "fst (attestation_evaluate W F chk self s request) = Ok token \<longleftrightarrow>
     (\<exists>reqs. grpc_verification_requests (w_crates W) (w_lib W) F (gar_requests request) = Ok reqs \<and>
       fst (as_evaluate W chk self s reqs (requested_policies (gar_policy_ids request))) = Ok token)"
  by (cases "grpc_verification_requests (w_crates W) (w_lib W) F (gar_requests request)")
    (auto simp: attestation_evaluate_def split_beta outcome_iff)

lemma grpc_verify_server:
  "grpc_verify G (server_channel W F chk self) s evs = Ok token \<longleftrightarrow>
     (\<exists>rs reqs. client_requests G evs = Ok rs \<and> grpc_verification_requests (w_crates W) (w_lib W) F rs = Ok reqs \<and>
       fst (as_evaluate W chk self s reqs [''default'']) = Ok token)"
  by (auto simp: grpc_verify_def server_channel_def attestation_evaluate_Ok requested_policies_def outcome_iff)

lemma remote_verify_iff:
  assumes "protocol_laws (w_lib W) F G" and "list_all (sendable (w_crates W) F G) evs"
  shows "grpc_verify G (server_channel W F chk self) s evs = Ok token \<longleftrightarrow>
    fst (builtin_verify W (gc_init_data_fields G) chk self s evs) = Ok token"
proof -
  have "grpc_verify G (server_channel W F chk self) s evs = Ok token \<longleftrightarrow>
      (\<exists>reqs. (\<exists>rs. client_requests G evs = Ok rs \<and> grpc_verification_requests (w_crates W) (w_lib W) F rs = Ok reqs) \<and>
        fst (as_evaluate W chk self s reqs [''default'']) = Ok token)"
    unfolding grpc_verify_server by blast
  also have "\<dots> \<longleftrightarrow> fst (builtin_verify W (gc_init_data_fields G) chk self s evs) = Ok token"
    unfolding requests_travel [OF assms] by (auto simp: builtin_verify_def split: outcome.splits)
  finally show ?thesis .
qed

lemma remote_challenge_iff:
  assumes "protocol_laws (w_lib W) F G" and "tee \<in> range protocol_name"
  shows "grpc_generate_challenge (w_crates W) G (server_channel W F chk self) (as_entropy s) s tee params = Ok c \<longleftrightarrow>
    builtin_generate_challenge W (gc_value_display G) self s tee params = Ok c"
proof (cases "tee_kind (w_lib W) tee = Se")
  case True
  then have "tee = ''se''" "tee_name F Se = ''se''" "gc_is_se G tee"
    using assms unfolding protocol_laws_def by (auto simp: image_iff)
  then show ?thesis using True
    by (auto simp: grpc_generate_challenge_def builtin_generate_challenge_def server_channel_def
        get_attestation_challenge_def to_kbs_tee_def outcome_iff)
next
  case False
  then show ?thesis using assms(1)
    by (auto simp: grpc_generate_challenge_def builtin_generate_challenge_def protocol_laws_def outcome_iff)
qed

lemma remote_writes:
  "grpc_set_policy (server_channel W F chk self) s i p = (r, s') \<Longrightarrow>
     as_set_policy_op W self s i p = (q, t) \<Longrightarrow> s' = t \<and> (r = Ok () \<longleftrightarrow> q = Ok ())"
  "grpc_register_reference_value (server_channel W F chk self) s m = (r, s') \<Longrightarrow>
     as_register_rv W self s m = (q, t) \<Longrightarrow> s' = t \<and> (r = Ok () \<longleftrightarrow> q = Ok ())"
  by (auto simp: grpc_set_policy_def set_attestation_policy_def grpc_register_reference_value_def
      register_reference_value_rpc_def server_channel_def outcome_iff)

lemma remote_query_iff:
  assumes "\<And>v. as_query_rv self s rid = Ok (Some v) \<Longrightarrow> json_travels E F G v"
  shows "grpc_query_reference_value G (server_channel W F chk self) s rid = Ok x \<longleftrightarrow> as_query_rv self s rid = Ok x"
proof (cases "as_query_rv self s rid")
  case (Ok res)
  then show ?thesis using assms
    by (cases res) (fastforce simp: grpc_query_reference_value_def server_channel_def query_reference_value_rpc_def
        json_travels_def over_wire_def)+
qed (auto simp: grpc_query_reference_value_def server_channel_def query_reference_value_rpc_def over_wire_def)

text \<open>Evidence of the sample device, which the built-in service takes, is refused by the server.\<close>

lemma remote_refuses_sample_device:
  assumes "protocol_laws (w_lib W) F G" and "e \<in> set evs" and "ev_tee e = protocol_name SampleDeviceTee"
  shows "grpc_verify G (server_channel W F chk self) s evs \<noteq> Ok token"
proof
  assume "grpc_verify G (server_channel W F chk self) s evs = Ok token"
  then obtain rs reqs where rs: "client_requests G evs = Ok rs"
    "grpc_verification_requests (w_crates W) (w_lib W) F rs = Ok reqs"
    unfolding grpc_verify_server by blast
  have "client_requests G evs = Ok rs \<Longrightarrow> \<exists>r\<in>set rs. client_request G e = Ok r" for rs
    using assms(2) by (induction evs arbitrary: rs) (auto simp: outcome_iff)
  then obtain r where r: "r \<in> set rs" "client_request G e = Ok r" using rs(1) by blast
  have "gc_tee_to_string G (ev_tee e) = Some ([CHR 0x22] @ protocol_name SampleDeviceTee @ [CHR 0x22])"
    unfolding assms(3) using assms(1) unfolding protocol_laws_def by blast
  then have "iar_tee r = ''sampledevice''"
    using r(2) trim_quoted [of SampleDeviceTee]
    by (auto simp: client_request_def Let_def outcome_iff split: option.splits if_splits prod.splits)
  moreover have "grpc_verification_requests (w_crates W) (w_lib W) F rs = Ok reqs \<Longrightarrow>
      \<exists>q. grpc_verification_request (w_crates W) (w_lib W) F r = Ok q" for reqs
    using r(1) by (induction rs arbitrary: reqs) (auto simp: outcome_iff)
  ultimately show False using rs(2)
    by (auto simp: grpc_verification_request_def to_kbs_tee_def outcome_iff)
qed

end
