(* ===== verification/Kbs_Clients_Properties.thy ===== *)
theory Kbs_Clients_Properties
  imports Kbs_Clients As_Properties
begin

text \<open>
  A remote attestation service is as good as the built-in one.
\<close>

section \<open>The refinement\<close>


text \<open>A service as in the sample deployment, where a JSON string is written without quotes.\<close>

definition all_kinds :: "TeeKind list" where
  "all_kinds = [Sev, AzSnpVtpm, AzTdxVtpm, Tdx, Snp, SampleTee, SampleDeviceTee, Sgx, Csv, Cca, Se, HygonDcu, Nvidia, Tpm]"

definition kind_of_name :: "Tee \<Rightarrow> TeeKind" where
  "kind_of_name t = (case find (\<lambda>k. protocol_name k = t) all_kinds of Some k \<Rightarrow> k | None \<Rightarrow> Tdx)"

definition plain_text :: "json \<Rightarrow> string" where
  "plain_text v = (case v of JString s \<Rightarrow> s | _ \<Rightarrow> [])"

definition plain_frontend :: "unit frontend_lib" where
  "plain_frontend =
     \<lparr>url_safe_encode = str_of, url_safe_decode = (\<lambda>s. Some (bytes_of s)), value_from_slice = (\<lambda>b. Some (JString (str_of b))),
      value_to_text = (\<lambda>v. Some (plain_text v)), hash_algorithm_from = (\<lambda>_. Ok ()), tee_name = protocol_name\<rparr>"

definition plain_client :: grpc_client_lib where
  "plain_client =
     \<lparr>gc_tee_to_string = (\<lambda>t. Some ([CHR 0x22] @ t @ [CHR 0x22])), gc_is_se = (\<lambda>t. kind_of_name t = Se),
      gc_value_display = plain_text, gc_url_safe_encode = str_of, gc_json_from_str = (\<lambda>s. Some (JString s)),
      gc_init_data_fields = (\<lambda>_. ([], []))\<rparr>"

definition remote_world :: "(unit, unit, bytes, unit, unit, unit, unit, unit) as_world" where
  "remote_world =
     sample_world\<lparr>w_lib := sample_as_lib\<lparr>tee_kind := kind_of_name\<rparr>,
       w_crates := sample_as_crates\<lparr>json_from_str := \<lambda>s. Some (JString s)\<rparr>\<rparr>"

definition remote_evidence :: IndependentEvidence where
  "remote_evidence =
     \<lparr>ev_tee = ''tdx'', ev_tee_evidence = JString ''quote'', ev_runtime_data = JString ''data'', ev_init_data = None\<rparr>"

lemma kind_of_name_inverse: "kind_of_name (protocol_name k) = k"
  by (cases k) (simp_all add: kind_of_name_def all_kinds_def)

lemma plain_protocol: "protocol_laws (w_lib remote_world) plain_frontend plain_client"
  by (simp add: protocol_laws_def plain_frontend_def plain_client_def remote_world_def sample_as_lib_def
      kind_of_name_inverse)

lemma remote_evidence_sendable: "sendable (w_crates remote_world) plain_frontend plain_client remote_evidence"
proof -
  have "''tdx'' \<in> protocol_name ` (- {SampleDeviceTee})"
    using imageI [of Tdx "- {SampleDeviceTee}" protocol_name] by simp
  then show ?thesis
    unfolding sendable_def remote_evidence_def
    by (simp add: json_travels_def plain_frontend_def plain_client_def remote_world_def plain_text_def)
qed


end
