(* ===== verification/Kbs_Ita.thy ===== *)
theory Kbs_Ita
  imports Kbs_Access Kbs_Backend Verifier
begin

text \<open>
  The Intel Trust Authority client of the key broker (\<^verbatim>\<open>kbs/src/attestation/intel_trust_authority/mod.rs\<close>), another
  \<open>Attest\<close> of the handshake: the request it makes of the evidence, the check of the token it gets back and the
  negotiation of a hash algorithm. The HTTP client, the JSON package and the HCL report parser are parameters.
\<close>

section \<open>Data\<close>

record DcapTeeEvidence =
  dt_quote :: string
  dt_runtime_data :: string
  dt_user_data :: "string option"
  dt_event_log :: "string option"

record ItaNvDevice =
  in_evidence :: string
  in_gpu_nonce :: string
  in_certificate :: string
  in_arch :: string

record AttestReqData =
  rq_policy_ids :: "string list"
  rq_policy_must_match :: bool
  rq_tdx :: "DcapTeeEvidence option"
  rq_sgx :: "DcapTeeEvidence option"
  rq_nvgpu :: "ItaNvDevice option"

record IntelTrustAuthorityConfig =
  base_url :: string
  api_key :: string
  certs_file :: string
  allow_unmatched_policy :: "bool option"
  ita_policy_ids :: "string list"

record 'x IntelTrustAuthority =
  ita_config :: IntelTrustAuthorityConfig
  ita_token_verifier :: "'x JwkAttestationTokenVerifier"

text \<open>
  The answer of the service: its status and what its body is as an error and as a token. \<open>dcap_from_value\<close> and the
  other readers deserialise evidence; \<open>hcl_var_data\<close> parses an HCL report and gives its variable data;
  \<open>sha256_name\<close> and \<open>sha512_name\<close> are the names of \<^verbatim>\<open>kbs_types::HashAlgorithm\<close>.
\<close>

record ItaReply =
  ita_status :: nat
  ita_error_body :: "string option"
  ita_token_body :: "string option"

record ita_lib =
  ita_kind :: "Tee \<Rightarrow> string"
  dcap_from_value :: "json \<Rightarrow> (string, DcapTeeEvidence) outcome"
  az_from_value :: "json \<Rightarrow> (string, bytes \<times> bytes) outcome"
  nv_from_value :: "json \<Rightarrow> (string, ItaNvDevice list) outcome"
  hcl_var_data :: "bytes \<Rightarrow> (string, bytes) outcome"
  ita_display :: "json \<Rightarrow> string"
  req_to_string :: "AttestReqData \<Rightarrow> (string, string) outcome"
  ita_post :: "string \<Rightarrow> (string \<times> string) list \<Rightarrow> string \<Rightarrow> (string, ItaReply) outcome"
  ita_package :: string
  sha256_name :: string
  sha512_name :: string

definition SUPPORTED_HASH_ALGORITHMS_JSON_KEY :: string where
  "SUPPORTED_HASH_ALGORITHMS_JSON_KEY = ''supported-hash-algorithms''"

definition SELECTED_HASH_ALGORITHM_JSON_KEY :: string where
  "SELECTED_HASH_ALGORITHM_JSON_KEY = ''selected-hash-algorithm''"

definition ERR_NO_TEE_ALGOS :: string where
  "ERR_NO_TEE_ALGOS = ''ITA: TEE does not support any hash algorithms''"

definition ERR_INVALID_TEE :: string where
  "ERR_INVALID_TEE = ''ITA: Unknown TEE specified''"

definition BASE_AS_ADDR :: string where
  "BASE_AS_ADDR = ''/appraisal/v2/attest''"

definition AZURE_ADDR_SUFFIX :: string where
  "AZURE_ADDR_SUFFIX = ''/azure''"

definition TRUSTEE_USER_AGENT :: string where
  "TRUSTEE_USER_AGENT = ''Confidential-containers-trustee''"

section \<open>Verification\<close>

text \<open>\<open>ita_kind\<close> is the variant of a TEE. The loop has the request and the URL as its state.\<close>

definition tee_error :: "ita_lib \<Rightarrow> Tee \<Rightarrow> string" where
  "tee_error I tee = ''Failed to deserialize TEE: '' @ ita_kind I tee @ '' Evidence''"

definition dcap_evidence ::
    "crates \<Rightarrow> ita_lib \<Rightarrow> IndependentEvidence \<Rightarrow> (anyhow, DcapTeeEvidence) outcome" where
  "dcap_evidence E I ev =
     and_then (with_context (tee_error I (ev_tee ev)) (lib_error (dcap_from_value I (ev_tee_evidence ev)))) (\<lambda>evidence.
       Ok (evidence\<lparr>dt_runtime_data := base64_encode E (bytes_of (ita_display I (ev_runtime_data ev)))\<rparr>))"

definition ita_add_evidence ::
    "crates \<Rightarrow> ita_lib \<Rightarrow> AttestReqData \<Rightarrow> string \<Rightarrow> IndependentEvidence \<Rightarrow> (anyhow, AttestReqData \<times> string) outcome" where
  "ita_add_evidence E I req_data att_url ev =
     (if ita_kind I (ev_tee ev) = ''AzTdxVtpm'' then
        and_then (with_context (tee_error I (ev_tee ev)) (lib_error (az_from_value I (ev_tee_evidence ev))))
          (\<lambda>(hcl_report, td_quote).
        and_then (lib_error (hcl_var_data I hcl_report)) (\<lambda>var_data.
          Ok (req_data\<lparr>rq_tdx := Some
                \<lparr>dt_quote = base64_encode E td_quote, dt_runtime_data = base64_encode E var_data,
                 dt_user_data = Some (base64_encode E (bytes_of (ita_display I (ev_runtime_data ev)))),
                 dt_event_log = None\<rparr>\<rparr>, att_url @ AZURE_ADDR_SUFFIX)))
      else if ita_kind I (ev_tee ev) = ''Tdx'' then
        and_then (dcap_evidence E I ev) (\<lambda>evidence. Ok (req_data\<lparr>rq_tdx := Some evidence\<rparr>, att_url))
      else if ita_kind I (ev_tee ev) = ''Sgx'' then
        and_then (dcap_evidence E I ev) (\<lambda>evidence. Ok (req_data\<lparr>rq_sgx := Some evidence\<rparr>, att_url))
      else if ita_kind I (ev_tee ev) = ''Nvidia'' then
        and_then (with_context (tee_error I (ev_tee ev)) (lib_error (nv_from_value I (ev_tee_evidence ev)))) (\<lambda>devices.
          (case devices of
             [] \<Rightarrow> Ok (req_data, att_url)
           | device # _ \<Rightarrow>
               and_then (slice (sha512 E (bytes_of (ita_display I (ev_runtime_data ev)))) 0 32) (\<lambda>h.
                 Ok (req_data\<lparr>rq_nvgpu := Some (device\<lparr>in_gpu_nonce := hex_encode E h\<rparr>)\<rparr>, att_url))))
      else bail (''Intel Trust Authority: TEE '' @ ita_kind I (ev_tee ev) @ '' is not supported.''))"

fun ita_loop ::
    "crates \<Rightarrow> ita_lib \<Rightarrow> AttestReqData \<Rightarrow> string \<Rightarrow> IndependentEvidence list \<Rightarrow>
     (anyhow, AttestReqData \<times> string) outcome" where
  "ita_loop E I req_data att_url [] = Ok (req_data, att_url)"
| "ita_loop E I req_data att_url (ev # evs) =
     and_then (ita_add_evidence E I req_data att_url ev) (\<lambda>(req_data, att_url). ita_loop E I req_data att_url evs)"

definition policy_must_match :: "IntelTrustAuthorityConfig \<Rightarrow> bool" where
  "policy_must_match config =
     (if ita_policy_ids config = [] then False
      else \<not> (case allow_unmatched_policy config of Some b \<Rightarrow> b | None \<Rightarrow> False))"

definition ita_request ::
    "crates \<Rightarrow> ita_lib \<Rightarrow> IntelTrustAuthorityConfig \<Rightarrow> IndependentEvidence list \<Rightarrow>
     (anyhow, AttestReqData \<times> string) outcome" where
  "ita_request E I config evs =
     ita_loop E I
       \<lparr>rq_policy_ids = ita_policy_ids config, rq_policy_must_match = policy_must_match config,
        rq_tdx = None, rq_sgx = None, rq_nvgpu = None\<rparr>
       (base_url config @ BASE_AS_ADDR) evs"

definition ita_headers :: "ita_lib \<Rightarrow> IntelTrustAuthorityConfig \<Rightarrow> (string \<times> string) list" where
  "ita_headers I config =
     [(''user-agent'', TRUSTEE_USER_AGENT @ '' '' @ ita_package I), (''content-type'', ''application/json''),
      (''accept'', ''application/json''), (''x-api-key'', api_key config)]"

definition ita_verify ::
    "crates \<Rightarrow> ita_lib \<Rightarrow> ('pk, 'x, 'a, 'd) token_crates \<Rightarrow> encodings \<Rightarrow> 'x IntelTrustAuthority \<Rightarrow>
     IndependentEvidence list \<Rightarrow> (anyhow, string) outcome" where
  "ita_verify E I T C self evs =
     and_then (ita_request E I (ita_config self) evs) (\<lambda>(req_data, att_url).
     and_then (with_context ''Failed to serialize attestation request body'' (lib_error (req_to_string I req_data))) (\<lambda>body.
     and_then (with_context ''Failed to POST attestation HTTP request''
                 (lib_error (ita_post I att_url (ita_headers I (ita_config self)) body))) (\<lambda>resp.
     if ita_status resp \<noteq> 200 then
       (case ita_error_body resp of
          Some e \<Rightarrow> bail (''Attestation request failed: response status='' @ fmt_dec (ita_status resp) @ '', message='' @ e)
        | None \<Rightarrow> bail (''Attestation request failed: response status='' @ fmt_dec (ita_status resp)))
     else
       and_then (ok_or [''Failed to deserialize attestation response''] (ita_token_body resp)) (\<lambda>token.
       and_then (with_context ''Failed to verify attestation token''
                   (lib_error (jwk_verify T C (ita_token_verifier self) token))) (\<lambda>_.
         Ok token)))))"

section \<open>Challenges\<close>

text \<open>
  \<^verbatim>\<open>to_lowercase\<close> is that of ASCII: no other character becomes a letter of the names that are looked for.
\<close>

definition supported_algorithms :: "json list \<Rightarrow> string list" where
  "supported_algorithms vs = List.map_filter (\<lambda>v. map_option to_ascii_lowercase (as_str v)) vs"

definition needed_algorithm :: "ita_lib \<Rightarrow> Tee \<Rightarrow> (anyhow, string \<times> string) outcome" where
  "needed_algorithm I tee =
     (if ita_kind I tee \<in> {''Sgx'', ''AzTdxVtpm''} then Ok (to_ascii_lowercase (sha256_name I), ''SGX'')
      else if ita_kind I tee = ''Tdx'' then Ok (to_ascii_lowercase (sha512_name I), ''TDX'')
      else bail ERR_INVALID_TEE)"

definition ita_generate_challenge ::
    "crates \<Rightarrow> ita_lib \<Rightarrow> (nat \<Rightarrow> bytes option) \<Rightarrow> Tee \<Rightarrow> json \<Rightarrow> (anyhow, Challenge) outcome" where
  "ita_generate_challenge E I fill tee tee_parameters =
     (if tee_parameters = JNull then lib_error (generic_generate_challenge E fill tee tee_parameters)
      else
        (case json_get tee_parameters SUPPORTED_HASH_ALGORITHMS_JSON_KEY of
           None \<Rightarrow> lib_error (generic_generate_challenge E fill tee tee_parameters)
         | Some (JArray algorithms) \<Rightarrow>
             (let supported = supported_algorithms algorithms in
              if supported = [] then bail ERR_NO_TEE_ALGOS
              else
                and_then (needed_algorithm I tee) (\<lambda>(needed, tee_text).
                if needed \<notin> set supported
                then bail (''ITA: '' @ tee_text @ '' TEE does not support '' @ needed)
                else
                  and_then (lib_error (make_nonce E fill)) (\<lambda>n.
                    Ok \<lparr>nonce = n,
                        challenge_params = JObject [(SELECTED_HASH_ALGORITHM_JSON_KEY, JString needed)]\<rparr>)))
         | Some _ \<Rightarrow> bail ''ITA: expected array''))"

section \<open>The service\<close>

definition IntelTrustAuthority_new ::
    "('pk, 'x, 'a, 'd) token_crates \<Rightarrow> io_env \<Rightarrow> fs \<Rightarrow> IntelTrustAuthorityConfig \<Rightarrow>
     (anyhow, 'x IntelTrustAuthority) outcome" where
  "IntelTrustAuthority_new T io f config =
     and_then (with_context ''Failed to initialize token verifier''
       (lib_error (JwkAttestationTokenVerifier_new T io f
          \<lparr>config_extra_teekey_paths = [], config_trusted_certs_paths = [],
           config_trusted_jwk_sets = [certs_file config], config_insecure_key = True\<rparr>))) (\<lambda>v.
       Ok \<lparr>ita_config = config, ita_token_verifier = v\<rparr>)"

text \<open>The operations the service does not have are the defaults of the trait.\<close>

definition intel_trust_authority ::
    "crates \<Rightarrow> ita_lib \<Rightarrow> ('pk, 'x, 'a, 'd) token_crates \<Rightarrow> encodings \<Rightarrow> 'x IntelTrustAuthority \<Rightarrow>
     (nat \<Rightarrow> bytes option) Attest" where
  "intel_trust_authority E I T C self =
     \<lparr>as_set_policy = (\<lambda>s i p. (Err ''Set Policy API is unimplemented'', s)),
      as_verify = (\<lambda>s evs. map_err concat (ita_verify E I T C self evs)),
      as_generate_challenge = (\<lambda>s tee params. map_err concat (ita_generate_challenge E I s tee params)),
      as_register_reference_value =
        (\<lambda>s m. (Err ''Attestation Service does not support reference value configuration.'', s)),
      as_query_reference_value =
        (\<lambda>s i. Err ''Attestation Service does not support reference value configuration.'')\<rparr>"

section \<open>What a token stands for\<close>

text \<open>The evidence of one of the given variants that comes last.\<close>

definition last_of :: "ita_lib \<Rightarrow> string set \<Rightarrow> IndependentEvidence list \<Rightarrow> IndependentEvidence option" where
  "last_of I ks evs = (case filter (\<lambda>e. ita_kind I (ev_tee e) \<in> ks) evs of [] \<Rightarrow> None | es \<Rightarrow> Some (last es))"

lemma last_of_Nil [simp]: "last_of I ks [] = None"
  by (simp add: last_of_def)

lemma last_of_Cons:
  "last_of I ks (e # evs) =
     (case last_of I ks evs of
        Some x \<Rightarrow> Some x
      | None \<Rightarrow> if ita_kind I (ev_tee e) \<in> ks then Some e else None)"
  by (auto simp: last_of_def split: list.splits)

text \<open>The part of the request for a piece of evidence, and the URL the request goes to.\<close>

definition cpu_part :: "crates \<Rightarrow> ita_lib \<Rightarrow> IndependentEvidence \<Rightarrow> DcapTeeEvidence \<Rightarrow> bool" where
  "cpu_part E I e p \<longleftrightarrow>
     (let data = base64_encode E (bytes_of (ita_display I (ev_runtime_data e))) in
      if ita_kind I (ev_tee e) = ''AzTdxVtpm''
      then \<exists>hcl q v. az_from_value I (ev_tee_evidence e) = Ok (hcl, q) \<and> hcl_var_data I hcl = Ok v \<and>
             p = \<lparr>dt_quote = base64_encode E q, dt_runtime_data = base64_encode E v, dt_user_data = Some data, dt_event_log = None\<rparr>
      else \<exists>d. dcap_from_value I (ev_tee_evidence e) = Ok d \<and> p = d\<lparr>dt_runtime_data := data\<rparr>)"

definition part_of_last ::
    "(IndependentEvidence \<Rightarrow> 'p \<Rightarrow> bool) \<Rightarrow> IndependentEvidence option \<Rightarrow> 'p option \<Rightarrow> 'p option \<Rightarrow> bool" where
  "part_of_last R e old new \<longleftrightarrow> (case e of None \<Rightarrow> new = old | Some e \<Rightarrow> \<exists>p. new = Some p \<and> R e p)"

lemma part_of_last_step:
  assumes "part_of_last R (last_of I ks evs) mid new"
    and "if ita_kind I (ev_tee e) \<in> ks then \<exists>p. mid = Some p \<and> R e p else mid = old"
  shows "part_of_last R (last_of I ks (e # evs)) old new"
  using assms by (auto simp: part_of_last_def last_of_Cons split: option.splits if_splits)

lemma dcap_evidence_part:
  assumes "dcap_evidence E I e = Ok p" and "ita_kind I (ev_tee e) \<noteq> ''AzTdxVtpm''"
  shows "cpu_part E I e p"
  using assms by (auto simp: dcap_evidence_def cpu_part_def Let_def outcome_iff)

abbreviation "ita_supported \<equiv> {''AzTdxVtpm'', ''Tdx'', ''Sgx'', ''Nvidia''}"

lemma ita_add_parts:
  assumes "ita_add_evidence E I req url e = Ok (req', url')"
  shows "ita_kind I (ev_tee e) \<in> ita_supported \<and>
    (if ita_kind I (ev_tee e) \<in> {''AzTdxVtpm'', ''Tdx''} then \<exists>p. rq_tdx req' = Some p \<and> cpu_part E I e p
     else rq_tdx req' = rq_tdx req) \<and>
    (if ita_kind I (ev_tee e) \<in> {''Sgx''} then \<exists>p. rq_sgx req' = Some p \<and> cpu_part E I e p
     else rq_sgx req' = rq_sgx req) \<and>
    rq_policy_ids req' = rq_policy_ids req \<and> rq_policy_must_match req' = rq_policy_must_match req"
proof -
  consider "ita_kind I (ev_tee e) = ''AzTdxVtpm''" | "ita_kind I (ev_tee e) = ''Tdx''" | "ita_kind I (ev_tee e) = ''Sgx''"
    | "ita_kind I (ev_tee e) = ''Nvidia''"
    using assms by (auto simp: ita_add_evidence_def bail_def split: if_splits)
  then show ?thesis
  proof cases
    case 1
    then show ?thesis using assms by (auto simp: ita_add_evidence_def cpu_part_def Let_def outcome_iff)
  next
    case 4
    then obtain ds where "nv_from_value I (ev_tee_evidence e) = Ok ds"
      using assms by (auto simp: ita_add_evidence_def outcome_iff)
    then show ?thesis using 4 assms by (cases ds) (auto simp: ita_add_evidence_def outcome_iff)
  qed (use assms dcap_evidence_part in \<open>auto simp: ita_add_evidence_def outcome_iff\<close>)
qed

lemma ita_loop_parts:
  assumes "ita_loop E I req url evs = Ok (req', url')"
  shows "list_all (\<lambda>e. ita_kind I (ev_tee e) \<in> ita_supported) evs \<and>
    part_of_last (cpu_part E I) (last_of I {''AzTdxVtpm'', ''Tdx''} evs) (rq_tdx req) (rq_tdx req') \<and>
    part_of_last (cpu_part E I) (last_of I {''Sgx''} evs) (rq_sgx req) (rq_sgx req') \<and>
    rq_policy_ids req' = rq_policy_ids req \<and> rq_policy_must_match req' = rq_policy_must_match req"
  using assms
proof (induction evs arbitrary: req url)
  case Nil
  then show ?case by (simp add: part_of_last_def)
next
  case (Cons e evs)
  obtain req1 url1 where st: "ita_add_evidence E I req url e = Ok (req1, url1)" "ita_loop E I req1 url1 evs = Ok (req', url')"
    using Cons.prems by (auto simp: outcome_iff)
  note IH = Cons.IH [OF st(2)] and parts = ita_add_parts [OF st(1)]
  have "part_of_last (cpu_part E I) (last_of I {''AzTdxVtpm'', ''Tdx''} (e # evs)) (rq_tdx req) (rq_tdx req')"
    by (rule part_of_last_step [of _ _ _ _ "rq_tdx req1"]) (use IH parts in blast)+
  moreover have "part_of_last (cpu_part E I) (last_of I {''Sgx''} (e # evs)) (rq_sgx req) (rq_sgx req')"
    by (rule part_of_last_step [of _ _ _ _ "rq_sgx req1"]) (use IH parts in blast)+
  ultimately show ?case using IH parts by simp
qed

text \<open>
  A token was given by the service, in answer to a request with the quotes and the runtime data of the last TDX and the
  last SGX evidence and with the configured policies, and its signature was verified.
\<close>

lemma ita_token_answers:
  assumes "ita_verify E I T C self evs = Ok token"
  shows "\<exists>req url body resp claims. ita_request E I (ita_config self) evs = Ok (req, url) \<and>
    list_all (\<lambda>e. ita_kind I (ev_tee e) \<in> ita_supported) evs \<and>
    part_of_last (cpu_part E I) (last_of I {''AzTdxVtpm'', ''Tdx''} evs) None (rq_tdx req) \<and>
    part_of_last (cpu_part E I) (last_of I {''Sgx''} evs) None (rq_sgx req) \<and>
    rq_policy_ids req = ita_policy_ids (ita_config self) \<and> rq_policy_must_match req = policy_must_match (ita_config self) \<and>
    req_to_string I req = Ok body \<and> ita_post I url (ita_headers I (ita_config self)) body = Ok resp \<and>
    ita_status resp = 200 \<and> ita_token_body resp = Some token \<and>
    jwk_verify T C (ita_token_verifier self) token = Ok claims"
proof -
  obtain req url where r: "ita_request E I (ita_config self) evs = Ok (req, url)"
    using assms by (auto simp: ita_verify_def outcome_iff)
  obtain body where b: "req_to_string I req = Ok body" using assms r by (auto simp: ita_verify_def outcome_iff)
  obtain resp where p: "ita_post I url (ita_headers I (ita_config self)) body = Ok resp"
    using assms r b by (auto simp: ita_verify_def outcome_iff)
  have "ita_status resp = 200" using assms r b p by (auto simp: ita_verify_def bail_def split: option.splits if_splits)
  then have "ita_token_body resp = Some token \<and> (\<exists>claims. jwk_verify T C (ita_token_verifier self) token = Ok claims)"
    using assms r b p by (auto simp: ita_verify_def outcome_iff)
  then show ?thesis
    using r b p \<open>ita_status resp = 200\<close> ita_loop_parts [OF r [unfolded ita_request_def]] by auto
qed

text \<open>
  Evidence that is followed by evidence of the same part of the request is not sent: the request is that of the later
  one alone.
\<close>

lemma ita_drops_earlier:
  assumes "ita_kind I (ev_tee e1) = ''Tdx''" and "ita_kind I (ev_tee e2) = ''Tdx''"
    and "dcap_from_value I (ev_tee_evidence e1) = Ok d"
  shows "ita_request E I config [e1, e2] = ita_request E I config [e2]"
  using assms by (cases "dcap_evidence E I e2") (simp_all add: ita_request_def ita_add_evidence_def,
      simp_all add: dcap_evidence_def lib_error_def with_context_def)

section \<open>Challenges and keys\<close>

text \<open>
  A challenge that selects a hash algorithm selects one the TEE offered: SHA-256 for SGX and Azure, SHA-512 for TDX.
\<close>

lemma ita_challenge_selects:
  assumes "ita_generate_challenge E I fill tee params = Ok c"
    and "json_get params SUPPORTED_HASH_ALGORITHMS_JSON_KEY = Some v"
  shows "\<exists>algorithms needed tee_text. v = JArray algorithms \<and> needed_algorithm I tee = Ok (needed, tee_text) \<and>
    needed \<in> set (supported_algorithms algorithms) \<and>
    challenge_params c = JObject [(SELECTED_HASH_ALGORITHM_JSON_KEY, JString needed)]"
proof -
  have "params \<noteq> JNull" using assms(2) by auto
  then show ?thesis using assms
    by (cases v) (auto simp: ita_generate_challenge_def bail_def Let_def outcome_iff split: if_splits)
qed

text \<open>
  The client never requires the key of a token to be one of the configured file: a token with a key in its header is
  accepted when that key verifies it.
\<close>

lemma ita_trusts_header_key:
  assumes "IntelTrustAuthority_new T io f config = Ok self"
    and "decode_header T token = Ok header" and "header_jwk header = Some key"
  shows "get_verification_jwk T C (ita_token_verifier self) header = Ok key"
  using assms by (auto simp: IntelTrustAuthority_new_def JwkAttestationTokenVerifier_new_def get_verification_jwk_def
      outcome_iff)

end
