(* ===== verification/Rvps_Remote.thy ===== *)
theory Rvps_Remote
  imports Rvps
begin

text \<open>
  The clients of a remote Reference Value Provider Service: the one of the attestation service
  (\<^verbatim>\<open>attestation-service/src/rvps/grpc.rs\<close>) and the helpers of the command-line tool (\<^verbatim>\<open>rvps/src/client/mod.rs\<close>).
  Connected to the server, the client does what the built-in service does.
\<close>

text \<open>A connection to the service at an address and its two calls, in the world \<open>'d\<close> that has the service.\<close>

record 'd rvps_channel =
  rvps_connect :: "string \<Rightarrow> 'd \<Rightarrow> (string, unit) outcome"
  rvps_rpc_register :: "'d \<Rightarrow> string \<Rightarrow> (string, unit) outcome \<times> 'd"
  rvps_rpc_query :: "'d \<Rightarrow> string \<Rightarrow> (string, string option) outcome"

definition default_address :: string where
  "default_address = ''127.0.0.1:50003''"

definition Agent_new :: "'d rvps_channel \<Rightarrow> string \<Rightarrow> 'd \<Rightarrow> (string, unit) outcome" where
  "Agent_new Ch addr d = map_err (\<lambda>e. ''tonic transport error: '' @ e) (rvps_connect Ch addr d)"

definition agent_verify_and_extract :: "'d rvps_channel \<Rightarrow> 'd \<Rightarrow> string \<Rightarrow> (string, unit) outcome \<times> 'd" where
  "agent_verify_and_extract Ch d message =
     (let (r, d') = rvps_rpc_register Ch d message in (map_err (\<lambda>e. ''Returned status: '' @ e) r, d'))"

definition agent_query_reference_value ::
    "'d rvps_channel \<Rightarrow> (string \<Rightarrow> json option) \<Rightarrow> 'd \<Rightarrow> string \<Rightarrow> (string, json option) outcome" where
  "agent_query_reference_value Ch from_str d rid =
     and_then (map_err (\<lambda>e. ''Returned status: '' @ e) (rvps_rpc_query Ch d rid)) (\<lambda>res.
       (case res of
          Some reference_value \<Rightarrow> map_ok Some (ok_or ''Serde Json Error'' (from_str reference_value))
        | None \<Rightarrow> Ok None))"

definition client_register :: "'d rvps_channel \<Rightarrow> string \<Rightarrow> 'd \<Rightarrow> string \<Rightarrow> (string, unit) outcome \<times> 'd" where
  "client_register Ch address d message =
     (case rvps_connect Ch address d of
        Ok _ \<Rightarrow> rvps_rpc_register Ch d message
      | Err e \<Rightarrow> (Err e, d)
      | Panic \<Rightarrow> (Panic, d))"

definition client_query :: "'d rvps_channel \<Rightarrow> string \<Rightarrow> 'd \<Rightarrow> string \<Rightarrow> (string, string option) outcome" where
  "client_query Ch address d rid = and_then (rvps_connect Ch address d) (\<lambda>_. rvps_rpc_query Ch d rid)"

text \<open>The channel to a running server; a panic of a handler is a failed call.\<close>

definition rvps_server_channel :: "rvps_codec \<Rightarrow> (json \<Rightarrow> string option) \<Rightarrow> 's Rvps \<Rightarrow> 's rvps_channel" where
  "rvps_server_channel D to_str self =
     \<lparr>rvps_connect = (\<lambda>_ _. Ok ()),
          rvps_rpc_register = (\<lambda>s m. let (r, s') = register_handler D self s m in
             (case r of Panic \<Rightarrow> Err ''transport error'' | _ \<Rightarrow> r, s')),
          rvps_rpc_query = (\<lambda>s i. case query_handler to_str self s i of Panic \<Rightarrow> Err ''transport error'' | r \<Rightarrow> r)\<rparr>"

text \<open>
  The remote service gives the reference values of the built-in one, when their JSON can be written and read back,
  and takes the same messages with the same effect.
\<close>

lemma remote_query_agrees:
  assumes "\<And>v. query_reference_value self s rid = Ok (Some v) \<Longrightarrow> Option.bind (to_str v) from_str = Some v"
  shows "agent_query_reference_value (rvps_server_channel D to_str self) from_str s rid = Ok x \<longleftrightarrow>
    query_reference_value self s rid = Ok x"
proof (cases "query_reference_value self s rid")
  case (Ok res)
  then show ?thesis using assms
    by (cases res) (auto simp: agent_query_reference_value_def rvps_server_channel_def query_handler_def
        bind_eq_Some_conv outcome_iff split: outcome.splits)
qed (auto simp: agent_query_reference_value_def rvps_server_channel_def query_handler_def outcome_iff
    split: outcome.splits)

lemma remote_register_agrees:
  "snd (agent_verify_and_extract (rvps_server_channel D to_str self) s m) = snd (verify_and_extract D self s m) \<and>
   (fst (agent_verify_and_extract (rvps_server_channel D to_str self) s m) = Ok () \<longleftrightarrow>
    fst (verify_and_extract D self s m) = Ok ())"
  by (auto simp: agent_verify_and_extract_def rvps_server_channel_def register_handler_def split_beta outcome_iff
      split: outcome.splits)

end
