(* ===== verification/Kbs_Client_Sdk.thy ===== *)
theory Kbs_Client_Sdk
  imports Kbs_Api
begin

text \<open>
  The client library of the key broker (\<^verbatim>\<open>tools/kbs-client/src/lib.rs\<close>): the administrative calls, each one HTTP
  request with a token signed by the administrator, and the guest's calls, which hand over to the \<^verbatim>\<open>kbs_protocol\<close>
  package. Connected to the request handler \<open>api\<close>, the calls do what the handler does.
\<close>

section \<open>Packages\<close>

record SdkRequest =
  sr_method :: string
  sr_url :: string
  sr_content_type :: string
  sr_bearer :: string
  sr_body :: bytes

record SdkReply =
  sdk_status :: nat
  sdk_text :: "(string, string) outcome"

text \<open>
  \<open>ed_sign key h\<close> signs a token that is valid for \<open>h\<close> hours; \<open>http_send\<close> sends a request to the world \<open>'w\<close> of the
  servers; \<open>sdk_json\<close> is the JSON text of a value. The messages of failed requests hold the text of the answer
  without the quotes that \<^verbatim>\<open>{:?}\<close> puts around it.
\<close>

record ('k, 'w) sdk_lib =
  ed_from_pem :: "string \<Rightarrow> (string, 'k) outcome"
  ed_sign :: "'k \<Rightarrow> nat \<Rightarrow> (string, string) outcome"
  reqwest_cert :: "string \<Rightarrow> (string, unit) outcome"
  reqwest_build :: "(string, unit) outcome"
  http_send :: "'w \<Rightarrow> SdkRequest \<Rightarrow> (string, SdkReply) outcome \<times> 'w"
  sdk_url_encode :: "bytes \<Rightarrow> string"
  sdk_std_encode :: "bytes \<Rightarrow> string"
  sdk_json :: "json \<Rightarrow> string"

text \<open>What is set on a \<^verbatim>\<open>KbsClientBuilder\<close>, and the calls on the client that is built.\<close>

record ClientSpec =
  cs_url :: string
  cs_native_evidence :: bool
  cs_tee_key :: "string option"
  cs_certs :: "string list"
  cs_init_data :: "string option"
  cs_token :: "string option"

record ('c, 'u) kbs_protocol =
  native_evidence_provider :: "(string, unit) outcome"
  build_client :: "ClientSpec \<Rightarrow> (string, 'c) outcome"
  get_token :: "'c \<Rightarrow> (string, string) outcome"
  get_resource :: "'c \<Rightarrow> 'u \<Rightarrow> (string, bytes) outcome"
  resource_uri :: "string \<Rightarrow> (string, 'u) outcome"

definition KBS_URL_PREFIX :: string where
  "KBS_URL_PREFIX = ''kbs/v0''"

section \<open>The guest's calls\<close>

definition sdk_attestation ::
    "('c, 'u) kbs_protocol \<Rightarrow> string \<Rightarrow> string option \<Rightarrow> string list \<Rightarrow> string option \<Rightarrow> (string, string) outcome" where
  "sdk_attestation P url tee_key_pem certs initd =
     and_then (native_evidence_provider P) (\<lambda>_.
     and_then (build_client P
       \<lparr>cs_url = url, cs_native_evidence = True, cs_tee_key = tee_key_pem, cs_certs = certs,
        cs_init_data = initd, cs_token = None\<rparr>) (\<lambda>client.
       get_token P client))"

definition sdk_get_resource ::
    "('c, 'u) kbs_protocol \<Rightarrow> 'c \<Rightarrow> string \<Rightarrow> (string, bytes) outcome" where
  "sdk_get_resource P client path =
     and_then (resource_uri P (''\"kbs:///'' @ path @ ''\"'')) (\<lambda>uri. get_resource P client uri)"

definition get_resource_with_token ::
    "('c, 'u) kbs_protocol \<Rightarrow> string \<Rightarrow> string \<Rightarrow> string \<Rightarrow> string \<Rightarrow> string list \<Rightarrow> (string, bytes) outcome" where
  "get_resource_with_token P url path tee_key_pem token certs =
     and_then (build_client P
       \<lparr>cs_url = url, cs_native_evidence = False, cs_tee_key = Some tee_key_pem, cs_certs = certs,
        cs_init_data = None, cs_token = Some token\<rparr>) (\<lambda>client.
       sdk_get_resource P client path)"

definition get_resource_with_attestation ::
    "('c, 'u) kbs_protocol \<Rightarrow> string \<Rightarrow> string \<Rightarrow> string option \<Rightarrow> string list \<Rightarrow> string option \<Rightarrow> (string, bytes) outcome" where
  "get_resource_with_attestation P url path tee_key_pem certs initd =
     and_then (native_evidence_provider P) (\<lambda>_.
     and_then (build_client P
       \<lparr>cs_url = url, cs_native_evidence = True, cs_tee_key = tee_key_pem, cs_certs = certs,
        cs_init_data = initd, cs_token = None\<rparr>) (\<lambda>client.
       sdk_get_resource P client path))"

section \<open>The administrator's calls\<close>

fun add_root_certs :: "('k, 'w) sdk_lib \<Rightarrow> string list \<Rightarrow> (string, unit) outcome" where
  "add_root_certs L [] = Ok ()"
| "add_root_certs L (c # cs) = and_then (reqwest_cert L c) (\<lambda>_. add_root_certs L cs)"

definition build_http_client :: "('k, 'w) sdk_lib \<Rightarrow> string list \<Rightarrow> (string, unit) outcome" where
  "build_http_client L certs =
     and_then (add_root_certs L certs) (\<lambda>_. map_err (\<lambda>e. ''Build KBS http client failed: '' @ e) (reqwest_build L))"

text \<open>The token of the administrator is signed first, then the client is built.\<close>

definition admin_token :: "('k, 'w) sdk_lib \<Rightarrow> string \<Rightarrow> string list \<Rightarrow> (string, string) outcome" where
  "admin_token L auth_key certs =
     and_then (ed_from_pem L auth_key) (\<lambda>k.
     and_then (ed_sign L k 2) (\<lambda>token.
     and_then (build_http_client L certs) (\<lambda>_. Ok token)))"

definition send_checked ::
    "('k, 'w) sdk_lib \<Rightarrow> 'w \<Rightarrow> SdkRequest \<Rightarrow> (string, string) outcome \<times> 'w" where
  "send_checked L w req =
     (let (r, w') = http_send L w req in
      (and_then r (\<lambda>res.
         if sdk_status res = 200 then sdk_text res
         else and_then (sdk_text res) (\<lambda>t. Err (''Request Failed, Response: '' @ t))), w'))"

text \<open>A call whose answer has no content is successful by its status alone.\<close>

definition send_status ::
    "('k, 'w) sdk_lib \<Rightarrow> 'w \<Rightarrow> SdkRequest \<Rightarrow> (string, unit) outcome \<times> 'w" where
  "send_status L w req =
     (let (r, w') = http_send L w req in
      (and_then r (\<lambda>res.
         if sdk_status res = 200 then Ok ()
         else and_then (sdk_text res) (\<lambda>t. Err (''Request Failed, Response: '' @ t))), w'))"

definition with_admin ::
    "('k, 'w) sdk_lib \<Rightarrow> string \<Rightarrow> string list \<Rightarrow> 'w \<Rightarrow> (string \<Rightarrow> (string, 'a) outcome \<times> 'w) \<Rightarrow>
     (string, 'a) outcome \<times> 'w" where
  "with_admin L auth_key certs w f =
     (case admin_token L auth_key certs of Ok token \<Rightarrow> f token | Err e \<Rightarrow> (Err e, w) | Panic \<Rightarrow> (Panic, w))"

definition kbs_url :: "string \<Rightarrow> string \<Rightarrow> string" where
  "kbs_url url path = url @ ''/'' @ KBS_URL_PREFIX @ ''/'' @ path"

definition sdk_set_attestation_policy ::
    "('k, 'w) sdk_lib \<Rightarrow> string \<Rightarrow> string \<Rightarrow> bytes \<Rightarrow> string option \<Rightarrow> string option \<Rightarrow> string list \<Rightarrow> 'w \<Rightarrow>
     (string, unit) outcome \<times> 'w" where
  "sdk_set_attestation_policy L url auth_key policy_bytes policy_type policy_id certs w =
     with_admin L auth_key certs w (\<lambda>token.
       send_status L w
         \<lparr>sr_method = ''POST'', sr_url = kbs_url url ''attestation-policy'', sr_content_type = ''application/json'',
          sr_bearer = token,
          sr_body = bytes_of (sdk_json L (JObject
            [(''type'', JString (case policy_type of Some t \<Rightarrow> t | None \<Rightarrow> ''rego'')),
             (''policy_id'', JString (case policy_id of Some i \<Rightarrow> i | None \<Rightarrow> ''default'')),
             (''policy'', JString (sdk_url_encode L policy_bytes))]))\<rparr>)"

definition sdk_set_resource_policy ::
    "('k, 'w) sdk_lib \<Rightarrow> string \<Rightarrow> string \<Rightarrow> bytes \<Rightarrow> string list \<Rightarrow> 'w \<Rightarrow> (string, unit) outcome \<times> 'w" where
  "sdk_set_resource_policy L url auth_key policy_bytes certs w =
     with_admin L auth_key certs w (\<lambda>token.
       send_status L w
         \<lparr>sr_method = ''POST'', sr_url = kbs_url url ''resource-policy'', sr_content_type = ''application/json'',
          sr_bearer = token,
          sr_body = bytes_of (sdk_json L (JObject [(''policy'', JString (sdk_url_encode L policy_bytes))]))\<rparr>)"

definition sdk_set_resource ::
    "('k, 'w) sdk_lib \<Rightarrow> string \<Rightarrow> string \<Rightarrow> bytes \<Rightarrow> string \<Rightarrow> string list \<Rightarrow> 'w \<Rightarrow> (string, unit) outcome \<times> 'w" where
  "sdk_set_resource L url auth_key resource_bytes path certs w =
     with_admin L auth_key certs w (\<lambda>token.
       send_status L w
         \<lparr>sr_method = ''POST'', sr_url = kbs_url url (''resource/'' @ path),
          sr_content_type = ''application/octet-stream'', sr_bearer = token, sr_body = resource_bytes\<rparr>)"

definition sample_message :: "('k, 'w) sdk_lib \<Rightarrow> string \<Rightarrow> json \<Rightarrow> json" where
  "sample_message L key v =
     JObject [(''payload'', JString (sdk_std_encode L (bytes_of (sdk_json L (JObject [(key, v)]))))),
              (''type'', JString ''sample''), (''version'', JString ''0.1.0'')]"

definition set_sample_rv ::
    "('k, 'w) sdk_lib \<Rightarrow> string \<Rightarrow> string \<Rightarrow> json \<Rightarrow> string \<Rightarrow> string list \<Rightarrow> 'w \<Rightarrow> (string, unit) outcome \<times> 'w" where
  "set_sample_rv L url key v auth_key certs w =
     with_admin L auth_key certs w (\<lambda>token.
       send_status L w
         \<lparr>sr_method = ''POST'', sr_url = kbs_url url ''reference-value'', sr_content_type = ''application/json'',
          sr_bearer = token, sr_body = bytes_of (sdk_json L (sample_message L key v))\<rparr>)"

definition get_rvs ::
    "('k, 'w) sdk_lib \<Rightarrow> string \<Rightarrow> string \<Rightarrow> string list \<Rightarrow> 'w \<Rightarrow> (string, string) outcome \<times> 'w" where
  "get_rvs L url auth_key certs w =
     with_admin L auth_key certs w (\<lambda>token.
       send_checked L w
         \<lparr>sr_method = ''GET'', sr_url = kbs_url url ''reference-value'', sr_content_type = ''application/json'',
          sr_bearer = token, sr_body = []\<rparr>)"

section \<open>The calls on the server\<close>

text \<open>
  The key broker at \<open>url\<close>: its routes are the paths below the prefix (\<^verbatim>\<open>kbs_path!\<close> in \<^verbatim>\<open>api_server.rs\<close>). An error of
  the handler is answered with a status other than 200; a panic breaks the connection.
\<close>

definition kbs_send ::
    "('ver, 'i, 'k, 'e, 'v, 'pk, 'x, 'a, 'd) kbs_env \<Rightarrow> (json \<Rightarrow> string) \<Rightarrow> ('k, 'x, 's) ApiServer \<Rightarrow>
     (string \<Rightarrow> string \<Rightarrow> string option) \<Rightarrow> (KbsError \<Rightarrow> string) \<Rightarrow> string \<Rightarrow> string \<Rightarrow> int \<Rightarrow>
     ('i, 's) server_state \<Rightarrow> SdkRequest \<Rightarrow> (string, SdkReply) outcome \<times> ('i, 's) server_state" where
  "kbs_send W print core serialize detail url uuid now s req =
     (let prefix = kbs_url url [] in
      if take (length prefix) (sr_url req) \<noteq> prefix then (Ok \<lparr>sdk_status = 404, sdk_text = Ok []\<rparr>, s)
      else
        let (r, s') = api W print core uuid now
                        \<lparr>cookies = [], bearer = Some (sr_bearer req), req_method = sr_method req\<rparr>
                        (sr_body req) (drop (length prefix) (sr_url req)) [] s;
            resp = (case r of
                      Ok resp \<Rightarrow> Ok resp
                    | Err e \<Rightarrow> (error_response serialize detail e :: (string, HttpResponse) outcome)
                    | Panic \<Rightarrow> Panic)
        in ((case resp of
               Ok resp \<Rightarrow> Ok \<lparr>sdk_status = resp_status resp, sdk_text = Ok (resp_body resp)\<rparr>
             | _ \<Rightarrow> Err ''connection closed''), s'))"

lemma kbs_url_prefix: "kbs_url url path = kbs_url url [] @ path"
  by (simp add: kbs_url_def)

lemma error_response_status:
  "error_response serialize detail e = Ok resp \<Longrightarrow> resp_status resp \<noteq> 200"
  by (auto simp: error_response_def split: option.splits KbsError.splits)

text \<open>A call succeeds exactly when the handler answers it with status 200, and its effect is that of the handler.\<close>

lemma send_status_kbs:
  assumes "http_send L = kbs_send W print core serialize detail url uuid now"
  shows "send_status L s \<lparr>sr_method = m, sr_url = kbs_url url path, sr_content_type = ct, sr_bearer = token, sr_body = b\<rparr> =
      (Ok (), s') \<longleftrightarrow>
    (\<exists>resp. api W print core uuid now \<lparr>cookies = [], bearer = Some token, req_method = m\<rparr> b path [] s = (Ok resp, s') \<and>
      resp_status resp = 200)"
proof -
  obtain r t where a: "api W print core uuid now \<lparr>cookies = [], bearer = Some token, req_method = m\<rparr> b path [] s = (r, t)"
    by (rule prod.exhaust)
  show ?thesis
    by (cases r) (auto simp: send_status_def assms kbs_send_def Let_def a kbs_url_prefix [of url path]
        dest: error_response_status split: outcome.splits)
qed

lemma with_admin_Ok:
  "with_admin L auth_key certs w f = (Ok x, w') \<longleftrightarrow>
     (\<exists>token. admin_token L auth_key certs = Ok token \<and> f token = (Ok x, w'))"
  by (auto simp: with_admin_def split: outcome.splits)

text \<open>A resource is set when the handler takes it as a POST of the administrator to the path of the resource.\<close>

lemma set_resource_iff:
  assumes "http_send L = kbs_send W print core serialize detail url uuid now"
  shows "sdk_set_resource L url auth_key b path certs s = (Ok (), s') \<longleftrightarrow>
    (\<exists>token resp. admin_token L auth_key certs = Ok token \<and>
      api W print core uuid now \<lparr>cookies = [], bearer = Some token, req_method = ''POST''\<rparr> b (''resource/'' @ path) [] s =
        (Ok resp, s') \<and> resp_status resp = 200)"
  unfolding sdk_set_resource_def with_admin_Ok send_status_kbs [OF assms] by blast

text \<open>
  \<^verbatim>\<open>get_rvs\<close> asks for the reference value whose name is empty: whatever it returns is the value of that name, so
  registered values of other names never show up, and without one it fails.
\<close>

lemma get_rvs_empty_name:
  assumes "http_send L = kbs_send W print core serialize detail url uuid now"
    and "get_rvs L url auth_key certs s = (Ok t, s')"
  shows "s' = s \<and> query_reference_value_string (codec W) (attester W) (attestation_service s) [] = Ok t"
proof -
  obtain token where g: "send_checked L s
      \<lparr>sr_method = ''GET'', sr_url = kbs_url url ''reference-value'', sr_content_type = ''application/json'',
       sr_bearer = token, sr_body = []\<rparr> = (Ok t, s')"
    using assms(2) unfolding get_rvs_def with_admin_Ok by blast
  let ?r = "\<lparr>cookies = [], bearer = Some token, req_method = ''GET''\<rparr>"
  have a: "api W print core uuid now ?r [] ''reference-value'' [] s =
      admin_call W core now ?r s (api_query_reference_value W [])"
    by (simp add: api_def Let_def)
  show ?thesis
    using g error_response_status
    by (auto simp: send_checked_def assms(1) kbs_send_def Let_def kbs_url_prefix [of url "''reference-value''"] a
        admin_call_def api_query_reference_value_def outcome_iff http_ok_def
        split: outcome.splits prod.splits if_splits)
qed

end
