(* ===== verification/Rvps_Intoto.thy ===== *)
theory Rvps_Intoto
  imports Rvps "HOL-Library.Sublist"
begin

text \<open>
  The in-toto extractor of the reference value provider (\<^verbatim>\<open>rvps/src/extractors/in_toto\<close>, behind the feature
  \<^verbatim>\<open>in-toto\<close>): it unpacks the files of a provenance into a temporary directory, makes that the working directory and
  has the Go library verify the layout there.

  Shown: a successful extraction never yields a reference value; when the names in the provenance stay inside the
  temporary directory, an extraction leaves the file system and the working directory as they were, whatever its
  result; a name with \<^verbatim>\<open>..\<close> is written outside and stays there.
\<close>

section \<open>Packages and state\<close>

record IntotoProvenance =
  ip_version :: string
  line_normalization :: bool
  ip_files :: "(string \<times> string) list"

text \<open>
  The working directory belongs to the process, so it is part of the state with the file system.
\<close>

record process_state =
  ps_fs :: fs
  ps_cwd :: string

text \<open>
  \<open>provenance_from_str\<close> is \<^verbatim>\<open>serde_json\<close> without the default of the version; \<open>ip_files\<close> is in the iteration order of
  the map. \<open>temp_name\<close> is the directory that \<^verbatim>\<open>tempfile\<close> makes. \<open>verifyGo\<close> is the exported Go function: it gets the
  paths, the link directory and the flag, may run commands on the file system, and returns the bytes of a C string.
\<close>

record intoto_lib =
  provenance_from_str :: "string \<Rightarrow> (string, string option \<times> bool \<times> (string \<times> string) list) outcome"
  temp_name :: "process_state \<Rightarrow> (string, string) outcome"
  path_clean :: "string \<Rightarrow> string"
  intoto_std_decode :: "string \<Rightarrow> (string, bytes) outcome"
  json_from_reader :: "bytes \<Rightarrow> (string, json) outcome"
  date_time_parse :: "string \<Rightarrow> (string, int) outcome"
  verifyGo :: "process_state \<Rightarrow> string \<Rightarrow> string list \<Rightarrow> string list \<Rightarrow> string \<Rightarrow> int \<Rightarrow> bytes \<times> fs"

definition INTOTO_VERSION :: string where
  "INTOTO_VERSION = ''0.9''"

definition intoto_default_version :: string where
  "intoto_default_version = INTOTO_VERSION"

definition parse_provenance :: "intoto_lib \<Rightarrow> string \<Rightarrow> (string, IntotoProvenance) outcome" where
  "parse_provenance L s =
     map_ok (\<lambda>(v, n, fl).
         \<lparr>ip_version = (case v of Some v \<Rightarrow> v | None \<Rightarrow> intoto_default_version), line_normalization = n, ip_files = fl\<rparr>)
       (provenance_from_str L s)"

definition on_fs ::
    "(io_error, 'a) outcome \<times> fs \<Rightarrow> process_state \<Rightarrow> (string, 'a) outcome \<times> process_state" where
  "on_fs r s = (map_err (\<lambda>_. ''io'') (fst r), s\<lparr>ps_fs := snd r\<rparr>)"

definition current_dir :: "process_state \<Rightarrow> (string, string) outcome" where
  "current_dir s = (if is_dir (ps_fs s) (path_of (ps_cwd s)) then Ok (ps_cwd s) else Err ''io'')"

definition set_current_dir :: "string \<Rightarrow> process_state \<Rightarrow> (string, unit) outcome \<times> process_state" where
  "set_current_dir d s =
     (if is_dir (ps_fs s) (path_of d) then (Ok (), s\<lparr>ps_cwd := d\<rparr>) else (Err ''io'', s))"

text \<open>\<^verbatim>\<open>TempDir\<close> is created by its constructor and removed, with all it holds, when it is dropped.\<close>

definition temp_create :: "intoto_lib \<Rightarrow> process_state \<Rightarrow> (string, string) outcome \<times> process_state" where
  "temp_create L s =
     (case temp_name L s of
        Ok d \<Rightarrow> (Ok d, s\<lparr>ps_fs := AList.update (path_of d) DirNode (ps_fs s)\<rparr>)
      | Err e \<Rightarrow> (Err e, s)
      | Panic \<Rightarrow> (Panic, s))"

definition temp_drop :: "string \<Rightarrow> process_state \<Rightarrow> process_state" where
  "temp_drop d s = s\<lparr>ps_fs := filter (\<lambda>(q, _). \<not> prefix (path_of d) q) (ps_fs s)\<rparr>"

section \<open>The call of the Go library\<close>

definition shim_verify ::
    "intoto_lib \<Rightarrow> string \<Rightarrow> string list \<Rightarrow> string list \<Rightarrow> string \<Rightarrow> bool \<Rightarrow> process_state \<Rightarrow>
     (string, unit) outcome \<times> process_state" where
  "shim_verify L layout_path pub_key_paths intermediate_paths link_dir normalization s =
     (let (buf, f) = verifyGo L s layout_path pub_key_paths intermediate_paths link_dir (if normalization then 1 else 0);
          r = (if \<not> valid_utf8 buf then Err ''utf8''
               else if take 7 (str_of buf) = ''Error::'' then Err (str_of buf)
               else Ok ())
      in (r, s\<lparr>ps_fs := f\<rparr>))"

section \<open>Extraction\<close>

text \<open>\<^verbatim>\<open>rsplit_once('/')\<close>: what is before the last slash; the whole string when there is none.\<close>

definition before_last_slash :: "string \<Rightarrow> string" where
  "before_last_slash s =
     (if CHR ''/'' \<in> set s then rev (drop 1 (dropWhile (\<lambda>c. c \<noteq> CHR ''/'') (rev s))) else s)"

definition get_file_path :: "intoto_lib \<Rightarrow> string \<Rightarrow> string \<Rightarrow> string \<times> string" where
  "get_file_path L tempdir relative_file_path =
     (let abs_path = path_clean L (tempdir @ ''/'' @ relative_file_path)
      in (abs_path, before_last_slash abs_path))"

text \<open>
  The file is created, and an old one truncated, before its content is decoded.
\<close>

fun unpack_files ::
    "intoto_lib \<Rightarrow> io_env \<Rightarrow> string \<Rightarrow> (string \<times> string) list \<Rightarrow> process_state \<Rightarrow>
     (string, string list) outcome \<times> process_state" where
  "unpack_files L io tempdir [] s = (Ok [], s)"
| "unpack_files L io tempdir ((relative_path, content_base64) # fl) s =
     (let (file_path, dir) = get_file_path L tempdir relative_path in
      then_st (on_fs (create_dir_all io (ps_fs s) (path_of dir)) s) (\<lambda>_ s.
      then_st (on_fs (write_file io (ps_fs s) (path_of file_path) []) s) (\<lambda>_ s.
      then_st (intoto_std_decode L content_base64, s) (\<lambda>b s.
      then_st (on_fs (write_file io (ps_fs s) (path_of file_path) b) s) (\<lambda>_ s.
      then_st (unpack_files L io tempdir fl s) (\<lambda>paths s. (Ok (file_path # paths), s)))))))"

definition str_ends_with :: "string \<Rightarrow> string \<Rightarrow> bool" where
  "str_ends_with s e \<longleftrightarrow> suffix e s"

text \<open>Indexing a \<^verbatim>\<open>Value\<close> by a name that is not there, or that is no object, gives \<^verbatim>\<open>Null\<close>.\<close>

definition value_index :: "json \<Rightarrow> string \<Rightarrow> json" where
  "value_index v k =
     (case v of JObject m \<Rightarrow> (case map_of m k of Some x \<Rightarrow> x | None \<Rightarrow> JNull) | _ \<Rightarrow> JNull)"

definition layout_expires :: "intoto_lib \<Rightarrow> bytes \<Rightarrow> (string, int) outcome" where
  "layout_expires L layout_file =
     and_then (json_from_reader L layout_file) (\<lambda>envelope.
     if value_index envelope ''payloadType'' \<noteq> JString ''application/vnd.in-toto+json''
     then Err ''Unsupported payload type''
     else and_then (case value_index envelope ''payload'' of
                      JString inner \<Rightarrow> intoto_std_decode L inner
                    | _ \<Rightarrow> Err ''Unexpected payload, expected a base64 encoded string'') (\<lambda>layout.
     and_then (map_err (\<lambda>_. ''parse layout'') (json_from_reader L layout)) (\<lambda>layout.
     and_then (case value_index layout ''expires'' of
                 JString e \<Rightarrow> Ok e | _ \<Rightarrow> Err ''failed to get expired time'') (\<lambda>expire_str.
       date_time_parse L expire_str))))"

text \<open>
  From the unpacked files on: the layout and the keys are found by the ends of their names. The old working directory
  comes back before the verdict is returned.
\<close>

definition verify_unpacked ::
    "intoto_lib \<Rightarrow> io_env \<Rightarrow> string \<Rightarrow> bool \<Rightarrow> string list \<Rightarrow> process_state \<Rightarrow>
     (string, ReferenceValue list) outcome \<times> process_state" where
  "verify_unpacked L io tempdir normalization file_paths s =
     then_st (ok_or ''Layout file not found.'' (find (\<lambda>k. str_ends_with k ''.layout'') file_paths), s) (\<lambda>layout_path s.
     then_st (current_dir s, s) (\<lambda>cwd s.
     then_st (map_err (\<lambda>_. ''io'') (read_file io (ps_fs s) (path_of layout_path)), s) (\<lambda>layout_file s.
     then_st (layout_expires L layout_file, s) (\<lambda>_ s.
     then_st (set_current_dir tempdir s) (\<lambda>_ s.
     let (r, s) = shim_verify L layout_path (filter (\<lambda>k. str_ends_with k ''.pub'') file_paths) [] [] normalization s
     in then_st (set_current_dir cwd s) (\<lambda>_ s. (map_ok (\<lambda>_. []) r, s)))))))"

definition InTotoExtractor_verify_and_extract ::
    "intoto_lib \<Rightarrow> io_env \<Rightarrow> string \<Rightarrow> process_state \<Rightarrow> (string, ReferenceValue list) outcome \<times> process_state" where
  "InTotoExtractor_verify_and_extract L io provenance s =
     then_st (parse_provenance L provenance, s) (\<lambda>provenance s.
     if ip_version provenance \<noteq> INTOTO_VERSION
     then (Err (''Version unmatched! Need '' @ INTOTO_VERSION @ '', given '' @ ip_version provenance @ ''.''), s)
     else then_st (temp_create L s) (\<lambda>tempdir s.
       let (r, s) = then_st (unpack_files L io tempdir (ip_files provenance) s)
                      (verify_unpacked L io tempdir (line_normalization provenance))
       in (r, temp_drop tempdir s)))"

section \<open>What an extraction leaves\<close>

text \<open>No reference value ever comes out of an in-toto provenance.\<close>

lemma verify_unpacked_values: "verify_unpacked L io d n ps s = (Ok rvs, s') \<Longrightarrow> rvs = []"
  by (auto simp: verify_unpacked_def then_st_Ok_iff split_beta Let_def map_ok_iff)

lemma drop_after_iff: "(case x of (r, s) \<Rightarrow> (r, g s)) = (y, s') \<longleftrightarrow> (\<exists>t. x = (y, t) \<and> s' = g t)"
  by (cases x) auto

lemma intoto_yields_nothing:
  "InTotoExtractor_verify_and_extract L io p s = (Ok rvs, s') \<Longrightarrow> rvs = []"
  unfolding InTotoExtractor_verify_and_extract_def then_st_Ok_iff Let_def drop_after_iff
  by (auto split: if_splits simp: then_st_Ok_iff drop_after_iff dest: verify_unpacked_values)

text \<open>
  The documented behaviour of the packages: \<^verbatim>\<open>path_clean\<close> resolves the dots of an absolute path; the temporary directory
  is new and lies in an existing one; the Go library writes at most below its working directory.
\<close>

definition clean_law :: "intoto_lib \<Rightarrow> bool" where
  "clean_law L \<longleftrightarrow> (\<forall>s. path_of (CHR ''/'' # s) \<noteq> [] \<longrightarrow> path_clean L (CHR ''/'' # s) = show_path (path_of (CHR ''/'' # s)))"

definition temp_law :: "intoto_lib \<Rightarrow> process_state \<Rightarrow> bool" where
  "temp_law L s \<longleftrightarrow>
     (\<forall>d. temp_name L s = Ok d \<longrightarrow>
        (\<exists>e. d = CHR ''/'' # e) \<and> path_of d \<noteq> [] \<and>
        (\<forall>q. prefix (path_of d) q \<longrightarrow> map_of (ps_fs s) q = None) \<and>
        (\<forall>q. strict_prefix q (path_of d) \<longrightarrow> is_dir (ps_fs s) q))"

definition go_law :: "intoto_lib \<Rightarrow> bool" where
  "go_law L \<longleftrightarrow>
     (\<forall>s l k i d n q. \<not> prefix (path_of (ps_cwd s)) q \<longrightarrow> map_of (snd (verifyGo L s l k i d n)) q = map_of (ps_fs s) q)"

text \<open>A relative name that stays inside: no \<^verbatim>\<open>..\<close>, and something besides dots and slashes.\<close>

definition plain_name :: "string \<Rightarrow> bool" where
  "plain_name r \<longleftrightarrow>
     ''..'' \<notin> set (split_on CHR ''/'' r) \<and> (\<exists>c\<in>set (split_on CHR ''/'' r). c \<noteq> [] \<and> c \<noteq> ''.'')"

definition outside_same :: "path \<Rightarrow> fs \<Rightarrow> fs \<Rightarrow> bool" where
  "outside_same t f f' \<longleftrightarrow> (\<forall>q. \<not> prefix t q \<longrightarrow> map_of f' q = map_of f q)"

lemma outside_same_refl [simp]: "outside_same t f f"
  by (simp add: outside_same_def)

lemma outside_same_trans: "outside_same t f g \<Longrightarrow> outside_same t g h \<Longrightarrow> outside_same t f h"
  by (simp add: outside_same_def)

lemma before_last_slash_snoc:
  assumes "CHR ''/'' \<notin> set c"
  shows "before_last_slash (s @ CHR ''/'' # c) = s"
proof -
  have "dropWhile (\<lambda>x. x \<noteq> CHR ''/'') (rev c @ CHR ''/'' # rev s) = CHR ''/'' # rev s"
    using assms by (subst dropWhile_append2) auto
  then show ?thesis by (simp add: before_last_slash_def)
qed

lemma get_file_path_plain:
  assumes "clean_law L" and "d = CHR ''/'' # e" and "plain_name r"
  obtains p c where "path_of (fst (get_file_path L d r)) = path_of d @ p @ [c]"
    and "path_of (snd (get_file_path L d r)) = path_of d @ p"
proof -
  let ?n = "filter (\<lambda>c. c \<noteq> [] \<and> c \<noteq> ''.'') (split_on CHR ''/'' r)"
  have path: "path_of (d @ CHR ''/'' # r) = path_of d @ ?n"
    using assms(3) by (simp add: path_of_sep join_down plain_name_def)
  have "?n \<noteq> []" using assms(3) by (auto simp: plain_name_def filter_empty_conv)
  then obtain p c where n: "?n = p @ [c]" by (metis rev_exhaust)
  have names: "list_all is_name (path_of d @ p @ [c])"
    using path_of_names [of "d @ CHR ''/'' # r"] unfolding path n .
  have "path_clean L (d @ CHR ''/'' # r) = show_path ((path_of d @ p) @ [c])"
    using assms(1,2) path n by (auto simp: clean_law_def)
  moreover have "before_last_slash (show_path ((path_of d @ p) @ [c])) = show_path (path_of d @ p)"
    using names unfolding show_path_snoc by (intro before_last_slash_snoc) (simp add: is_name_def)
  ultimately have "get_file_path L d r = (show_path (path_of d @ p @ [c]), show_path (path_of d @ p))"
    by (simp add: get_file_path_def Let_def)
  then show ?thesis
    using that [of p c] names path_of_show [of "path_of d @ p @ [c]"] path_of_show [of "path_of d @ p"] by simp
qed


text \<open>Unpacking stays inside, and so does the library.\<close>

lemma on_fs_cwd [simp]: "ps_cwd (snd (on_fs r s)) = ps_cwd s" "ps_fs (snd (on_fs r s)) = snd r"
  by (simp_all add: on_fs_def)

lemma create_dir_all_inside:
  assumes "\<And>q. strict_prefix q t \<Longrightarrow> is_dir f q"
  shows "outside_same t f (snd (create_dir_all io f (t @ p)))"
proof -
  obtain r f' where c: "create_dirs io f [] (t @ p) = (r, f')" by (rule prod.exhaust)
  have "is_dir f ([] @ q) \<or> prefix t ([] @ q)" if "t @ p = q @ u" for q u
    using that assms [of q] by (auto simp: append_eq_append_conv2 strict_prefix_def)
  then show ?thesis
    using create_dirs_frame_on [OF c, of "prefix t"] c by (auto simp: outside_same_def create_dir_all_def)
qed

lemma write_file_inside: "outside_same t f (snd (write_file io f (t @ p) b))"
proof -
  obtain r f' where w: "write_file io f (t @ p) b = (r, f')" by (rule prod.exhaust)
  show ?thesis using write_file_frame [OF w] unfolding outside_same_def w by (metis prefixI snd_conv)
qed

lemma dirs_kept:
  assumes "outside_same t f f'" and "is_dir f q" and "strict_prefix q t"
  shows "is_dir f' q"
proof -
  have "\<not> prefix t q" using assms(3) by (simp add: prefix_order.less_le_not_le)
  with assms(1,2) show ?thesis by (simp add: outside_same_def is_dir_def)
qed

lemma unpack_files_inside:
  assumes "clean_law L" and "d = CHR ''/'' # e"
    and "\<And>q. strict_prefix q (path_of d) \<Longrightarrow> is_dir (ps_fs s) q" and "list_all (\<lambda>(r, _). plain_name r) fl"
  shows "outside_same (path_of d) (ps_fs s) (ps_fs (snd (unpack_files L io d fl s))) \<and>
    ps_cwd (snd (unpack_files L io d fl s)) = ps_cwd s"
  using assms(3,4)
proof (induction fl arbitrary: s)
  case Nil
  then show ?case by simp
next
  case (Cons rc fl)
  obtain r c where rc: "rc = (r, c)" by (rule prod.exhaust)
  obtain fp dir where g: "get_file_path L d r = (fp, dir)" by (rule prod.exhaust)
  obtain p n where paths: "path_of fp = path_of d @ p @ [n]" "path_of dir = path_of d @ p"
    using get_file_path_plain [OF assms(1,2), of r] Cons.prems(2) g rc by auto
  define s1 where "s1 = snd (on_fs (create_dir_all io (ps_fs s) (path_of dir)) s)"
  define s2 where "s2 = snd (on_fs (write_file io (ps_fs s1) (path_of fp) []) s1)"
  have o1: "outside_same (path_of d) (ps_fs s) (ps_fs s1)" and c1: "ps_cwd s1 = ps_cwd s"
    unfolding s1_def paths by (simp_all add: create_dir_all_inside Cons.prems(1))
  have o2: "outside_same (path_of d) (ps_fs s) (ps_fs s2)" and c2: "ps_cwd s2 = ps_cwd s"
    using outside_same_trans [OF o1 write_file_inside] unfolding s2_def paths by (simp_all add: c1)
  have "outside_same (path_of d) (ps_fs s) (ps_fs t)" "ps_cwd t = ps_cwd s"
    "\<And>q. strict_prefix q (path_of d) \<Longrightarrow> is_dir (ps_fs t) q"
    if "t = snd (on_fs (write_file io (ps_fs s2) (path_of fp) b) s2)" for t b
    using outside_same_trans [OF o2 write_file_inside, of io "p @ [n]" b] that paths c2
      dirs_kept [of "path_of d" "ps_fs s" "ps_fs t"] Cons.prems(1) by (auto simp: on_fs_def)
  note t = this
  have "outside_same (path_of d) (ps_fs s) (ps_fs (snd (unpack_files L io d fl t))) \<and>
      ps_cwd (snd (unpack_files L io d fl t)) = ps_cwd s"
    if "t = snd (on_fs (write_file io (ps_fs s2) (path_of fp) b) s2)" for t b
  proof -
    have "outside_same (path_of d) (ps_fs t) (ps_fs (snd (unpack_files L io d fl t))) \<and>
      ps_cwd (snd (unpack_files L io d fl t)) = ps_cwd t"
      using Cons.IH [of t] t(3) [OF that] Cons.prems(2) by simp
    with t(1,2) [OF that] show ?thesis using outside_same_trans by metis
  qed
  then show ?case
    using o1 o2 c1 c2 t(1,2)
    by (simp add: rc g snd_then_st s1_def [symmetric] s2_def [symmetric] split: outcome.split)
qed


lemma shim_verify_state:
  "go_law L \<Longrightarrow> outside_same (path_of (ps_cwd s)) (ps_fs s) (ps_fs (snd (shim_verify L l k i d n s)))"
  "ps_cwd (snd (shim_verify L l k i d n s)) = ps_cwd s"
  by (simp_all add: shim_verify_def split_beta Let_def go_law_def outside_same_def)

lemma verify_unpacked_inside:
  assumes "go_law L" and "\<not> prefix (path_of d) (path_of (ps_cwd s))"
  shows "outside_same (path_of d) (ps_fs s) (ps_fs (snd (verify_unpacked L io d n ps s))) \<and>
    ps_cwd (snd (verify_unpacked L io d n ps s)) = ps_cwd s"
proof -
  have "outside_same (path_of d) (ps_fs s) (ps_fs (snd (shim_verify L l k i x n (s\<lparr>ps_cwd := d\<rparr>))))" for l k i x
    using shim_verify_state(1) [OF assms(1), of "s\<lparr>ps_cwd := d\<rparr>"] by simp
  moreover from this have "is_dir (ps_fs (snd (shim_verify L l k i x n (s\<lparr>ps_cwd := d\<rparr>)))) (path_of (ps_cwd s))"
    if "is_dir (ps_fs s) (path_of (ps_cwd s))" for l k i x
    using assms(2) that by (simp add: outside_same_def is_dir_def)
  ultimately show ?thesis
    by (simp add: verify_unpacked_def snd_then_st current_dir_def set_current_dir_def split_beta Let_def
        split: outcome.split)
qed

lemma map_of_filter_keys:
  "map_of (filter (\<lambda>(q, _). P q) xs) k = (if P k then map_of xs k else None)"
  by (induction xs) auto

lemma intoto_leaves_no_trace:
  assumes "clean_law L" "go_law L" "temp_law L s" and cwd: "is_dir (ps_fs s) (path_of (ps_cwd s))"
    and "parse_provenance L p = Ok v" and "list_all (\<lambda>(r, _). plain_name r) (ip_files v)"
    and "InTotoExtractor_verify_and_extract L io p s = (r, s')"
  shows "map_of (ps_fs s') = map_of (ps_fs s) \<and> ps_cwd s' = ps_cwd s"
proof (cases "\<exists>d. ip_version v = INTOTO_VERSION \<and> temp_name L s = Ok d")
  case False
  have "s' = snd (InTotoExtractor_verify_and_extract L io p s)" using assms(7) by simp
  with False show ?thesis
    by (auto simp: InTotoExtractor_verify_and_extract_def snd_then_st assms(5) temp_create_def split: outcome.split)
next
  case True
  then obtain d where d: "ip_version v = INTOTO_VERSION" "temp_name L s = Ok d" by blast
  let ?T = "path_of d" and ?s = "s\<lparr>ps_fs := AList.update (path_of d) DirNode (ps_fs s)\<rparr>"
  obtain e where e: "d = CHR ''/'' # e" and T: "?T \<noteq> []"
    and new: "\<And>q. prefix ?T q \<Longrightarrow> map_of (ps_fs s) q = None"
    and up: "\<And>q. strict_prefix q ?T \<Longrightarrow> is_dir (ps_fs s) q"
    using assms(3) d(2) by (auto simp: temp_law_def)
  have up': "is_dir (ps_fs ?s) q" if "strict_prefix q ?T" for q
    using up [OF that] that by (auto simp: is_dir_def)
  have apart: "\<not> prefix ?T (path_of (ps_cwd s))"
    using cwd new [of "path_of (ps_cwd s)"] T by (auto simp: is_dir_def)
  define u where "u = snd (unpack_files L io d (ip_files v) ?s)"
  have u: "outside_same ?T (ps_fs ?s) (ps_fs u)" "ps_cwd u = ps_cwd s"
    using unpack_files_inside [OF assms(1) e up' assms(6)] by (simp_all add: u_def)
  define w where "w = snd (then_st (unpack_files L io d (ip_files v) ?s) (verify_unpacked L io d (line_normalization v)))"
  have w: "outside_same ?T (ps_fs ?s) (ps_fs w) \<and> ps_cwd w = ps_cwd s"
    using u verify_unpacked_inside [OF assms(2), of d u io "line_normalization v"] apart outside_same_trans
    unfolding w_def snd_then_st u_def [symmetric] by (auto split: outcome.split)
  have "s' = temp_drop d w"
    using assms(7) d unfolding w_def
    by (auto simp: InTotoExtractor_verify_and_extract_def then_st_def assms(5) temp_create_def split_beta Let_def
        split: outcome.split)
  moreover have "map_of (ps_fs w) q = map_of (ps_fs s) q" if "\<not> prefix ?T q" for q
    using w that by (auto simp: outside_same_def)
  ultimately show ?thesis
    using new w by (auto simp: temp_drop_def map_of_filter_keys fun_eq_iff)
qed


section \<open>A name that leads outside\<close>

text \<open>
  A reference instance of the packages. The provenance names \<^verbatim>\<open>../../etc/passwd\<close> with a content that is no base64:
  it is refused, and \<^verbatim>\<open>/etc/passwd\<close> is empty from then on.
\<close>

definition sample_intoto :: intoto_lib where
  "sample_intoto =
     \<lparr>provenance_from_str = (\<lambda>_. Ok (None, False, [(''../../etc/passwd'', ''?'')])), temp_name = (\<lambda>_. Ok ''/tmp/t''),
      path_clean = (\<lambda>s. show_path (path_of s)), intoto_std_decode = (\<lambda>_. Err ''base64''),
      json_from_reader = (\<lambda>_. Err ''json''), date_time_parse = (\<lambda>_. Err ''date''),
      verifyGo = (\<lambda>s _ _ _ _ _. ([], ps_fs s))\<rparr>"

definition sample_host :: process_state where
  "sample_host =
     \<lparr>ps_fs = [([''tmp''], DirNode), ([''etc''], DirNode), ([''etc'', ''passwd''], FileNode [1, 2, 3])], ps_cwd = ''/tmp''\<rparr>"

lemma sample_intoto_laws: "clean_law sample_intoto" "go_law sample_intoto" "temp_law sample_intoto sample_host"
  "is_dir (ps_fs sample_host) (path_of (ps_cwd sample_host))"
proof -
  show "clean_law sample_intoto" "go_law sample_intoto" by (simp_all add: clean_law_def go_law_def sample_intoto_def)
  have "path_of ''/tmp/t'' = [''tmp'', ''t'']" by (simp add: path_of_def join1_def)
  then show "temp_law sample_intoto sample_host"
    by (auto simp: temp_law_def sample_intoto_def sample_host_def is_dir_def strict_prefix_def prefix_Cons
        split: if_splits)
  show "is_dir (ps_fs sample_host) (path_of (ps_cwd sample_host))"
    by (simp add: is_dir_def sample_host_def path_of_def join1_def)
qed

lemma intoto_escapes:
  "\<exists>s'. InTotoExtractor_verify_and_extract sample_intoto no_faults p sample_host = (Err ''base64'', s') \<and>
    map_of (ps_fs sample_host) [''etc'', ''passwd''] = Some (FileNode [1, 2, 3]) \<and>
    map_of (ps_fs s') [''etc'', ''passwd''] = Some (FileNode [])"
proof -
  have path: "get_file_path sample_intoto ''/tmp/t'' ''../../etc/passwd'' = (''/etc/passwd'', ''/etc'')"
    by (simp add: get_file_path_def sample_intoto_def path_of_def join1_def show_path_def before_last_slash_def)
  have paths: "path_of ''/etc/passwd'' = [''etc'', ''passwd'']" "path_of ''/etc'' = [''etc'']"
    "path_of ''/tmp/t'' = [''tmp'', ''t'']"
    by (simp_all add: path_of_def join1_def)
  let ?s = "sample_host\<lparr>ps_fs := AList.update [''tmp'', ''t''] DirNode (ps_fs sample_host)\<rparr>"
  let ?t = "?s\<lparr>ps_fs := AList.update [''etc'', ''passwd''] (FileNode []) (ps_fs ?s)\<rparr>"
  have "unpack_files sample_intoto no_faults ''/tmp/t'' [(''../../etc/passwd'', ''?'')] ?s = (Err ''base64'', ?t)"
    by (simp add: path paths on_fs_def create_dir_all_def is_dir_def exists_path_def write_file_def then_st_def
        sample_host_def)
      (simp add: sample_intoto_def paths is_dir_def exists_path_def write_file_def)
  then have "InTotoExtractor_verify_and_extract sample_intoto no_faults p sample_host = (Err ''base64'', temp_drop ''/tmp/t'' ?t)"
    by (simp add: InTotoExtractor_verify_and_extract_def parse_provenance_def temp_create_def then_st_def paths
        intoto_default_version_def sample_intoto_def)
  then show ?thesis by (simp add: temp_drop_def map_of_filter_keys paths sample_host_def)
qed

end
