(* ===== verification/Kbs_Startup.thy ===== *)
theory Kbs_Startup
  imports Kbs_Api Kbs_Clients Kbs_Ita
begin

text \<open>
  Configuration and start of the key broker: the configuration with its defaults (\<^verbatim>\<open>kbs/src/config.rs\<close>,
  \<^verbatim>\<open>kbs/src/attestation/config.rs\<close>, \<^verbatim>\<open>attestation-service/src/config.rs\<close> and the parts they name), the construction of
  the server from it and the choice of its listener (\<^verbatim>\<open>ApiServer::new\<close> and \<^verbatim>\<open>server\<close> in \<^verbatim>\<open>kbs/src/api_server.rs\<close>,
  \<^verbatim>\<open>kbs/src/http.rs\<close>).

  Shown: a server listens without TLS only when it is told to, the default configuration gives no certificate and so
  does not start, and its payload limit wraps at 4096 MB.
\<close>

section \<open>Configuration\<close>

definition DEFAULT_INSECURE_HTTP :: bool where
  "DEFAULT_INSECURE_HTTP = False"

definition DEFAULT_SOCKET :: string where
  "DEFAULT_SOCKET = ''127.0.0.1:8080''"

definition DEFAULT_PAYLOAD_REQUEST_SIZE :: u32 where
  "DEFAULT_PAYLOAD_REQUEST_SIZE = 2"

text \<open>A socket address is its text; \<open>DEFAULT_SOCKET\<close> is one.\<close>

record HttpServerConfig =
  sockets :: "string list"
  http_private_key :: "string option"
  http_certificate :: "string option"
  insecure_http :: bool
  payload_request_size :: u32
  worker_count :: "nat option"

definition HttpServerConfig_default :: HttpServerConfig where
  "HttpServerConfig_default =
     \<lparr>sockets = [DEFAULT_SOCKET], http_private_key = None, http_certificate = None,
      insecure_http = DEFAULT_INSECURE_HTTP, payload_request_size = DEFAULT_PAYLOAD_REQUEST_SIZE, worker_count = None\<rparr>"

definition DEFAULT_TIMEOUT :: int where
  "DEFAULT_TIMEOUT = 5"

subsection \<open>The built-in attestation service\<close>

definition DEFAULT_AS_WORK_DIR :: string where
  "DEFAULT_AS_WORK_DIR = ''/opt/confidential-containers/attestation-service''"

definition default_work_dir :: "string option \<Rightarrow> string" where
  "default_work_dir as_work_dir_env = (case as_work_dir_env of Some d \<Rightarrow> d | None \<Rightarrow> DEFAULT_AS_WORK_DIR)"

definition EarTokenConfiguration_default :: "string \<Rightarrow> EarTokenConfiguration" where
  "EarTokenConfiguration_default build =
     \<lparr>duration_min = 5, issuer_name = ''CoCo-Attestation-Service'',
      developer_name = ''https://confidentialcontainers.org'', build_name = build,
      profile_name = ''tag:github.com,2024:confidential-containers/Trustee'', signer = None,
      policy_dir = DEFAULT_AS_WORK_DIR @ ''/token/policies''\<rparr>"

definition WasmVerifierConfig_default :: WasmVerifierConfig where
  "WasmVerifierConfig_default =
     \<lparr>wasm_enabled = False, cfg_allow_unsigned = False, trusted_public_keys = [], cfg_registry_dir = None,
      default_component_id = None, cfg_wasi_cache_dir = None, wasmtime_cache_config = None\<rparr>"

definition AsConfig_default :: "string option \<Rightarrow> string \<Rightarrow> 'cfg AsConfig" where
  "AsConfig_default as_work_dir_env build =
     \<lparr>work_dir = path_of (default_work_dir as_work_dir_env),
      token_broker_config = EarTokenConfiguration_default build, verifier_config = None,
      wasm_verifier_config = WasmVerifierConfig_default\<rparr>"

datatype ReferenceValueStorageConfig = RvsLocalFs string | RvsLocalJson string

definition RVPS_FILE_PATH :: string where
  "RVPS_FILE_PATH = ''/opt/confidential-containers/attestation-service/reference_values''"

definition ReferenceValueStorageConfig_default :: ReferenceValueStorageConfig where
  "ReferenceValueStorageConfig_default = RvsLocalFs RVPS_FILE_PATH"

text \<open>The extractor configuration of the reference value provider plays no role here.\<close>

datatype RvpsConfig = RvpsBuiltIn ReferenceValueStorageConfig | RvpsGrpcRemote string

definition RvpsConfig_default :: RvpsConfig where
  "RvpsConfig_default = RvpsBuiltIn ReferenceValueStorageConfig_default"

subsection \<open>The key broker\<close>

datatype 'cfg AttestationServiceConfig =
    CoCoASBuiltIn "'cfg AsConfig" RvpsConfig
  | CoCoASGrpc GrpcConfig
  | IntelTA IntelTrustAuthorityConfig

text \<open>The default of a build with the service built in.\<close>

definition AttestationServiceConfig_default :: "string option \<Rightarrow> string \<Rightarrow> 'cfg AttestationServiceConfig" where
  "AttestationServiceConfig_default env build = CoCoASBuiltIn (AsConfig_default env build) RvpsConfig_default"

record 'cfg AttestationConfig =
  as_service :: "'cfg AttestationServiceConfig"
  as_timeout :: int

definition AttestationConfig_default :: "string option \<Rightarrow> string \<Rightarrow> 'cfg AttestationConfig" where
  "AttestationConfig_default env build =
     \<lparr>as_service = AttestationServiceConfig_default env build, as_timeout = DEFAULT_TIMEOUT\<rparr>"

text \<open>The repositories.\<close>

record AliyunKmsBackendConfig =
  al_client_key :: string
  al_kms_instance_id :: string
  al_password :: string
  al_cert_pem :: string

record VaultKvBackendConfig =
  va_vault_url :: string
  va_token :: string
  va_mount_path :: string
  va_verify_ssl :: bool
  va_ca_certs :: "string list option"

definition default_mount_path :: string where
  "default_mount_path = ''secret''"

definition default_verify_ssl :: bool where
  "default_verify_ssl = False"

datatype RepositoryConfig =
    RepoLocalFs string
  | RepoAliyun AliyunKmsBackendConfig
  | RepoVault VaultKvBackendConfig

definition RepositoryConfig_default :: "RepositoryConfig" where
  "RepositoryConfig_default = RepoLocalFs DEFAULT_REPO_DIR_PATH"

record 'cfg KbsConfig =
  kc_attestation_token :: AttestationTokenVerifierConfig
  kc_attestation_service :: "'cfg AttestationConfig"
  kc_http_server :: HttpServerConfig
  kc_admin :: AdminBackendType
  kc_policy_path :: string
  kc_plugins :: "RepositoryConfig PluginsConfig list"

definition KbsConfig_default :: "string option \<Rightarrow> string \<Rightarrow> 'cfg KbsConfig" where
  "KbsConfig_default env build =
     \<lparr>kc_attestation_token = AttestationTokenVerifierConfig_default,
      kc_attestation_service = AttestationConfig_default env build, kc_http_server = HttpServerConfig_default,
      kc_admin = AdminBackendType_default, kc_policy_path = DEFAULT_POLICY_PATH, kc_plugins = []\<rparr>"

text \<open>\<open>config_build\<close> is the \<^verbatim>\<open>config\<close> package reading a file, \<open>'t\<close> its table; then it is deserialised.\<close>

definition KbsConfig_try_from ::
    "(fs \<Rightarrow> string \<Rightarrow> (string, 't) outcome) \<Rightarrow> ('t \<Rightarrow> (string, 'cfg KbsConfig) outcome) \<Rightarrow> fs \<Rightarrow> string \<Rightarrow>
     (string, 'cfg KbsConfig) outcome" where
  "KbsConfig_try_from config_build try_deserialize f config_path =
     and_then (config_build f config_path) (\<lambda>c. map_err (\<lambda>e. ''invalid config: '' @ e) (try_deserialize c))"

section \<open>Construction\<close>

definition err_st :: "('e \<Rightarrow> 'f) \<Rightarrow> ('e, 'a) outcome \<times> 's \<Rightarrow> ('f, 'a) outcome \<times> 's" where
  "err_st g r = (map_err g (fst r), snd r)"

text \<open>
  The clients of Vault and of the Aliyun service are built from these settings; their connections belong to the plugins'
  state \<open>'s\<close>, over which \<open>rl_on_disk\<close>, \<open>rl_on_vault\<close> and \<open>rl_on_aliyun\<close> are the repositories.
\<close>

record VaultClientSettings =
  vs_address :: string
  vs_token :: string
  vs_verify :: bool
  vs_ca_certs :: "string list option"

record 's repo_lib =
  rl_vault_settings :: "VaultClientSettings \<Rightarrow> (string, unit) outcome"
  rl_vault_client :: "VaultClientSettings \<Rightarrow> (string, unit) outcome"
  rl_aliyun_client :: "AliyunKmsBackendConfig \<Rightarrow> (string, unit) outcome"
  rl_on_disk :: "LocalFsRepo \<Rightarrow> 's StorageBackend"
  rl_on_vault :: "VaultKvBackend \<Rightarrow> 's StorageBackend"
  rl_on_aliyun :: "'s StorageBackend"

definition VaultKvBackend_new :: "'s repo_lib \<Rightarrow> VaultKvBackendConfig \<Rightarrow> (Kbs_Resource.anyhow, VaultKvBackend) outcome" where
  "VaultKvBackend_new R config =
     (let settings = \<lparr>vs_address = va_vault_url config, vs_token = va_token config, vs_verify = va_verify_ssl config,
                      vs_ca_certs = va_ca_certs config\<rparr>
      in and_then (map_err (\<lambda>_. Message ''Failed to build Vault client settings'') (rl_vault_settings R settings)) (\<lambda>_.
         and_then (map_err (\<lambda>_. Message ''Failed to create Vault client'') (rl_vault_client R settings)) (\<lambda>_.
           Ok \<lparr>mount_path = va_mount_path config\<rparr>)))"

definition AliyunKmsBackend_new :: "'s repo_lib \<Rightarrow> AliyunKmsBackendConfig \<Rightarrow> (Kbs_Resource.anyhow, unit) outcome" where
  "AliyunKmsBackend_new R config = map_err (\<lambda>_. Message ''create aliyun KMS backend'') (rl_aliyun_client R config)"

definition ResourceStorage_try_from ::
    "io_env \<Rightarrow> 's repo_lib \<Rightarrow> RepositoryConfig \<Rightarrow> fs \<Rightarrow> (Kbs_Resource.anyhow, 's StorageBackend) outcome \<times> fs" where
  "ResourceStorage_try_from io R config f =
     (case config of
        RepoLocalFs dir \<Rightarrow>
          then_st (err_st (\<lambda>_. Message ''Failed to initialize Resource Storage'') (LocalFsRepo_new io f dir))
            (\<lambda>self f. (Ok (rl_on_disk R self), f))
      | RepoAliyun config \<Rightarrow> (map_ok (\<lambda>_. rl_on_aliyun R) (AliyunKmsBackend_new R config), f)
      | RepoVault config \<Rightarrow> (map_ok (rl_on_vault R) (VaultKvBackend_new R config), f))"

text \<open>
  \<open>connect\<close> is the constructor of the kind of service the configuration asks for.
\<close>

definition AttestationService_new ::
    "('cfg AttestationServiceConfig \<Rightarrow> fs \<Rightarrow> (string, 'i) outcome \<times> fs) \<Rightarrow> 'cfg AttestationConfig \<Rightarrow> fs \<Rightarrow>
     (AttestationError, 'i AttestationService) outcome \<times> fs" where
  "AttestationService_new connect config f =
     then_st (err_st AttestationServiceInitialization (connect (as_service config) f)) (\<lambda>inner f.
       (Ok \<lparr>inner = inner, session_map = [], timeout = as_timeout config\<rparr>, f))"

record ('cfg, 'i, 's) start_lib =
  st_io :: io_env
  st_default_policy :: string
  st_repos :: "'s repo_lib"
  st_connect :: "'cfg AttestationServiceConfig \<Rightarrow> fs \<Rightarrow> (string, 'i) outcome \<times> fs"
  st_ssl_check :: "fs \<Rightarrow> string \<Rightarrow> string \<Rightarrow> (string, unit) outcome"
  st_bind :: "bool \<Rightarrow> string list \<Rightarrow> (string, unit) outcome"

definition ApiServer_new ::
    "('cfg, 'i, 's) start_lib \<Rightarrow> 'k jwt_simple \<Rightarrow> ('pk, 'x, 'a, 'd) token_crates \<Rightarrow> 'cfg KbsConfig \<Rightarrow> fs \<Rightarrow>
     (KbsError, ('k, 'x, 's) ApiServer \<times> 'i AttestationService) outcome \<times> fs" where
  "ApiServer_new L K T config f =
     then_st (err_st PluginManagerInitialization
       (PluginManager_try_from (ResourceStorage_try_from (st_io L) (st_repos L)) []
          (kc_plugins config) f)) (\<lambda>pm f.
     then_st (map_err TokenVerifierError (TokenVerifier_from_config T (st_io L) f (kc_attestation_token config)), f)
       (\<lambda>tv f.
     then_st (err_st PolicyEngineFailed (Opa_new (st_default_policy L) (st_io L) f (kc_policy_path config))) (\<lambda>pe f.
     then_st (map_err AdminAuth (Admin_try_from K (st_io L) f (kc_admin config)), f) (\<lambda>ad f.
     then_st (err_st AttestationFailed (AttestationService_new (st_connect L) (kc_attestation_service config) f))
       (\<lambda>asvc f.
       (Ok (\<lparr>plugin_manager = pm, policy_engine = pe, admin = ad, verifier = tv\<rparr>, asvc), f))))))"

section \<open>The listener\<close>

text \<open>
  \<^verbatim>\<open>tls_config\<close>: the certificate is asked for before the key; \<open>st_ssl_check\<close> loads the key and the chain.
\<close>

definition tls_config ::
    "('cfg, 'i, 's) start_lib \<Rightarrow> fs \<Rightarrow> HttpServerConfig \<Rightarrow> (string, string \<times> string) outcome" where
  "tls_config L f config =
     and_then (ok_or ''Missing certificate'' (http_certificate config)) (\<lambda>cert_file.
     and_then (ok_or ''Missing private key'' (http_private_key config)) (\<lambda>key_file.
     and_then (st_ssl_check L f key_file cert_file) (\<lambda>_. Ok (cert_file, key_file))))"

text \<open>The product is one of \<^verbatim>\<open>u32\<close>, computed when a worker starts.\<close>

definition payload_limit :: "bool \<Rightarrow> u32 \<Rightarrow> ('e, nat) outcome" where
  "payload_limit chk mb =
     (if chk \<and> 2 ^ 32 \<le> 1024 * 1024 * unat mb then Panic else Ok (unat (1024 * 1024 * mb)))"

record Listener =
  tls :: "(string \<times> string) option"
  listen_on :: "string list"
  workers :: "nat option"
  limit_mb :: u32

definition server ::
    "('cfg, 'i, 's) start_lib \<Rightarrow> fs \<Rightarrow> HttpServerConfig \<Rightarrow> (KbsError, Listener) outcome" where
  "server L f http_config =
     (let listener = (\<lambda>t. \<lparr>tls = t, listen_on = sockets http_config, workers = worker_count http_config,
                           limit_mb = payload_request_size http_config\<rparr>)
      in if \<not> insecure_http http_config
         then and_then (map_err (\<lambda>e. HTTPSFailed (Message e)) (tls_config L f http_config)) (\<lambda>t.
              and_then (map_err (\<lambda>e. HTTPSFailed (Message e)) (st_bind L True (sockets http_config))) (\<lambda>_.
                Ok (listener (Some t))))
         else and_then (map_err (\<lambda>e. HTTPFailed (Message e)) (st_bind L False (sockets http_config))) (\<lambda>_.
                Ok (listener None)))"

section \<open>What starts\<close>

text \<open>A server without TLS was configured to be one; one with TLS has loaded its key and certificate.\<close>

lemma server_iff:
  "server L f c = Ok l \<longleftrightarrow>
     st_bind L (\<not> insecure_http c) (sockets c) = Ok () \<and>
     listen_on l = sockets c \<and> workers l = worker_count c \<and> limit_mb l = payload_request_size c \<and>
     (if insecure_http c then tls l = None
      else \<exists>cert key. http_certificate c = Some cert \<and> http_private_key c = Some key \<and>
             st_ssl_check L f key cert = Ok () \<and> tls l = Some (cert, key))"
  by (auto simp: server_def tls_config_def Let_def outcome_iff)

lemma default_does_not_start:
  "server L f (kc_http_server (KbsConfig_default env build)) = Err (HTTPSFailed (Message ''Missing certificate''))"
  by (simp add: server_def tls_config_def KbsConfig_default_def HttpServerConfig_default_def DEFAULT_INSECURE_HTTP_def)

lemma payload_limit_exact:
  "payload_limit chk mb = Ok n \<longleftrightarrow>
     (if unat mb < 4096 then n = 1024 * 1024 * unat mb else \<not> chk \<and> n = 1024 * 1024 * (unat mb mod 4096))"
proof -
  have "unat (1024 * 1024 * mb) = (1024 * 1024 * unat mb) mod 2 ^ 32" by (simp add: unat_word_ariths)
  also have "\<dots> = 1024 * 1024 * (unat mb mod 4096)" using mult_mod_right [of "1024 * 1024" "unat mb" 4096] by simp
  finally show ?thesis by (auto simp: payload_limit_def)
qed

text \<open>The server of the default configuration has no plugin and refuses every administrator.\<close>

lemma validate_default_admin:
  assumes "Admin_try_from K io f AdminBackendType_default = Ok a"
  shows "validate_admin_token K a now request \<noteq> Ok u"
  using assms by (auto simp: Admin_try_from_def AdminBackendType_default_def validate_admin_token_def
      simple_validate_def outcome_iff)

lemma err_st_Ok_iff: "err_st g r = (Ok x, s) \<longleftrightarrow> r = (Ok x, s)"
  by (cases r) (simp add: err_st_def map_err_iff)

lemma ApiServer_new_Ok:
  assumes "ApiServer_new L K T config f = (Ok (core, asvc), f')"
  obtains f1 f2 where
    "PluginManager_try_from (ResourceStorage_try_from (st_io L) (st_repos L)) []
       (kc_plugins config) f = (Ok (plugin_manager core), f1)"
    "TokenVerifier_from_config T (st_io L) f1 (kc_attestation_token config) = Ok (verifier core)"
    "Opa_new (st_default_policy L) (st_io L) f1 (kc_policy_path config) = (Ok (policy_engine core), f2)"
    "Admin_try_from K (st_io L) f2 (kc_admin config) = Ok (admin core)"
    "session_map asvc = []" "timeout asvc = as_timeout (kc_attestation_service config)"
  using assms that
  by (auto simp: ApiServer_new_def AttestationService_new_def then_st_Ok_iff err_st_Ok_iff map_err_iff)

lemma default_server_closed:
  assumes "config = KbsConfig_default env build" and "ApiServer_new L K T config f = (Ok (core, asvc), f')"
  shows "PluginManager_get (plugin_manager core) name = None"
    and "validate_admin_token K (admin core) now request \<noteq> Ok u"
proof -
  have config: "kc_plugins config = []" "kc_admin config = AdminBackendType_default"
    using assms(1) by (simp_all add: KbsConfig_default_def)
  obtain f1 f2 where
    "PluginManager_try_from (ResourceStorage_try_from (st_io L) (st_repos L)) [] [] f =
       (Ok (plugin_manager core), f1)"
    and ad: "Admin_try_from K (st_io L) f2 AdminBackendType_default = Ok (admin core)"
    using assms(2) by (rule ApiServer_new_Ok) (simp add: config)
  then show "PluginManager_get (plugin_manager core) name = None" by (auto simp: PluginManager_get_def)
  show "validate_admin_token K (admin core) now request \<noteq> Ok u" using ad by (rule validate_default_admin)
qed

end
