(* ===== verification/Trustee_Cli.thy ===== *)
theory Trustee_Cli
  imports Kbs_Startup
begin

text \<open>
  The all-in-one command line (\<^verbatim>\<open>tools/trustee-cli/src\<close>): it completes a configuration with keys, a certificate and a
  policy below a home directory and starts the key broker on it. File permissions are not modelled.

  Shown: whatever configuration it starts from, the completed one has an administrator or another backend, a plugin,
  a key and a certificate unless TLS is off, and a policy file that denies all unless another was there or asked for;
  where the paths of a configuration go.
\<close>

section \<open>Paths\<close>

definition is_absolute :: "string \<Rightarrow> bool" where
  "is_absolute p \<longleftrightarrow> take 1 p = ''/''"

text \<open>\<^verbatim>\<open>Path::join\<close>.\<close>

definition join_path :: "string \<Rightarrow> string \<Rightarrow> string" where
  "join_path base p =
     (if is_absolute p then p
      else if base = [] \<or> last base = CHR ''/'' then base @ p
      else base @ ''/'' @ p)"

text \<open>\<^verbatim>\<open>strip_prefix\<close> compares components; what is left is printed without redundant slashes and dots.\<close>

definition replace_base_dir :: "string \<Rightarrow> string \<Rightarrow> string" where
  "replace_base_dir p new_base =
     (if is_absolute p \<and> take 2 (path_components p) = [''opt'', ''confidential-containers'']
      then join_path new_base (join_slash (drop 2 (path_components p)))
      else if is_absolute p then p
      else join_path new_base p)"

text \<open>
  \<^verbatim>\<open>with_extension\<close>: what follows the last dot of the file name, a leading one aside, is replaced; a path without a
  file name stays.
\<close>

definition file_stem :: "string \<Rightarrow> string" where
  "file_stem n =
     (let stem = rev (drop 1 (dropWhile (\<lambda>c. c \<noteq> CHR ''.'') (rev n))) in if stem = [] then n else stem)"

definition with_extension :: "string \<Rightarrow> string \<Rightarrow> string" where
  "with_extension p e =
     (let cs = path_components p in
      if cs = [] \<or> last cs = ''.'' \<or> last cs = ''..'' then p
      else (if is_absolute p then ''/'' else []) @ join_slash (butlast cs @ [file_stem (last cs) @ ''.'' @ e]))"

section \<open>Keys\<close>

text \<open>The certificate that is built: names, addresses, days of validity; it is version 3 with a random serial number.\<close>

record X509Spec =
  x_name :: string
  x_dns :: "string list"
  x_ips :: "string list"
  x_days :: "nat \<times> nat"

record ('key, 't, 'cfg) trustee_lib =
  tl_io :: io_env
  tl_config_build :: "fs \<Rightarrow> string \<Rightarrow> (string, 't) outcome"
  tl_deserialize :: "'t \<Rightarrow> (string, 'cfg KbsConfig) outcome"
  tl_as_work_dir :: "string option"
  tl_build_name :: string
  tl_ed25519 :: "(string, 'key) outcome"
  tl_rsa2048 :: "(string, 'key) outcome"
  tl_private_pem :: "'key \<Rightarrow> (string, bytes) outcome"
  tl_public_pem :: "'key \<Rightarrow> (string, bytes) outcome"
  tl_from_pem :: "bytes \<Rightarrow> (string, 'key) outcome"
  tl_socket_ip :: "string \<Rightarrow> string"
  tl_x509 :: "X509Spec \<Rightarrow> 'key \<Rightarrow> (string, bytes) outcome"
  tl_allow_all :: bytes
  tl_deny_all :: bytes

abbreviation io_st :: "(io_error, 'a) outcome \<times> fs \<Rightarrow> (string, 'a) outcome \<times> fs" where
  "io_st r \<equiv> err_st (\<lambda>_. ''io'') r"

text \<open>\<^verbatim>\<open>File::create_new\<close> on a path, then the PEM text is made and written.\<close>

definition write_new_file :: "io_env \<Rightarrow> string \<Rightarrow> (string, bytes) outcome \<Rightarrow> fs \<Rightarrow> (string, unit) outcome \<times> fs" where
  "write_new_file io p pem f =
     (if exists_path f (path_of p) then (Err ''File exists'', f)
      else then_st (io_st (write_file io f (path_of p) [])) (\<lambda>_ f.
           then_st (pem, f) (\<lambda>b f. io_st (write_file io f (path_of p) b))))"

definition write_private :: "('key, 't, 'cfg) trustee_lib \<Rightarrow> string \<Rightarrow> 'key \<Rightarrow> fs \<Rightarrow> (string, unit) outcome \<times> fs" where
  "write_private L p key f = write_new_file (tl_io L) p (tl_private_pem L key) f"

definition write_pem ::
    "('key, 't, 'cfg) trustee_lib \<Rightarrow> string \<Rightarrow> string \<Rightarrow> 'key \<Rightarrow> fs \<Rightarrow> (string, unit) outcome \<times> fs" where
  "write_pem L private_path public_path key f =
     then_st (write_private L private_path key f) (\<lambda>_ f.
       write_new_file (tl_io L) public_path (tl_public_pem L key) f)"

definition write_new_auth_key_pair ::
    "('key, 't, 'cfg) trustee_lib \<Rightarrow> string \<Rightarrow> string \<Rightarrow> fs \<Rightarrow> (string, unit) outcome \<times> fs" where
  "write_new_auth_key_pair L private_path public_path f =
     then_st (tl_ed25519 L, f) (\<lambda>key f. write_pem L private_path public_path key f)"

definition trustee_keygen :: "('key, 't, 'cfg) trustee_lib \<Rightarrow> string \<Rightarrow> fs \<Rightarrow> (string, unit) outcome \<times> fs" where
  "trustee_keygen L private_path f = write_new_auth_key_pair L private_path (with_extension private_path ''pub'') f"

definition get_key_paths :: "string \<Rightarrow> string \<Rightarrow> string \<times> string" where
  "get_key_paths base_dir key_name =
     (let private_path = join_path base_dir key_name in (private_path, with_extension private_path ''pub''))"

definition try_exists :: "io_env \<Rightarrow> fs \<Rightarrow> string \<Rightarrow> (string, bool) outcome" where
  "try_exists io f p = (if read_fault io (path_of p) then Err ''io'' else Ok (exists_path f (path_of p)))"

definition ensure_auth_key_pair ::
    "('key, 't, 'cfg) trustee_lib \<Rightarrow> string \<Rightarrow> fs \<Rightarrow> (string, string \<times> string) outcome \<times> fs" where
  "ensure_auth_key_pair L home f =
     (let (private_path, public_path) = get_key_paths home ''auth_key'' in
      then_st (try_exists (tl_io L) f private_path, f) (\<lambda>there f.
      then_st (if \<not> there then write_new_auth_key_pair L private_path public_path f else (Ok (), f)) (\<lambda>_ f.
        (Ok (private_path, public_path), f))))"

definition ensure_https_key_pair ::
    "('key, 't, 'cfg) trustee_lib \<Rightarrow> string \<Rightarrow> fs \<Rightarrow> (string, string \<times> string) outcome \<times> fs" where
  "ensure_https_key_pair L home f =
     (let (private_path, public_path) = get_key_paths home ''https_key'' in
      then_st (try_exists (tl_io L) f private_path, f) (\<lambda>there f.
      then_st (if \<not> there
               then then_st (tl_rsa2048 L, f) (\<lambda>key f. write_pem L private_path public_path key f)
               else (Ok (), f)) (\<lambda>_ f.
        (Ok (private_path, public_path), f))))"

definition build_x509 :: "('key, 't, 'cfg) trustee_lib \<Rightarrow> string list \<Rightarrow> 'key \<Rightarrow> (string, bytes) outcome" where
  "build_x509 L socks skey =
     tl_x509 L
       \<lparr>x_name = ''localhost'', x_dns = [''localhost'', ''localhost.localdomain''],
        x_ips = map (tl_socket_ip L) socks, x_days = (0, 365)\<rparr> skey"

section \<open>The completed configuration\<close>

fun rebase_plugin :: "string \<Rightarrow> RepositoryConfig PluginsConfig \<Rightarrow> RepositoryConfig PluginsConfig" where
  "rebase_plugin home (ResourceStorage (RepoLocalFs dir)) = ResourceStorage (RepoLocalFs (replace_base_dir dir home))"
| "rebase_plugin home c = c"

fun rebase_rvps :: "string \<Rightarrow> RvpsConfig \<Rightarrow> RvpsConfig" where
  "rebase_rvps home (RvpsBuiltIn (RvsLocalFs p)) = RvpsBuiltIn (RvsLocalFs (replace_base_dir p home))"
| "rebase_rvps home c = c"

fun rebase_service :: "string \<Rightarrow> 'cfg AttestationServiceConfig \<Rightarrow> 'cfg AttestationServiceConfig" where
  "rebase_service home (CoCoASBuiltIn c rv) =
     CoCoASBuiltIn
       (c\<lparr>work_dir := path_of (replace_base_dir (show_path (work_dir c)) home),
          token_broker_config := (token_broker_config c)
            \<lparr>policy_dir := replace_base_dir (policy_dir (token_broker_config c)) home\<rparr>\<rparr>)
       (rebase_rvps home rv)"
| "rebase_service home c = c"

definition rebase_config :: "string \<Rightarrow> 'cfg KbsConfig \<Rightarrow> 'cfg KbsConfig" where
  "rebase_config home config =
     config\<lparr>kc_policy_path := replace_base_dir (kc_policy_path config) home,
       kc_plugins := map (rebase_plugin home)
         (if kc_plugins config = [] then [ResourceStorage RepositoryConfig_default] else kc_plugins config),
       kc_attestation_service := (kc_attestation_service config)
         \<lparr>as_service := rebase_service home (as_service (kc_attestation_service config))\<rparr>\<rparr>"

definition complete_admin ::
    "('key, 't, 'cfg) trustee_lib \<Rightarrow> string \<Rightarrow> 'cfg KbsConfig \<Rightarrow> fs \<Rightarrow>
     (string, 'cfg KbsConfig) outcome \<times> fs" where
  "complete_admin L home config f =
     (case kc_admin config of
        Simple [] \<Rightarrow>
          then_st (ensure_auth_key_pair L home f) (\<lambda>(_, public_path) f.
            (Ok (config\<lparr>kc_admin := Simple [\<lparr>config_id = ''admin'', public_key_path = public_path\<rparr>]\<rparr>), f))
      | _ \<Rightarrow> (Ok config, f))"

definition complete_key ::
    "('key, 't, 'cfg) trustee_lib \<Rightarrow> string \<Rightarrow> HttpServerConfig \<Rightarrow> fs \<Rightarrow> (string, HttpServerConfig) outcome \<times> fs" where
  "complete_key L home h f =
     (case http_private_key h of
        None \<Rightarrow> then_st (ensure_https_key_pair L home f) (\<lambda>(private_path, _) f.
                  (Ok (h\<lparr>http_private_key := Some private_path\<rparr>), f))
      | Some _ \<Rightarrow> (Ok h, f))"

definition complete_certificate ::
    "('key, 't, 'cfg) trustee_lib \<Rightarrow> string \<Rightarrow> HttpServerConfig \<Rightarrow> fs \<Rightarrow> (string, HttpServerConfig) outcome \<times> fs" where
  "complete_certificate L home h f =
     (case (http_certificate h, http_private_key h) of
        (None, None) \<Rightarrow> (Panic, f)
      | (None, Some kp) \<Rightarrow>
          then_st (map_err (\<lambda>_. ''io'') (read_file (tl_io L) f (path_of kp)), f) (\<lambda>data f.
          then_st (tl_from_pem L data, f) (\<lambda>skey f.
          then_st (build_x509 L (sockets h) skey, f) (\<lambda>pem f.
          let cp = join_path home ''https_cert_cache.pem'' in
          then_st (io_st (write_file (tl_io L) f (path_of cp) pem)) (\<lambda>_ f.
            (Ok (h\<lparr>http_certificate := Some cp\<rparr>), f)))))
      | _ \<Rightarrow> (Ok h, f))"

definition complete_tls ::
    "('key, 't, 'cfg) trustee_lib \<Rightarrow> string \<Rightarrow> 'cfg KbsConfig \<Rightarrow> fs \<Rightarrow>
     (string, 'cfg KbsConfig) outcome \<times> fs" where
  "complete_tls L home config f =
     (if \<not> insecure_http (kc_http_server config)
      then then_st (complete_key L home (kc_http_server config) f) (\<lambda>h f.
           then_st (complete_certificate L home h f) (\<lambda>h f. (Ok (config\<lparr>kc_http_server := h\<rparr>), f)))
      else (Ok config, f))"

text \<open>\<^verbatim>\<open>Path::exists\<close> answers no when it cannot tell.\<close>

definition complete_policy ::
    "('key, 't, 'cfg) trustee_lib \<Rightarrow> bool \<Rightarrow> string \<Rightarrow> 'cfg KbsConfig \<Rightarrow> fs \<Rightarrow>
     (string, 'cfg KbsConfig) outcome \<times> fs" where
  "complete_policy L allow_all home config f =
     (let use = (\<lambda>name b. then_st (io_st (write_file (tl_io L) f (path_of (join_path home name)) b)) (\<lambda>_ f.
                   (Ok (config\<lparr>kc_policy_path := join_path home name\<rparr>), f)))
      in if allow_all then use ''allow_all.rego'' (tl_allow_all L)
         else if try_exists (tl_io L) f (kc_policy_path config) \<noteq> Ok True then use ''deny_all.rego'' (tl_deny_all L)
         else (Ok config, f))"

definition get_config ::
    "('key, 't, 'cfg) trustee_lib \<Rightarrow> string option \<Rightarrow> bool \<Rightarrow> string \<Rightarrow> fs \<Rightarrow>
     (string, 'cfg KbsConfig) outcome \<times> fs" where
  "get_config L config_file allow_all home f =
     then_st (case config_file of
                Some p \<Rightarrow> KbsConfig_try_from (tl_config_build L) (tl_deserialize L) f p
              | None \<Rightarrow> Ok (KbsConfig_default (tl_as_work_dir L) (tl_build_name L)), f) (\<lambda>config f.
     then_st (complete_admin L home (rebase_config home config) f) (\<lambda>config f.
     then_st (complete_tls L home config f) (\<lambda>config f.
       complete_policy L allow_all home config f)))"

section \<open>Running\<close>

text \<open>The server is built and listens; the errors of the key broker are printed.\<close>

definition trustee_run ::
    "('key, 't, 'cfg) trustee_lib \<Rightarrow> ('cfg, 'i, 's) start_lib \<Rightarrow> 'k jwt_simple \<Rightarrow> ('pk, 'x, 'a, 'd) token_crates \<Rightarrow>
     (KbsError \<Rightarrow> string) \<Rightarrow> string \<Rightarrow> string option \<Rightarrow> bool \<Rightarrow> fs \<Rightarrow>
     (string, (('k, 'x, 's) ApiServer \<times> 'i AttestationService) \<times> Listener) outcome \<times> fs" where
  "trustee_run L S K T display home config_file allow_all f =
     then_st (get_config L config_file allow_all home f) (\<lambda>config f.
     then_st (err_st display (ApiServer_new S K T config f)) (\<lambda>api_server f.
     then_st (map_err display (server S f (kc_http_server config)), f) (\<lambda>l f.
       (Ok (api_server, l), f))))"

definition default_home :: "bool \<Rightarrow> string option \<Rightarrow> string" where
  "default_home is_root home_dir =
     (if is_root then ''/opt/confidential-containers''
      else join_path (case home_dir of Some h \<Rightarrow> h | None \<Rightarrow> []) ''.trustee'')"

section \<open>What the completed configuration has\<close>

lemma complete_admin_Ok:
  assumes "complete_admin L home c f = (Ok c', f')"
  shows "kc_admin c' \<noteq> Simple []" and "c' = c\<lparr>kc_admin := kc_admin c'\<rparr>"
    and "kc_admin c \<noteq> Simple [] \<Longrightarrow> c' = c \<and> f' = f"
  using assms by (auto simp: complete_admin_def then_st_Ok_iff split: AdminBackendType.splits list.splits)

lemma complete_key_Ok:
  assumes "complete_key L home h f = (Ok h', f')"
  shows "http_private_key h' \<noteq> None" and "h' = h\<lparr>http_private_key := http_private_key h'\<rparr>"
  using assms by (auto simp: complete_key_def then_st_Ok_iff split: option.splits)

lemma complete_certificate_Ok:
  assumes "complete_certificate L home h f = (Ok h', f')"
  shows "http_certificate h' \<noteq> None" and "h' = h\<lparr>http_certificate := http_certificate h'\<rparr>"
  using assms by (auto simp: complete_certificate_def then_st_Ok_iff Let_def split: option.splits)

lemma complete_tls_Ok:
  assumes "complete_tls L home c f = (Ok c', f')"
  shows "insecure_http (kc_http_server c') = insecure_http (kc_http_server c)"
    and "\<not> insecure_http (kc_http_server c') \<longrightarrow>
      http_private_key (kc_http_server c') \<noteq> None \<and> http_certificate (kc_http_server c') \<noteq> None"
    and "c' = c\<lparr>kc_http_server := kc_http_server c'\<rparr>"
proof -
  have "insecure_http (kc_http_server c') = insecure_http (kc_http_server c) \<and>
    (\<not> insecure_http (kc_http_server c') \<longrightarrow>
      http_private_key (kc_http_server c') \<noteq> None \<and> http_certificate (kc_http_server c') \<noteq> None) \<and>
    c' = c\<lparr>kc_http_server := kc_http_server c'\<rparr>"
  proof (cases "insecure_http (kc_http_server c)")
    case False
    then obtain h1 f1 h2 where k: "complete_key L home (kc_http_server c) f = (Ok h1, f1)"
      and t: "complete_certificate L home h1 f1 = (Ok h2, f')" and c: "c' = c\<lparr>kc_http_server := h2\<rparr>"
      using assms by (auto simp: complete_tls_def then_st_Ok_iff)
    have "h1 = (kc_http_server c)\<lparr>http_private_key := http_private_key h1\<rparr>" by (rule complete_key_Ok(2) [OF k])
    moreover have "h2 = h1\<lparr>http_certificate := http_certificate h2\<rparr>" by (rule complete_certificate_Ok(2) [OF t])
    ultimately have "insecure_http h2 = insecure_http (kc_http_server c)" "http_private_key h2 = http_private_key h1"
      by (metis HttpServerConfig.select_convs(4) HttpServerConfig.surjective HttpServerConfig.update_convs(2,3))
        (metis \<open>h2 = h1\<lparr>http_certificate := http_certificate h2\<rparr>\<close> HttpServerConfig.select_convs(2)
          HttpServerConfig.surjective HttpServerConfig.update_convs(3))
    with complete_key_Ok(1) [OF k] complete_certificate_Ok(1) [OF t] c show ?thesis by simp
  qed (use assms in \<open>simp add: complete_tls_def\<close>)
  then show "insecure_http (kc_http_server c') = insecure_http (kc_http_server c)"
    "\<not> insecure_http (kc_http_server c') \<longrightarrow>
      http_private_key (kc_http_server c') \<noteq> None \<and> http_certificate (kc_http_server c') \<noteq> None"
    "c' = c\<lparr>kc_http_server := kc_http_server c'\<rparr>" by blast+
qed

text \<open>The policy that the server will run on.\<close>

lemma write_file_written:
  "write_file io f p b = (Ok (), f') \<Longrightarrow> map_of f' p = Some (FileNode b)"
  by (auto simp: write_file_def split: if_splits option.splits)

lemma complete_policy_Ok:
  assumes "complete_policy L allow_all home c f = (Ok c', f')"
  shows "c' = c\<lparr>kc_policy_path := kc_policy_path c'\<rparr>"
    and "if allow_all then map_of f' (path_of (kc_policy_path c')) = Some (FileNode (tl_allow_all L))
         else (c' = c \<and> f' = f \<and> exists_path f (path_of (kc_policy_path c))) \<or>
              map_of f' (path_of (kc_policy_path c')) = Some (FileNode (tl_deny_all L))"
  using assms
  by (auto simp: complete_policy_def Let_def then_st_Ok_iff err_st_Ok_iff try_exists_def dest: write_file_written
      split: if_splits)

lemma get_config_ready:
  assumes "get_config L config_file allow_all home f = (Ok c, f')"
  shows "kc_plugins c \<noteq> []" and "kc_admin c \<noteq> Simple []"
    and "\<not> insecure_http (kc_http_server c) \<longrightarrow>
      http_private_key (kc_http_server c) \<noteq> None \<and> http_certificate (kc_http_server c) \<noteq> None"
    and "if allow_all then map_of f' (path_of (kc_policy_path c)) = Some (FileNode (tl_allow_all L))
         else exists_path f' (path_of (kc_policy_path c))"
proof -
  obtain c0 c1 f1 c2 f2 where c1: "complete_admin L home (rebase_config home c0) f = (Ok c1, f1)"
    and c2: "complete_tls L home c1 f1 = (Ok c2, f2)" and c: "complete_policy L allow_all home c2 f2 = (Ok c, f')"
    using assms by (auto simp: get_config_def then_st_Ok_iff)
  note upd = complete_admin_Ok(2) [OF c1] complete_tls_Ok(3) [OF c2] complete_policy_Ok(1) [OF c]
  have plugins: "kc_plugins c = kc_plugins (rebase_config home c0)"
    by (subst upd(3), simp, subst upd(2), simp, subst upd(1), simp)
  then show "kc_plugins c \<noteq> []" by (simp add: rebase_config_def)
  have "kc_admin c = kc_admin c1" by (subst upd(3), simp, subst upd(2), simp)
  with complete_admin_Ok(1) [OF c1] show "kc_admin c \<noteq> Simple []" by simp
  have "kc_http_server c = kc_http_server c2" by (subst upd(3), simp)
  with complete_tls_Ok(2) [OF c2] show "\<not> insecure_http (kc_http_server c) \<longrightarrow>
      http_private_key (kc_http_server c) \<noteq> None \<and> http_certificate (kc_http_server c) \<noteq> None" by simp
  show "if allow_all then map_of f' (path_of (kc_policy_path c)) = Some (FileNode (tl_allow_all L))
         else exists_path f' (path_of (kc_policy_path c))"
    using complete_policy_Ok(2) [OF c] by (auto simp: exists_path_def split: if_splits)
qed


text \<open>Run on the default configuration the server has TLS, and it has it whenever the configuration does not turn it off.\<close>

lemma trustee_run_tls:
  assumes "trustee_run L S K T display home config_file allow_all f = (Ok ((core, asvc), l), f')"
  obtains c f1 where "get_config L config_file allow_all home f = (Ok c, f1)"
    and "tls l = None \<longleftrightarrow> insecure_http (kc_http_server c)" and "admin core \<noteq> SimpleAdminBackend []"
proof -
  obtain c f1 f2 where c: "get_config L config_file allow_all home f = (Ok c, f1)"
    and n: "ApiServer_new S K T c f1 = (Ok (core, asvc), f2)" and l: "server S f2 (kc_http_server c) = Ok l"
    using assms by (auto simp: trustee_run_def then_st_Ok_iff err_st_Ok_iff map_err_iff)
  have tls: "tls l = None \<longleftrightarrow> insecure_http (kc_http_server c)"
    using l by (auto simp: server_iff split: if_splits)
  obtain f3 where "Admin_try_from K (st_io S) f3 (kc_admin c) = Ok (admin core)"
    using n by (rule ApiServer_new_Ok) blast
  moreover have "kc_admin c \<noteq> Simple []" by (rule get_config_ready(2) [OF c])
  ultimately have "admin core \<noteq> SimpleAdminBackend []"
    by (auto simp: Admin_try_from_def neq_Nil_conv outcome_iff split: AdminBackendType.splits)
  with c tls show thesis by (rule that)
qed

section \<open>Where paths go\<close>

lemma join_slash_split:
  "ps \<noteq> [] \<Longrightarrow> \<forall>p\<in>set ps. CHR ''/'' \<notin> set p \<Longrightarrow> split_on CHR ''/'' (join_slash ps) = ps"
  by (induction ps rule: join_slash.induct) (auto simp: split_on_none split_on_append)

lemma join1_nil: "join1 d [] = d"
  by (simp add: join1_def)

lemma join1_skip: "foldl join1 d (filter (\<lambda>c. c \<noteq> [] \<and> c \<noteq> ''.'') cs) = foldl join1 d cs"
  by (induction cs arbitrary: d) (auto simp: join1_def)

lemma path_of_components: "is_absolute p \<Longrightarrow> foldl join1 [] (path_components p) = path_of p"
  by (cases p) (auto simp: is_absolute_def path_components_def path_of_def join1_skip join1_nil conj_commute)

lemma path_of_join:
  assumes "\<not> is_absolute p"
  shows "path_of (join_path base p) = foldl join1 (path_of base) (split_on CHR ''/'' p)"
proof (cases "base = [] \<or> last base = CHR ''/''")
  case True
  then show ?thesis
  proof (cases base rule: rev_cases)
    case (snoc b c)
    with True have "base = b @ ''/''" by simp
    then show ?thesis using assms path_of_sep [of b p] path_of_sep [of b "[]"]
      by (simp add: join_path_def join1_def)
  qed (use assms in \<open>simp add: join_path_def path_of_def join1_def\<close>)
next
  case False
  then show ?thesis using assms path_of_sep [of base p] by (simp add: join_path_def)
qed

text \<open>
  A path below \<^verbatim>\<open>/opt/confidential-containers\<close> moves below the home directory, another absolute path stays, and a
  relative one is taken below the home directory.
\<close>

lemma replace_base_dir_path:
  "path_of (replace_base_dir p home) =
     (if is_absolute p \<and> take 2 (path_components p) = [''opt'', ''confidential-containers'']
      then foldl join1 (path_of home) (drop 2 (path_components p))
      else if is_absolute p then path_of p
      else foldl join1 (path_of home) (split_on CHR ''/'' p))"
proof -
  let ?r = "drop 2 (path_components p)"
  have slash: "\<forall>c\<in>set ?r. CHR ''/'' \<notin> set c \<and> c \<noteq> []" if "is_absolute p"
    using that by (cases p) (auto simp: is_absolute_def path_components_def dest!: in_set_dropD split: if_splits
        dest: split_on_pieces)
  have "path_of (join_path home (join_slash ?r)) = foldl join1 (path_of home) ?r" if "is_absolute p"
  proof (cases "?r = []")
    case True
    then show ?thesis using path_of_join [of "[]" home] by (simp add: is_absolute_def join1_def)
  next
    case False
    with slash [OF that] have "\<not> is_absolute (join_slash ?r)"
      by (cases ?r rule: join_slash.cases) (auto simp: is_absolute_def neq_Nil_conv)
    then show ?thesis
      using path_of_join join_slash_split [OF False] slash [OF that] by simp
  qed
  then show ?thesis by (simp add: replace_base_dir_def path_of_join)
qed

text \<open>With the home directory of the superuser no absolute path changes.\<close>

lemma replace_base_dir_root:
  assumes "is_absolute p"
  shows "path_of (replace_base_dir p (default_home True h)) = path_of p"
proof -
  let ?c = "path_components p"
  have "path_of ''/opt/confidential-containers'' = [''opt'', ''confidential-containers'']"
    by (simp add: path_of_def join1_def)
  moreover have "foldl join1 [] ?c = foldl join1 (foldl join1 [] (take 2 ?c)) (drop 2 ?c)"
    by (metis append_take_drop_id foldl_append)
  ultimately show ?thesis
    using assms path_of_components [OF assms] by (auto simp: replace_base_dir_path default_home_def join1_def)
qed

text \<open>
  Reference values in a JSON file keep their path: only the other storage is moved below the home directory.
\<close>

lemma rebase_keeps_json: "rebase_rvps home (RvpsBuiltIn (RvsLocalJson p)) = RvpsBuiltIn (RvsLocalJson p)"
  by simp

text \<open>
  A pair whose private half is there counts as complete: without the public half, the server that is configured with it
  does not start.
\<close>

lemma missing_public_key:
  assumes "exists_path f (path_of (fst (get_key_paths home ''auth_key'')))"
    and "map_of f (path_of (snd (get_key_paths home ''auth_key''))) = None"
    and "path_of (snd (get_key_paths home ''auth_key'')) \<noteq> []" and "\<And>p. \<not> read_fault (tl_io L) p"
    and "kc_admin c = Simple []" and "\<And>p. \<not> read_fault io p"
  shows "\<exists>c'. complete_admin L home c f = (Ok c', f) \<and>
    Admin_try_from K io f (kc_admin c') = Err (ReadPublicKey IoNotFound)"
  using assms
  by (auto simp: complete_admin_def ensure_auth_key_pair_def split_beta try_exists_def then_st_def Admin_try_from_def
      read_to_string_def read_file_def)

text \<open>A key file named \<^verbatim>\<open>.pub\<close>: the private key is written, then its own file is in the way of the public one.\<close>

lemma keygen_same_file:
  assumes "with_extension p ''pub'' = p" and "trustee_keygen L p f = (r, f')"
  shows "r \<noteq> Ok ()"
proof
  assume "r = Ok ()"
  with assms obtain f1 key where "write_new_file (tl_io L) p (tl_private_pem L key) f = (Ok (), f1)"
    and "write_new_file (tl_io L) p (tl_public_pem L key) f1 = (Ok (), f')"
    by (auto simp: trustee_keygen_def write_new_auth_key_pair_def write_pem_def write_private_def then_st_Ok_iff)
  then show False
    by (auto simp: write_new_file_def then_st_Ok_iff err_st_Ok_iff exists_path_def dest!: write_file_written
        split: if_splits)
qed

end
