(* ===== verification/Cli_Programs.thy ===== *)
theory Cli_Programs
  imports Kbs_Client_Sdk Rvps_Remote Intel_Dcap
begin

text \<open>
  The command-line programs, after their arguments are parsed: the key broker's client
  (\<^verbatim>\<open>tools/kbs-client/src/main.rs\<close>), the client of the reference value provider (\<^verbatim>\<open>rvps/src/bin/rvps-tool.rs\<close>) and its
  server's choice of a configuration (\<^verbatim>\<open>rvps/src/bin/rvps.rs\<close>, \<^verbatim>\<open>rvps/src/config.rs\<close>), and the listener and the
  origins of the REST front end (\<^verbatim>\<open>attestation-service/src/bin/restful-as.rs\<close>).

  Shown: what a command of the client does on the key broker it is pointed at, with which policy; that a reference value
  is a string unless asked otherwise; which origins are allowed; when the REST front end has TLS.
\<close>

section \<open>The client of the key broker\<close>

datatype ConfigCommands =
    SetAttestationPolicy "string option" "string option" string
  | SetResourcePolicy "string option" bool bool bool bool
  | SetResource string string
  | GetReferenceValues
  | SetSampleReferenceValue string string bool bool bool

datatype Commands =
    Config ConfigCommands string
  | GetResource string "string option" "string option" "string option"
  | Attest "string option" "string option"

record KbsClientCli =
  cli_command :: Commands
  cli_url :: string
  cli_cert_file :: "string option"

text \<open>The policies that are compiled into the client; \<open>debug_str\<close> is \<^verbatim>\<open>{:?}\<close> of a string.\<close>

record client_files =
  cf_io :: io_env
  cf_fs :: fs
  cf_allow_all :: bytes
  cf_deny_all :: bytes
  cf_affirming :: bytes
  cf_default_policy :: bytes
  debug_str :: "string \<Rightarrow> string"

definition read_text :: "client_files \<Rightarrow> string \<Rightarrow> (string, string) outcome" where
  "read_text F p = map_err (\<lambda>_. ''io'') (read_to_string (cf_io F) (cf_fs F) (path_of p))"

fun read_optional :: "client_files \<Rightarrow> string option \<Rightarrow> (string, string option) outcome" where
  "read_optional F None = Ok None"
| "read_optional F (Some p) = map_ok Some (read_text F p)"

definition read_bytes :: "client_files \<Rightarrow> string \<Rightarrow> (string, bytes) outcome" where
  "read_bytes F p = map_err (\<lambda>_. ''io'') (read_file (cf_io F) (cf_fs F) (path_of p))"

text \<open>\<^verbatim>\<open>str::parse\<close> at \<^verbatim>\<open>i32\<close>: a sign, digits, and the range of the type; at \<^verbatim>\<open>bool\<close>: the two words.\<close>

definition digit_value :: "char \<Rightarrow> int" where
  "digit_value c = int (of_char c) - 48"

definition all_digits :: "string \<Rightarrow> bool" where
  "all_digits s \<longleftrightarrow> s \<noteq> [] \<and> list_all (\<lambda>c. 48 \<le> (of_char c :: nat) \<and> (of_char c :: nat) \<le> 57) s"

definition decimal :: "string \<Rightarrow> int" where
  "decimal s = foldl (\<lambda>n c. 10 * n + digit_value c) 0 s"

definition parse_i32 :: "string \<Rightarrow> (string, int) outcome" where
  "parse_i32 s =
     (let neg = take 1 s = ''-''; ds = (if neg \<or> take 1 s = ''+'' then drop 1 s else s);
          n = (if neg then - decimal ds else decimal ds)
      in if \<not> all_digits ds then Err ''invalid digit found in string''
         else if n < - (2 ^ 31) \<or> 2 ^ 31 \<le> n then Err ''number too large or too small to fit in target type''
         else Ok n)"

definition parse_bool :: "string \<Rightarrow> (string, bool) outcome" where
  "parse_bool s =
     (if s = ''true'' then Ok True else if s = ''false'' then Ok False
      else Err ''provided string was not `true` or `false`'')"

definition sample_value :: "string \<Rightarrow> bool \<Rightarrow> bool \<Rightarrow> bool \<Rightarrow> (string, json) outcome" where
  "sample_value v as_integer as_bool as_single_value =
     map_ok (\<lambda>parsed_value. if as_single_value then parsed_value else JArray [parsed_value])
       (if as_integer then map_ok JNumber (parse_i32 v)
        else if as_bool then map_ok JBool (parse_bool v)
        else Ok (JString v))"

definition resource_policy_bytes ::
    "client_files \<Rightarrow> string option \<Rightarrow> bool \<Rightarrow> bool \<Rightarrow> bool \<Rightarrow> bool \<Rightarrow> (string, bytes) outcome" where
  "resource_policy_bytes F policy_file allow_all deny_all affirming dflt =
     (case policy_file of
        Some p \<Rightarrow> read_bytes F p
      | None \<Rightarrow>
          if allow_all then Ok (cf_allow_all F)
          else if deny_all then Ok (cf_deny_all F)
          else if affirming then Ok (cf_affirming F)
          else if dflt then Ok (cf_default_policy F)
          else Err ''No policy specified'')"

text \<open>Each command answers what it prints.\<close>

fun config_command ::
    "('k, 'w) sdk_lib \<Rightarrow> client_files \<Rightarrow> string \<Rightarrow> string \<Rightarrow> string list \<Rightarrow> ConfigCommands \<Rightarrow> 'w \<Rightarrow>
     (string, string) outcome \<times> 'w" where
  "config_command L F url auth_key certs (SetAttestationPolicy typ i policy_file) w =
     then_st (read_bytes F policy_file, w) (\<lambda>b w.
     then_st (sdk_set_attestation_policy L url auth_key b typ i certs w) (\<lambda>_ w.
       (Ok (''Set attestation policy success \<newline> policy: '' @ sdk_std_encode L b), w)))"
| "config_command L F url auth_key certs (SetResourcePolicy policy_file allow_all deny_all affirming dflt) w =
     then_st (resource_policy_bytes F policy_file allow_all deny_all affirming dflt, w) (\<lambda>b w.
     then_st (sdk_set_resource_policy L url auth_key b certs w) (\<lambda>_ w.
       (Ok (''Set resource policy success \<newline> policy: '' @ sdk_std_encode L b), w)))"
| "config_command L F url auth_key certs (SetResource path resource_file) w =
     then_st (read_bytes F resource_file, w) (\<lambda>b w.
     then_st (sdk_set_resource L url auth_key b path certs w) (\<lambda>_ w.
       (Ok (''Set resource success \<newline> resource: '' @ sdk_std_encode L b), w)))"
| "config_command L F url auth_key certs (SetSampleReferenceValue name v as_integer as_bool as_single_value) w =
     then_st (sample_value v as_integer as_bool as_single_value, w) (\<lambda>rv w.
     then_st (set_sample_rv L url name rv auth_key certs w) (\<lambda>_ w. (Ok ''Reference Values Updated'', w)))"
| "config_command L F url auth_key certs GetReferenceValues w =
     then_st (get_rvs L url auth_key certs w) (\<lambda>values w. (Ok (debug_str F values), w))"

definition get_resource_command ::
    "('c, 'u) kbs_protocol \<Rightarrow> (bytes \<Rightarrow> string) \<Rightarrow> client_files \<Rightarrow> string \<Rightarrow> string list \<Rightarrow> string \<Rightarrow>
     string option \<Rightarrow> string option \<Rightarrow> string option \<Rightarrow> (string, string) outcome" where
  "get_resource_command P encode F url certs path tee_key_file attestation_token initd =
     and_then (read_optional F tee_key_file) (\<lambda>tee_key.
     and_then (map_ok (map_option str_trim) (read_optional F attestation_token)) (\<lambda>token.
     (case token of
        Some token \<Rightarrow>
          (case tee_key of
             None \<Rightarrow> Err ''if `--attestation-token` is set, `--tee_key_file` argument should also be set''
           | Some tee_key \<Rightarrow> map_ok encode (get_resource_with_token P url path tee_key token certs))
      | None \<Rightarrow> map_ok encode (get_resource_with_attestation P url path tee_key certs initd))))"

definition kbs_client_main ::
    "('c, 'u) kbs_protocol \<Rightarrow> ('k, 'w) sdk_lib \<Rightarrow> client_files \<Rightarrow> KbsClientCli \<Rightarrow> 'w \<Rightarrow> (string, string) outcome \<times> 'w" where
  "kbs_client_main P L F cli w =
     then_st (map_ok (\<lambda>c. case c of Some c \<Rightarrow> [c] | None \<Rightarrow> []) (read_optional F (cli_cert_file cli)), w) (\<lambda>kbs_cert w.
     (case cli_command cli of
        Attest tee_key_file initd \<Rightarrow>
          (and_then (read_optional F tee_key_file) (\<lambda>tee_key.
             sdk_attestation P (cli_url cli) tee_key kbs_cert initd), w)
      | GetResource path tee_key_file attestation_token initd \<Rightarrow>
          (get_resource_command P (sdk_std_encode L) F (cli_url cli) kbs_cert path tee_key_file attestation_token initd, w)
      | Config command auth_private_key \<Rightarrow>
          then_st (read_text F auth_private_key, w) (\<lambda>auth_key w.
            config_command L F (cli_url cli) auth_key kbs_cert command w)))"

section \<open>The reference value provider\<close>

definition tool_register ::
    "'d rvps_channel \<Rightarrow> client_files \<Rightarrow> string \<Rightarrow> string \<Rightarrow> 'd \<Rightarrow> (string, unit) outcome \<times> 'd" where
  "tool_register Ch F addr provenance_path d =
     then_st (map_err (\<lambda>_. ''read provenance'') (read_text F provenance_path), d) (\<lambda>message d.
       client_register Ch addr d message)"

definition tool_query :: "'d rvps_channel \<Rightarrow> string \<Rightarrow> string \<Rightarrow> 'd \<Rightarrow> (string, string) outcome" where
  "tool_query Ch addr rid d =
     map_ok (\<lambda>rvs. case rvs of
               Some rvs \<Rightarrow> ''Get reference values succeeded:\<newline> '' @ rvs
             | None \<Rightarrow> ''No reference values found for the given id'') (client_query Ch addr d rid)"

datatype RvpsToolCli = Register string string | Query string string

definition rvps_tool_main ::
    "'d rvps_channel \<Rightarrow> client_files \<Rightarrow> RvpsToolCli \<Rightarrow> 'd \<Rightarrow> (string, string) outcome \<times> 'd" where
  "rvps_tool_main Ch F cli d =
     (case cli of
        Register addr path \<Rightarrow>
          then_st (tool_register Ch F addr path d) (\<lambda>_ d. (Ok ''Register provenance succeeded.'', d))
      | Query addr rid \<Rightarrow> (tool_query Ch addr rid d, d))"

text \<open>\<^verbatim>\<open>Config::from_file\<close>; the server falls back to the default whatever the error is.\<close>

definition rvps_config_from_file ::
    "(string \<Rightarrow> (string, 't) outcome) \<Rightarrow> ('t \<Rightarrow> (string, 'c) outcome) \<Rightarrow> string \<Rightarrow> (string, 'c) outcome" where
  "rvps_config_from_file build try_deserialize config_path =
     and_then (build config_path) (\<lambda>c. map_err (\<lambda>_. ''invalid config'') (try_deserialize c))"

definition rvps_server_config ::
    "(string \<Rightarrow> (string, 't) outcome) \<Rightarrow> ('t \<Rightarrow> (string, 'c) outcome) \<Rightarrow> 'c \<Rightarrow> string \<Rightarrow> (string, 'c) outcome" where
  "rvps_server_config build try_deserialize dflt config_path =
     (case rvps_config_from_file build try_deserialize config_path of Ok c \<Rightarrow> Ok c | Err _ \<Rightarrow> Ok dflt | Panic \<Rightarrow> Panic)"

section \<open>The REST front end\<close>

definition cors_origins :: "string list \<Rightarrow> string list" where
  "cors_origins allowed_origin =
     (let origins = filter (\<lambda>s. s \<noteq> []) (map str_trim (concat (map (split_on CHR '','') allowed_origin)))
      in filter (\<lambda>ori. take 7 ori = ''http://'' \<or> take 8 ori = ''https://'') origins)"

record rest_ssl =
  ssl_acceptor :: "(string, unit) outcome"
  ssl_key_from_pem :: "bytes \<Rightarrow> (string, unit) outcome"
  ssl_set_key :: "(string, unit) outcome"
  ssl_set_chain :: "string \<Rightarrow> (string, unit) outcome"
  rest_bind :: "bool \<Rightarrow> string \<Rightarrow> (string, unit) outcome"

text \<open>Which listener is started: \<open>True\<close> is HTTPS.\<close>

definition rest_listener ::
    "rest_ssl \<Rightarrow> client_files \<Rightarrow> string option \<Rightarrow> string option \<Rightarrow> string \<Rightarrow> (string, bool) outcome" where
  "rest_listener S F https_prikey https_pubkey_cert socket =
     (case (https_prikey, https_pubkey_cert) of
        (Some prikey, Some pubkey_cert) \<Rightarrow>
          and_then (ssl_acceptor S) (\<lambda>_.
          and_then (map_err (\<lambda>e. ''failed to read HTTPS private key: '' @ e) (read_bytes F prikey)) (\<lambda>b.
          and_then (map_err (\<lambda>e. ''failed to get HTTPS private key from pem: '' @ e) (ssl_key_from_pem S b)) (\<lambda>_.
          and_then (map_err (\<lambda>e. ''set private key failed: '' @ e) (ssl_set_key S)) (\<lambda>_.
          and_then (map_err (\<lambda>e. ''set HTTPS public key cert: '' @ e) (ssl_set_chain S pubkey_cert)) (\<lambda>_.
          and_then (rest_bind S True socket) (\<lambda>_. Ok True))))))
      | _ \<Rightarrow> and_then (rest_bind S False socket) (\<lambda>_. Ok False))"

section \<open>What the programs do\<close>

text \<open>
  Against a key broker, setting a resource policy succeeds exactly when the handler takes, as a request of the
  administrator, the text of the policy that the options choose.
\<close>

lemma set_resource_policy_command:
  assumes "http_send L = kbs_send W print core serialize detail url uuid now"
  shows "config_command L F url auth_key certs (SetResourcePolicy pf aa da af df) s = (Ok out, s') \<longleftrightarrow>
    (\<exists>b token resp. resource_policy_bytes F pf aa da af df = Ok b \<and> admin_token L auth_key certs = Ok token \<and>
      api W print core uuid now \<lparr>cookies = [], bearer = Some token, req_method = ''POST''\<rparr>
        (bytes_of (sdk_json L (JObject [(''policy'', JString (sdk_url_encode L b))]))) ''resource-policy'' [] s =
        (Ok resp, s') \<and> resp_status resp = 200 \<and>
      out = ''Set resource policy success \<newline> policy: '' @ sdk_std_encode L b)"
  by (auto simp: then_st_Ok_iff sdk_set_resource_policy_def with_admin_Ok send_status_kbs [OF assms])

text \<open>At most one of the options is given; without a file and an option nothing is sent.\<close>

lemma no_policy_specified:
  "config_command L F url auth_key certs (SetResourcePolicy None False False False False) w =
     (Err ''No policy specified'', w)"
  by (simp add: resource_policy_bytes_def then_st_def)

text \<open>A reference value is a string in a list unless the options say otherwise, even if it looks like a number.\<close>

lemma sample_value_default: "sample_value v False False False = Ok (JArray [JString v])"
  by (simp add: sample_value_def)

lemma parse_i32_range: "parse_i32 s = Ok n \<Longrightarrow> - (2 ^ 31) \<le> n \<and> n < 2 ^ 31"
  by (auto simp: parse_i32_def Let_def split: if_splits)

text \<open>A stored token is only used with a key; an attestation ignores neither its key nor the initialisation data.\<close>

lemma get_resource_token_iff:
  assumes "attestation_token = Some t"
  shows "get_resource_command P encode F url certs path kf attestation_token initd = Ok out \<longleftrightarrow>
    (\<exists>p key token b. kf = Some p \<and> read_text F p = Ok key \<and> read_text F t = Ok token \<and>
      get_resource_with_token P url path key (str_trim token) certs = Ok b \<and> out = encode b)"
  using assms by (cases kf; cases "read_text F t") (auto simp: get_resource_command_def outcome_iff)

text \<open>Registering a file is registering its text with the server.\<close>

lemma client_register_server:
  "client_register (rvps_server_channel D to_str self) addr s m = (Ok (), s') \<longleftrightarrow>
     register_handler D self s m = (Ok (), s')"
proof (cases "register_handler D self s m")
  case (Pair r t)
  then show ?thesis by (cases r) (simp_all add: client_register_def rvps_server_channel_def)
qed

lemma tool_register_agrees:
  "tool_register (rvps_server_channel D to_str self) F addr p s = (Ok (), s') \<longleftrightarrow>
     (\<exists>m. read_text F p = Ok m \<and> register_handler D self s m = (Ok (), s'))"
  by (auto simp: tool_register_def then_st_Ok_iff client_register_server map_err_iff)

lemma cors_origins_exact:
  "x \<in> set (cors_origins os) \<longleftrightarrow>
     (\<exists>s\<in>set os. \<exists>p\<in>set (split_on CHR '','' s). x = str_trim p) \<and> (take 7 x = ''http://'' \<or> take 8 x = ''https://'')"
  by (auto simp: cors_origins_def Let_def)

lemma rest_listener_tls:
  "rest_listener S F k c socket = Ok t \<Longrightarrow> t \<longleftrightarrow> k \<noteq> None \<and> c \<noteq> None"
  by (auto simp: rest_listener_def outcome_iff split: option.splits)

end
