(* ===== verification/Spec2Isabelle.thy ===== *)
theory Spec2Isabelle
  imports Eventlog_Properties Kv_Properties Policy_Engine Rvps_Properties Kbs_Properties
    Kbs_Api_Properties Verifier_Properties As_Properties As_Token_Properties As_Wasm_Properties
    Kbs_Jwe_Properties Kbs_Liveness Kbs_Plugins Verifier_Build Kbs_Clients_Properties Kbs_Ita
    Rvps_Remote Kbs_Client_Sdk Rvps_Intoto Trustee_Cli
    Cli_Programs
begin

text \<open>
  A verification of the core of TrustMee, a fork of the Trustee attestation and key broker stack
  (Rust sources under \<^verbatim>\<open>src/\<close>).

  \<^bold>\<open>The program.\<close> A confidential virtual machine proves to a relying party what software it booted and
  gets secrets in return. The Key Broker Service (\<^verbatim>\<open>kbs/src\<close>) runs the RCAR handshake with the guest:
  \<^verbatim>\<open>auth\<close> opens a session with a nonce, \<^verbatim>\<open>attest\<close> hands the evidence to an attestation service and keeps
  the token it issues, and later requests present that token to get resources, if a Rego policy allows
  it; administrators set policies and resources. The attestation service (\<^verbatim>\<open>attestation-service/src\<close>)
  has the evidence checked by a verifier (\<^verbatim>\<open>deps/verifier\<close>, with \<^verbatim>\<open>deps/eventlog\<close>), or by a WebAssembly
  component its host runs (\<^verbatim>\<open>wasm-components\<close>), appraises the claims under a policy and signs a token. The
  policy engine library (\<^verbatim>\<open>deps/policy-engine\<close>) works over a key-value storage
  (\<^verbatim>\<open>deps/key-value-storage\<close>), and the Reference Value Provider Service (\<^verbatim>\<open>rvps/src\<close>) keeps the
  measurements to expect.

  \<^bold>\<open>Conventions\<close> (\<open>Prelude\<close>, \<open>Rust_Std\<close>, \<open>Filesystem\<close>, \<open>Crates\<close>). A fallible Rust function is a HOL function
  into \<open>outcome\<close>: \<open>Ok\<close>, \<open>Err\<close> or \<open>Panic\<close>. Every slice index, failed \<^verbatim>\<open>unwrap\<close>, \<^verbatim>\<open>todo!\<close> and overflowing
  operation is a \<open>Panic\<close> of the model; \<^verbatim>\<open>usize\<close> arithmetic takes the overflow-check setting of the build
  as an argument. A \<^verbatim>\<open>String\<close> is the list of its UTF-8 bytes. State is passed explicitly. A
  \<^verbatim>\<open>dyn Trait\<close> is a record of functions. Third-party packages are arguments: records of functions, with
  their documented behaviour as named predicates (\<open>scroll_le\<close>, \<open>codec_laws\<close>, \<open>sql_laws\<close>, \<open>chrono_laws\<close>,
  \<open>policy_file_laws\<close>, \<open>vault_laws\<close> and others), each shown satisfiable by a reference instance. The file
  system is a map from paths to nodes, with the faults of the environment as an argument.

  \<^bold>\<open>Components.\<close>
  \<^item> \<^emph>\<open>Event log\<close> (\<open>Tcg_Enum\<close>, \<open>Device_Paths\<close>, \<open>Event_Data\<close>, \<open>Eventlog\<close>, \<open>Eventlog_Properties\<close>;
    \<^verbatim>\<open>deps/eventlog/src\<close>): the TCG2 log parser \<open>CcEventLog_try_from\<close> with every event data parser and
    device path printer, and \<open>replay_and_match\<close>. Shown: the replay accepts exactly the logs whose extend
    chains give the register values and binds the log up to hash collisions; parsing inverts encoding
    and every parsed entry is faithful to its bytes; and exactly when the parsers panic.
  \<^item> \<^emph>\<open>Key-value storage\<close> (\<open>Kv_Storage\<close>, \<open>Kv_Backends\<close>, \<open>Kv_Properties\<close>; \<^verbatim>\<open>deps/key-value-storage/src\<close>):
    the contract of a storage as the locales \<open>kv_store\<close>, \<open>kv_overwrite\<close> and \<open>kv_contract\<close>, interpreted by the
    memory, file, JSON and PostgreSQL backends as far as each meets it. Shown: the memory backend refines a map; what
    each other backend does on every operation, under disk faults, and where it departs from the
    contract.
  \<^item> \<^emph>\<open>Policy engine\<close> (\<open>Policy_Engine\<close>; \<^verbatim>\<open>deps/policy-engine/src\<close>): client lemmas proved in the storage
    locale.
  \<^item> \<^emph>\<open>Reference values\<close> (\<open>Rvps\<close>, \<open>Rvps_Properties\<close>; \<^verbatim>\<open>rvps/src\<close>): extractors, storage backends (locale
    \<open>rv_store\<close>), registration and query. Shown: what a SWID manifest yields, that accepted messages are
    what queries return, that rejected ones change nothing, and that expiration is not enforced.
  \<^item> \<^emph>\<open>Key broker handshake\<close> (\<open>Kbs_Session\<close>, \<open>Kbs_Backend\<close>, \<open>Kbs_Handshake\<close>, \<open>Kbs_Properties\<close>,
    \<open>Kbs_Liveness\<close>; \<^verbatim>\<open>kbs/src/attestation\<close>): sessions and the handlers, and the step relation \<open>kbs_step\<close> in which
    attestation requests interleave between their two session lookups, with the clean-up task and the
    clock. Shown by rule induction: a session yields a token only for accepted evidence bound to its
    own nonce; attested sessions are stable; failures change nothing; a concurrent request can panic. Shown
    over infinite runs with fair scheduling: the request of an honest client is answered with a token.
  \<^item> \<^emph>\<open>Key broker access control and resources\<close> (\<open>Kbs_Access\<close>, \<open>Kbs_Resource\<close>, \<open>Kbs_Api\<close>,
    \<open>Kbs_Api_Properties\<close>; \<^verbatim>\<open>kbs/src/admin\<close>, \<^verbatim>\<open>policy_engine\<close>, \<^verbatim>\<open>token\<close>, \<^verbatim>\<open>plugins\<close>, \<^verbatim>\<open>api_server.rs\<close>,
    \<^verbatim>\<open>error.rs\<close>): administrators, the resource policy, token verification, the repositories (locale
    \<open>secret_store\<close>), and the request handler \<open>api\<close> that composes them. Shown: who can read and change
    what, that resources leave only encrypted to the key of a verified token, and that no path leaves the
    local repository.
  \<^item> \<^emph>\<open>Response encryption\<close> (\<open>Kbs_Jwe\<close>, \<open>Kbs_Jwe_Properties\<close>; \<^verbatim>\<open>kbs/src/jwe.rs\<close>): the RSA and elliptic curve
    key encryptions. Shown: the holder of the private key recovers the payload, and, composed with the request
    handler, a resource that an administrator posts is what the guest decrypts.
  \<^item> \<^emph>\<open>Optional plugins\<close> (\<open>Kbs_Plugins\<close>; \<^verbatim>\<open>nebula_ca.rs\<close>, \<^verbatim>\<open>pkcs11.rs\<close>): the Nebula certificate authority over its
    external program and the PKCS#11 module as repository and key wrapper. Shown: requests to the certificate
    authority leave no file behind; what reads return after writes to the module; wrapping and unwrapping.
  \<^item> \<^emph>\<open>Verifiers\<close> (\<open>Verifier\<close>, \<open>Tdx_Quote\<close>, \<open>Intel_Dcap\<close>, \<open>Tdx\<close>, \<open>Snp\<close>, \<open>Verifier_Properties\<close>;
    \<^verbatim>\<open>deps/verifier/src\<close>: \<^verbatim>\<open>lib.rs\<close>, \<^verbatim>\<open>sample\<close>, \<^verbatim>\<open>sample_device\<close>, \<^verbatim>\<open>tdx\<close>, \<^verbatim>\<open>intel_dcap\<close>, \<^verbatim>\<open>snp\<close>): the contract of
    a verifier is the locale \<open>data_verifier\<close> (accepted evidence carries the expected report data), extended by
    \<open>report_verifier\<close> (one claim set) and \<open>bound_verifier\<close> (and the initialisation data), interpreted by every
    verifier but that of Secure Execution. Shown:
    what an accepted TDX quote or SNP report guarantees; the quote parser inverts the layout of the structures and
    panics on exactly the stated inputs; the claims of a parsed quote; the retries for collateral end.
  \<^item> \<^emph>\<open>Verifiers of the other platforms\<close> (\<open>Nvidia_Spdm\<close>, \<open>Nvidia\<close>, \<open>Vtpm\<close>, \<open>Sgx\<close>, \<open>Csv\<close>, \<open>Cca\<close>, \<open>Se\<close>,
    \<open>Verifier_Build\<close>; the files of these names under \<^verbatim>\<open>deps/verifier/src\<close>, \<open>Vtpm\<close> being \<^verbatim>\<open>az_snp_vtpm\<close>,
    \<^verbatim>\<open>az_tdx_vtpm\<close> and \<^verbatim>\<open>tpm\<close>, and \<open>Csv\<close> also \<^verbatim>\<open>hygon_dcu\<close>): the report formats of Nvidia and SGX with their
    layouts, and for each platform what exactly is accepted. \<open>all_verifiers\<close> is the selection of a build with all
    features; accepted evidence carries the expected report data whatever its TEE, Secure Execution apart.
  \<^item> \<^emph>\<open>WebAssembly components\<close> (\<open>Wasm_Components\<close>, \<open>Wasm_Tdx\<close>; \<^verbatim>\<open>wasm-components\<close>): the SNP and TDX
    components with their caches and collateral downloads. Shown: each gives the verdicts and claims of the
    native verifier, under the stated conditions.
  \<^item> \<^emph>\<open>Attestation service\<close> (\<open>As_Policy\<close>, \<open>As_Token\<close>, \<open>As_Wasm\<close>, \<open>As_Service\<close>, \<open>As_Properties\<close>,
    \<open>As_Token_Properties\<close>, \<open>As_Wasm_Properties\<close>; \<^verbatim>\<open>attestation-service/src\<close>, \<^verbatim>\<open>kbs/src/attestation/coco\<close>):
    policies, appraisal and token, the component host with its registry (also as the step relation
    \<open>reg_step\<close> of concurrent registrations), evaluation, and the service as the key broker's \<^verbatim>\<open>Attest\<close>. The
    locale \<open>attested_build\<close> states that every verifier of a build satisfies \<open>report_verifier\<close> and is
    interpreted by the build of the TDX, SNP and sample verifiers. Shown: a token in a session of the key
    broker was issued for evidence of its TEE whose report data is the digest of data with the session's nonce;
    a token covers all evidence; policy updates; the limits of trust claims and device numbers; the registry is
    consistent in every interleaving, although the index on disk can fall behind it.
  \<^item> \<^emph>\<open>Front ends and remote clients\<close> (\<open>As_Frontends\<close>, \<open>Kbs_Clients\<close>, \<open>Kbs_Clients_Properties\<close>, \<open>Rvps_Remote\<close>;
    \<^verbatim>\<open>attestation-service/src/bin\<close>, \<^verbatim>\<open>kbs/src/attestation/coco/grpc.rs\<close>, \<^verbatim>\<open>attestation-service/src/rvps/grpc.rs\<close>,
    \<^verbatim>\<open>rvps/src/client\<close>): the gRPC and REST front ends over the attestation service, the key broker's client of the
    first, and the clients of the reference value provider, each instantiated with the model of its server. Shown:
    both front ends ask the service the same; the key broker with a remote service refines the one with the
    service built in; the remote reference value provider answers as the local one.
  \<^item> \<^emph>\<open>Intel Trust Authority\<close> (\<open>Kbs_Ita\<close>; \<^verbatim>\<open>kbs/src/attestation/intel_trust_authority\<close>): the request made of the
    evidence, the check of the token and the negotiation of a hash algorithm.
  \<^item> \<^emph>\<open>Client library and command-line programs\<close> (\<open>Kbs_Client_Sdk\<close>, \<open>Cli_Programs\<close>; \<^verbatim>\<open>tools/kbs-client/src\<close>,
    \<^verbatim>\<open>rvps/src/bin\<close>, \<^verbatim>\<open>attestation-service/src/bin/restful-as.rs\<close>): the calls of administrators and guests, and the
    programs after their arguments are parsed. Shown, with the request handler \<open>api\<close> as the server: when a call or
    a command succeeds and what it then did; the origins and the TLS of the REST front end.
  \<^item> \<^emph>\<open>In-toto extractor\<close> (\<open>Rvps_Intoto\<close>; \<^verbatim>\<open>rvps/src/extractors/in_toto\<close>): the unpacking of a provenance and the call
    of the Go library, over the file system and the working directory. Shown: it never yields a reference value, it
    leaves no trace when the names stay inside, and a name that does not is written outside.
  \<^item> \<^emph>\<open>Configuration and start\<close> (\<open>Kbs_Startup\<close>, \<open>Trustee_Cli\<close>; \<^verbatim>\<open>kbs/src/config.rs\<close>, \<^verbatim>\<open>kbs/src/api_server.rs\<close>,
    \<^verbatim>\<open>kbs/src/http.rs\<close>, \<^verbatim>\<open>attestation-service/src/config.rs\<close>, \<^verbatim>\<open>tools/trustee-cli/src\<close>): the configuration with its
    defaults, the construction of the server, its listener, and the command line that completes a configuration.
    Shown: TLS is off only when configured so; the default configuration gives a server nobody administers; the
    completed configuration has an administrator, a plugin, a certificate and a policy; where its paths go.

  \<^bold>\<open>Termination and bounds.\<close> All definitions are total. The parsing loops are recursive functions whose
  termination is by the number of bytes left; no fuel is used. Lengths and cursors are kept below
  \<open>usize_bound\<close> where the code would overflow.

  \<^bold>\<open>Not modelled\<close>: metrics, timing output, logging and the \<^verbatim>\<open>Display\<close> texts of quotes and error codes, which
  decide nothing; the gRPC server loops and the argument parsers of the command-line programs; the
  generated bindings and protocol code; tests and build scripts.
\<close>

end
